(* ===== verification/Prelude.thy ===== *)
theory Prelude
  imports Main "HOL-Library.Sublist" "HOL-Library.AList"
begin

text \<open>
  Shared vocabulary of the development: the collections of rewrite rules the component
  theories add to, the byte-string type that models Rust's \<^verbatim>\<open>String\<close>, \<^verbatim>\<open>&str\<close> and
  \<^verbatim>\<open>Vec<u8>\<close>, and generic lemmas on lists, options and sums used by more than one component.
\<close>

named_theorems text_simps \<open>rewriting of the byte-string operations\<close>
named_theorems act_simps \<open>symbolic execution of world-passing actions\<close>
named_theorems frame_simps \<open>what an operation leaves unchanged\<close>

type_synonym bytes = string

abbreviation nl :: bytes where
  "nl \<equiv> [CHR 0x0A]"

section \<open>Results\<close>

text \<open>\<^verbatim>\<open>Result<T, E>\<close>: the error on the left. \<open>bindR\<close> is the \<^verbatim>\<open>?\<close> operator of pure code.\<close>

definition bindR :: "'e + 'a \<Rightarrow> ('a \<Rightarrow> 'e + 'b) \<Rightarrow> 'e + 'b" where
  "bindR r k = (case r of Inl e \<Rightarrow> Inl e | Inr x \<Rightarrow> k x)"

lemma bindR_Inl [simp]: "bindR (Inl e) k = Inl e"
  by (simp add: bindR_def)

lemma bindR_Inr [simp]: "bindR (Inr x) k = k x"
  by (simp add: bindR_def)

lemma bindR_eq_Inr: "bindR r k = Inr y \<longleftrightarrow> (\<exists>x. r = Inr x \<and> k x = Inr y)"
  by (cases r) auto

lemma bindR_eq_Inl: "bindR r k = Inl e \<longleftrightarrow> r = Inl e \<or> (\<exists>x. r = Inr x \<and> k x = Inl e)"
  by (cases r) auto

section \<open>Lists and options\<close>

lemma prefix_length_eq: "prefix p xs \<Longrightarrow> take (length p) xs = p"
  by (auto simp: prefix_def)

lemma prefix_iff_take: "prefix p xs \<longleftrightarrow> take (length p) xs = p"
  by (metis prefix_length_eq take_is_prefix)

lemma prefix_drop_split: "prefix p (drop i xs) \<longleftrightarrow> take (length p) (drop i xs) = p"
  by (rule prefix_iff_take)

lemma take_drop_split:
  "xs = take i xs @ take k (drop i xs) @ drop (i + k) xs"
  by (metis add.commute append_take_drop_id drop_drop)

lemma map_option_eq_Some_iff: "map_option f x = Some y \<longleftrightarrow> (\<exists>z. x = Some z \<and> f z = y)"
  by (cases x) auto

lemma singleton_filter_iff:
  assumes "length (filter P xs) = 1"
  obtains x where "filter P xs = [x]" and "x \<in> set xs" and "P x"
proof -
  from assms obtain x where x: "filter P xs = [x]"
    by (cases "filter P xs") auto
  then have "x \<in> set (filter P xs)" by simp
  then have "x \<in> set xs" and "P x" by auto
  with x show thesis by (rule that)
qed

end
