(* ===== verification/Errors.thy ===== *)
theory Errors
  imports Prelude
begin

text \<open>
  The failure categories of the manager (\<^verbatim>\<open>src/src/error.rs\<close>). Every constructor of
  \<^verbatim>\<open>ManagerError\<close> is here with its payload. Short static payloads (\<^verbatim>\<open>UnsafePath\<close>'s target and
  reason, the operation of an I/O failure) are kept as text, because code compares them; the
  long human-readable refusals that \<^verbatim>\<open>HostConflict\<close>, \<^verbatim>\<open>InvalidHostConfig\<close> and \<^verbatim>\<open>Usage\<close> carry
  are named by a datatype, one constructor per message of the source.
\<close>

section \<open>I/O error kinds\<close>

text \<open>The \<^verbatim>\<open>std::io::ErrorKind\<close> values the code inspects, and the rest.\<close>

datatype io_kind =
    NotFound
  | AlreadyExists
  | PermissionDenied
  | IsADirectory
  | NotADirectory
  | DirectoryNotEmpty
  | OtherKind nat

section \<open>Refusals\<close>

datatype conflict =
    TargetLockHeld
  | CursorUnmarkedFile
  | WholeFileDiffers
  | BlockDiffersNoReceipt
  | OwnedBlockHandEdited
  | MarkerWithoutReceipt
  | UnmanagedCodexTable
  | CodexBlockDiffersNoReceipt
  | CodexEntryWithoutReceipt
  | UnmanagedJsonEntry
  | AdoptAbsentEntry
  | JsonEntryWithoutReceipt
  | BothOpenCodeShapes
  | OpenCodeVersionDiffers
  | OpenCodeShapesConflict
  | MatchingEntryWithoutReceipt
  | HookIdenticalEntries nat
  | HookEntryResembles
  | HookOwnedEntriesRepeated nat
  | HookEntryHandEdited

datatype host_invalid =
    InstructionNotUtf8
  | MarkerDuplicatedOrIncomplete
  | OwnedBlockAmbiguous
  | ReceiptButNoMarker
  | HostConfigNotUtf8
  | NotStrictJson
  | TopLevelNotObject
  | CannotEncodeJson
  | CannotEncodeCommand
  | EmptyStructuredPath
  | KeyNotAnObject bytes
  | ParentNotAnObject
  | OpenCodeMcpNotObject
  | OpenCodeServersNotObject
  | CodexNotToml
  | CodexMarkerDuplicatedOrIncomplete
  | CodexBlockAmbiguous
  | SettingsNotJson
  | SettingsNotObject
  | HooksNotObject
  | HookEventNotArray

datatype usage_msg =
    UsageText
  | BadInstructionTarget
  | SkillRequiresHost
  | CursorHasNoSkill
  | BadHost
  | BadScope
  | BadOpenCodeVersion
  | OpenCodeVersionOnlyForOpenCode
  | BadDurability
  | AdoptNeedsOneVault nat
  | OptionNeedsValue bytes
  | UnexpectedArguments "bytes list"
  | ArgumentMissing bytes
  | ArgumentNotAlone bytes "bytes list"
  | LogoutFlagsExclude
  | AccountActions
  | DeviceActions
  | BadIdentityUuid
  | BadDeviceUuid
  | BadAccountUuid
  | InstructionArguments
  | InstructionActions
  | HookActions
  | AdoptExcludesCreate
  | TeardownNeedsHost
  | ProfileActions
  | ProfileAccountActions
  | ConnectionNeedsHost
  | ProfileOnlyForConnect
  | OpenCodeVersionOnlyForConnect
  | ProjectUnresolved bytes

datatype manager_error =
    Usage usage_msg
  | EngineNotFound
  | UnsafePath string string
  | Io string io_kind
  | EngineRefused string
  | InvalidEngineContract string string
  | InvalidManagerConfig string
  | InvalidHostConfig host_invalid
  | HostConflict conflict
  | ConcurrentEdit
  | InvalidOwnerReceipt
  | Cancelled
  | InvalidProfileName
  | NoActiveProfile
  | InitManagerStateRecovery string manager_error
  | ProfileRootMismatch string
  | AmbiguousVault
  | WouldForkVault nat
  | DoctorIssues nat
  | HostConfigTooLarge nat
  | Account nat
  | Panicked string

section \<open>Exit codes\<close>

text \<open>
  \<^verbatim>\<open>main\<close>: three exit codes, 3 only for a doctor report with issues. \<open>Panicked\<close> is not a
  constructor of \<^verbatim>\<open>ManagerError\<close>: it stands for a Rust panic (a string slice off a character
  boundary, an \<^verbatim>\<open>expect\<close>), which ends the process with the code 101 of the runtime.
\<close>

fun exit_code :: "manager_error + unit \<Rightarrow> nat" where
  "exit_code (Inr ()) = 0"
| "exit_code (Inl (DoctorIssues n)) = 3"
| "exit_code (Inl (Panicked s)) = 101"
| "exit_code (Inl e) = 2"

lemma exit_code_cases:
  "exit_code r = 0 \<longleftrightarrow> r = Inr ()" "exit_code r = 3 \<longleftrightarrow> (\<exists>n. r = Inl (DoctorIssues n))"
  by (cases r rule: exit_code.cases; simp)+

end
