(* ===== verification/Rust_Text.thy ===== *)
theory Rust_Text
  imports Prelude
begin

text \<open>
  The operations of Rust's string types that the manager uses, over byte strings: UTF-8
  validity (\<^verbatim>\<open>String::from_utf8\<close>), character boundaries (\<^verbatim>\<open>str::get\<close>), substring search
  (\<^verbatim>\<open>find\<close>, \<^verbatim>\<open>match_indices\<close>, \<^verbatim>\<open>matches().count()\<close>), \<^verbatim>\<open>replacen(_, _, 1)\<close>, \<^verbatim>\<open>trim\<close> and
  \<^verbatim>\<open>lines\<close>. The lemmas say how searching distributes over concatenation, which is what the
  marker-block components rest on.
\<close>

section \<open>UTF-8\<close>

abbreviation byte_of :: "char \<Rightarrow> nat" where
  "byte_of c \<equiv> of_char c"

definition is_cont :: "char \<Rightarrow> bool" where
  "is_cont c \<longleftrightarrow> 128 \<le> byte_of c \<and> byte_of c < 192"

text \<open>The second byte of a three- or four-byte sequence (no overlong forms, no surrogates).\<close>

definition second_ok :: "nat \<Rightarrow> char \<Rightarrow> bool" where
  "second_ok x c \<longleftrightarrow>
     (if x = 224 then 160 \<le> byte_of c \<and> byte_of c < 192
      else if x = 237 then 128 \<le> byte_of c \<and> byte_of c < 160
      else if x = 240 then 144 \<le> byte_of c \<and> byte_of c < 192
      else if x = 244 then 128 \<le> byte_of c \<and> byte_of c < 144
      else is_cont c)"

text \<open>The width of the first character, if one is encoded there.\<close>

fun utf8_next :: "bytes \<Rightarrow> nat option" where
  "utf8_next [] = None"
| "utf8_next (a # s) =
     (if byte_of a < (128::nat) then Some 1
      else if 194 \<le> byte_of a \<and> byte_of a \<le> (223::nat) then
        (case s of b # _ \<Rightarrow> if is_cont b then Some 2 else None | _ \<Rightarrow> None)
      else if 224 \<le> byte_of a \<and> byte_of a \<le> (239::nat) then
        (case s of b # c # _ \<Rightarrow> if second_ok (byte_of a) b \<and> is_cont c then Some 3 else None
         | _ \<Rightarrow> None)
      else if 240 \<le> byte_of a \<and> byte_of a \<le> (244::nat) then
        (case s of b # c # d # _ \<Rightarrow>
           if second_ok (byte_of a) b \<and> is_cont c \<and> is_cont d then Some 4 else None
         | _ \<Rightarrow> None)
      else None)"

lemma utf8_next_bounds: "utf8_next s = Some w \<Longrightarrow> 0 < w \<and> w \<le> length s"
  by (cases s) (auto split: if_splits list.splits)

lemma utf8_next_append: "utf8_next s = Some w \<Longrightarrow> utf8_next (s @ t) = Some w"
  by (cases s) (auto split: if_splits list.splits)

function utf8_valid :: "bytes \<Rightarrow> bool" where
  "utf8_valid s =
     (if s = [] then True
      else case utf8_next s of None \<Rightarrow> False | Some w \<Rightarrow> utf8_valid (drop w s))"
  by pat_completeness auto
termination
  by (relation "measure length") (auto dest: utf8_next_bounds)

declare utf8_valid.simps [simp del]

lemma utf8_valid_Nil [simp]: "utf8_valid []"
  by (subst utf8_valid.simps) simp

lemma utf8_valid_append: "utf8_valid s \<Longrightarrow> utf8_valid t \<Longrightarrow> utf8_valid (s @ t)"
proof (induction s rule: utf8_valid.induct)
  case (1 s)
  show ?case
  proof (cases "s = []")
    case False
    with "1.prems"(1) obtain w where w: "utf8_next s = Some w" and v: "utf8_valid (drop w s)"
      by (subst (asm) utf8_valid.simps) (auto split: option.splits)
    have "utf8_valid (drop w s @ t)" using "1.IH"[OF False w v] "1.prems"(2) .
    moreover have "drop w (s @ t) = drop w s @ t" using utf8_next_bounds[OF w] by simp
    ultimately show ?thesis
      using utf8_next_append[OF w, of t] by (subst utf8_valid.simps) simp
  qed (use "1.prems" in simp)
qed

lemma utf8_valid_ascii: "\<forall>c \<in> set s. byte_of c < (128::nat) \<Longrightarrow> utf8_valid s"
  by (induction s) (simp, subst utf8_valid.simps, simp)

text \<open>
  \<^verbatim>\<open>String::from_utf8_lossy\<close>: every maximal ill-formed stretch becomes one U+FFFD.
  \<open>bad_width\<close> is the length of the stretch at the front of a text that does not start with a
  character.
\<close>

fun bad_width :: "bytes \<Rightarrow> nat" where
  "bad_width [] = 1"
| "bad_width (a # s) =
     (if 224 \<le> byte_of a \<and> byte_of a \<le> (239::nat) then
        (case s of b # _ \<Rightarrow> if second_ok (byte_of a) b then 2 else 1 | [] \<Rightarrow> 1)
      else if 240 \<le> byte_of a \<and> byte_of a \<le> (244::nat) then
        (case s of
           b # c # _ \<Rightarrow> if second_ok (byte_of a) b then if is_cont c then 3 else 2 else 1
         | [b] \<Rightarrow> if second_ok (byte_of a) b then 2 else 1
         | [] \<Rightarrow> 1)
      else 1)"

lemma bad_width_pos: "0 < bad_width s"
  by (cases s) (auto split: list.splits)

function lossy :: "bytes \<Rightarrow> bytes" where
  "lossy s =
     (if s = [] then []
      else case utf8_next s of
        Some w \<Rightarrow> take w s @ lossy (drop w s)
      | None \<Rightarrow> [CHR 0xEF, CHR 0xBF, CHR 0xBD] @ lossy (drop (bad_width s) s))"
  by pat_completeness auto
termination
  by (relation "measure length") (auto dest: utf8_next_bounds simp: bad_width_pos)

declare lossy.simps [simp del]

lemma lossy_valid: "utf8_valid s \<Longrightarrow> lossy s = s"
proof (induction s rule: utf8_valid.induct)
  case (1 s)
  then show ?case
    by (cases "s = []")
      (auto simp: utf8_valid.simps[of s] lossy.simps[of s] lossy.simps[of "[]"] split: option.splits)
qed

text \<open>\<^verbatim>\<open>str::is_char_boundary\<close> and the checked slices \<^verbatim>\<open>text.get(..i)\<close>, \<^verbatim>\<open>text.get(i..)\<close>.\<close>

definition is_char_boundary :: "bytes \<Rightarrow> nat \<Rightarrow> bool" where
  "is_char_boundary s i \<longleftrightarrow>
     i = 0 \<or> i = length s \<or> (i < length s \<and> \<not> is_cont (s ! i))"

definition get_to :: "bytes \<Rightarrow> nat \<Rightarrow> bytes option" where
  "get_to s i = (if i \<le> length s \<and> is_char_boundary s i then Some (take i s) else None)"

definition get_from :: "bytes \<Rightarrow> nat \<Rightarrow> bytes option" where
  "get_from s i = (if i \<le> length s \<and> is_char_boundary s i then Some (drop i s) else None)"

definition get_range :: "bytes \<Rightarrow> nat \<Rightarrow> nat \<Rightarrow> bytes option" where
  "get_range s i j =
     (if i \<le> j \<and> j \<le> length s \<and> is_char_boundary s i \<and> is_char_boundary s j
      then Some (take (j - i) (drop i s)) else None)"

section \<open>Substring search\<close>

definition starts_with :: "bytes \<Rightarrow> bytes \<Rightarrow> bool" where
  "starts_with s p = prefix p s"

definition ends_with :: "bytes \<Rightarrow> bytes \<Rightarrow> bool" where
  "ends_with s p = suffix p s"

fun str_find :: "bytes \<Rightarrow> bytes \<Rightarrow> nat option" where
  "str_find n [] = (if n = [] then Some 0 else None)"
| "str_find n (c # cs) = (if prefix n (c # cs) then Some 0 else map_option Suc (str_find n cs))"

definition str_contains :: "bytes \<Rightarrow> bytes \<Rightarrow> bool" where
  "str_contains s n \<longleftrightarrow> str_find n s \<noteq> None"

text \<open>
  \<open>match_go n i k s\<close> scans \<open>s\<close> from byte offset \<open>i\<close>, with \<open>k\<close> bytes of the last hit still
  to pass over: \<^verbatim>\<open>match_indices\<close> reports non-overlapping hits.
\<close>

fun match_go :: "bytes \<Rightarrow> nat \<Rightarrow> nat \<Rightarrow> bytes \<Rightarrow> nat list" where
  "match_go n i k [] = []"
| "match_go n i (Suc k) (c # cs) = match_go n (Suc i) k cs"
| "match_go n i 0 (c # cs) =
     (if prefix n (c # cs) then i # match_go n (Suc i) (length n - 1) cs
      else match_go n (Suc i) 0 cs)"

definition match_indices :: "bytes \<Rightarrow> bytes \<Rightarrow> nat list" where
  "match_indices s n =
     (if n = [] then filter (is_char_boundary s) [0..<Suc (length s)] else match_go n 0 0 s)"

definition matches_count :: "bytes \<Rightarrow> bytes \<Rightarrow> nat" where
  "matches_count s n = length (match_indices s n)"

text \<open>\<^verbatim>\<open>text.replacen(from, to, 1)\<close>.\<close>

definition replace_first :: "bytes \<Rightarrow> bytes \<Rightarrow> bytes \<Rightarrow> bytes" where
  "replace_first s n r =
     (case str_find n s of None \<Rightarrow> s | Some i \<Rightarrow> take i s @ r @ drop (i + length n) s)"

section \<open>White space\<close>

text \<open>The UTF-8 encodings of the characters with the Unicode property \<^verbatim>\<open>White_Space\<close>.\<close>

definition ws_chars :: "bytes list" where
  "ws_chars =
     [[CHR 0x09], [CHR 0x0A], [CHR 0x0B], [CHR 0x0C], [CHR 0x0D], [CHR 0x20],
      [CHR 0xC2, CHR 0x85], [CHR 0xC2, CHR 0xA0], [CHR 0xE1, CHR 0x9A, CHR 0x80],
      [CHR 0xE2, CHR 0x80, CHR 0x80], [CHR 0xE2, CHR 0x80, CHR 0x81],
      [CHR 0xE2, CHR 0x80, CHR 0x82], [CHR 0xE2, CHR 0x80, CHR 0x83],
      [CHR 0xE2, CHR 0x80, CHR 0x84], [CHR 0xE2, CHR 0x80, CHR 0x85],
      [CHR 0xE2, CHR 0x80, CHR 0x86], [CHR 0xE2, CHR 0x80, CHR 0x87],
      [CHR 0xE2, CHR 0x80, CHR 0x88], [CHR 0xE2, CHR 0x80, CHR 0x89],
      [CHR 0xE2, CHR 0x80, CHR 0x8A], [CHR 0xE2, CHR 0x80, CHR 0xA8],
      [CHR 0xE2, CHR 0x80, CHR 0xA9], [CHR 0xE2, CHR 0x80, CHR 0xAF],
      [CHR 0xE2, CHR 0x81, CHR 0x9F], [CHR 0xE3, CHR 0x80, CHR 0x80]]"

definition ws_width :: "bytes \<Rightarrow> nat" where
  "ws_width s = (case find (\<lambda>w. prefix w s) ws_chars of None \<Rightarrow> 0 | Some w \<Rightarrow> length w)"

function trim_start :: "bytes \<Rightarrow> bytes" where
  "trim_start s = (if ws_width s = 0 \<or> s = [] then s else trim_start (drop (ws_width s) s))"
  by pat_completeness auto
termination
  by (relation "measure length") auto

declare trim_start.simps [simp del]

definition str_blank :: "bytes \<Rightarrow> bool" where
  "str_blank s \<longleftrightarrow> trim_start s = []"

fun trim_end :: "bytes \<Rightarrow> bytes" where
  "trim_end [] = []"
| "trim_end (c # cs) = (if str_blank (c # cs) then [] else c # trim_end cs)"

definition str_trim :: "bytes \<Rightarrow> bytes" where
  "str_trim s = trim_end (trim_start s)"

text \<open>\<^verbatim>\<open>str::lines\<close>: split at line feeds, drop one carriage return at a line's end, no last
  empty line.\<close>

fun split_lf :: "bytes \<Rightarrow> bytes \<Rightarrow> bytes list" where
  "split_lf acc [] = (if acc = [] then [] else [rev acc])"
| "split_lf acc (c # cs) =
     (if c = CHR 0x0A
      then rev (if acc \<noteq> [] \<and> hd acc = CHR 0x0D then tl acc else acc) # split_lf [] cs
      else split_lf (c # acc) cs)"

definition str_lines :: "bytes \<Rightarrow> bytes list" where
  "str_lines s = split_lf [] s"

section \<open>Searching in a concatenation\<close>

lemma str_find_Some_prefix:
  "str_find n s = Some i \<Longrightarrow> i + length n \<le> length s \<and> take (length n) (drop i s) = n"
proof (induction s arbitrary: i)
  case Nil
  then show ?case by (auto split: if_splits)
next
  case (Cons c cs)
  show ?case
  proof (cases "prefix n (c # cs)")
    case True
    then show ?thesis using Cons.prems prefix_length_eq[OF True] prefix_length_le[OF True] by simp
  next
    case False
    with Cons.prems obtain j where "str_find n cs = Some j" "i = Suc j"
      by auto
    with Cons.IH show ?thesis by auto
  qed
qed

lemma str_find_split:
  assumes "str_find n s = Some i"
  shows "s = take i s @ n @ drop (i + length n) s"
  using str_find_Some_prefix[OF assms] take_drop_split[of s i "length n"] by simp

lemma str_find_None_iff: "str_find n s = None \<longleftrightarrow> (\<forall>i \<le> length s. \<not> prefix n (drop i s))"
proof (induction s)
  case Nil
  then show ?case by auto
next
  case (Cons c cs)
  have "(\<forall>i \<le> length (c # cs). \<not> prefix n (drop i (c # cs))) \<longleftrightarrow>
        \<not> prefix n (c # cs) \<and> (\<forall>i \<le> length cs. \<not> prefix n (drop i cs))"
    by (metis (no_types, lifting) drop0 drop_Suc_Cons length_Cons not0_implies_Suc not_less_eq_eq zero_le Suc_le_mono)
  with Cons.IH show ?case by auto
qed

lemma str_contains_append: "str_contains (a @ n @ b) n"
proof -
  have "prefix n (drop (length a) (a @ n @ b))" by simp
  then show ?thesis
    unfolding str_contains_def str_find_None_iff by (metis (no_types, lifting) le_add1 length_append)
qed

text \<open>
  \<open>no_overlap n u\<close>: no hit of \<open>n\<close> can begin inside \<open>u\<close> and end after it.
\<close>

definition no_overlap :: "bytes \<Rightarrow> bytes \<Rightarrow> bool" where
  "no_overlap n u \<longleftrightarrow> (\<forall>p. p \<noteq> [] \<longrightarrow> length p < length n \<longrightarrow> prefix p n \<longrightarrow> \<not> suffix p u)"

lemma no_overlap_Nil [simp]: "no_overlap n []"
  by (simp add: no_overlap_def)

lemma no_overlap_tl: "no_overlap n (c # u) \<Longrightarrow> no_overlap n u"
  by (auto simp: no_overlap_def suffix_Cons)

lemma no_overlap_prefix:
  assumes "no_overlap n u" "u \<noteq> []" "prefix n (u @ v)"
  shows "prefix n u"
proof (rule ccontr)
  assume "\<not> prefix n u"
  with assms(3) have "prefix u n"
    using prefix_same_cases[of n "u @ v" u] by auto
  moreover from this \<open>\<not> prefix n u\<close> have "length u < length n"
    by (metis nat_neq_iff not_less prefix_length_less prefix_length_prefix prefix_order.eq_iff prefix_length_le)
  ultimately have "prefix u n" "length u < length n" .
  with assms(1,2) show False by (auto simp: no_overlap_def)
qed

lemma match_go_shift: "match_go n (i + d) k s = map (\<lambda>j. j + d) (match_go n i k s)"
proof (induction n i k s rule: match_go.induct)
  case (3 n i c cs)
  then show ?case by (cases "prefix n (c # cs)") simp_all
qed simp_all

lemma match_go_append:
  assumes "no_overlap n u" and "k \<le> length u" and "n \<noteq> []"
  shows "match_go n i k (u @ v) = match_go n i k u @ match_go n (i + length u) 0 v"
  using assms
proof (induction n i k u rule: match_go.induct)
  case (1 n i k)
  then show ?case by simp
next
  case (2 n i k c cs)
  then have "no_overlap n cs" by (blast dest: no_overlap_tl)
  with 2 show ?case by simp
next
  case (3 n i c cs)
  have ov: "no_overlap n cs" using "3.prems"(1) by (blast dest: no_overlap_tl)
  have pre: "prefix n ((c # cs) @ v) \<longleftrightarrow> prefix n (c # cs)"
    using no_overlap_prefix[OF "3.prems"(1), of v] prefix_prefix[of n "c # cs" v] by blast
  show ?case
  proof (cases "prefix n (c # cs)")
    case True
    then have "length n - 1 \<le> length cs" using prefix_length_le[OF True] by simp
    with True 3 ov pre show ?thesis by simp
  next
    case False
    with 3 ov pre show ?thesis by simp
  qed
qed

theorem match_indices_append:
  assumes "no_overlap n u" and "n \<noteq> []"
  shows "match_indices (u @ v) n = match_indices u n @ map (\<lambda>j. j + length u) (match_indices v n)"
  using match_go_append[OF assms(1) _ assms(2), of 0 0 v] match_go_shift[of n 0 "length u" 0 v] assms(2)
  by (simp add: match_indices_def)

section \<open>Classes of bytes\<close>

text \<open>\<^verbatim>\<open>is_ascii_alphanumeric\<close>, \<^verbatim>\<open>is_ascii\<close>, \<^verbatim>\<open>is_ascii_whitespace\<close>, and \<^verbatim>\<open>chars().any(char::is_control)\<close> of a valid text.\<close>

definition ascii_alnum :: "char \<Rightarrow> bool" where
  "ascii_alnum c \<longleftrightarrow>
     (let n = byte_of c :: nat in
      (48 \<le> n \<and> n \<le> 57) \<or> (65 \<le> n \<and> n \<le> 90) \<or> (97 \<le> n \<and> n \<le> 122))"

definition is_ascii :: "bytes \<Rightarrow> bool" where
  "is_ascii s \<longleftrightarrow> list_all (\<lambda>c. byte_of c < (128 :: nat)) s"

definition ascii_whitespace :: "char \<Rightarrow> bool" where
  "ascii_whitespace c \<longleftrightarrow> c \<in> {CHR 0x20, CHR 0x09, CHR 0x0A, CHR 0x0C, CHR 0x0D}"

definition ascii_lower :: "char \<Rightarrow> char" where
  "ascii_lower c = (if 65 \<le> byte_of c \<and> byte_of c \<le> (90::nat) then char_of (byte_of c + 32 :: nat) else c)"

fun has_control :: "bytes \<Rightarrow> bool" where
  "has_control [] = False"
| "has_control (c # s) =
     (byte_of c < (32::nat) \<or> byte_of c = (127::nat) \<or>
      c = CHR 0xC2 \<and> (case s of d # _ \<Rightarrow> byte_of d < (160::nat) | [] \<Rightarrow> False) \<or> has_control s)"

text \<open>\<^verbatim>\<open>split\<close> at one ASCII character, \<^verbatim>\<open>strip_prefix\<close>, \<^verbatim>\<open>strip_suffix\<close>.\<close>

fun split_at_char :: "char \<Rightarrow> bytes \<Rightarrow> bytes list" where
  "split_at_char d [] = [[]]"
| "split_at_char d (c # s) =
     (if c = d then [] # split_at_char d s
      else case split_at_char d s of [] \<Rightarrow> [[c]] | p # ps \<Rightarrow> (c # p) # ps)"

definition strip_prefix :: "bytes \<Rightarrow> bytes \<Rightarrow> bytes option" where
  "strip_prefix s p = (if prefix p s then Some (drop (length p) s) else None)"

definition strip_suffix :: "bytes \<Rightarrow> bytes \<Rightarrow> bytes option" where
  "strip_suffix s p = (if suffix p s then Some (take (length s - length p) s) else None)"

lemma strip_prefix_append [simp]: "strip_prefix (p @ s) p = Some s"
  by (simp add: strip_prefix_def)

lemma strip_suffix_append [simp]: "strip_suffix (s @ p) p = Some s"
  by (simp add: strip_suffix_def suffix_def)

end
