(* ===== verification/Rust_Path.thy ===== *)
theory Rust_Path
  imports Errors Rust_Text
begin

text \<open>
  Unix paths as the list of their components, which is how \<^verbatim>\<open>std::path::Path\<close> compares them,
  with the operations the manager uses: \<^verbatim>\<open>is_absolute\<close>, \<^verbatim>\<open>file_name\<close>, \<^verbatim>\<open>parent\<close>, \<^verbatim>\<open>join\<close>,
  \<^verbatim>\<open>with_file_name\<close>; then the two path checks of \<^verbatim>\<open>fs_safe.rs\<close> that touch no file.
\<close>

datatype component = RootDir | CurDir | ParentDir | Normal bytes

type_synonym path = "component list"

fun is_absolute :: "path \<Rightarrow> bool" where
  "is_absolute (RootDir # _) = True"
| "is_absolute _ = False"

definition file_name :: "path \<Rightarrow> bytes option" where
  "file_name p = (if p = [] then None else case last p of Normal n \<Rightarrow> Some n | _ \<Rightarrow> None)"

definition parent :: "path \<Rightarrow> path option" where
  "parent p = (if p = [] \<or> last p = RootDir then None else Some (butlast p))"

definition join :: "path \<Rightarrow> path \<Rightarrow> path" where
  "join p q = (if is_absolute q then q else p @ q)"

definition with_file_name :: "path \<Rightarrow> bytes \<Rightarrow> path" where
  "with_file_name p n =
     (case file_name p of None \<Rightarrow> p @ [Normal n] | Some _ \<Rightarrow> butlast p @ [Normal n])"

fun component_utf8 :: "component \<Rightarrow> bool" where
  "component_utf8 (Normal n) = utf8_valid n"
| "component_utf8 _ = True"

text \<open>
  The text of a path, \<^verbatim>\<open>as_os_str\<close>: components separated by slashes. \<^verbatim>\<open>to_str\<close> refuses a path
  that is not UTF-8, \<^verbatim>\<open>to_string_lossy\<close> replaces what is not.
\<close>

fun component_bytes :: "component \<Rightarrow> bytes" where
  "component_bytes RootDir = []"
| "component_bytes CurDir = ''.''"
| "component_bytes ParentDir = ''..''"
| "component_bytes (Normal n) = n"

fun join_slash :: "bytes list \<Rightarrow> bytes" where
  "join_slash [] = []"
| "join_slash [x] = x"
| "join_slash (x # y # ys) = x @ ''/'' @ join_slash (y # ys)"

definition path_bytes :: "path \<Rightarrow> bytes" where
  "path_bytes p =
     (case p of
        RootDir # cs \<Rightarrow> ''/'' @ join_slash (map component_bytes cs)
      | _ \<Rightarrow> join_slash (map component_bytes p))"

definition path_to_str :: "path \<Rightarrow> bytes option" where
  "path_to_str p = (if utf8_valid (path_bytes p) then Some (path_bytes p) else None)"

definition path_to_string_lossy :: "path \<Rightarrow> bytes" where
  "path_to_string_lossy p = lossy (path_bytes p)"

definition validate_absolute_path :: "path \<Rightarrow> string \<Rightarrow> manager_error + unit" where
  "validate_absolute_path p target =
     (if \<not> is_absolute p then Inl (UnsafePath target ''path is not absolute'')
      else if list_ex (\<lambda>c. c = CurDir \<or> c = ParentDir) p
        then Inl (UnsafePath target ''path contains traversal'')
      else if \<not> list_all component_utf8 p then Inl (UnsafePath target ''path is not UTF-8'')
      else Inr ())"

definition sibling_path :: "path \<Rightarrow> bytes \<Rightarrow> manager_error + path" where
  "sibling_path p suf =
     (case file_name p of
        None \<Rightarrow> Inl (UnsafePath ''configuration file'' ''path has no file name'')
      | Some n \<Rightarrow> Inr (with_file_name p (n @ suf)))"

section \<open>Laws\<close>

lemma file_name_snoc [simp]: "file_name (d @ [Normal n]) = Some n"
  by (simp add: file_name_def)

lemma parent_snoc [simp]: "parent (d @ [Normal n]) = Some d"
  by (simp add: parent_def)

lemma parent_Cons_snoc [simp]: "parent (c # d @ [Normal n]) = Some (c # d)"
  by (simp add: parent_def)

lemma file_name_Cons_snoc [simp]: "file_name (c # d @ [Normal n]) = Some n"
  by (simp add: file_name_def)

lemma with_file_name_snoc [simp]: "with_file_name (d @ [Normal n]) m = d @ [Normal m]"
  by (simp add: with_file_name_def)

lemma sibling_path_snoc [simp]: "sibling_path (d @ [Normal n]) s = Inr (d @ [Normal (n @ s)])"
  by (simp add: sibling_path_def)

lemma file_name_SomeE:
  assumes "file_name p = Some n"
  obtains d where "p = d @ [Normal n]"
  using assms that by (cases p rule: rev_cases) (auto simp: file_name_def split: component.splits)

lemma parent_SomeE:
  assumes "parent p = Some d"
  obtains c where "p = d @ [c]" and "c \<noteq> RootDir"
  using assms that by (cases p rule: rev_cases) (auto simp: parent_def split: if_splits)

lemma sibling_path_Inr:
  assumes "sibling_path p s = Inr q"
  obtains d n where "p = d @ [Normal n]" and "q = d @ [Normal (n @ s)]"
  using assms by (auto simp: sibling_path_def split: option.splits elim!: file_name_SomeE intro: that)

lemma sibling_path_neq:
  assumes "sibling_path p s = Inr q" and "s \<noteq> []"
  shows "q \<noteq> p"
  using assms by (auto elim!: sibling_path_Inr)

lemma validate_absolute_path_Inr:
  "validate_absolute_path p t = Inr () \<longleftrightarrow>
     is_absolute p \<and> \<not> list_ex (\<lambda>c. c = CurDir \<or> c = ParentDir) p \<and> list_all component_utf8 p"
  by (simp add: validate_absolute_path_def)

end
