(* ===== verification/World.thy ===== *)
theory World
  imports Rust_Path "HOL-Library.Word"
begin

text \<open>
  The machine the manager runs on: a file tree, a process id, the umask, the process-wide
  temporary-file counter, and an adversary that decides which system calls fail. Every
  operation of the manager that touches the disk is a function from a world to a result and
  the next world. The system calls here are the ones of \<^verbatim>\<open>std::fs\<close> the source uses; each one
  advances the call counter and can be made to fail by the world's \<open>faults\<close>, a failing write
  leaving an arbitrary prefix of the data behind.
\<close>

unbundle bit_operations_syntax

type_synonym mode = "32 word"

datatype node = File bytes mode | Directory mode | Symlink | Special

text \<open>
  An injected failure: its error code and how much a failing write had written. It is
  reported as a kind of its own, because \<open>NotFound\<close> and \<open>AlreadyExists\<close> are answers about the
  tree, which the code acts on.
\<close>

datatype fault = Fault nat nat

record world =
  files :: "(path \<times> node) list"
  ticks :: nat
  faults :: "nat \<Rightarrow> fault option"
  temp_sequence :: "64 word"
  pid :: nat
  umask :: mode

definition lookup :: "world \<Rightarrow> path \<Rightarrow> node option" where
  "lookup w p = map_of (files w) p"

definition put :: "path \<Rightarrow> node \<Rightarrow> world \<Rightarrow> world" where
  "put p n w = w\<lparr>files := AList.update p n (files w)\<rparr>"

definition drop_path :: "path \<Rightarrow> world \<Rightarrow> world" where
  "drop_path p w = w\<lparr>files := AList.delete p (files w)\<rparr>"

definition has_children :: "world \<Rightarrow> path \<Rightarrow> bool" where
  "has_children w d = list_ex (\<lambda>(q, _). parent q = Some d) (files w)"

definition is_directory :: "world \<Rightarrow> path \<Rightarrow> bool" where
  "is_directory w p = (case lookup w p of Some (Directory _) \<Rightarrow> True | _ \<Rightarrow> False)"

definition parent_is_directory :: "world \<Rightarrow> path \<Rightarrow> bool" where
  "parent_is_directory w p = (case parent p of None \<Rightarrow> False | Some d \<Rightarrow> is_directory w d)"

text \<open>A proper ancestor that is not a directory makes the kernel answer ENOTDIR.\<close>

definition through_file :: "world \<Rightarrow> path \<Rightarrow> bool" where
  "through_file w p =
     list_ex (\<lambda>k. case lookup w (take k p) of Some (File _ _) \<Rightarrow> True | Some Special \<Rightarrow> True | _ \<Rightarrow> False)
       [1..<length p]"

section \<open>Actions\<close>

type_synonym ('s, 'e, 'a) action = "'s \<Rightarrow> ('e + 'a) \<times> 's"
type_synonym ('e, 'a) act = "(world, 'e, 'a) action"

definition ret :: "'a \<Rightarrow> ('s, 'e, 'a) action" where
  "ret x w = (Inr x, w)"

definition throw :: "'e \<Rightarrow> ('s, 'e, 'a) action" where
  "throw e w = (Inl e, w)"

definition bindA :: "('s, 'e, 'a) action \<Rightarrow> ('a \<Rightarrow> ('s, 'e, 'b) action) \<Rightarrow> ('s, 'e, 'b) action" where
  "bindA m k w = (case m w of (Inl e, w') \<Rightarrow> (Inl e, w') | (Inr x, w') \<Rightarrow> k x w')"

text \<open>\<open>attempt m\<close> hands the result of \<open>m\<close>, error or not, to the caller.\<close>

definition attempt :: "('s, 'e, 'a) action \<Rightarrow> ('s, 'f, 'e + 'a) action" where
  "attempt m w = (case m w of (r, w') \<Rightarrow> (Inr r, w'))"

definition map_err :: "('e \<Rightarrow> 'f) \<Rightarrow> ('s, 'e, 'a) action \<Rightarrow> ('s, 'f, 'a) action" where
  "map_err f m w = (case m w of (Inl e, w') \<Rightarrow> (Inl (f e), w') | (Inr x, w') \<Rightarrow> (Inr x, w'))"

text \<open>Pure results as actions.\<close>

definition lift :: "'e + 'a \<Rightarrow> ('s, 'e, 'a) action" where
  "lift r w = (r, w)"

definition get_world :: "('s, 'e, 's) action" where
  "get_world w = (Inr w, w)"

definition modify :: "('s \<Rightarrow> 's) \<Rightarrow> ('s, 'e, unit) action" where
  "modify f w = (Inr (), f w)"

lemma bindA_Inr [act_simps]: "m w = (Inr x, w') \<Longrightarrow> bindA m k w = k x w'"
  by (simp add: bindA_def)

lemma bindA_Inl [act_simps]: "m w = (Inl e, w') \<Longrightarrow> bindA m k w = (Inl e, w')"
  by (simp add: bindA_def)

lemma bindA_eq_Inr:
  "bindA m k w = (Inr y, w'') \<longleftrightarrow> (\<exists>x w'. m w = (Inr x, w') \<and> k x w' = (Inr y, w''))"
  by (auto simp: bindA_def split: prod.splits sum.splits)

lemma bindA_eq_Inl:
  "bindA m k w = (Inl e, w'') \<longleftrightarrow>
     m w = (Inl e, w'') \<or> (\<exists>x w'. m w = (Inr x, w') \<and> k x w' = (Inl e, w''))"
  by (auto simp: bindA_def split: prod.splits sum.splits)

lemma map_err_eq_Inr: "map_err f m w = (Inr x, w') \<longleftrightarrow> m w = (Inr x, w')"
  by (auto simp: map_err_def split: prod.splits sum.splits)

lemma attempt_eq: "attempt m w = (Inr r, w') \<longleftrightarrow> m w = (r, w')" "attempt m w \<noteq> (Inl e, w')"
  by (auto simp: attempt_def split: prod.splits)

lemma ret_eq [simp]: "ret x w = (r, w') \<longleftrightarrow> r = Inr x \<and> w' = w"
  by (auto simp: ret_def)

lemma throw_eq [simp]: "throw e w = (r, w') \<longleftrightarrow> r = Inl e \<and> w' = w"
  by (auto simp: throw_def)

lemma lift_eq [simp]: "lift x w = (r, w') \<longleftrightarrow> r = x \<and> w' = w"
  by (auto simp: lift_def)

lemma get_world_eq [simp]: "get_world w = (r, w') \<longleftrightarrow> r = Inr w \<and> w' = w"
  by (auto simp: get_world_def)

lemma modify_eq [simp]: "modify f w = (r, w') \<longleftrightarrow> r = Inr () \<and> w' = f w"
  by (auto simp: modify_def)

lemma lift_Inr: "lift x w = (Inr y, w') \<longleftrightarrow> x = Inr y \<and> w' = w"
  by (auto simp: lift_def)

lemmas act_run = bindA_eq_Inr map_err_eq_Inr attempt_eq
lemmas act_unfold = bindA_def map_err_def attempt_def ret_def throw_def lift_def get_world_def modify_def

section \<open>System calls\<close>

definition syscall :: "(world \<Rightarrow> (io_kind + 'a) \<times> world) \<Rightarrow> (io_kind, 'a) act" where
  "syscall f w =
     (let w' = w\<lparr>ticks := Suc (ticks w)\<rparr>
      in case faults w (ticks w) of Some (Fault k _) \<Rightarrow> (Inl (OtherKind k), w') | None \<Rightarrow> f w')"

definition symlink_metadata :: "path \<Rightarrow> (io_kind, node) act" where
  "symlink_metadata p = syscall (\<lambda>w.
     (case lookup w p of
        Some n \<Rightarrow> Inr n
      | None \<Rightarrow> Inl (if through_file w p then NotADirectory else NotFound), w))"

definition fs_read :: "path \<Rightarrow> (io_kind, bytes) act" where
  "fs_read p = syscall (\<lambda>w.
     (case lookup w p of
        Some (File b _) \<Rightarrow> Inr b
      | Some (Directory _) \<Rightarrow> Inl IsADirectory
      | Some _ \<Rightarrow> Inl (OtherKind 0)
      | None \<Rightarrow> Inl NotFound, w))"

text \<open>\<^verbatim>\<open>OpenOptions::new().write(true).create_new(true).mode(m).open(p)\<close>.\<close>

definition create_new :: "path \<Rightarrow> mode \<Rightarrow> (io_kind, unit) act" where
  "create_new p m = syscall (\<lambda>w.
     if lookup w p \<noteq> None then (Inl AlreadyExists, w)
     else if \<not> parent_is_directory w p then (Inl NotFound, w)
     else (Inr (), put p (File [] (m AND NOT (umask w))) w))"

definition set_permissions :: "path \<Rightarrow> mode \<Rightarrow> (io_kind, unit) act" where
  "set_permissions p m = syscall (\<lambda>w.
     case lookup w p of
       Some (File b _) \<Rightarrow> (Inr (), put p (File b m) w)
     | Some (Directory _) \<Rightarrow> (Inr (), put p (Directory m) w)
     | Some _ \<Rightarrow> (Inr (), w)
     | None \<Rightarrow> (Inl NotFound, w))"

text \<open>\<^verbatim>\<open>write_all\<close> on a handle of the file at \<open>p\<close>: a failing call leaves a prefix behind.\<close>

definition write_all :: "path \<Rightarrow> bytes \<Rightarrow> (io_kind, unit) act" where
  "write_all p b w =
     (let w' = w\<lparr>ticks := Suc (ticks w)\<rparr>
      in case lookup w p of
           Some (File old m) \<Rightarrow>
             (case faults w (ticks w) of
                Some (Fault k n) \<Rightarrow> (Inl (OtherKind k), put p (File (old @ take n b) m) w')
              | None \<Rightarrow> (Inr (), put p (File (old @ b) m) w'))
         | _ \<Rightarrow> (Inl (OtherKind 0), w'))"

definition sync_all :: "path \<Rightarrow> (io_kind, unit) act" where
  "sync_all p = syscall (\<lambda>w. (Inr (), w))"

definition open_directory :: "path \<Rightarrow> (io_kind, unit) act" where
  "open_directory p = syscall (\<lambda>w. (if lookup w p = None then Inl NotFound else Inr (), w))"

definition rename :: "path \<Rightarrow> path \<Rightarrow> (io_kind, unit) act" where
  "rename p q = syscall (\<lambda>w.
     case lookup w p of
       None \<Rightarrow> (Inl NotFound, w)
     | Some n \<Rightarrow>
         if \<not> parent_is_directory w q then (Inl NotFound, w)
         else if is_directory w q \<or> is_directory w p then (Inl IsADirectory, w)
         else (Inr (), put q n (drop_path p w)))"

definition remove_file :: "path \<Rightarrow> (io_kind, unit) act" where
  "remove_file p = syscall (\<lambda>w.
     if lookup w p = None then (Inl NotFound, w)
     else if is_directory w p then (Inl IsADirectory, w)
     else (Inr (), drop_path p w))"

definition create_dir :: "path \<Rightarrow> (io_kind, unit) act" where
  "create_dir p = syscall (\<lambda>w.
     if lookup w p \<noteq> None then (Inl AlreadyExists, w)
     else if \<not> parent_is_directory w p then (Inl NotFound, w)
     else (Inr (), put p (Directory (511 AND NOT (umask w))) w))"

definition remove_dir :: "path \<Rightarrow> (io_kind, unit) act" where
  "remove_dir p = syscall (\<lambda>w.
     if lookup w p = None then (Inl NotFound, w)
     else if \<not> is_directory w p then (Inl NotADirectory, w)
     else if has_children w p then (Inl DirectoryNotEmpty, w)
     else if p = [RootDir] then (Inl (OtherKind 0), w)
     else (Inr (), drop_path p w))"

text \<open>\<^verbatim>\<open>fs::read_dir(d)\<close>, as the answer to "is there a first entry".\<close>

definition read_dir_nonempty :: "path \<Rightarrow> (io_kind, bool) act" where
  "read_dir_nonempty p = syscall (\<lambda>w.
     (if lookup w p = None then Inl NotFound
      else if \<not> is_directory w p then Inl NotADirectory
      else Inr (has_children w p), w))"

text \<open>\<^verbatim>\<open>Path::exists\<close>: false on any error.\<close>

definition path_exists :: "path \<Rightarrow> ('e, bool) act" where
  "path_exists p = bindA (attempt (symlink_metadata p)) (\<lambda>r. ret (\<not> isl r))"

section \<open>The store laws\<close>

text \<open>
  The contract between the tree and its users: what a lookup returns after each of the two
  changes the system calls make.
\<close>

locale node_store =
  fixes get :: "'w \<Rightarrow> 'k \<Rightarrow> 'v option"
    and set_at :: "'k \<Rightarrow> 'v \<Rightarrow> 'w \<Rightarrow> 'w"
    and del_at :: "'k \<Rightarrow> 'w \<Rightarrow> 'w"
  assumes get_set: "get (set_at k v w) = (get w)(k \<mapsto> v)"
    and get_del: "get (del_at k w) = (get w)(k := None)"
begin

lemma get_move:
  "get (set_at q v (del_at p w)) = (get w)(p := None, q \<mapsto> v)"
  by (simp add: get_set get_del)

lemma set_then_del: "get w k = None \<Longrightarrow> get (del_at k (set_at k v w)) = get w"
  by (auto simp: get_set get_del fun_eq_iff)

end

interpretation tree: node_store lookup put drop_path
  by unfold_locales (simp_all add: lookup_def put_def drop_path_def update_conv' delete_conv' fun_eq_iff)

lemmas lookup_put = tree.get_set
lemmas lookup_drop = tree.get_del

lemma lookup_more [simp]:
  "lookup (w\<lparr>ticks := t\<rparr>) = lookup w" "lookup (w\<lparr>temp_sequence := s\<rparr>) = lookup w"
  by (simp_all add: lookup_def fun_eq_iff)

lemma put_fields [simp]:
  "ticks (put p n w) = ticks w" "faults (put p n w) = faults w" "pid (put p n w) = pid w"
  "umask (put p n w) = umask w" "temp_sequence (put p n w) = temp_sequence w"
  by (simp_all add: put_def)

lemma drop_fields [simp]:
  "ticks (drop_path p w) = ticks w" "faults (drop_path p w) = faults w"
  "pid (drop_path p w) = pid w" "umask (drop_path p w) = umask w"
  "temp_sequence (drop_path p w) = temp_sequence w"
  by (simp_all add: drop_path_def)

lemma has_children_iff: "has_children w d \<longleftrightarrow> (\<exists>q. lookup w q \<noteq> None \<and> parent q = Some d)"
  by (force simp: has_children_def list_ex_iff lookup_def map_of_eq_None_iff)

lemma is_directory_iff: "is_directory w p \<longleftrightarrow> (\<exists>m. lookup w p = Some (Directory m))"
  by (auto simp: is_directory_def split: option.splits node.splits)

section \<open>What an action leaves behind\<close>

text \<open>
  \<open>keeps R m\<close>: whatever \<open>m\<close> returns, the world it leaves is related to the one it started
  from. The laws for sequencing are proved once, for every reflexive and transitive relation
  that does not look at the call counter or the temporary-file counter.
\<close>

definition keeps :: "('s \<Rightarrow> 's \<Rightarrow> bool) \<Rightarrow> ('s, 'e, 'a) action \<Rightarrow> bool" where
  "keeps R m \<longleftrightarrow> (\<forall>w. R w (snd (m w)))"

named_theorems keeps_intro \<open>introduction rules for keeps\<close>

lemma keepsD: "keeps R m \<Longrightarrow> m w = (r, w') \<Longrightarrow> R w w'"
  by (metis keeps_def snd_conv)

locale state_preorder =
  fixes R :: "'s \<Rightarrow> 's \<Rightarrow> bool"
  assumes R_refl: "R w w"
    and R_trans: "R u v \<Longrightarrow> R v w \<Longrightarrow> R u w"
begin

lemma keeps_ret [keeps_intro]: "keeps R (ret x)"
  by (simp add: keeps_def ret_def R_refl)

lemma keeps_throw [keeps_intro]: "keeps R (throw e)"
  by (simp add: keeps_def throw_def R_refl)

lemma keeps_lift [keeps_intro]: "keeps R (lift r)"
  by (simp add: keeps_def lift_def R_refl)

lemma keeps_get_world [keeps_intro]: "keeps R get_world"
  by (simp add: keeps_def get_world_def R_refl)

lemma keeps_bindA [keeps_intro]:
  assumes "keeps R m" and "\<And>x. keeps R (k x)"
  shows "keeps R (bindA m k)"
  using assms by (auto simp: keeps_def bindA_def split: prod.splits sum.splits)
    (metis R_trans snd_conv)+

lemma keeps_attempt [keeps_intro]: "keeps R m \<Longrightarrow> keeps R (attempt m)"
  by (auto simp: keeps_def attempt_def split: prod.splits) (metis snd_conv)

lemma keeps_map_err [keeps_intro]: "keeps R m \<Longrightarrow> keeps R (map_err f m)"
  by (auto simp: keeps_def map_err_def split: prod.splits sum.splits) (metis snd_conv)+

end

locale step_relation = state_preorder R for R :: "world \<Rightarrow> world \<Rightarrow> bool" +
  assumes R_tick: "R w (w\<lparr>ticks := t\<rparr>)"
    and R_seq: "R w (w\<lparr>temp_sequence := s\<rparr>)"
begin

lemma keeps_bump [keeps_intro]: "keeps R (modify (\<lambda>w. w\<lparr>temp_sequence := f w\<rparr>))"
  by (simp add: keeps_def modify_def R_seq)

lemma keeps_syscall:
  assumes "\<And>w. R w (snd (f w))"
  shows "keeps R (syscall f)"
  unfolding keeps_def syscall_def Let_def
  by (auto simp: R_tick split: option.splits fault.splits intro: R_trans[OF R_tick assms])

lemma keeps_symlink_metadata [keeps_intro]: "keeps R (symlink_metadata p)"
  unfolding symlink_metadata_def by (rule keeps_syscall) (simp add: R_refl)

lemma keeps_fs_read [keeps_intro]: "keeps R (fs_read p)"
  unfolding fs_read_def by (rule keeps_syscall) (simp add: R_refl)

lemma keeps_sync_all [keeps_intro]: "keeps R (sync_all p)"
  unfolding sync_all_def by (rule keeps_syscall) (simp add: R_refl)

lemma keeps_open_directory [keeps_intro]: "keeps R (open_directory p)"
  unfolding open_directory_def by (rule keeps_syscall) (simp add: R_refl)

lemma keeps_read_dir [keeps_intro]: "keeps R (read_dir_nonempty p)"
  unfolding read_dir_nonempty_def by (rule keeps_syscall) (simp add: R_refl)

lemma keeps_path_exists [keeps_intro]: "keeps R (path_exists p)"
  unfolding path_exists_def by (intro keeps_intro) 

end

section \<open>The tree invariant\<close>

text \<open>The root is a directory, and everything else sits in a directory.\<close>

definition tree_ok :: "world \<Rightarrow> bool" where
  "tree_ok w \<longleftrightarrow> is_directory w [RootDir] \<and>
     (\<forall>p. lookup w p \<noteq> None \<longrightarrow> p \<noteq> [RootDir] \<longrightarrow> parent_is_directory w p)"

definition tree_kept :: "world \<Rightarrow> world \<Rightarrow> bool" where
  "tree_kept w w' \<longleftrightarrow> (tree_ok w \<longrightarrow> tree_ok w')"

lemma parent_is_directory_iff:
  "parent_is_directory w p \<longleftrightarrow> (\<exists>d. parent p = Some d \<and> is_directory w d)"
  by (auto simp: parent_is_directory_def split: option.splits)

lemma tree_okI:
  assumes "is_directory w [RootDir]"
    and "\<And>p n. lookup w p = Some n \<Longrightarrow> p \<noteq> [RootDir] \<Longrightarrow> \<exists>d. parent p = Some d \<and> is_directory w d"
  shows "tree_ok w"
  using assms by (auto simp: tree_ok_def parent_is_directory_iff)

lemma tree_okD:
  assumes "tree_ok w"
  shows "is_directory w [RootDir]"
    and "lookup w p = Some n \<Longrightarrow> p \<noteq> [RootDir] \<Longrightarrow> \<exists>d. parent p = Some d \<and> is_directory w d"
  using assms by (auto simp: tree_ok_def parent_is_directory_iff)

lemma is_directory_more [simp]:
  "is_directory (w\<lparr>ticks := t\<rparr>) = is_directory w"
  "is_directory (w\<lparr>temp_sequence := s\<rparr>) = is_directory w"
  "parent_is_directory (w\<lparr>ticks := t\<rparr>) = parent_is_directory w"
  "parent_is_directory (w\<lparr>temp_sequence := s\<rparr>) = parent_is_directory w"
  by (simp_all add: is_directory_iff parent_is_directory_iff fun_eq_iff)

interpretation tree_steps: step_relation tree_kept
  by unfold_locales (auto simp: tree_kept_def tree_ok_def)

lemma tree_ok_put:
  assumes ok: "tree_ok w" and par: "parent_is_directory w p"
    and same: "is_directory w p \<Longrightarrow> \<exists>m. n = Directory m"
  shows "tree_ok (put p n w)"
proof (rule tree_okI)
  have dir: "is_directory w q \<Longrightarrow> is_directory (put p n w) q" for q
    using same by (auto simp: is_directory_iff lookup_put)
  then show "is_directory (put p n w) [RootDir]" using tree_okD(1)[OF ok] by blast
  fix q n' assume "lookup (put p n w) q = Some n'" "q \<noteq> [RootDir]"
  then have "\<exists>d. parent q = Some d \<and> is_directory w d"
    using par tree_okD(2)[OF ok, of q] by (auto simp: lookup_put parent_is_directory_iff split: if_splits)
  with dir show "\<exists>d. parent q = Some d \<and> is_directory (put p n w) d" by blast
qed

lemma tree_ok_drop:
  assumes ok: "tree_ok w" and no: "\<not> has_children w p" and root: "p \<noteq> [RootDir]"
  shows "tree_ok (drop_path p w)"
proof (rule tree_okI)
  have dir: "is_directory (drop_path p w) q" if "is_directory w q" "q \<noteq> p" for q
    using that by (simp add: is_directory_iff lookup_drop)
  then show "is_directory (drop_path p w) [RootDir]" using tree_okD(1)[OF ok] root by blast
  fix q n' assume q: "lookup (drop_path p w) q = Some n'" "q \<noteq> [RootDir]"
  then have "lookup w q = Some n'" by (auto simp: lookup_drop split: if_splits)
  with q(2) obtain d where d: "parent q = Some d" "is_directory w d"
    using tree_okD(2)[OF ok] by blast
  moreover have "d \<noteq> p" using no d(1) \<open>lookup w q = Some n'\<close> by (metis has_children_iff option.distinct(1))
  ultimately show "\<exists>d. parent q = Some d \<and> is_directory (drop_path p w) d" using dir by blast
qed

lemma tree_ok_leaf:
  assumes "tree_ok w" and "\<not> is_directory w p"
  shows "\<not> has_children w p" and "p \<noteq> [RootDir]"
  using assms tree_okD[OF assms(1)] parent_is_directory_iff
  by (auto simp: has_children_iff) (metis last_snoc parent_def append_butlast_last_id not_None_eq option.distinct(1) last.simps option.inject)

lemma keeps_tree_create_new [keeps_intro]: "keeps tree_kept (create_new p m)"
  unfolding create_new_def
  by (rule tree_steps.keeps_syscall) (auto simp: tree_kept_def is_directory_iff intro!: tree_ok_put)

lemma keeps_tree_create_dir [keeps_intro]: "keeps tree_kept (create_dir p)"
  unfolding create_dir_def
  by (rule tree_steps.keeps_syscall) (auto simp: tree_kept_def is_directory_iff intro!: tree_ok_put)

lemma tree_ok_repermit:
  assumes ok: "tree_ok w" and p: "lookup w p = Some n"
    and n: "\<And>m. n = Directory m \<Longrightarrow> \<exists>m'. n' = Directory m'"
  shows "tree_ok (put p n' w)"
proof (rule tree_okI)
  have dir: "is_directory w q \<Longrightarrow> is_directory (put p n' w) q" for q
    using p n by (auto simp: is_directory_iff lookup_put)
  then show "is_directory (put p n' w) [RootDir]" using tree_okD(1)[OF ok] by blast
  fix q n'' assume "lookup (put p n' w) q = Some n''" "q \<noteq> [RootDir]"
  then have "\<exists>d. parent q = Some d \<and> is_directory w d"
    using p tree_okD(2)[OF ok, of q] by (auto simp: lookup_put split: if_splits)
  with dir show "\<exists>d. parent q = Some d \<and> is_directory (put p n' w) d" by blast
qed

lemma keeps_tree_set_permissions [keeps_intro]: "keeps tree_kept (set_permissions p m)"
  unfolding set_permissions_def
  by (rule tree_steps.keeps_syscall)
    (auto simp: tree_kept_def intro: tree_ok_repermit split: option.splits node.splits)

lemma keeps_tree_write_all [keeps_intro]: "keeps tree_kept (write_all p b)"
  unfolding keeps_def write_all_def tree_kept_def
  by (auto simp: Let_def split: option.splits node.splits fault.splits
      intro!: tree_ok_repermit dest: tree_steps.R_tick[unfolded tree_kept_def, rule_format])

lemma keeps_tree_remove_file [keeps_intro]: "keeps tree_kept (remove_file p)"
  unfolding remove_file_def
  by (rule tree_steps.keeps_syscall) (auto simp: tree_kept_def intro!: tree_ok_drop dest: tree_ok_leaf)

lemma keeps_tree_remove_dir [keeps_intro]: "keeps tree_kept (remove_dir p)"
  unfolding remove_dir_def
  by (rule tree_steps.keeps_syscall) (auto simp: tree_kept_def intro!: tree_ok_drop)

lemma tree_ok_move:
  assumes ok: "tree_ok w" and p: "lookup w p = Some n" "\<not> is_directory w p"
    and q: "parent_is_directory w q" "\<not> is_directory w q"
  shows "tree_ok (put q n (drop_path p w))"
proof (rule tree_ok_put)
  show "tree_ok (drop_path p w)" using tree_ok_drop[OF ok] tree_ok_leaf[OF ok p(2)] by blast
  show "parent_is_directory (drop_path p w) q"
    using p(2) q(1) by (auto simp: parent_is_directory_iff is_directory_iff lookup_drop)
  show "is_directory (drop_path p w) q \<Longrightarrow> \<exists>m. n = Directory m"
    using q(2) by (auto simp: is_directory_iff lookup_drop split: if_splits)
qed

lemma keeps_tree_rename [keeps_intro]: "keeps tree_kept (rename p q)"
  unfolding rename_def
  by (rule tree_steps.keeps_syscall)
    (auto simp: tree_kept_def intro!: tree_ok_move split: option.splits)

end
