(* ===== verification/File_View.thy ===== *)
theory File_View
  imports World
begin

text \<open>
  The view of the tree the manager's guarantees are stated in: for every path, the bytes and
  the permission bits of the regular file there. Creating or pruning directories, moving a
  counter or calling the kernel does not change it. \<open>untouched S\<close> says that an action can have
  changed that view at most at the paths of \<open>S\<close>, whatever calls failed on the way.
\<close>

type_synonym view = "path \<Rightarrow> (bytes \<times> mode) option"

definition content :: "world \<Rightarrow> view" where
  "content w p = (case lookup w p of Some (File b m) \<Rightarrow> Some (b, m AND 511) | _ \<Rightarrow> None)"

definition untouched :: "path set \<Rightarrow> world \<Rightarrow> world \<Rightarrow> bool" where
  "untouched S w w' \<longleftrightarrow> (\<forall>p. p \<notin> S \<longrightarrow> content w' p = content w p)"

definition same_machine :: "world \<Rightarrow> world \<Rightarrow> bool" where
  "same_machine w w' \<longleftrightarrow> faults w' = faults w \<and> pid w' = pid w \<and> umask w' = umask w"

lemma content_more [simp]:
  "content (w\<lparr>ticks := t\<rparr>) = content w" "content (w\<lparr>temp_sequence := s\<rparr>) = content w"
  by (simp_all add: content_def fun_eq_iff)

lemma content_put [simp]:
  "content (put p (File b m) w) = (content w)(p \<mapsto> (b, m AND 511))"
  "content (put p (Directory m) w) = (content w)(p := None)"
  by (auto simp: content_def lookup_put fun_eq_iff)

lemma content_drop [simp]: "content (drop_path p w) = (content w)(p := None)"
  by (auto simp: content_def lookup_drop fun_eq_iff)

lemma content_NoneI: "lookup w p = None \<Longrightarrow> content w p = None"
  by (simp add: content_def)

lemma content_dir: "is_directory w p \<Longrightarrow> content w p = None"
  by (auto simp: content_def is_directory_iff)

lemma content_Some: "content w p = Some (b, m) \<longleftrightarrow> (\<exists>m'. lookup w p = Some (File b m') \<and> m = m' AND 511)"
  by (auto simp: content_def split: option.splits node.splits)

interpretation outside: step_relation "untouched S" for S
  by unfold_locales (auto simp: untouched_def)

interpretation machine: step_relation same_machine
  by unfold_locales (auto simp: same_machine_def)

lemma untouched_mono: "untouched S w w' \<Longrightarrow> S \<subseteq> T \<Longrightarrow> untouched T w w'"
  by (auto simp: untouched_def)

lemma keeps_untouched_mono: "keeps (untouched S) m \<Longrightarrow> S \<subseteq> T \<Longrightarrow> keeps (untouched T) m"
  unfolding keeps_def using untouched_mono by blast

lemma untouched_empty: "untouched {} w w' \<longleftrightarrow> content w' = content w"
  by (auto simp: untouched_def)

section \<open>The system calls in the view\<close>

lemma keeps_outside_create_new [keeps_intro]: "p \<in> S \<Longrightarrow> keeps (untouched S) (create_new p m)"
  unfolding create_new_def by (rule outside.keeps_syscall) (auto simp: untouched_def)

lemma keeps_outside_create_dir [keeps_intro]: "keeps (untouched S) (create_dir p)"
  unfolding create_dir_def
  by (rule outside.keeps_syscall) (auto simp: untouched_def content_NoneI)

lemma keeps_outside_set_permissions [keeps_intro]: "p \<in> S \<Longrightarrow> keeps (untouched S) (set_permissions p m)"
  unfolding set_permissions_def
  by (rule outside.keeps_syscall) (auto simp: untouched_def split: option.splits node.splits)

lemma keeps_outside_write_all [keeps_intro]: "p \<in> S \<Longrightarrow> keeps (untouched S) (write_all p b)"
  unfolding keeps_def write_all_def Let_def
  by (auto simp: untouched_def split: option.splits node.splits fault.splits)

lemma keeps_outside_remove_file [keeps_intro]: "p \<in> S \<Longrightarrow> keeps (untouched S) (remove_file p)"
  unfolding remove_file_def by (rule outside.keeps_syscall) (auto simp: untouched_def)

lemma keeps_outside_remove_dir [keeps_intro]: "keeps (untouched S) (remove_dir p)"
  unfolding remove_dir_def
  by (rule outside.keeps_syscall) (auto simp: untouched_def content_dir)

lemma content_put_node [simp]: "q \<noteq> p \<Longrightarrow> content (put p n w) q = content w q"
  by (simp add: content_def lookup_put)

lemma keeps_outside_rename [keeps_intro]: "p \<in> S \<Longrightarrow> q \<in> S \<Longrightarrow> keeps (untouched S) (rename p q)"
  unfolding rename_def
proof (rule outside.keeps_syscall, goal_cases)
  case (1 w)
  have "untouched S w (put q n (drop_path p w))" for n
    unfolding untouched_def
  proof (intro allI impI)
    fix r assume "r \<notin> S"
    with 1 have "r \<noteq> p" "r \<noteq> q" by auto
    then show "content (put q n (drop_path p w)) r = content w r" by simp
  qed
  then show ?case by (auto simp: outside.R_refl split: option.splits)
qed

lemma keeps_machine_calls [keeps_intro]:
  "keeps same_machine (create_new p m)" "keeps same_machine (create_dir p)"
  "keeps same_machine (set_permissions p m)" "keeps same_machine (remove_file p)"
  "keeps same_machine (remove_dir p)" "keeps same_machine (rename p q)"
  unfolding create_new_def create_dir_def set_permissions_def remove_file_def remove_dir_def rename_def
  by (rule machine.keeps_syscall; auto simp: same_machine_def split: option.splits node.splits)+

lemma keeps_machine_write_all [keeps_intro]: "keeps same_machine (write_all p b)"
  unfolding keeps_def write_all_def Let_def
  by (auto simp: same_machine_def split: option.splits node.splits fault.splits)

section \<open>Successful calls\<close>

text \<open>What a system call that returned without error did, in terms of the tree.\<close>

lemma syscall_Inr:
  "syscall f w = (Inr x, w') \<longleftrightarrow> faults w (ticks w) = None \<and> f (w\<lparr>ticks := Suc (ticks w)\<rparr>) = (Inr x, w')"
  by (auto simp: syscall_def Let_def split: option.splits fault.splits)

lemma symlink_metadata_Inr:
  "symlink_metadata p w = (Inr n, w') \<longleftrightarrow>
     faults w (ticks w) = None \<and> lookup w p = Some n \<and> w' = w\<lparr>ticks := Suc (ticks w)\<rparr>"
  by (auto simp: symlink_metadata_def syscall_Inr split: option.splits)

lemma symlink_metadata_world: "snd (symlink_metadata p w) = w\<lparr>ticks := Suc (ticks w)\<rparr>"
  by (simp add: symlink_metadata_def syscall_def Let_def split: option.splits fault.splits)

lemma create_new_Inr:
  "create_new p m w = (Inr x, w') \<longleftrightarrow>
     faults w (ticks w) = None \<and> lookup w p = None \<and> parent_is_directory w p \<and>
     w' = put p (File [] (m AND NOT (umask w))) (w\<lparr>ticks := Suc (ticks w)\<rparr>)"
  by (auto simp: create_new_def syscall_Inr)

lemma set_permissions_file_Inr:
  "lookup w p = Some (File b m0) \<Longrightarrow> set_permissions p m w = (Inr x, w') \<longleftrightarrow>
     faults w (ticks w) = None \<and> w' = put p (File b m) (w\<lparr>ticks := Suc (ticks w)\<rparr>)"
  by (auto simp: set_permissions_def syscall_Inr)

lemma write_all_Inr:
  "write_all p b w = (Inr x, w') \<longleftrightarrow>
     (\<exists>old m. lookup w p = Some (File old m) \<and> faults w (ticks w) = None \<and>
        w' = put p (File (old @ b) m) (w\<lparr>ticks := Suc (ticks w)\<rparr>))"
  by (auto simp: write_all_def Let_def split: option.splits node.splits fault.splits)

lemma sync_all_Inr:
  "sync_all p w = (Inr x, w') \<longleftrightarrow> faults w (ticks w) = None \<and> w' = w\<lparr>ticks := Suc (ticks w)\<rparr>"
  by (auto simp: sync_all_def syscall_Inr)

lemma open_directory_Inr:
  "open_directory p w = (Inr x, w') \<longleftrightarrow>
     faults w (ticks w) = None \<and> lookup w p \<noteq> None \<and> w' = w\<lparr>ticks := Suc (ticks w)\<rparr>"
  by (auto simp: open_directory_def syscall_Inr split: if_splits)

lemma rename_Inr:
  "rename p q w = (Inr x, w') \<longleftrightarrow>
     (\<exists>n. faults w (ticks w) = None \<and> lookup w p = Some n \<and> parent_is_directory w q \<and>
        \<not> is_directory w q \<and> \<not> is_directory w p \<and>
        w' = put q n (drop_path p (w\<lparr>ticks := Suc (ticks w)\<rparr>)))"
  by (auto simp: rename_def syscall_Inr split: option.splits if_splits)

lemma remove_file_Inr:
  "remove_file p w = (Inr x, w') \<longleftrightarrow>
     faults w (ticks w) = None \<and> lookup w p \<noteq> None \<and> \<not> is_directory w p \<and>
     w' = drop_path p (w\<lparr>ticks := Suc (ticks w)\<rparr>)"
  by (auto simp: remove_file_def syscall_Inr split: if_splits)

lemma create_dir_Inr:
  "create_dir p w = (Inr x, w') \<longleftrightarrow>
     faults w (ticks w) = None \<and> lookup w p = None \<and> parent_is_directory w p \<and>
     w' = put p (Directory (511 AND NOT (umask w))) (w\<lparr>ticks := Suc (ticks w)\<rparr>)"
  by (auto simp: create_dir_def syscall_Inr)

lemma fs_read_Inr:
  "fs_read p w = (Inr b, w') \<longleftrightarrow>
     faults w (ticks w) = None \<and> (\<exists>m. lookup w p = Some (File b m)) \<and> w' = w\<lparr>ticks := Suc (ticks w)\<rparr>"
  by (auto simp: fs_read_def syscall_Inr split: option.splits node.splits)

lemmas call_Inr = symlink_metadata_Inr create_new_Inr write_all_Inr sync_all_Inr open_directory_Inr
  rename_Inr remove_file_Inr create_dir_Inr fs_read_Inr

end
