(* ===== verification/Fs_Safe.thy ===== *)
theory Fs_Safe
  imports File_View
begin

text \<open>
  The safe file operations every planner goes through (\<^verbatim>\<open>src/src/fs_safe.rs\<close>): bounded
  snapshots, the sibling lock, atomic publication through a temporary file, removal, restore,
  pruning of emptied directories and the write pre-flight. SHA-256 is a parameter \<open>sha\<close> of the
  definitions that digest; its output is rendered in lower-case hexadecimal as the source does.
\<close>

section \<open>Data\<close>

datatype target_write = Write bytes | Remove | Leave

definition resulting_bytes :: "target_write \<Rightarrow> bytes option \<Rightarrow> bytes option" where
  "resulting_bytes t original =
     (case t of Write b \<Rightarrow> Some b | Remove \<Rightarrow> None | Leave \<Rightarrow> original)"

definition is_remove :: "target_write \<Rightarrow> bool" where
  "is_remove t \<longleftrightarrow> t = Remove"

definition is_leave :: "target_write \<Rightarrow> bool" where
  "is_leave t \<longleftrightarrow> t = Leave"

record snapshot =
  snap_bytes :: "bytes option"
  sha256 :: string
  unix_mode :: "mode option"

type_synonym hash = "bytes \<Rightarrow> bytes"

definition hex_digit :: "nat \<Rightarrow> char" where
  "hex_digit n = ''0123456789abcdef'' ! (n mod 16)"

definition digest_bytes :: "hash \<Rightarrow> bytes \<Rightarrow> string" where
  "digest_bytes sha b = concat (map (\<lambda>c. [hex_digit (byte_of c div 16), hex_digit (byte_of c)]) (sha b))"

definition absent :: "hash \<Rightarrow> snapshot" where
  "absent sha = \<lparr>snap_bytes = None, sha256 = digest_bytes sha ''<absent>'', unix_mode = None\<rparr>"

fun show_nat :: "nat \<Rightarrow> string" where
  "show_nat n = (if n < 10 then [char_of (48 + n)] else show_nat (n div 10) @ [char_of (48 + n mod 10)])"

declare show_nat.simps [simp del]

section \<open>Reading\<close>

definition snapshot_mode :: "mode \<Rightarrow> mode option" where
  "snapshot_mode m = Some (m AND 511)"

definition read_snapshot :: "hash \<Rightarrow> path \<Rightarrow> nat \<Rightarrow> string \<Rightarrow> (manager_error, snapshot) act" where
  "read_snapshot sha p maximum target =
     bindA (lift (validate_absolute_path p target)) (\<lambda>_.
     bindA (attempt (symlink_metadata p)) (\<lambda>r.
       case r of
         Inl NotFound \<Rightarrow> ret (absent sha)
       | Inl k \<Rightarrow> throw (Io ''inspect file'' k)
       | Inr Symlink \<Rightarrow> throw (UnsafePath target ''selected file is a symlink'')
       | Inr (File b m) \<Rightarrow>
           if length b > maximum then throw (UnsafePath target ''not a bounded regular file'')
           else bindA (map_err (Io ''read file'') (fs_read p)) (\<lambda>bs.
             if length bs > maximum then throw (UnsafePath target ''file grew beyond its size limit'')
             else ret \<lparr>snap_bytes = Some bs, sha256 = digest_bytes sha bs, unix_mode = snapshot_mode m\<rparr>)
       | Inr _ \<Rightarrow> throw (UnsafePath target ''not a bounded regular file'')))"

definition assert_unchanged ::
    "hash \<Rightarrow> path \<Rightarrow> snapshot \<Rightarrow> nat \<Rightarrow> string \<Rightarrow> (manager_error, unit) act" where
  "assert_unchanged sha p expected maximum target =
     bindA (read_snapshot sha p maximum target) (\<lambda>s.
       if s = expected then ret () else throw ConcurrentEdit)"

section \<open>Directories\<close>

definition set_directory_mode :: "path \<Rightarrow> (manager_error, unit) act" where
  "set_directory_mode p = map_err (Io ''set directory permissions'') (set_permissions p 448)"

definition ensure_one :: "string \<Rightarrow> path \<Rightarrow> (manager_error, unit) act" where
  "ensure_one ancestor_target cursor =
     bindA (attempt (symlink_metadata cursor)) (\<lambda>r.
       case r of
         Inr Symlink \<Rightarrow> throw (UnsafePath ancestor_target ''an ancestor is a symlink'')
       | Inr (Directory _) \<Rightarrow> ret ()
       | Inr _ \<Rightarrow> throw (UnsafePath ancestor_target ''an ancestor is not a directory'')
       | Inl NotFound \<Rightarrow>
           bindA (attempt (create_dir cursor)) (\<lambda>c.
             case c of
               Inr _ \<Rightarrow> set_directory_mode cursor
             | Inl AlreadyExists \<Rightarrow>
                 bindA (map_err (Io ''inspect directory'') (symlink_metadata cursor)) (\<lambda>n.
                   case n of Directory _ \<Rightarrow> ret ()
                   | _ \<Rightarrow> throw (UnsafePath ancestor_target ''raced with an unsafe entry''))
             | Inl k \<Rightarrow> throw (Io ''create directory'' k))
       | Inl k \<Rightarrow> throw (Io ''inspect directory'' k))"

fun ensure_components :: "string \<Rightarrow> path \<Rightarrow> component list \<Rightarrow> (manager_error, unit) act" where
  "ensure_components t cursor [] = ret ()"
| "ensure_components t cursor (c # cs) =
     (if c = RootDir then ensure_components t (cursor @ [c]) cs
      else bindA (ensure_one t (cursor @ [c])) (\<lambda>_. ensure_components t (cursor @ [c]) cs))"

definition ensure_parent_directory_for :: "path \<Rightarrow> string \<Rightarrow> string \<Rightarrow> (manager_error, unit) act" where
  "ensure_parent_directory_for p path_target ancestor_target =
     bindA (lift (validate_absolute_path p path_target)) (\<lambda>_.
       case parent p of
         None \<Rightarrow> throw (UnsafePath path_target ''path has no parent'')
       | Some d \<Rightarrow> ensure_components ancestor_target [] d)"

definition ensure_parent_directory :: "path \<Rightarrow> (manager_error, unit) act" where
  "ensure_parent_directory p =
     ensure_parent_directory_for p ''configuration file'' ''configuration directory''"

definition ensure_vault_parent_directory :: "path \<Rightarrow> (manager_error, unit) act" where
  "ensure_vault_parent_directory p = ensure_parent_directory_for p ''vault root'' ''vault root parent''"

definition managed_directory_names :: "bytes list" where
  "managed_directory_names =
     [''use-kaleidoscope'', ''skills'', ''.agents'', ''.claude'', ''rules'', ''.codex'', ''.cursor'']"

text \<open>The upward walk, over the reversed components of the directory.\<close>

fun prune_up :: "component list \<Rightarrow> ('e, unit) act" where
  "prune_up [] = ret ()"
| "prune_up (c # cs) =
     (if \<not> (case c of Normal n \<Rightarrow> n \<in> set managed_directory_names | _ \<Rightarrow> False) then ret ()
      else bindA (attempt (read_dir_nonempty (rev (c # cs)))) (\<lambda>r.
        if r = Inr True then ret ()
        else bindA (attempt (remove_dir (rev (c # cs)))) (\<lambda>d.
          if isl d then ret () else prune_up cs)))"

definition prune_empty_managed_directories :: "path \<Rightarrow> ('e, unit) act" where
  "prune_empty_managed_directories target =
     (case parent target of None \<Rightarrow> ret () | Some d \<Rightarrow> prune_up (rev d))"

section \<open>The lock\<close>

definition lock_create :: "path \<Rightarrow> (manager_error, path) act" where
  "lock_create p =
     bindA (map_err (Io ''create lock'') (create_new p 384)) (\<lambda>_.
     bindA get_world (\<lambda>w.
     bindA (map_err (Io ''write lock'') (write_all p (show_nat (pid w) @ nl))) (\<lambda>_.
     bindA (map_err (Io ''sync lock'') (sync_all p)) (\<lambda>_. ret p))))"

definition lock_acquire :: "path \<Rightarrow> (manager_error, path) act" where
  "lock_acquire target =
     bindA (ensure_parent_directory target) (\<lambda>_.
     bindA (lift (sibling_path target ''.kaleidoscope-lock'')) (\<lambda>p.
     bindA (attempt (symlink_metadata p)) (\<lambda>r.
       case r of
         Inr _ \<Rightarrow> throw (HostConflict TargetLockHeld)
       | Inl NotFound \<Rightarrow> lock_create p
       | Inl k \<Rightarrow> throw (Io ''inspect lock'' k))))"

text \<open>\<^verbatim>\<open>Drop for FileLock\<close>: the result of the unlink is ignored.\<close>

definition lock_release :: "path \<Rightarrow> ('e, unit) act" where
  "lock_release p = bindA (attempt (remove_file p)) (\<lambda>_. ret ())"

section \<open>Writing\<close>

definition sync_parent :: "path \<Rightarrow> (manager_error, unit) act" where
  "sync_parent p =
     (case parent p of
        None \<Rightarrow> throw (UnsafePath ''configuration file'' ''path has no parent'')
      | Some d \<Rightarrow>
          map_err (Io ''sync directory'') (bindA (open_directory d) (\<lambda>_. sync_all d)))"

definition next_sequence :: "('e, 64 word) act" where
  "next_sequence =
     bindA get_world (\<lambda>w.
     bindA (modify (\<lambda>w. w\<lparr>temp_sequence := temp_sequence w + 1\<rparr>)) (\<lambda>_. ret (temp_sequence w)))"

definition temp_suffix :: "nat \<Rightarrow> 64 word \<Rightarrow> bytes" where
  "temp_suffix process s = ''.tmp-'' @ show_nat process @ ''-'' @ show_nat (unat s)"

definition publish :: "path \<Rightarrow> path \<Rightarrow> bytes \<Rightarrow> mode option \<Rightarrow> (manager_error, unit) act" where
  "publish temporary p b m =
     bindA (case m of
              None \<Rightarrow> ret ()
            | Some md \<Rightarrow> map_err (Io ''set file permissions'') (set_permissions temporary md)) (\<lambda>_.
     bindA (map_err (Io ''write temporary file'') (write_all temporary b)) (\<lambda>_.
     bindA (map_err (Io ''sync temporary file'') (sync_all temporary)) (\<lambda>_.
     bindA (map_err (Io ''publish file'') (rename temporary p)) (\<lambda>_.
     sync_parent p))))"

definition atomic_write :: "path \<Rightarrow> bytes \<Rightarrow> mode option \<Rightarrow> (manager_error, unit) act" where
  "atomic_write p b m =
     bindA (ensure_parent_directory p) (\<lambda>_.
     bindA (attempt (symlink_metadata p)) (\<lambda>r.
       if r = (Inr Symlink :: io_kind + node)
       then throw (UnsafePath ''configuration file'' ''selected file is a symlink'')
       else
         bindA get_world (\<lambda>w.
         bindA next_sequence (\<lambda>s.
         bindA (lift (sibling_path p (temp_suffix (pid w) s))) (\<lambda>temporary.
         bindA (map_err (Io ''create temporary file'')
                  (create_new temporary (case m of None \<Rightarrow> 384 | Some md \<Rightarrow> md))) (\<lambda>_.
         bindA (attempt (publish temporary p b m)) (\<lambda>result.
         bindA (if isl result then bindA (attempt (remove_file temporary)) (\<lambda>_. ret ()) else ret ()) (\<lambda>_.
         lift result))))))))"

definition atomic_remove :: "path \<Rightarrow> (manager_error, unit) act" where
  "atomic_remove p =
     bindA (attempt (symlink_metadata p)) (\<lambda>r.
       case r of
         Inr (File _ _) \<Rightarrow>
           bindA (map_err (Io ''remove file'') (remove_file p)) (\<lambda>_. sync_parent p)
       | Inr _ \<Rightarrow> throw (UnsafePath ''configuration file'' ''removal target is not a regular file'')
       | Inl NotFound \<Rightarrow> ret ()
       | Inl k \<Rightarrow> throw (Io ''inspect removal target'' k))"

definition restore_snapshot :: "path \<Rightarrow> snapshot \<Rightarrow> (manager_error, unit) act" where
  "restore_snapshot p s =
     (case snap_bytes s of Some b \<Rightarrow> atomic_write p b (unix_mode s) | None \<Rightarrow> atomic_remove p)"

definition write_bounded_backup :: "path \<Rightarrow> snapshot \<Rightarrow> (manager_error, path option) act" where
  "write_bounded_backup target original =
     (case snap_bytes original of
        None \<Rightarrow> ret None
      | Some b \<Rightarrow>
          bindA (lift (sibling_path target ''.kaleidoscope-backup'')) (\<lambda>backup.
          bindA (atomic_write backup b (Some 384)) (\<lambda>_. ret (Some backup))))"

section \<open>The pre-flight check\<close>

text \<open>The nearest existing ancestor, over reversed components; the walk stops at the root.\<close>

fun existing_ancestor :: "component list \<Rightarrow> ('e, path) act" where
  "existing_ancestor [] = ret []"
| "existing_ancestor (c # cs) =
     bindA (path_exists (rev (c # cs))) (\<lambda>ok.
       if ok \<or> c = RootDir then ret (rev (c # cs)) else existing_ancestor cs)"

definition preflight_name :: "nat \<Rightarrow> 64 word \<Rightarrow> bytes" where
  "preflight_name process s = ''.kaleidoscope-preflight-'' @ show_nat process @ ''-'' @ show_nat (unat s)"

definition assert_writable :: "path \<Rightarrow> (manager_error, unit) act" where
  "assert_writable target =
     bindA (lift (validate_absolute_path target ''configuration file'')) (\<lambda>_.
       case parent target of
         None \<Rightarrow> throw (UnsafePath ''configuration file'' ''path has no parent'')
       | Some d \<Rightarrow>
           bindA (existing_ancestor (rev d)) (\<lambda>existing.
           bindA get_world (\<lambda>w.
           bindA next_sequence (\<lambda>s.
             let probe = existing @ [Normal (preflight_name (pid w) s)] in
             bindA (attempt (create_new probe 384)) (\<lambda>r.
               case r of
                 Inr _ \<Rightarrow> bindA (attempt (remove_file probe)) (\<lambda>_. ret ())
               | Inl k \<Rightarrow> throw (Io ''verify target is writable'' k))))))"

end
