(* ===== verification/Plan_Apply.thy ===== *)
theory Plan_Apply
  imports Fs_Safe
begin

text \<open>
  The application of a planned change, which \<^verbatim>\<open>instructions.rs\<close>, \<^verbatim>\<open>host.rs\<close> and \<^verbatim>\<open>hooks.rs\<close>
  each write out for their own plan type: under the target's lock, check that target and receipt are still what
  the plan was made for, back the target up unless the plan undoes an install or touches nothing,
  write the target, write or remove the receipt, put the target back if that fails, remove a
  redundant backup, drop the lock, prune. The copies differ in limits, labels, receipt type
  and in how they put the target back, so a change carries those as fields.
\<close>

record change =
  ch_target :: path
  ch_receipt_path :: path
  ch_backup_path :: path
  ch_undoing :: bool
  ch_original :: snapshot
  ch_receipt_original :: snapshot
  ch_write :: target_write
  ch_receipt_bytes :: "bytes option"
  ch_remove_backup :: bool
  ch_max :: nat
  ch_max_receipt :: nat
  ch_label :: string
  ch_receipt_label :: string
  ch_unchecked_rollback :: bool

definition snapshot_after :: "hash \<Rightarrow> target_write \<Rightarrow> snapshot \<Rightarrow> snapshot" where
  "snapshot_after sha write original =
     (case write of
        Write b \<Rightarrow> \<lparr>snap_bytes = Some b, sha256 = digest_bytes sha b, unix_mode = unix_mode original\<rparr>
      | Remove \<Rightarrow> absent sha
      | Leave \<Rightarrow> original)"

text \<open>\<^verbatim>\<open>self.original.unix_mode.or(Some(0o600))\<close>.\<close>

definition mode_or_default :: "snapshot \<Rightarrow> mode option" where
  "mode_or_default s = (case unix_mode s of None \<Rightarrow> Some 384 | Some m \<Rightarrow> Some m)"

definition write_target :: "path \<Rightarrow> target_write \<Rightarrow> snapshot \<Rightarrow> (manager_error, unit) act" where
  "write_target target write original =
     (case write of
        Write b \<Rightarrow> atomic_write target b (mode_or_default original)
      | Remove \<Rightarrow> atomic_remove target
      | Leave \<Rightarrow> ret ())"

definition back_up :: "change \<Rightarrow> (manager_error, unit) act" where
  "back_up ch =
     (if \<not> ch_undoing ch \<and> \<not> is_leave (ch_write ch)
      then bindA (write_bounded_backup (ch_target ch) (ch_original ch)) (\<lambda>_. ret ())
      else ret ())"

definition write_receipt :: "change \<Rightarrow> (manager_error, unit) act" where
  "write_receipt ch =
     (case ch_receipt_bytes ch of
        Some b \<Rightarrow> atomic_write (ch_receipt_path ch) b (Some 384)
      | None \<Rightarrow> atomic_remove (ch_receipt_path ch))"

text \<open>
  The error path of the receipt write: put the target back only if it is still ours. \<^verbatim>\<open>hooks.rs\<close>
  does not look, and puts it back unless the plan left it alone.
\<close>

definition roll_back :: "hash \<Rightarrow> change \<Rightarrow> (manager_error, unit) act" where
  "roll_back sha ch =
     (if ch_unchecked_rollback ch then
        if is_leave (ch_write ch) then ret () else restore_snapshot (ch_target ch) (ch_original ch)
      else
        bindA (attempt (assert_unchanged sha (ch_target ch)
                 (snapshot_after sha (ch_write ch) (ch_original ch)) (ch_max ch) (ch_label ch))) (\<lambda>same.
        if isl same then ret () else restore_snapshot (ch_target ch) (ch_original ch)))"

definition apply_body :: "hash \<Rightarrow> change \<Rightarrow> (manager_error, unit) act" where
  "apply_body sha ch =
     bindA (assert_unchanged sha (ch_target ch) (ch_original ch) (ch_max ch) (ch_label ch)) (\<lambda>_.
     bindA (assert_unchanged sha (ch_receipt_path ch) (ch_receipt_original ch)
              (ch_max_receipt ch) (ch_receipt_label ch)) (\<lambda>_.
     bindA (back_up ch) (\<lambda>_.
     bindA (write_target (ch_target ch) (ch_write ch) (ch_original ch)) (\<lambda>_.
     bindA (attempt (write_receipt ch)) (\<lambda>receipt_result.
     case receipt_result of
       Inl e \<Rightarrow> bindA (roll_back sha ch) (\<lambda>_. throw e)
     | Inr _ \<Rightarrow> if ch_remove_backup ch then atomic_remove (ch_backup_path ch) else ret ())))))"

text \<open>
  The lock is dropped on every way out of the body, and before the pruning that a removal
  ends with.
\<close>

definition apply_change :: "hash \<Rightarrow> change \<Rightarrow> (manager_error, unit) act" where
  "apply_change sha ch =
     bindA (lock_acquire (ch_target ch)) (\<lambda>lock.
     bindA (attempt (apply_body sha ch)) (\<lambda>result.
     bindA (lock_release lock) (\<lambda>_.
     bindA (lift result) (\<lambda>_.
     if is_remove (ch_write ch) then prune_empty_managed_directories (ch_target ch) else ret ()))))"

end
