(* ===== verification/Fs_Safe_Correct.thy ===== *)
theory Fs_Safe_Correct
  imports Fs_Safe
begin

text \<open>
  Correctness of the safe file operations: every one of them keeps the tree invariant and
  changes the file view only where it is meant to, whatever system calls fail; a successful
  atomic write is exactly one update of the view; a failed one never leaves a partial target;
  the lock excludes; pruning removes empty managed directories only; the pre-flight leaves
  nothing behind.
\<close>

section \<open>Frames\<close>

lemmas keeps_splits = option.splits sum.splits node.splits io_kind.splits unit.splits if_splits

lemma ensure_one_content: "keeps (untouched S) (ensure_one t cursor)"
proof -
  have mk: "untouched S w (snd (set_directory_mode c w'))"
    if "create_dir c w = (Inr (), w')" for c w w'
    using that
    by (auto simp: create_dir_Inr set_directory_mode_def map_err_def set_permissions_def syscall_def
        Let_def lookup_put untouched_def content_NoneI split: prod.splits sum.splits option.splits fault.splits)
  have "keeps (untouched S) (bindA (attempt (create_dir cursor)) (\<lambda>c.
             case c of
               Inr _ \<Rightarrow> set_directory_mode cursor
             | Inl AlreadyExists \<Rightarrow>
                 bindA (map_err (Io ''inspect directory'') (symlink_metadata cursor)) (\<lambda>n.
                   case n of Directory _ \<Rightarrow> ret ()
                   | _ \<Rightarrow> throw (UnsafePath t ''raced with an unsafe entry''))
             | Inl k \<Rightarrow> throw (Io ''create directory'' k)))" (is "keeps _ (bindA _ ?k)")
    unfolding keeps_def
  proof
    fix w
    obtain r w' where cd: "create_dir cursor w = (r, w')" by fastforce
    show "untouched S w (snd (bindA (attempt (create_dir cursor)) ?k w))"
    proof (cases r)
      case (Inl k)
      have "keeps (untouched S) (?k (Inl k))"
        by (auto intro!: keeps_intro split: keeps_splits)
      moreover have "untouched S w w'" using keepsD[OF keeps_outside_create_dir cd] .
      moreover have "bindA (attempt (create_dir cursor)) ?k w = ?k (Inl k) w'"
        using cd Inl by (simp add: bindA_def attempt_def)
      ultimately show ?thesis
        unfolding keeps_def by (simp only:) (rule outside.R_trans, assumption, blast)
    next
      case (Inr u)
      then show ?thesis using mk[of cursor w w'] cd by (simp add: bindA_def attempt_def)
    qed
  qed
  then show ?thesis
    unfolding ensure_one_def by (auto intro!: keeps_intro split: keeps_splits)
qed

lemma ensure_components_content [keeps_intro]: "keeps (untouched S) (ensure_components t cursor cs)"
  by (induction t cursor cs rule: ensure_components.induct)
    (auto intro!: keeps_intro ensure_one_content)

lemma ensure_parent_content [keeps_intro]:
  "keeps (untouched S) (ensure_parent_directory p)"
  "keeps (untouched S) (ensure_vault_parent_directory p)"
  unfolding ensure_parent_directory_def ensure_vault_parent_directory_def ensure_parent_directory_for_def
  by (auto intro!: keeps_intro split: keeps_splits)

lemma ensure_components_keeps:
  assumes "\<And>c. keeps R (ensure_one t c)" and "state_preorder R"
  shows "keeps R (ensure_components t cursor cs)"
  by (induction cs arbitrary: cursor)
    (auto intro!: state_preorder.keeps_ret state_preorder.keeps_bindA assms)

lemma ensure_one_tree [keeps_intro]: "keeps tree_kept (ensure_one t c)" "keeps same_machine (ensure_one t c)"
  unfolding ensure_one_def set_directory_mode_def
  by (auto intro!: keeps_intro split: keeps_splits)

lemma ensure_parent_tree [keeps_intro]:
  "keeps tree_kept (ensure_parent_directory p)" "keeps same_machine (ensure_parent_directory p)"
  unfolding ensure_parent_directory_def ensure_parent_directory_for_def
  by (auto intro!: keeps_intro ensure_components_keeps tree_steps.state_preorder_axioms
      machine.state_preorder_axioms split: keeps_splits)

text \<open>Reading changes nothing in any of the relations.\<close>

context step_relation
begin

lemma keeps_read_snapshot [keeps_intro]: "keeps R (read_snapshot sha p n t)"
  unfolding read_snapshot_def by (auto intro!: keeps_intro split: keeps_splits)

lemma keeps_assert_unchanged [keeps_intro]: "keeps R (assert_unchanged sha p s n t)"
  unfolding assert_unchanged_def by (auto intro!: keeps_intro)

lemma keeps_next_sequence [keeps_intro]: "keeps R next_sequence"
  unfolding next_sequence_def by (auto intro!: keeps_intro)

lemma keeps_sync_parent [keeps_intro]: "keeps R (sync_parent p)"
  unfolding sync_parent_def by (auto intro!: keeps_intro split: option.splits)

lemma keeps_existing_ancestor [keeps_intro]: "keeps R (existing_ancestor cs)"
  by (induction cs) (auto intro!: keeps_intro)

end

text \<open>The temporary siblings of a target.\<close>

definition temp_siblings :: "path \<Rightarrow> path set" where
  "temp_siblings p = {q. \<exists>n s. sibling_path p (temp_suffix n s) = Inr q}"

lemma publish_frame [keeps_intro]:
  "t \<in> S \<Longrightarrow> p \<in> S \<Longrightarrow> keeps (untouched S) (publish t p b m)"
  "keeps tree_kept (publish t p b m)" "keeps same_machine (publish t p b m)"
  unfolding publish_def by (auto intro!: keeps_intro split: option.splits)

lemma atomic_write_frame [keeps_intro]:
  "keeps tree_kept (atomic_write p b m)" "keeps same_machine (atomic_write p b m)"
  unfolding atomic_write_def by (auto intro!: keeps_intro split: if_splits)

lemma atomic_write_outside:
  assumes "insert p (temp_siblings p) \<subseteq> S"
  shows "keeps (untouched S) (atomic_write p b m)"
proof -
  have tail: "keeps (untouched S) (bindA (map_err (Io ''create temporary file'') (create_new t md)) (\<lambda>_.
         bindA (attempt (publish t p b m)) (\<lambda>result.
         bindA (if isl result then bindA (attempt (remove_file t)) (\<lambda>_. ret ()) else ret ()) (\<lambda>_.
         lift result))))" if "t \<in> S" for t md
    using that assms by (auto intro!: keeps_intro split: if_splits)
  have sib: "keeps (untouched S) (bindA (lift (sibling_path p (temp_suffix n s))) k)"
    if "\<And>t. t \<in> S \<Longrightarrow> keeps (untouched S) (k t)" for n s and k :: "path \<Rightarrow> (manager_error, unit) act"
  proof (cases "sibling_path p (temp_suffix n s)")
    case (Inr t)
    then have "t \<in> S" using assms by (auto simp: temp_siblings_def)
    with that[OF this] Inr show ?thesis by (simp add: keeps_def bindA_def lift_def)
  qed (simp add: keeps_def bindA_def lift_def outside.R_refl)
  show ?thesis
    unfolding atomic_write_def
    by (auto intro!: keeps_intro sib tail split: if_splits)
qed

lemma atomic_remove_frame [keeps_intro]:
  "p \<in> S \<Longrightarrow> keeps (untouched S) (atomic_remove p)"
  "keeps tree_kept (atomic_remove p)" "keeps same_machine (atomic_remove p)"
  unfolding atomic_remove_def by (auto intro!: keeps_intro split: keeps_splits)

lemma prune_frame [keeps_intro]:
  "keeps (untouched S) (prune_empty_managed_directories p)"
  "keeps tree_kept (prune_empty_managed_directories p)"
  "keeps same_machine (prune_empty_managed_directories p)"
proof -
  have "keeps (untouched S) (prune_up cs)" "keeps tree_kept (prune_up cs)" "keeps same_machine (prune_up cs)"
    for cs
    by (induction cs) (auto intro!: keeps_intro split: component.splits)
  then show "keeps (untouched S) (prune_empty_managed_directories p)"
    "keeps tree_kept (prune_empty_managed_directories p)"
    "keeps same_machine (prune_empty_managed_directories p)"
    unfolding prune_empty_managed_directories_def by (auto intro!: keeps_intro split: option.splits)
qed

lemma lock_release_frame [keeps_intro]:
  "l \<in> S \<Longrightarrow> keeps (untouched S) (lock_release l)"
  "keeps tree_kept (lock_release l)" "keeps same_machine (lock_release l)"
  unfolding lock_release_def by (auto intro!: keeps_intro)

lemma lock_acquire_frame [keeps_intro]:
  "keeps tree_kept (lock_acquire t)" "keeps same_machine (lock_acquire t)"
  unfolding lock_acquire_def lock_create_def by (auto intro!: keeps_intro split: keeps_splits)

section \<open>A successful write is one update\<close>

lemma publish_Inr:
  assumes run: "publish t p b (Some m) w = (Inr u, w')" and t: "lookup w t = Some (File old m0)" and tp: "t \<noteq> p"
  shows "lookup w' = (lookup w)(t := None, p \<mapsto> File (old @ b) m)"
proof -
  from run obtain w1 w2 w3 w4 where
    1: "set_permissions t m w = (Inr (), w1)" and 2: "write_all t b w1 = (Inr (), w2)" and
    3: "sync_all t w2 = (Inr (), w3)" and 4: "rename t p w3 = (Inr (), w4)" and
    5: "sync_parent p w4 = (Inr u, w')"
    unfolding publish_def by (auto simp: act_run)
  have "lookup w1 = (lookup w)(t \<mapsto> File old m)"
    using 1 t by (simp add: set_permissions_file_Inr lookup_put)
  moreover from this 2 have "lookup w2 = (lookup w)(t \<mapsto> File (old @ b) m)"
    by (auto simp: write_all_Inr lookup_put)
  moreover from this 3 4 have "lookup w4 = (lookup w)(t := None, p \<mapsto> File (old @ b) m)"
    by (auto simp: sync_all_Inr rename_Inr tree.get_move)
  moreover have "lookup w' = lookup w4"
    using 5 by (auto simp: sync_parent_def act_run open_directory_Inr sync_all_Inr split: option.splits)
  ultimately show ?thesis by simp
qed

text \<open>The stages of an atomic write that got as far as creating its temporary file.\<close>

lemma atomic_write_stages:
  assumes "atomic_write p b m w = (Inr u, w')"
  obtains w1 t w3 w4 where
    "ensure_parent_directory p w = (Inr (), w1)" "lookup w1 p \<noteq> Some Symlink \<or> faults w1 (ticks w1) \<noteq> None"
    "lookup w3 = lookup w1" "t \<in> temp_siblings p"
    "create_new t (case m of None \<Rightarrow> 384 | Some md \<Rightarrow> md) w3 = (Inr (), w4)"
    "publish t p b m w4 = (Inr (), w')"
proof -
  from assms obtain w1 r w2 s w3 t w4 where
    1: "ensure_parent_directory p w = (Inr (), w1)" and 2: "symlink_metadata p w1 = (r, w2)"
    and 3: "r \<noteq> Inr Symlink" and 4: "next_sequence w2 = (Inr s :: manager_error + 64 word, w3)"
    and 5: "Inr t = sibling_path p (temp_suffix (pid w2) s)"
    and 6: "create_new t (case m of None \<Rightarrow> 384 | Some md \<Rightarrow> md) w3 = (Inr (), w4)"
    and 7: "publish t p b m w4 = (Inr (), w')"
    unfolding atomic_write_def by (auto simp: act_run split: if_splits)
  have "lookup w3 = lookup w1"
    using 2 4 symlink_metadata_world[of p w1] by (auto simp: next_sequence_def act_run)
  moreover have "lookup w1 p \<noteq> Some Symlink \<or> faults w1 (ticks w1) \<noteq> None"
    using 2 3 symlink_metadata_Inr[of p w1 Symlink] by (cases "faults w1 (ticks w1)") auto
  moreover have "t \<in> temp_siblings p" using 5 by (auto simp: temp_siblings_def intro: sym)
  ultimately show thesis using that 1 6 7 by blast
qed

lemma temp_sibling_neq: "t \<in> temp_siblings p \<Longrightarrow> t \<noteq> p"
  by (auto simp: temp_siblings_def temp_suffix_def dest: sibling_path_neq)

lemma atomic_write_Inr:
  assumes run: "atomic_write p b (Some m) w = (Inr u, w')"
  shows "content w' = (content w)(p \<mapsto> (b, m AND 511))" and "lookup w' p = Some (File b m)"
proof -
  obtain w1 t w3 w4 where 1: "ensure_parent_directory p w = (Inr (), w1)" and 3: "lookup w3 = lookup w1"
    and t: "t \<in> temp_siblings p" and 4: "create_new t m w3 = (Inr (), w4)"
    and 5: "publish t p b (Some m) w4 = (Inr (), w')"
    using atomic_write_stages[OF run] by simp metis
  have tp: "t \<noteq> p" using t by (rule temp_sibling_neq)
  from 4 have none: "lookup w3 t = None" and l4: "lookup w4 = (lookup w3)(t \<mapsto> File [] (m AND NOT (umask w3)))"
    by (auto simp: create_new_Inr lookup_put)
  from publish_Inr[OF 5 _ tp] l4
  have l': "lookup w' = (lookup w3)(t := None, p \<mapsto> File b m)" by simp
  then show "lookup w' p = Some (File b m)" by simp
  have "content w1 = content w" using keepsD[OF ensure_parent_content(1)[of "{}"] 1] by (simp add: untouched_empty)
  moreover have "content w3 = content w1" using 3 by (simp add: content_def fun_eq_iff)
  ultimately have "content w3 = content w" by simp
  moreover have "content w' = (content w3)(t := None, p \<mapsto> (b, m AND 511))"
    using l' by (auto simp: fun_eq_iff content_def)
  moreover have "content w3 t = None" using none by (rule content_NoneI)
  ultimately show "content w' = (content w)(p \<mapsto> (b, m AND 511))"
    by (metis fun_upd_triv)
qed

section \<open>A failed write is all or nothing\<close>

lemma publish_atomic:
  assumes run: "publish t p b (Some m) w = (r, w')" and t: "lookup w t = Some (File [] m0)" and tp: "t \<noteq> p"
  shows "content w' p = content w p \<or> content w' p = Some (b, m AND 511)"
proof -
  obtain r1 w1 where 1: "set_permissions t m w = (r1, w1)" by fastforce
  obtain r2 w2 where 2: "write_all t b w1 = (r2, w2)" by fastforce
  obtain r3 w3 where 3: "sync_all t w2 = (r3, w3)" by fastforce
  obtain r4 w4 where 4: "rename t p w3 = (r4, w4)" by fastforce
  obtain r5 w5 where 5: "sync_parent p w4 = (r5, w5)" by fastforce
  have run': "(r, w') = (case r1 of Inl e \<Rightarrow> (Inl (Io ''set file permissions'' e), w1) | Inr _ \<Rightarrow>
      case r2 of Inl e \<Rightarrow> (Inl (Io ''write temporary file'' e), w2) | Inr _ \<Rightarrow>
      case r3 of Inl e \<Rightarrow> (Inl (Io ''sync temporary file'' e), w3) | Inr _ \<Rightarrow>
      case r4 of Inl e \<Rightarrow> (Inl (Io ''publish file'' e), w4) | Inr _ \<Rightarrow> (r5, w5))"
    using run 1 2 3 4 5 unfolding publish_def by (auto simp: bindA_def map_err_def split: sum.splits)
  have c1: "content w1 p = content w p"
    using keepsD[OF keeps_outside_set_permissions[of t "{t}"] 1] tp by (simp add: untouched_def)
  have c2: "content w2 p = content w1 p"
    using keepsD[OF keeps_outside_write_all[of t "{t}"] 2] tp by (simp add: untouched_def)
  have c3: "content w3 = content w2"
    using keepsD[OF outside.keeps_sync_all[of "{}"] 3] by (simp add: untouched_empty)
  have c5: "content w5 = content w4"
    using keepsD[OF outside.keeps_sync_parent[of "{}"] 5] by (simp add: untouched_empty)
  have l3: "lookup w3 t = Some (File b m)" if "r1 = Inr ()" "r2 = Inr ()" "r3 = Inr ()"
    using 1 2 3 that t by (auto simp: set_permissions_file_Inr write_all_Inr sync_all_Inr lookup_put)
  have c4: "content w4 p = content w3 p \<or> content w4 p = Some (b, m AND 511)"
    if "r1 = Inr ()" "r2 = Inr ()" "r3 = Inr ()"
    using 4 l3[OF that]
    by (auto simp: rename_def syscall_def Let_def lookup_put content_def split: option.splits fault.splits if_splits)
  show ?thesis using run' c1 c2 c3 c4 c5 by (auto split: sum.splits)
qed

text \<open>
  Whatever calls fail, and however much of a failing write reached the disk: after
  \<open>atomic_write\<close> the target holds either what it held before or all of the new bytes, and no
  file other than the target and its temporary siblings has changed.
\<close>

definition old_or_new :: "path \<Rightarrow> (bytes \<times> mode) option \<Rightarrow> world \<Rightarrow> world \<Rightarrow> bool" where
  "old_or_new p v w w' \<longleftrightarrow> content w' p = content w p \<or> content w' p = v"

interpretation either: step_relation "old_or_new p v" for p v
  by unfold_locales (auto simp: old_or_new_def)

lemma keeps_old_or_new: "keeps (untouched S) m \<Longrightarrow> p \<notin> S \<Longrightarrow> keeps (old_or_new p v) m"
  by (auto simp: keeps_def untouched_def old_or_new_def)

lemma create_then_publish:
  assumes tp: "t \<noteq> p" and k: "\<And>r. keeps (untouched {t}) (k r)"
  shows "keeps (old_or_new p (Some (b, m AND 511)))
    (bindA (map_err (Io ''create temporary file'') (create_new t md)) (\<lambda>_. bindA (attempt (publish t p b (Some m))) k))"
    (is "keeps ?R _")
  unfolding keeps_def
proof
  fix w
  obtain r1 w1 where 1: "create_new t md w = (r1, w1)" by fastforce
  obtain r2 w2 where 2: "publish t p b (Some m) w1 = (r2, w2)" by fastforce
  have c1: "?R w w1" using keepsD[OF keeps_old_or_new[OF keeps_outside_create_new[of t "{t}"]] 1] tp by simp
  show "?R w (snd (bindA (map_err (Io ''create temporary file'') (create_new t md))
    (\<lambda>_. bindA (attempt (publish t p b (Some m))) k) w))"
  proof (cases r1)
    case (Inl e)
    with 1 c1 show ?thesis by (simp add: bindA_def map_err_def)
  next
    case (Inr u)
    then have "?R w1 w2" using publish_atomic[OF 2 _ tp] 1 by (auto simp: create_new_Inr lookup_put old_or_new_def)
    moreover have "?R w2 (snd (k r2 w2))"
      using keeps_old_or_new[OF k, of p "Some (b, m AND 511)" r2] tp by (simp add: keeps_def)
    ultimately have "?R w (snd (k r2 w2))" using c1 either.R_trans by blast
    with 1 2 Inr show ?thesis by (simp add: bindA_def map_err_def attempt_def)
  qed
qed

lemma atomic_write_old_or_new: "keeps (old_or_new p (Some (b, m AND 511))) (atomic_write p b (Some m))"
proof -
  have sib: "keeps (old_or_new p v) (bindA (lift (sibling_path p (temp_suffix n s))) k)"
    if "\<And>t. t \<noteq> p \<Longrightarrow> keeps (old_or_new p v) (k t)" for n s v and k :: "path \<Rightarrow> (manager_error, unit) act"
  proof (cases "sibling_path p (temp_suffix n s)")
    case (Inr t)
    then have "t \<noteq> p" using temp_sibling_neq by (auto simp: temp_siblings_def)
    with that[OF this] Inr show ?thesis by (simp add: keeps_def bindA_def lift_def)
  qed (simp add: keeps_def bindA_def lift_def either.R_refl)
  show ?thesis
    unfolding atomic_write_def
    by (auto intro!: keeps_intro sib create_then_publish keeps_old_or_new[OF ensure_parent_content(1)[of "{}"]]
        split: if_splits)
qed

lemma atomic_write_atomic:
  assumes run: "atomic_write p b (Some m) w = (r, w')"
  shows "content w' p = content w p \<or> content w' p = Some (b, m AND 511)"
    and "q \<noteq> p \<Longrightarrow> q \<notin> temp_siblings p \<Longrightarrow> content w' q = content w q"
  using keepsD[OF atomic_write_old_or_new run] keepsD[OF atomic_write_outside[OF order_refl] run]
  by (simp_all add: old_or_new_def untouched_def)

section \<open>Reads, removals, restores\<close>

text \<open>The snapshot a world would give for a path, from the file view alone.\<close>

definition snapshot_of :: "hash \<Rightarrow> (bytes \<times> mode) option \<Rightarrow> snapshot" where
  "snapshot_of sha c =
     (case c of None \<Rightarrow> absent sha
      | Some (b, m) \<Rightarrow> \<lparr>snap_bytes = Some b, sha256 = digest_bytes sha b, unix_mode = Some m\<rparr>)"

lemma snapshot_of_bytes [simp]: "snap_bytes (snapshot_of sha c) = map_option fst c"
  by (simp add: snapshot_of_def absent_def split: option.splits prod.splits)

lemma snapshot_of_mode [simp]: "unix_mode (snapshot_of sha c) = map_option snd c"
  by (simp add: snapshot_of_def absent_def split: option.splits prod.splits)

lemma snapshot_of_sha:
  "sha256 (snapshot_of sha c) = digest_bytes sha (case c of None \<Rightarrow> ''<absent>'' | Some (b, _) \<Rightarrow> b)"
  by (simp add: snapshot_of_def absent_def split: option.splits prod.splits)

lemma read_snapshot_Inr:
  assumes "read_snapshot sha p n t w = (Inr s, w')"
  shows "s = snapshot_of sha (content w p)" and "content w' = content w" and "lookup w' = lookup w"
    and "case snap_bytes s of None \<Rightarrow> True | Some b \<Rightarrow> length b \<le> n"
    and "validate_absolute_path p t = Inr ()" and "lookup w p = None \<or> (\<exists>b m. lookup w p = Some (File b m))"
proof -
  show "content w' = content w"
    using keepsD[OF outside.keeps_read_snapshot[of "{}"] assms] by (simp add: untouched_empty)
  obtain r w1 where 1: "symlink_metadata p w = (r, w1)" by fastforce
  have lk1: "lookup w1 = lookup w" using symlink_metadata_world[of p w] 1 by simp
  have v: "validate_absolute_path p t = Inr ()"
    using assms by (auto simp: read_snapshot_def act_run)
  have r: "r = Inl NotFound \<Longrightarrow> lookup w p = None" "r = Inr nd \<Longrightarrow> lookup w p = Some nd" for nd
    using 1 by (auto simp: symlink_metadata_def syscall_def Let_def split: option.splits fault.splits if_splits)
  show "validate_absolute_path p t = Inr ()" by fact
  show "s = snapshot_of sha (content w p)" and "lookup w' = lookup w"
    and "case snap_bytes s of None \<Rightarrow> True | Some b \<Rightarrow> length b \<le> n"
    and "lookup w p = None \<or> (\<exists>b m. lookup w p = Some (File b m))"
    using assms 1 lk1 r v
    by (auto simp: read_snapshot_def act_run fs_read_Inr snapshot_of_def content_def absent_def snapshot_mode_def
        split: sum.splits node.splits io_kind.splits if_splits option.splits)
qed

lemma assert_unchanged_Inr:
  assumes "assert_unchanged sha p s n t w = (Inr u, w')"
  shows "s = snapshot_of sha (content w p)" and "content w' = content w" and "lookup w' = lookup w"
  using assms read_snapshot_Inr[of sha p n t w]
  by (auto simp: assert_unchanged_def act_run split: if_splits)

lemma atomic_remove_Inr:
  assumes "atomic_remove p w = (Inr u, w')"
  shows "lookup w' = (lookup w)(p := None)" and "content w' = (content w)(p := None)"
proof -
  obtain r w1 where 1: "symlink_metadata p w = (r, w1)" by fastforce
  have lk1: "lookup w1 = lookup w" using symlink_metadata_world[of p w] 1 by simp
  have r: "r = Inl NotFound \<Longrightarrow> lookup w p = None" "r = Inr nd \<Longrightarrow> lookup w p = Some nd" for nd
    using 1 by (auto simp: symlink_metadata_def syscall_def Let_def split: option.splits fault.splits if_splits)
  show l: "lookup w' = (lookup w)(p := None)"
    using assms 1 lk1 r
    by (auto simp: atomic_remove_def act_run remove_file_Inr sync_parent_def open_directory_Inr sync_all_Inr
        lookup_drop split: sum.splits node.splits io_kind.splits option.splits)
  show "content w' = (content w)(p := None)" using l by (auto simp: content_def fun_eq_iff)
qed

lemma restore_snapshot_Inr:
  assumes run: "restore_snapshot p (snapshot_of sha c) w = (Inr u, w')"
    and masked: "\<And>b m. c = Some (b, m) \<Longrightarrow> m AND 511 = m"
  shows "content w' = (content w)(p := c)"
proof (cases c)
  case None
  with run show ?thesis by (simp add: restore_snapshot_def atomic_remove_Inr(2))
next
  case (Some bm)
  obtain b m where "bm = (b, m)" by fastforce
  with run Some masked show ?thesis by (simp add: restore_snapshot_def atomic_write_Inr(1))
qed

text \<open>
  The safe file operations return: on a machine where no system call fails, with an absolute
  traversal-free target whose ancestors are directories or absent and with the sidecar names
  free, each operation succeeds. These lemmas are what keeps the correctness statements of the
  planners from being about runs that never finish.
\<close>

definition calm :: "world \<Rightarrow> bool" where
  "calm w \<longleftrightarrow> (\<forall>n. faults w n = None)"

definition path_ok :: "path \<Rightarrow> bool" where
  "path_ok p \<longleftrightarrow> (\<exists>ns. ns \<noteq> [] \<and> p = RootDir # map Normal ns \<and> list_all utf8_valid ns)"

definition anc_ok :: "world \<Rightarrow> path \<Rightarrow> bool" where
  "anc_ok w p \<longleftrightarrow> is_directory w [RootDir] \<and>
     (\<forall>k. 0 < k \<longrightarrow> k < length p \<longrightarrow> lookup w (take k p) = None \<or> is_directory w (take k p))"

definition file_or_free :: "world \<Rightarrow> path \<Rightarrow> bool" where
  "file_or_free w p \<longleftrightarrow> lookup w p = None \<or> (\<exists>b m. lookup w p = Some (File b m))"

lemma calm_simps [simp]:
  "calm (w\<lparr>ticks := t\<rparr>) = calm w" "calm (w\<lparr>temp_sequence := s\<rparr>) = calm w"
  "calm (put p n w) = calm w" "calm (drop_path p w) = calm w"
  by (simp_all add: calm_def)

lemma calm_faults: "calm w \<Longrightarrow> faults w n = None"
  by (simp add: calm_def)

lemma calm_same: "same_machine w w' \<Longrightarrow> calm w \<Longrightarrow> calm w'"
  by (simp add: calm_def same_machine_def)

lemma syscall_calm: "calm w \<Longrightarrow> syscall f w = f (w\<lparr>ticks := Suc (ticks w)\<rparr>)"
  by (simp add: syscall_def calm_def Let_def)

lemma path_okE:
  assumes "path_ok p"
  obtains d n where "p = d @ [Normal n]" and "d \<noteq> []" and "hd d = RootDir"
    and "\<And>c. c \<in> set (tl d) \<Longrightarrow> \<exists>m. c = Normal m"
proof -
  from assms obtain ns where ns: "ns \<noteq> []" "p = RootDir # map Normal ns" by (auto simp: path_ok_def)
  then have "p = (RootDir # map Normal (butlast ns)) @ [Normal (last ns)]"
    by simp (metis append_butlast_last_id list.simps(8,9) map_append)
  then show thesis by (rule that) auto
qed

lemma path_ok_valid: "path_ok p \<Longrightarrow> validate_absolute_path p t = Inr ()"
  by (auto simp: path_ok_def validate_absolute_path_Inr list_ex_iff list_all_iff)

lemma path_ok_sibling:
  assumes "path_ok p" and "utf8_valid s" and "sibling_path p s = Inr q"
  shows "path_ok q"
proof -
  from assms(1) obtain ns where ns: "ns \<noteq> []" "p = RootDir # map Normal ns" "list_all utf8_valid ns"
    by (auto simp: path_ok_def)
  then obtain ms m where "ns = ms @ [m]" by (metis append_butlast_last_id)
  moreover from assms(3) this ns have "q = RootDir # map Normal (ms @ [m @ s])"
    by (auto simp: sibling_path_def file_name_def with_file_name_def)
  ultimately show ?thesis
    using ns(3) assms(2) unfolding path_ok_def by (intro exI[of _ "ms @ [m @ s]"]) (auto simp: utf8_valid_append)
qed

lemma not_throughI:
  assumes "\<And>k. 0 < k \<Longrightarrow> k < length p \<Longrightarrow> lookup w (take k p) = None \<or> is_directory w (take k p)"
  shows "\<not> through_file w p"
proof -
  have "\<not> (case lookup w (take k p) of Some (File _ _) \<Rightarrow> True | Some Special \<Rightarrow> True | _ \<Rightarrow> False)"
    if "k \<in> set [1..<length p]" for k
    using assms[of k] that by (auto simp: is_directory_iff)
  then show ?thesis unfolding through_file_def list_ex_iff by blast
qed

lemma anc_ok_not_through: "anc_ok w p \<Longrightarrow> \<not> through_file w p"
  by (rule not_throughI) (simp add: anc_ok_def)

lemma symlink_metadata_calm:
  assumes "calm w" and "anc_ok w p"
  shows "symlink_metadata p w =
    (case lookup w p of Some n \<Rightarrow> Inr n | None \<Rightarrow> Inl NotFound, w\<lparr>ticks := Suc (ticks w)\<rparr>)"
  using assms anc_ok_not_through[OF assms(2)]
  by (simp add: symlink_metadata_def syscall_calm through_file_def split: option.splits)

section \<open>Parents\<close>

definition step_frame :: "path set \<Rightarrow> world \<Rightarrow> world \<Rightarrow> bool" where
  "step_frame D w w' \<longleftrightarrow> calm w' \<and> pid w' = pid w \<and> (\<forall>q. is_directory w q \<longrightarrow> is_directory w' q) \<and>
     (\<forall>q. q \<notin> D \<longrightarrow> lookup w' q = lookup w q)"

lemma step_frame_trans: "step_frame D w v \<Longrightarrow> step_frame D v u \<Longrightarrow> step_frame D w u"
  by (auto simp: step_frame_def)

lemma step_frame_mono: "step_frame D w v \<Longrightarrow> D \<subseteq> E \<Longrightarrow> step_frame E w v"
  by (auto simp: step_frame_def)

lemma ensure_one_calm:
  assumes w: "calm w" "is_directory w d" "\<not> through_file w (d @ [Normal n])"
    and free: "lookup w (d @ [Normal n]) = None \<or> is_directory w (d @ [Normal n])"
  shows "\<exists>w'. ensure_one t (d @ [Normal n]) w = (Inr (), w') \<and> is_directory w' (d @ [Normal n]) \<and>
    step_frame {d @ [Normal n]} w w'"
proof (cases "lookup w (d @ [Normal n])")
  case None
  with w show ?thesis
    by (auto simp: ensure_one_def bindA_def attempt_def symlink_metadata_def create_dir_def syscall_calm
        through_file_def parent_is_directory_iff set_directory_mode_def map_err_def set_permissions_def
        lookup_put step_frame_def is_directory_iff split: option.splits)
next
  case (Some nd)
  with free obtain m where "nd = Directory m" by (auto simp: is_directory_iff)
  with Some w show ?thesis
    by (auto simp: ensure_one_def bindA_def attempt_def symlink_metadata_def syscall_calm ret_def
        step_frame_def is_directory_iff)
qed

lemma ensure_components_calm:
  assumes "calm w" "is_directory w d" "\<And>c. c \<in> set cs \<Longrightarrow> \<exists>m. c = Normal m"
    and "\<And>k. 0 < k \<Longrightarrow> k \<le> length d + length cs \<Longrightarrow>
      lookup w (take k (d @ cs)) = None \<or> is_directory w (take k (d @ cs))"
  shows "\<exists>w'. ensure_components t d cs w = (Inr (), w') \<and> is_directory w' (d @ cs) \<and>
    step_frame {q. prefix q (d @ cs)} w w'"
  using assms
proof (induction cs arbitrary: d w)
  case Nil
  then show ?case by (auto simp: step_frame_def ret_def)
next
  case (Cons c cs)
  obtain n where c: "c = Normal n" using Cons.prems(3) by auto
  have app: "d @ c # cs = (d @ [c]) @ cs" by simp
  have "\<not> through_file w (d @ [c])"
  proof (rule not_throughI)
    fix k assume "0 < k" "k < length (d @ [c])"
    then show "lookup w (take k (d @ [c])) = None \<or> is_directory w (take k (d @ [c]))"
      using Cons.prems(4)[of k] by simp
  qed
  moreover have "lookup w (d @ [c]) = None \<or> is_directory w (d @ [c])"
    using Cons.prems(4)[of "length (d @ [c])"] by simp
  ultimately obtain w1 where 1: "ensure_one t (d @ [c]) w = (Inr (), w1)"
    and d1: "is_directory w1 (d @ [c])" and f1: "step_frame {d @ [c]} w w1"
    using ensure_one_calm[OF Cons.prems(1,2)] c by blast
  have nodes: "lookup w1 (take k ((d @ [c]) @ cs)) = None \<or> is_directory w1 (take k ((d @ [c]) @ cs))"
    if "0 < k" "k \<le> length (d @ [c]) + length cs" for k
  proof (cases "take k (d @ c # cs) = d @ [c]")
    case True
    with d1 show ?thesis by simp
  next
    case False
    then have "lookup w1 (take k (d @ c # cs)) = lookup w (take k (d @ c # cs))"
      using f1 by (simp add: step_frame_def)
    then show ?thesis using Cons.prems(4)[of k] that by (simp add: is_directory_iff)
  qed
  obtain w2 where 2: "ensure_components t (d @ [c]) cs w1 = (Inr (), w2)"
    and d2: "is_directory w2 ((d @ [c]) @ cs)"
    and f2: "step_frame {q. prefix q ((d @ [c]) @ cs)} w1 w2"
    using Cons.IH[OF _ d1 _ nodes] Cons.prems(3) f1 unfolding step_frame_def by auto
  have "step_frame {q. prefix q ((d @ [c]) @ cs)} w w1"
    using f1 by (rule step_frame_mono) (auto simp: prefix_def)
  from step_frame_trans[OF this f2] have "step_frame {q. prefix q (d @ c # cs)} w w2" by simp
  with 1 2 d2 c show ?case by (auto simp: bindA_def)
qed

text \<open>The ancestors of a target that the operations may create on the way.\<close>

definition ancestors :: "path \<Rightarrow> path set" where
  "ancestors p = {q. strict_prefix q p}"

lemma anc_ok_iff:
  "anc_ok w p \<longleftrightarrow> is_directory w [RootDir] \<and>
     (\<forall>q \<in> ancestors p. q \<noteq> [] \<longrightarrow> lookup w q = None \<or> is_directory w q)"
proof -
  have 1: "take k p \<in> ancestors p \<and> take k p \<noteq> []" if "0 < k" "k < length p" for k
    using that by (auto simp: ancestors_def strict_prefix_def take_is_prefix)
  have 2: "\<exists>k. 0 < k \<and> k < length p \<and> q = take k p" if "q \<in> ancestors p" "q \<noteq> []" for q
    using that prefix_length_less by (auto simp: ancestors_def intro!: exI[of _ "length q"])
      (metis prefix_length_eq prefix_order.less_imp_le)
  show ?thesis unfolding anc_ok_def using 1 2 by metis
qed

lemma step_frame_anc:
  assumes "step_frame D w w'" "anc_ok w p" "\<And>q. q \<in> D \<Longrightarrow> q \<in> ancestors p \<Longrightarrow> q \<noteq> [] \<Longrightarrow> is_directory w' q \<or> lookup w' q = lookup w q"
  shows "anc_ok w' p"
  using assms unfolding anc_ok_iff step_frame_def by (auto simp: is_directory_iff) metis+

lemma ensure_parent_calm:
  assumes "calm w" "path_ok p" "anc_ok w p"
  shows "\<exists>w'. ensure_parent_directory p w = (Inr (), w') \<and> parent_is_directory w' p \<and>
    step_frame (ancestors p) w w'"
proof -
  obtain d n where p: "p = d @ [Normal n]" and d: "d \<noteq> []" "hd d = RootDir"
    and norm: "\<And>c. c \<in> set (tl d) \<Longrightarrow> \<exists>m. c = Normal m" using path_okE[OF assms(2)] by metis
  obtain e where e: "d = [RootDir] @ e" using d by (cases d) auto
  have nodes: "lookup w (take k ([RootDir] @ e)) = None \<or> is_directory w (take k ([RootDir] @ e))"
    if k: "0 < k" "k \<le> length [RootDir] + length e" for k
  proof -
    have "take k p = take k ([RootDir] @ e)" "k < length p" using k p e by (cases k; simp)+
    with assms(3) k(1) show ?thesis unfolding anc_ok_def by metis
  qed
  have root: "is_directory w [RootDir]" using assms(3) by (simp add: anc_ok_def)
  have norm': "\<And>c. c \<in> set e \<Longrightarrow> \<exists>m. c = Normal m" using norm e by simp
  obtain w' where run: "ensure_components ''configuration directory'' [RootDir] e w = (Inr (), w')"
    and dir: "is_directory w' ([RootDir] @ e)" and fr: "step_frame {q. prefix q ([RootDir] @ e)} w w'"
    using ensure_components_calm[OF assms(1) root norm' nodes] by blast
  have "ensure_parent_directory p w = (Inr (), w')"
    using run path_ok_valid[OF assms(2)] p e
    by (simp add: ensure_parent_directory_def ensure_parent_directory_for_def bindA_def lift_def)
  moreover have "parent_is_directory w' p" using dir p e by (simp add: parent_is_directory_iff)
  moreover have "step_frame (ancestors p) w w'"
    using fr unfolding e[symmetric] p
    by (rule step_frame_mono) (auto simp: ancestors_def strict_prefix_def prefix_snoc dest: prefix_length_le)
  ultimately show ?thesis by blast
qed

text \<open>
  \<open>ready w d\<close>: nothing fails, the tree is well formed and the directory \<open>d\<close> is there. It holds
  from the first operation that made sure of the parent, and every later one keeps it.
\<close>

definition ready :: "world \<Rightarrow> path \<Rightarrow> bool" where
  "ready w d \<longleftrightarrow> calm w \<and> tree_ok w \<and> is_directory w d"

lemma directory_prefixes:
  assumes ok: "tree_ok w" and "is_directory w d" "prefix q d" "q \<noteq> []"
  shows "is_directory w q"
  using assms(2,3)
proof (induction d rule: rev_induct)
  case Nil
  then show ?case using assms(4) by simp
next
  case (snoc c d)
  show ?case
  proof (cases "q = d @ [c]")
    case False
    then have q: "prefix q d" using snoc.prems(2) by (simp add: prefix_snoc)
    with assms(4) have "d \<noteq> []" by auto
    then have "d @ [c] \<noteq> [RootDir]" by simp
    with snoc.prems(1) obtain e where "parent (d @ [c]) = Some e" "is_directory w e"
      using tree_okD(2)[OF ok] by (metis is_directory_iff)
    then have "is_directory w d" by (auto simp: parent_def split: if_splits)
    then show ?thesis using q by (rule snoc.IH)
  qed (use snoc.prems in simp)
qed

lemma ready_anc_ok: "ready w d \<Longrightarrow> anc_ok w (d @ [Normal n])"
  unfolding anc_ok_iff ready_def ancestors_def
  by (auto simp: strict_prefix_def prefix_snoc intro: directory_prefixes tree_okD(1))

lemma ready_step: "ready w d \<Longrightarrow> step_frame D w w' \<Longrightarrow> tree_kept w w' \<Longrightarrow> ready w' d"
  by (simp add: ready_def step_frame_def tree_kept_def)

section \<open>The operations return\<close>

lemma read_snapshot_calm:
  assumes "calm w" "path_ok p" "anc_ok w p" "file_or_free w p"
    and "case content w p of None \<Rightarrow> True | Some (b, _) \<Rightarrow> length b \<le> n"
  shows "\<exists>w'. read_snapshot sha p n t w = (Inr (snapshot_of sha (content w p)), w') \<and>
    step_frame {} w w' \<and> temp_sequence w' = temp_sequence w"
  using assms path_ok_valid[OF assms(2)] symlink_metadata_calm[OF assms(1,3)]
  by (auto simp: read_snapshot_def bindA_def lift_def attempt_def ret_def file_or_free_def fs_read_def
      syscall_calm map_err_def snapshot_of_def content_def snapshot_mode_def step_frame_def is_directory_iff
      split: option.splits)

lemma assert_unchanged_calm:
  assumes "calm w" "path_ok p" "anc_ok w p" "file_or_free w p"
    and "case content w p of None \<Rightarrow> True | Some (b, _) \<Rightarrow> length b \<le> n"
    and "s = snapshot_of sha (content w p)"
  shows "\<exists>w'. assert_unchanged sha p s n t w = (Inr (), w') \<and> step_frame {} w w' \<and>
    temp_sequence w' = temp_sequence w"
  using read_snapshot_calm[OF assms(1-5), of sha t] assms(6)
  by (auto simp: assert_unchanged_def bindA_def ret_def)

lemma sync_parent_calm:
  assumes "calm w" "parent_is_directory w p"
  shows "\<exists>w'. sync_parent p w = (Inr (), w') \<and> step_frame {} w w' \<and> temp_sequence w' = temp_sequence w"
  using assms
  by (auto simp: sync_parent_def parent_is_directory_iff map_err_def bindA_def open_directory_def sync_all_def
      syscall_calm is_directory_iff step_frame_def)

lemma publish_calm:
  assumes "calm w" "lookup w t = Some (File [] m0)" "t \<noteq> p" "parent_is_directory w p" "file_or_free w p"
    "parent p \<noteq> Some t"
  shows "\<exists>w'. publish t p b (Some m) w = (Inr (), w') \<and> step_frame {t, p} w w' \<and>
     temp_sequence w' = temp_sequence w"
proof -
  let ?w1 = "put t (File [] m) (w\<lparr>ticks := Suc (ticks w)\<rparr>)"
  let ?w2 = "put t (File b m) (?w1\<lparr>ticks := Suc (ticks ?w1)\<rparr>)"
  let ?w3 = "?w2\<lparr>ticks := Suc (ticks ?w2)\<rparr>"
  let ?w4 = "put p (File b m) (drop_path t (?w3\<lparr>ticks := Suc (ticks ?w3)\<rparr>))"
  have "set_permissions t m w = (Inr (), ?w1)"
    using assms(1,2) by (simp add: set_permissions_def syscall_calm)
  moreover have "write_all t b ?w1 = (Inr (), ?w2)"
    using assms(1) by (simp add: write_all_def Let_def lookup_put calm_faults)
  moreover have "sync_all t ?w2 = (Inr (), ?w3)"
    using assms(1) by (simp add: sync_all_def syscall_calm)
  moreover have "rename t p ?w3 = (Inr (), ?w4)"
    using assms by (auto simp: rename_def syscall_calm lookup_put parent_is_directory_iff is_directory_iff file_or_free_def)
  moreover have par4: "parent_is_directory ?w4 p"
    using assms by (auto simp: parent_is_directory_iff is_directory_iff lookup_put lookup_drop file_or_free_def)
  moreover obtain w' where "sync_parent p ?w4 = (Inr (), w')" "step_frame {} ?w4 w'" "temp_sequence w' = temp_sequence w"
    using sync_parent_calm[OF _ par4] assms(1) by auto
  moreover have "step_frame {t, p} w ?w4"
    using assms by (auto simp: step_frame_def lookup_put lookup_drop is_directory_iff file_or_free_def)
  ultimately show ?thesis
    by (auto simp: publish_def bindA_def map_err_def step_frame_def)
qed

lemma atomic_write_calm:
  assumes w: "calm w" "path_ok p" "anc_ok w p" "file_or_free w p"
    and free: "\<And>t. t \<in> temp_siblings p \<Longrightarrow> lookup w t = None"
  shows "\<exists>w'. atomic_write p b (Some m) w = (Inr (), w') \<and> step_frame (insert p (ancestors p)) w w'"
proof -
  obtain w1 where 1: "ensure_parent_directory p w = (Inr (), w1)" and par: "parent_is_directory w1 p"
    and f1: "step_frame (ancestors p) w w1" using ensure_parent_calm[OF w(1-3)] by blast
  have c1: "calm w1" using f1 by (simp add: step_frame_def)
  have p1: "lookup w1 p = lookup w p" using f1 by (simp add: step_frame_def ancestors_def)
  obtain d n where pd: "p = d @ [Normal n]" using path_okE[OF w(2)] by metis
  let ?t = "d @ [Normal (n @ temp_suffix (pid w1) (temp_sequence w1))]"
  have t: "?t \<in> temp_siblings p" by (auto simp: temp_siblings_def pd)
  then have tp: "?t \<noteq> p" by (rule temp_sibling_neq)
  have tn: "?t \<notin> ancestors p" by (auto simp: ancestors_def pd strict_prefix_def prefix_def)
  have l1: "lookup w1 ?t = None" using f1 free[OF t] tn by (simp add: step_frame_def)
  let ?w2 = "w1\<lparr>ticks := Suc (ticks w1)\<rparr>"
  let ?w3 = "?w2\<lparr>temp_sequence := temp_sequence w1 + 1\<rparr>"
  let ?w4 = "put ?t (File [] (m AND NOT (umask w1))) (?w3\<lparr>ticks := Suc (ticks ?w3)\<rparr>)"
  have 2: "symlink_metadata p w1 = (case lookup w p of None \<Rightarrow> Inl (if through_file w1 p then NotADirectory else NotFound) | Some x \<Rightarrow> Inr x, ?w2)"
    using c1 p1 by (simp add: symlink_metadata_def syscall_calm through_file_def split: option.splits)
  have 4: "create_new ?t m ?w3 = (Inr (), ?w4)"
    using c1 l1 par by (simp add: create_new_def syscall_calm parent_is_directory_iff pd)
  have par4: "parent_is_directory ?w4 p"
    using par l1 by (auto simp: parent_is_directory_iff pd is_directory_iff lookup_put)
  have fof: "file_or_free ?w4 p" using w(4) p1 tp by (simp add: file_or_free_def lookup_put)
  have c4: "calm ?w4" using c1 by simp
  have l4: "lookup ?w4 ?t = Some (File [] (m AND NOT (umask w1)))" by (simp add: lookup_put)
  have pt: "parent p \<noteq> Some ?t" by (simp add: pd)
  obtain w5 where 5: "publish ?t p b (Some m) ?w4 = (Inr (), w5)" and f5: "step_frame {?t, p} ?w4 w5"
    using publish_calm[OF c4 l4 tp par4 fof pt] by blast
  have run: "atomic_write p b (Some m) w = (Inr (), w5)"
    using 1 2 4 5 w(4) unfolding atomic_write_def
    by (auto simp: bindA_def attempt_def get_world_def next_sequence_def modify_def ret_def lift_def map_err_def
        pd file_or_free_def split: option.splits)
  moreover have "lookup w5 ?t = None"
    using publish_Inr[OF 5 l4 tp] tp by simp
  then have "step_frame (insert p (ancestors p)) w w5"
    using f1 f5 l1 free[OF t] unfolding step_frame_def
    by (auto simp: lookup_put is_directory_iff) (metis option.distinct(1))+
  ultimately show ?thesis by blast
qed

lemma atomic_remove_calm:
  assumes "calm w" "path_ok p" "anc_ok w p" "file_or_free w p" "tree_ok w"
  shows "\<exists>w'. atomic_remove p w = (Inr (), w') \<and> step_frame {p} w w'"
proof (cases "lookup w p")
  case None
  with assms symlink_metadata_calm[OF assms(1,3)] show ?thesis
    by (auto simp: atomic_remove_def bindA_def attempt_def ret_def step_frame_def is_directory_iff)
next
  case (Some nd)
  then obtain b m where f: "lookup w p = Some (File b m)" using assms(4) by (auto simp: file_or_free_def)
  let ?w1 = "w\<lparr>ticks := Suc (ticks w)\<rparr>"
  let ?w2 = "drop_path p (?w1\<lparr>ticks := Suc (ticks ?w1)\<rparr>)"
  have 1: "symlink_metadata p w = (Inr (File b m), ?w1)"
    using symlink_metadata_calm[OF assms(1,3)] f by simp
  have 2: "remove_file p ?w1 = (Inr (), ?w2)"
    using assms(1) f by (simp add: remove_file_def syscall_calm is_directory_iff)
  obtain d n where pd: "p = d @ [Normal n]" "d \<noteq> []" using path_okE[OF assms(2)] by metis
  have "is_directory w d" using tree_okD(2)[OF assms(5) f] pd by auto
  then have "parent_is_directory ?w2 p"
    using pd by (auto simp: parent_is_directory_iff is_directory_iff lookup_drop)
  then obtain w3 where 3: "sync_parent p ?w2 = (Inr (), w3)" "step_frame {} ?w2 w3"
    using sync_parent_calm[of ?w2 p] assms(1) by auto
  have "step_frame {p} w ?w2"
    using f assms(1) by (auto simp: step_frame_def lookup_drop is_directory_iff)
  moreover have "step_frame {p} ?w2 w3" using 3(2) by (rule step_frame_mono) simp
  moreover have "atomic_remove p w = (Inr (), w3)"
    using 1 2 3(1) by (simp add: atomic_remove_def bindA_def attempt_def map_err_def)
  ultimately show ?thesis using step_frame_trans by blast
qed

section \<open>The lock\<close>

lemma lock_acquire_stages:
  assumes "lock_acquire target w = (Inr l, w')"
  obtains w1 r w2 where "ensure_parent_directory target w = (Inr (), w1)"
    and "sibling_path target ''.kaleidoscope-lock'' = Inr l" and "symlink_metadata l w1 = (r, w2)"
    and "r = Inl NotFound" and "lock_create l w2 = (Inr l, w')"
proof -
  from assms obtain w1 k r w2 where 1: "ensure_parent_directory target w = (Inr (), w1)"
    and k: "Inr k = sibling_path target ''.kaleidoscope-lock''" and 2: "symlink_metadata k w1 = (r, w2)"
    and 3: "(case r of Inr _ \<Rightarrow> throw (HostConflict TargetLockHeld) | Inl NotFound \<Rightarrow> lock_create k
       | Inl e \<Rightarrow> throw (Io ''inspect lock'' e)) w2 = (Inr l, w')"
    unfolding lock_acquire_def by (auto simp: act_run)
  from 3 have r: "r = Inl NotFound" and 4: "lock_create k w2 = (Inr l, w')"
    by (auto split: sum.splits io_kind.splits)
  from 4 have "k = l" by (auto simp: lock_create_def act_run)
  with 1 k[symmetric] 2 r 4 show thesis using that by blast
qed

lemma lock_acquire_Inr:
  assumes "lock_acquire target w = (Inr l, w')"
  shows "sibling_path target ''.kaleidoscope-lock'' = Inr l" and "content w l = None"
    and "content w' = (content w)(l \<mapsto> (show_nat (pid w) @ nl, (384 AND NOT (umask w)) AND 511))"
proof -
  from assms obtain w1 r w2 where 1: "ensure_parent_directory target w = (Inr (), w1)"
    and s: "sibling_path target ''.kaleidoscope-lock'' = Inr l"
    and 2: "symlink_metadata l w1 = (r, w2)" and r: "r = Inl NotFound"
    and rest: "lock_create l w2 = (Inr l, w')"
    by (rule lock_acquire_stages)
  show "sibling_path target ''.kaleidoscope-lock'' = Inr l" by (rule s)
  have c1: "content w1 = content w" using keepsD[OF ensure_parent_content(1)[of "{}"] 1] by (simp add: untouched_empty)
  have m1: "same_machine w w1" using keepsD[OF ensure_parent_tree(2) 1] .
  have c2: "lookup w2 = lookup w1" "pid w2 = pid w1" "umask w2 = umask w1"
    using 2 symlink_metadata_world[of l w1] by auto
  from rest obtain w3 w4 where 3: "create_new l 384 w2 = (Inr (), w3)"
    and 4: "write_all l (show_nat (pid w3) @ nl) w3 = (Inr (), w4)" and 5: "sync_all l w4 = (Inr (), w')"
    by (auto simp: lock_create_def act_run)
  from 3 have l: "lookup w2 l = None"
    and w3: "lookup w3 = (lookup w2)(l \<mapsto> File [] (384 AND NOT (umask w2)))" "pid w3 = pid w2"
    by (auto simp: create_new_Inr lookup_put)
  from 4 w3 have w4: "lookup w4 = (lookup w2)(l \<mapsto> File (show_nat (pid w2) @ nl) (384 AND NOT (umask w2)))"
    by (auto simp: write_all_Inr lookup_put)
  from 5 have "lookup w' = lookup w4" by (auto simp: sync_all_Inr)
  with w4 have "content w' = (content w2)(l \<mapsto> (show_nat (pid w2) @ nl, (384 AND NOT (umask w2)) AND 511))"
    by (simp add: content_def fun_eq_iff)
  moreover have w21: "content w2 = content w1" using c2(1) by (simp add: content_def fun_eq_iff)
  ultimately show "content w' = (content w)(l \<mapsto> (show_nat (pid w) @ nl, (384 AND NOT (umask w)) AND 511))"
    using c1 c2 m1 by (simp add: same_machine_def)
  show "content w l = None" using c1 w21 content_NoneI[OF l] by simp
qed

text \<open>A lock file that is there excludes every other acquisition, on any machine.\<close>

lemma lock_excludes:
  assumes "sibling_path target ''.kaleidoscope-lock'' = Inr l" and "content w l \<noteq> None"
  shows "\<exists>e w'. lock_acquire target w = (Inl e, w')"
proof (rule ccontr)
  assume "\<not> ?thesis"
  then obtain l' w' where run: "lock_acquire target w = (Inr l', w')"
    by (metis old.sum.exhaust surj_pair)
  with lock_acquire_Inr[OF run] assms show False by simp
qed

lemma lock_acquire_calm:
  assumes w: "calm w" "tree_ok w" "path_ok (d @ [Normal n])" "anc_ok w (d @ [Normal n])"
    and free: "lookup w (d @ [Normal (n @ ''.kaleidoscope-lock'')]) = None" (is "lookup w ?l = None")
  shows "\<exists>w'. lock_acquire (d @ [Normal n]) w = (Inr ?l, w') \<and> ready w' d \<and>
    step_frame (insert ?l (ancestors (d @ [Normal n]))) w w' \<and> (\<exists>b m. lookup w' ?l = Some (File b m))"
proof -
  obtain w1 where 1: "ensure_parent_directory (d @ [Normal n]) w = (Inr (), w1)"
    and par: "parent_is_directory w1 (d @ [Normal n])"
    and f1: "step_frame (ancestors (d @ [Normal n])) w w1" using ensure_parent_calm[OF w(1,3,4)] by blast
  have r1: "ready w1 d"
    using f1 par keepsD[OF ensure_parent_tree(1) 1] w(2)
    by (simp add: ready_def step_frame_def parent_is_directory_iff tree_kept_def)
  have "?l \<notin> ancestors (d @ [Normal n])" by (auto simp: ancestors_def strict_prefix_def prefix_def)
  then have l1: "lookup w1 ?l = None" using f1 free by (simp add: step_frame_def)
  have c1: "calm w1" using r1 by (simp add: ready_def)
  let ?w2 = "w1\<lparr>ticks := Suc (ticks w1)\<rparr>"
  let ?w3 = "put ?l (File [] (384 AND NOT (umask w1))) (?w2\<lparr>ticks := Suc (ticks ?w2)\<rparr>)"
  let ?w4 = "put ?l (File (show_nat (pid w1) @ nl) (384 AND NOT (umask w1))) (?w3\<lparr>ticks := Suc (ticks ?w3)\<rparr>)"
  let ?w5 = "?w4\<lparr>ticks := Suc (ticks ?w4)\<rparr>"
  have "symlink_metadata ?l w1 = (Inl NotFound, ?w2)"
    using symlink_metadata_calm[OF c1 ready_anc_ok[OF r1]] l1 by simp
  moreover have "create_new ?l 384 ?w2 = (Inr (), ?w3)"
    using c1 l1 r1 by (simp add: create_new_def syscall_calm parent_is_directory_iff ready_def)
  moreover have "write_all ?l (show_nat (pid w1) @ nl) ?w3 = (Inr (), ?w4)"
    using c1 by (simp add: write_all_def Let_def lookup_put calm_faults)
  moreover have "sync_all ?l ?w4 = (Inr (), ?w5)" using c1 by (simp add: sync_all_def syscall_calm)
  ultimately have run: "lock_acquire (d @ [Normal n]) w = (Inr ?l, ?w5)"
    using 1 by (simp add: lock_acquire_def lock_create_def bindA_def attempt_def map_err_def lift_def get_world_def ret_def)
  moreover have "step_frame (insert ?l (ancestors (d @ [Normal n]))) w1 ?w5"
    using c1 l1 by (auto simp: step_frame_def lookup_put is_directory_iff)
  then have "step_frame (insert ?l (ancestors (d @ [Normal n]))) w ?w5"
    using step_frame_mono[OF f1] step_frame_trans by blast
  moreover from this have "ready ?w5 d"
    using r1 keepsD[OF lock_acquire_frame(1) run] w(2) \<open>step_frame _ w1 ?w5\<close>
    by (simp add: ready_def step_frame_def tree_kept_def)
  ultimately show ?thesis by (auto simp: lookup_put)
qed

lemma lock_release_calm:
  assumes "calm w" "lookup w l = Some (File b m)"
  shows "\<exists>w'. lock_release l w = (Inr (), w') \<and> step_frame {l} w w' \<and> lookup w' = (lookup w)(l := None)"
  using assms
  by (auto simp: lock_release_def bindA_def attempt_def remove_file_def syscall_calm is_directory_iff ret_def
      step_frame_def lookup_drop)

end
