(* ===== verification/Plan_Apply_Correct.thy ===== *)
theory Plan_Apply_Correct
  imports Plan_Apply Fs_Safe_Correct
begin

text \<open>
  What applying a change does to the files. \<open>change_effect\<close> is the specification, four updates
  of the file view; \<open>apply_change_refines\<close> is the refinement: an application that reports success
  has performed exactly those updates, on any machine, lock file apart.
\<close>

definition change_effect :: "change \<Rightarrow> view \<Rightarrow> view" where
  "change_effect ch c =
     (let c1 = (if \<not> ch_undoing ch \<and> \<not> is_leave (ch_write ch)
                then (case snap_bytes (ch_original ch) of
                        None \<Rightarrow> c | Some b \<Rightarrow> c(ch_backup_path ch \<mapsto> (b, 384)))
                else c);
          c2 = (case ch_write ch of
                  Write b \<Rightarrow> c1(ch_target ch \<mapsto> (b, the (mode_or_default (ch_original ch)) AND 511))
                | Remove \<Rightarrow> c1(ch_target ch := None)
                | Leave \<Rightarrow> c1);
          c3 = c2(ch_receipt_path ch := map_option (\<lambda>b. (b, 384)) (ch_receipt_bytes ch))
      in if ch_remove_backup ch then c3(ch_backup_path ch := None) else c3)"

text \<open>The paths of a change are the siblings the planners compute.\<close>

definition change_paths :: "bytes \<Rightarrow> change \<Rightarrow> bool" where
  "change_paths receipt_suffix ch \<longleftrightarrow>
     sibling_path (ch_target ch) receipt_suffix = Inr (ch_receipt_path ch) \<and>
     sibling_path (ch_target ch) ''.kaleidoscope-backup'' = Inr (ch_backup_path ch)"

lemma mode_or_default_Some: "\<exists>m. mode_or_default s = Some m"
  by (auto simp: mode_or_default_def split: option.splits)

lemma and_384_511 [simp]: "(384 :: mode) AND 511 = 384"
  by simp

lemma back_up_Inr:
  assumes "back_up ch w = (Inr u, w')" and "sibling_path (ch_target ch) ''.kaleidoscope-backup'' = Inr (ch_backup_path ch)"
  shows "content w' = (if \<not> ch_undoing ch \<and> \<not> is_leave (ch_write ch)
                then (case snap_bytes (ch_original ch) of
                        None \<Rightarrow> content w | Some b \<Rightarrow> (content w)(ch_backup_path ch \<mapsto> (b, 384)))
                else content w)"
  using assms
  by (auto simp: back_up_def write_bounded_backup_def act_run atomic_write_Inr(1) split: if_splits option.splits)

lemma write_target_Inr:
  assumes "write_target t wr s w = (Inr u, w')"
  shows "content w' = (case wr of
                  Write b \<Rightarrow> (content w)(t \<mapsto> (b, the (mode_or_default s) AND 511))
                | Remove \<Rightarrow> (content w)(t := None)
                | Leave \<Rightarrow> content w)"
  using assms mode_or_default_Some[of s]
  by (auto simp: write_target_def atomic_write_Inr(1) atomic_remove_Inr(2) split: target_write.splits)

lemma write_receipt_Inr:
  assumes "write_receipt ch w = (Inr u, w')"
  shows "content w' = (content w)(ch_receipt_path ch := map_option (\<lambda>b. (b, 384)) (ch_receipt_bytes ch))"
  using assms
  by (auto simp: write_receipt_def atomic_write_Inr(1) atomic_remove_Inr(2) split: option.splits)

lemma apply_body_Inr:
  assumes run: "apply_body sha ch w = (Inr u, w')" and paths: "change_paths rs ch"
  shows "content w' = change_effect ch (content w)"
    and "ch_original ch = snapshot_of sha (content w (ch_target ch))"
    and "ch_receipt_original ch = snapshot_of sha (content w (ch_receipt_path ch))"
proof -
  from run obtain w1 w2 w3 w4 r w5 where
    1: "assert_unchanged sha (ch_target ch) (ch_original ch) (ch_max ch) (ch_label ch) w = (Inr (), w1)" and
    2: "assert_unchanged sha (ch_receipt_path ch) (ch_receipt_original ch) (ch_max_receipt ch) (ch_receipt_label ch) w1 = (Inr (), w2)" and
    3: "back_up ch w2 = (Inr (), w3)" and
    4: "write_target (ch_target ch) (ch_write ch) (ch_original ch) w3 = (Inr (), w4)" and
    5: "write_receipt ch w4 = (r, w5)" and
    6: "(case r of Inl e \<Rightarrow> bindA (roll_back sha ch) (\<lambda>_. throw e)
         | Inr _ \<Rightarrow> if ch_remove_backup ch then atomic_remove (ch_backup_path ch) else ret ()) w5 = (Inr u, w')"
    unfolding apply_body_def by (auto simp: act_run)
  show "ch_original ch = snapshot_of sha (content w (ch_target ch))" by (rule assert_unchanged_Inr(1)[OF 1])
  have c1: "content w1 = content w" using assert_unchanged_Inr(2)[OF 1] .
  then show "ch_receipt_original ch = snapshot_of sha (content w (ch_receipt_path ch))"
    using assert_unchanged_Inr(1)[OF 2] by simp
  have c2: "content w2 = content w" using assert_unchanged_Inr(2)[OF 2] c1 by simp
  from 6 obtain v where r: "r = Inr v" by (cases r) (auto simp: act_run)
  have c6: "content w' = (if ch_remove_backup ch then (content w5)(ch_backup_path ch := None) else content w5)"
    using 6 r by (auto simp: atomic_remove_Inr(2) split: if_splits)
  have c3: "content w3 = (if \<not> ch_undoing ch \<and> \<not> is_leave (ch_write ch)
                then (case snap_bytes (ch_original ch) of
                        None \<Rightarrow> content w | Some b \<Rightarrow> (content w)(ch_backup_path ch \<mapsto> (b, 384)))
                else content w)"
    using back_up_Inr[OF 3] paths unfolding c2 change_paths_def by blast
  have c5: "content w5 = (content w4)(ch_receipt_path ch := map_option (\<lambda>b. (b, 384)) (ch_receipt_bytes ch))"
    using write_receipt_Inr 5 r by metis
  show "content w' = change_effect ch (content w)"
    unfolding change_effect_def Let_def c6 c5 write_target_Inr[OF 4] c3 ..
qed

lemma apply_change_stages:
  assumes "apply_change sha ch w = (Inr u, w')"
  obtains l w1 w2 w3 where "lock_acquire (ch_target ch) w = (Inr l, w1)" "apply_body sha ch w1 = (Inr (), w2)"
    "lock_release l w2 = (Inr () :: manager_error + unit, w3)" "content w' = content w3"
proof -
  from assms obtain l w1 r w2 w3 where 1: "lock_acquire (ch_target ch) w = (Inr l, w1)"
    and 2: "apply_body sha ch w1 = (r, w2)"
    and 3: "lock_release l w2 = (Inr () :: manager_error + unit, w3)"
    and 4: "bindA (lift r) (\<lambda>_. if is_remove (ch_write ch) then prune_empty_managed_directories (ch_target ch) else ret ()) w3 = (Inr u, w')"
    unfolding apply_change_def by (auto simp: act_run)
  from 4 obtain v where r: "r = Inr v" by (auto simp: act_run)
  have "content w' = content w3"
    using 4 keepsD[OF prune_frame(1)[of "{}"]] by (auto simp: act_run untouched_empty split: if_splits)
  with that 1 2 3 r show thesis by simp
qed

text \<open>The refinement: success means exactly the specified updates, the lock file apart.\<close>

lemma apply_change_refines:
  assumes run: "apply_change sha ch w = (Inr u, w')" and paths: "change_paths rs ch"
    and l: "sibling_path (ch_target ch) ''.kaleidoscope-lock'' = Inr l"
    and rs: "rs \<noteq> ''.kaleidoscope-lock''"
  shows "q \<noteq> l \<Longrightarrow> content w' q = change_effect ch (content w) q"
    and "content w l = None"
    and "ch_original ch = snapshot_of sha (content w (ch_target ch))"
    and "ch_receipt_original ch = snapshot_of sha (content w (ch_receipt_path ch))"
proof -
  obtain l' w1 w2 w3 where 1: "lock_acquire (ch_target ch) w = (Inr l', w1)" and 2: "apply_body sha ch w1 = (Inr (), w2)"
    and 3: "lock_release l' w2 = (Inr () :: manager_error + unit, w3)" and 4: "content w' = content w3"
    using apply_change_stages[OF run] by metis
  from lock_acquire_Inr[OF 1] l have ll: "l' = l" and free: "content w l = None"
    and c1: "content w1 = (content w)(l \<mapsto> (show_nat (pid w) @ nl, (384 AND NOT (umask w)) AND 511))" by auto
  show "content w l = None" by (rule free)
  have c3: "q \<noteq> l \<Longrightarrow> content w3 q = content w2 q" for q
    using keepsD[OF lock_release_frame(1)[of l "{l}"]] 3 ll by (auto simp: untouched_def)
  obtain d n where t: "ch_target ch = d @ [Normal n]" "ch_receipt_path ch = d @ [Normal (n @ rs)]"
    "ch_backup_path ch = d @ [Normal (n @ ''.kaleidoscope-backup'')]" "l = d @ [Normal (n @ ''.kaleidoscope-lock'')]"
    using paths l by (auto simp: change_paths_def elim!: sibling_path_Inr)
  then have ne: "ch_target ch \<noteq> l" "ch_receipt_path ch \<noteq> l" "ch_backup_path ch \<noteq> l" using rs by auto
  show "ch_original ch = snapshot_of sha (content w (ch_target ch))"
    using apply_body_Inr(2)[OF 2 paths] c1 ne by simp
  show "ch_receipt_original ch = snapshot_of sha (content w (ch_receipt_path ch))"
    using apply_body_Inr(3)[OF 2 paths] c1 ne by simp
  have eff: "change_effect ch (c(l := x)) q = change_effect ch c q" if "q \<noteq> l" for c x q
    using that ne by (auto simp: change_effect_def Let_def split: option.splits target_write.splits)
  show "content w' q = change_effect ch (content w) q" if "q \<noteq> l"
    using 4 c3[OF that] apply_body_Inr(1)[OF 2 paths] c1 eff[OF that] by simp
qed

text \<open>
  Applying a change succeeds: on a machine whose calls do not fail, at a target whose directory
  can exist, with the lock free and the two files still what the plan was made for, the whole
  application returns success, leaves the lock free again, and (unless it removed the target)
  leaves a site at which the next application can run.
\<close>

section \<open>The site of a target\<close>

definition site_suffixes :: "bytes \<Rightarrow> bytes set" where
  "site_suffixes rs = {[], rs, ''.kaleidoscope-backup''}"

abbreviation at :: "path \<Rightarrow> bytes \<Rightarrow> path" where
  "at d n \<equiv> d @ [Normal n]"

definition site :: "path \<Rightarrow> bytes \<Rightarrow> bytes \<Rightarrow> world \<Rightarrow> bool" where
  "site d n rs w \<longleftrightarrow>
     (\<forall>x \<in> site_suffixes rs. file_or_free w (at d (n @ x)) \<and>
        (\<forall>t \<in> temp_siblings (at d (n @ x)). lookup w t = None))"

definition suffix_ok :: "bytes \<Rightarrow> bool" where
  "suffix_ok s \<longleftrightarrow> utf8_valid s \<and> s \<noteq> ''.kaleidoscope-lock'' \<and> \<not> sublist ''.tmp-'' s"

definition site_paths :: "path \<Rightarrow> bytes \<Rightarrow> bytes \<Rightarrow> path set" where
  "site_paths d n rs = (\<lambda>x. at d (n @ x)) ` site_suffixes rs \<union> ancestors (at d n)"

lemma ancestors_sibling: "ancestors (at d m) = ancestors (at d n)"
  by (auto simp: ancestors_def strict_prefix_def)

lemma sibling_not_ancestor [simp]: "at d m \<notin> ancestors (at d n)"
  by (auto simp: ancestors_def strict_prefix_def)

lemma temp_sibling_form:
  "t \<in> temp_siblings (at d n) \<Longrightarrow> \<exists>k s. t = at d (n @ temp_suffix k s)"
  by (auto simp: temp_siblings_def)

lemma temp_sibling_off_site:
  assumes "suffix_ok rs" and "t \<in> temp_siblings (at d (n @ x))" and "y \<in> site_suffixes rs"
  shows "t \<noteq> at d (n @ y)"
proof
  assume "t = at d (n @ y)"
  with temp_sibling_form[OF assms(2)] obtain k s where "y = x @ temp_suffix k s" by auto
  then have "sublist ''.tmp-'' y" unfolding temp_suffix_def sublist_def by blast
  with assms(1,3) show False
    by (auto simp: site_suffixes_def suffix_ok_def sublist_code)
qed

lemma suffixes_utf8: "suffix_ok rs \<Longrightarrow> x \<in> site_suffixes rs \<Longrightarrow> utf8_valid x"
  using utf8_valid_ascii[of "''.kaleidoscope-backup''"] by (auto simp: site_suffixes_def suffix_ok_def)

lemma site_path_ok:
  assumes "path_ok (at d n)" "suffix_ok rs" "x \<in> site_suffixes rs"
  shows "path_ok (at d (n @ x))"
  using path_ok_sibling[OF assms(1) suffixes_utf8[OF assms(2,3)]] by simp

text \<open>A step that moves nothing but site files, and leaves files there, keeps the site.\<close>

lemma site_step:
  assumes "site d n rs w" and "suffix_ok rs" and f: "step_frame (site_paths d n rs) w w'"
    and files: "\<And>x. x \<in> site_suffixes rs \<Longrightarrow> file_or_free w' (at d (n @ x))"
  shows "site d n rs w'"
  unfolding site_def
proof (intro ballI conjI files)
  fix x t assume x: "x \<in> site_suffixes rs" and t: "t \<in> temp_siblings (at d (n @ x))"
  have "t \<notin> site_paths d n rs"
    using temp_sibling_off_site[OF assms(2) t] temp_sibling_form[OF t]
    by (auto simp: site_paths_def)
  with f have "lookup w' t = lookup w t" by (simp add: step_frame_def)
  with assms(1) x t show "lookup w' t = None" by (simp add: site_def)
qed

definition good :: "path \<Rightarrow> bytes \<Rightarrow> bytes \<Rightarrow> world \<Rightarrow> bool" where
  "good d n rs w \<longleftrightarrow> ready w d \<and> site d n rs w"

definition good_step :: "path \<Rightarrow> bytes \<Rightarrow> bytes \<Rightarrow> world \<Rightarrow> world \<Rightarrow> bool" where
  "good_step d n rs w w' \<longleftrightarrow> good d n rs w' \<and> step_frame (site_paths d n rs) w w'"

lemma good_step_trans: "good_step d n rs w v \<Longrightarrow> good_step d n rs v u \<Longrightarrow> good_step d n rs w u"
  unfolding good_step_def using step_frame_trans by blast

lemma good_at:
  assumes "good d n rs w" "x \<in> site_suffixes rs"
  shows "calm w" "tree_ok w" "anc_ok w (at d m)" "file_or_free w (at d (n @ x))"
    "\<And>t. t \<in> temp_siblings (at d (n @ x)) \<Longrightarrow> lookup w t = None"
  using assms ready_anc_ok by (auto simp: good_def ready_def site_def)

lemma good_stepI:
  assumes g: "good d n rs w" and s: "suffix_ok rs" and x: "x \<in> site_suffixes rs"
    and f: "step_frame (insert (at d (n @ x)) (ancestors (at d n))) w w'"
    and k: "tree_kept w w'" and ff: "file_or_free w' (at d (n @ x))"
  shows "good_step d n rs w w'"
proof -
  have f': "step_frame (site_paths d n rs) w w'"
    by (rule step_frame_mono[OF f]) (use x in \<open>auto simp: site_paths_def\<close>)
  have "file_or_free w' (at d (n @ y))" if y: "y \<in> site_suffixes rs" for y
  proof (cases "y = x")
    case False
    then have "lookup w' (at d (n @ y)) = lookup w (at d (n @ y))" using f by (simp add: step_frame_def)
    with good_at(4)[OF g y] show ?thesis by (simp add: file_or_free_def)
  qed (use ff in simp)
  with site_step[OF _ s f'] g ready_step[OF _ f' k] f' show ?thesis
    by (auto simp: good_step_def good_def)
qed

section \<open>The steps of an application\<close>

lemma write_good:
  assumes g: "good d n rs w" and s: "suffix_ok rs" and x: "x \<in> site_suffixes rs" and p: "path_ok (at d n)"
  shows "\<exists>w'. atomic_write (at d (n @ x)) b (Some m) w = (Inr (), w') \<and> good_step d n rs w w'"
proof -
  obtain w' where run: "atomic_write (at d (n @ x)) b (Some m) w = (Inr (), w')"
    and f: "step_frame (insert (at d (n @ x)) (ancestors (at d (n @ x)))) w w'"
    using atomic_write_calm[OF good_at(1)[OF g x] site_path_ok[OF p s x] good_at(3,4)[OF g x] good_at(5)[OF g x]]
    by blast
  have "good_step d n rs w w'"
    using good_stepI[OF g s x f[unfolded ancestors_sibling[of d "n @ x" n]] keepsD[OF atomic_write_frame(1) run]]
      atomic_write_Inr(2)[OF run] by (simp add: file_or_free_def)
  with run show ?thesis by blast
qed

lemma remove_good:
  assumes g: "good d n rs w" and s: "suffix_ok rs" and x: "x \<in> site_suffixes rs" and p: "path_ok (at d n)"
  shows "\<exists>w'. atomic_remove (at d (n @ x)) w = (Inr (), w') \<and> good_step d n rs w w'"
proof -
  obtain w' where run: "atomic_remove (at d (n @ x)) w = (Inr (), w')"
    and f: "step_frame {at d (n @ x)} w w'"
    using atomic_remove_calm[OF good_at(1)[OF g x] site_path_ok[OF p s x] good_at(3,4,2)[OF g x]] by blast
  have f': "step_frame (insert (at d (n @ x)) (ancestors (at d n))) w w'"
    by (rule step_frame_mono[OF f]) simp
  have "good_step d n rs w w'"
    using good_stepI[OF g s x f' keepsD[OF atomic_remove_frame(2) run]] atomic_remove_Inr(1)[OF run]
    by (simp add: file_or_free_def)
  with run show ?thesis by blast
qed

definition fits :: "world \<Rightarrow> path \<Rightarrow> nat \<Rightarrow> bool" where
  "fits w p n \<longleftrightarrow> (case content w p of None \<Rightarrow> True | Some (b, _) \<Rightarrow> length b \<le> n)"

lemma unchanged_good:
  assumes g: "good d n rs w" and s: "suffix_ok rs" and x: "x \<in> site_suffixes rs" and p: "path_ok (at d n)"
    and c: "snap = snapshot_of sha (content w (at d (n @ x)))" "fits w (at d (n @ x)) k"
  shows "\<exists>w'. assert_unchanged sha (at d (n @ x)) snap k t w = (Inr (), w') \<and> good_step d n rs w w' \<and>
    content w' = content w"
proof -
  obtain w' where run: "assert_unchanged sha (at d (n @ x)) snap k t w = (Inr (), w')" and f: "step_frame {} w w'"
    using assert_unchanged_calm[OF good_at(1)[OF g x] site_path_ok[OF p s x] good_at(3,4)[OF g x]] c
    unfolding fits_def by blast
  have f': "step_frame (insert (at d (n @ x)) (ancestors (at d n))) w w'"
    by (rule step_frame_mono[OF f]) simp
  have "file_or_free w' (at d (n @ x))" using f good_at(4)[OF g x] by (simp add: step_frame_def file_or_free_def)
  with good_stepI[OF g s x f' keepsD[OF tree_steps.keeps_assert_unchanged run]] run assert_unchanged_Inr(2)[OF run]
  show ?thesis by blast
qed

lemma back_up_good:
  assumes g: "good d n rs w" and s: "suffix_ok rs" and p: "path_ok (at d n)" and t: "ch_target ch = at d n"
  shows "\<exists>w'. back_up ch w = (Inr (), w') \<and> good_step d n rs w w'"
proof -
  have refl: "good_step d n rs w w"
    using g by (auto simp: good_step_def step_frame_def good_def ready_def)
  have x: "''.kaleidoscope-backup'' \<in> site_suffixes rs" by (simp add: site_suffixes_def)
  show ?thesis
  proof (cases "snap_bytes (ch_original ch)")
    case None
    then show ?thesis using refl t by (auto simp: back_up_def write_bounded_backup_def bindA_def ret_def lift_def)
  next
    case (Some b)
    obtain w' where "atomic_write (at d (n @ ''.kaleidoscope-backup'')) b (Some 384) w = (Inr (), w')"
      "good_step d n rs w w'" using write_good[OF g s x p] by blast
    then show ?thesis
      using refl t Some by (auto simp: back_up_def write_bounded_backup_def bindA_def ret_def lift_def)
  qed
qed

lemma write_target_good:
  assumes g: "good d n rs w" and s: "suffix_ok rs" and p: "path_ok (at d n)"
  shows "\<exists>w'. write_target (at d n) wr snap w = (Inr (), w') \<and> good_step d n rs w w'"
proof -
  have refl: "good_step d n rs w w"
    using g by (auto simp: good_step_def step_frame_def good_def ready_def)
  have x: "[] \<in> site_suffixes rs" by (simp add: site_suffixes_def)
  obtain m where "mode_or_default snap = Some m" using mode_or_default_Some by blast
  then show ?thesis
    using write_good[OF g s x p] remove_good[OF g s x p] refl
    by (cases wr) (auto simp: write_target_def ret_def)
qed

lemma write_receipt_good:
  assumes g: "good d n rs w" and s: "suffix_ok rs" and p: "path_ok (at d n)" and r: "ch_receipt_path ch = at d (n @ rs)"
  shows "\<exists>w'. write_receipt ch w = (Inr (), w') \<and> good_step d n rs w w'"
proof -
  have x: "rs \<in> site_suffixes rs" by (simp add: site_suffixes_def)
  show ?thesis
    using write_good[OF g s x p] remove_good[OF g s x p] r
    by (auto simp: write_receipt_def split: option.splits)
qed

text \<open>The preconditions of a change, as the planners establish them.\<close>

definition change_at :: "path \<Rightarrow> bytes \<Rightarrow> bytes \<Rightarrow> change \<Rightarrow> bool" where
  "change_at d n rs ch \<longleftrightarrow> ch_target ch = at d n \<and> ch_receipt_path ch = at d (n @ rs) \<and>
     ch_backup_path ch = at d (n @ ''.kaleidoscope-backup'')"

definition change_fresh :: "hash \<Rightarrow> change \<Rightarrow> world \<Rightarrow> bool" where
  "change_fresh sha ch w \<longleftrightarrow>
     ch_original ch = snapshot_of sha (content w (ch_target ch)) \<and> fits w (ch_target ch) (ch_max ch) \<and>
     ch_receipt_original ch = snapshot_of sha (content w (ch_receipt_path ch)) \<and>
     fits w (ch_receipt_path ch) (ch_max_receipt ch)"

lemma apply_body_good:
  assumes g: "good d n rs w" and s: "suffix_ok rs" and p: "path_ok (at d n)"
    and ch: "change_at d n rs ch" and fresh: "change_fresh sha ch w"
  shows "\<exists>w'. apply_body sha ch w = (Inr (), w') \<and> good_step d n rs w w'"
proof -
  have x: "[] \<in> site_suffixes rs" "rs \<in> site_suffixes rs" "''.kaleidoscope-backup'' \<in> site_suffixes rs"
    by (simp_all add: site_suffixes_def)
  have at: "ch_target ch = at d n" "ch_receipt_path ch = at d (n @ rs)"
    "ch_backup_path ch = at d (n @ ''.kaleidoscope-backup'')" using ch by (simp_all add: change_at_def)
  obtain w1 where 1: "assert_unchanged sha (at d n) (ch_original ch) (ch_max ch) (ch_label ch) w = (Inr (), w1)"
    and g1: "good_step d n rs w w1" and c1: "content w1 = content w"
    using unchanged_good[OF g s x(1) p, of "ch_original ch" sha "ch_max ch" "ch_label ch"] fresh at
    by (auto simp: change_fresh_def)
  have fr1: "ch_receipt_original ch = snapshot_of sha (content w1 (at d (n @ rs)))"
    "fits w1 (at d (n @ rs)) (ch_max_receipt ch)"
    using fresh at c1 by (auto simp: change_fresh_def fits_def)
  have gd: "good d n rs v" if "good_step d n rs u v" for u v using that by (simp add: good_step_def)
  obtain w2 where 2: "assert_unchanged sha (at d (n @ rs)) (ch_receipt_original ch) (ch_max_receipt ch)
      (ch_receipt_label ch) w1 = (Inr (), w2)" and g2: "good_step d n rs w1 w2"
    using unchanged_good[OF gd[OF g1] s x(2) p fr1] by blast
  obtain w3 where 3: "back_up ch w2 = (Inr (), w3)" and g3: "good_step d n rs w2 w3"
    using back_up_good[OF gd[OF g2] s p at(1)] by blast
  obtain w4 where 4: "write_target (at d n) (ch_write ch) (ch_original ch) w3 = (Inr (), w4)"
    and g4: "good_step d n rs w3 w4" using write_target_good[OF gd[OF g3] s p] by blast
  obtain w5 where 5: "write_receipt ch w4 = (Inr (), w5)" and g5: "good_step d n rs w4 w5"
    using write_receipt_good[OF gd[OF g4] s p at(2)] by blast
  have steps: "good_step d n rs w w5"
    using g1 g2 g3 g4 g5 good_step_trans by blast
  obtain w6 where 6: "atomic_remove (ch_backup_path ch) w5 = (Inr (), w6)" and g6: "good_step d n rs w5 w6"
    using remove_good[OF gd[OF g5] s x(3) p] at(3) by auto
  have "apply_body sha ch w = (Inr (), if ch_remove_backup ch then w6 else w5)"
    using 1 2 3 4 5 6 at by (simp add: apply_body_def bindA_def attempt_def ret_def)
  then show ?thesis using steps good_step_trans[OF steps g6] by simp
qed

lemma prune_up_Inr: "\<exists>w'. prune_up cs w = (Inr (), w')"
proof (induction cs arbitrary: w)
  case (Cons c cs)
  then show ?case
    by (auto simp: bindA_def attempt_def ret_def split: prod.splits component.splits)
qed (simp add: ret_def)

lemma prune_Inr: "\<exists>w'. prune_empty_managed_directories p w = (Inr (), w')"
  using prune_up_Inr by (auto simp: prune_empty_managed_directories_def ret_def split: option.splits)

section \<open>The whole application\<close>

text \<open>What an application needs of the world beyond the plan being fresh.\<close>

definition runnable :: "path \<Rightarrow> bytes \<Rightarrow> bytes \<Rightarrow> world \<Rightarrow> bool" where
  "runnable d n rs w \<longleftrightarrow> calm w \<and> tree_ok w \<and> anc_ok w (at d n) \<and> site d n rs w \<and>
     lookup w (at d (n @ ''.kaleidoscope-lock'')) = None"

abbreviation lock_at :: "path \<Rightarrow> bytes \<Rightarrow> path" where
  "lock_at d n \<equiv> at d (n @ ''.kaleidoscope-lock'')"

lemma lock_off_site:
  assumes "suffix_ok rs"
  shows "x \<in> site_suffixes rs \<Longrightarrow> lock_at d n \<noteq> at d (n @ x)" and "lock_at d n \<notin> site_paths d n rs"
    and "x \<in> site_suffixes rs \<Longrightarrow> lock_at d n \<notin> temp_siblings (at d (n @ x))"
proof -
  show off: "lock_at d n \<noteq> at d (n @ x)" if "x \<in> site_suffixes rs" for x
    using that assms by (auto simp: site_suffixes_def suffix_ok_def)
  then show "lock_at d n \<notin> site_paths d n rs" by (auto simp: site_paths_def)
  show "lock_at d n \<notin> temp_siblings (at d (n @ x))"
  proof
    assume "lock_at d n \<in> temp_siblings (at d (n @ x))"
    then obtain k q where "''.kaleidoscope-lock'' = x @ temp_suffix k q" by (auto dest: temp_sibling_form)
    then have "sublist ''.tmp-'' ''.kaleidoscope-lock''" unfolding temp_suffix_def sublist_def by metis
    then show False by (simp add: sublist_code)
  qed
qed

text \<open>Taking the lock leads into the body's precondition and moves no site file.\<close>

lemma lock_good:
  assumes w: "runnable d n rs w" and s: "suffix_ok rs" and p: "path_ok (at d n)"
  shows "\<exists>w1. lock_acquire (at d n) w = (Inr (lock_at d n), w1) \<and> good d n rs w1 \<and>
    (\<exists>b m. lookup w1 (lock_at d n) = Some (File b m)) \<and>
    (\<forall>x \<in> site_suffixes rs. content w1 (at d (n @ x)) = content w (at d (n @ x)))"
proof -
  obtain w1 where 1: "lock_acquire (at d n) w = (Inr (lock_at d n), w1)" and r1: "ready w1 d"
    and f1: "step_frame (insert (lock_at d n) (ancestors (at d n))) w w1"
    and l1: "\<exists>b m. lookup w1 (lock_at d n) = Some (File b m)"
    using lock_acquire_calm[of w d n] w p by (auto simp: runnable_def)
  have same1: "lookup w1 (at d (n @ x)) = lookup w (at d (n @ x))" if "x \<in> site_suffixes rs" for x
    using f1 lock_off_site(1)[OF s that] by (simp add: step_frame_def)
  have "site d n rs w1"
    unfolding site_def
  proof (intro ballI conjI)
    fix x assume x: "x \<in> site_suffixes rs"
    show "file_or_free w1 (at d (n @ x))"
      using same1[OF x] w x by (simp add: runnable_def site_def file_or_free_def)
    fix t assume t: "t \<in> temp_siblings (at d (n @ x))"
    then have "t \<noteq> lock_at d n" "t \<notin> ancestors (at d n)"
      using lock_off_site(3)[OF s x] temp_sibling_form[OF t] by auto
    with f1 w x t show "lookup w1 t = None" by (simp add: runnable_def site_def step_frame_def)
  qed
  with 1 r1 l1 same1 show ?thesis by (auto simp: good_def content_def)
qed

lemma unlock_good:
  assumes g: "good d n rs w" and s: "suffix_ok rs" and l: "\<exists>b m. lookup w (lock_at d n) = Some (File b m)"
  shows "\<exists>w'. lock_release (lock_at d n) w = (Inr () :: manager_error + unit, w') \<and> runnable d n rs w' \<and>
    content w' = (content w)(lock_at d n := None)"
proof -
  have r: "ready w d" "site d n rs w" using g by (auto simp: good_def)
  obtain w' where 3: "lock_release (lock_at d n) w = (Inr () :: manager_error + unit, w')" and f: "step_frame {lock_at d n} w w'"
    and l3: "lookup w' = (lookup w)(lock_at d n := None)"
    using lock_release_calm[of w "lock_at d n"] l r(1) unfolding ready_def by blast
  have r3: "ready w' d" using ready_step[OF r(1) f keepsD[OF lock_release_frame(2) 3]] .
  have "site d n rs w'" using r(2) lock_off_site(1)[OF s] unfolding site_def by (auto simp: l3 file_or_free_def)
  then have "runnable d n rs w'" using r3 ready_anc_ok[OF r3] l3 by (simp add: runnable_def ready_def)
  moreover have "content w' = (content w)(lock_at d n := None)" using l3 by (simp add: content_def fun_eq_iff)
  ultimately show ?thesis using 3 by blast
qed

lemma good_step_lock:
  "good_step d n rs w w' \<Longrightarrow> suffix_ok rs \<Longrightarrow> lookup w' (lock_at d n) = lookup w (lock_at d n)"
  using lock_off_site(2) by (simp add: good_step_def step_frame_def)

lemma runnable_read:
  assumes "runnable d n rs w" "suffix_ok rs" "path_ok (at d n)" "x \<in> site_suffixes rs"
    "fits w (at d (n @ x)) k"
  shows "\<exists>w'. read_snapshot sha (at d (n @ x)) k l w = (Inr (snapshot_of sha (content w (at d (n @ x)))), w') \<and>
    runnable d n rs w' \<and> content w' = content w"
proof -
  have a: "anc_ok w (at d (n @ x))"
    using assms(1) unfolding runnable_def anc_ok_iff ancestors_sibling[of d "n @ x" n] by blast
  obtain w' where r: "read_snapshot sha (at d (n @ x)) k l w = (Inr (snapshot_of sha (content w (at d (n @ x)))), w')"
    and f: "step_frame {} w w'"
    using read_snapshot_calm[of w "at d (n @ x)" k sha l] assms a site_path_ok[OF assms(3,2,4)]
    by (auto simp: runnable_def site_def fits_def)
  have l: "lookup w' = lookup w" by (rule read_snapshot_Inr(3)[OF r])
  have "tree_ok w'" using keepsD[OF tree_steps.keeps_read_snapshot r] assms(1)
    by (simp add: tree_kept_def runnable_def)
  moreover have "anc_ok w' (at d n)" using assms(1) l by (simp add: runnable_def anc_ok_def is_directory_iff)
  ultimately have "runnable d n rs w'"
    using assms(1) f l by (simp add: runnable_def site_def file_or_free_def step_frame_def)
  with r read_snapshot_Inr(2)[OF r] show ?thesis by blast
qed

lemma apply_change_calm:
  assumes w: "runnable d n rs w" and s: "suffix_ok rs" and p: "path_ok (at d n)"
    and ch: "change_at d n rs ch" and fresh: "change_fresh sha ch w"
  shows "\<exists>w'. apply_change sha ch w = (Inr (), w') \<and> content w' (lock_at d n) = None \<and>
    (is_remove (ch_write ch) \<or> runnable d n rs w')"
proof -
  obtain w1 where 1: "lock_acquire (at d n) w = (Inr (lock_at d n), w1)" and g1: "good d n rs w1"
    and l1: "\<exists>b m. lookup w1 (lock_at d n) = Some (File b m)"
    and c1: "\<forall>x \<in> site_suffixes rs. content w1 (at d (n @ x)) = content w (at d (n @ x))"
    using lock_good[OF w s p] by blast
  have fresh1: "change_fresh sha ch w1"
    using fresh ch c1 by (simp add: change_fresh_def fits_def change_at_def site_suffixes_def)
  obtain w2 where 2: "apply_body sha ch w1 = (Inr (), w2)" and g2: "good_step d n rs w1 w2"
    using apply_body_good[OF g1 s p ch fresh1] by blast
  have gd2: "good d n rs w2" using g2 by (simp add: good_step_def)
  have l2: "\<exists>b m. lookup w2 (lock_at d n) = Some (File b m)" using l1 good_step_lock[OF g2 s] by simp
  obtain w3 where 3: "lock_release (lock_at d n) w2 = (Inr () :: manager_error + unit, w3)"
    and run3: "runnable d n rs w3" and c3: "content w3 (lock_at d n) = None"
    using unlock_good[OF gd2 s l2] by auto
  obtain w4 where 4: "prune_empty_managed_directories (at d n) w3 = (Inr () :: manager_error + unit, w4)"
    using prune_Inr by blast
  have c4: "content w4 = content w3" using keepsD[OF prune_frame(1)[of "{}"] 4] by (simp add: untouched_empty)
  have "apply_change sha ch w = (Inr (), if is_remove (ch_write ch) then w4 else w3)"
    using 1 2 3 4 ch by (simp add: apply_change_def bindA_def attempt_def lift_def ret_def change_at_def)
  then show ?thesis using c3 c4 run3 by (cases "is_remove (ch_write ch)") auto
qed

text \<open>With the refinement: on a quiet machine the whole effect happens, lock included.\<close>

lemma apply_change_effect:
  assumes w: "runnable d n rs w" and s: "suffix_ok rs" and p: "path_ok (at d n)"
    and ch: "change_at d n rs ch" and fresh: "change_fresh sha ch w"
  shows "\<exists>w'. apply_change sha ch w = (Inr (), w') \<and> content w' = change_effect ch (content w) \<and>
    (is_remove (ch_write ch) \<or> runnable d n rs w')"
proof -
  obtain w' where run: "apply_change sha ch w = (Inr (), w')" and l: "content w' (lock_at d n) = None"
    and r: "is_remove (ch_write ch) \<or> runnable d n rs w'"
    using apply_change_calm[OF assms] by blast
  have sib: "sibling_path (ch_target ch) ''.kaleidoscope-lock'' = Inr (lock_at d n)"
    and paths: "change_paths rs ch"
    using ch by (simp_all add: change_at_def change_paths_def)
  have rs: "rs \<noteq> ''.kaleidoscope-lock''" using s by (simp add: suffix_ok_def)
  note eff = apply_change_refines[OF run paths sib rs]
  have "change_effect ch (content w) (lock_at d n) = content w (lock_at d n)"
    using ch rs by (auto simp: change_effect_def Let_def change_at_def split: option.splits target_write.splits)
  then have "content w' = change_effect ch (content w)" using eff(1,2) l by (metis ext)
  with run r show ?thesis by blast
qed

end
