(* ===== verification/Plan_Apply_Safety.thy ===== *)
theory Plan_Apply_Safety
  imports Plan_Apply_Correct
begin

text \<open>
  Applying a change on a machine whose calls may fail at any point: what can be touched, that a
  plan made for other contents is refused, that the target is never anything but its old or its
  new contents, and what the rollback of a failed receipt write does.
\<close>

section \<open>Values a path may take\<close>

definition one_of :: "path \<Rightarrow> (bytes \<times> mode) option set \<Rightarrow> world \<Rightarrow> world \<Rightarrow> bool" where
  "one_of p V w w' \<longleftrightarrow> (content w p \<in> V \<longrightarrow> content w' p \<in> V)"

interpretation among: step_relation "one_of p V" for p V
  by unfold_locales (auto simp: one_of_def)

lemma keeps_one_of_outside: "keeps (untouched S) m \<Longrightarrow> p \<notin> S \<Longrightarrow> keeps (one_of p V) m"
  by (auto simp: keeps_def untouched_def one_of_def)

lemma keeps_one_of_write: "Some (b, m AND 511) \<in> V \<Longrightarrow> keeps (one_of p V) (atomic_write p b (Some m))"
  using atomic_write_old_or_new[of p b m] unfolding keeps_def old_or_new_def one_of_def by metis

lemma keeps_one_of_remove: "None \<in> V \<Longrightarrow> keeps (one_of p V) (atomic_remove p)"
  unfolding atomic_remove_def
  by (auto intro!: keeps_intro among.keeps_syscall simp: remove_file_def one_of_def split: keeps_splits)

lemma lock_create_outside: "l \<in> S \<Longrightarrow> keeps (untouched S) (lock_create l)"
  unfolding lock_create_def by (auto intro!: keeps_intro)

context step_relation
begin

lemma keeps_bind_lift: "(\<And>x. r = Inr x \<Longrightarrow> keeps R (k x)) \<Longrightarrow> keeps R (bindA (lift r) k)"
  by (cases r) (auto simp: keeps_def bindA_def lift_def R_refl)

lemma keeps_bind_result:
  assumes "keeps R m" and "\<And>w x w'. m w = (Inr x, w') \<Longrightarrow> keeps R (k x)"
  shows "keeps R (bindA m k)"
  unfolding keeps_def
proof
  fix w
  obtain r w' where m: "m w = (r, w')" by fastforce
  show "R w (snd (bindA m k w))"
  proof (cases r)
    case (Inr x)
    have "R w w'" using keepsD[OF assms(1) m] .
    moreover have "R w' (snd (k x w'))" using assms(2)[of w x w'] m Inr by (simp add: keeps_def)
    ultimately show ?thesis using m Inr R_trans by (simp add: bindA_def)
  qed (use keepsD[OF assms(1) m] m in \<open>simp add: bindA_def\<close>)
qed

end

lemma lock_acquire_outside:
  assumes "sibling_path t ''.kaleidoscope-lock'' = Inr l" "l \<in> S"
  shows "keeps (untouched S) (lock_acquire t)"
  unfolding lock_acquire_def
  by (intro outside.keeps_bindA outside.keeps_bind_lift ensure_parent_content)
    (auto intro!: keeps_intro lock_create_outside simp: assms split: keeps_splits)

section \<open>The target is old or new\<close>

definition new_value :: "change \<Rightarrow> (bytes \<times> mode) option" where
  "new_value ch =
     (case ch_write ch of
        Write b \<Rightarrow> Some (b, the (mode_or_default (ch_original ch)) AND 511)
      | Remove \<Rightarrow> None
      | Leave \<Rightarrow> None)"

definition outcomes :: "change \<Rightarrow> (bytes \<times> mode) option \<Rightarrow> (bytes \<times> mode) option set" where
  "outcomes ch old = (if is_leave (ch_write ch) then {old} else {old, new_value ch})"

lemma write_target_among: "keeps (one_of t (outcomes ch old)) (write_target t (ch_write ch) (ch_original ch))"
proof -
  obtain m where "mode_or_default (ch_original ch) = Some m" using mode_or_default_Some by blast
  then show ?thesis
    by (cases "ch_write ch")
      (auto simp: write_target_def outcomes_def new_value_def is_leave_def
        intro!: keeps_intro keeps_one_of_write keeps_one_of_remove)
qed

lemma restore_among:
  assumes "s = snapshot_of sha old" "\<And>b m. old = Some (b, m) \<Longrightarrow> m AND 511 = m" "old \<in> V"
  shows "keeps (one_of t V) (restore_snapshot t s)"
  using assms by (cases old)
    (auto simp: restore_snapshot_def intro!: keeps_one_of_remove keeps_one_of_write)

lemma atomic_write_elsewhere:
  assumes "x \<noteq> []" shows "keeps (one_of (at d n) V) (atomic_write (at d (n @ x)) b m)"
proof (rule keeps_one_of_outside[OF atomic_write_outside[OF order_refl]])
  show "at d n \<notin> insert (at d (n @ x)) (temp_siblings (at d (n @ x)))"
    using assms by (auto dest: temp_sibling_form)
qed

lemma atomic_remove_elsewhere:
  assumes "x \<noteq> []" shows "keeps (one_of (at d n) V) (atomic_remove (at d (n @ x)))"
  using keeps_one_of_outside[OF atomic_remove_frame(1)[of _ "{at d (n @ x)}"]] assms by simp

lemma apply_change_among:
  assumes ch: "change_at d n rs ch" "rs \<noteq> []"
    and old: "ch_original ch = snapshot_of sha old" "\<And>b m. old = Some (b, m) \<Longrightarrow> m AND 511 = m"
  shows "keeps (one_of (at d n) (outcomes ch old)) (apply_change sha ch)"
proof -
  have at: "ch_target ch = at d n" "ch_receipt_path ch = at d (n @ rs)"
    "ch_backup_path ch = at d (n @ ''.kaleidoscope-backup'')" using ch by (simp_all add: change_at_def)
  have lock: "keeps (one_of (at d n) V) (lock_acquire (at d n))"
    "keeps (one_of (at d n) V) (lock_release (at d (n @ ''.kaleidoscope-lock'')))" for V
    by (rule keeps_one_of_outside[OF lock_acquire_outside[of _ _ "{at d (n @ ''.kaleidoscope-lock'')}"]]
        keeps_one_of_outside[OF lock_release_frame(1)[of _ "{at d (n @ ''.kaleidoscope-lock'')}"]]; simp)+
  have mem: "old \<in> outcomes ch old" by (simp add: outcomes_def)
  have backup: "keeps (one_of (at d n) V) (back_up ch)" for V
    unfolding back_up_def write_bounded_backup_def at
    by (auto intro!: keeps_intro among.keeps_bind_lift atomic_write_elsewhere split: option.splits)
  have receipt: "keeps (one_of (at d n) V) (write_receipt ch)" for V
    unfolding write_receipt_def at using ch(2)
    by (auto intro!: atomic_write_elsewhere atomic_remove_elsewhere split: option.splits)
  have roll: "keeps (one_of (at d n) (outcomes ch old)) (roll_back sha ch)"
    unfolding roll_back_def at by (auto intro!: keeps_intro restore_among[OF old mem])
  have body: "keeps (one_of (at d n) (outcomes ch old)) (apply_body sha ch)"
    unfolding apply_body_def at
    by (auto intro!: keeps_intro backup receipt roll write_target_among atomic_remove_elsewhere split: sum.splits)
  show ?thesis
    unfolding apply_change_def at
  proof (rule among.keeps_bind_result[OF lock(1)])
    fix w l w' assume "lock_acquire (at d n) w = (Inr l, w')"
    then have "l = at d (n @ ''.kaleidoscope-lock'')" using lock_acquire_Inr(1) by fastforce
    then show "keeps (one_of (at d n) (outcomes ch old)) (bindA (attempt (apply_body sha ch)) (\<lambda>result.
        bindA (lock_release l) (\<lambda>_. bindA (lift result) (\<lambda>_.
        if is_remove (ch_write ch) then prune_empty_managed_directories (at d n) else ret ()))))"
      using keeps_one_of_outside[OF prune_frame(1)[of "{}"]]
      by (auto intro!: keeps_intro body lock(2))
  qed
qed

section \<open>A stale plan is refused\<close>

lemma stale_body:
  assumes "ch_original ch \<noteq> snapshot_of sha (content w (ch_target ch)) \<or>
      ch_receipt_original ch \<noteq> snapshot_of sha (content w (ch_receipt_path ch))"
    and run: "apply_body sha ch w = (r, w')"
  shows "isl r" and "content w' = content w"
proof -
  obtain r1 w1 where 1: "assert_unchanged sha (ch_target ch) (ch_original ch) (ch_max ch) (ch_label ch) w = (r1, w1)"
    by fastforce
  obtain r2 w2 where 2: "assert_unchanged sha (ch_receipt_path ch) (ch_receipt_original ch) (ch_max_receipt ch)
      (ch_receipt_label ch) w1 = (r2, w2)" by fastforce
  have c: "content w1 = content w" "content w2 = content w1"
    using keepsD[OF outside.keeps_assert_unchanged[of "{}"] 1] keepsD[OF outside.keeps_assert_unchanged[of "{}"] 2]
    by (simp_all add: untouched_empty)
  consider e where "r1 = Inl e" | u e where "r1 = Inr u" "r2 = Inl e"
  proof (cases r1)
    case (Inr u)
    with 1 have "ch_original ch = snapshot_of sha (content w (ch_target ch))" using assert_unchanged_Inr(1) by metis
    with assms(1) have st: "ch_receipt_original ch \<noteq> snapshot_of sha (content w1 (ch_receipt_path ch))"
      using c(1) by simp
    show ?thesis
    proof (cases r2)
      case (Inr v)
      with 2 st show ?thesis using assert_unchanged_Inr(1) by metis
    qed (use that Inr in blast)
  qed (use that in blast)
  then have "isl r \<and> content w' = content w"
  proof cases
    case 1
    with \<open>assert_unchanged sha (ch_target ch) _ _ _ w = _\<close> run c show ?thesis
      by (simp add: apply_body_def bindA_Inl) auto
  next
    case (2 u e)
    with \<open>assert_unchanged sha (ch_target ch) _ _ _ w = _\<close> \<open>assert_unchanged sha (ch_receipt_path ch) _ _ _ w1 = _\<close> run c
    show ?thesis by (simp add: apply_body_def bindA_Inl bindA_Inr) auto
  qed
  then show "isl r" "content w' = content w" by auto
qed

lemma lock_release_Inr: "\<exists>w'. lock_release l w = (Inr (), w')"
  by (cases "remove_file l w") (simp add: lock_release_def bindA_def attempt_def ret_def)

lemma stale_refused:
  assumes l: "sibling_path (ch_target ch) ''.kaleidoscope-lock'' = Inr l" "l \<noteq> ch_target ch" "l \<noteq> ch_receipt_path ch"
    and stale: "ch_original ch \<noteq> snapshot_of sha (content w (ch_target ch)) \<or>
      ch_receipt_original ch \<noteq> snapshot_of sha (content w (ch_receipt_path ch))"
    and run: "apply_change sha ch w = (r, w')"
  shows "isl r" and "untouched {l} w w'"
proof -
  obtain r1 w1 where 1: "lock_acquire (ch_target ch) w = (r1, w1)" by fastforce
  have u1: "untouched {l} w w1" using keepsD[OF lock_acquire_outside[OF l(1), of "{l}"] 1] by simp
  show "isl r" "untouched {l} w w'"
  proof (atomize(full), cases r1)
    case (Inl e)
    with 1 run u1 show "isl r \<and> untouched {l} w w'" by (auto simp: apply_change_def bindA_def)
  next
    case (Inr k)
    with 1 l have k: "k = l" using lock_acquire_Inr(1) by fastforce
    obtain r2 w2 where 2: "apply_body sha ch w1 = (r2, w2)" by fastforce
    have "content w1 (ch_target ch) = content w (ch_target ch)" "content w1 (ch_receipt_path ch) = content w (ch_receipt_path ch)"
      using u1 l by (auto simp: untouched_def)
    with stale have st: "ch_original ch \<noteq> snapshot_of sha (content w1 (ch_target ch)) \<or>
      ch_receipt_original ch \<noteq> snapshot_of sha (content w1 (ch_receipt_path ch))" by simp
    note b = stale_body[OF st 2]
    then obtain e where e: "r2 = Inl e" by (cases r2) auto
    obtain w3 where 3: "lock_release l w2 = (Inr () :: manager_error + unit, w3)"
      using lock_release_Inr by blast
    have "untouched {l} w2 w3" using keepsD[OF lock_release_frame(1)[of l "{l}"] 3] by simp
    with u1 b(2) have "untouched {l} w w3" by (auto simp: untouched_def)
    moreover have "r = Inl e" "w' = w3"
      using run 1 Inr 2 3 e k by (auto simp: apply_change_def bindA_def attempt_def lift_def)
    ultimately show "isl r \<and> untouched {l} w w'" by simp
  qed
qed

section \<open>The rollback\<close>

text \<open>
  The rollback compares the target with the snapshot the plan predicted. When the target did not
  exist before, that prediction has no permission bits while the file just written has some, so
  the comparison never succeeds and the new file stays.
\<close>

lemma roll_back_of_created_file:
  assumes "ch_original ch = snapshot_of sha None" "ch_write ch = Write b" "content w (ch_target ch) \<noteq> None"
    and checked: "\<not> ch_unchecked_rollback ch" and run: "roll_back sha ch w = (r, w')"
  shows "content w' = content w"
proof -
  let ?s = "snapshot_after sha (ch_write ch) (ch_original ch)"
  obtain r1 w1 where 1: "assert_unchanged sha (ch_target ch) ?s (ch_max ch) (ch_label ch) w = (r1, w1)" by fastforce
  have "isl r1"
  proof (rule ccontr)
    assume "\<not> isl r1"
    then obtain u where "r1 = Inr u" by (cases r1) auto
    with assert_unchanged_Inr(1) 1 have "?s = snapshot_of sha (content w (ch_target ch))" by metis
    then have "unix_mode ?s = map_option snd (content w (ch_target ch))" by simp
    with assms(1-3) show False by (auto simp: snapshot_after_def)
  qed
  moreover have "content w1 = content w"
    using keepsD[OF outside.keeps_assert_unchanged[of "{}"] 1] by (simp add: untouched_empty)
  ultimately show ?thesis using run 1 checked by (auto simp: roll_back_def bindA_def attempt_def)
qed

end
