(* ===== verification/Host_Types.thy ===== *)
theory Host_Types
  imports Errors
begin

text \<open>
  The enumerations of \<^verbatim>\<open>src/src/host.rs\<close> that several components share, with their textual
  forms: \<^verbatim>\<open>as_str\<close> renders, \<^verbatim>\<open>from_str\<close> parses a command-line word.
\<close>

datatype host = Codex | ClaudeCode | CursorHost | OpenCode

definition all_hosts :: "host list" where
  "all_hosts = [Codex, ClaudeCode, CursorHost, OpenCode]"

fun host_as_str :: "host \<Rightarrow> string" where
  "host_as_str Codex = ''codex''"
| "host_as_str ClaudeCode = ''claude-code''"
| "host_as_str CursorHost = ''cursor''"
| "host_as_str OpenCode = ''opencode''"

text \<open>
  serde's name of a host, \<^verbatim>\<open>rename_all = "kebab-case"\<close>: summaries and receipts carry it.
\<close>

fun host_serde :: "host \<Rightarrow> string" where
  "host_serde Codex = ''codex''"
| "host_serde ClaudeCode = ''claude-code''"
| "host_serde CursorHost = ''cursor''"
| "host_serde OpenCode = ''open-code''"

definition host_from_str :: "string \<Rightarrow> manager_error + host" where
  "host_from_str s =
     (if s = ''codex'' then Inr Codex
      else if s = ''claude'' \<or> s = ''claude-code'' then Inr ClaudeCode
      else if s = ''cursor'' then Inr CursorHost
      else if s = ''opencode'' then Inr OpenCode
      else Inl (Usage BadHost))"

datatype scope = UserScope | ProjectScope

fun scope_as_str :: "scope \<Rightarrow> string" where
  "scope_as_str UserScope = ''user''"
| "scope_as_str ProjectScope = ''project''"

definition scope_from_str :: "string \<Rightarrow> manager_error + scope" where
  "scope_from_str s =
     (if s = ''user'' then Inr UserScope
      else if s = ''project'' then Inr ProjectScope
      else Inl (Usage BadScope))"

datatype opencode_version = StableV1 | BetaV2

definition opencode_from_str :: "string \<Rightarrow> manager_error + opencode_version" where
  "opencode_from_str s =
     (if s \<in> {''stable'', ''stable-v1'', ''v1''} then Inr StableV1
      else if s \<in> {''beta'', ''beta-v2'', ''v2''} then Inr BetaV2
      else Inl (Usage BadOpenCodeVersion))"

text \<open>A closed enumeration printed by \<open>show\<close> and read back by \<open>parse\<close>.\<close>

locale text_codec =
  fixes show_word :: "'a \<Rightarrow> string" and parse_word :: "string \<Rightarrow> 'e + 'a"
  assumes parse_show: "parse_word (show_word x) = Inr x"
begin

lemma show_injective: "show_word x = show_word y \<Longrightarrow> x = y"
  by (metis parse_show sum.inject(2))

lemma parse_surjective: "\<exists>s. parse_word s = Inr x"
  using parse_show by blast

end

interpretation host_codec: text_codec host_as_str host_from_str
proof
  show "host_from_str (host_as_str h) = Inr h" for h by (cases h) (simp_all add: host_from_str_def)
qed

interpretation scope_codec: text_codec scope_as_str scope_from_str
proof
  show "scope_from_str (scope_as_str s) = Inr s" for s by (cases s) (simp_all add: scope_from_str_def)
qed

end
