(* ===== verification/Instructions.thy ===== *)
theory Instructions
  imports Plan_Apply Host_Types
begin

text \<open>
  Agent instruction files and the skill (\<^verbatim>\<open>src/src/instructions.rs\<close>): which bytes of a file the
  manager owns, the owner receipt beside it, the install and remove planners, and the
  application of a plan. What the source takes from outside is the record \<open>instr_ext\<close>: SHA-256,
  the canonical texts it embeds with \<^verbatim>\<open>include_str!\<close>, and serde's encoding of a receipt.
  Previews and JSON summaries, which are display text, are not modelled.
\<close>

section \<open>Data\<close>

datatype instruction_target = Skill | Agents | Claude | Cursor

fun target_as_str :: "instruction_target \<Rightarrow> string" where
  "target_as_str Skill = ''skill''"
| "target_as_str Agents = ''agents''"
| "target_as_str Claude = ''claude''"
| "target_as_str Cursor = ''cursor''"

definition requires_host :: "instruction_target \<Rightarrow> bool" where
  "requires_host t \<longleftrightarrow> t = Skill"

definition target_from_str :: "string \<Rightarrow> manager_error + instruction_target" where
  "target_from_str s =
     (if s = ''skill'' \<or> s = ''skill.md'' then Inr Skill
      else if s = ''agents'' \<or> s = ''agents.md'' then Inr Agents
      else if s = ''claude'' \<or> s = ''claude.md'' then Inr Claude
      else if s = ''cursor'' \<or> s = ''cursor-rule'' then Inr Cursor
      else Inl (Usage BadInstructionTarget))"

datatype owned_shape = MarkerBlock | WholeFile

datatype instruction_action =
  InstrAdd | InstrAdopt | InstrUpdate | InstrRemove | AlreadyInstalled | AlreadyRemoved

datatype restore_tier = ByteIdentical | Structural | AdoptedLeftInPlace

definition owner_id :: string where
  "owner_id = ''kaleidoscope-manager-v1''"

definition instr_receipt_version :: nat where
  "instr_receipt_version = 2"

definition max_instruction_bytes :: nat where
  "max_instruction_bytes = 1024 * 1024"

definition max_receipt_bytes :: nat where
  "max_receipt_bytes = 64 * 1024"

record instruction_receipt =
  ir_version :: nat
  ir_owner :: string
  ir_target :: instruction_target
  ir_shape :: owned_shape
  ir_owned_sha256 :: string
  ir_owned_block :: bytes
  ir_pre_sha256 :: string
  ir_post_sha256 :: string
  ir_separator :: bytes
  ir_file_created :: bool
  ir_adopted :: bool

record instr_ext =
  ix_sha :: hash
  ix_block :: "instruction_target \<Rightarrow> bytes"
  ix_to_vec_pretty :: "instruction_receipt \<Rightarrow> bytes"
  ix_from_slice :: "bytes \<Rightarrow> instruction_receipt option"

record instruction_plan =
  ip_target_kind :: instruction_target
  ip_host :: "host option"
  ip_action :: instruction_action
  ip_target :: path
  ip_receipt_path :: path
  ip_backup_path :: path
  ip_restore :: "restore_tier option"
  ip_discarded :: "bytes option"
  ip_adopted :: bool
  ip_original :: snapshot
  ip_receipt_original :: snapshot
  ip_write :: target_write
  ip_receipt_after :: "instruction_receipt option"
  ip_remove_backup :: bool

section \<open>Markers\<close>

fun marker_start :: "instruction_target \<Rightarrow> bytes" where
  "marker_start Skill = []"
| "marker_start Agents =
     ''<!-- >>> kaleidoscope-manager owner=kaleidoscope-manager-v1 instruction=agents -->''"
| "marker_start Claude =
     ''<!-- >>> kaleidoscope-manager owner=kaleidoscope-manager-v1 instruction=claude -->''"
| "marker_start Cursor =
     ''---'' @ nl @ ''# >>> kaleidoscope-manager owner=kaleidoscope-manager-v1 instruction=cursor''"

fun marker_end :: "instruction_target \<Rightarrow> bytes" where
  "marker_end Skill = []"
| "marker_end Agents =
     ''<!-- <<< kaleidoscope-manager owner=kaleidoscope-manager-v1 instruction=agents -->''"
| "marker_end Claude =
     ''<!-- <<< kaleidoscope-manager owner=kaleidoscope-manager-v1 instruction=claude -->''"
| "marker_end Cursor = ''# <<< kaleidoscope-manager owner=kaleidoscope-manager-v1 instruction=cursor''"

fun owned_shape_of :: "instruction_target \<Rightarrow> owned_shape" where
  "owned_shape_of Skill = WholeFile"
| "owned_shape_of _ = MarkerBlock"

definition canonical_block :: "instr_ext \<Rightarrow> instruction_target \<Rightarrow> bytes" where
  "canonical_block ext t = ix_block ext t"

definition find_owned_block :: "bytes \<Rightarrow> instruction_target \<Rightarrow> manager_error + bytes option" where
  "find_owned_block text t =
     (case (match_indices text (marker_start t), match_indices text (marker_end t)) of
        ([], []) \<Rightarrow> Inr None
      | ([s], [e]) \<Rightarrow>
          if s < e then
            let after = e + length (marker_end t);
                after' = (if after < length text \<and> text ! after = CHR 0x0A then after + 1 else after)
            in Inr (Some (take (after' - s) (drop s text)))
          else Inl (InvalidHostConfig MarkerDuplicatedOrIncomplete)
      | _ \<Rightarrow> Inl (InvalidHostConfig MarkerDuplicatedOrIncomplete))"

definition relaxed_marker :: "bytes \<Rightarrow> bytes" where
  "relaxed_marker full =
     (case str_find ''kaleidoscope-manager'' full of
        Some i \<Rightarrow> take (i + length ''kaleidoscope-manager'') full
      | None \<Rightarrow> full)"

definition forced_owned_span :: "bytes \<Rightarrow> instruction_target \<Rightarrow> bytes option" where
  "forced_owned_span text t =
     (let s = relaxed_marker (marker_start t); e = relaxed_marker (marker_end t) in
      if s = [] \<or> e = [] then None
      else
        let hits = map (\<lambda>i. (i, i + length s)) (match_indices text s)
                 @ map (\<lambda>i. (i, i + length e)) (match_indices text e)
        in if hits = [] then None
           else
             let lowest = Min (set (map fst hits)); highest = Max (set (map snd hits));
                 after = (case str_find nl (drop highest text) of
                            None \<Rightarrow> length text | Some off \<Rightarrow> highest + off + 1)
             in Some (take (after - lowest) (drop lowest text)))"

section \<open>Receipts\<close>

definition receipt_validate :: "hash \<Rightarrow> instruction_receipt \<Rightarrow> instruction_target \<Rightarrow> manager_error + unit" where
  "receipt_validate sha r t =
     (if ir_version r \<noteq> instr_receipt_version \<or> ir_owner r \<noteq> owner_id \<or> ir_target r \<noteq> t
         \<or> ir_owned_sha256 r \<noteq> digest_bytes sha (ir_owned_block r)
      then Inl InvalidOwnerReceipt
      else if ir_shape r = MarkerBlock
              \<and> (\<not> starts_with (ir_owned_block r) (marker_start t)
                 \<or> \<not> ends_with (ir_owned_block r) (marker_end t @ nl))
      then Inl InvalidOwnerReceipt
      else Inr ())"

definition receipt_encode :: "instr_ext \<Rightarrow> instruction_receipt \<Rightarrow> bytes" where
  "receipt_encode ext r = ix_to_vec_pretty ext r @ nl"

definition decode_receipt ::
    "instr_ext \<Rightarrow> snapshot \<Rightarrow> instruction_target \<Rightarrow> manager_error + instruction_receipt option" where
  "decode_receipt ext s t =
     (case snap_bytes s of
        None \<Rightarrow> Inr None
      | Some b \<Rightarrow>
          (case ix_from_slice ext b of
             None \<Rightarrow> Inl InvalidOwnerReceipt
           | Some r \<Rightarrow> bindR (receipt_validate (ix_sha ext) r t) (\<lambda>_. Inr (Some r))))"

definition instr_snapshot_text :: "snapshot \<Rightarrow> manager_error + bytes" where
  "instr_snapshot_text s =
     (let b = (case snap_bytes s of None \<Rightarrow> [] | Some b \<Rightarrow> b) in
      if utf8_valid b then Inr b else Inl (InvalidHostConfig InstructionNotUtf8))"

section \<open>Ownership\<close>

definition current_owned ::
    "bytes \<Rightarrow> instruction_target \<Rightarrow> instruction_receipt option \<Rightarrow> owned_shape \<Rightarrow> bool \<Rightarrow> manager_error + bytes option" where
  "current_owned text t receipt shape force =
     (case shape of
        MarkerBlock \<Rightarrow>
          (case find_owned_block text t of
             Inl e \<Rightarrow>
               if force then
                 (case forced_owned_span text t of
                    Some span \<Rightarrow> Inr (Some span)
                  | None \<Rightarrow> find_owned_block text t)
               else Inl e
           | Inr c \<Rightarrow> Inr c)
      | WholeFile \<Rightarrow>
          if text = [] then Inr None
          else if receipt \<noteq> None then Inr (Some text)
          else Inr None)"

definition validate_ownership ::
    "hash \<Rightarrow> instruction_receipt option \<Rightarrow> bytes option \<Rightarrow> instruction_target \<Rightarrow> manager_error + unit" where
  "validate_ownership sha receipt current t =
     (case (receipt, current) of
        (None, None) \<Rightarrow> Inr ()
      | (None, Some _) \<Rightarrow> Inl (HostConflict BlockDiffersNoReceipt)
      | (Some r, Some c) \<Rightarrow>
          if ir_target r = t \<and> ir_owned_block r = c \<and> ir_owned_sha256 r = digest_bytes sha c
          then Inr () else Inl (HostConflict OwnedBlockHandEdited)
      | _ \<Rightarrow> Inl (HostConflict OwnedBlockHandEdited))"

definition block_separator :: "bytes \<Rightarrow> bytes" where
  "block_separator text =
     (if text = [] \<or> ends_with text (nl @ nl) then []
      else if ends_with text nl then nl else nl @ nl)"

definition install_block ::
    "bytes \<Rightarrow> bytes option \<Rightarrow> bytes \<Rightarrow> owned_shape \<Rightarrow> manager_error + bytes \<times> bytes" where
  "install_block text current desired shape =
     (case current of
        Some c \<Rightarrow>
          if shape = WholeFile then Inr (desired, [])
          else if matches_count text c \<noteq> 1 then Inl (InvalidHostConfig OwnedBlockAmbiguous)
          else Inr (replace_first text c desired, [])
      | None \<Rightarrow>
          if shape = WholeFile then Inr (desired, [])
          else Inr (text @ block_separator text @ desired, block_separator text))"

text \<open>
  \<^verbatim>\<open>&text[start - separator.len()..start]\<close> panics when the separator's length reaches into the
  middle of a character.
\<close>

definition remove_block :: "bytes \<Rightarrow> bytes \<Rightarrow> bytes \<Rightarrow> owned_shape \<Rightarrow> manager_error + bytes" where
  "remove_block text block separator shape =
     (if shape = WholeFile then Inr []
      else case str_find block text of
        None \<Rightarrow> Inl InvalidOwnerReceipt
      | Some start \<Rightarrow>
          if str_contains (drop (start + length block) text) block then Inl InvalidOwnerReceipt
          else if separator \<noteq> [] \<and> length separator \<le> start then
            if \<not> is_char_boundary text (start - length separator) then Inl (Panicked ''string slice'')
            else if take (length separator) (drop (start - length separator) text) = separator then
              Inr (take (start - length separator) text @ drop (start + length block) text)
            else Inr (take start text @ drop (start + length block) text)
          else Inr (take start text @ drop (start + length block) text))"

section \<open>Paths\<close>

definition skill_suffix :: path where
  "skill_suffix = [Normal ''skills'', Normal ''use-kaleidoscope'', Normal ''SKILL.md'']"

definition instruction_path ::
    "instruction_target \<Rightarrow> host option \<Rightarrow> path \<Rightarrow> manager_error + path" where
  "instruction_path t h project =
     (if \<not> is_absolute project then Inl (UnsafePath ''project directory'' ''path must be absolute'')
      else case t of
        Skill \<Rightarrow>
          (case h of
             None \<Rightarrow> Inl (Usage SkillRequiresHost)
           | Some ClaudeCode \<Rightarrow> Inr (join project (Normal ''.claude'' # skill_suffix))
           | Some CursorHost \<Rightarrow> Inl (Usage CursorHasNoSkill)
           | Some _ \<Rightarrow> Inr (join project (Normal ''.agents'' # skill_suffix)))
      | Agents \<Rightarrow> Inr (join project [Normal ''AGENTS.md''])
      | Claude \<Rightarrow> Inr (join project [Normal ''CLAUDE.md''])
      | Cursor \<Rightarrow> Inr (join project [Normal ''.cursor'', Normal ''rules'', Normal ''kaleidoscope.mdc'']))"

definition instr_receipt_suffix :: bytes where
  "instr_receipt_suffix = ''.kaleidoscope-instruction-owner.json''"

definition backup_suffix :: bytes where
  "backup_suffix = ''.kaleidoscope-backup''"

section \<open>Plans\<close>

definition noop_plan ::
    "instruction_target \<Rightarrow> host option \<Rightarrow> instruction_action \<Rightarrow> path \<Rightarrow> path \<Rightarrow> path
     \<Rightarrow> snapshot \<Rightarrow> snapshot \<Rightarrow> instruction_plan" where
  "noop_plan t h action target receipt_path backup_path original receipt_original =
     \<lparr>ip_target_kind = t, ip_host = h, ip_action = action, ip_target = target,
      ip_receipt_path = receipt_path, ip_backup_path = backup_path, ip_restore = None,
      ip_discarded = None, ip_adopted = False, ip_original = original,
      ip_receipt_original = receipt_original, ip_write = Leave, ip_receipt_after = None,
      ip_remove_backup = False\<rparr>"

definition adopt_plan ::
    "hash \<Rightarrow> instruction_target \<Rightarrow> host option \<Rightarrow> path \<Rightarrow> path \<Rightarrow> path
     \<Rightarrow> snapshot \<Rightarrow> snapshot \<Rightarrow> bytes \<Rightarrow> owned_shape \<Rightarrow> instruction_plan" where
  "adopt_plan sha t h target receipt_path backup_path original receipt_original desired shape =
     \<lparr>ip_target_kind = t, ip_host = h, ip_action = InstrAdopt, ip_target = target,
      ip_receipt_path = receipt_path, ip_backup_path = backup_path, ip_restore = None,
      ip_discarded = None, ip_adopted = True, ip_original = original,
      ip_receipt_original = receipt_original, ip_write = Leave,
      ip_receipt_after = Some
        \<lparr>ir_version = instr_receipt_version, ir_owner = owner_id, ir_target = t, ir_shape = shape,
         ir_owned_sha256 = digest_bytes sha desired, ir_owned_block = desired,
         ir_pre_sha256 = sha256 original, ir_post_sha256 = sha256 original,
         ir_separator = [], ir_file_created = False, ir_adopted = True\<rparr>,
      ip_remove_backup = False\<rparr>"

text \<open>
  The decision of \<^verbatim>\<open>plan_install_at\<close>, once the three files are read: pure, over the snapshots.
\<close>

definition decide_install ::
    "instr_ext \<Rightarrow> instruction_target \<Rightarrow> host option \<Rightarrow> path \<Rightarrow> path \<Rightarrow> path
     \<Rightarrow> snapshot \<Rightarrow> snapshot \<Rightarrow> bool \<Rightarrow> manager_error + instruction_plan" where
  "decide_install ext t h target receipt_path backup_path original receipt_original force =
     bindR (decode_receipt ext receipt_original t) (\<lambda>old_receipt.
     bindR (instr_snapshot_text original) (\<lambda>text.
     let shape = owned_shape_of t; desired = canonical_block ext t in
     bindR (current_owned text t old_receipt shape force) (\<lambda>current.
     let adopt_now =
           (case shape of
              WholeFile \<Rightarrow> old_receipt = None \<and> text \<noteq> [] \<and> text = desired
            | MarkerBlock \<Rightarrow> old_receipt = None \<and> current = Some desired) in
     if adopt_now then
       Inr (adopt_plan (ix_sha ext) t h target receipt_path backup_path original receipt_original desired shape)
     else
       let foreign = (t \<in> {Skill, Cursor} \<and> old_receipt = None \<and> current = None \<and> \<not> str_blank text) in
       if foreign \<and> shape = MarkerBlock then Inl (HostConflict CursorUnmarkedFile)
       else if foreign \<and> \<not> force then Inl (HostConflict WholeFileDiffers)
       else
         let discarded0 = (if foreign then Some text else None) in
         bindR (if force then Inr () else validate_ownership (ix_sha ext) old_receipt current t) (\<lambda>_.
         let discarded =
               (case current of
                  Some c \<Rightarrow>
                    if force \<and> \<not> (case old_receipt of Some r \<Rightarrow> ir_owned_block r = c | None \<Rightarrow> False)
                    then Some c else discarded0
                | None \<Rightarrow> discarded0) in
         if current = Some desired
            \<and> (case old_receipt of Some r \<Rightarrow> ir_owned_block r = desired | None \<Rightarrow> False) then
           Inr (noop_plan t h AlreadyInstalled target receipt_path backup_path original receipt_original)
         else
           bindR (install_block text current desired shape) (\<lambda>(updated, separator).
           Inr \<lparr>ip_target_kind = t, ip_host = h,
                ip_action = (if current \<noteq> None then InstrUpdate else InstrAdd),
                ip_target = target, ip_receipt_path = receipt_path, ip_backup_path = backup_path,
                ip_restore = None, ip_discarded = discarded,
                ip_adopted = (case old_receipt of Some r \<Rightarrow> ir_adopted r | None \<Rightarrow> False),
                ip_original = original, ip_receipt_original = receipt_original,
                ip_write = Write updated,
                ip_receipt_after = Some
                  \<lparr>ir_version = instr_receipt_version, ir_owner = owner_id, ir_target = t, ir_shape = shape,
                   ir_owned_sha256 = digest_bytes (ix_sha ext) desired, ir_owned_block = desired,
                   ir_pre_sha256 = (case old_receipt of Some r \<Rightarrow> ir_pre_sha256 r | None \<Rightarrow> sha256 original),
                   ir_post_sha256 = digest_bytes (ix_sha ext) updated,
                   ir_separator = separator,
                   ir_file_created =
                     (case old_receipt of Some r \<Rightarrow> ir_file_created r | None \<Rightarrow> snap_bytes original = None),
                   ir_adopted = (case old_receipt of Some r \<Rightarrow> ir_adopted r | None \<Rightarrow> False)\<rparr>,
                ip_remove_backup = False\<rparr>)))))"

definition read_instruction_files ::
    "instr_ext \<Rightarrow> instruction_target \<Rightarrow> host option \<Rightarrow> path
     \<Rightarrow> (manager_error, path \<times> path \<times> path \<times> snapshot \<times> snapshot) act" where
  "read_instruction_files ext t h project =
     bindA (lift (instruction_path t h project)) (\<lambda>target.
     bindA (lift (sibling_path target instr_receipt_suffix)) (\<lambda>receipt_path.
     bindA (lift (sibling_path target backup_suffix)) (\<lambda>backup_path.
     bindA (read_snapshot (ix_sha ext) target max_instruction_bytes ''agent instruction file'') (\<lambda>original.
     bindA (read_snapshot (ix_sha ext) receipt_path max_receipt_bytes ''instruction owner receipt'') (\<lambda>receipt_original.
     ret (target, receipt_path, backup_path, original, receipt_original))))))"

definition plan_install_at ::
    "instr_ext \<Rightarrow> instruction_target \<Rightarrow> host option \<Rightarrow> path \<Rightarrow> bool \<Rightarrow> (manager_error, instruction_plan) act" where
  "plan_install_at ext t h project force =
     bindA (read_instruction_files ext t h project)
       (\<lambda>(target, receipt_path, backup_path, original, receipt_original).
          lift (decide_install ext t h target receipt_path backup_path original receipt_original force))"

text \<open>
  The removal planner. It reads the backup only on the branches that need it, so it stays an
  action; \<open>removal\<close> builds the plan records they share.
\<close>

definition removal ::
    "instruction_target \<Rightarrow> host option \<Rightarrow> path \<Rightarrow> path \<Rightarrow> path \<Rightarrow> snapshot \<Rightarrow> snapshot
     \<Rightarrow> instruction_receipt \<Rightarrow> restore_tier \<Rightarrow> bytes option \<Rightarrow> target_write \<Rightarrow> bool \<Rightarrow> instruction_plan" where
  "removal t h target receipt_path backup_path original receipt_original r tier discarded write remove_backup =
     \<lparr>ip_target_kind = t, ip_host = h, ip_action = InstrRemove, ip_target = target,
      ip_receipt_path = receipt_path, ip_backup_path = backup_path, ip_restore = Some tier,
      ip_discarded = discarded, ip_adopted = ir_adopted r, ip_original = original,
      ip_receipt_original = receipt_original, ip_write = write, ip_receipt_after = None,
      ip_remove_backup = remove_backup\<rparr>"

definition backup_is_pre :: "snapshot \<Rightarrow> instruction_receipt \<Rightarrow> bool" where
  "backup_is_pre backup r \<longleftrightarrow> snap_bytes backup \<noteq> None \<and> sha256 backup = ir_pre_sha256 r"

text \<open>The last decision of the removal, once the backup is read.\<close>

definition decide_remove ::
    "instruction_receipt \<Rightarrow> owned_shape \<Rightarrow> bytes \<Rightarrow> bytes \<Rightarrow> bool \<Rightarrow> snapshot
     \<Rightarrow> manager_error + (restore_tier \<times> target_write \<times> bool)" where
  "decide_remove r shape text current file_is_ours backup =
     (if \<not> ir_adopted r \<and> file_is_ours \<and> (ir_file_created r \<or> backup_is_pre backup r) then
        Inr (ByteIdentical,
             if ir_file_created r then Remove
             else case snap_bytes backup of None \<Rightarrow> Remove | Some b \<Rightarrow> Write b, True)
      else
        bindR (remove_block text current (ir_separator r) shape) (\<lambda>removed.
        Inr (Structural,
             if ir_file_created r \<and> str_blank removed then Remove
             else if shape = WholeFile \<and> \<not> ir_file_created r then Leave
             else Write removed, False)))"

text \<open>The removal of a target whose receipt is there.\<close>

definition remove_with_receipt ::
    "instr_ext \<Rightarrow> instruction_target \<Rightarrow> path \<Rightarrow> (restore_tier \<Rightarrow> bytes option \<Rightarrow> target_write \<Rightarrow> bool \<Rightarrow> instruction_plan)
     \<Rightarrow> instruction_receipt \<Rightarrow> snapshot \<Rightarrow> bytes \<Rightarrow> bytes option \<Rightarrow> bool \<Rightarrow> (manager_error, instruction_plan) act" where
  "remove_with_receipt ext t backup_path plan r original text current_opt force =
     (let shape = owned_shape_of t; file_is_ours = (sha256 original = ir_post_sha256 r) in
      if shape = WholeFile \<and> \<not> ir_file_created r then
        bindA (read_snapshot (ix_sha ext) backup_path max_instruction_bytes ''instruction backup'') (\<lambda>backup.
          if file_is_ours \<and> backup_is_pre backup r then
            ret (plan ByteIdentical None (case snap_bytes backup of None \<Rightarrow> Leave | Some b \<Rightarrow> Write b) True)
          else ret (plan AdoptedLeftInPlace None Leave False))
      else
        bindA (if force then ret ()
               else lift (validate_ownership (ix_sha ext) (Some r) current_opt t)) (\<lambda>_.
        case current_opt of
          None \<Rightarrow> throw (InvalidHostConfig ReceiptButNoMarker)
        | Some current \<Rightarrow>
            let discarded = (if force \<and> ir_owned_block r \<noteq> current then Some current else None) in
            bindA (read_snapshot (ix_sha ext) backup_path max_instruction_bytes ''instruction backup'') (\<lambda>backup.
            bindA (lift (decide_remove r shape text current file_is_ours backup)) (\<lambda>(tier, write, remove_backup).
            ret (plan tier discarded write remove_backup)))))"

definition plan_remove_at ::
    "instr_ext \<Rightarrow> instruction_target \<Rightarrow> host option \<Rightarrow> path \<Rightarrow> bool \<Rightarrow> (manager_error, instruction_plan) act" where
  "plan_remove_at ext t h project force =
     bindA (read_instruction_files ext t h project)
       (\<lambda>(target, receipt_path, backup_path, original, receipt_original).
     bindA (lift (decode_receipt ext receipt_original t)) (\<lambda>receipt_opt.
     bindA (lift (instr_snapshot_text original)) (\<lambda>text.
     bindA (lift (current_owned text t receipt_opt (owned_shape_of t) force)) (\<lambda>current_opt.
     case receipt_opt of
       None \<Rightarrow>
         if current_opt \<noteq> None then throw (HostConflict MarkerWithoutReceipt)
         else ret (noop_plan t h AlreadyRemoved target receipt_path backup_path original receipt_original)
     | Some r \<Rightarrow>
         remove_with_receipt ext t backup_path
           (removal t h target receipt_path backup_path original receipt_original r)
           r original text current_opt force))))"

section \<open>Applying a plan\<close>

definition is_noop :: "instruction_plan \<Rightarrow> bool" where
  "is_noop plan \<longleftrightarrow> ip_action plan = AlreadyInstalled \<or> ip_action plan = AlreadyRemoved"

text \<open>The plan as a change of the three files, and its application.\<close>

definition instr_change :: "instr_ext \<Rightarrow> instruction_plan \<Rightarrow> change" where
  "instr_change ext plan =
     \<lparr>ch_target = ip_target plan, ch_receipt_path = ip_receipt_path plan,
      ch_backup_path = ip_backup_path plan, ch_undoing = (ip_restore plan \<noteq> None),
      ch_original = ip_original plan, ch_receipt_original = ip_receipt_original plan,
      ch_write = ip_write plan,
      ch_receipt_bytes = map_option (receipt_encode ext) (ip_receipt_after plan),
      ch_remove_backup = ip_remove_backup plan,
      ch_max = max_instruction_bytes, ch_max_receipt = max_receipt_bytes,
      ch_label = ''agent instruction file'', ch_receipt_label = ''instruction owner receipt'',
      ch_unchecked_rollback = False\<rparr>"

definition apply_plan :: "instr_ext \<Rightarrow> instruction_plan \<Rightarrow> (manager_error, unit) act" where
  "apply_plan ext plan =
     (if is_noop plan then ret () else apply_change (ix_sha ext) (instr_change ext plan))"

definition backup_after :: "instruction_plan \<Rightarrow> bool \<Rightarrow> ('e, path option) act" where
  "backup_after plan dry_run =
     (if dry_run \<and> ip_restore plan = None \<and> \<not> is_leave (ip_write plan) then ret (Some (ip_backup_path plan))
      else if dry_run \<and> ip_remove_backup plan then ret None
      else bindA (path_exists (ip_backup_path plan)) (\<lambda>there.
             ret (if there then Some (ip_backup_path plan) else None)))"

fun any_receipt :: "path \<Rightarrow> (instruction_target \<times> host option) list \<Rightarrow> ('e, bool) act" where
  "any_receipt project [] = ret False"
| "any_receipt project ((t, h) # ts) =
     (case bindR (instruction_path t h project) (\<lambda>p. sibling_path p instr_receipt_suffix) of
        Inl _ \<Rightarrow> any_receipt project ts
      | Inr receipt \<Rightarrow>
          bindA (path_exists receipt) (\<lambda>there. if there then ret True else any_receipt project ts))"

definition project_carries_instructions :: "path \<Rightarrow> ('e, bool) act" where
  "project_carries_instructions project =
     any_receipt project
       ([(Agents, None), (Claude, None), (Cursor, None)]
        @ map (\<lambda>h. (Skill, Some h)) [ClaudeCode, Codex, OpenCode])"

end
