(* ===== verification/Text_Search.thy ===== *)
theory Text_Search
  imports Rust_Text
begin

text \<open>
  Search against the declarative reading of "occurs at": \<^verbatim>\<open>find\<close> returns the least position, a
  text has no hits iff the needle is no sublist of it, and a needle that occurs once is found at
  that place. The marker-block components use these through \<open>once_at\<close>.
\<close>

lemma str_find_Some_iff:
  "str_find n s = Some i \<longleftrightarrow> i \<le> length s \<and> prefix n (drop i s) \<and> (\<forall>j < i. \<not> prefix n (drop j s))"
proof (induction s arbitrary: i)
  case Nil
  then show ?case by auto
next
  case (Cons c cs)
  show ?case
  proof (cases "prefix n (c # cs)")
    case True
    then show ?thesis by (cases i) (auto dest: spec[of _ 0])
  next
    case False
    have "(\<exists>k. str_find n cs = Some k \<and> i = Suc k) \<longleftrightarrow>
        i \<le> length (c # cs) \<and> prefix n (drop i (c # cs)) \<and> (\<forall>j < i. \<not> prefix n (drop j (c # cs)))"
    proof (cases i)
      case (Suc k)
      have "(\<forall>j < Suc k. \<not> prefix n (drop j (c # cs))) \<longleftrightarrow> (\<forall>j < k. \<not> prefix n (drop j cs))"
        using False by (metis drop0 drop_Suc_Cons less_Suc_eq_0_disj)
      with Suc Cons.IH[of k] show ?thesis by auto
    qed (use False in auto)
    then show ?thesis using False by auto
  qed
qed

lemma str_contains_sublist: "str_contains s n \<longleftrightarrow> sublist n s"
proof
  assume "str_contains s n"
  then obtain i where "str_find n s = Some i" by (auto simp: str_contains_def)
  from str_find_split[OF this] show "sublist n s" unfolding sublist_def by blast
next
  assume "sublist n s"
  then obtain a b where "s = a @ n @ b" by (auto simp: sublist_def)
  then show "str_contains s n" using str_contains_append by simp
qed

lemma match_go_hd:
  assumes "n \<noteq> []"
  shows "match_go n i 0 s = [] \<longleftrightarrow> str_find n s = None"
    and "match_go n i 0 s = j # js \<Longrightarrow> i \<le> j \<and> str_find n s = Some (j - i)"
proof (induction s arbitrary: i)
  case (Cons c cs)
  { case 1 then show ?case using Cons by auto }
  { case 2
    then show ?case
    proof (cases "prefix n (c # cs)")
      case False
      with 2 have "Suc i \<le> j \<and> str_find n cs = Some (j - Suc i)" using Cons.IH(2)[of "Suc i"] by simp
      with False show ?thesis by (simp add: Suc_diff_Suc Suc_le_eq)
    qed simp }
qed (use assms in simp_all)

lemma match_indices_Nil:
  assumes "n \<noteq> []"
  shows "match_indices s n = [] \<longleftrightarrow> \<not> sublist n s"
  using match_go_hd(1)[OF assms, of 0 s] assms str_contains_sublist[of s n]
  by (cases "str_find n s") (simp_all add: match_indices_def str_contains_def)

lemma match_indices_hd:
  assumes "n \<noteq> []" and "match_indices s n = j # js"
  shows "str_find n s = Some j"
  using match_go_hd(2)[OF assms(1), of 0 s j js] assms by (simp add: match_indices_def)

text \<open>
  A longer needle is found where its first part is, when it is there at all.
\<close>

lemma str_find_extend:
  assumes m: "str_find m s = Some k" and n: "prefix m n" and here: "prefix n (drop k s)"
  shows "str_find n s = Some k"
  using assms unfolding str_find_Some_iff by (metis prefix_order.trans)

lemma sublist_before:
  assumes "sublist m (u @ v)" and "m \<noteq> []" and "last m \<notin> set v"
  shows "sublist m u"
proof -
  from assms(1) consider "sublist m u" | "sublist m v"
    | a b where "m = a @ b" "suffix a u" "prefix b v" by (auto simp: sublist_append)
  then show ?thesis
  proof cases
    case 2
    then have "last m \<in> set v" using assms(2) set_mono_sublist last_in_set by blast
    with assms(3) show ?thesis by simp
  next
    case 3
    have "b = []"
    proof (rule ccontr)
      assume "b \<noteq> []"
      then have "last m \<in> set v" using 3 set_mono_prefix last_in_set by fastforce
      with assms(3) show False by simp
    qed
    with 3 show ?thesis by simp
  qed simp
qed

text \<open>
  No hit can straddle the end of a text whose last two bytes are newlines, for a needle with no
  blank line in it that does not begin with a newline.
\<close>

definition line_needle :: "bytes \<Rightarrow> bool" where
  "line_needle m \<longleftrightarrow> m \<noteq> [] \<and> hd m \<noteq> CHR 0x0A \<and> last m \<noteq> CHR 0x0A \<and> \<not> sublist (nl @ nl) m"

lemma line_needleI:
  assumes "m \<noteq> []" "hd m \<noteq> CHR 0x0A" "last m \<noteq> CHR 0x0A" "length (filter (\<lambda>c. c = CHR 0x0A) m) \<le> 1"
  shows "line_needle m"
  using assms by (auto simp: line_needle_def sublist_def)

lemma suffix_snoc_cases:
  assumes "suffix p (u @ [x, y])" "p \<noteq> []"
  shows "p = [y] \<or> suffix [x, y] p"
proof -
  obtain q c where p: "p = q @ [c]" using assms(2) by (metis append_butlast_last_id)
  with assms(1) have c: "c = y" and q: "suffix q (u @ [x])" by (auto simp: suffix_def)
  show ?thesis
  proof (cases "q = []")
    case False
    then obtain r e where "q = r @ [e]" by (metis append_butlast_last_id)
    with q have "e = x" by (auto simp: suffix_def)
    with p c \<open>q = r @ [e]\<close> show ?thesis by (simp add: suffix_def)
  qed (use p c in simp)
qed

lemma no_overlap_blank_line:
  assumes m: "line_needle m" and u: "u = [] \<or> ends_with u (nl @ nl)"
  shows "no_overlap m u"
  unfolding no_overlap_def
proof (intro allI impI)
  fix p assume p: "p \<noteq> []" "prefix p m"
  show "\<not> suffix p u"
  proof
    assume s: "suffix p u"
    with p(1) u obtain u' where "u = u' @ [CHR 0x0A, CHR 0x0A]"
      by (auto simp: ends_with_def suffix_def)
    with s p(1) consider "p = [CHR 0x0A]" | "suffix (nl @ nl) p"
      by (auto dest: suffix_snoc_cases)
    then show False
    proof cases
      case 1
      with p(2) m show False by (cases m) (auto simp: line_needle_def)
    next
      case 2
      then have "sublist (nl @ nl) m" using p(2) by (fastforce simp: suffix_def prefix_def sublist_def)
      with m show False by (simp add: line_needle_def)
    qed
  qed
qed

end
