(* ===== verification/Marker_Block.thy ===== *)
theory Marker_Block
  imports Text_Search
begin

text \<open>
  Text delimited by a pair of markers, the shape both the instruction files and the Codex
  configuration give to what the manager owns. The locale states what a finder of such blocks
  promises, once for a family of marker pairs; its lemmas say that a block appended behind a blank
  line is found again, whole.
\<close>

text \<open>
  What an owned block looks like: opening marker once, at the front; closing marker once, just
  before the final newline.
\<close>

definition framed :: "bytes \<Rightarrow> bytes \<Rightarrow> bytes \<Rightarrow> bool" where
  "framed ms me b \<longleftrightarrow>
     utf8_valid b \<and> match_indices b ms = [0] \<and>
     (\<exists>body. b = body @ me @ nl \<and> match_indices b me = [length body])"

text \<open>The end of a block whose closing marker is at \<open>e\<close>: one newline after it belongs to it.\<close>

definition block_end :: "bytes \<Rightarrow> bytes \<Rightarrow> nat \<Rightarrow> nat" where
  "block_end text me e =
     (let after = e + length me in
      if after < length text \<and> text ! after = CHR 0x0A then after + 1 else after)"

lemma match_after_separator:
  assumes m: "line_needle m" and s: "set s \<subseteq> {CHR 0x0A}" and none: "match_indices text m = []"
    and end2: "text @ s = [] \<or> ends_with (text @ s) (nl @ nl)"
  shows "match_indices (text @ s @ b) m = map (\<lambda>j. j + length (text @ s)) (match_indices b m)"
proof -
  have ne: "m \<noteq> []" "last m \<notin> set s" using m s by (auto simp: line_needle_def)
  have "\<not> sublist m (text @ s)"
    using sublist_before[of m "text" s] ne none match_indices_Nil[OF ne(1), of "text"] by blast
  then have "match_indices (text @ s) m = []" using match_indices_Nil[OF ne(1)] by blast
  then show ?thesis
    using match_indices_append[OF no_overlap_blank_line[OF m end2] ne(1), of b] by simp
qed

locale marker_blocks =
  fixes marked :: "'k \<Rightarrow> bool" and open_m :: "'k \<Rightarrow> bytes" and close_m :: "'k \<Rightarrow> bytes"
    and find_block :: "bytes \<Rightarrow> 'k \<Rightarrow> 'e + bytes option"
  assumes open_needle: "marked k \<Longrightarrow> line_needle (open_m k)"
    and close_needle: "marked k \<Longrightarrow> line_needle (close_m k)"
    and markers_differ: "marked k \<Longrightarrow> \<not> prefix (open_m k) (close_m k @ nl)"
    and find_nothing: "find_block text k = Inr None \<Longrightarrow>
      match_indices text (open_m k) = [] \<and> match_indices text (close_m k) = []"
    and find_one: "match_indices text (open_m k) = [s] \<Longrightarrow> match_indices text (close_m k) = [e] \<Longrightarrow> s < e \<Longrightarrow>
      find_block text k = Inr (Some (take (block_end text (close_m k) e - s) (drop s text)))"
begin

lemma framed_prefix:
  assumes "marked k" "framed (open_m k) (close_m k) b"
  shows "prefix (open_m k) b"
proof -
  have "open_m k \<noteq> []" using open_needle[OF assms(1)] by (simp add: line_needle_def)
  then show ?thesis
    using assms(2) match_indices_hd[of "open_m k" b 0 "[]"] by (auto simp: framed_def str_find_Some_iff)
qed

lemma markers_appended:
  assumes k: "marked k" and b: "framed (open_m k) (close_m k) b" and none: "find_block text k = Inr None"
    and sep: "set s \<subseteq> {CHR 0x0A}" "text @ s = [] \<or> ends_with (text @ s) (nl @ nl)"
  shows "match_indices (text @ s @ b) (open_m k) = [length (text @ s)]"
    and "b = body @ close_m k @ nl \<Longrightarrow> match_indices b (close_m k) = [length body] \<Longrightarrow>
      match_indices (text @ s @ b) (close_m k) = [length (text @ s) + length body]"
  using match_after_separator[OF open_needle[OF k] sep(1) conjunct1[OF find_nothing[OF none]] sep(2), of b]
    match_after_separator[OF close_needle[OF k] sep(1) conjunct2[OF find_nothing[OF none]] sep(2), of b] b
  by (simp_all add: framed_def)

lemma find_appended:
  assumes k: "marked k" and b: "framed (open_m k) (close_m k) b" and none: "find_block text k = Inr None"
    and sep: "set s \<subseteq> {CHR 0x0A}" "text @ s = [] \<or> ends_with (text @ s) (nl @ nl)"
  shows "find_block (text @ s @ b) k = Inr (Some b)"
proof -
  let ?u = "text @ s"
  obtain body where body: "b = body @ close_m k @ nl" "match_indices b (close_m k) = [length body]"
    using b by (auto simp: framed_def)
  note S = markers_appended(1)[OF assms] and E = markers_appended(2)[OF assms body]
  have ne: "body \<noteq> []" using framed_prefix[OF k b] markers_differ[OF k] body(1) by auto
  have whole: "text @ s @ b = (?u @ body @ close_m k) @ nl" using body(1) by simp
  have "block_end (text @ s @ b) (close_m k) (length ?u + length body) = length ?u + length b"
    unfolding block_end_def Let_def whole using body(1)
    by (simp add: nth_append)
  then show ?thesis using find_one[OF S E] ne by simp
qed

lemma find_start:
  assumes k: "marked k" and b: "framed (open_m k) (close_m k) b" and none: "find_block text k = Inr None"
    and sep: "set s \<subseteq> {CHR 0x0A}" "text @ s = [] \<or> ends_with (text @ s) (nl @ nl)"
  shows "str_find b (text @ s @ b) = Some (length (text @ s))"
proof -
  have "open_m k \<noteq> []" using open_needle[OF k] by (simp add: line_needle_def)
  then have "str_find (open_m k) (text @ s @ b) = Some (length (text @ s))"
    using match_indices_hd markers_appended(1)[OF assms] by metis
  then show ?thesis
    using str_find_extend[of "open_m k" "text @ s @ b" "length (text @ s)" b] framed_prefix[OF k b] by simp
qed

end

end
