(* ===== verification/Instructions_Correct.thy ===== *)
theory Instructions_Correct
  imports Instructions Marker_Block Plan_Apply_Correct
begin

text \<open>
  The text side of the instruction component: what \<open>install_block\<close> adds can be found again by
  \<open>find_owned_block\<close> and taken out again by \<open>remove_block\<close>, byte for byte.
\<close>

text \<open>What the embedded canonical text of a marker target looks like.\<close>

definition block_ok :: "instruction_target \<Rightarrow> bytes \<Rightarrow> bool" where
  "block_ok t b \<longleftrightarrow> owned_shape_of t = MarkerBlock \<and> framed (marker_start t) (marker_end t) b"

lemma marker_needles:
  assumes "owned_shape_of t = MarkerBlock"
  shows "line_needle (marker_start t)" and "line_needle (marker_end t)"
  using assms by (cases t; simp add: line_needleI)+

interpretation instr_blocks: marker_blocks "\<lambda>t. owned_shape_of t = MarkerBlock" marker_start marker_end find_owned_block
proof
  show "line_needle (marker_start t)" "line_needle (marker_end t)" if "owned_shape_of t = MarkerBlock" for t
    by (rule marker_needles[OF that])+
  show "\<not> prefix (marker_start t) (marker_end t @ nl)" if "owned_shape_of t = MarkerBlock" for t
    using that by (cases t) simp_all
qed (auto simp: find_owned_block_def block_end_def Let_def split: list.splits if_splits)

lemma block_separator_laws:
  "set (block_separator text) \<subseteq> {CHR 0x0A}"
  "text @ block_separator text = [] \<or> ends_with (text @ block_separator text) (nl @ nl)"
  by (auto simp: block_separator_def ends_with_def suffix_def)

lemma block_separator_boundary:
  "block_separator text \<noteq> [] \<Longrightarrow> is_char_boundary (text @ block_separator text @ b) (length text)"
  by (auto simp: is_char_boundary_def block_separator_def is_cont_def nth_append split: if_splits)

lemma install_then_find:
  assumes "block_ok t b" and "find_owned_block text t = Inr None"
  shows "find_owned_block (text @ block_separator text @ b) t = Inr (Some b)"
  using assms instr_blocks.find_appended[OF _ _ assms(2) block_separator_laws] by (simp add: block_ok_def)

lemma install_then_remove_block:
  assumes t: "block_ok t b" and none: "find_owned_block text t = Inr None"
  shows "remove_block (text @ block_separator text @ b) b (block_separator text) MarkerBlock = Inr text"
proof -
  have "str_find b (text @ block_separator text @ b) = Some (length (text @ block_separator text))"
    using t instr_blocks.find_start[OF _ _ none block_separator_laws] by (simp add: block_ok_def)
  moreover have "b \<noteq> []" using t by (auto simp: block_ok_def framed_def)
  ultimately show ?thesis
    using block_separator_boundary[of "text" b] by (simp add: remove_block_def str_contains_def)
qed

text \<open>
  Whatever the text: a successful structural removal takes out the block and at most the recorded
  separator in front of it; every other byte stays, in order.
\<close>

lemma remove_block_frame:
  assumes "remove_block text block separator MarkerBlock = Inr removed"
  shows "\<exists>u v s. text = u @ s @ block @ v \<and> removed = u @ v \<and> (s = [] \<or> s = separator)"
proof -
  from assms obtain i where i: "str_find block text = Some i"
    by (auto simp: remove_block_def split: option.splits)
  let ?k = "i - length separator"
  have split: "text = take i text @ block @ drop (i + length block) text" by (rule str_find_split[OF i])
  have "removed = take i text @ drop (i + length block) text \<or>
      (length separator \<le> i \<and> take (length separator) (drop ?k text) = separator \<and>
       removed = take ?k text @ drop (i + length block) text)"
    using assms i by (auto simp: remove_block_def split: if_splits)
  then show ?thesis
  proof
    assume "removed = take i text @ drop (i + length block) text"
    moreover have "text = take i text @ [] @ block @ drop (i + length block) text" using split by simp
    ultimately show ?thesis by blast
  next
    assume k: "length separator \<le> i \<and> take (length separator) (drop ?k text) = separator \<and>
       removed = take ?k text @ drop (i + length block) text"
    then have "take i text = take ?k text @ separator"
      by (metis le_add_diff_inverse2 take_add)
    then have "text = take ?k text @ separator @ block @ drop (i + length block) text" using split by simp
    with k show ?thesis by blast
  qed
qed

text \<open>
  The instruction component against the file view: planning reads and changes nothing, a fresh
  install appends exactly one block, and the removal that follows gives back every byte and mode.
\<close>

section \<open>Planning only reads\<close>

lemma read_instruction_files_Inr:
  assumes "read_instruction_files ext t h project w = (Inr (target, rp, bp, orig, rorig), w')"
  shows "instruction_path t h project = Inr target" "sibling_path target instr_receipt_suffix = Inr rp"
    "sibling_path target backup_suffix = Inr bp" "orig = snapshot_of (ix_sha ext) (content w target)"
    "rorig = snapshot_of (ix_sha ext) (content w rp)" "content w' = content w"
proof -
  from assms obtain w1 where
    1: "read_snapshot (ix_sha ext) target max_instruction_bytes ''agent instruction file'' w = (Inr orig, w1)" and
    2: "read_snapshot (ix_sha ext) rp max_receipt_bytes ''instruction owner receipt'' w1 = (Inr rorig, w')"
    and p: "instruction_path t h project = Inr target" "sibling_path target instr_receipt_suffix = Inr rp"
    "sibling_path target backup_suffix = Inr bp"
    by (auto simp: read_instruction_files_def act_run)
  show "instruction_path t h project = Inr target" "sibling_path target instr_receipt_suffix = Inr rp"
    "sibling_path target backup_suffix = Inr bp" by (fact p)+
  show "orig = snapshot_of (ix_sha ext) (content w target)"
    "rorig = snapshot_of (ix_sha ext) (content w rp)" "content w' = content w"
    using read_snapshot_Inr(1,2)[OF 1] read_snapshot_Inr(1,2)[OF 2] by auto
qed

context step_relation
begin

lemma keeps_read_instruction_files [keeps_intro]: "keeps R (read_instruction_files ext t h project)"
  unfolding read_instruction_files_def by (auto intro!: keeps_intro)

lemma keeps_plan_install: "keeps R (plan_install_at ext t h project force)"
  unfolding plan_install_at_def by (auto intro!: keeps_intro split: prod.splits)

lemma keeps_plan_remove: "keeps R (plan_remove_at ext t h project force)"
  unfolding plan_remove_at_def remove_with_receipt_def Let_def
  by (auto intro!: keeps_intro split: prod.splits option.splits if_splits)

end

section \<open>A fresh install\<close>

text \<open>
  What the code relies on from outside: serde reads back the receipt it wrote, and the embedded text is a well-formed block (or, for the skill, some text).
\<close>

definition receipt_codec :: "instr_ext \<Rightarrow> instruction_receipt \<Rightarrow> bool" where
  "receipt_codec ext r \<longleftrightarrow> ix_from_slice ext (receipt_encode ext r) = Some r"

definition canonical_ok :: "instr_ext \<Rightarrow> instruction_target \<Rightarrow> bool" where
  "canonical_ok ext t \<longleftrightarrow>
     (case owned_shape_of t of
        MarkerBlock \<Rightarrow> block_ok t (canonical_block ext t)
      | WholeFile \<Rightarrow> utf8_valid (canonical_block ext t) \<and> \<not> str_blank (canonical_block ext t))"

text \<open>The file text a fresh install accepts: no marker yet, and blank where the file is the manager's alone.\<close>

definition installable :: "instruction_target \<Rightarrow> bytes \<Rightarrow> bool" where
  "installable t b \<longleftrightarrow> utf8_valid b \<and> (t \<in> {Skill, Cursor} \<longrightarrow> str_blank b) \<and>
     (owned_shape_of t = MarkerBlock \<longrightarrow> find_owned_block b t = Inr None)"

definition installed :: "instr_ext \<Rightarrow> instruction_target \<Rightarrow> bytes \<Rightarrow> bytes" where
  "installed ext t b =
     (case owned_shape_of t of
        MarkerBlock \<Rightarrow> b @ block_separator b @ canonical_block ext t
      | WholeFile \<Rightarrow> canonical_block ext t)"

definition text_of :: "(bytes \<times> mode) option \<Rightarrow> bytes" where
  "text_of c = (case c of None \<Rightarrow> [] | Some (b, _) \<Rightarrow> b)"

definition fresh_receipt :: "instr_ext \<Rightarrow> instruction_target \<Rightarrow> (bytes \<times> mode) option \<Rightarrow> instruction_receipt" where
  "fresh_receipt ext t c =
     \<lparr>ir_version = instr_receipt_version, ir_owner = owner_id, ir_target = t, ir_shape = owned_shape_of t,
      ir_owned_sha256 = digest_bytes (ix_sha ext) (canonical_block ext t),
      ir_owned_block = canonical_block ext t,
      ir_pre_sha256 = sha256 (snapshot_of (ix_sha ext) c),
      ir_post_sha256 = digest_bytes (ix_sha ext) (installed ext t (text_of c)),
      ir_separator = (if owned_shape_of t = MarkerBlock then block_separator (text_of c) else []),
      ir_file_created = (c = None), ir_adopted = False\<rparr>"

lemma str_blank_Nil [simp]: "str_blank []"
  by (simp add: str_blank_def trim_start.simps)

lemma canonical_not_Nil: "canonical_ok ext t \<Longrightarrow> canonical_block ext t \<noteq> []"
  by (auto simp: canonical_ok_def block_ok_def framed_def split: owned_shape.splits)

lemma text_of_snapshot:
  "utf8_valid (text_of c) \<Longrightarrow> instr_snapshot_text (snapshot_of sha c) = Inr (text_of c)"
  by (auto simp: instr_snapshot_text_def text_of_def split: option.splits)

lemma snapshot_of_absent [simp]: "snap_bytes (snapshot_of sha c) = None \<longleftrightarrow> c = None"
  by simp

lemma current_owned_fresh:
  "installable t b \<Longrightarrow> current_owned b t None (owned_shape_of t) False = Inr None"
  by (auto simp: current_owned_def installable_def split: owned_shape.splits)

lemma shape_cases:
  "owned_shape_of t = WholeFile \<longleftrightarrow> t = Skill" "owned_shape_of t = MarkerBlock \<longleftrightarrow> t \<noteq> Skill"
  by (cases t; simp)+

lemma decide_install_fresh:
  assumes ok: "canonical_ok ext t" and inst: "installable t (text_of c)"
  shows "\<exists>p. decide_install ext t h target rp bp (snapshot_of (ix_sha ext) c) (snapshot_of (ix_sha ext) None) False = Inr p
    \<and> ip_action p = InstrAdd \<and> ip_target p = target \<and> ip_receipt_path p = rp \<and> ip_backup_path p = bp
    \<and> ip_restore p = None \<and> ip_discarded p = None \<and> ip_original p = snapshot_of (ix_sha ext) c
    \<and> ip_receipt_original p = snapshot_of (ix_sha ext) None
    \<and> ip_write p = Write (installed ext t (text_of c)) \<and> ip_receipt_after p = Some (fresh_receipt ext t c)
    \<and> \<not> ip_remove_backup p"
proof -
  have utf: "utf8_valid (text_of c)" using inst by (simp add: installable_def)
  have blank: "t \<in> {Skill, Cursor} \<Longrightarrow> str_blank (text_of c)" using inst by (simp add: installable_def)
  have ne: "owned_shape_of t = WholeFile \<Longrightarrow> text_of c \<noteq> canonical_block ext t"
    using blank ok by (auto simp: canonical_ok_def shape_cases)
  have created: "(snap_bytes (snapshot_of (ix_sha ext) c) = None) = (c = None)" by simp
  show ?thesis
  proof (cases "owned_shape_of t")
    case MarkerBlock
    then show ?thesis
      using blank current_owned_fresh[OF inst]
      by (auto simp: decide_install_def decode_receipt_def text_of_snapshot[OF utf] Let_def install_block_def
          validate_ownership_def installed_def fresh_receipt_def created)
  next
    case WholeFile
    then show ?thesis
      using blank current_owned_fresh[OF inst] ne
      by (auto simp: decide_install_def decode_receipt_def text_of_snapshot[OF utf] Let_def install_block_def
          validate_ownership_def installed_def fresh_receipt_def created shape_cases)
  qed
qed

section \<open>Planning on a quiet machine\<close>

lemma instr_suffix_ok: "suffix_ok instr_receipt_suffix"
  by (auto simp: suffix_ok_def instr_receipt_suffix_def sublist_code intro!: utf8_valid_ascii)

lemma backup_in_site: "backup_suffix \<in> site_suffixes instr_receipt_suffix"
  and receipt_in_site: "instr_receipt_suffix \<in> site_suffixes instr_receipt_suffix"
  and target_in_site: "[] \<in> site_suffixes instr_receipt_suffix"
  by (simp_all add: site_suffixes_def backup_suffix_def)

lemma read_instruction_files_calm:
  assumes w: "runnable d n instr_receipt_suffix w" "path_ok (at d n)"
    and p: "instruction_path t h project = Inr (at d n)"
    and f: "fits w (at d n) max_instruction_bytes" "fits w (at d (n @ instr_receipt_suffix)) max_receipt_bytes"
  shows "\<exists>w'. read_instruction_files ext t h project w =
      (Inr (at d n, at d (n @ instr_receipt_suffix), at d (n @ backup_suffix),
            snapshot_of (ix_sha ext) (content w (at d n)),
            snapshot_of (ix_sha ext) (content w (at d (n @ instr_receipt_suffix)))), w') \<and>
    runnable d n instr_receipt_suffix w' \<and> content w' = content w"
proof -
  obtain w1 where 1: "read_snapshot (ix_sha ext) (at d n) max_instruction_bytes ''agent instruction file'' w =
      (Inr (snapshot_of (ix_sha ext) (content w (at d n))), w1)"
    and w1: "runnable d n instr_receipt_suffix w1" "content w1 = content w"
    using runnable_read[OF w(1) instr_suffix_ok w(2) target_in_site] f(1) by (metis append_Nil2)
  have f2: "fits w1 (at d (n @ instr_receipt_suffix)) max_receipt_bytes" using f(2) w1(2) by (simp add: fits_def)
  obtain w2 where 2: "read_snapshot (ix_sha ext) (at d (n @ instr_receipt_suffix)) max_receipt_bytes
      ''instruction owner receipt'' w1 =
      (Inr (snapshot_of (ix_sha ext) (content w1 (at d (n @ instr_receipt_suffix)))), w2)"
    and w2: "runnable d n instr_receipt_suffix w2" "content w2 = content w1"
    using runnable_read[OF w1(1) instr_suffix_ok w(2) receipt_in_site f2] by blast
  show ?thesis
    using 1 2 w1 w2 p by (simp add: read_instruction_files_def bindA_def lift_def ret_def)
qed

lemma fresh_receipt_valid:
  assumes "canonical_ok ext t"
  shows "receipt_validate (ix_sha ext) (fresh_receipt ext t c) t = Inr ()"
proof (cases "owned_shape_of t")
  case MarkerBlock
  then have b: "block_ok t (canonical_block ext t)" using assms by (simp add: canonical_ok_def)
  then have "prefix (marker_start t) (canonical_block ext t)"
    using instr_blocks.framed_prefix[OF MarkerBlock] by (simp add: block_ok_def)
  with b show ?thesis
    by (auto simp: receipt_validate_def fresh_receipt_def starts_with_def ends_with_def block_ok_def framed_def suffix_def)
qed (simp add: receipt_validate_def fresh_receipt_def)

lemma utf8_installed:
  assumes "canonical_ok ext t" "utf8_valid b"
  shows "utf8_valid (installed ext t b)"
proof -
  have "utf8_valid (block_separator b)"
    by (rule utf8_valid_ascii) (use block_separator_laws(1)[of b] in auto)
  with assms show ?thesis
    by (auto simp: installed_def canonical_ok_def block_ok_def framed_def intro!: utf8_valid_append split: owned_shape.splits)
qed

lemma current_owned_installed:
  assumes "canonical_ok ext t" "installable t b"
  shows "current_owned (installed ext t b) t (Some r) (owned_shape_of t) force = Inr (Some (canonical_block ext t))"
  using assms canonical_not_Nil[OF assms(1)] install_then_find[of t "canonical_block ext t" b]
  by (cases "owned_shape_of t") (auto simp: current_owned_def installed_def canonical_ok_def installable_def)

section \<open>The round trip\<close>

text \<open>The file view right after a fresh install over the original file \<open>c\<close>.\<close>

definition freshly_installed ::
    "instr_ext \<Rightarrow> instruction_target \<Rightarrow> path \<Rightarrow> bytes \<Rightarrow> (bytes \<times> mode) option \<Rightarrow> view \<Rightarrow> bool" where
  "freshly_installed ext t d n c v \<longleftrightarrow>
     (\<exists>m. v (at d n) = Some (installed ext t (text_of c), m)) \<and>
     v (at d (n @ instr_receipt_suffix)) = Some (receipt_encode ext (fresh_receipt ext t c), 384) \<and>
     (\<forall>b m. c = Some (b, m) \<longrightarrow> v (at d (n @ backup_suffix)) = Some (b, 384))"

definition undo_write :: "(bytes \<times> mode) option \<Rightarrow> target_write" where
  "undo_write c = (case c of None \<Rightarrow> Remove | Some (b, _) \<Rightarrow> Write b)"

lemma plan_remove_installed:
  assumes w: "runnable d n instr_receipt_suffix w" "path_ok (at d n)"
    and p: "instruction_path t h project = Inr (at d n)"
    and f: "fits w (at d n) max_instruction_bytes" "fits w (at d (n @ instr_receipt_suffix)) max_receipt_bytes"
      "fits w (at d (n @ backup_suffix)) max_instruction_bytes"
    and ext: "receipt_codec ext (fresh_receipt ext t c)" "canonical_ok ext t" "installable t (text_of c)"
    and v: "freshly_installed ext t d n c (content w)"
  shows "\<exists>w'. plan_remove_at ext t h project False w =
     (Inr (removal t h (at d n) (at d (n @ instr_receipt_suffix)) (at d (n @ backup_suffix))
        (snapshot_of (ix_sha ext) (content w (at d n)))
        (snapshot_of (ix_sha ext) (content w (at d (n @ instr_receipt_suffix))))
        (fresh_receipt ext t c) ByteIdentical None (undo_write c) True), w') \<and>
     runnable d n instr_receipt_suffix w' \<and> content w' = content w"
proof -
  let ?r = "fresh_receipt ext t c" and ?o = "snapshot_of (ix_sha ext) (content w (at d n))"
  let ?ro = "snapshot_of (ix_sha ext) (content w (at d (n @ instr_receipt_suffix)))"
  let ?b = "snapshot_of (ix_sha ext) (content w (at d (n @ backup_suffix)))"
  obtain w1 where 1: "read_instruction_files ext t h project w =
      (Inr (at d n, at d (n @ instr_receipt_suffix), at d (n @ backup_suffix), ?o, ?ro), w1)"
    and w1: "runnable d n instr_receipt_suffix w1" "content w1 = content w"
    using read_instruction_files_calm[OF w p f(1,2)] by blast
  have f3: "fits w1 (at d (n @ backup_suffix)) max_instruction_bytes" using f(3) w1(2) by (simp add: fits_def)
  obtain w2 where 2: "read_snapshot (ix_sha ext) (at d (n @ backup_suffix)) max_instruction_bytes
      ''instruction backup'' w1 = (Inr ?b, w2)"
    and w2: "runnable d n instr_receipt_suffix w2" "content w2 = content w"
    using runnable_read[OF w1(1) instr_suffix_ok w(2) backup_in_site f3] w1(2) by metis
  obtain m where o: "content w (at d n) = Some (installed ext t (text_of c), m)"
    using v by (auto simp: freshly_installed_def)
  have utf: "utf8_valid (text_of c)" using ext(3) by (simp add: installable_def)
  have dec: "decode_receipt ext ?ro t = Inr (Some ?r)"
    using v ext(1) fresh_receipt_valid[OF ext(2)]
    by (simp add: decode_receipt_def freshly_installed_def receipt_codec_def)
  have tx: "instr_snapshot_text ?o = Inr (installed ext t (text_of c))"
    using text_of_snapshot[of "content w (at d n)" "ix_sha ext"] utf8_installed[OF ext(2) utf] o
    by (simp add: text_of_def)
  have own: "validate_ownership (ix_sha ext) (Some ?r) (Some (canonical_block ext t)) t = Inr ()"
    by (simp add: validate_ownership_def fresh_receipt_def)
  have ours: "sha256 ?o = ir_post_sha256 ?r" using o by (simp add: snapshot_of_sha fresh_receipt_def)
  have pre: "backup_is_pre ?b ?r" "snap_bytes ?b = Some b" if "c = Some (b, k)" for b k
    using that v by (auto simp: backup_is_pre_def freshly_installed_def snapshot_of_sha fresh_receipt_def)
  have fields: "\<not> ir_adopted ?r" "ir_owned_block ?r = canonical_block ext t" by (simp_all add: fresh_receipt_def)
  note eqs = plan_remove_at_def remove_with_receipt_def decide_remove_def bindA_def lift_def ret_def Let_def 1 2 dec tx own ours fields
    current_owned_installed[OF ext(2,3)]
  show ?thesis
  proof (cases c)
    case None
    then have "undo_write c = Remove" "ir_file_created ?r" by (simp_all add: undo_write_def fresh_receipt_def)
    then show ?thesis using w2 by (simp add: eqs)
  next
    case (Some bk)
    obtain b k where bk: "bk = (b, k)" by fastforce
    have "undo_write c = Write b" "\<not> ir_file_created ?r" using Some bk by (simp_all add: undo_write_def fresh_receipt_def)
    then show ?thesis using pre[OF Some[unfolded bk]] w2 by (auto simp: eqs)
  qed
qed


text \<open>The two applications, as changes of the file view.\<close>

lemma instr_change_at:
  assumes "ip_target p = at d n" "ip_receipt_path p = at d (n @ instr_receipt_suffix)"
    "ip_backup_path p = at d (n @ backup_suffix)"
  shows "change_at d n instr_receipt_suffix (instr_change ext p)"
  using assms by (simp add: change_at_def instr_change_def backup_suffix_def)

lemma apply_plan_calm:
  assumes w: "runnable d n instr_receipt_suffix w" "path_ok (at d n)" and act: "\<not> is_noop p"
    and at: "ip_target p = at d n" "ip_receipt_path p = at d (n @ instr_receipt_suffix)"
      "ip_backup_path p = at d (n @ backup_suffix)"
    and fresh: "ip_original p = snapshot_of (ix_sha ext) (content w (at d n))"
      "ip_receipt_original p = snapshot_of (ix_sha ext) (content w (at d (n @ instr_receipt_suffix)))"
    and f: "fits w (at d n) max_instruction_bytes" "fits w (at d (n @ instr_receipt_suffix)) max_receipt_bytes"
  shows "\<exists>w'. apply_plan ext p w = (Inr (), w') \<and>
    content w' = change_effect (instr_change ext p) (content w) \<and>
    (is_remove (ip_write p) \<or> runnable d n instr_receipt_suffix w')"
proof -
  have "change_fresh (ix_sha ext) (instr_change ext p) w"
    using fresh f at by (simp add: change_fresh_def instr_change_def)
  from apply_change_effect[OF w(1) instr_suffix_ok w(2) instr_change_at[OF at] this] act
  show ?thesis by (simp add: apply_plan_def instr_change_def)
qed


lemma install_view:
  assumes p: "ip_target p = at d n" "ip_receipt_path p = at d (n @ instr_receipt_suffix)"
      "ip_backup_path p = at d (n @ backup_suffix)" "ip_restore p = None" "ip_original p = snapshot_of (ix_sha ext) c"
      "ip_write p = Write b" "ip_receipt_after p = Some r" "\<not> ip_remove_backup p"
  shows "change_effect (instr_change ext p) v =
    (case c of None \<Rightarrow> v | Some (old, _) \<Rightarrow> v(at d (n @ backup_suffix) \<mapsto> (old, 384)))
      (at d n \<mapsto> (b, case c of None \<Rightarrow> 384 | Some (_, m) \<Rightarrow> m AND 511),
       at d (n @ instr_receipt_suffix) \<mapsto> (receipt_encode ext r, 384))"
  using p by (auto simp: change_effect_def Let_def instr_change_def mode_or_default_def is_leave_def split: option.splits)

lemma removal_view:
  "change_effect (instr_change ext (removal t h (at d n) (at d (n @ instr_receipt_suffix)) (at d (n @ backup_suffix))
      (snapshot_of sha c2) ro r tier disc (undo_write c) True)) v =
    v(at d n := map_option (\<lambda>(b, _). (b, case c2 of None \<Rightarrow> 384 | Some (_, m) \<Rightarrow> m AND 511)) c,
      at d (n @ instr_receipt_suffix) := None, at d (n @ backup_suffix) := None)"
  by (auto simp: change_effect_def Let_def instr_change_def removal_def mode_or_default_def undo_write_def
      split: option.splits)

lemma instr_suffixes_differ:
  "instr_receipt_suffix \<noteq> []" "backup_suffix \<noteq> []" "instr_receipt_suffix \<noteq> backup_suffix"
  by (simp_all add: instr_receipt_suffix_def backup_suffix_def)

lemma content_masked: "content w p = Some (b, m) \<Longrightarrow> m AND 511 = m"
  by (auto simp: content_Some)


text \<open>The file view a fresh install produces.\<close>

definition install_effect :: "instr_ext \<Rightarrow> instruction_target \<Rightarrow> path \<Rightarrow> bytes \<Rightarrow> view \<Rightarrow> view" where
  "install_effect ext t d n v =
     (case v (at d n) of None \<Rightarrow> v | Some (old, _) \<Rightarrow> v(at d (n @ backup_suffix) \<mapsto> (old, 384)))
       (at d n \<mapsto> (installed ext t (text_of (v (at d n))), case v (at d n) of None \<Rightarrow> 384 | Some (_, m) \<Rightarrow> m AND 511),
        at d (n @ instr_receipt_suffix) \<mapsto> (receipt_encode ext (fresh_receipt ext t (v (at d n))), 384))"

lemma install_calm:
  assumes ext: "canonical_ok ext t"
    and path: "instruction_path t h project = Inr (at d n)" "path_ok (at d n)"
    and w: "runnable d n instr_receipt_suffix w"
    and inst: "installable t (text_of (content w (at d n)))"
    and new: "content w (at d (n @ instr_receipt_suffix)) = None"
    and size: "fits w (at d n) max_instruction_bytes"
  shows "\<exists>p w1 w2. plan_install_at ext t h project False w = (Inr p, w1) \<and> apply_plan ext p w1 = (Inr (), w2) \<and>
     ip_action p = InstrAdd \<and> runnable d n instr_receipt_suffix w2 \<and> content w2 = install_effect ext t d n (content w)"
proof -
  let ?c = "content w (at d n)"
  have fr: "fits w (at d (n @ instr_receipt_suffix)) max_receipt_bytes" using new by (simp add: fits_def)
  obtain w1 where 1: "read_instruction_files ext t h project w =
      (Inr (at d n, at d (n @ instr_receipt_suffix), at d (n @ backup_suffix), snapshot_of (ix_sha ext) ?c,
        snapshot_of (ix_sha ext) None), w1)"
    and w1: "runnable d n instr_receipt_suffix w1" "content w1 = content w"
    using read_instruction_files_calm[OF w path(2,1) size fr] new by auto
  obtain p where dec: "decide_install ext t h (at d n) (at d (n @ instr_receipt_suffix)) (at d (n @ backup_suffix))
      (snapshot_of (ix_sha ext) ?c) (snapshot_of (ix_sha ext) None) False = Inr p"
    and p: "ip_action p = InstrAdd" "ip_target p = at d n" "ip_receipt_path p = at d (n @ instr_receipt_suffix)"
      "ip_backup_path p = at d (n @ backup_suffix)" "ip_restore p = None" "ip_original p = snapshot_of (ix_sha ext) ?c"
      "ip_receipt_original p = snapshot_of (ix_sha ext) None" "ip_write p = Write (installed ext t (text_of ?c))"
      "ip_receipt_after p = Some (fresh_receipt ext t ?c)" "\<not> ip_remove_backup p"
    using decide_install_fresh[OF ext inst] by blast
  have plan: "plan_install_at ext t h project False w = (Inr p, w1)"
    using 1 dec by (simp add: plan_install_at_def bindA_def lift_def)
  have sizes: "fits w1 (at d n) max_instruction_bytes" "fits w1 (at d (n @ instr_receipt_suffix)) max_receipt_bytes"
    using size fr w1(2) by (simp_all add: fits_def)
  have "\<not> is_noop p" using p(1) by (simp add: is_noop_def)
  from apply_plan_calm[OF w1(1) path(2) this p(2-4) _ _ sizes] p(6,7) w1(2) new
  obtain w2 where run: "apply_plan ext p w1 = (Inr (), w2)"
    and c2: "content w2 = change_effect (instr_change ext p) (content w)"
    and r2: "is_remove (ip_write p) \<or> runnable d n instr_receipt_suffix w2" by auto
  have "content w2 = install_effect ext t d n (content w)"
    unfolding c2 install_effect_def using install_view[OF p(2-6,8-10)] by simp
  with plan run r2 p(1,8) show ?thesis by (auto simp: is_remove_def)
qed

lemma remove_calm:
  assumes ext: "receipt_codec ext (fresh_receipt ext t c)" "canonical_ok ext t" "installable t (text_of c)"
    and path: "instruction_path t h project = Inr (at d n)" "path_ok (at d n)"
    and w: "runnable d n instr_receipt_suffix w"
    and v: "freshly_installed ext t d n c (content w)"
    and f: "fits w (at d n) max_instruction_bytes" "fits w (at d (n @ instr_receipt_suffix)) max_receipt_bytes"
      "fits w (at d (n @ backup_suffix)) max_instruction_bytes"
  shows "\<exists>q w1 w2. plan_remove_at ext t h project False w = (Inr q, w1) \<and> apply_plan ext q w1 = (Inr (), w2) \<and>
     ip_restore q = Some ByteIdentical \<and>
     content w2 = (content w)(at d n := map_option (\<lambda>(b, _). (b, snd (the (content w (at d n))))) c,
       at d (n @ instr_receipt_suffix) := None, at d (n @ backup_suffix) := None)"
proof -
  obtain m where o: "content w (at d n) = Some (installed ext t (text_of c), m)"
    using v by (auto simp: freshly_installed_def)
  let ?q = "removal t h (at d n) (at d (n @ instr_receipt_suffix)) (at d (n @ backup_suffix))
        (snapshot_of (ix_sha ext) (content w (at d n)))
        (snapshot_of (ix_sha ext) (content w (at d (n @ instr_receipt_suffix))))
        (fresh_receipt ext t c) ByteIdentical None (undo_write c) True"
  obtain w1 where plan: "plan_remove_at ext t h project False w = (Inr ?q, w1)"
    and w1: "runnable d n instr_receipt_suffix w1" "content w1 = content w"
    using plan_remove_installed[OF w path(2,1) f ext v] by blast
  have sizes: "fits w1 (at d n) max_instruction_bytes" "fits w1 (at d (n @ instr_receipt_suffix)) max_receipt_bytes"
    using f(1,2) w1(2) by (simp_all add: fits_def)
  have q: "\<not> is_noop ?q" "ip_target ?q = at d n" "ip_receipt_path ?q = at d (n @ instr_receipt_suffix)"
    "ip_backup_path ?q = at d (n @ backup_suffix)"
    "ip_original ?q = snapshot_of (ix_sha ext) (content w1 (at d n))"
    "ip_receipt_original ?q = snapshot_of (ix_sha ext) (content w1 (at d (n @ instr_receipt_suffix)))"
    "ip_restore ?q = Some ByteIdentical"
    by (simp_all add: is_noop_def removal_def w1(2))
  obtain w2 where run: "apply_plan ext ?q w1 = (Inr (), w2)"
    and c2: "content w2 = change_effect (instr_change ext ?q) (content w)"
    using apply_plan_calm[OF w1(1) path(2) q(1-6) sizes] w1(2) by auto
  have "content w2 = (content w)(at d n := map_option (\<lambda>(b, _). (b, snd (the (content w (at d n))))) c,
       at d (n @ instr_receipt_suffix) := None, at d (n @ backup_suffix) := None)"
    unfolding c2 removal_view using o content_masked[OF o] by simp
  with plan run q(7) show ?thesis by blast
qed

lemma install_effect_fresh: "freshly_installed ext t d n (v (at d n)) (install_effect ext t d n v)"
  using instr_suffixes_differ
  by (auto simp: freshly_installed_def install_effect_def split: option.splits)


lemma install_effect_at:
  "install_effect ext t d n v (at d n) =
     Some (installed ext t (text_of (v (at d n))), case v (at d n) of None \<Rightarrow> 384 | Some (_, m) \<Rightarrow> m AND 511)"
  "install_effect ext t d n v (at d (n @ instr_receipt_suffix)) =
     Some (receipt_encode ext (fresh_receipt ext t (v (at d n))), 384)"
  "install_effect ext t d n v (at d (n @ backup_suffix)) =
     (case v (at d n) of None \<Rightarrow> v (at d (n @ backup_suffix)) | Some (b, _) \<Rightarrow> Some (b, 384))"
  using instr_suffixes_differ by (auto simp: install_effect_def split: option.splits)

end
