(* ===== verification/Instructions_Plans.thy ===== *)
theory Instructions_Plans
  imports Instructions_Correct
begin

text \<open>
  Inversion of the two planners: what a plan that was returned says about the files it was made
  from, and the cases of a removal.
\<close>

section \<open>Facts about plans\<close>

lemma decide_install_fields:
  assumes "decide_install ext t h target rp bp o1 o2 force = Inr p"
  shows "ip_target p = target \<and> ip_receipt_path p = rp \<and> ip_backup_path p = bp \<and>
    ip_original p = o1 \<and> ip_receipt_original p = o2"
  using assms
  by (auto simp: decide_install_def bindR_eq_Inr Let_def noop_plan_def adopt_plan_def split: if_splits)

lemma plan_install_paths:
  assumes "plan_install_at ext t h project force w = (Inr p, w')"
  shows "instruction_path t h project = Inr (ip_target p)"
    "sibling_path (ip_target p) instr_receipt_suffix = Inr (ip_receipt_path p)"
    "sibling_path (ip_target p) backup_suffix = Inr (ip_backup_path p)"
    "ip_original p = snapshot_of (ix_sha ext) (content w (ip_target p))"
    "ip_receipt_original p = snapshot_of (ix_sha ext) (content w (ip_receipt_path p))"
    "content w' = content w"
proof -
  from assms obtain target rp bp o1 o2 where
    1: "read_instruction_files ext t h project w = (Inr (target, rp, bp, o1, o2), w')"
    and 2: "decide_install ext t h target rp bp o1 o2 force = Inr p"
    by (auto simp: plan_install_at_def act_run)
  note r = read_instruction_files_Inr[OF 1] and d = decide_install_fields[OF 2]
  from r d show "instruction_path t h project = Inr (ip_target p)"
    "sibling_path (ip_target p) instr_receipt_suffix = Inr (ip_receipt_path p)"
    "sibling_path (ip_target p) backup_suffix = Inr (ip_backup_path p)"
    "ip_original p = snapshot_of (ix_sha ext) (content w (ip_target p))"
    "ip_receipt_original p = snapshot_of (ix_sha ext) (content w (ip_receipt_path p))"
    "content w' = content w" by simp_all
qed

text \<open>The stages of the removal planner.\<close>

lemma plan_remove_stages:
  assumes "plan_remove_at ext t h project force w = (Inr q, w')"
  obtains target rp bp w1 ro tx cur where
    "read_instruction_files ext t h project w =
       (Inr (target, rp, bp, snapshot_of (ix_sha ext) (content w target), snapshot_of (ix_sha ext) (content w rp)), w1)"
    "content w1 = content w"
    "decode_receipt ext (snapshot_of (ix_sha ext) (content w rp)) t = Inr ro"
    "tx = text_of (content w target)"
    "current_owned tx t ro (owned_shape_of t) force = Inr cur"
    "(case ro of None \<Rightarrow> cur = None \<and> q = noop_plan t h AlreadyRemoved target rp bp
          (snapshot_of (ix_sha ext) (content w target)) (snapshot_of (ix_sha ext) (content w rp))
      | Some r \<Rightarrow> remove_with_receipt ext t bp
          (removal t h target rp bp (snapshot_of (ix_sha ext) (content w target))
             (snapshot_of (ix_sha ext) (content w rp)) r)
          r (snapshot_of (ix_sha ext) (content w target)) tx cur force w1 = (Inr q, w'))"
proof -
  from assms obtain target rp bp o1 o2 w1 ro tx cur where
    1: "read_instruction_files ext t h project w = (Inr (target, rp, bp, o1, o2), w1)"
    and 2: "Inr ro = decode_receipt ext o2 t" and 3: "Inr tx = instr_snapshot_text o1"
    and 4: "Inr cur = current_owned tx t ro (owned_shape_of t) force"
    and 5: "(case ro of None \<Rightarrow> if cur \<noteq> None then throw (HostConflict MarkerWithoutReceipt)
         else ret (noop_plan t h AlreadyRemoved target rp bp o1 o2)
     | Some r \<Rightarrow> remove_with_receipt ext t bp (removal t h target rp bp o1 o2 r) r o1 tx cur force) w1 = (Inr q, w')"
    by (auto simp: plan_remove_at_def act_run)
  note r = read_instruction_files_Inr[OF 1]
  have "tx = text_of (content w target)"
    using 3[symmetric] r(4) by (auto simp: instr_snapshot_text_def text_of_def split: if_splits option.splits)
  moreover have "case ro of None \<Rightarrow> cur = None \<and> q = noop_plan t h AlreadyRemoved target rp bp o1 o2
      | Some r \<Rightarrow> remove_with_receipt ext t bp (removal t h target rp bp o1 o2 r) r o1 tx cur force w1 = (Inr q, w')"
    using 5 by (auto split: option.splits if_splits)
  ultimately show thesis using that 1 2[symmetric] 4[symmetric] r(4-6) by blast
qed


section \<open>What a removal may do\<close>

lemma remove_with_receipt_cases:
  assumes run: "remove_with_receipt ext t bp plan r orig tx cur force w = (Inr q, w')"
  obtains (left) b where "owned_shape_of t = WholeFile" "\<not> ir_file_created r" "q = plan ByteIdentical None (Write b) True"
      "content w bp \<noteq> None" "b = fst (the (content w bp))" "digest_bytes (ix_sha ext) b = ir_pre_sha256 r"
  | (released) "owned_shape_of t = WholeFile" "\<not> ir_file_created r" "q = plan AdoptedLeftInPlace None Leave False"
  | (owned) c tier wr rb disc where "\<not> (owned_shape_of t = WholeFile \<and> \<not> ir_file_created r)" "cur = Some c"
      "force \<or> validate_ownership (ix_sha ext) (Some r) cur t = Inr ()"
      "decide_remove r (owned_shape_of t) tx c (sha256 orig = ir_post_sha256 r)
         (snapshot_of (ix_sha ext) (content w bp)) = Inr (tier, wr, rb)"
      "q = plan tier disc wr rb"
proof (cases "owned_shape_of t = WholeFile \<and> \<not> ir_file_created r")
  case True
  with run obtain bk w1 where
    1: "read_snapshot (ix_sha ext) bp max_instruction_bytes ''instruction backup'' w = (Inr bk, w1)" and
    2: "(if sha256 orig = ir_post_sha256 r \<and> backup_is_pre bk r
         then ret (plan ByteIdentical None (case snap_bytes bk of None \<Rightarrow> Leave | Some b \<Rightarrow> Write b) True)
         else ret (plan AdoptedLeftInPlace None Leave False)) w1 = (Inr q :: manager_error + _, w')"
    by (auto simp: remove_with_receipt_def act_run)
  have bk: "bk = snapshot_of (ix_sha ext) (content w bp)" using read_snapshot_Inr(1)[OF 1] .
  show thesis
  proof (cases "sha256 orig = ir_post_sha256 r \<and> backup_is_pre bk r")
    case yes: True
    then obtain b m where "content w bp = Some (b, m)" by (auto simp: backup_is_pre_def bk)
    with yes 2 True left show thesis by (auto simp: backup_is_pre_def bk snapshot_of_sha)
  next
    case False
    with 2 True released show thesis by auto
  qed
next
  case False
  with run obtain bk c w1 w2 tier wr rb where
    "cur = Some c" and "force \<or> validate_ownership (ix_sha ext) (Some r) cur t = Inr ()"
    and 1: "read_snapshot (ix_sha ext) bp max_instruction_bytes ''instruction backup'' w = (Inr bk, w1)"
    and d: "Inr (tier, wr, rb) = decide_remove r (owned_shape_of t) tx c (sha256 orig = ir_post_sha256 r) bk"
    and "q = plan tier (if force \<and> ir_owned_block r \<noteq> c then Some c else None) wr rb"
    by (auto simp: remove_with_receipt_def act_run Let_def split: option.splits if_splits)
  with read_snapshot_Inr(1)[OF 1] d[symmetric] False owned show thesis by blast
qed


section \<open>What an install may write\<close>

lemma decide_install_Write:
  assumes "decide_install ext t h target rp bp o1 o2 False = Inr p" and "ip_write p = Write b"
  shows "\<exists>ro tx cur sep. decode_receipt ext o2 t = Inr ro \<and> instr_snapshot_text o1 = Inr tx \<and>
    current_owned tx t ro (owned_shape_of t) False = Inr cur \<and> validate_ownership (ix_sha ext) ro cur t = Inr () \<and>
    install_block tx cur (canonical_block ext t) (owned_shape_of t) = Inr (b, sep) \<and>
    (t = Skill \<longrightarrow> cur = None \<longrightarrow> ro = None \<longrightarrow> str_blank tx)"
  using assms
  by (auto simp: decide_install_def bindR_eq_Inr Let_def noop_plan_def adopt_plan_def split: if_splits)

lemma install_block_appends:
  assumes "install_block tx None desired shape = Inr (b, sep)"
  shows "(b = tx @ sep @ desired \<and> set sep \<subseteq> {CHR 0x0A}) \<or> (shape = WholeFile \<and> b = desired)"
  using assms block_separator_laws(1)[of tx] by (auto simp: install_block_def split: if_splits)

lemma install_block_replaces:
  assumes "install_block tx (Some c) desired shape = Inr (b, sep)"
  shows "(shape = WholeFile \<and> b = desired) \<or> (\<exists>pre post. tx = pre @ c @ post \<and> b = pre @ desired @ post)"
proof (cases "shape = WholeFile")
  case False
  with assms have m: "matches_count tx c = 1" and b: "b = replace_first tx c desired"
    by (auto simp: install_block_def split: if_splits)
  have "\<exists>i. str_find c tx = Some i"
  proof (cases "c = []")
    case True
    then show ?thesis by (cases tx) auto
  next
    case False
    with m match_indices_hd[OF False, of tx] show ?thesis
      by (cases "match_indices tx c") (auto simp: matches_count_def)
  qed
  then obtain i where i: "str_find c tx = Some i" by blast
  from str_find_split[OF i] b i show ?thesis by (auto simp: replace_first_def)
qed (use assms in \<open>simp add: install_block_def\<close>)


section \<open>Both planners\<close>

text \<open>\<open>p\<close> was planned, for an install or a removal, from the files of \<open>w\<close>.\<close>

definition planned :: "instr_ext \<Rightarrow> instruction_plan \<Rightarrow> world \<Rightarrow> bool" where
  "planned ext p w \<longleftrightarrow> (\<exists>t h project force w'.
     plan_install_at ext t h project force w = (Inr p, w') \<or> plan_remove_at ext t h project force w = (Inr p, w'))"

lemma plan_remove_paths:
  assumes "plan_remove_at ext t h project force w = (Inr p, w')"
  shows "sibling_path (ip_target p) instr_receipt_suffix = Inr (ip_receipt_path p)"
    "sibling_path (ip_target p) backup_suffix = Inr (ip_backup_path p)"
    "ip_original p = snapshot_of (ix_sha ext) (content w (ip_target p))"
    "ip_receipt_original p = snapshot_of (ix_sha ext) (content w (ip_receipt_path p))"
proof -
  from assms obtain target rp bp w1 ro tx cur where
    1: "read_instruction_files ext t h project w =
       (Inr (target, rp, bp, snapshot_of (ix_sha ext) (content w target), snapshot_of (ix_sha ext) (content w rp)), w1)"
    and 2: "(case ro of None \<Rightarrow> cur = None \<and> p = noop_plan t h AlreadyRemoved target rp bp
          (snapshot_of (ix_sha ext) (content w target)) (snapshot_of (ix_sha ext) (content w rp))
      | Some r \<Rightarrow> remove_with_receipt ext t bp
          (removal t h target rp bp (snapshot_of (ix_sha ext) (content w target))
             (snapshot_of (ix_sha ext) (content w rp)) r)
          r (snapshot_of (ix_sha ext) (content w target)) tx cur force w1 = (Inr p, w'))"
    by (rule plan_remove_stages)
  note r = read_instruction_files_Inr(2,3)[OF 1]
  have "ip_target p = target \<and> ip_receipt_path p = rp \<and> ip_backup_path p = bp \<and>
      ip_original p = snapshot_of (ix_sha ext) (content w target) \<and>
      ip_receipt_original p = snapshot_of (ix_sha ext) (content w rp)"
  proof (cases ro)
    case None
    with 2 show ?thesis by (simp add: noop_plan_def)
  next
    case (Some rec)
    with 2 show ?thesis by (auto elim!: remove_with_receipt_cases simp: removal_def)
  qed
  with r show "sibling_path (ip_target p) instr_receipt_suffix = Inr (ip_receipt_path p)"
    "sibling_path (ip_target p) backup_suffix = Inr (ip_backup_path p)"
    "ip_original p = snapshot_of (ix_sha ext) (content w (ip_target p))"
    "ip_receipt_original p = snapshot_of (ix_sha ext) (content w (ip_receipt_path p))" by simp_all
qed

lemma planned_at:
  assumes "planned ext p w"
  obtains d n where "ip_target p = at d n" "change_at d n instr_receipt_suffix (instr_change ext p)"
    "ip_original p = snapshot_of (ix_sha ext) (content w (at d n))"
    "ip_receipt_original p = snapshot_of (ix_sha ext) (content w (at d (n @ instr_receipt_suffix)))"
proof -
  from assms have s: "sibling_path (ip_target p) instr_receipt_suffix = Inr (ip_receipt_path p)"
    "sibling_path (ip_target p) backup_suffix = Inr (ip_backup_path p)"
    and o: "ip_original p = snapshot_of (ix_sha ext) (content w (ip_target p))"
    "ip_receipt_original p = snapshot_of (ix_sha ext) (content w (ip_receipt_path p))"
    unfolding planned_def using plan_install_paths plan_remove_paths by metis+
  from s(1) obtain d n where t: "ip_target p = at d n" by (auto elim!: sibling_path_Inr)
  with s have p: "ip_receipt_path p = at d (n @ instr_receipt_suffix)" "ip_backup_path p = at d (n @ backup_suffix)"
    by auto
  from that[OF t instr_change_at(1)[OF t p]] o t p show thesis by simp
qed

lemma snapshot_of_inject: "snapshot_of sha c = snapshot_of sha c' \<longleftrightarrow> c = c'"
proof
  assume "snapshot_of sha c = snapshot_of sha c'"
  then have "map_option fst c = map_option fst c'" "map_option snd c = map_option snd c'"
    by (metis snapshot_of_bytes, metis snapshot_of_mode)
  then show "c = c'" by (cases c; cases c') auto
qed simp

end
