(* ===== verification/Demo.thy ===== *)
theory Demo
  imports Instructions_Correct "HOL-Library.Code_Target_Nat"
begin

text \<open>
  A small machine and concrete stand-ins for the external functions, on which the properties'
  hypotheses are discharged.
\<close>

definition demo_project :: path where
  "demo_project = [RootDir, Normal ''p'']"

definition demo_machine :: "(path \<times> node) list \<Rightarrow> world" where
  "demo_machine fs =
     \<lparr>files = ([RootDir], Directory 493) # (demo_project, Directory 493) # fs,
      ticks = 0, faults = \<lambda>_. None, temp_sequence = 0, pid = 7, umask = 18\<rparr>"

text \<open>A project whose \<^verbatim>\<open>AGENTS.md\<close> has one line of its own.\<close>

definition demo_world :: world where
  "demo_world = demo_machine [(at demo_project ''AGENTS.md'', File (''# Team'' @ nl) 420)]"

definition demo_block :: "instruction_target \<Rightarrow> bytes" where
  "demo_block t = marker_start t @ nl @ ''Use it.'' @ nl @ marker_end t @ nl"

definition demo_ext0 :: instr_ext where
  "demo_ext0 = \<lparr>ix_sha = (\<lambda>b. [char_of (length b)]), ix_block = demo_block,
     ix_to_vec_pretty = (\<lambda>_. ''{}''), ix_from_slice = (\<lambda>_. None)\<rparr>"

definition demo_ext :: instr_ext where
  "demo_ext = demo_ext0\<lparr>ix_from_slice := \<lambda>b. if b = ''{}'' @ nl
     then Some (fresh_receipt demo_ext0 Agents (Some (''# Team'' @ nl, 420))) else None\<rparr>"

lemma demo_lookup:
  "lookup (demo_machine fs) q =
     (if q = [RootDir] \<or> q = demo_project then Some (Directory 493) else map_of fs q)"
  by (auto simp: lookup_def demo_machine_def)

lemma demo_calm: "calm (demo_machine fs)"
  by (simp add: calm_def demo_machine_def)

lemma demo_tree_ok:
  assumes "\<And>q x. (q, x) \<in> set fs \<Longrightarrow> parent q = Some demo_project"
  shows "tree_ok (demo_machine fs)"
proof (rule tree_okI)
  show "is_directory (demo_machine fs) [RootDir]" by (simp add: is_directory_iff demo_lookup)
  fix q x assume q: "lookup (demo_machine fs) q = Some x" "q \<noteq> [RootDir]"
  show "\<exists>d. parent q = Some d \<and> is_directory (demo_machine fs) d"
  proof (cases "q = demo_project")
    case True
    then show ?thesis by (auto simp: demo_project_def parent_def is_directory_iff demo_lookup)
  next
    case False
    with q have "parent q = Some demo_project" using assms by (auto simp: demo_lookup dest: map_of_SomeD split: if_splits)
    then show ?thesis by (simp add: is_directory_iff demo_lookup)
  qed
qed

lemma demo_anc_ok: "anc_ok (demo_machine fs) (at demo_project n)"
proof -
  have "q = [RootDir] \<or> q = demo_project" if "strict_prefix q (at demo_project n)" "q \<noteq> []" for q
    using that by (auto simp: demo_project_def strict_prefix_def prefix_Cons)
  then show ?thesis by (auto simp: anc_ok_iff ancestors_def is_directory_iff demo_lookup)
qed

lemma demo_path_ok: "utf8_valid n \<Longrightarrow> path_ok (at demo_project n)"
  unfolding path_ok_def demo_project_def
  by (rule exI[of _ "[''p'', n]"]) (auto intro!: utf8_valid_ascii)


lemma demo_site:
  assumes "\<And>q x. (q, x) \<in> set fs \<Longrightarrow> \<exists>b m. x = File b m"
    and "\<And>k s y. y \<in> site_suffixes rs \<Longrightarrow> map_of fs (at demo_project (n @ y @ temp_suffix k s)) = None"
  shows "site demo_project n rs (demo_machine fs)"
proof -
  have "at demo_project m \<noteq> [RootDir]" "at demo_project m \<noteq> demo_project" for m by (simp_all add: demo_project_def)
  then have l: "lookup (demo_machine fs) (at demo_project m) = map_of fs (at demo_project m)" for m
    by (simp add: demo_lookup)
  have "file_or_free (demo_machine fs) (at demo_project m)" for m
    using assms(1) by (cases "map_of fs (at demo_project m)") (auto simp: file_or_free_def l dest: map_of_SomeD)
  moreover have "lookup (demo_machine fs) t = None"
    if t: "t \<in> temp_siblings (at demo_project (n @ y))" and y: "y \<in> site_suffixes rs" for t y
    using temp_sibling_form[OF t] assms(2)[OF y] l by auto
  ultimately show ?thesis by (simp add: site_def)
qed

lemma demo_runnable: "runnable demo_project ''AGENTS.md'' instr_receipt_suffix demo_world"
proof -
  have "site demo_project ''AGENTS.md'' instr_receipt_suffix demo_world"
    unfolding demo_world_def by (rule demo_site) (auto simp: temp_suffix_def)
  moreover have "tree_ok demo_world" unfolding demo_world_def by (rule demo_tree_ok) auto
  moreover have "lookup demo_world (at demo_project (''AGENTS.md'' @ ''.kaleidoscope-lock'')) = None"
    by (simp add: demo_world_def demo_lookup demo_project_def)
  moreover have "calm demo_world" "anc_ok demo_world (at demo_project ''AGENTS.md'')"
    by (simp_all add: demo_world_def demo_calm demo_anc_ok)
  ultimately show ?thesis by (simp add: runnable_def)
qed

lemma demo_content:
  "content demo_world (at demo_project ''AGENTS.md'') = Some (''# Team'' @ nl, 420)"
  "x \<noteq> [] \<Longrightarrow> content demo_world (at demo_project (''AGENTS.md'' @ x)) = None"
  by (auto simp: demo_world_def content_def demo_lookup demo_project_def)

lemma demo_block_ok: "block_ok Agents (demo_block Agents)"
proof -
  let ?body = "marker_start Agents @ nl @ ''Use it.'' @ nl"
  have "demo_block Agents = ?body @ marker_end Agents @ nl" by (simp add: demo_block_def)
  moreover have "match_indices (demo_block Agents) (marker_end Agents) = [length ?body]"
    "match_indices (demo_block Agents) (marker_start Agents) = [0]" by code_simp+
  moreover have "utf8_valid (demo_block Agents)" by (rule utf8_valid_ascii) (simp add: demo_block_def)
  ultimately show ?thesis unfolding block_ok_def framed_def by (metis owned_shape_of.simps(2))
qed

lemma demo_canonical: "canonical_block demo_ext t = demo_block t"
  by (simp add: canonical_block_def demo_ext_def demo_ext0_def)

lemma demo_installable: "installable Agents (''# Team'' @ nl)"
  by (simp add: installable_def find_owned_block_def match_indices_def) (auto intro!: utf8_valid_ascii)

lemma demo_receipt: "fresh_receipt demo_ext t c = fresh_receipt demo_ext0 t c"
  by (cases "owned_shape_of t") (simp_all add: fresh_receipt_def demo_ext_def canonical_block_def installed_def)

lemma demo_codec: "receipt_codec demo_ext (fresh_receipt demo_ext Agents (Some (''# Team'' @ nl, 420)))"
  by (simp add: receipt_codec_def receipt_encode_def demo_receipt) (simp add: demo_ext_def demo_ext0_def)


text \<open>The same project after an install and two edits by the user, one above and one below the block.\<close>

definition demo_edited :: world where
  "demo_edited = demo_machine
     [(at demo_project ''AGENTS.md'', File (''# Crew'' @ nl @ nl @ demo_block Agents @ ''End'' @ nl) 420),
      (at demo_project (''AGENTS.md'' @ instr_receipt_suffix), File (''{}'' @ nl) 384)]"

lemma demo_structural:
  "case plan_remove_at demo_ext Agents None demo_project False demo_edited of
     (Inr q, w') \<Rightarrow> ip_restore q = Some Structural \<and> ip_write q = Write (''# Crew'' @ nl @ ''End'' @ nl)
   | _ \<Rightarrow> False"
  by code_simp


lemma demo_install:
  "case plan_install_at demo_ext Agents None demo_project False demo_world of
     (Inr p, w') \<Rightarrow> ip_action p = InstrAdd \<and> ip_target p = at demo_project ''AGENTS.md'' \<and>
       ip_write p = Write (''# Team'' @ nl @ nl @ demo_block Agents)
   | _ \<Rightarrow> False"
  by code_simp

text \<open>A project with a skill file of the user's, recorded by a receipt as not created by the manager.\<close>

definition demo_skill_dir :: path where
  "demo_skill_dir = [RootDir, Normal ''p'', Normal ''.agents'', Normal ''skills'', Normal ''use-kaleidoscope'']"

definition demo_skill_receipt :: instruction_receipt where
  "demo_skill_receipt =
     \<lparr>ir_version = 2, ir_owner = owner_id, ir_target = Skill, ir_shape = WholeFile,
      ir_owned_sha256 = digest_bytes (ix_sha demo_ext0) ''Skill'', ir_owned_block = ''Skill'',
      ir_pre_sha256 = ''00'', ir_post_sha256 = ''00'', ir_separator = [],
      ir_file_created = False, ir_adopted = True\<rparr>"

definition demo_skill_ext :: instr_ext where
  "demo_skill_ext = demo_ext0\<lparr>ix_from_slice := \<lambda>_. Some demo_skill_receipt\<rparr>"

definition demo_skill_world :: world where
  "demo_skill_world = demo_machine
     [(take 3 demo_skill_dir, Directory 493), (take 4 demo_skill_dir, Directory 493), (demo_skill_dir, Directory 493),
      (at demo_skill_dir ''SKILL.md'', File ''Skill'' 420),
      (at demo_skill_dir (''SKILL.md'' @ instr_receipt_suffix), File ''{}'' 384)]"

lemma demo_skill_removal:
  "case plan_remove_at demo_skill_ext Skill (Some Codex) demo_project True demo_skill_world of
     (Inr q, w') \<Rightarrow> decode_receipt demo_skill_ext (ip_receipt_original q) Skill = Inr (Some demo_skill_receipt)
   | _ \<Rightarrow> False"
  by code_simp


text \<open>
  A file whose last line ended in a two-byte character and no newline when the block was
  installed, and from which the user has since deleted the blank line before the block.
\<close>

definition demo_accent :: bytes where
  "demo_accent = ''caf'' @ [CHR 0xC3, CHR 0xA9]"

definition demo_accent_ext :: instr_ext where
  "demo_accent_ext = demo_ext0\<lparr>ix_from_slice := \<lambda>_. Some (fresh_receipt demo_ext0 Agents (Some (demo_accent, 420)))\<rparr>"

definition demo_accent_world :: world where
  "demo_accent_world = demo_machine
     [(at demo_project ''AGENTS.md'', File (demo_accent @ nl @ demo_block Agents) 420),
      (at demo_project (''AGENTS.md'' @ instr_receipt_suffix), File (''{}'' @ nl) 384)]"

end
