(* ===== verification/Instructions_Properties.thy ===== *)
theory Instructions_Properties
  imports Plan_Apply_Safety Instructions_Plans Demo
begin

text \<open>
  The properties of the instruction component.
\<close>

text \<open>C2. On a machine whose calls do not fail, installing a target over a file that carries no
  marker and then removing it succeeds in all four steps, and every file (bytes and permission
  bits) is back to what it was; a stale backup file is the only thing that may be gone.\<close>

theorem install_then_remove_restores:
  assumes ext: "receipt_codec ext (fresh_receipt ext t (content w (at d n)))" "canonical_ok ext t"
    and path: "instruction_path t h project = Inr (at d n)" "path_ok (at d n)"
    and w: "runnable d n instr_receipt_suffix w"
    and inst: "installable t (text_of (content w (at d n)))"
    and new: "content w (at d (n @ instr_receipt_suffix)) = None"
    and size: "fits w (at d n) max_instruction_bytes" "fits w (at d (n @ backup_suffix)) max_instruction_bytes"
      "length (installed ext t (text_of (content w (at d n)))) \<le> max_instruction_bytes"
      "length (receipt_encode ext (fresh_receipt ext t (content w (at d n)))) \<le> max_receipt_bytes"
  shows "\<exists>p w1 w2 q w3 w4.
     plan_install_at ext t h project False w = (Inr p, w1) \<and> apply_plan ext p w1 = (Inr (), w2) \<and>
     map_option fst (content w2 (at d n)) = Some (installed ext t (text_of (content w (at d n)))) \<and>
     plan_remove_at ext t h project False w2 = (Inr q, w3) \<and> apply_plan ext q w3 = (Inr (), w4) \<and>
     ip_restore q = Some ByteIdentical \<and>
     content w4 = (content w)(at d (n @ backup_suffix) := None)"
proof -
  let ?c = "content w (at d n)"
  obtain p w1 w2 where 1: "plan_install_at ext t h project False w = (Inr p, w1)" "apply_plan ext p w1 = (Inr (), w2)"
    and r2: "runnable d n instr_receipt_suffix w2" and c2: "content w2 = install_effect ext t d n (content w)"
    using install_calm[OF ext(2) path w inst new size(1)] by blast
  have at2: "content w2 (at d n) = Some (installed ext t (text_of ?c), case ?c of None \<Rightarrow> 384 | Some (_, m) \<Rightarrow> m AND 511)"
    "content w2 (at d (n @ instr_receipt_suffix)) = Some (receipt_encode ext (fresh_receipt ext t ?c), 384)"
    "content w2 (at d (n @ backup_suffix)) =
      (case ?c of None \<Rightarrow> content w (at d (n @ backup_suffix)) | Some (b, _) \<Rightarrow> Some (b, 384))"
    by (simp_all add: c2 install_effect_at)
  then have f2: "fits w2 (at d n) max_instruction_bytes" "fits w2 (at d (n @ instr_receipt_suffix)) max_receipt_bytes"
      "fits w2 (at d (n @ backup_suffix)) max_instruction_bytes"
    using size by (auto simp: fits_def split: option.splits)
  obtain q w3 w4 where 2: "plan_remove_at ext t h project False w2 = (Inr q, w3)" "apply_plan ext q w3 = (Inr (), w4)"
    "ip_restore q = Some ByteIdentical"
    and c4: "content w4 = (content w2)(at d n := map_option (\<lambda>(b, _). (b, snd (the (content w2 (at d n))))) ?c,
       at d (n @ instr_receipt_suffix) := None, at d (n @ backup_suffix) := None)"
    using remove_calm[OF ext inst path r2 install_effect_fresh[of ext t d n "content w", folded c2] f2] by blast
  have "content w4 = (content w)(at d (n @ backup_suffix) := None)"
  proof
    fix x
    have "map_option (\<lambda>(b, _). (b, snd (the (content w2 (at d n))))) ?c = ?c"
      using at2(1) content_masked by (auto split: option.splits)
    then show "content w4 x = ((content w)(at d (n @ backup_suffix) := None)) x"
      using new instr_suffixes_differ by (auto simp: c4 c2 install_effect_def split: option.splits)
  qed
  with 1 2 at2(1) show ?thesis by auto
qed


theorem install_then_remove_restores_witness:
  "\<exists>p w1 w2 q w3 w4.
     plan_install_at demo_ext Agents None demo_project False demo_world = (Inr p, w1) \<and>
     apply_plan demo_ext p w1 = (Inr (), w2) \<and>
     map_option fst (content w2 (at demo_project ''AGENTS.md'')) =
       Some (installed demo_ext Agents (text_of (content demo_world (at demo_project ''AGENTS.md'')))) \<and>
     plan_remove_at demo_ext Agents None demo_project False w2 = (Inr q, w3) \<and> apply_plan demo_ext q w3 = (Inr (), w4) \<and>
     ip_restore q = Some ByteIdentical \<and>
     content w4 = (content demo_world)(at demo_project (''AGENTS.md'' @ backup_suffix) := None)"
proof (rule install_then_remove_restores)
  show "receipt_codec demo_ext (fresh_receipt demo_ext Agents (content demo_world (at demo_project ''AGENTS.md'')))"
    using demo_codec by (simp add: demo_content)
  show "canonical_ok demo_ext Agents" using demo_block_ok by (simp add: canonical_ok_def demo_canonical)
  show "instruction_path Agents None demo_project = Inr (at demo_project ''AGENTS.md'')"
    by (simp add: instruction_path_def join_def demo_project_def)
  show "path_ok (at demo_project ''AGENTS.md'')" by (rule demo_path_ok, rule utf8_valid_ascii) simp
  show "installable Agents (text_of (content demo_world (at demo_project ''AGENTS.md'')))"
    using demo_installable by (simp add: demo_content text_of_def)
  show "length (installed demo_ext Agents (text_of (content demo_world (at demo_project ''AGENTS.md'')))) \<le> max_instruction_bytes"
    by (simp add: demo_content text_of_def installed_def demo_canonical demo_block_def max_instruction_bytes_def
        block_separator_def ends_with_def)
  show "length (receipt_encode demo_ext (fresh_receipt demo_ext Agents (content demo_world (at demo_project ''AGENTS.md''))))
      \<le> max_receipt_bytes"
    by (simp add: receipt_encode_def demo_ext_def demo_ext0_def max_receipt_bytes_def)
  have free: "content demo_world (at demo_project (''AGENTS.md'' @ x)) = None" if "x \<noteq> []" for x
    using that by (rule demo_content(2))
  show "content demo_world (at demo_project (''AGENTS.md'' @ instr_receipt_suffix)) = None"
    "fits demo_world (at demo_project (''AGENTS.md'' @ backup_suffix)) max_instruction_bytes"
    unfolding fits_def free[OF instr_suffixes_differ(1)] free[OF instr_suffixes_differ(2)] by simp_all
qed (simp_all add: demo_runnable demo_content(1) fits_def max_instruction_bytes_def)


text \<open>Planning, whatever it decides and whatever call fails, changes no file.\<close>

theorem planning_is_read_only:
  "content (snd (plan_install_at ext t h project force w)) = content w \<and>
   content (snd (plan_remove_at ext t h project force w)) = content w"
  using outside.keeps_plan_install[of "{}" ext t h project force] outside.keeps_plan_remove[of "{}" ext t h project force]
  by (simp add: keeps_def untouched_empty)

text \<open>C16. A structural removal (the file changed since the install) takes out the block the receipt
  records and at most the recorded separator; every other byte of the user's file is kept, in
  order.\<close>

theorem structural_removal_keeps_user_bytes:
  assumes "plan_remove_at ext t h project False w = (Inr q, w')"
    and "ip_restore q = Some Structural" and "ip_write q = Write b"
  shows "\<exists>r pre sep post. decode_receipt ext (ip_receipt_original q) t = Inr (Some r) \<and>
    text_of (content w (ip_target q)) = pre @ sep @ ir_owned_block r @ post \<and>
    b = pre @ post \<and> (sep = [] \<or> sep = ir_separator r)"
  using assms(1)
proof (cases rule: plan_remove_stages)
  case (1 target rp bp w1 ro tx cur)
  show ?thesis
  proof (cases ro)
    case None
    with 1 assms(2) show ?thesis by (simp add: noop_plan_def)
  next
    case (Some r)
    let ?plan = "removal t h target rp bp (snapshot_of (ix_sha ext) (content w target))
             (snapshot_of (ix_sha ext) (content w rp)) r"
    from 1 Some have "remove_with_receipt ext t bp ?plan r (snapshot_of (ix_sha ext) (content w target)) tx cur False w1
       = (Inr q, w')" by simp
    then show ?thesis
    proof (cases rule: remove_with_receipt_cases)
      case (owned c tier wr rb disc)
      then have c: "c = ir_owned_block r" by (auto simp: validate_ownership_def split: if_splits)
      from owned(4,5) assms(2,3) have "remove_block tx c (ir_separator r) (owned_shape_of t) = Inr b"
        by (auto simp: decide_remove_def removal_def bindR_eq_Inr split: if_splits)
      moreover from owned(1,4,5) assms(2,3) this have "owned_shape_of t = MarkerBlock"
        by (cases "owned_shape_of t")
          (auto simp: decide_remove_def removal_def bindR_eq_Inr remove_block_def split: if_splits)
      ultimately show ?thesis
        using remove_block_frame[of tx c "ir_separator r" b] c 1(3,4) Some owned(5) by (auto simp: removal_def)
    qed (use assms(2) in \<open>simp_all add: removal_def\<close>)
  qed
qed

theorem structural_removal_keeps_user_bytes_witness:
  "\<exists>q w'. plan_remove_at demo_ext Agents None demo_project False demo_edited = (Inr q, w') \<and>
    ip_restore q = Some Structural \<and> ip_write q = Write (''# Crew'' @ nl @ ''End'' @ nl) \<and>
    (\<exists>r pre sep post. decode_receipt demo_ext (ip_receipt_original q) Agents = Inr (Some r) \<and>
      text_of (content demo_edited (ip_target q)) = pre @ sep @ ir_owned_block r @ post \<and>
      ''# Crew'' @ nl @ ''End'' @ nl = pre @ post \<and> (sep = [] \<or> sep = ir_separator r))"
proof -
  obtain q w' where q: "plan_remove_at demo_ext Agents None demo_project False demo_edited = (Inr q, w')"
    "ip_restore q = Some Structural" "ip_write q = Write (''# Crew'' @ nl @ ''End'' @ nl)"
    using demo_structural by (auto split: prod.splits sum.splits)
  from structural_removal_keeps_user_bytes[OF q] q show ?thesis by blast
qed

text \<open>A skill file the manager did not create is never deleted by a removal, forced or not; if it
  is written at all, it is written with bytes whose digest is the recorded digest of the user's
  original.\<close>

theorem foreign_skill_survives_removal:
  assumes "plan_remove_at ext Skill h project force w = (Inr q, w')"
    and "decode_receipt ext (ip_receipt_original q) Skill = Inr (Some r)" and "\<not> ir_file_created r"
  shows "ip_write q \<noteq> Remove \<and>
    (\<forall>b. ip_write q = Write b \<longrightarrow> digest_bytes (ix_sha ext) b = ir_pre_sha256 r)"
  using assms(1)
proof (cases rule: plan_remove_stages)
  case (1 target rp bp w1 ro tx cur)
  show ?thesis
  proof (cases ro)
    case None
    with 1 show ?thesis by (simp add: noop_plan_def)
  next
    case (Some r')
    with 1 have run: "remove_with_receipt ext Skill bp (removal Skill h target rp bp (snapshot_of (ix_sha ext) (content w target))
        (snapshot_of (ix_sha ext) (content w rp)) r') r' (snapshot_of (ix_sha ext) (content w target)) tx cur force w1
        = (Inr q, w')" by simp
    then have "ip_receipt_original q = snapshot_of (ix_sha ext) (content w rp)"
      by (cases rule: remove_with_receipt_cases) (simp_all add: removal_def)
    with assms(2) 1(3) Some have "r' = r" by simp
    with run assms(3) show ?thesis
      by (cases rule: remove_with_receipt_cases) (simp_all add: removal_def)
  qed
qed

theorem foreign_skill_survives_removal_witness:
  "\<exists>q w'. plan_remove_at demo_skill_ext Skill (Some Codex) demo_project True demo_skill_world = (Inr q, w') \<and>
    ip_write q \<noteq> Remove \<and>
    (\<forall>b. ip_write q = Write b \<longrightarrow> digest_bytes (ix_sha demo_skill_ext) b = ir_pre_sha256 demo_skill_receipt)"
proof -
  obtain q w' where q: "plan_remove_at demo_skill_ext Skill (Some Codex) demo_project True demo_skill_world = (Inr q, w')"
    "decode_receipt demo_skill_ext (ip_receipt_original q) Skill = Inr (Some demo_skill_receipt)"
    using demo_skill_removal by (auto split: prod.splits sum.splits)
  from foreign_skill_survives_removal[OF q] q(1) show ?thesis by (simp add: demo_skill_receipt_def)
qed

text \<open>Without an owner receipt nothing is ever removed: the plan is the no-op, and where the
  marker is in the file the request is refused, with \<^verbatim>\<open>--force\<close> as well as without.\<close>

theorem no_receipt_no_removal:
  assumes "instruction_path t h project = Inr target" "sibling_path target instr_receipt_suffix = Inr rp"
    and "content w rp = None" and "plan_remove_at ext t h project force w = (res, w')"
  shows "(\<forall>q. res = Inr q \<longrightarrow> is_noop q) \<and>
    (find_owned_block (text_of (content w target)) t = Inr (Some b) \<longrightarrow> owned_shape_of t = MarkerBlock \<longrightarrow> isl res)"
proof -
  have "is_noop q \<and> \<not> (find_owned_block (text_of (content w target)) t = Inr (Some b) \<and> owned_shape_of t = MarkerBlock)"
    if res: "res = Inr q" for q
    using assms(4)[unfolded res]
  proof (cases rule: plan_remove_stages)
    case (1 target' rp' bp w1 ro tx cur)
    from read_instruction_files_Inr(1,2)[OF 1(1)] assms(1,2) have eq: "target' = target" "rp' = rp" by auto
    with 1(3) assms(3) have "ro = None" by (simp add: decode_receipt_def)
    with 1(4-6) eq show ?thesis by (auto simp: noop_plan_def is_noop_def current_owned_def)
  qed
  then show ?thesis by (cases res) auto
qed

theorem no_receipt_no_removal_witness:
  "isl (fst (plan_remove_at demo_ext Agents None demo_project True
     (demo_machine [(at demo_project ''AGENTS.md'', File (demo_block Agents) 420)])))" (is "isl (fst ?run)")
proof -
  obtain res w' where run: "?run = (res, w')" by fastforce
  have 1: "instruction_path Agents None demo_project = Inr (at demo_project ''AGENTS.md'')"
    by (simp add: instruction_path_def join_def demo_project_def)
  have 2: "sibling_path (at demo_project ''AGENTS.md'') instr_receipt_suffix =
      Inr (at demo_project (''AGENTS.md'' @ instr_receipt_suffix))" by simp
  have 3: "content (demo_machine [(at demo_project ''AGENTS.md'', File (demo_block Agents) 420)])
      (at demo_project (''AGENTS.md'' @ instr_receipt_suffix)) = None"
    by (simp add: content_def demo_lookup demo_project_def instr_receipt_suffix_def)
  have "find_owned_block (text_of (content (demo_machine [(at demo_project ''AGENTS.md'', File (demo_block Agents) 420)])
      (at demo_project ''AGENTS.md''))) Agents = Inr (Some (demo_block Agents))"
    by code_simp
  with no_receipt_no_removal[OF 1 2 3 run, of "demo_block Agents"] run show ?thesis by simp
qed

text \<open>C18. An install that is not forced rewrites nothing but the manager's own bytes: the new text is
  the old one with one segment replaced by the separator and the canonical block, and that
  segment is empty, the block the receipt records, or (for the skill) a blank file.\<close>

theorem install_rewrites_only_owned_bytes:
  assumes "plan_install_at ext t h project False w = (Inr p, w')" and "ip_write p = Write b"
  shows "\<exists>pre old sep post. text_of (content w (ip_target p)) = pre @ old @ post \<and>
    b = pre @ sep @ canonical_block ext t @ post \<and> set sep \<subseteq> {CHR 0x0A} \<and>
    (old = [] \<or> (t = Skill \<and> str_blank old) \<or>
     (\<exists>r. decode_receipt ext (ip_receipt_original p) t = Inr (Some r) \<and> ir_owned_block r = old))"
proof -
  from assms(1) obtain target rp bp o1 o2 where
    1: "read_instruction_files ext t h project w = (Inr (target, rp, bp, o1, o2), w')"
    and 2: "decide_install ext t h target rp bp o1 o2 False = Inr p"
    by (auto simp: plan_install_at_def act_run)
  note r = read_instruction_files_Inr[OF 1] and d = decide_install_fields[OF 2]
  from decide_install_Write[OF 2 assms(2)] obtain ro tx cur sep where
    ro: "decode_receipt ext o2 t = Inr ro" and tx: "instr_snapshot_text o1 = Inr tx"
    and cur: "current_owned tx t ro (owned_shape_of t) False = Inr cur"
    and own: "validate_ownership (ix_sha ext) ro cur t = Inr ()"
    and inst: "install_block tx cur (canonical_block ext t) (owned_shape_of t) = Inr (b, sep)"
    and blank: "t = Skill \<Longrightarrow> cur = None \<Longrightarrow> ro = None \<Longrightarrow> str_blank tx" by blast
  have t: "tx = text_of (content w (ip_target p))"
    using tx r(4) d by (auto simp: instr_snapshot_text_def text_of_def split: if_splits option.splits)
  show ?thesis
  proof (cases cur)
    case None
    with own have "ro = None" by (auto simp: validate_ownership_def split: option.splits)
    from install_block_appends[OF inst[unfolded None]] show ?thesis
    proof
      assume "b = tx @ sep @ canonical_block ext t \<and> set sep \<subseteq> {CHR 0x0A}"
      then show ?thesis unfolding t[symmetric]
        by (intro exI[of _ tx] exI[of _ "[]"] exI[of _ sep]) simp
    next
      assume "owned_shape_of t = WholeFile \<and> b = canonical_block ext t"
      with blank None \<open>ro = None\<close> show ?thesis unfolding t[symmetric]
        by (intro exI[of _ "[]"] exI[of _ tx]) (simp add: shape_cases)
    qed
  next
    case (Some c)
    with own obtain r' where r': "ro = Some r'" "ir_owned_block r' = c"
      by (auto simp: validate_ownership_def split: option.splits if_splits)
    have whole: "tx = c" if "owned_shape_of t = WholeFile"
      using that cur Some by (auto simp: current_owned_def split: if_splits)
    obtain pre post where "tx = pre @ c @ post" "b = pre @ canonical_block ext t @ post"
      using install_block_replaces[OF inst[unfolded Some]] whole that[of "[]" "[]"] by auto
    with r' ro d show ?thesis unfolding t[symmetric]
      by (intro exI[of _ pre] exI[of _ c] exI[of _ "[]"] exI[of _ post]) simp
  qed
qed

theorem install_rewrites_only_owned_bytes_witness:
  "\<exists>p w'. plan_install_at demo_ext Agents None demo_project False demo_world = (Inr p, w') \<and>
    (\<exists>pre old sep post. text_of (content demo_world (ip_target p)) = pre @ old @ post \<and>
      ''# Team'' @ nl @ nl @ demo_block Agents = pre @ sep @ canonical_block demo_ext Agents @ post \<and> set sep \<subseteq> {CHR 0x0A} \<and>
      (old = [] \<or> (Agents = Skill \<and> str_blank old) \<or>
       (\<exists>r. decode_receipt demo_ext (ip_receipt_original p) Agents = Inr (Some r) \<and> ir_owned_block r = old)))"
proof -
  obtain p w' where p: "plan_install_at demo_ext Agents None demo_project False demo_world = (Inr p, w')"
    "ip_write p = Write (''# Team'' @ nl @ nl @ demo_block Agents)"
    using demo_install by (auto split: prod.splits sum.splits)
  from install_rewrites_only_owned_bytes[OF p] p(1) show ?thesis by blast
qed

text \<open>C17. Whatever call fails while a plan is applied, the target ends up with its old contents or with
  the planned ones, never with anything in between.\<close>

theorem apply_never_tears_target:
  assumes "planned ext p w0" and "content w (ip_target p) = content w0 (ip_target p)"
    and "apply_plan ext p w = (r, w')"
  shows "content w' (ip_target p) = content w (ip_target p) \<or>
    (\<exists>b m. ip_write p = Write b \<and> content w' (ip_target p) = Some (b, m)) \<or>
    (ip_write p = Remove \<and> content w' (ip_target p) = None)"
proof (cases "is_noop p")
  case False
  from assms(1) obtain d n where at: "ip_target p = at d n"
    and ch: "change_at d n instr_receipt_suffix (instr_change ext p)"
    and o: "ip_original p = snapshot_of (ix_sha ext) (content w0 (at d n))" by (rule planned_at)
  have run: "apply_change (ix_sha ext) (instr_change ext p) w = (r, w')"
    using assms(3) False by (simp add: apply_plan_def)
  have "keeps (one_of (at d n) (outcomes (instr_change ext p) (content w0 (at d n))))
      (apply_change (ix_sha ext) (instr_change ext p))"
    by (rule apply_change_among[OF ch instr_suffixes_differ(1)])
      (use o content_masked in \<open>auto simp: instr_change_def\<close>)
  from keepsD[OF this run] assms(2) at
  have "content w' (at d n) \<in> outcomes (instr_change ext p) (content w (at d n))"
    by (auto simp: one_of_def outcomes_def split: if_splits)
  then show ?thesis
    using at by (cases "ip_write p") (auto simp: outcomes_def new_value_def instr_change_def is_leave_def)
qed (use assms(3) in \<open>simp add: apply_plan_def\<close>)

theorem apply_never_tears_target_witness:
  "\<exists>p. planned demo_ext p demo_world \<and>
    (let w = demo_world\<lparr>faults := \<lambda>k. if k = 20 then Some (Fault 28 3) else None\<rparr>; w' = snd (apply_plan demo_ext p w) in
     content w' (ip_target p) = content w (ip_target p) \<or>
     (\<exists>b m. ip_write p = Write b \<and> content w' (ip_target p) = Some (b, m)) \<or>
     (ip_write p = Remove \<and> content w' (ip_target p) = None))"
proof -
  obtain p w1 where p: "plan_install_at demo_ext Agents None demo_project False demo_world = (Inr p, w1)"
    using demo_install by (auto split: prod.splits sum.splits)
  then have pl: "planned demo_ext p demo_world" unfolding planned_def by blast
  let ?w = "demo_world\<lparr>faults := \<lambda>k. if k = 20 then Some (Fault 28 3) else None\<rparr>"
  have "content ?w (ip_target p) = content demo_world (ip_target p)" by (simp add: content_def lookup_def)
  from apply_never_tears_target[OF pl this, of "fst (apply_plan demo_ext p ?w)" "snd (apply_plan demo_ext p ?w)"] pl
  show ?thesis by (auto simp: Let_def)
qed

text \<open>A plan is refused if the target or its receipt is no longer what it was planned from (bytes or
  permission bits); then no file is touched, the lock file apart.\<close>

theorem stale_plan_refused:
  assumes "planned ext p w0" and "\<not> is_noop p"
    and "content w (ip_target p) \<noteq> content w0 (ip_target p) \<or>
      content w (ip_receipt_path p) \<noteq> content w0 (ip_receipt_path p)"
    and "apply_plan ext p w = (r, w')"
  shows "isl r \<and> (\<forall>x. sibling_path (ip_target p) ''.kaleidoscope-lock'' \<noteq> Inr x \<longrightarrow> content w' x = content w x)"
proof -
  from assms(1) obtain d n where at: "ip_target p = at d n"
    and ch: "change_at d n instr_receipt_suffix (instr_change ext p)"
    and o: "ip_original p = snapshot_of (ix_sha ext) (content w0 (at d n))"
      "ip_receipt_original p = snapshot_of (ix_sha ext) (content w0 (at d (n @ instr_receipt_suffix)))"
    by (rule planned_at)
  let ?l = "at d (n @ ''.kaleidoscope-lock'')"
  have rp: "ip_receipt_path p = at d (n @ instr_receipt_suffix)" using ch by (simp add: change_at_def instr_change_def)
  have "isl r" "untouched {?l} w w'"
    using stale_refused[of "instr_change ext p" ?l "ix_sha ext" w r w'] assms(2-4) at rp o
    by (auto simp: instr_change_def apply_plan_def snapshot_of_inject instr_receipt_suffix_def)
  with at show ?thesis by (auto simp: untouched_def)
qed

theorem stale_plan_refused_witness:
  "\<exists>p. planned demo_ext p demo_world \<and> isl (fst (apply_plan demo_ext p demo_edited))"
proof -
  obtain p w1 where p: "plan_install_at demo_ext Agents None demo_project False demo_world = (Inr p, w1)"
    and a: "ip_action p = InstrAdd" "ip_target p = at demo_project ''AGENTS.md''"
    using demo_install by (auto split: prod.splits sum.splits)
  then have pl: "planned demo_ext p demo_world" unfolding planned_def by blast
  have "\<not> is_noop p" using a by (simp add: is_noop_def)
  moreover have "content demo_edited (ip_target p) \<noteq> content demo_world (ip_target p)"
    using a by (simp add: content_def demo_edited_def demo_world_def demo_lookup demo_project_def)
  ultimately show ?thesis
    using stale_plan_refused[OF pl, of demo_edited "fst (apply_plan demo_ext p demo_edited)"
        "snd (apply_plan demo_ext p demo_edited)"] pl by auto
qed


text \<open>Installing twice is installing once: right after an install (same manager, same canonical text)
  the plan is the no-op, and applying it changes nothing.\<close>

theorem reinstall_is_noop:
  assumes ext: "receipt_codec ext (fresh_receipt ext t c)" "canonical_ok ext t" "installable t (text_of c)"
    and path: "instruction_path t h project = Inr (at d n)" "path_ok (at d n)"
    and w: "runnable d n instr_receipt_suffix w"
    and v: "freshly_installed ext t d n c (content w)"
    and f: "fits w (at d n) max_instruction_bytes" "fits w (at d (n @ instr_receipt_suffix)) max_receipt_bytes"
  shows "\<exists>p w'. plan_install_at ext t h project False w = (Inr p, w') \<and> ip_action p = AlreadyInstalled \<and>
    apply_plan ext p w' = (Inr (), w') \<and> content w' = content w"
proof -
  let ?r = "fresh_receipt ext t c" and ?o = "snapshot_of (ix_sha ext) (content w (at d n))"
  let ?ro = "snapshot_of (ix_sha ext) (content w (at d (n @ instr_receipt_suffix)))"
  obtain w1 where 1: "read_instruction_files ext t h project w =
      (Inr (at d n, at d (n @ instr_receipt_suffix), at d (n @ backup_suffix), ?o, ?ro), w1)"
    and w1: "content w1 = content w"
    using read_instruction_files_calm[OF w path(2,1) f(1,2)] by blast
  obtain m where o: "content w (at d n) = Some (installed ext t (text_of c), m)"
    using v by (auto simp: freshly_installed_def)
  have utf: "utf8_valid (text_of c)" using ext(3) by (simp add: installable_def)
  have dec: "decode_receipt ext ?ro t = Inr (Some ?r)"
    using v ext(1) fresh_receipt_valid[OF ext(2)]
    by (simp add: decode_receipt_def freshly_installed_def receipt_codec_def)
  have tx: "instr_snapshot_text ?o = Inr (installed ext t (text_of c))"
    using text_of_snapshot[of "content w (at d n)" "ix_sha ext"] utf8_installed[OF ext(2) utf] o
    by (simp add: text_of_def)
  have fields: "ir_owned_block ?r = canonical_block ext t"
    and own: "validate_ownership (ix_sha ext) (Some ?r) (Some (canonical_block ext t)) t = Inr ()"
    by (simp_all add: validate_ownership_def fresh_receipt_def)
  have "decide_install ext t h (at d n) (at d (n @ instr_receipt_suffix)) (at d (n @ backup_suffix)) ?o ?ro False =
      Inr (noop_plan t h AlreadyInstalled (at d n) (at d (n @ instr_receipt_suffix)) (at d (n @ backup_suffix)) ?o ?ro)"
    using fields own by (simp add: decide_install_def dec tx current_owned_installed[OF ext(2,3)] Let_def split: owned_shape.split)
  then have "plan_install_at ext t h project False w = (Inr (noop_plan t h AlreadyInstalled (at d n)
      (at d (n @ instr_receipt_suffix)) (at d (n @ backup_suffix)) ?o ?ro), w1)"
    using 1 by (simp add: plan_install_at_def bindA_def lift_def)
  then show ?thesis using w1 by (auto simp: noop_plan_def apply_plan_def is_noop_def ret_def)
qed


theorem reinstall_is_noop_witness:
  "\<exists>w p w'. freshly_installed demo_ext Agents demo_project ''AGENTS.md'' (Some (''# Team'' @ nl, 420)) (content w) \<and>
    plan_install_at demo_ext Agents None demo_project False w = (Inr p, w') \<and> ip_action p = AlreadyInstalled \<and>
    apply_plan demo_ext p w' = (Inr (), w') \<and> content w' = content w"
proof -
  let ?d = demo_project and ?n = "''AGENTS.md''"
  have ok: "canonical_ok demo_ext Agents" using demo_block_ok by (simp add: canonical_ok_def demo_canonical)
  have path: "instruction_path Agents None demo_project = Inr (at ?d ?n)"
    by (simp add: instruction_path_def join_def demo_project_def)
  have pok: "path_ok (at ?d ?n)" by (rule demo_path_ok, rule utf8_valid_ascii) simp
  have inst: "installable Agents (text_of (content demo_world (at ?d ?n)))"
    using demo_installable by (simp add: demo_content text_of_def)
  obtain p w1 w2 where r2: "runnable ?d ?n instr_receipt_suffix w2"
    and c2: "content w2 = install_effect demo_ext Agents ?d ?n (content demo_world)"
    using install_calm[OF ok path pok demo_runnable inst demo_content(2)[OF instr_suffixes_differ(1)]]
    by (auto simp: demo_content(1) fits_def max_instruction_bytes_def)
  have fr: "freshly_installed demo_ext Agents ?d ?n (Some (''# Team'' @ nl, 420)) (content w2)"
    using install_effect_fresh[of demo_ext Agents ?d ?n "content demo_world"] by (simp add: c2 demo_content(1))
  have f: "fits w2 (at ?d ?n) max_instruction_bytes" "fits w2 (at ?d (?n @ instr_receipt_suffix)) max_receipt_bytes"
    unfolding fits_def c2 install_effect_at demo_content(1)
    by (simp add: text_of_def installed_def demo_canonical demo_block_def max_instruction_bytes_def
        block_separator_def ends_with_def)
      (simp add: receipt_encode_def demo_ext_def demo_ext0_def max_receipt_bytes_def)
  have inst': "installable Agents (text_of (Some (''# Team'' @ nl, 420)))"
    using demo_installable by (simp add: text_of_def)
  from reinstall_is_noop[OF demo_codec ok inst' path pok r2 fr f] fr show ?thesis by blast
qed



end
