(* ===== verification/Fs_Safe_Properties.thy ===== *)
theory Fs_Safe_Properties
  imports Plan_Apply_Safety Demo
begin

text \<open>
  The properties of the file layer and of applying a change.
\<close>

text \<open>C30. An atomic write, wherever it fails, leaves the file with its old or with its new contents,
  and no other file changed but a temporary sibling.\<close>

theorem atomic_write_all_or_nothing:
  "(content (snd (atomic_write p b (Some m) w)) p = content w p \<or>
    content (snd (atomic_write p b (Some m) w)) p = Some (b, m AND 511)) \<and>
   {q. content (snd (atomic_write p b (Some m) w)) q \<noteq> content w q} \<subseteq> insert p (temp_siblings p)"
  using atomic_write_atomic[of p b m w "fst (atomic_write p b (Some m) w)" "snd (atomic_write p b (Some m) w)"]
  by auto

text \<open>On a machine whose calls do not fail, an atomic write to a path whose ancestors are free or
  directories succeeds, and changes that one file and nothing else (the temporary is gone).\<close>

theorem atomic_write_succeeds:
  assumes "calm w" "path_ok p" "anc_ok w p" "file_or_free w p"
    and "temp_siblings p \<inter> {t. lookup w t \<noteq> None} = {}"
  shows "\<exists>w'. atomic_write p b (Some m) w = (Inr (), w') \<and> content w' = (content w)(p \<mapsto> (b, m AND 511))"
proof -
  obtain w' where run: "atomic_write p b (Some m) w = (Inr (), w')"
    using atomic_write_calm[of w p b m] assms by blast
  with atomic_write_Inr(1)[OF run] show ?thesis by blast
qed

theorem atomic_write_succeeds_witness:
  "\<exists>w'. atomic_write (at demo_project ''x'') ''hi'' (Some 384) (demo_machine []) = (Inr (), w') \<and>
    content w' = (content (demo_machine []))(at demo_project ''x'' \<mapsto> (''hi'', 384 AND 511))"
proof (rule atomic_write_succeeds)
  show "path_ok (at demo_project ''x'')" by (rule demo_path_ok, rule utf8_valid_ascii) simp
  show "file_or_free (demo_machine []) (at demo_project ''x'')"
    by (simp add: file_or_free_def demo_lookup demo_project_def)
  show "temp_siblings (at demo_project ''x'') \<inter> {t. lookup (demo_machine []) t \<noteq> None} = {}"
    by (auto simp: demo_lookup dest!: temp_sibling_form)
qed (simp_all add: demo_calm demo_anc_ok)

text \<open>C31. The target lock excludes: once one acquisition has succeeded, and until its file is gone, every
  other acquisition for the same target fails.\<close>

theorem lock_is_exclusive:
  assumes "lock_acquire target w = (Inr l, w1)" and "content w2 l = content w1 l"
  shows "isl (fst (lock_acquire target w2))"
proof -
  note l = lock_acquire_Inr[OF assms(1)]
  have "content w2 l \<noteq> None" using assms(2) l(3) by simp
  from lock_excludes[OF l(1) this] show ?thesis by auto
qed

lemma demo_lock:
  "case lock_acquire (at demo_project ''x'') (demo_machine []) of (Inr l, w) \<Rightarrow> True | _ \<Rightarrow> False"
  by code_simp

theorem lock_is_exclusive_witness:
  "\<exists>l w. lock_acquire (at demo_project ''x'') (demo_machine []) = (Inr l, w) \<and>
     isl (fst (lock_acquire (at demo_project ''x'') w))"
proof -
  obtain l w where run: "lock_acquire (at demo_project ''x'') (demo_machine []) = (Inr l, w)"
    using demo_lock by (auto split: prod.splits sum.splits)
  from lock_is_exclusive[OF run refl] run show ?thesis by blast
qed

text \<open>When writing the process id into a lock file fails, the lock file stays although no lock is
  held: the acquisition reports the failure, and the next one, on a machine that works again, is
  refused as if another operation owned the target.\<close>

theorem failed_lock_is_left_behind:
  "let w = (demo_machine [])\<lparr>faults := \<lambda>k. if k = 3 then Some (Fault 28 0) else None\<rparr>;
       (r, w1) = lock_acquire (at demo_project ''x'') w;
       w2 = w1\<lparr>faults := \<lambda>_. None\<rparr>
   in isl r \<and> content w1 (at demo_project ''x.kaleidoscope-lock'') \<noteq> None \<and>
      fst (lock_acquire (at demo_project ''x'') w2) = Inl (HostConflict TargetLockHeld)"
  by code_simp


text \<open>C29. The refinement of applying a change: success means that the four file updates of the
  specification \<open>change_effect\<close> have been made and nothing else, the lock file apart, and that the
  plan's snapshots were the contents found.\<close>

theorem apply_change_implements_effect:
  assumes "apply_change sha ch w = (Inr (), w')" and "change_at d n rs ch" and "suffix_ok rs"
  shows "(\<forall>q. q \<noteq> at d (n @ ''.kaleidoscope-lock'') \<longrightarrow> content w' q = change_effect ch (content w) q) \<and>
    ch_original ch = snapshot_of sha (content w (ch_target ch))"
  using apply_change_refines(1,3)[OF assms(1), of rs "at d (n @ ''.kaleidoscope-lock'')"] assms(2,3)
  by (auto simp: change_paths_def change_at_def suffix_ok_def)


text \<open>The change of a plain file that the witnesses apply.\<close>

definition demo_change :: "snapshot \<Rightarrow> target_write \<Rightarrow> change" where
  "demo_change original write =
     \<lparr>ch_target = at demo_project ''x'', ch_receipt_path = at demo_project (''x'' @ instr_receipt_suffix),
      ch_backup_path = at demo_project (''x'' @ ''.kaleidoscope-backup''), ch_undoing = False,
      ch_original = original, ch_receipt_original = absent (\<lambda>b. b), ch_write = write,
      ch_receipt_bytes = Some ''r'', ch_remove_backup = False, ch_max = 100, ch_max_receipt = 100,
      ch_label = ''x'', ch_receipt_label = ''r'', ch_unchecked_rollback = False\<rparr>"

lemma demo_change_at: "change_at demo_project ''x'' instr_receipt_suffix (demo_change s wr)"
  by (simp add: change_at_def demo_change_def)

lemma demo_apply_runs:
  "case apply_change (\<lambda>b. b) (demo_change (absent (\<lambda>b. b)) (Write ''new'')) (demo_machine []) of
     (Inr u, w) \<Rightarrow> True | _ \<Rightarrow> False"
  by code_simp

theorem apply_change_implements_effect_witness:
  "\<exists>w'. apply_change (\<lambda>b. b) (demo_change (absent (\<lambda>b. b)) (Write ''new'')) (demo_machine []) = (Inr (), w') \<and>
    content w' (at demo_project ''x'') = Some (''new'', 384)"
proof -
  obtain w' where run: "apply_change (\<lambda>b. b) (demo_change (absent (\<lambda>b. b)) (Write ''new'')) (demo_machine []) = (Inr (), w')"
    using demo_apply_runs by (auto split: prod.splits sum.splits)
  have "change_effect (demo_change (absent (\<lambda>b. b)) (Write ''new'')) v (at demo_project ''x'') = Some (''new'', 384)" for v
    by (simp add: change_effect_def demo_change_def Let_def is_leave_def absent_def mode_or_default_def instr_receipt_suffix_def)
  with apply_change_implements_effect[OF run demo_change_at instr_suffix_ok] run show ?thesis by fastforce
qed

text \<open>Applying a fresh plan succeeds on a machine whose calls do not fail, drops the lock, and (unless
  the target was removed) leaves a place where the next application can run.\<close>

theorem apply_change_succeeds:
  assumes "runnable d n rs w" and "suffix_ok rs" and "path_ok (at d n)"
    and "change_at d n rs ch" and "change_fresh sha ch w"
  shows "\<exists>w'. apply_change sha ch w = (Inr (), w') \<and> content w' (at d (n @ ''.kaleidoscope-lock'')) = None \<and>
    (is_remove (ch_write ch) \<or> runnable d n rs w')"
  using assms by (rule apply_change_calm)

lemma demo_empty_runnable: "runnable demo_project ''x'' instr_receipt_suffix (demo_machine [])"
  by (auto simp: runnable_def demo_calm demo_anc_ok demo_lookup demo_project_def[symmetric]
      intro!: demo_tree_ok demo_site)

theorem apply_change_succeeds_witness:
  "\<exists>w'. apply_change (\<lambda>b. b) (demo_change (absent (\<lambda>b. b)) (Write ''new'')) (demo_machine []) = (Inr (), w') \<and>
    content w' (at demo_project (''x'' @ ''.kaleidoscope-lock'')) = None \<and>
    (is_remove (ch_write (demo_change (absent (\<lambda>b. b)) (Write ''new''))) \<or>
     runnable demo_project ''x'' instr_receipt_suffix w')"
proof (rule apply_change_succeeds[OF demo_empty_runnable instr_suffix_ok _ demo_change_at])
  show "path_ok (at demo_project ''x'')" by (rule demo_path_ok, rule utf8_valid_ascii) simp
  have "content (demo_machine []) q = None" for q by (simp add: content_def demo_lookup)
  then show "change_fresh (\<lambda>b. b) (demo_change (absent (\<lambda>b. b)) (Write ''new'')) (demo_machine [])"
    by (simp add: change_fresh_def fits_def demo_change_def snapshot_of_def)
qed

text \<open>The rollback after a failed receipt write gives an existing target its old bytes and mode back.\<close>

theorem roll_back_restores_existing_target:
  assumes "good d n rs w" "suffix_ok rs" "path_ok (at d n)" and ch: "change_at d n rs ch"
    and "ch_original ch = snapshot_of sha (Some (old, m))" "m AND 511 = m"
    and "(ch_write ch = Write b \<and> content w (at d n) = Some (b, m)) \<or> (ch_write ch = Remove \<and> content w (at d n) = None)"
    and "length b \<le> ch_max ch"
  shows "\<exists>w'. roll_back sha ch w = (Inr (), w') \<and> content w' = (content w)(at d n \<mapsto> (old, m))"
proof -
  let ?s = "snapshot_after sha (ch_write ch) (ch_original ch)"
  have t: "ch_target ch = at d n" using ch by (simp add: change_at_def)
  have s: "?s = snapshot_of sha (content w (at d (n @ [])))" "fits w (at d (n @ [])) (ch_max ch)"
    using assms(5,7,8) by (auto simp: snapshot_after_def snapshot_of_def fits_def)
  have x: "[] \<in> site_suffixes rs" by (simp add: site_suffixes_def)
  obtain w1 where 1: "assert_unchanged sha (at d n) ?s (ch_max ch) (ch_label ch) w = (Inr (), w1)"
    and g: "good d n rs w1" and c: "content w1 = content w"
    using unchanged_good[OF assms(1,2) x assms(3) s] by (auto simp: good_step_def)
  have "good d n rs (if ch_unchecked_rollback ch then w else w1)" using g assms(1) by simp
  from write_good[OF this assms(2) x assms(3)]
  obtain w2 where 2: "atomic_write (at d n) old (Some m) (if ch_unchecked_rollback ch then w else w1) = (Inr (), w2)"
    by auto
  have "\<not> is_leave (ch_write ch)" using assms(7) by (auto simp: is_leave_def)
  then have "roll_back sha ch w = (Inr (), w2)"
    using 1 2 t assms(5) by (simp add: roll_back_def bindA_def attempt_def restore_snapshot_def snapshot_of_def split: if_splits)
  with atomic_write_Inr(1)[OF 2] c assms(6) show ?thesis by simp
qed

lemma demo_good: "good demo_project ''x'' instr_receipt_suffix (demo_machine [(at demo_project ''x'', File ''new'' 420)])"
  unfolding good_def ready_def
  by (auto simp: demo_calm is_directory_iff demo_lookup temp_suffix_def intro!: demo_tree_ok demo_site)

theorem roll_back_restores_existing_target_witness:
  "\<exists>w'. roll_back (\<lambda>b. b) (demo_change (snapshot_of (\<lambda>b. b) (Some (''old'', 420))) (Write ''new''))
       (demo_machine [(at demo_project ''x'', File ''new'' 420)]) = (Inr (), w') \<and>
     content w' = (content (demo_machine [(at demo_project ''x'', File ''new'' 420)]))(at demo_project ''x'' \<mapsto> (''old'', 420))"
proof (rule roll_back_restores_existing_target[OF demo_good instr_suffix_ok _ demo_change_at, where b = "''new''"])
  show "path_ok (at demo_project ''x'')" by (rule demo_path_ok, rule utf8_valid_ascii) simp
qed (simp_all add: demo_change_def content_def demo_lookup demo_project_def)

text \<open>For a target that did not exist before, the checked rollback never happens: the predicted snapshot has
  no permission bits, so the comparison with the file just written fails and the file stays.\<close>

theorem created_target_is_not_rolled_back:
  assumes "ch_original ch = snapshot_of sha None" and "ch_write ch = Write b" and "content w (ch_target ch) \<noteq> None"
    and "\<not> ch_unchecked_rollback ch"
  shows "content (snd (roll_back sha ch w)) = content w"
  using roll_back_of_created_file[OF assms] by (metis prod.collapse)

theorem created_target_is_not_rolled_back_witness:
  "let w = demo_machine [(at demo_project ''x'', File ''new'' 384)];
       ch = demo_change (absent (\<lambda>b. b)) (Write ''new'')
   in content (snd (roll_back (\<lambda>b. b) ch w)) (at demo_project ''x'') = Some (''new'', 384)"
proof -
  let ?w = "demo_machine [(at demo_project ''x'', File ''new'' 384)]"
  let ?ch = "demo_change (absent (\<lambda>b. b)) (Write ''new'')"
  have c: "content ?w (at demo_project ''x'') = Some (''new'', 384)"
    by (simp add: content_def demo_lookup demo_project_def)
  have "content (snd (roll_back (\<lambda>b. b) ?ch ?w)) = content ?w"
    by (rule created_target_is_not_rolled_back) (simp_all add: demo_change_def snapshot_of_def c)
  with c show ?thesis by (simp add: Let_def)
qed

end
