(* ===== verification/Json.thy ===== *)
theory Json
  imports Rust_Text "HOL-Library.AList"
begin

text \<open>
  \<^verbatim>\<open>serde_json::Value\<close> as the manager uses it, with the feature \<^verbatim>\<open>preserve_order\<close>: an object is an
  ordered association list without repeated keys, equality of objects does not look at the order,
  \<^verbatim>\<open>Map::insert\<close> replaces in place or appends, and \<^verbatim>\<open>Map::remove\<close> moves the last entry into the gap
  (\<^verbatim>\<open>swap_remove\<close>). A number is its token, which the manager never looks into. The parser and the
  printer of the crate are parameters, the record \<open>json_ext\<close>.
\<close>

datatype json =
    JNull | JBool bool | JNum bytes | JStr bytes | JArr "json list" | JObj "(bytes \<times> json) list"

record json_ext =
  jx_value :: "bytes \<Rightarrow> json option"
  jx_string :: "bytes \<Rightarrow> bytes option"
  jx_to_vec_pretty :: "json \<Rightarrow> bytes"

lemma size_map_of [termination_simp]:
  "map_of fs k = Some v \<Longrightarrow> size v < Suc (size_list (size_prod (\<lambda>_. 0) size) fs)"
  by (induction fs) (auto split: if_splits)

lemma size_zip_fst [termination_simp]:
  "(x, y) \<in> set (zip xs ys) \<Longrightarrow> size x < Suc (size_list size xs)"
  by (auto dest!: set_zip_leftD size_list_estimation'[of _ _ "size x" size] simp: less_Suc_eq_le)

lemma size_pair_snd [termination_simp]:
  "(k, v) \<in> set fs \<Longrightarrow> size v < Suc (size_list (size_prod (\<lambda>_. 0) size) fs)"
  by (induction fs) auto

section \<open>Equality\<close>

fun json_eq :: "json \<Rightarrow> json \<Rightarrow> bool" where
  "json_eq JNull JNull = True"
| "json_eq (JBool a) (JBool b) = (a = b)"
| "json_eq (JNum a) (JNum b) = (a = b)"
| "json_eq (JStr a) (JStr b) = (a = b)"
| "json_eq (JArr xs) (JArr ys) =
     (length xs = length ys \<and> list_all (\<lambda>(x, y). json_eq x y) (zip xs ys))"
| "json_eq (JObj xs) (JObj ys) =
     (length xs = length ys \<and>
      list_all (\<lambda>(k, v). case map_of ys k of None \<Rightarrow> False | Some v' \<Rightarrow> json_eq v v') xs)"
| "json_eq _ _ = False"

fun wf_json :: "json \<Rightarrow> bool" where
  "wf_json (JArr xs) = list_all wf_json xs"
| "wf_json (JObj fs) = (distinct (map fst fs) \<and> list_all (\<lambda>(_, v). wf_json v) fs)"
| "wf_json _ = True"

section \<open>Objects\<close>

definition obj_keys :: "(bytes \<times> json) list \<Rightarrow> bytes list" where
  "obj_keys fs = map fst fs"

definition obj_contains :: "(bytes \<times> json) list \<Rightarrow> bytes \<Rightarrow> bool" where
  "obj_contains fs k \<longleftrightarrow> map_of fs k \<noteq> None"

fun obj_insert :: "bytes \<Rightarrow> json \<Rightarrow> (bytes \<times> json) list \<Rightarrow> (bytes \<times> json) list" where
  "obj_insert k v [] = [(k, v)]"
| "obj_insert k v ((k', v') # fs) = (if k' = k then (k, v) # fs else (k', v') # obj_insert k v fs)"

fun obj_index :: "bytes \<Rightarrow> (bytes \<times> json) list \<Rightarrow> nat option" where
  "obj_index k [] = None"
| "obj_index k ((k', v') # fs) = (if k' = k then Some 0 else map_option Suc (obj_index k fs))"

definition obj_remove :: "bytes \<Rightarrow> (bytes \<times> json) list \<Rightarrow> (bytes \<times> json) list" where
  "obj_remove k fs =
     (case obj_index k fs of
        None \<Rightarrow> fs
      | Some i \<Rightarrow> if Suc i = length fs then butlast fs else butlast (fs[i := last fs]))"

lemma map_of_obj_insert [simp]: "map_of (obj_insert k v fs) = (map_of fs)(k \<mapsto> v)"
  by (induction fs) auto

lemma set_keys_insert: "fst ` set (obj_insert k v fs) = insert k (fst ` set fs)"
  by (induction k v fs rule: obj_insert.induct) (auto simp: insert_commute split: if_splits)

lemma distinct_obj_insert: "distinct (map fst fs) \<Longrightarrow> distinct (map fst (obj_insert k v fs))"
  by (induction fs) (auto simp: set_keys_insert)

lemma obj_index_None: "obj_index k fs = None \<longleftrightarrow> k \<notin> fst ` set fs"
  by (induction fs) (auto split: if_splits)

lemma obj_index_Some: "obj_index k fs = Some i \<Longrightarrow> i < length fs \<and> fst (fs ! i) = k"
  by (induction fs arbitrary: i) (auto split: if_splits)

text \<open>Removal by swapping is removal, up to order.\<close>

lemma mset_obj_remove:
  assumes "distinct (map fst fs)"
  shows "set (obj_remove k fs) = {p \<in> set fs. fst p \<noteq> k}" and "distinct (map fst (obj_remove k fs))"
proof -
  have "set (obj_remove k fs) = {p \<in> set fs. fst p \<noteq> k} \<and> distinct (map fst (obj_remove k fs))"
  proof (cases "obj_index k fs")
    case None
    then have "obj_remove k fs = fs" "k \<notin> fst ` set fs" by (simp_all add: obj_remove_def flip: obj_index_None)
    then show ?thesis using assms by auto
  next
    case (Some i)
    note i = obj_index_Some[OF Some]
    obtain us p vs where fs: "fs = us @ p # vs" "length us = i"
      using i by (metis id_take_nth_drop length_take less_imp_le_nat min.absorb2)
    then have p: "fst p = k" using i by (metis nth_append_length)
    show ?thesis
    proof (cases vs rule: rev_cases)
      case Nil
      then have "obj_remove k fs = us" using fs Some by (simp add: obj_remove_def)
      with fs Nil p assms show ?thesis by (auto simp: rev_image_eqI)
    next
      case (snoc ws q)
      have "obj_remove k fs = us @ q # ws"
        using fs snoc Some by (simp add: obj_remove_def list_update_append butlast_append)
      with fs snoc p assms show ?thesis by (auto simp: rev_image_eqI)
    qed
  qed
  then show "set (obj_remove k fs) = {p \<in> set fs. fst p \<noteq> k}" "distinct (map fst (obj_remove k fs))" by auto
qed

lemma map_of_obj_remove:
  assumes "distinct (map fst fs)"
  shows "map_of (obj_remove k fs) = (map_of fs)(k := None)"
proof
  fix x
  have iff: "map_of gs y = Some v \<longleftrightarrow> (y, v) \<in> set gs" if "distinct (map fst gs)" for gs :: "(bytes \<times> json) list" and y v
    using that by simp
  show "map_of (obj_remove k fs) x = ((map_of fs)(k := None)) x"
  proof (rule option.expand)
    have "map_of (obj_remove k fs) x = Some v \<longleftrightarrow> ((map_of fs)(k := None)) x = Some v" for v
      using iff[OF mset_obj_remove(2)[OF assms], of k x v] iff[OF assms, of x v] mset_obj_remove(1)[OF assms, of k]
      by auto
    then show "(map_of (obj_remove k fs) x = None) = (((map_of fs)(k := None)) x = None)"
      "the (map_of (obj_remove k fs) x) = the (((map_of fs)(k := None)) x)"
      by (metis not_None_eq)+
  qed
qed

end
