(* ===== verification/Json_Span.thy ===== *)
theory Json_Span
  imports Json
begin

text \<open>
  Removing one node from a JSON text without reformatting the rest (\<^verbatim>\<open>src/src/json_span.rs\<close>): the
  diff that recovers which node went away, the structural scanner, the byte range to cut, and the
  final check that re-parsing the cut text gives the wanted document.
\<close>

datatype segment = Key bytes | Index nat

section \<open>The diff\<close>

definition json_ne :: "json \<Rightarrow> json \<Rightarrow> bool" where
  "json_ne a b \<longleftrightarrow> \<not> json_eq a b"

definition remove_nth :: "nat \<Rightarrow> 'a list \<Rightarrow> 'a list" where
  "remove_nth i xs = take i xs @ drop (Suc i) xs"

definition changed_keys :: "(bytes \<times> json) list \<Rightarrow> (bytes \<times> json) list \<Rightarrow> bytes list" where
  "changed_keys b a = map fst (filter (\<lambda>(k, v). case map_of a k of Some v' \<Rightarrow> json_ne v' v | None \<Rightarrow> False) b)"

definition removed_keys :: "(bytes \<times> json) list \<Rightarrow> (bytes \<times> json) list \<Rightarrow> bytes list" where
  "removed_keys b a = filter (\<lambda>k. \<not> obj_contains a k) (obj_keys b)"

definition differing :: "json list \<Rightarrow> json list \<Rightarrow> nat list" where
  "differing b a = filter (\<lambda>i. json_ne (b ! i) (a ! i)) [0..<length b]"

lemma size_nth [termination_simp]: "i < length xs \<Longrightarrow> size (xs ! i) < Suc (size_list size xs)"
  using size_list_estimation'[OF nth_mem[of i xs], of "size (xs ! i)" size] by (simp add: less_Suc_eq_le)

lemma size_map_of_snd [termination_simp]:
  "map_of fs k = Some v \<Longrightarrow> size v < Suc (size_list (\<lambda>x. Suc (size (snd x))) fs)"
  by (induction fs) (auto split: if_splits)

fun removal_path :: "json \<Rightarrow> json \<Rightarrow> segment list option" where
  "removal_path (JObj b) (JObj a) =
     (if list_ex (\<lambda>k. \<not> obj_contains b k) (obj_keys a) then None
      else case (removed_keys b a, changed_keys b a) of
        ([k], []) \<Rightarrow> Some [Key k]
      | ([], [k]) \<Rightarrow>
          (case map_of b k of
             None \<Rightarrow> None
           | Some x \<Rightarrow>
               (case map_of a k of
                  None \<Rightarrow> None
                | Some y \<Rightarrow> map_option (\<lambda>p. Key k # p) (removal_path x y)))
      | _ \<Rightarrow> None)"
| "removal_path (JArr b) (JArr a) =
     (if length b = length a then
        (case differing b a of
           [i] \<Rightarrow> if i < length b then map_option (\<lambda>p. Index i # p) (removal_path (b ! i) (a ! i)) else None
         | _ \<Rightarrow> None)
      else if length b \<noteq> length a + 1 then None
      else map_option (\<lambda>i. [Index i])
             (find (\<lambda>i. json_eq (JArr (remove_nth i b)) (JArr a)) [0..<length b]))"
| "removal_path _ _ = None"

section \<open>The scanner\<close>

definition is_space :: "char \<Rightarrow> bool" where
  "is_space c \<longleftrightarrow> c \<in> {CHR '' '', CHR 0x09, CHR 0x0A, CHR 0x0D}"

definition peek :: "bytes \<Rightarrow> nat \<Rightarrow> char option" where
  "peek bs at = (if at < length bs then Some (bs ! at) else None)"

function scan_space :: "bytes \<Rightarrow> nat \<Rightarrow> nat" where
  "scan_space bs at = (if at < length bs \<and> is_space (bs ! at) then scan_space bs (Suc at) else at)"
  by pat_completeness auto
termination by (relation "measure (\<lambda>(bs, at). length bs - at)") auto

text \<open>The rest of a string literal, after its opening quote: the position past the closing one.\<close>

function string_rest :: "bytes \<Rightarrow> nat \<Rightarrow> nat option" where
  "string_rest bs at =
     (if at < length bs then
        (if bs ! at = CHR 0x5C then string_rest bs (at + 2)
         else if bs ! at = CHR 0x22 then Some (Suc at)
         else string_rest bs (Suc at))
      else None)"
  by pat_completeness auto
termination by (relation "measure (\<lambda>(bs, at). length bs - at)") auto

definition scan_string :: "bytes \<Rightarrow> nat \<Rightarrow> (nat \<times> nat) option" where
  "scan_string bs at =
     (if peek bs at = Some (CHR 0x22) then map_option (\<lambda>e. (at, e)) (string_rest bs (Suc at)) else None)"

declare scan_space.simps [simp del] string_rest.simps [simp del]

lemma string_rest_bounds: "string_rest bs at = Some e \<Longrightarrow> at < e \<and> e \<le> length bs"
proof (induction bs at rule: string_rest.induct)
  case (1 bs at)
  show ?case
    using "1.prems" "1.IH" by (subst (asm) string_rest.simps) (fastforce split: if_splits)
qed

lemma scan_space_bounds: "at \<le> scan_space bs at \<and> (at \<le> length bs \<longrightarrow> scan_space bs at \<le> length bs)"
  by (induction bs at rule: scan_space.induct) (subst (1 2) scan_space.simps, fastforce)

text \<open>The depth-counting loop over the inside of a container.\<close>

function skip_nested :: "bytes \<Rightarrow> char \<Rightarrow> char \<Rightarrow> nat \<Rightarrow> nat \<Rightarrow> nat option" where
  "skip_nested bs op cl depth at =
     (if depth = 0 then Some at
      else if at < length bs then
        (if bs ! at = CHR 0x22 then
           (case string_rest bs (Suc at) of None \<Rightarrow> None | Some e \<Rightarrow> skip_nested bs op cl depth e)
         else if bs ! at = op then skip_nested bs op cl (Suc depth) (Suc at)
         else if bs ! at = cl then skip_nested bs op cl (depth - 1) (Suc at)
         else skip_nested bs op cl depth (Suc at))
      else None)"
  by pat_completeness auto
termination
  by (relation "measure (\<lambda>(bs, op, cl, depth, at). length bs - at)") (auto dest: string_rest_bounds)

function skip_literal :: "bytes \<Rightarrow> nat \<Rightarrow> nat" where
  "skip_literal bs at =
     (if at < length bs \<and> \<not> is_space (bs ! at) \<and> bs ! at \<notin> {CHR '','', CHR ''}'', CHR '']''}
      then skip_literal bs (Suc at) else at)"
  by pat_completeness auto
termination by (relation "measure (\<lambda>(bs, at). length bs - at)") auto

declare skip_nested.simps [simp del] skip_literal.simps [simp del]

definition scan_value :: "bytes \<Rightarrow> nat \<Rightarrow> nat option" where
  "scan_value bs at0 =
     (let at = scan_space bs at0 in
      case peek bs at of
        None \<Rightarrow> None
      | Some c \<Rightarrow>
          if c = CHR 0x22 then map_option snd (scan_string bs at)
          else if c = CHR ''{'' \<or> c = CHR ''['' then
            skip_nested bs c (if c = CHR ''{'' then CHR ''}'' else CHR '']'') 1 (Suc at)
          else Some (skip_literal bs at))"

lemma skip_nested_bounds:
  "skip_nested bs op cl depth at = Some e \<Longrightarrow> at \<le> length bs \<Longrightarrow> at \<le> e \<and> e \<le> length bs"
proof (induction bs op cl depth at arbitrary: e rule: skip_nested.induct)
  case (1 bs op cl depth at)
  show ?case
    using "1.prems" "1.IH" string_rest_bounds[of bs "Suc at"]
    by (subst (asm) skip_nested.simps) (fastforce split: if_splits option.splits)
qed

lemma skip_literal_bounds: "at \<le> length bs \<Longrightarrow> at \<le> skip_literal bs at \<and> skip_literal bs at \<le> length bs"
  by (induction bs at rule: skip_literal.induct) (subst (1 2) skip_literal.simps, fastforce)

lemma scan_value_bounds:
  assumes "scan_value bs at = Some e"
  shows "at \<le> e \<and> e \<le> length bs"
proof -
  let ?a = "scan_space bs at"
  from assms obtain c where c: "peek bs ?a = Some c" by (auto simp: scan_value_def Let_def split: option.splits)
  then have a: "?a < length bs" by (auto simp: peek_def split: if_splits)
  have "?a \<le> e \<and> e \<le> length bs"
    using assms c a string_rest_bounds[of bs "Suc ?a" e] skip_literal_bounds[of ?a bs]
      skip_nested_bounds[of bs c _ 1 "Suc ?a" e]
    by (fastforce simp: scan_value_def Let_def scan_string_def split: if_splits)
  with scan_space_bounds[of at bs] show ?thesis by auto
qed


record hit =
  hit_start :: nat
  hit_end :: nat
  hit_value_start :: nat
  hit_open :: nat
  hit_close :: nat
  hit_count :: nat

text \<open>What stands before a member's value: for an object its key and colon.\<close>

definition member_head :: "json_ext \<Rightarrow> bytes \<Rightarrow> segment \<Rightarrow> nat \<Rightarrow> nat \<Rightarrow> (nat \<times> bool) option" where
  "member_head jx bs seg count at =
     (case seg of
        Key wanted \<Rightarrow>
          (case scan_string bs at of
             None \<Rightarrow> None
           | Some (qs, qe) \<Rightarrow>
               let colon = scan_space bs qe in
               if peek bs colon = Some (CHR '':'') then
                 (case get_range bs qs qe of
                    None \<Rightarrow> None
                  | Some lit \<Rightarrow> map_option (\<lambda>k. (Suc colon, k = wanted)) (jx_string jx lit))
               else None)
      | Index wanted \<Rightarrow> Some (at, count = wanted))"

lemma member_head_bounds:
  assumes "member_head jx bs seg count at = Some (e, m)" "at \<le> length bs"
  shows "at \<le> e \<and> e \<le> length bs"
proof (cases seg)
  case (Key wanted)
  with assms obtain qs qe where q: "scan_string bs at = Some (qs, qe)"
    and c: "peek bs (scan_space bs qe) = Some (CHR '':'')" "e = Suc (scan_space bs qe)"
    by (auto simp: member_head_def Let_def split: option.splits if_splits)
  from q have "at < qe" by (auto simp: scan_string_def dest!: string_rest_bounds split: if_splits)
  with c scan_space_bounds[of qe bs] show ?thesis by (auto simp: peek_def split: if_splits)
qed (use assms in \<open>simp add: member_head_def\<close>)

text \<open>
  The loop of \<^verbatim>\<open>enter\<close>: position, members seen, the wanted member if it was seen. It returns the
  closing bracket's position, the count and the find.
\<close>

function enter_go ::
    "json_ext \<Rightarrow> bytes \<Rightarrow> segment \<Rightarrow> char \<Rightarrow> nat \<Rightarrow> nat \<Rightarrow> (nat \<times> nat \<times> nat) option
     \<Rightarrow> (nat \<times> nat \<times> (nat \<times> nat \<times> nat) option) option" where
  "enter_go jx bs seg closer at0 count found =
     (let at = scan_space bs at0 in
      if at < length bs then
        (if bs ! at = closer then Some (at, count, found)
         else case member_head jx bs seg count at of
           None \<Rightarrow> None
         | Some (h, m) \<Rightarrow>
             let value_start = scan_space bs h in
             (case scan_value bs value_start of
                None \<Rightarrow> None
              | Some e \<Rightarrow>
                  let found' = (if m \<and> found = None then Some (at, e, value_start) else found);
                      next = scan_space bs e in
                  if next < length bs then
                    (if bs ! next = CHR '','' then enter_go jx bs seg closer (Suc next) (Suc count) found'
                     else if bs ! next = closer then Some (next, Suc count, found')
                     else None)
                  else None))
      else None)"
  by pat_completeness auto
termination
proof (relation "measure (\<lambda>(jx, bs, seg, closer, at, count, found). length bs - at)", goal_cases)
  case (2 jx bs seg closer at0 count found at hm h m vs e found' nx)
  have "at0 \<le> at" "at \<le> h" using scan_space_bounds[of at0 bs] 2 member_head_bounds[of jx bs seg count at h m] by auto
  moreover have "h \<le> vs" "vs \<le> e" "e \<le> nx"
    using scan_space_bounds[of h bs] scan_space_bounds[of e bs] scan_value_bounds[of bs vs e] 2 by auto
  ultimately show ?case using 2 by simp
qed simp

declare enter_go.simps [simp del]

definition enter :: "json_ext \<Rightarrow> bytes \<Rightarrow> segment \<Rightarrow> nat \<Rightarrow> hit option" where
  "enter jx bs seg at =
     (let op = scan_space bs at;
          (opener, closer) = (case seg of Key _ \<Rightarrow> (CHR ''{'', CHR ''}'') | Index _ \<Rightarrow> (CHR ''['', CHR '']'')) in
      if peek bs op = Some opener then
        (case enter_go jx bs seg closer (Suc op) 0 None of
           Some (cl, count, Some (s, e, v)) \<Rightarrow>
             Some \<lparr>hit_start = s, hit_end = e, hit_value_start = v, hit_open = op, hit_close = cl, hit_count = count\<rparr>
         | _ \<Rightarrow> None)
      else None)"

section \<open>The range to cut\<close>

fun walk :: "json_ext \<Rightarrow> bytes \<Rightarrow> segment list \<Rightarrow> nat \<Rightarrow> hit option" where
  "walk jx bs [] at = None"
| "walk jx bs (seg # path) at =
     (case enter jx bs seg at of
        None \<Rightarrow> None
      | Some h \<Rightarrow> if path = [] then Some h else walk jx bs path (hit_value_start h))"

function space_until :: "bytes \<Rightarrow> nat \<Rightarrow> nat \<Rightarrow> nat" where
  "space_until bs limit cursor =
     (if cursor < limit \<and> is_space (bs ! cursor) then space_until bs limit (Suc cursor) else cursor)"
  by pat_completeness auto
termination by (relation "measure (\<lambda>(bs, limit, cursor). limit - cursor)") auto

fun space_back :: "bytes \<Rightarrow> nat \<Rightarrow> nat \<Rightarrow> nat" where
  "space_back bs low 0 = 0"
| "space_back bs low (Suc k) = (if low < Suc k \<and> is_space (bs ! k) then space_back bs low k else Suc k)"

declare space_until.simps [simp del]

definition cut_range :: "bytes \<Rightarrow> hit \<Rightarrow> (nat \<times> nat) option" where
  "cut_range bs h =
     (if hit_count h = 1 then Some (hit_open h + 1, hit_close h)
      else
        let cursor = space_until bs (hit_close h) (hit_end h) in
        if peek bs cursor = Some (CHR '','') then
          Some (hit_start h, space_until bs (hit_close h) (Suc cursor))
        else
          let start = space_back bs (hit_open h + 1) (hit_start h) in
          if start \<noteq> 0 \<and> peek bs (start - 1) = Some (CHR '','') then Some (start - 1, hit_end h) else None)"

definition span_of :: "json_ext \<Rightarrow> bytes \<Rightarrow> segment list \<Rightarrow> (nat \<times> nat) option" where
  "span_of jx bs path = (case walk jx bs path 0 of None \<Rightarrow> None | Some h \<Rightarrow> cut_range bs h)"

definition excise :: "json_ext \<Rightarrow> bytes \<Rightarrow> json \<Rightarrow> json \<Rightarrow> bytes option" where
  "excise jx bs before after =
     (if json_eq before after then None
      else case removal_path before after of
        None \<Rightarrow> None
      | Some path \<Rightarrow>
          (case span_of jx bs path of
             None \<Rightarrow> None
           | Some (s, e) \<Rightarrow>
               (case (get_to bs s, get_from bs e) of
                  (Some l, Some r) \<Rightarrow>
                    (case jx_value jx (l @ r) of
                       None \<Rightarrow> None
                     | Some v \<Rightarrow> if json_eq v after then Some (l @ r) else None)
                | _ \<Rightarrow> None)))"

end
