(* ===== verification/Json_Span_Correct.thy ===== *)
theory Json_Span_Correct
  imports Json_Span
begin

text \<open>
  What the excision guarantees: the range it cuts lies strictly inside one container of the text,
  and the diff it follows really is the removal of one node.
\<close>

section \<open>Bounds of the scanner\<close>

definition found_ok :: "bytes \<Rightarrow> nat \<Rightarrow> nat \<Rightarrow> (nat \<times> nat \<times> nat) option \<Rightarrow> bool" where
  "found_ok bs low high found \<longleftrightarrow>
     (case found of None \<Rightarrow> True | Some (s, e, v) \<Rightarrow> low \<le> s \<and> s \<le> v \<and> v \<le> e \<and> e \<le> high)"

lemma enter_go_bounds:
  assumes "enter_go jx bs seg closer at count found = Some (cl, n, found')"
    and "found_ok bs low at found" "low \<le> at" "at \<le> length bs"
  shows "at \<le> cl \<and> cl < length bs \<and> bs ! cl = closer \<and> found_ok bs low cl found'"
  using assms
proof (induction jx bs seg closer at count found rule: enter_go.induct)
  case (1 jx bs seg closer at0 count found)
  let ?a = "scan_space bs at0"
  have a: "at0 \<le> ?a" "?a \<le> length bs" using scan_space_bounds[of at0 bs] "1.prems"(4) by auto
  have f: "found_ok bs low ?a found" using "1.prems"(2) a by (auto simp: found_ok_def split: option.splits)
  have lt: "?a < length bs" using "1.prems"(1) by (subst (asm) enter_go.simps) (auto simp: Let_def split: if_splits)
  show ?case
  proof (cases "bs ! ?a = closer")
    case True
    with "1.prems"(1) lt have "cl = ?a" "found' = found"
      by (subst (asm) enter_go.simps, simp add: Let_def)+
    with True lt a f show ?thesis by simp
  next
    case False
    then obtain h m e where h: "member_head jx bs seg count ?a = Some (h, m)"
      and e: "scan_value bs (scan_space bs h) = Some e"
      using "1.prems"(1) lt by (subst (asm) enter_go.simps) (auto simp: Let_def split: option.splits)
    let ?f = "if m \<and> found = None then Some (?a, e, scan_space bs h) else found" and ?n = "scan_space bs e"
    have b: "?a \<le> h" "h \<le> scan_space bs h" "scan_space bs h \<le> e" "e \<le> ?n"
      using member_head_bounds[OF h] a scan_value_bounds[OF e] scan_space_bounds[of h bs] scan_space_bounds[of e bs]
      by auto
    have fn: "found_ok bs low x ?f" if "?n \<le> x" for x
      using f b a "1.prems"(3) that by (auto simp: found_ok_def split: option.splits)
    have nx: "?n < length bs" "bs ! ?n = CHR '','' \<or> bs ! ?n = closer"
      using "1.prems"(1) lt False h e by (subst (asm) enter_go.simps; simp add: Let_def split: if_splits)+
    show ?thesis
    proof (cases "bs ! ?n = CHR '',''")
      case True
      have run: "enter_go jx bs seg closer (Suc ?n) (Suc count) ?f = Some (cl, n, found')"
        using "1.prems"(1) lt False h e nx(1) True by (subst (asm) enter_go.simps) (simp add: Let_def)
      have "Suc ?n \<le> cl \<and> cl < length bs \<and> bs ! cl = closer \<and> found_ok bs low cl found'"
        by (rule "1.IH"[OF refl lt False h refl refl e refl refl nx(1) True run])
          (use fn[of "Suc ?n"] nx(1) b a "1.prems"(3) in auto)
      with a b show ?thesis by auto
    next
      case no: False
      then have "cl = ?n" "found' = ?f"
        using "1.prems"(1) lt False h e nx by (subst (asm) enter_go.simps; simp add: Let_def)+
      with nx no a b fn[of ?n] show ?thesis by auto
    qed
  qed
qed

lemma enter_bounds:
  assumes "enter jx bs seg at = Some h"
  shows "hit_open h < hit_start h \<and> hit_start h \<le> hit_value_start h \<and> hit_value_start h \<le> hit_end h \<and>
    hit_end h \<le> hit_close h \<and> hit_close h < length bs \<and>
    bs ! hit_open h \<in> {CHR ''{'', CHR ''[''} \<and> bs ! hit_close h \<in> {CHR ''}'', CHR '']''}"
proof -
  let ?op = "scan_space bs at"
  obtain opener closer where oc: "(opener, closer) = (case seg of Key _ \<Rightarrow> (CHR ''{'', CHR ''}'') | Index _ \<Rightarrow> (CHR ''['', CHR '']''))"
    by (cases seg) auto
  with assms obtain cl count s e v where p: "peek bs ?op = Some opener"
    and go: "enter_go jx bs seg closer (Suc ?op) 0 None = Some (cl, count, Some (s, e, v))"
    and h: "h = \<lparr>hit_start = s, hit_end = e, hit_value_start = v, hit_open = ?op, hit_close = cl, hit_count = count\<rparr>"
    by (auto simp: enter_def Let_def split: segment.splits if_splits option.splits)
  from p have lt: "?op < length bs" "bs ! ?op = opener" by (auto simp: peek_def split: if_splits)
  from enter_go_bounds[OF go, of "Suc ?op"] lt h oc show ?thesis
    by (cases seg) (auto simp: found_ok_def)
qed

lemma walk_bounds:
  "walk jx bs path at = Some h \<Longrightarrow> \<exists>seg at'. enter jx bs seg at' = Some h"
  by (induction jx bs path at rule: walk.induct) (auto split: option.splits if_splits)

lemma space_until_bounds: "cursor \<le> limit \<Longrightarrow> cursor \<le> space_until bs limit cursor \<and> space_until bs limit cursor \<le> limit"
  by (induction bs limit cursor rule: space_until.induct) (subst (1 2) space_until.simps, fastforce)

lemma space_back_bounds: "low \<le> k \<Longrightarrow> low \<le> space_back bs low k \<and> space_back bs low k \<le> k"
  by (induction bs low k rule: space_back.induct) auto

text \<open>
  The range stays strictly between the container's brackets: neither bracket, nor any byte
  outside them, is cut.
\<close>

lemma cut_range_inside:
  assumes h: "enter jx bs seg at = Some h" and r: "cut_range bs h = Some (s, e)"
  shows "hit_open h < s \<and> s \<le> e \<and> e \<le> hit_close h"
proof -
  note b = enter_bounds[OF h]
  let ?c = "space_until bs (hit_close h) (hit_end h)" and ?k = "space_back bs (hit_open h + 1) (hit_start h)"
  have c: "hit_end h \<le> ?c" "?c \<le> hit_close h" using space_until_bounds[of "hit_end h" "hit_close h" bs] b by auto
  have k: "hit_open h < ?k" "?k \<le> hit_start h" using space_back_bounds[of "hit_open h + 1" "hit_start h" bs] b by auto
  have "(s = hit_open h + 1 \<and> e = hit_close h) \<or>
      (peek bs ?c = Some (CHR '','') \<and> s = hit_start h \<and> e = space_until bs (hit_close h) (Suc ?c)) \<or>
      (peek bs (?k - 1) = Some (CHR '','') \<and> s = ?k - 1 \<and> e = hit_end h)"
    using r unfolding cut_range_def Let_def
    by (simp only: option.inject prod.inject option.distinct split: if_split_asm) blast+
  then consider (sole) "s = hit_open h + 1" "e = hit_close h"
    | (inner) "peek bs ?c = Some (CHR '','')" "s = hit_start h" "e = space_until bs (hit_close h) (Suc ?c)"
    | (last) "peek bs (?k - 1) = Some (CHR '','')" "s = ?k - 1" "e = hit_end h" by blast
  then show ?thesis
  proof cases
    case inner
    then have "?c \<noteq> hit_close h" using b by (auto simp: peek_def split: if_splits)
    with c have "Suc ?c \<le> hit_close h" by simp
    with space_until_bounds[of "Suc ?c" "hit_close h" bs] inner b c show ?thesis by auto
  next
    case last
    then have "bs ! (?k - 1) = CHR '',''" by (auto simp: peek_def split: if_splits)
    then have "?k - 1 \<noteq> hit_open h" using b by auto
    with last k b show ?thesis by auto
  qed (use b in auto)
qed


section \<open>Equality of documents\<close>

lemma keys_card: "distinct (map fst fs) \<Longrightarrow> card (dom (map_of fs)) = length fs"
  using distinct_card[of "map fst fs"] by (simp add: dom_map_of_conv_image_fst)

text \<open>Object equality is equality of key sets and of the values under them.\<close>

lemma json_eq_obj:
  assumes "distinct (map fst xs)" "distinct (map fst ys)"
  shows "json_eq (JObj xs) (JObj ys) \<longleftrightarrow> dom (map_of xs) = dom (map_of ys) \<and>
    (\<forall>k v v'. map_of xs k = Some v \<longrightarrow> map_of ys k = Some v' \<longrightarrow> json_eq v v')"
proof -
  have all: "list_all (\<lambda>(k, v). case map_of ys k of None \<Rightarrow> False | Some v' \<Rightarrow> json_eq v v') xs \<longleftrightarrow>
    (\<forall>k v. map_of xs k = Some v \<longrightarrow> (\<exists>v'. map_of ys k = Some v' \<and> json_eq v v'))"
    using assms(1) by (fastforce simp: list_all_iff split: option.splits)
  show ?thesis
  proof
    assume eq: "json_eq (JObj xs) (JObj ys)"
    with all have sub: "dom (map_of xs) \<subseteq> dom (map_of ys)" by auto
    have "dom (map_of xs) = dom (map_of ys)"
      using card_subset_eq[OF finite_dom_map_of sub] keys_card[OF assms(1)] keys_card[OF assms(2)] eq by simp
    with eq all show "dom (map_of xs) = dom (map_of ys) \<and>
      (\<forall>k v v'. map_of xs k = Some v \<longrightarrow> map_of ys k = Some v' \<longrightarrow> json_eq v v')" by fastforce
  next
    assume r: "dom (map_of xs) = dom (map_of ys) \<and>
      (\<forall>k v v'. map_of xs k = Some v \<longrightarrow> map_of ys k = Some v' \<longrightarrow> json_eq v v')"
    then have "length xs = length ys" using keys_card[OF assms(1)] keys_card[OF assms(2)] by simp
    moreover have "\<exists>v'. map_of ys k = Some v' \<and> json_eq v v'" if "map_of xs k = Some v" for k v
      using r that by (metis domD domI)
    ultimately show "json_eq (JObj xs) (JObj ys)" using all by simp
  qed
qed

lemma wf_json_map_of: "wf_json (JObj fs) \<Longrightarrow> map_of fs k = Some v \<Longrightarrow> wf_json v"
  by (auto simp: list_all_iff dest!: map_of_SomeD)

lemma json_eq_refl: "wf_json v \<Longrightarrow> json_eq v v"
proof (induction v)
  case (JArr xs)
  then show ?case by (auto simp: list_all_iff zip_same)
next
  case (JObj fs)
  then have "json_eq v v" if "map_of fs k = Some v" for k v
    using that wf_json_map_of[OF JObj.prems that] by (fastforce dest: map_of_SomeD)
  with JObj.prems show ?case by (subst json_eq_obj) auto
qed simp_all

lemma json_eq_sym: "wf_json a \<Longrightarrow> wf_json b \<Longrightarrow> json_eq a b \<Longrightarrow> json_eq b a"
proof (induction a b rule: json_eq.induct)
  case (5 xs ys)
  then have "json_eq (ys ! i) (xs ! i)" if "i < length xs" for i
    using that "5.IH"[of "(xs ! i, ys ! i)" "xs ! i" "ys ! i"] by (fastforce simp: list_all_length in_set_zip)
  with 5 show ?case by (simp add: list_all_length)
next
  case (6 xs ys)
  have d: "distinct (map fst xs)" "distinct (map fst ys)" using 6 by simp_all
  have "json_eq v' v" if v: "map_of xs k = Some v" "map_of ys k = Some v'" for k v v'
    using "6.IH"[of "(k, v)" k v v'] v map_of_SomeD[OF v(1)] wf_json_map_of[OF "6.prems"(1) v(1)]
      wf_json_map_of[OF "6.prems"(2) v(2)] "6.prems"(3) json_eq_obj[OF d] by blast
  with "6.prems"(3) show ?case unfolding json_eq_obj[OF d] json_eq_obj[OF d(2,1)] by simp
qed simp_all

section \<open>The diff is one removal\<close>

fun remove_at :: "segment list \<Rightarrow> json \<Rightarrow> json option" where
  "remove_at [Key k] (JObj fs) = (if obj_contains fs k then Some (JObj (obj_remove k fs)) else None)"
| "remove_at (Key k # p) (JObj fs) =
     (case map_of fs k of
        None \<Rightarrow> None
      | Some x \<Rightarrow> map_option (\<lambda>y. JObj (obj_insert k y fs)) (remove_at p x))"
| "remove_at [Index i] (JArr xs) = (if i < length xs then Some (JArr (remove_nth i xs)) else None)"
| "remove_at (Index i # p) (JArr xs) =
     (if i < length xs then map_option (\<lambda>y. JArr (xs[i := y])) (remove_at p (xs ! i)) else None)"
| "remove_at _ _ = None"

lemma removal_path_not_Nil: "removal_path b a \<noteq> Some []"
  by (cases "(b, a)" rule: removal_path.cases) (auto split: if_splits list.splits option.splits)


lemma removed_keys_set: "set (removed_keys b a) = dom (map_of b) - dom (map_of a)"
  by (auto simp: removed_keys_def obj_keys_def obj_contains_def dom_map_of_conv_image_fst map_of_eq_None_iff)

lemma not_changed:
  assumes "wf_json (JObj b)" "wf_json (JObj a)" "map_of b k = Some v" "map_of a k = Some v'" "k \<notin> set (changed_keys b a)"
  shows "json_eq v v'"
proof -
  have "json_eq v' v"
  proof (rule ccontr)
    assume "\<not> json_eq v' v"
    then have "(k, v) \<in> set (filter (\<lambda>(k, v). case map_of a k of Some v' \<Rightarrow> json_ne v' v | None \<Rightarrow> False) b)"
      using map_of_SomeD[OF assms(3)] assms(4) by (simp add: json_ne_def)
    then have "k \<in> set (changed_keys b a)" unfolding changed_keys_def by force
    with assms(5) show False by simp
  qed
  then show ?thesis
    using json_eq_sym wf_json_map_of[OF assms(1,3)] wf_json_map_of[OF assms(2,4)] by blast
qed

lemma keys_subset:
  "\<not> list_ex (\<lambda>k. \<not> obj_contains b k) (obj_keys a) \<Longrightarrow> dom (map_of a) \<subseteq> dom (map_of b)"
proof
  fix k assume sub: "\<not> list_ex (\<lambda>k. \<not> obj_contains b k) (obj_keys a)" and "k \<in> dom (map_of a)"
  then have "k \<in> set (obj_keys a)" by (simp add: dom_map_of_conv_image_fst obj_keys_def)
  with sub show "k \<in> dom (map_of b)" by (auto simp: list_ex_iff obj_contains_def)
qed

lemma remove_at_Cons: "p \<noteq> [] \<Longrightarrow> map_of fs k = Some x \<Longrightarrow>
    remove_at (Key k # p) (JObj fs) = map_option (\<lambda>y. JObj (obj_insert k y fs)) (remove_at p x)"
  "p \<noteq> [] \<Longrightarrow> i < length xs \<Longrightarrow>
    remove_at (Index i # p) (JArr xs) = map_option (\<lambda>y. JArr (xs[i := y])) (remove_at p (xs ! i))"
  by (cases p; simp)+

lemma removal_path_object:
  assumes wf: "wf_json (JObj b)" "wf_json (JObj a)" and p: "removal_path (JObj b) (JObj a) = Some p"
    and IH: "\<And>k x y q. changed_keys b a = [k] \<Longrightarrow> map_of b k = Some x \<Longrightarrow> map_of a k = Some y \<Longrightarrow>
      removal_path x y = Some q \<Longrightarrow> \<exists>x'. remove_at q x = Some x' \<and> json_eq x' y"
  shows "\<exists>b'. remove_at p (JObj b) = Some b' \<and> json_eq b' (JObj a)"
proof -
  have d: "distinct (map fst b)" "distinct (map fst a)" using wf by simp_all
  have sub: "dom (map_of a) \<subseteq> dom (map_of b)" using p keys_subset[of b a] by (simp split: if_splits)
  consider (gone) k where "removed_keys b a = [k]" "changed_keys b a = []" "p = [Key k]"
    | (inside) k x y q where "removed_keys b a = []" "changed_keys b a = [k]" "map_of b k = Some x" "map_of a k = Some y"
        "removal_path x y = Some q" "p = Key k # q"
    using p by (auto split: if_splits list.splits option.splits)
  then show ?thesis
  proof cases
    case gone
    have dom: "dom (map_of b) - {k} = dom (map_of a)" "k \<in> dom (map_of b)"
      using removed_keys_set[of b a] gone(1) sub by auto
    have "json_eq (JObj (obj_remove k b)) (JObj a)"
      unfolding json_eq_obj[OF mset_obj_remove(2)[OF d(1)] d(2)] map_of_obj_remove[OF d(1)]
      using dom not_changed[OF wf] gone(2) by (auto split: if_splits)
    then show ?thesis using gone(3) dom(2) by (auto simp: obj_contains_def)
  next
    case inside
    obtain x' where x': "remove_at q x = Some x'" "json_eq x' y" using IH[OF inside(2-5)] by blast
    have dom: "dom (map_of b) = dom (map_of a)"
      using removed_keys_set[of b a] inside(1) sub by auto
    have "json_eq (JObj (obj_insert k x' b)) (JObj a)"
      unfolding json_eq_obj[OF distinct_obj_insert[OF d(1)] d(2)] map_of_obj_insert
      using dom not_changed[OF wf] inside(2-4) x'(2) by (auto split: if_splits)
    then show ?thesis
      using remove_at_Cons(1)[of q b k x] removal_path_not_Nil[of x y] inside x'(1) by auto
  qed
qed

lemma removal_path_array:
  assumes p: "removal_path (JArr b) (JArr a) = Some p"
    and IH: "\<And>i q. length b = length a \<Longrightarrow> differing b a = [i] \<Longrightarrow> i < length b \<Longrightarrow> removal_path (b ! i) (a ! i) = Some q \<Longrightarrow>
      \<exists>x'. remove_at q (b ! i) = Some x' \<and> json_eq x' (a ! i)"
  shows "\<exists>b'. remove_at p (JArr b) = Some b' \<and> json_eq b' (JArr a)"
proof (cases "length b = length a")
  case True
  with p obtain i q where i: "differing b a = [i]" "i < length b" "removal_path (b ! i) (a ! i) = Some q" "p = Index i # q"
    by (auto split: list.splits if_splits)
  obtain x' where x': "remove_at q (b ! i) = Some x'" "json_eq x' (a ! i)" using IH[OF True i(1-3)] by blast
  have "json_eq (b ! j) (a ! j)" if "j < length b" "j \<noteq> i" for j
  proof -
    have "j \<notin> set (differing b a)" using i(1) that by simp
    then show ?thesis using that by (simp add: differing_def json_ne_def)
  qed
  then have "json_eq (b[i := x'] ! j) (a ! j)" if "j < length b" for j
    using that x'(2) by (cases "j = i") simp_all
  then have "json_eq (JArr (b[i := x'])) (JArr a)" using True by (simp add: list_all_length)
  then show ?thesis
    using remove_at_Cons(2)[of q i b] removal_path_not_Nil[of "b ! i" "a ! i"] i x'(1) by auto
next
  case False
  with p obtain i where "find (\<lambda>i. json_eq (JArr (remove_nth i b)) (JArr a)) [0..<length b] = Some i" "p = [Index i]"
    by (auto simp del: json_eq.simps split: if_splits)
  then show ?thesis by (auto simp: find_Some_iff simp del: json_eq.simps)
qed

lemma removal_path_correct:
  "wf_json b \<Longrightarrow> wf_json a \<Longrightarrow> removal_path b a = Some p \<Longrightarrow>
    \<exists>b'. remove_at p b = Some b' \<and> json_eq b' a"
proof (induction b a arbitrary: p rule: removal_path.induct)
  case (1 b a)
  show ?case
  proof (rule removal_path_object[OF "1.prems"])
    fix k x y q
    assume k: "changed_keys b a = [k]" "map_of b k = Some x" "map_of a k = Some y" "removal_path x y = Some q"
    have "removed_keys b a = []" "\<not> list_ex (\<lambda>k. \<not> obj_contains b k) (obj_keys a)"
      using "1.prems"(3) k(1) by (auto split: if_splits list.splits)
    then show "\<exists>x'. remove_at q x = Some x' \<and> json_eq x' y"
      by (intro "1.IH") (use k wf_json_map_of[OF "1.prems"(1) k(2)] wf_json_map_of[OF "1.prems"(2) k(3)] in simp_all)
  qed
next
  case (2 b a)
  show ?case
  proof (rule removal_path_array[OF "2.prems"(3)])
    fix i q
    assume i: "length b = length a" "differing b a = [i]" "i < length b" "removal_path (b ! i) (a ! i) = Some q"
    have "wf_json (b ! i)" "wf_json (a ! i)" using "2.prems" i by (auto simp: list_all_length)
    with "2.IH"[OF i(1,2) refl i(3)] i(4) show "\<exists>x'. remove_at q (b ! i) = Some x' \<and> json_eq x' (a ! i)" by blast
  qed
qed simp_all

section \<open>The excision\<close>

lemma excise_range:
  assumes "excise jx bs before after = Some out"
  shows "\<exists>s e op cl v. op < s \<and> s \<le> e \<and> e \<le> cl \<and> cl < length bs \<and>
    bs ! op \<in> {CHR ''{'', CHR ''[''} \<and> bs ! cl \<in> {CHR ''}'', CHR '']''} \<and>
    out = take s bs @ drop e bs \<and> jx_value jx out = Some v \<and> json_eq v after"
proof -
  from assms obtain path s e l r v where
    sp: "span_of jx bs path = Some (s, e)" and lr: "get_to bs s = Some l" "get_from bs e = Some r"
    and v: "jx_value jx (l @ r) = Some v" "json_eq v after" and out: "out = l @ r"
    by (auto simp: excise_def split: if_splits option.splits)
  from sp obtain h where h: "walk jx bs path 0 = Some h" "cut_range bs h = Some (s, e)"
    by (auto simp: span_of_def split: option.splits)
  then obtain seg at where en: "enter jx bs seg at = Some h" using walk_bounds by blast
  have "out = take s bs @ drop e bs" using lr out by (auto simp: get_to_def get_from_def split: if_splits)
  with cut_range_inside[OF en h(2)] enter_bounds[OF en] v out show ?thesis by blast
qed

lemma excise_cut:
  assumes "excise jx bs before after = Some out"
  shows "\<exists>s e v. s \<le> e \<and> e < length bs \<and> out = take s bs @ drop e bs \<and> jx_value jx out = Some v \<and> json_eq v after"
proof -
  from excise_range[OF assms] obtain s e cl v where x: "s \<le> e" "e \<le> cl" "cl < length bs" "out = take s bs @ drop e bs"
    "jx_value jx out = Some v" "json_eq v after" by blast
  then have "e < length bs" by simp
  with x show ?thesis by blast
qed

end
