(* ===== verification/Json_Span_Properties.thy ===== *)
theory Json_Span_Properties
  imports Json_Span_Correct
begin

text \<open>
  The properties of the JSON excision.
\<close>

text \<open>C32. When the excision succeeds, its result is the text with one contiguous range cut out; the
  range lies strictly between the brackets of one container (an opening bracket before it and a
  closing one after it stay), and the parser reads the result as exactly the wanted document.\<close>

theorem excise_cuts_one_inner_range:
  assumes "excise jx bs before after = Some out"
  shows "\<exists>s e op cl v. op < s \<and> s \<le> e \<and> e \<le> cl \<and> cl < length bs \<and>
    bs ! op \<in> {CHR ''{'', CHR ''[''} \<and> bs ! cl \<in> {CHR ''}'', CHR '']''} \<and>
    out = take s bs @ drop e bs \<and> jx_value jx out = Some v \<and> json_eq v after"
  using assms by (rule excise_range)

text \<open>A two-member object, and a parser that knows the texts involved.\<close>

definition demo_jx :: json_ext where
  "demo_jx = \<lparr>jx_value = (\<lambda>b. if b = ''{'' @ [CHR 0x22] @ ''b'' @ [CHR 0x22] @ '': 2}''
        then Some (JObj [(''b'', JNum ''2'')]) else None),
     jx_string = (\<lambda>lit. Some (butlast (tl lit))), jx_to_vec_pretty = (\<lambda>_. [])\<rparr>"

definition demo_text :: bytes where
  "demo_text = ''{'' @ [CHR 0x22] @ ''a'' @ [CHR 0x22] @ '': [1, 2], '' @ [CHR 0x22] @ ''b'' @ [CHR 0x22] @ '': 2}''"

lemma demo_excise:
  "excise demo_jx demo_text (JObj [(''a'', JArr [JNum ''1'', JNum ''2'']), (''b'', JNum ''2'')]) (JObj [(''b'', JNum ''2'')])
     = Some (''{'' @ [CHR 0x22] @ ''b'' @ [CHR 0x22] @ '': 2}'')"
  by code_simp

theorem excise_cuts_one_inner_range_witness:
  "\<exists>s e op cl v. op < s \<and> s \<le> e \<and> e \<le> cl \<and> cl < length demo_text \<and>
    demo_text ! op \<in> {CHR ''{'', CHR ''[''} \<and> demo_text ! cl \<in> {CHR ''}'', CHR '']''} \<and>
    ''{'' @ [CHR 0x22] @ ''b'' @ [CHR 0x22] @ '': 2}'' = take s demo_text @ drop e demo_text \<and>
    jx_value demo_jx (''{'' @ [CHR 0x22] @ ''b'' @ [CHR 0x22] @ '': 2}'') = Some v \<and> json_eq v (JObj [(''b'', JNum ''2'')])"
  by (rule excise_cuts_one_inner_range[OF demo_excise])

text \<open>The path the diff finds is the removal of exactly one node: removing that node from the first
  document gives the second.\<close>

theorem removal_path_is_one_removal:
  assumes "wf_json before" and "wf_json after" and "removal_path before after = Some path"
  shows "\<exists>doc. remove_at path before = Some doc \<and> json_eq doc after"
  using assms by (rule removal_path_correct)

theorem removal_path_is_one_removal_witness:
  "\<exists>doc. remove_at [Key ''a'', Index 0] (JObj [(''a'', JArr [JNum ''1'', JNum ''2'']), (''b'', JNull)]) = Some doc \<and>
    json_eq doc (JObj [(''b'', JNull), (''a'', JArr [JNum ''2''])])"
  by (rule removal_path_is_one_removal) (code_simp, code_simp, code_simp)

end
