(* ===== verification/Profile_Model.thy ===== *)
theory Profile_Model
  imports Rust_Path "HOL-Library.List_Lexorder" "HOL-Library.Char_ord"
begin

text \<open>
  The engine contract (\<^verbatim>\<open>src/src/model.rs\<close>): profile names, profiles, launch descriptors, the
  profile list and the results the engine returns, each with its validation. A \<^verbatim>\<open>BTreeMap\<close> is an
  association list.
\<close>

section \<open>Profile names\<close>

definition validate_profile_name :: "bytes \<Rightarrow> manager_error + unit" where
  "validate_profile_name name =
     (if name = [] \<or> length name > 64 \<or> \<not> is_ascii name
         \<or> \<not> ascii_alnum (hd name) \<or> \<not> ascii_alnum (last name)
         \<or> \<not> list_all (\<lambda>c. ascii_alnum c \<or> c \<in> {CHR ''.'', CHR ''_'', CHR ''-''}) name
      then Inl InvalidProfileName else Inr ())"

section \<open>Profiles\<close>

definition profile_version :: nat where
  "profile_version = 1"

definition launch_descriptor_version :: nat where
  "launch_descriptor_version = 1"

definition public_tools :: "bytes list" where
  "public_tools = [''search'', ''remember'']"

definition profile_home_variable :: bytes where
  "profile_home_variable = ''KSCOPE_PROFILE_HOME''"

datatype durability = ProcessLocal | DurableLocal

fun durability_as_str :: "durability \<Rightarrow> string" where
  "durability_as_str ProcessLocal = ''process-local''"
| "durability_as_str DurableLocal = ''durable-local''"

definition durability_from_str :: "string \<Rightarrow> manager_error + durability" where
  "durability_from_str s =
     (if s = ''process-local'' then Inr ProcessLocal
      else if s = ''durable-local'' then Inr DurableLocal
      else Inl (Usage BadDurability))"

record profile =
  pf_version :: nat
  pf_name :: bytes
  pf_root :: path
  pf_workspace_id :: bytes
  pf_principal_id :: bytes
  pf_journal :: bytes
  pf_durability :: durability

definition profile_validate :: "profile \<Rightarrow> bytes option \<Rightarrow> manager_error + unit" where
  "profile_validate p expected =
     (if pf_version p \<noteq> profile_version
      then Inl (InvalidEngineContract ''profile'' ''unsupported version'')
      else bindR (validate_profile_name (pf_name p)) (\<lambda>_.
        if (case expected of Some n \<Rightarrow> n \<noteq> pf_name p | None \<Rightarrow> False)
        then Inl (InvalidEngineContract ''profile'' ''name mismatch'')
        else if \<not> is_absolute (pf_root p) \<or> pf_workspace_id p = [] \<or> pf_principal_id p = [] \<or> pf_journal p = []
        then Inl (InvalidEngineContract ''profile'' ''missing address field'')
        else Inr ()))"

section \<open>Launch descriptors\<close>

record launch_descriptor =
  ld_version :: nat
  ld_transport :: bytes
  ld_command :: path
  ld_args :: "bytes list"
  ld_tools :: "bytes list"
  ld_environment :: "(bytes \<times> bytes) list"

definition provisional :: "path \<Rightarrow> bytes \<Rightarrow> manager_error + launch_descriptor" where
  "provisional engine profile =
     bindR (validate_profile_name profile) (\<lambda>_.
       if \<not> is_absolute engine then Inl (UnsafePath ''engine'' ''path must be absolute'')
       else Inr \<lparr>ld_version = launch_descriptor_version, ld_transport = ''stdio'', ld_command = engine,
                 ld_args = [''mcp'', ''--profile'', profile], ld_tools = public_tools,
                 ld_environment = []\<rparr>)"

text \<open>\<^verbatim>\<open>Path::new(store).is_absolute()\<close>: a leading slash.\<close>

definition environment_is_valid :: "launch_descriptor \<Rightarrow> bool" where
  "environment_is_valid d =
     (if length (ld_environment d) = 0 then True
      else if length (ld_environment d) = 1 then
        (case map_of (ld_environment d) profile_home_variable of
           Some store \<Rightarrow> starts_with store ''/''
         | None \<Rightarrow> False)
      else False)"

definition descriptor_validate :: "launch_descriptor \<Rightarrow> path \<Rightarrow> bytes \<Rightarrow> manager_error + unit" where
  "descriptor_validate d engine profile =
     bindR (validate_profile_name profile) (\<lambda>_.
       if ld_version d \<noteq> launch_descriptor_version \<or> ld_transport d \<noteq> ''stdio'' \<or> ld_command d \<noteq> engine
          \<or> ld_args d \<noteq> [''mcp'', ''--profile'', profile] \<or> ld_tools d \<noteq> public_tools
          \<or> \<not> environment_is_valid d \<or> \<not> is_absolute (ld_command d)
       then Inl (InvalidEngineContract ''launch descriptor'' ''closed version-1 shape mismatch'')
       else Inr ())"

section \<open>The profile list\<close>

record profile_entry =
  pe_name :: bytes
  pe_valid :: bool
  pe_profile :: "profile option"
  pe_detail :: "bytes option"

record profile_list =
  pl_version :: nat
  pl_profiles :: "bytes list"
  pl_entries :: "profile_entry list"
  pl_stale :: nat

text \<open>\<^verbatim>\<open>windows(2).any(|pair| pair[0] >= pair[1])\<close>, comparing bytes.\<close>

fun strictly_ascending :: "bytes list \<Rightarrow> bool" where
  "strictly_ascending (a # b # rest) = (a < b \<and> strictly_ascending (b # rest))"
| "strictly_ascending _ = True"

fun entries_validate :: "profile_entry list \<Rightarrow> manager_error + unit" where
  "entries_validate [] = Inr ()"
| "entries_validate (e # es) =
     bindR (case (pe_valid e, pe_profile e, pe_detail e) of
              (True, Some p, None) \<Rightarrow> profile_validate p (Some (pe_name e))
            | (False, None, Some _) \<Rightarrow> Inr ()
            | _ \<Rightarrow> Inl (InvalidEngineContract ''profile list''
                         ''an entry's validity disagrees with its profile''))
       (\<lambda>_. entries_validate es)"

definition profile_list_validate :: "profile_list \<Rightarrow> manager_error + unit" where
  "profile_list_validate l =
     (if pl_version l \<noteq> profile_version \<or> \<not> strictly_ascending (pl_profiles l)
         \<or> list_ex (\<lambda>n. isl (validate_profile_name n)) (pl_profiles l)
      then Inl (InvalidEngineContract ''profile list'' ''invalid version, name, or order'')
      else if map pe_name (pl_entries l) \<noteq> pl_profiles l
              \<or> length (filter (\<lambda>e. \<not> pe_valid e) (pl_entries l)) \<noteq> pl_stale l
      then Inl (InvalidEngineContract ''profile list'' ''entries disagree with the names or the stale count'')
      else entries_validate (pl_entries l))"

record init_result =
  in_version :: nat
  in_status :: bytes
  in_profile :: profile
  in_launch :: launch_descriptor

record remove_result =
  rm_version :: nat
  rm_name :: bytes
  rm_status :: bytes

section \<open>Laws\<close>

lemma bindR_unit_Inr: "bindR r (\<lambda>_. s) = Inr x \<longleftrightarrow> (\<exists>u. r = Inr u) \<and> s = Inr x"
  by (cases r) auto

lemma profile_name_cases:
  "validate_profile_name n = Inr () \<or> validate_profile_name n = Inl InvalidProfileName"
  by (simp add: validate_profile_name_def)

text \<open>A valid name is a single ordinary path component: never empty, never a dot name, no slash.\<close>

lemma profile_name_component:
  assumes "validate_profile_name n = Inr ()"
  shows "n \<noteq> []" "n \<noteq> ''.''" "n \<noteq> ''..''" "CHR ''/'' \<notin> set n" "CHR 0x00 \<notin> set n" "length n \<le> 64"
    "\<And>c. c \<in> set n \<Longrightarrow> byte_of c < (128 :: nat)"
proof -
  from assms have v: "n \<noteq> []" "length n \<le> 64" "is_ascii n" "ascii_alnum (hd n)"
    and all: "\<And>c. c \<in> set n \<Longrightarrow> ascii_alnum c \<or> c \<in> {CHR ''.'', CHR ''_'', CHR ''-''}"
    by (auto simp: validate_profile_name_def list_all_iff split: if_splits)
  have no: "\<not> ascii_alnum (CHR ''.'')" "\<not> ascii_alnum (CHR ''/'')" "\<not> ascii_alnum (CHR 0x00)"
    by (simp_all add: ascii_alnum_def)
  show "n \<noteq> []" "length n \<le> 64" by (fact v)+
  show "n \<noteq> ''.''" "n \<noteq> ''..''" using v(4) no by auto
  show "CHR ''/'' \<notin> set n" "CHR 0x00 \<notin> set n" using all no by fastforce+
  show "\<And>c. c \<in> set n \<Longrightarrow> byte_of c < (128 :: nat)" using v(3) by (simp add: is_ascii_def list_all_iff)
qed

lemma strictly_ascending_sorted: "strictly_ascending xs \<longleftrightarrow> sorted_wrt (<) xs"
  by (induction xs rule: strictly_ascending.induct) (auto intro: less_trans)

lemma entries_validate_all:
  assumes "entries_validate es = Inr ()" and "e \<in> set es"
  shows "case pe_profile e of
      Some p \<Rightarrow> pe_valid e \<and> pe_detail e = None \<and> profile_validate p (Some (pe_name e)) = Inr ()
    | None \<Rightarrow> \<not> pe_valid e \<and> pe_detail e \<noteq> None"
  using assms
  by (induction es) (auto simp: bindR_unit_Inr split: option.splits bool.splits)

end
