(* ===== verification/Manager_Config.thy ===== *)
theory Manager_Config
  imports Fs_Safe Profile_Model
begin

text \<open>
  The manager's own configuration (\<^verbatim>\<open>src/src/config.rs\<close>): the state record, its validation, the
  file store with its read-modify-write operations, and the directories taken from the process
  environment. What the process asks of the system apart from the file tree (environment
  variables, the current directory, \<^verbatim>\<open>canonicalize\<close>) is the record \<open>process\<close>; serde's reading and
  writing of the record are \<open>config_ext\<close>. Unix only, as is the file layer.
\<close>

section \<open>The configuration\<close>

type_synonym uuid = "128 word"

record manager_config =
  mc_version :: nat
  mc_active_profile :: "bytes option"
  mc_account_bindings :: "(bytes \<times> uuid) list"
  mc_installed_projects :: "path list"

definition manager_config_version :: nat where
  "manager_config_version = 2"

definition legacy_manager_config_version :: nat where
  "legacy_manager_config_version = 1"

definition max_manager_config_bytes :: nat where
  "max_manager_config_bytes = 64 * 1024"

definition default_config :: manager_config where
  "default_config =
     \<lparr>mc_version = manager_config_version, mc_active_profile = None, mc_account_bindings = [],
      mc_installed_projects = []\<rparr>"

fun projects_validate :: "path list \<Rightarrow> manager_error + unit" where
  "projects_validate [] = Inr ()"
| "projects_validate (p # ps) =
     (if \<not> is_absolute p then Inl (InvalidManagerConfig ''installed project path is not absolute'')
      else projects_validate ps)"

fun bindings_validate :: "(bytes \<times> uuid) list \<Rightarrow> manager_error + unit" where
  "bindings_validate [] = Inr ()"
| "bindings_validate ((profile, account) # bs) =
     bindR (validate_profile_name profile) (\<lambda>_.
       if account = 0 then Inl (InvalidManagerConfig ''profile account binding is invalid'')
       else bindings_validate bs)"

definition config_validate :: "manager_config \<Rightarrow> manager_error + unit" where
  "config_validate c =
     (if mc_version c \<noteq> legacy_manager_config_version \<and> mc_version c \<noteq> manager_config_version
      then Inl (InvalidManagerConfig ''unsupported version'')
      else bindR (case mc_active_profile c of Some p \<Rightarrow> validate_profile_name p | None \<Rightarrow> Inr ()) (\<lambda>_.
           bindR (projects_validate (mc_installed_projects c)) (\<lambda>_.
           bindings_validate (mc_account_bindings c))))"

section \<open>The store\<close>

record config_ext =
  cx_sha :: hash
  cx_from_slice :: "bytes \<Rightarrow> manager_config option"
  cx_to_vec_pretty :: "manager_config \<Rightarrow> bytes"

type_synonym config_store = path

definition config_path :: "config_store \<Rightarrow> path" where
  "config_path store = join store [Normal ''manager.json'']"

definition config_load :: "config_ext \<Rightarrow> config_store \<Rightarrow> (manager_error, manager_config) act" where
  "config_load ext store =
     bindA (read_snapshot (cx_sha ext) (config_path store) max_manager_config_bytes ''manager configuration'') (\<lambda>s.
       case snap_bytes s of
         None \<Rightarrow> ret default_config
       | Some b \<Rightarrow>
           (case cx_from_slice ext b of
              None \<Rightarrow> throw (InvalidManagerConfig ''malformed JSON'')
            | Some c \<Rightarrow>
                bindA (lift (config_validate c)) (\<lambda>_.
                ret (if mc_version c = legacy_manager_config_version
                     then c\<lparr>mc_version := manager_config_version\<rparr> else c))))"

definition save_body :: "config_ext \<Rightarrow> path \<Rightarrow> snapshot \<Rightarrow> manager_config \<Rightarrow> (manager_error, unit) act" where
  "save_body ext p original c =
     bindA (assert_unchanged (cx_sha ext) p original max_manager_config_bytes ''manager configuration'') (\<lambda>_.
     atomic_write p (cx_to_vec_pretty ext c @ nl) (Some 384))"

text \<open>The lock is a local variable: it is dropped when the function returns, whatever it returns.\<close>

definition config_save :: "config_ext \<Rightarrow> config_store \<Rightarrow> manager_config \<Rightarrow> (manager_error, unit) act" where
  "config_save ext store config =
     (let c = config\<lparr>mc_version := manager_config_version\<rparr>; p = config_path store in
      bindA (lift (config_validate c)) (\<lambda>_.
      bindA (read_snapshot (cx_sha ext) p max_manager_config_bytes ''manager configuration'') (\<lambda>original.
      bindA (lock_acquire p) (\<lambda>lock.
      bindA (attempt (save_body ext p original c)) (\<lambda>result.
      bindA (lock_release lock) (\<lambda>_.
      lift result))))))"

section \<open>Read, modify, write\<close>

definition register_project :: "config_ext \<Rightarrow> config_store \<Rightarrow> path \<Rightarrow> ('e, unit) act" where
  "register_project ext store project =
     bindA (attempt (config_load ext store)) (\<lambda>r.
       case r of
         Inl _ \<Rightarrow> ret ()
       | Inr c \<Rightarrow>
           if project \<in> set (mc_installed_projects c) then ret ()
           else bindA (attempt (config_save ext store
                  (c\<lparr>mc_installed_projects := project # mc_installed_projects c\<rparr>))) (\<lambda>_. ret ()))"

text \<open>
  \<open>keeps\<close>, the caller's test of a project, looks at the disk; like \<^verbatim>\<open>&&\<close> it is not asked about the
  project itself.
\<close>

fun others_kept :: "path \<Rightarrow> (path \<Rightarrow> ('e, bool) act) \<Rightarrow> path list \<Rightarrow> ('e, path list) act" where
  "others_kept project keep [] = ret []"
| "others_kept project keep (q # qs) =
     (if q = project then others_kept project keep qs
      else bindA (keep q) (\<lambda>k.
           bindA (others_kept project keep qs) (\<lambda>kept. ret (if k then q # kept else kept))))"

definition forget_project ::
    "config_ext \<Rightarrow> config_store \<Rightarrow> path \<Rightarrow> (path \<Rightarrow> ('e, bool) act) \<Rightarrow> ('e, unit) act" where
  "forget_project ext store project keep =
     bindA (attempt (config_load ext store)) (\<lambda>r.
       case r of
         Inl _ \<Rightarrow> ret ()
       | Inr c \<Rightarrow>
           bindA (others_kept project keep (mc_installed_projects c)) (\<lambda>kept.
           if length kept = length (mc_installed_projects c) then ret ()
           else bindA (attempt (config_save ext store (c\<lparr>mc_installed_projects := kept\<rparr>))) (\<lambda>_. ret ())))"

definition other_projects ::
    "config_ext \<Rightarrow> config_store \<Rightarrow> path \<Rightarrow> (path \<Rightarrow> ('e, bool) act) \<Rightarrow> ('e, path list) act" where
  "other_projects ext store project keep =
     bindA (attempt (config_load ext store)) (\<lambda>r.
       case r of
         Inl _ \<Rightarrow> ret []
       | Inr c \<Rightarrow> others_kept project keep (mc_installed_projects c))"

text \<open>Load, change, save, and return the configuration that was saved.\<close>

definition update_config ::
    "config_ext \<Rightarrow> config_store \<Rightarrow> (manager_config \<Rightarrow> manager_config) \<Rightarrow> (manager_error, manager_config) act" where
  "update_config ext store f =
     bindA (config_load ext store) (\<lambda>c.
     bindA (config_save ext store (f c)) (\<lambda>_. ret (f c)))"

definition set_active_profile ::
    "config_ext \<Rightarrow> config_store \<Rightarrow> bytes option \<Rightarrow> (manager_error, manager_config) act" where
  "set_active_profile ext store profile =
     bindA (lift (case profile of Some p \<Rightarrow> validate_profile_name p | None \<Rightarrow> Inr ())) (\<lambda>_.
     update_config ext store (\<lambda>c. c\<lparr>mc_active_profile := profile\<rparr>))"

definition selected_profile :: "config_ext \<Rightarrow> config_store \<Rightarrow> bytes option \<Rightarrow> (manager_error, bytes) act" where
  "selected_profile ext store explicit =
     (case explicit of
        Some p \<Rightarrow> bindA (lift (validate_profile_name p)) (\<lambda>_. ret p)
      | None \<Rightarrow>
          bindA (config_load ext store) (\<lambda>c.
          ret (case mc_active_profile c of Some p \<Rightarrow> p | None \<Rightarrow> ''default'')))"

definition profile_account_binding ::
    "config_ext \<Rightarrow> config_store \<Rightarrow> bytes \<Rightarrow> (manager_error, uuid option) act" where
  "profile_account_binding ext store profile =
     bindA (lift (validate_profile_name profile)) (\<lambda>_.
     bindA (config_load ext store) (\<lambda>c. ret (map_of (mc_account_bindings c) profile)))"

definition bind_profile_account ::
    "config_ext \<Rightarrow> config_store \<Rightarrow> bytes \<Rightarrow> uuid \<Rightarrow> (manager_error, manager_config) act" where
  "bind_profile_account ext store profile account =
     bindA (lift (validate_profile_name profile)) (\<lambda>_.
       if account = 0 then throw (InvalidManagerConfig ''profile account binding is invalid'')
       else update_config ext store
              (\<lambda>c. c\<lparr>mc_account_bindings := AList.update profile account (mc_account_bindings c)\<rparr>))"

definition unbind_profile_account :: "config_ext \<Rightarrow> config_store \<Rightarrow> bytes \<Rightarrow> (manager_error, manager_config) act" where
  "unbind_profile_account ext store profile =
     bindA (lift (validate_profile_name profile)) (\<lambda>_.
     update_config ext store (\<lambda>c. c\<lparr>mc_account_bindings := AList.delete profile (mc_account_bindings c)\<rparr>))"

definition forget_profile :: "config_ext \<Rightarrow> config_store \<Rightarrow> bytes \<Rightarrow> (manager_error, manager_config) act" where
  "forget_profile ext store profile =
     bindA (lift (validate_profile_name profile)) (\<lambda>_.
     update_config ext store (\<lambda>c.
       c\<lparr>mc_active_profile := (if mc_active_profile c = Some profile then None else mc_active_profile c),
         mc_account_bindings := AList.delete profile (mc_account_bindings c)\<rparr>))"

section \<open>Directories\<close>

record process =
  pr_var :: "string \<Rightarrow> bytes option"
  pr_cwd :: "io_kind + path"
  pr_canonicalize :: "path \<Rightarrow> io_kind + path"

text \<open>\<^verbatim>\<open>PathBuf::from\<close>: the components of a Unix path.\<close>

fun split_slash :: "bytes \<Rightarrow> bytes \<Rightarrow> bytes list" where
  "split_slash acc [] = [rev acc]"
| "split_slash acc (c # cs) =
     (if c = CHR ''/'' then rev acc # split_slash [] cs else split_slash (c # acc) cs)"

definition parse_path :: "bytes \<Rightarrow> path" where
  "parse_path b =
     (let absolute = starts_with b ''/''; parts = split_slash [] b in
      (if absolute then [RootDir] else []) @
      concat (map (\<lambda>(i, s).
        if s = [] then []
        else if s = ''.'' then (if i = 0 \<and> \<not> absolute then [CurDir] else [])
        else if s = ''..'' then [ParentDir]
        else [Normal s]) (List.enumerate 0 parts)))"

definition var_nonempty :: "process \<Rightarrow> string \<Rightarrow> bytes option" where
  "var_nonempty pr name = (case pr_var pr name of Some v \<Rightarrow> if v = [] then None else Some v | None \<Rightarrow> None)"

definition validate_config_path :: "path \<Rightarrow> manager_error + unit" where
  "validate_config_path p =
     (if \<not> is_absolute p \<or> list_ex (\<lambda>c. c = CurDir \<or> c = ParentDir) p
      then Inl (UnsafePath ''manager configuration'' ''path must be absolute and traversal-free'')
      else Inr ())"

definition canonical_directory :: "process \<Rightarrow> path \<Rightarrow> string \<Rightarrow> (manager_error, path) act" where
  "canonical_directory pr p target =
     (if \<not> is_absolute p then throw (UnsafePath target ''path is not absolute'')
      else case pr_canonicalize pr p of
        Inl k \<Rightarrow> throw (Io ''canonicalize directory'' k)
      | Inr canonical \<Rightarrow>
          bindA (map_err (Io ''inspect directory'') (symlink_metadata p)) (\<lambda>n.
            case n of
              Directory _ \<Rightarrow> ret canonical
            | _ \<Rightarrow> throw (UnsafePath target ''selected path is a symlink or not a directory'')))"

definition user_home :: "process \<Rightarrow> (manager_error, path) act" where
  "user_home pr =
     (case (case var_nonempty pr ''KALEIDOSCOPE_USER_HOME'' of
              Some v \<Rightarrow> Some v | None \<Rightarrow> var_nonempty pr ''HOME'') of
        None \<Rightarrow> throw (InvalidManagerConfig ''user home is unavailable'')
      | Some v \<Rightarrow> canonical_directory pr (parse_path v) ''user home'')"

definition project_root :: "process \<Rightarrow> path option \<Rightarrow> (manager_error, path) act" where
  "project_root pr explicit =
     (case (case explicit of Some p \<Rightarrow> Inr p | None \<Rightarrow> pr_cwd pr) of
        Inl k \<Rightarrow> throw (Io ''resolve project directory'' k)
      | Inr root \<Rightarrow> canonical_directory pr root ''project directory'')"

definition directory_override_raw :: "process \<Rightarrow> string \<Rightarrow> manager_error + path option" where
  "directory_override_raw pr name =
     (case var_nonempty pr name of
        None \<Rightarrow> Inr None
      | Some v \<Rightarrow> bindR (validate_config_path (parse_path v)) (\<lambda>_. Inr (Some (parse_path v))))"

definition directory_override :: "process \<Rightarrow> string \<Rightarrow> path \<Rightarrow> manager_error + path" where
  "directory_override pr name fallback =
     bindR (directory_override_raw pr name) (\<lambda>o'. Inr (case o' of Some p \<Rightarrow> p | None \<Rightarrow> fallback))"

definition claude_config_dir :: "process \<Rightarrow> path \<Rightarrow> manager_error + path" where
  "claude_config_dir pr home = directory_override pr ''CLAUDE_CONFIG_DIR'' home"

definition codex_home :: "process \<Rightarrow> path \<Rightarrow> manager_error + path" where
  "codex_home pr home =
     bindR (directory_override_raw pr ''CODEX_HOME'') (\<lambda>o'.
       Inr (case o' of Some p \<Rightarrow> p | None \<Rightarrow> join home [Normal ''.codex'']))"

definition xdg_config_home :: "process \<Rightarrow> path \<Rightarrow> manager_error + path" where
  "xdg_config_home pr home =
     bindR (directory_override_raw pr ''XDG_CONFIG_HOME'') (\<lambda>o'.
       Inr (case o' of Some p \<Rightarrow> p | None \<Rightarrow> join home [Normal ''.config'']))"

text \<open>
  \<^verbatim>\<open>unwrap_or(user_home()?.join(..))\<close> evaluates its argument first: the home directory is asked for,
  and can fail, even when the variable is set.
\<close>

definition platform_config_base :: "process \<Rightarrow> (manager_error, path) act" where
  "platform_config_base pr =
     bindA (user_home pr) (\<lambda>home.
     ret (case var_nonempty pr ''XDG_CONFIG_HOME'' of
            Some v \<Rightarrow> parse_path v | None \<Rightarrow> join home [Normal ''.config'']))"

definition platform_data_base :: "process \<Rightarrow> (manager_error, path) act" where
  "platform_data_base pr =
     bindA (user_home pr) (\<lambda>home.
     ret (case var_nonempty pr ''XDG_DATA_HOME'' of
            Some v \<Rightarrow> parse_path v | None \<Rightarrow> join home [Normal ''.local'', Normal ''share'']))"

definition config_resolve :: "process \<Rightarrow> (manager_error, config_store) act" where
  "config_resolve pr =
     bindA (case var_nonempty pr ''KALEIDOSCOPE_CONFIG_HOME'' of
              Some v \<Rightarrow> ret (parse_path v)
            | None \<Rightarrow> bindA (platform_config_base pr) (\<lambda>b. ret (join b [Normal ''kaleidoscope'']))) (\<lambda>d.
     bindA (lift (validate_config_path d)) (\<lambda>_. ret d))"

definition default_vault_root :: "process \<Rightarrow> bytes \<Rightarrow> (manager_error, path) act" where
  "default_vault_root pr profile =
     bindA (lift (validate_profile_name profile)) (\<lambda>_.
     bindA (case var_nonempty pr ''KALEIDOSCOPE_DATA_HOME'' of
              Some v \<Rightarrow> ret (parse_path v)
            | None \<Rightarrow> bindA (platform_data_base pr) (\<lambda>b. ret (join b [Normal ''kaleidoscope'']))) (\<lambda>base.
     bindA (lift (validate_config_path base)) (\<lambda>_.
     ret (join base [Normal ''vaults'', Normal profile]))))"

end
