(* ===== verification/Manager_Config_Correct.thy ===== *)
theory Manager_Config_Correct
  imports Manager_Config Plan_Apply_Correct
begin

text \<open>
  The configuration store as a cell: what is saved is what is loaded. The cell's contract is the
  locale \<open>config_cell\<close>; the read-modify-write operations are proved against it once and
  interpreted on the file-backed store.
\<close>

section \<open>Saving and loading files\<close>

definition stored :: "config_ext \<Rightarrow> config_store \<Rightarrow> world \<Rightarrow> manager_error + manager_config" where
  "stored ext store w =
     (case content w (config_path store) of
        None \<Rightarrow> Inr default_config
      | Some (b, _) \<Rightarrow>
          (case cx_from_slice ext b of
             None \<Rightarrow> Inl (InvalidManagerConfig ''malformed JSON'')
           | Some c \<Rightarrow>
               bindR (config_validate c) (\<lambda>_.
                 Inr (if mc_version c = legacy_manager_config_version
                      then c\<lparr>mc_version := manager_config_version\<rparr> else c))))"

lemma config_load_Inr:
  assumes "config_load ext store w = (Inr c, w')"
  shows "stored ext store w = Inr c" and "content w' = content w"
proof -
  from assms obtain s w1 where 1: "read_snapshot (cx_sha ext) (config_path store) max_manager_config_bytes
      ''manager configuration'' w = (Inr s, w1)" and 2: "(case snap_bytes s of
         None \<Rightarrow> ret default_config
       | Some b \<Rightarrow> (case cx_from_slice ext b of
              None \<Rightarrow> throw (InvalidManagerConfig ''malformed JSON'')
            | Some c \<Rightarrow> bindA (lift (config_validate c)) (\<lambda>_.
                ret (if mc_version c = legacy_manager_config_version
                     then c\<lparr>mc_version := manager_config_version\<rparr> else c)))) w1 = (Inr c, w')"
    by (auto simp: config_load_def act_run)
  note r = read_snapshot_Inr(1,2)[OF 1]
  from 2 have "w' = w1" by (auto simp: act_run split: option.splits)
  with r show "content w' = content w" by simp
  from 2 r(1) show "stored ext store w = Inr c"
    by (auto simp: stored_def act_run bindR_eq_Inr split: option.splits)
qed

text \<open>What a save writes: the record at the current version, validated.\<close>

abbreviation current :: "manager_config \<Rightarrow> manager_config" where
  "current c \<equiv> c\<lparr>mc_version := manager_config_version\<rparr>"

lemma config_save_Inr:
  assumes "config_save ext store c w = (Inr u, w')"
  shows "config_validate (current c) = Inr ()"
    and "\<exists>l. sibling_path (config_path store) ''.kaleidoscope-lock'' = Inr l \<and>
      (\<forall>q. q \<noteq> l \<longrightarrow> content w' q = ((content w)(config_path store \<mapsto> (cx_to_vec_pretty ext (current c) @ nl, 384))) q)"
proof -
  let ?p = "config_path store"
  from assms obtain orig w1 l w2 r w3 where
    v: "config_validate (current c) = Inr ()" and
    1: "read_snapshot (cx_sha ext) ?p max_manager_config_bytes ''manager configuration'' w = (Inr orig, w1)" and
    2: "lock_acquire ?p w1 = (Inr l, w2)" and 3: "save_body ext ?p orig (current c) w2 = (r, w3)" and
    4: "lock_release l w3 = (Inr () :: manager_error + unit, w')" and r: "r = Inr u"
    by (auto simp: config_save_def act_run Let_def)
  show "config_validate (current c) = Inr ()" by (rule v)
  have c1: "content w1 = content w" using read_snapshot_Inr(2)[OF 1] .
  note l = lock_acquire_Inr[OF 2]
  have pl: "?p \<noteq> l" using sibling_path_neq[OF l(1)] by simp
  from 3 r obtain w4 where 5: "assert_unchanged (cx_sha ext) ?p orig max_manager_config_bytes ''manager configuration'' w2
      = (Inr (), w4)" and 6: "atomic_write ?p (cx_to_vec_pretty ext (current c) @ nl) (Some 384) w4 = (Inr u, w3)"
    by (auto simp: save_body_def act_run)
  have c3: "content w3 = (content w2)(?p \<mapsto> (cx_to_vec_pretty ext (current c) @ nl, 384))"
    using atomic_write_Inr(1)[OF 6] assert_unchanged_Inr(2)[OF 5] by simp
  have "content w' q = content w3 q" if "q \<noteq> l" for q
    using keepsD[OF lock_release_frame(1)[of l "{l}"] 4] that by (simp add: untouched_def)
  with c3 c1 l pl show "\<exists>l. sibling_path ?p ''.kaleidoscope-lock'' = Inr l \<and>
      (\<forall>q. q \<noteq> l \<longrightarrow> content w' q = ((content w)(?p \<mapsto> (cx_to_vec_pretty ext (current c) @ nl, 384))) q)"
    by auto
qed

text \<open>serde reads back what it wrote.\<close>

definition config_codec :: "config_ext \<Rightarrow> manager_config \<Rightarrow> bool" where
  "config_codec ext c \<longleftrightarrow> cx_from_slice ext (cx_to_vec_pretty ext c @ nl) = Some c"

lemma save_then_stored:
  assumes "config_save ext store c w = (Inr u, w')" and "config_codec ext (current c)"
  shows "stored ext store w' = Inr (current c)"
proof -
  have "content w' (config_path store) = Some (cx_to_vec_pretty ext (current c) @ nl, 384)"
  proof -
    obtain l where l: "sibling_path (config_path store) ''.kaleidoscope-lock'' = Inr l" and
      c: "\<And>q. q \<noteq> l \<Longrightarrow> content w' q = ((content w)(config_path store \<mapsto> (cx_to_vec_pretty ext (current c) @ nl, 384))) q"
      using config_save_Inr(2)[OF assms(1)] by blast
    have "config_path store \<noteq> l" using sibling_path_neq[OF l] by simp
    from c[OF this] show ?thesis by simp
  qed
  then show ?thesis
    using assms(2) config_save_Inr(1)[OF assms(1)]
    by (simp add: stored_def config_codec_def manager_config_version_def legacy_manager_config_version_def)
qed


lemma stored_version: "stored ext store w = Inr c \<Longrightarrow> mc_version c = manager_config_version"
  by (auto simp: stored_def default_config_def config_validate_def bindR_eq_Inr split: option.splits if_splits)

section \<open>The cell\<close>

locale config_cell =
  fixes view :: "world \<Rightarrow> manager_error + manager_config"
    and load :: "(manager_error, manager_config) act"
    and save :: "manager_config \<Rightarrow> (manager_error, unit) act"
    and readable :: "manager_config \<Rightarrow> bool"
  assumes load_view: "load w = (Inr c, w') \<Longrightarrow> view w = Inr c \<and> view w' = view w"
    and save_view: "save c w = (Inr (), w') \<Longrightarrow> readable c \<Longrightarrow> view w' = Inr (current c)"
    and view_current: "view w = Inr c \<Longrightarrow> current c = c"
begin

text \<open>A read-modify-write that keeps the version moves the cell from a value to the changed value.\<close>

lemma update:
  assumes run: "bindA load (\<lambda>c. bindA (save (f c)) (\<lambda>_. ret (f c))) w = (Inr c', w')"
    and f: "\<And>c. mc_version (f c) = mc_version c" and r: "readable c'"
  shows "\<exists>c. view w = Inr c \<and> c' = f c \<and> view w' = Inr c'"
proof -
  from run obtain c w1 w2 where 1: "load w = (Inr c, w1)" and 2: "save (f c) w1 = (Inr (), w2)"
    and c': "c' = f c" "w' = w2" by (auto simp: act_run)
  have v: "view w = Inr c" using load_view[OF 1] by simp
  have "mc_version c = manager_config_version" using view_current[OF v] by (metis manager_config.select_convs(1)
        manager_config.surjective manager_config.update_convs(1))
  then have "current (f c) = f c" using f[of c] by simp
  with save_view[OF 2] r c' v show ?thesis by auto
qed

lemma load_same: "load w = (Inr c, w') \<Longrightarrow> view w = Inr d \<Longrightarrow> c = d"
  using load_view by fastforce

end

interpretation file_cell: config_cell "stored ext store" "config_load ext store" "config_save ext store"
  "\<lambda>c. config_codec ext (current c)" for ext store
proof unfold_locales
  show "stored ext store w = Inr c \<and> stored ext store w' = stored ext store w"
    if "config_load ext store w = (Inr c, w')" for w c w'
    using config_load_Inr[OF that] by (simp add: stored_def)
  show "stored ext store w' = Inr (current c)"
    if "config_save ext store c w = (Inr (), w')" "config_codec ext (current c)" for c w w'
    using save_then_stored[OF that] .
  show "current c = c" if "stored ext store w = Inr c" for w c
    using stored_version[OF that] by simp
qed

section \<open>The store works\<close>

lemma config_save_calm:
  assumes w: "runnable d n [] w" and p: "config_path store = at d n" "path_ok (at d n)"
    and v: "config_validate (current c) = Inr ()" and f: "fits w (at d n) max_manager_config_bytes"
  shows "\<exists>w'. config_save ext store c w = (Inr (), w') \<and> runnable d n [] w'"
proof -
  have s: "suffix_ok []" by (simp add: suffix_ok_def)
  have x: "[] \<in> site_suffixes []" by (simp add: site_suffixes_def)
  let ?s = "snapshot_of (cx_sha ext) (content w (at d n))"
  obtain w1 where 1: "read_snapshot (cx_sha ext) (at d n) max_manager_config_bytes ''manager configuration'' w = (Inr ?s, w1)"
    and r1: "runnable d n [] w1" and c1: "content w1 = content w"
    using runnable_read[OF w s p(2) x, of max_manager_config_bytes] f by auto
  obtain w2 where 2: "lock_acquire (at d n) w1 = (Inr (lock_at d n), w2)" and g2: "good d n [] w2"
    and l2: "\<exists>b m. lookup w2 (lock_at d n) = Some (File b m)"
    and c2: "content w2 (at d n) = content w (at d n)"
    using lock_good[OF r1 s p(2)] x c1 by fastforce
  have f2: "?s = snapshot_of (cx_sha ext) (content w2 (at d (n @ [])))" "fits w2 (at d (n @ [])) max_manager_config_bytes"
    using c2 f by (simp_all add: fits_def)
  obtain w3 where 3: "assert_unchanged (cx_sha ext) (at d n) ?s max_manager_config_bytes ''manager configuration'' w2 = (Inr (), w3)"
    and g3: "good_step d n [] w2 w3" using unchanged_good[OF g2 s x p(2) f2] by auto
  obtain w4 where 4: "atomic_write (at d n) (cx_to_vec_pretty ext (current c) @ nl) (Some 384) w3 = (Inr (), w4)"
    and g4: "good_step d n [] w3 w4" using write_good[OF _ s x p(2), of w3] g3 by (auto simp: good_step_def)
  have gd: "good d n [] w4" and l4: "\<exists>b m. lookup w4 (lock_at d n) = Some (File b m)"
    using g4 g3 l2 good_step_lock[OF _ s] by (auto simp: good_step_def)
  obtain w5 where 5: "lock_release (lock_at d n) w4 = (Inr () :: manager_error + unit, w5)" and r5: "runnable d n [] w5"
    using unlock_good[OF gd s l4] by blast
  have "config_save ext store c w = (Inr (), w5)"
    using 1 2 3 4 5 v p(1) by (simp add: config_save_def save_body_def Let_def bindA_def lift_def attempt_def)
  with r5 show ?thesis by blast
qed

lemma config_load_calm:
  assumes w: "runnable d n [] w" and p: "config_path store = at d n" "path_ok (at d n)"
    and v: "stored ext store w = Inr c" and f: "fits w (at d n) max_manager_config_bytes"
  shows "\<exists>w'. config_load ext store w = (Inr c, w') \<and> runnable d n [] w' \<and> content w' = content w"
proof -
  have x: "[] \<in> site_suffixes []" by (simp add: site_suffixes_def)
  obtain w1 where 1: "read_snapshot (cx_sha ext) (at d n) max_manager_config_bytes ''manager configuration'' w =
      (Inr (snapshot_of (cx_sha ext) (content w (at d n))), w1)"
    and r1: "runnable d n [] w1" and c1: "content w1 = content w"
    using runnable_read[OF w _ p(2) x, of max_manager_config_bytes] f by (auto simp: suffix_ok_def)
  have "config_load ext store w = (Inr c, w1)"
    using 1 v p(1) by (auto simp: config_load_def bindA_def stored_def ret_def lift_def bindR_eq_Inr split: option.splits)
  with r1 c1 show ?thesis by blast
qed

end
