(* ===== verification/Config_Properties.thy ===== *)
theory Config_Properties
  imports Manager_Config_Correct Demo
begin

text \<open>
  The properties of the engine contract and of the configuration store.
\<close>

section \<open>Concrete inputs\<close>

text \<open>A stand-in for serde that knows three records.\<close>

definition demo_config :: "bytes option \<Rightarrow> (bytes \<times> uuid) list \<Rightarrow> manager_config" where
  "demo_config active bs = \<lparr>mc_version = 2, mc_active_profile = active, mc_account_bindings = bs, mc_installed_projects = []\<rparr>"

definition demo_cx :: config_ext where
  "demo_cx =
     \<lparr>cx_sha = (\<lambda>b. [char_of (length b)]),
      cx_from_slice = (\<lambda>b. if b = ''A'' @ nl then Some (demo_config (Some ''work'') [])
        else if b = ''B'' @ nl then Some (demo_config None [(''work'', 5)])
        else if b = ''C'' @ nl then Some (demo_config (Some ''work'') [(''work'', 5)]) else None),
      cx_to_vec_pretty = (\<lambda>c. if c = demo_config (Some ''work'') [] then ''A''
        else if c = demo_config None [(''work'', 5)] then ''B''
        else if c = demo_config (Some ''work'') [(''work'', 5)] then ''C'' else ''?'')\<rparr>"

lemma demo_config_path: "config_path demo_project = at demo_project ''manager.json''"
  by (simp add: config_path_def join_def)

lemma demo_work_valid: "validate_profile_name ''work'' = Inr ()"
  by code_simp

lemma demo_store_runnable: "runnable demo_project ''manager.json'' [] (demo_machine [])"
  by (auto simp: runnable_def demo_calm demo_anc_ok demo_lookup intro!: demo_tree_ok demo_site)

lemma demo_store_path: "path_ok (at demo_project ''manager.json'')"
  by (rule demo_path_ok, rule utf8_valid_ascii) simp

lemma demo_empty_content: "content (demo_machine []) q = None"
  by (simp add: content_def demo_lookup)

lemma demo_empty_stored: "stored demo_cx demo_project (demo_machine []) = Inr default_config"
  by (simp add: stored_def demo_empty_content)

section \<open>The configuration store\<close>

text \<open>Selecting a profile works: on a machine whose calls do not fail, setting the active profile
  succeeds, and a later selection without an explicit name returns it.\<close>

theorem active_profile_round_trip:
  assumes w: "runnable d n [] w" and p: "config_path store = at d n" "path_ok (at d n)"
    and c: "stored ext store w = Inr c" and f: "fits w (at d n) max_manager_config_bytes"
    and name: "validate_profile_name profile = Inr ()"
    and codec: "config_codec ext (c\<lparr>mc_active_profile := Some profile\<rparr>)"
    and valid: "config_validate (c\<lparr>mc_active_profile := Some profile\<rparr>) = Inr ()"
    and size: "length (cx_to_vec_pretty ext (c\<lparr>mc_active_profile := Some profile\<rparr>)) < max_manager_config_bytes"
  shows "\<exists>w1 w2. set_active_profile ext store (Some profile) w = (Inr (c\<lparr>mc_active_profile := Some profile\<rparr>), w1) \<and>
    selected_profile ext store None w1 = (Inr profile, w2)"
proof -
  let ?c = "c\<lparr>mc_active_profile := Some profile\<rparr>"
  have cur: "current ?c = ?c" using stored_version[OF c] by simp
  obtain wl where 1: "config_load ext store w = (Inr c, wl)" and rl: "runnable d n [] wl" and cl: "content wl = content w"
    using config_load_calm[OF w p c f] by blast
  have fl: "fits wl (at d n) max_manager_config_bytes" using f cl by (simp add: fits_def)
  obtain w1 where 2: "config_save ext store ?c wl = (Inr (), w1)" and r1: "runnable d n [] w1"
    using config_save_calm[OF rl p _ fl, of ?c] valid cur by auto
  have s1: "stored ext store w1 = Inr ?c" using save_then_stored[OF 2] codec cur by simp
  have set1: "set_active_profile ext store (Some profile) w = (Inr ?c, w1)"
    using 1 2 name by (simp add: set_active_profile_def update_config_def bindA_def lift_def ret_def)
  obtain l where "sibling_path (at d n) ''.kaleidoscope-lock'' = Inr l" and
    cont: "\<And>q. q \<noteq> l \<Longrightarrow> content w1 q = ((content wl)(at d n \<mapsto> (cx_to_vec_pretty ext ?c @ nl, 384))) q"
    using config_save_Inr(2)[OF 2] unfolding cur p(1) by blast
  then have "content w1 (at d n) = Some (cx_to_vec_pretty ext ?c @ nl, 384)" using cont[of "at d n"] by auto
  then have f1: "fits w1 (at d n) max_manager_config_bytes" using size by (simp add: fits_def)
  obtain w2 where "config_load ext store w1 = (Inr ?c, w2)" using config_load_calm[OF r1 p s1 f1] by blast
  with set1 show ?thesis by (auto simp: selected_profile_def bindA_def ret_def)
qed

theorem active_profile_round_trip_witness:
  "\<exists>w1 w2. set_active_profile demo_cx demo_project (Some ''work'') (demo_machine []) =
      (Inr (default_config\<lparr>mc_active_profile := Some ''work''\<rparr>), w1) \<and>
    selected_profile demo_cx demo_project None w1 = (Inr ''work'', w2)"
  by (rule active_profile_round_trip[OF demo_store_runnable demo_config_path demo_store_path demo_empty_stored])
    (simp_all add: fits_def demo_empty_content demo_work_valid config_codec_def demo_cx_def demo_config_def
      default_config_def manager_config_version_def config_validate_def max_manager_config_bytes_def)

text \<open>Forgetting a profile removes its account binding and, if it was active, the active selection;
  every other binding and the project registry stay.\<close>

theorem forget_profile_effect:
  assumes "forget_profile ext store profile w = (Inr c', w')" and "config_codec ext c'"
  shows "\<exists>c. stored ext store w = Inr c \<and> stored ext store w' = Inr c' \<and> mc_active_profile c' \<noteq> Some profile \<and>
    map_of (mc_account_bindings c') = (map_of (mc_account_bindings c))(profile := None) \<and>
    mc_installed_projects c' = mc_installed_projects c"
proof -
  define f :: "manager_config \<Rightarrow> manager_config" where "f = (\<lambda>c. c\<lparr>mc_active_profile := (if mc_active_profile c = Some profile then None else mc_active_profile c),
         mc_account_bindings := AList.delete profile (mc_account_bindings c)\<rparr>)"
  have run: "bindA (config_load ext store) (\<lambda>c. bindA (config_save ext store (f c)) (\<lambda>_. ret (f c))) w = (Inr c', w')"
    using assms(1) unfolding forget_profile_def update_config_def f_def[symmetric] bindA_eq_Inr lift_eq by blast
  have v: "mc_version (f c) = mc_version c" for c by (simp add: f_def)
  have cur: "current c' = c'"
  proof -
    from run obtain c w1 where "config_load ext store w = (Inr c, w1)" "c' = f c" unfolding bindA_eq_Inr ret_eq by blast
    with stored_version[OF config_load_Inr(1)] show ?thesis by (simp add: f_def)
  qed
  have "config_codec ext (current c')" using assms(2) cur by simp
  from file_cell.update[OF run v this] obtain c where "stored ext store w = Inr c" "c' = f c" "stored ext store w' = Inr c'"
    by blast
  then show ?thesis by (auto simp: f_def delete_conv')
qed

lemma demo_forget:
  "case forget_profile demo_cx demo_project ''home'' (demo_machine [(at demo_project ''manager.json'', File (''C'' @ nl) 384)]) of
     (Inr c, w) \<Rightarrow> c = demo_config (Some ''work'') [(''work'', 5)] | _ \<Rightarrow> False"
  by code_simp

theorem forget_profile_effect_witness:
  "\<exists>w'. forget_profile demo_cx demo_project ''home'' (demo_machine [(at demo_project ''manager.json'', File (''C'' @ nl) 384)])
       = (Inr (demo_config (Some ''work'') [(''work'', 5)]), w') \<and>
     stored demo_cx demo_project w' = Inr (demo_config (Some ''work'') [(''work'', 5)])"
proof -
  obtain w' where run: "forget_profile demo_cx demo_project ''home''
      (demo_machine [(at demo_project ''manager.json'', File (''C'' @ nl) 384)]) = (Inr (demo_config (Some ''work'') [(''work'', 5)]), w')"
    using demo_forget by (auto split: prod.splits sum.splits)
  have "config_codec demo_cx (demo_config (Some ''work'') [(''work'', 5)])"
    by (simp add: config_codec_def demo_cx_def demo_config_def)
  from forget_profile_effect[OF run this] run show ?thesis by blast
qed

text \<open>Only a valid configuration is ever written: an invalid one is refused with the validation's
  error before any file is touched, and what a successful save leaves behind loads as exactly what
  was saved, at the current version.\<close>

theorem save_writes_only_valid:
  assumes "config_codec ext (current c)"
  shows "case config_validate (current c) of
      Inl e \<Rightarrow> config_save ext store c w = (Inl e, w)
    | Inr _ \<Rightarrow> (case config_save ext store c w of
          (Inr _, w') \<Rightarrow> stored ext store w' = Inr (current c) | (Inl _, _) \<Rightarrow> True)"
proof (cases "config_validate (current c)")
  case (Inl e)
  then show ?thesis by (simp add: config_save_def Let_def bindA_def lift_def)
next
  case (Inr u)
  then show ?thesis using save_then_stored[OF _ assms] by (auto split: prod.splits sum.splits)
qed

theorem save_writes_only_valid_witness:
  "case config_validate (current (demo_config (Some ''work'') [])) of
      Inl e \<Rightarrow> config_save demo_cx demo_project (demo_config (Some ''work'') []) (demo_machine []) = (Inl e, demo_machine [])
    | Inr _ \<Rightarrow> (case config_save demo_cx demo_project (demo_config (Some ''work'') []) (demo_machine []) of
          (Inr _, w') \<Rightarrow> stored demo_cx demo_project w' = Inr (current (demo_config (Some ''work'') [])) | (Inl _, _) \<Rightarrow> True)"
  by (rule save_writes_only_valid) (simp add: config_codec_def demo_cx_def demo_config_def manager_config_version_def)

text \<open>The check for concurrent edits covers only the inside of a save. A change another process makes
  between one operation's load and its save is overwritten without an error: here the account
  binding written in between is gone, and both operations report success.\<close>

theorem concurrent_update_is_lost:
  "case config_load demo_cx demo_project (demo_machine []) of
     (Inr c, w1) \<Rightarrow>
       (case bind_profile_account demo_cx demo_project ''work'' 5 w1 of
          (Inr _, w2) \<Rightarrow>
            (case config_save demo_cx demo_project (c\<lparr>mc_active_profile := Some ''work''\<rparr>) w2 of
               (Inr _, w3) \<Rightarrow>
                 fst (profile_account_binding demo_cx demo_project ''work'' w2) = Inr (Some 5) \<and>
                 fst (profile_account_binding demo_cx demo_project ''work'' w3) = Inr None
             | _ \<Rightarrow> False)
        | _ \<Rightarrow> False)
   | _ \<Rightarrow> False"
  by code_simp

section \<open>The engine contract\<close>

text \<open>The descriptor the manager proposes before it has asked the engine passes the validation
  the engine's own descriptor has to pass.\<close>

theorem provisional_descriptor_validates:
  assumes "provisional engine profile = Inr d"
  shows "descriptor_validate d engine profile = Inr ()"
  using assms
  by (auto simp: provisional_def descriptor_validate_def bindR_eq_Inr environment_is_valid_def split: if_splits)

theorem provisional_descriptor_validates_witness:
  "\<exists>d. provisional [RootDir, Normal ''k''] ''work'' = Inr d \<and> descriptor_validate d [RootDir, Normal ''k''] ''work'' = Inr ()"
proof -
  obtain d where d: "provisional [RootDir, Normal ''k''] ''work'' = Inr d"
    by (simp add: provisional_def demo_work_valid)
  with provisional_descriptor_validates[OF d] show ?thesis by blast
qed

text \<open>C37. A validated profile list has strictly ascending, hence distinct, valid names, one entry per
  name in the same order, and its stale count is the number of entries that carry no profile.\<close>

theorem valid_profile_list_shape:
  assumes "profile_list_validate l = Inr ()"
  shows "sorted_wrt (<) (pl_profiles l) \<and> distinct (pl_profiles l) \<and> map pe_name (pl_entries l) = pl_profiles l \<and>
    pl_stale l = length (filter (\<lambda>e. pe_profile e = None) (pl_entries l)) \<and>
    (\<forall>e \<in> set (pl_entries l). case pe_profile e of
        Some p \<Rightarrow> pf_name p = pe_name e \<and> is_absolute (pf_root p) | None \<Rightarrow> pe_detail e \<noteq> None)"
proof -
  have s: "sorted_wrt (<) (pl_profiles l)" and n: "map pe_name (pl_entries l) = pl_profiles l"
    and st: "pl_stale l = length (filter (\<lambda>e. \<not> pe_valid e) (pl_entries l))" and es: "entries_validate (pl_entries l) = Inr ()"
    using assms by (auto simp: profile_list_validate_def strictly_ascending_sorted split: if_splits)
  note all = entries_validate_all[OF es]
  have "filter (\<lambda>e. \<not> pe_valid e) (pl_entries l) = filter (\<lambda>e. pe_profile e = None) (pl_entries l)"
    by (rule filter_cong) (use all in \<open>fastforce split: option.splits\<close>)+
  moreover have "case pe_profile e of Some p \<Rightarrow> pf_name p = pe_name e \<and> is_absolute (pf_root p) | None \<Rightarrow> pe_detail e \<noteq> None"
    if "e \<in> set (pl_entries l)" for e
    using all[OF that] by (auto simp: profile_validate_def bindR_eq_Inr split: option.splits if_splits)
  moreover have "distinct (pl_profiles l)" using s by (simp add: strict_sorted_iff)
  ultimately show ?thesis using s n st by simp
qed

theorem valid_profile_list_shape_witness:
  "let l = \<lparr>pl_version = 1, pl_profiles = [''a'', ''b''],
      pl_entries = [\<lparr>pe_name = ''a'', pe_valid = True,
          pe_profile = Some \<lparr>pf_version = 1, pf_name = ''a'', pf_root = [RootDir], pf_workspace_id = ''w'',
            pf_principal_id = ''p'', pf_journal = ''j'', pf_durability = DurableLocal\<rparr>, pe_detail = None\<rparr>,
        \<lparr>pe_name = ''b'', pe_valid = False, pe_profile = None, pe_detail = Some ''gone''\<rparr>], pl_stale = 1\<rparr>
   in pl_stale l = length (filter (\<lambda>e. pe_profile e = None) (pl_entries l))"
proof -
  let ?l = "\<lparr>pl_version = 1, pl_profiles = [''a'', ''b''],
      pl_entries = [\<lparr>pe_name = ''a'', pe_valid = True,
          pe_profile = Some \<lparr>pf_version = 1, pf_name = ''a'', pf_root = [RootDir], pf_workspace_id = ''w'',
            pf_principal_id = ''p'', pf_journal = ''j'', pf_durability = DurableLocal\<rparr>, pe_detail = None\<rparr>,
        \<lparr>pe_name = ''b'', pe_valid = False, pe_profile = None, pe_detail = Some ''gone''\<rparr>], pl_stale = 1\<rparr>"
  have "profile_list_validate ?l = Inr ()" by code_simp
  from valid_profile_list_shape[OF this] show ?thesis by (simp only: Let_def)
qed

text \<open>The default vault of a profile lies exactly two components below an absolute, traversal-free
  base directory, in a directory of the profile's own name; no profile name can leave it.\<close>

theorem default_vault_root_contained:
  assumes "default_vault_root pr profile w = (Inr root, w')"
  shows "\<exists>base. root = base @ [Normal ''vaults'', Normal profile] \<and> validate_config_path root = Inr () \<and>
    profile \<notin> {[], ''.'', ''..''} \<and> CHR ''/'' \<notin> set profile"
proof -
  from assms obtain base where n: "validate_profile_name profile = Inr ()" and v: "validate_config_path base = Inr ()"
    and r: "root = join base [Normal ''vaults'', Normal profile]"
    by (auto simp: default_vault_root_def act_run)
  then have root: "root = base @ [Normal ''vaults'', Normal profile]" by (simp add: join_def)
  moreover have "validate_config_path root = Inr ()"
    using v root by (cases base rule: is_absolute.cases) (auto simp: validate_config_path_def split: if_splits)
  ultimately show ?thesis using profile_name_component[OF n] by auto
qed

theorem default_vault_root_contained_witness:
  "\<exists>w' root base. default_vault_root \<lparr>pr_var = (\<lambda>n. if n = ''KALEIDOSCOPE_DATA_HOME'' then Some ''/data'' else None),
       pr_cwd = Inl NotFound, pr_canonicalize = Inr\<rparr> ''work'' (demo_machine []) = (Inr root, w') \<and>
     root = base @ [Normal ''vaults'', Normal ''work'']"
proof -
  let ?pr = "\<lparr>pr_var = (\<lambda>n. if n = ''KALEIDOSCOPE_DATA_HOME'' then Some ''/data'' else None),
       pr_cwd = Inl NotFound, pr_canonicalize = Inr\<rparr>"
  have "case default_vault_root ?pr ''work'' (demo_machine []) of (Inr r, w) \<Rightarrow> True | _ \<Rightarrow> False" by code_simp
  then obtain root w' where "default_vault_root ?pr ''work'' (demo_machine []) = (Inr root, w')"
    by (auto split: prod.splits sum.splits)
  with default_vault_root_contained[OF this] show ?thesis by blast
qed

end
