(* ===== verification/Host_Config.thy ===== *)
theory Host_Config
  imports Instructions Json_Span Manager_Config
begin

text \<open>
  The connection of a host (\<^verbatim>\<open>src/src/host.rs\<close>): the entry that makes Codex, Claude Code, Cursor
  or OpenCode start the engine, the owner receipt beside the configuration file, the planners that
  put the entry in and take it out, and the application of a plan. Codex has a marker block in a
  TOML text; the other three have one member of a JSON document. What the source takes from
  outside is the record \<open>host_ext\<close>: SHA-256, serde's reading and writing, the TOML check of
  \<^verbatim>\<open>toml_edit\<close>. Encoding a value never fails in the model, as serde's does not for these types.
  The previews are display text and are not modelled; the JSON summary is.
\<close>

section \<open>Data\<close>

definition host_owner :: string where
  "host_owner = ''kaleidoscope-manager-v1''"

definition owner_receipt_version :: nat where
  "owner_receipt_version = 1"

definition max_host_config_bytes :: nat where
  "max_host_config_bytes = 1024 * 1024"

definition max_owner_receipt_bytes :: nat where
  "max_owner_receipt_bytes = 64 * 1024"

definition codex_marker_start :: bytes where
  "codex_marker_start = ''# >>> kaleidoscope-manager owner=kaleidoscope-manager-v1 host=codex''"

definition codex_marker_end :: bytes where
  "codex_marker_end = ''# <<< kaleidoscope-manager owner=kaleidoscope-manager-v1''"

definition owner_receipt_suffix :: bytes where
  "owner_receipt_suffix = ''.kaleidoscope-owner.json''"

datatype change_action = Add | Adopt | Update | RemoveEntry | AlreadyConnected | AlreadyDisconnected

datatype owned_format = JsonEntry | CodexMarkerBlock

record ownership_receipt =
  or_version :: nat
  or_owner :: string
  or_host :: host
  or_scope :: scope
  or_profile :: bytes
  or_format :: owned_format
  or_open_code_version :: "opencode_version option"
  or_owned_sha256 :: string
  or_owned :: json
  or_pre_sha256 :: string
  or_post_sha256 :: string
  or_config_created :: bool
  or_adopted :: bool

record host_ext =
  hx_sha :: hash
  hx_json :: json_ext
  hx_to_vec :: "json \<Rightarrow> bytes"
  hx_quote :: "bytes \<Rightarrow> bytes"
  hx_receipt_to_vec_pretty :: "ownership_receipt \<Rightarrow> bytes"
  hx_receipt_from_slice :: "bytes \<Rightarrow> ownership_receipt option"
  hx_toml_valid :: "bytes \<Rightarrow> bool"

text \<open>The files a plan is about: what every planner is handed by its caller.\<close>

record host_files =
  hf_target :: path
  hf_receipt_path :: path
  hf_backup_path :: path
  hf_original :: snapshot
  hf_receipt_original :: snapshot

record connection_plan =
  cp_host :: host
  cp_scope :: scope
  cp_action :: change_action
  cp_profile :: "bytes option"
  cp_files :: host_files
  cp_restore :: "restore_tier option"
  cp_adopted :: bool
  cp_formatting_preserved :: bool
  cp_write :: target_write
  cp_receipt_after :: "ownership_receipt option"
  cp_remove_backup :: bool

section \<open>Receipts\<close>

definition owned_digest :: "host_ext \<Rightarrow> owned_format \<Rightarrow> json \<Rightarrow> manager_error + string" where
  "owned_digest ext format owned =
     (case format of
        JsonEntry \<Rightarrow> Inr (digest_bytes (hx_sha ext) (hx_to_vec ext owned))
      | CodexMarkerBlock \<Rightarrow>
          (case owned of
             JStr s \<Rightarrow> Inr (digest_bytes (hx_sha ext) s)
           | _ \<Rightarrow> Inl InvalidOwnerReceipt))"

definition receipt_new ::
    "host_ext \<Rightarrow> host \<Rightarrow> scope \<Rightarrow> bytes \<Rightarrow> owned_format \<Rightarrow> json \<Rightarrow> bool \<Rightarrow> opencode_version option
     \<Rightarrow> string \<Rightarrow> string \<Rightarrow> bool \<Rightarrow> manager_error + ownership_receipt" where
  "receipt_new ext host scope profile format owned config_created version pre post adopted =
     bindR (validate_profile_name profile) (\<lambda>_.
     bindR (owned_digest ext format owned) (\<lambda>digest.
     Inr \<lparr>or_version = owner_receipt_version, or_owner = host_owner, or_host = host, or_scope = scope,
          or_profile = profile, or_format = format, or_open_code_version = version,
          or_owned_sha256 = digest, or_owned = owned, or_pre_sha256 = pre, or_post_sha256 = post,
          or_config_created = config_created, or_adopted = adopted\<rparr>))"

definition owner_receipt_validate ::
    "host_ext \<Rightarrow> ownership_receipt \<Rightarrow> host \<Rightarrow> scope \<Rightarrow> manager_error + unit" where
  "owner_receipt_validate ext r host scope =
     (if or_version r \<noteq> owner_receipt_version \<or> or_owner r \<noteq> host_owner \<or> or_host r \<noteq> host
         \<or> or_scope r \<noteq> scope \<or> isl (validate_profile_name (or_profile r))
      then Inl InvalidOwnerReceipt
      else bindR (owned_digest ext (or_format r) (or_owned r)) (\<lambda>digest.
        if or_owned_sha256 r \<noteq> digest
           \<or> (or_host r = OpenCode) \<noteq> (or_open_code_version r \<noteq> None)
        then Inl InvalidOwnerReceipt
        else case (or_format r, or_owned r) of
          (JsonEntry, JObj _) \<Rightarrow> Inr ()
        | (JsonEntry, _) \<Rightarrow> Inl InvalidOwnerReceipt
        | (CodexMarkerBlock, JStr block) \<Rightarrow>
            if starts_with block codex_marker_start then Inr () else Inl InvalidOwnerReceipt
        | (CodexMarkerBlock, _) \<Rightarrow> Inl InvalidOwnerReceipt))"

definition owner_receipt_encode :: "host_ext \<Rightarrow> ownership_receipt \<Rightarrow> bytes" where
  "owner_receipt_encode ext r = hx_receipt_to_vec_pretty ext r @ nl"

definition decode_owner_receipt ::
    "host_ext \<Rightarrow> snapshot \<Rightarrow> host \<Rightarrow> scope \<Rightarrow> manager_error + ownership_receipt option" where
  "decode_owner_receipt ext s host scope =
     (case snap_bytes s of
        None \<Rightarrow> Inr None
      | Some b \<Rightarrow>
          (case hx_receipt_from_slice ext b of
             None \<Rightarrow> Inl InvalidOwnerReceipt
           | Some r \<Rightarrow> bindR (owner_receipt_validate ext r host scope) (\<lambda>_. Inr (Some r))))"

text \<open>
  The entry is compared with the receipt as a JSON value, which does not look at the order of
  keys; the digest is taken over the receipt's own copy.
\<close>

definition validate_current_ownership ::
    "host_ext \<Rightarrow> ownership_receipt option \<Rightarrow> json option \<Rightarrow> owned_format \<Rightarrow> manager_error + unit" where
  "validate_current_ownership ext receipt current format =
     (case (receipt, current) of
        (None, None) \<Rightarrow> Inr ()
      | (Some r, Some c) \<Rightarrow>
          if or_format r = format \<and> json_eq (or_owned r) c then
            bindR (owned_digest ext format (or_owned r)) (\<lambda>digest.
              if or_owned_sha256 r = digest then Inr () else Inl InvalidOwnerReceipt)
          else Inl InvalidOwnerReceipt
      | _ \<Rightarrow> Inl InvalidOwnerReceipt)"

section \<open>JSON documents\<close>

definition json_get :: "json \<Rightarrow> bytes \<Rightarrow> json option" where
  "json_get v k = (case v of JObj fs \<Rightarrow> map_of fs k | _ \<Rightarrow> None)"

fun get_json_path :: "json \<Rightarrow> bytes list \<Rightarrow> json option" where
  "get_json_path v [] = Some v"
| "get_json_path v (k # ks) =
     (case json_get v k of None \<Rightarrow> None | Some c \<Rightarrow> get_json_path c ks)"

fun set_member :: "json \<Rightarrow> bytes list \<Rightarrow> bytes \<Rightarrow> json \<Rightarrow> manager_error + json" where
  "set_member v [] l member =
     (case v of
        JObj fs \<Rightarrow> Inr (JObj (obj_insert l member fs))
      | _ \<Rightarrow> Inl (InvalidHostConfig ParentNotAnObject))"
| "set_member v (k # ks) l member =
     (case v of
        JObj fs \<Rightarrow>
          let child = (case map_of fs k of Some c \<Rightarrow> c | None \<Rightarrow> JObj []) in
          bindR (set_member child ks l member) (\<lambda>c'. Inr (JObj (obj_insert k c' fs)))
      | _ \<Rightarrow> Inl (InvalidHostConfig (KeyNotAnObject k)))"

definition set_json_path :: "json \<Rightarrow> bytes list \<Rightarrow> json \<Rightarrow> manager_error + json" where
  "set_json_path v path member =
     (if path = [] then Inl (InvalidHostConfig EmptyStructuredPath)
      else set_member v (butlast path) (last path) member)"

fun remove_member :: "json \<Rightarrow> bytes list \<Rightarrow> bytes \<Rightarrow> manager_error + json" where
  "remove_member v [] l =
     (case v of
        JObj fs \<Rightarrow>
          if map_of fs l = None then Inl InvalidOwnerReceipt else Inr (JObj (obj_remove l fs))
      | _ \<Rightarrow> Inl InvalidOwnerReceipt)"
| "remove_member v (k # ks) l =
     (case v of
        JObj fs \<Rightarrow>
          (case map_of fs k of
             None \<Rightarrow> Inl InvalidOwnerReceipt
           | Some c \<Rightarrow> bindR (remove_member c ks l) (\<lambda>c'. Inr (JObj (obj_insert k c' fs))))
      | _ \<Rightarrow> Inl InvalidOwnerReceipt)"

definition remove_json_path :: "json \<Rightarrow> bytes list \<Rightarrow> manager_error + json" where
  "remove_json_path v path =
     (if path = [] then Inl (InvalidHostConfig EmptyStructuredPath)
      else remove_member v (butlast path) (last path))"

definition parse_json_document :: "host_ext \<Rightarrow> snapshot \<Rightarrow> manager_error + json" where
  "parse_json_document ext s =
     (case snap_bytes s of
        None \<Rightarrow> Inr (JObj [])
      | Some b \<Rightarrow>
          if list_all ascii_whitespace b then Inr (JObj [])
          else (case jx_value (hx_json ext) b of
                  None \<Rightarrow> Inl (InvalidHostConfig NotStrictJson)
                | Some (JObj fs) \<Rightarrow> Inr (JObj fs)
                | Some _ \<Rightarrow> Inl (InvalidHostConfig TopLevelNotObject)))"

definition encode_json_document :: "host_ext \<Rightarrow> json \<Rightarrow> bytes" where
  "encode_json_document ext document = jx_to_vec_pretty (hx_json ext) document @ nl"

section \<open>The entry of each host\<close>

definition desired_json_entry ::
    "host \<Rightarrow> launch_descriptor \<Rightarrow> opencode_version option \<Rightarrow> manager_error + json" where
  "desired_json_entry host descriptor version =
     (let command = JStr (path_to_string_lossy (ld_command descriptor));
          args = map JStr (ld_args descriptor) in
      case host of
        ClaudeCode \<Rightarrow>
          Inr (JObj [(''type'', JStr ''stdio''), (''command'', command), (''args'', JArr args)])
      | CursorHost \<Rightarrow> Inr (JObj [(''command'', command), (''args'', JArr args)])
      | OpenCode \<Rightarrow>
          (case version of
             Some StableV1 \<Rightarrow>
               Inr (JObj [(''type'', JStr ''local''), (''command'', JArr (command # args)),
                          (''enabled'', JBool True)])
           | Some BetaV2 \<Rightarrow>
               Inr (JObj [(''type'', JStr ''local''), (''command'', JArr (command # args)),
                          (''codemode'', JBool False)])
           | None \<Rightarrow> Inl (Panicked ''OpenCode version is selected before rendering''))
      | Codex \<Rightarrow> Inl (Panicked ''Codex uses a marker-delimited TOML transform''))"

definition json_entry_path :: "host \<Rightarrow> opencode_version option \<Rightarrow> manager_error + bytes list" where
  "json_entry_path host version =
     (case host of
        ClaudeCode \<Rightarrow> Inr [''mcpServers'', ''kaleidoscope'']
      | CursorHost \<Rightarrow> Inr [''mcpServers'', ''kaleidoscope'']
      | OpenCode \<Rightarrow>
          (case version of
             Some StableV1 \<Rightarrow> Inr [''mcp'', ''kaleidoscope'']
           | Some BetaV2 \<Rightarrow> Inr [''mcp'', ''servers'', ''kaleidoscope'']
           | None \<Rightarrow> Inl (Panicked ''OpenCode receipt records its version''))
      | Codex \<Rightarrow> Inr [])"

record shape_state =
  stable_entry :: bool
  beta_container :: bool
  beta_entry :: bool

definition has_any_entry :: "shape_state \<Rightarrow> bool" where
  "has_any_entry st \<longleftrightarrow> stable_entry st \<or> beta_entry st"

definition conflicts_with :: "shape_state \<Rightarrow> opencode_version \<Rightarrow> bool" where
  "conflicts_with st version =
     (case version of StableV1 \<Rightarrow> beta_container st | BetaV2 \<Rightarrow> stable_entry st)"

definition opencode_shape_state :: "json \<Rightarrow> manager_error + shape_state" where
  "opencode_shape_state document =
     (case json_get document ''mcp'' of
        None \<Rightarrow> Inr \<lparr>stable_entry = False, beta_container = False, beta_entry = False\<rparr>
      | Some (JObj mcp) \<Rightarrow>
          (case map_of mcp ''servers'' of
             None \<Rightarrow>
               Inr \<lparr>stable_entry = obj_contains mcp ''kaleidoscope'', beta_container = False, beta_entry = False\<rparr>
           | Some (JObj servers) \<Rightarrow>
               Inr \<lparr>stable_entry = obj_contains mcp ''kaleidoscope'', beta_container = True,
                    beta_entry = obj_contains servers ''kaleidoscope''\<rparr>
           | Some _ \<Rightarrow> Inl (InvalidHostConfig OpenCodeServersNotObject))
      | Some _ \<Rightarrow> Inl (InvalidHostConfig OpenCodeMcpNotObject))"

definition select_opencode_version ::
    "json \<Rightarrow> ownership_receipt option \<Rightarrow> opencode_version option \<Rightarrow> manager_error + opencode_version" where
  "select_opencode_version document receipt requested =
     bindR (opencode_shape_state document) (\<lambda>state.
     bindR (case receipt of
              Some r \<Rightarrow>
                (case or_open_code_version r of
                   None \<Rightarrow> Inl InvalidOwnerReceipt
                 | Some owned \<Rightarrow>
                     if requested \<noteq> None \<and> requested \<noteq> Some owned
                     then Inl (HostConflict OpenCodeVersionDiffers) else Inr owned)
            | None \<Rightarrow>
                (case requested of
                   Some v \<Rightarrow> Inr v
                 | None \<Rightarrow> Inr (if beta_container state then BetaV2 else StableV1))) (\<lambda>selected.
     if conflicts_with state selected then Inl (HostConflict OpenCodeShapesConflict)
     else Inr selected))"

definition json_document_is_empty_shell ::
    "host \<Rightarrow> opencode_version option \<Rightarrow> json \<Rightarrow> manager_error + bool" where
  "json_document_is_empty_shell host version document =
     bindR (case host of
              ClaudeCode \<Rightarrow> Inr (set_json_path (JObj []) [''mcpServers''] (JObj []))
            | CursorHost \<Rightarrow> Inr (set_json_path (JObj []) [''mcpServers''] (JObj []))
            | OpenCode \<Rightarrow>
                (case version of
                   Some StableV1 \<Rightarrow> Inr (set_json_path (JObj []) [''mcp''] (JObj []))
                 | Some BetaV2 \<Rightarrow> Inr (set_json_path (JObj []) [''mcp'', ''servers''] (JObj []))
                 | None \<Rightarrow> Inl (Panicked ''OpenCode receipt records its version''))
            | Codex \<Rightarrow> Inr (Inr (JObj []))) (\<lambda>shell.
     Inr ((case shell of Inr expected \<Rightarrow> json_eq document expected | Inl _ \<Rightarrow> json_eq document (JObj []))
          \<or> document = JObj []))"

section \<open>The Codex block\<close>

definition codex_block :: "host_ext \<Rightarrow> launch_descriptor \<Rightarrow> bytes \<Rightarrow> manager_error + bytes" where
  "codex_block ext descriptor profile =
     (case path_to_str (ld_command descriptor) of
        None \<Rightarrow> Inl (InvalidEngineContract ''launch descriptor'' ''command is not UTF-8'')
      | Some command \<Rightarrow>
          Inr (codex_marker_start @ nl
               @ ''[mcp_servers.kaleidoscope]'' @ nl
               @ ''command = '' @ hx_quote ext command @ nl
               @ ''args = [\"mcp\", \"--profile\", '' @ hx_quote ext profile @ '']'' @ nl
               @ ''enabled = true'' @ nl
               @ ''required = false'' @ nl
               @ ''startup_timeout_sec = 10'' @ nl
               @ ''tool_timeout_sec = 30'' @ nl
               @ ''enabled_tools = [\"search\", \"remember\"]'' @ nl
               @ ''default_tools_approval_mode = \"writes\"'' @ nl
               @ nl
               @ ''[mcp_servers.kaleidoscope.tools.search]'' @ nl
               @ ''approval_mode = \"approve\"'' @ nl
               @ codex_marker_end @ nl))"

definition host_snapshot_text :: "snapshot \<Rightarrow> manager_error + bytes" where
  "host_snapshot_text s =
     (let b = (case snap_bytes s of None \<Rightarrow> [] | Some b \<Rightarrow> b) in
      if utf8_valid b then Inr b else Inl (InvalidHostConfig HostConfigNotUtf8))"

definition validate_codex_document :: "host_ext \<Rightarrow> bytes \<Rightarrow> manager_error + unit" where
  "validate_codex_document ext text =
     (if hx_toml_valid ext text then Inr () else Inl (InvalidHostConfig CodexNotToml))"

definition find_codex_block :: "bytes \<Rightarrow> manager_error + bytes option" where
  "find_codex_block text =
     (case (match_indices text codex_marker_start, match_indices text codex_marker_end) of
        ([], []) \<Rightarrow> Inr None
      | ([s], [e]) \<Rightarrow>
          if s < e then
            let after = e + length codex_marker_end;
                after' = (if after < length text \<and> text ! after = CHR 0x0A then after + 1 else after)
            in Inr (Some (take (after' - s) (drop s text)))
          else Inl (InvalidHostConfig CodexMarkerDuplicatedOrIncomplete)
      | _ \<Rightarrow> Inl (InvalidHostConfig CodexMarkerDuplicatedOrIncomplete))"

definition contains_unmanaged_codex_table :: "bytes \<Rightarrow> bool" where
  "contains_unmanaged_codex_table text =
     list_ex (\<lambda>line. line = ''[mcp_servers.kaleidoscope]'' \<or> line = ''[mcp_servers.\"kaleidoscope\"]''
                 \<or> starts_with line ''[mcp_servers.kaleidoscope.'')
       (map str_trim (str_lines text))"

definition install_codex_block :: "bytes \<Rightarrow> bytes option \<Rightarrow> bytes \<Rightarrow> manager_error + bytes" where
  "install_codex_block text current desired =
     (case current of
        Some c \<Rightarrow>
          if matches_count text c \<noteq> 1 then Inl (InvalidHostConfig CodexBlockAmbiguous)
          else Inr (replace_first text c desired)
      | None \<Rightarrow>
          let separator =
            (if text = [] \<or> ends_with text (nl @ nl) then []
             else if ends_with text nl then nl else nl @ nl) in
          Inr (text @ separator @ desired))"

text \<open>\<^verbatim>\<open>&text[start - 2..start]\<close> panics inside a character.\<close>

definition remove_codex_block :: "bytes \<Rightarrow> bytes \<Rightarrow> bool \<Rightarrow> manager_error + bytes" where
  "remove_codex_block text block inserted_separator =
     (case str_find block text of
        None \<Rightarrow> Inl InvalidOwnerReceipt
      | Some start \<Rightarrow>
          if str_contains (drop (start + length block) text) block then Inl InvalidOwnerReceipt
          else if inserted_separator \<and> 2 \<le> start \<and> \<not> is_char_boundary text (start - 2)
          then Inl (Panicked ''string slice'')
          else
            let removal_start =
              (if inserted_separator \<and> 2 \<le> start \<and> take 2 (drop (start - 2) text) = nl @ nl
               then start - 1 else start) in
            Inr (take removal_start text @ drop (start + length block) text))"

section \<open>Paths and reading\<close>

definition host_config_path :: "process \<Rightarrow> host \<Rightarrow> scope \<Rightarrow> path \<Rightarrow> path \<Rightarrow> manager_error + path" where
  "host_config_path pr host scope home project =
     (if \<not> is_absolute home \<or> \<not> is_absolute project
      then Inl (UnsafePath ''host configuration'' ''home and project roots must be absolute'')
      else case (host, scope) of
        (Codex, UserScope) \<Rightarrow>
          bindR (codex_home pr home) (\<lambda>d. Inr (join d [Normal ''config.toml'']))
      | (Codex, ProjectScope) \<Rightarrow> Inr (join project [Normal ''.codex'', Normal ''config.toml''])
      | (ClaudeCode, UserScope) \<Rightarrow>
          bindR (claude_config_dir pr home) (\<lambda>d. Inr (join d [Normal ''.claude.json'']))
      | (ClaudeCode, ProjectScope) \<Rightarrow> Inr (join project [Normal ''.mcp.json''])
      | (CursorHost, UserScope) \<Rightarrow> Inr (join home [Normal ''.cursor'', Normal ''mcp.json''])
      | (CursorHost, ProjectScope) \<Rightarrow> Inr (join project [Normal ''.cursor'', Normal ''mcp.json''])
      | (OpenCode, UserScope) \<Rightarrow>
          bindR (xdg_config_home pr home) (\<lambda>d. Inr (join d [Normal ''opencode'', Normal ''opencode.json'']))
      | (OpenCode, ProjectScope) \<Rightarrow> Inr (join project [Normal ''opencode.json'']))"

text \<open>
  The length the kernel reports for what is not a regular file depends on the file system; it is
  taken to be below the limit.
\<close>

fun node_len :: "node \<Rightarrow> nat" where
  "node_len (File b _) = length b"
| "node_len _ = 0"

definition refuse_unbounded :: "path \<Rightarrow> (manager_error, 'a) act" where
  "refuse_unbounded p =
     bindA (attempt (symlink_metadata p)) (\<lambda>meta.
       throw (case meta of
                Inr n \<Rightarrow>
                  if node_len n > max_host_config_bytes then HostConfigTooLarge (node_len n)
                  else UnsafePath ''host configuration'' ''not a bounded regular file''
              | Inl _ \<Rightarrow> UnsafePath ''host configuration'' ''not a bounded regular file''))"

definition read_host_config :: "host_ext \<Rightarrow> path \<Rightarrow> (manager_error, snapshot) act" where
  "read_host_config ext p =
     bindA (attempt (read_snapshot (hx_sha ext) p max_host_config_bytes ''host configuration'')) (\<lambda>r.
       if (case r of Inl (UnsafePath _ reason) \<Rightarrow> reason = ''not a bounded regular file'' | _ \<Rightarrow> False)
       then refuse_unbounded p
       else lift r)"

definition read_host_files ::
    "host_ext \<Rightarrow> process \<Rightarrow> host \<Rightarrow> scope \<Rightarrow> path \<Rightarrow> path \<Rightarrow> (manager_error, host_files) act" where
  "read_host_files ext pr host scope home project =
     bindA (lift (host_config_path pr host scope home project)) (\<lambda>target.
     bindA (lift (sibling_path target owner_receipt_suffix)) (\<lambda>receipt_path.
     bindA (lift (sibling_path target backup_suffix)) (\<lambda>backup_path.
     bindA (read_host_config ext target) (\<lambda>original.
     bindA (read_snapshot (hx_sha ext) receipt_path max_owner_receipt_bytes ''connection owner receipt'')
       (\<lambda>receipt_original.
     ret \<lparr>hf_target = target, hf_receipt_path = receipt_path, hf_backup_path = backup_path,
          hf_original = original, hf_receipt_original = receipt_original\<rparr>)))))"

section \<open>Connecting\<close>

definition no_change_plan ::
    "host \<Rightarrow> scope \<Rightarrow> change_action \<Rightarrow> bytes option \<Rightarrow> host_files \<Rightarrow> bool \<Rightarrow> manager_error + connection_plan" where
  "no_change_plan host scope action profile fs adopted =
     (if action = AlreadyConnected \<and> snap_bytes (hf_receipt_original fs) = None
      then Inl (HostConflict MatchingEntryWithoutReceipt)
      else Inr \<lparr>cp_host = host, cp_scope = scope, cp_action = action, cp_profile = profile,
                cp_files = fs, cp_restore = None, cp_adopted = adopted,
                cp_formatting_preserved = False, cp_write = Leave, cp_receipt_after = None,
                cp_remove_backup = False\<rparr>)"

text \<open>What both planners keep of an older receipt: the digest of the first original, and stickiness.\<close>

definition carried_pre :: "ownership_receipt option \<Rightarrow> snapshot \<Rightarrow> string" where
  "carried_pre old original =
     (case old of
        None \<Rightarrow> sha256 original
      | Some r \<Rightarrow> if or_pre_sha256 r = [] then sha256 original else or_pre_sha256 r)"

definition carried_created :: "ownership_receipt option \<Rightarrow> snapshot \<Rightarrow> bool" where
  "carried_created old original =
     (case old of None \<Rightarrow> snap_bytes original = None | Some r \<Rightarrow> or_config_created r)"

definition carried_adopted :: "ownership_receipt option \<Rightarrow> bool" where
  "carried_adopted old = (case old of None \<Rightarrow> False | Some r \<Rightarrow> or_adopted r)"

definition plan_codex_connect ::
    "host_ext \<Rightarrow> host \<Rightarrow> scope \<Rightarrow> bytes \<Rightarrow> launch_descriptor \<Rightarrow> host_files \<Rightarrow> ownership_receipt option
     \<Rightarrow> manager_error + connection_plan" where
  "plan_codex_connect ext host scope profile descriptor fs old =
     bindR (host_snapshot_text (hf_original fs)) (\<lambda>text.
     bindR (validate_codex_document ext text) (\<lambda>_.
     bindR (find_codex_block text) (\<lambda>current.
     if current = None \<and> contains_unmanaged_codex_table text
     then Inl (HostConflict UnmanagedCodexTable)
     else bindR (codex_block ext descriptor profile) (\<lambda>desired.
     if old = None \<and> current = Some desired then
       bindR (receipt_new ext host scope profile CodexMarkerBlock (JStr desired) False None
                (sha256 (hf_original fs)) (sha256 (hf_original fs)) True) (\<lambda>receipt.
       Inr \<lparr>cp_host = host, cp_scope = scope, cp_action = Adopt, cp_profile = Some profile,
            cp_files = fs, cp_restore = None, cp_adopted = True, cp_formatting_preserved = False,
            cp_write = Leave, cp_receipt_after = Some receipt, cp_remove_backup = False\<rparr>)
     else if old = None \<and> current \<noteq> None then Inl (HostConflict CodexBlockDiffersNoReceipt)
     else bindR (validate_current_ownership ext old (map_option JStr current) CodexMarkerBlock) (\<lambda>_.
     if current = Some desired
     then no_change_plan host scope AlreadyConnected (Some profile) fs (carried_adopted old)
     else
       bindR (install_codex_block text current desired) (\<lambda>updated.
       bindR (validate_codex_document ext updated) (\<lambda>_.
       bindR (receipt_new ext host scope profile CodexMarkerBlock (JStr desired)
                (carried_created old (hf_original fs)) None (carried_pre old (hf_original fs))
                (digest_bytes (hx_sha ext) updated) (carried_adopted old)) (\<lambda>receipt.
       Inr \<lparr>cp_host = host, cp_scope = scope,
            cp_action = (if current \<noteq> None then Update else Add), cp_profile = Some profile,
            cp_files = fs, cp_restore = None, cp_adopted = carried_adopted old,
            cp_formatting_preserved = False, cp_write = Write updated,
            cp_receipt_after = Some receipt, cp_remove_backup = False\<rparr>))))))))"

definition plan_json_connect ::
    "host_ext \<Rightarrow> host \<Rightarrow> scope \<Rightarrow> bytes \<Rightarrow> launch_descriptor \<Rightarrow> host_files \<Rightarrow> ownership_receipt option
     \<Rightarrow> opencode_version option \<Rightarrow> manager_error + connection_plan" where
  "plan_json_connect ext host scope profile descriptor fs old requested =
     bindR (parse_json_document ext (hf_original fs)) (\<lambda>document.
     bindR (if host = OpenCode
            then bindR (select_opencode_version document old requested) (\<lambda>v. Inr (Some v))
            else Inr None) (\<lambda>version.
     bindR (desired_json_entry host descriptor version) (\<lambda>desired.
     bindR (json_entry_path host version) (\<lambda>path.
     let current = get_json_path document path;
         matching = (case current of Some c \<Rightarrow> json_eq c desired | None \<Rightarrow> False) in
     bindR (if old \<noteq> None then
              bindR (validate_current_ownership ext old current JsonEntry) (\<lambda>_.
              Inr (if current \<noteq> None then Update else Add))
            else if matching then Inr Adopt
            else if current \<noteq> None then Inl (HostConflict UnmanagedJsonEntry)
            else Inr Add) (\<lambda>action.
     if matching \<and> old \<noteq> None
     then no_change_plan host scope AlreadyConnected (Some profile) fs (carried_adopted old)
     else
       bindR (if action = Adopt then
                if snap_bytes (hf_original fs) = None then Inl (HostConflict AdoptAbsentEntry)
                else Inr (Leave, sha256 (hf_original fs))
              else
                bindR (set_json_path document path desired) (\<lambda>document'.
                let encoded = encode_json_document ext document' in
                Inr (Write encoded, digest_bytes (hx_sha ext) encoded))) (\<lambda>(write, post).
       bindR (receipt_new ext host scope profile JsonEntry desired
                (action \<noteq> Adopt \<and> carried_created old (hf_original fs)) version
                (carried_pre old (hf_original fs)) post
                (action = Adopt \<or> carried_adopted old)) (\<lambda>receipt.
       Inr \<lparr>cp_host = host, cp_scope = scope, cp_action = action, cp_profile = Some profile,
            cp_files = fs, cp_restore = None, cp_adopted = (action = Adopt \<or> carried_adopted old),
            cp_formatting_preserved = False, cp_write = write,
            cp_receipt_after = Some receipt, cp_remove_backup = False\<rparr>)))))))"

definition plan_connect_at_version ::
    "host_ext \<Rightarrow> process \<Rightarrow> host \<Rightarrow> scope \<Rightarrow> bytes \<Rightarrow> launch_descriptor \<Rightarrow> path \<Rightarrow> path
     \<Rightarrow> opencode_version option \<Rightarrow> (manager_error, connection_plan) act" where
  "plan_connect_at_version ext pr host scope profile descriptor home project requested =
     (if host \<noteq> OpenCode \<and> requested \<noteq> None then throw (Usage OpenCodeVersionOnlyForOpenCode)
      else
        bindA (lift (validate_profile_name profile)) (\<lambda>_.
        bindA (read_host_files ext pr host scope home project) (\<lambda>fs.
        bindA (lift (decode_owner_receipt ext (hf_receipt_original fs) host scope)) (\<lambda>old.
        lift (if host = Codex then plan_codex_connect ext host scope profile descriptor fs old
              else plan_json_connect ext host scope profile descriptor fs old requested)))))"

definition plan_connect_at ::
    "host_ext \<Rightarrow> process \<Rightarrow> host \<Rightarrow> scope \<Rightarrow> bytes \<Rightarrow> launch_descriptor \<Rightarrow> path \<Rightarrow> path
     \<Rightarrow> (manager_error, connection_plan) act" where
  "plan_connect_at ext pr host scope profile descriptor home project =
     plan_connect_at_version ext pr host scope profile descriptor home project None"

definition plan_connect_version ::
    "host_ext \<Rightarrow> process \<Rightarrow> host \<Rightarrow> scope \<Rightarrow> bytes \<Rightarrow> launch_descriptor \<Rightarrow> path option
     \<Rightarrow> opencode_version option \<Rightarrow> (manager_error, connection_plan) act" where
  "plan_connect_version ext pr host scope profile descriptor explicit requested =
     bindA (user_home pr) (\<lambda>home.
     bindA (project_root pr explicit) (\<lambda>project.
     plan_connect_at_version ext pr host scope profile descriptor home project requested))"

definition plan_connect ::
    "host_ext \<Rightarrow> process \<Rightarrow> host \<Rightarrow> scope \<Rightarrow> bytes \<Rightarrow> launch_descriptor \<Rightarrow> path option
     \<Rightarrow> (manager_error, connection_plan) act" where
  "plan_connect ext pr host scope profile descriptor explicit =
     plan_connect_version ext pr host scope profile descriptor explicit None"

section \<open>Disconnecting\<close>

definition resolve_restore ::
    "host_ext \<Rightarrow> path \<Rightarrow> snapshot \<Rightarrow> ownership_receipt \<Rightarrow> target_write
     \<Rightarrow> (manager_error, restore_tier \<times> target_write \<times> bool) act" where
  "resolve_restore ext backup_path original r structural =
     (if or_adopted r then ret (Structural, structural, False)
      else
        bindA (read_snapshot (hx_sha ext) backup_path max_host_config_bytes ''host configuration backup'') (\<lambda>backup.
        let file_is_ours = (or_post_sha256 r \<noteq> [] \<and> sha256 original = or_post_sha256 r);
            backup_is_pre = (snap_bytes backup \<noteq> None \<and> or_pre_sha256 r \<noteq> [] \<and> sha256 backup = or_pre_sha256 r) in
        if file_is_ours \<and> (or_config_created r \<or> backup_is_pre) then
          ret (if or_config_created r then (ByteIdentical, Remove, True)
               else (ByteIdentical, case snap_bytes backup of None \<Rightarrow> Remove | Some b \<Rightarrow> Write b, True))
        else ret (Structural, structural, False)))"

definition disconnection ::
    "host \<Rightarrow> scope \<Rightarrow> host_files \<Rightarrow> ownership_receipt \<Rightarrow> bool \<Rightarrow> restore_tier \<times> target_write \<times> bool \<Rightarrow> connection_plan" where
  "disconnection host scope fs r preserved = (\<lambda>(restore, write, remove_backup).
     \<lparr>cp_host = host, cp_scope = scope, cp_action = RemoveEntry, cp_profile = Some (or_profile r),
      cp_files = fs, cp_restore = Some restore, cp_adopted = or_adopted r,
      cp_formatting_preserved = preserved, cp_write = write, cp_receipt_after = None,
      cp_remove_backup = remove_backup\<rparr>)"

definition codex_structural ::
    "host_ext \<Rightarrow> ownership_receipt \<Rightarrow> bytes \<Rightarrow> bytes option \<Rightarrow> manager_error + target_write" where
  "codex_structural ext r text current =
     bindR (validate_current_ownership ext (Some r) (map_option JStr current) CodexMarkerBlock) (\<lambda>_.
     case current of
       None \<Rightarrow> Inl InvalidOwnerReceipt
     | Some owned \<Rightarrow>
         bindR (remove_codex_block text owned (\<not> or_adopted r)) (\<lambda>removed.
         Inr (if or_config_created r \<and> str_blank removed then Remove else Write removed)))"

definition plan_codex_disconnect ::
    "host_ext \<Rightarrow> host \<Rightarrow> scope \<Rightarrow> host_files \<Rightarrow> ownership_receipt option
     \<Rightarrow> (manager_error, connection_plan) act" where
  "plan_codex_disconnect ext host scope fs receipt =
     bindA (lift (host_snapshot_text (hf_original fs))) (\<lambda>text.
     bindA (lift (validate_codex_document ext text)) (\<lambda>_.
     bindA (lift (find_codex_block text)) (\<lambda>current.
     case receipt of
       None \<Rightarrow>
         if current \<noteq> None \<or> contains_unmanaged_codex_table text
         then throw (HostConflict CodexEntryWithoutReceipt)
         else lift (no_change_plan host scope AlreadyDisconnected None fs False)
     | Some r \<Rightarrow>
         bindA (lift (codex_structural ext r text current)) (\<lambda>structural.
         bindA (resolve_restore ext (hf_backup_path fs) (hf_original fs) r structural) (\<lambda>outcome.
         ret (disconnection host scope fs r True outcome))))))"

text \<open>
  The write of a structural JSON removal, and whether it kept the formatting: the exact bytes of
  the entry are cut out when that can be shown to be right, otherwise the document is encoded anew.
\<close>

definition json_structural ::
    "host_ext \<Rightarrow> host \<Rightarrow> snapshot \<Rightarrow> ownership_receipt \<Rightarrow> json \<Rightarrow> json \<Rightarrow> manager_error + target_write \<times> bool" where
  "json_structural ext host original r before document =
     bindR (if or_config_created r
            then json_document_is_empty_shell host (or_open_code_version r) document
            else Inr False) (\<lambda>shell.
     if shell then Inr (Remove, False)
     else
       (case (case host_snapshot_text original of
                Inl _ \<Rightarrow> None
              | Inr text \<Rightarrow> excise (hx_json ext) text before document) of
          Some text \<Rightarrow> Inr (Write text, True)
        | None \<Rightarrow> Inr (Write (encode_json_document ext document), False)))"

definition json_removal ::
    "host_ext \<Rightarrow> host \<Rightarrow> snapshot \<Rightarrow> ownership_receipt \<Rightarrow> json \<Rightarrow> manager_error + target_write \<times> bool" where
  "json_removal ext host original r before =
     bindR (json_entry_path host (or_open_code_version r)) (\<lambda>path.
     bindR (if host = OpenCode then
              bindR (opencode_shape_state before) (\<lambda>state.
              case or_open_code_version r of
                None \<Rightarrow> Inl (Panicked ''validated OpenCode receipt'')
              | Some v \<Rightarrow> if conflicts_with state v then Inl (HostConflict BothOpenCodeShapes) else Inr ())
            else Inr ()) (\<lambda>_.
     bindR (validate_current_ownership ext (Some r) (get_json_path before path) JsonEntry) (\<lambda>_.
     case get_json_path before path of
       None \<Rightarrow> Inl InvalidOwnerReceipt
     | Some owned \<Rightarrow>
         bindR (remove_json_path before path) (\<lambda>document.
         json_structural ext host original r before document))))"

definition has_json_entry :: "host \<Rightarrow> json \<Rightarrow> manager_error + bool" where
  "has_json_entry host document =
     (if host = OpenCode then bindR (opencode_shape_state document) (\<lambda>state. Inr (has_any_entry state))
      else bindR (json_entry_path host None) (\<lambda>path. Inr (get_json_path document path \<noteq> None)))"

definition plan_json_disconnect ::
    "host_ext \<Rightarrow> host \<Rightarrow> scope \<Rightarrow> host_files \<Rightarrow> ownership_receipt option
     \<Rightarrow> (manager_error, connection_plan) act" where
  "plan_json_disconnect ext host scope fs receipt =
     bindA (lift (parse_json_document ext (hf_original fs))) (\<lambda>document.
     case receipt of
       None \<Rightarrow>
         bindA (lift (has_json_entry host document)) (\<lambda>there.
         if there then throw (HostConflict JsonEntryWithoutReceipt)
         else lift (no_change_plan host scope AlreadyDisconnected None fs False))
     | Some r \<Rightarrow>
         bindA (lift (json_removal ext host (hf_original fs) r document)) (\<lambda>(structural, preserved).
         bindA (resolve_restore ext (hf_backup_path fs) (hf_original fs) r structural) (\<lambda>outcome.
         ret (disconnection host scope fs r preserved outcome))))"

definition plan_disconnect_at ::
    "host_ext \<Rightarrow> process \<Rightarrow> host \<Rightarrow> scope \<Rightarrow> path \<Rightarrow> path \<Rightarrow> (manager_error, connection_plan) act" where
  "plan_disconnect_at ext pr host scope home project =
     bindA (read_host_files ext pr host scope home project) (\<lambda>fs.
     bindA (lift (decode_owner_receipt ext (hf_receipt_original fs) host scope)) (\<lambda>receipt.
     if host = Codex then plan_codex_disconnect ext host scope fs receipt
     else plan_json_disconnect ext host scope fs receipt))"

definition plan_disconnect ::
    "host_ext \<Rightarrow> process \<Rightarrow> host \<Rightarrow> scope \<Rightarrow> path option \<Rightarrow> (manager_error, connection_plan) act" where
  "plan_disconnect ext pr host scope explicit =
     bindA (user_home pr) (\<lambda>home.
     bindA (project_root pr explicit) (\<lambda>project.
     plan_disconnect_at ext pr host scope home project))"

definition inspect_owned_connection ::
    "host_ext \<Rightarrow> process \<Rightarrow> host \<Rightarrow> scope \<Rightarrow> path option \<Rightarrow> (manager_error, bytes option) act" where
  "inspect_owned_connection ext pr host scope explicit =
     bindA (plan_disconnect ext pr host scope explicit) (\<lambda>plan.
       case cp_action plan of
         AlreadyDisconnected \<Rightarrow> ret None
       | RemoveEntry \<Rightarrow> ret (cp_profile plan)
       | _ \<Rightarrow> throw InvalidOwnerReceipt)"

fun collect_paths ::
    "process \<Rightarrow> path \<Rightarrow> path \<Rightarrow> (host \<times> scope) list \<Rightarrow> manager_error + ((host \<times> scope) \<times> path) list" where
  "collect_paths pr home project [] = Inr []"
| "collect_paths pr home project ((h, s) # rest) =
     bindR (host_config_path pr h s home project) (\<lambda>p.
     bindR (collect_paths pr home project rest) (\<lambda>ps. Inr (((h, s), p) # ps)))"

definition canonical_paths ::
    "process \<Rightarrow> path option \<Rightarrow> (manager_error, ((host \<times> scope) \<times> path) list) act" where
  "canonical_paths pr explicit =
     bindA (user_home pr) (\<lambda>home.
     bindA (project_root pr explicit) (\<lambda>project.
     lift (collect_paths pr home project (List.product all_hosts [UserScope, ProjectScope]))))"

section \<open>Applying a plan\<close>

definition connection_is_noop :: "connection_plan \<Rightarrow> bool" where
  "connection_is_noop plan \<longleftrightarrow> cp_action plan = AlreadyConnected \<or> cp_action plan = AlreadyDisconnected"

definition connection_change :: "host_ext \<Rightarrow> connection_plan \<Rightarrow> change" where
  "connection_change ext plan =
     \<lparr>ch_target = hf_target (cp_files plan), ch_receipt_path = hf_receipt_path (cp_files plan),
      ch_backup_path = hf_backup_path (cp_files plan), ch_undoing = (cp_restore plan \<noteq> None),
      ch_original = hf_original (cp_files plan), ch_receipt_original = hf_receipt_original (cp_files plan),
      ch_write = cp_write plan,
      ch_receipt_bytes = map_option (owner_receipt_encode ext) (cp_receipt_after plan),
      ch_remove_backup = cp_remove_backup plan,
      ch_max = max_host_config_bytes, ch_max_receipt = max_owner_receipt_bytes,
      ch_label = ''host configuration'', ch_receipt_label = ''connection owner receipt'',
      ch_unchecked_rollback = False\<rparr>"

definition connection_apply :: "host_ext \<Rightarrow> connection_plan \<Rightarrow> (manager_error, unit) act" where
  "connection_apply ext plan =
     (if connection_is_noop plan then ret ()
      else apply_change (hx_sha ext) (connection_change ext plan))"

definition connection_backup_after :: "connection_plan \<Rightarrow> bool \<Rightarrow> ('e, path option) act" where
  "connection_backup_after plan dry_run =
     (if dry_run \<and> cp_restore plan = None \<and> \<not> is_leave (cp_write plan)
      then ret (Some (hf_backup_path (cp_files plan)))
      else if dry_run \<and> cp_remove_backup plan then ret None
      else bindA (path_exists (hf_backup_path (cp_files plan))) (\<lambda>there.
             ret (if there then Some (hf_backup_path (cp_files plan)) else None)))"

fun change_action_str :: "change_action \<Rightarrow> string" where
  "change_action_str Add = ''add''"
| "change_action_str Adopt = ''adopt''"
| "change_action_str Update = ''update''"
| "change_action_str RemoveEntry = ''remove''"
| "change_action_str AlreadyConnected = ''already_connected''"
| "change_action_str AlreadyDisconnected = ''already_disconnected''"

fun restore_tier_str :: "restore_tier \<Rightarrow> string" where
  "restore_tier_str ByteIdentical = ''byte_identical''"
| "restore_tier_str Structural = ''structural''"
| "restore_tier_str AdoptedLeftInPlace = ''adopted_left_in_place''"

text \<open>\<^verbatim>\<open>json!\<close> of a path unwraps serde's answer, which is an error for a path that is not UTF-8.\<close>

definition json_path :: "path \<Rightarrow> manager_error + json" where
  "json_path p = (case path_to_str p of Some s \<Rightarrow> Inr (JStr s) | None \<Rightarrow> Inl (Panicked ''json!''))"

definition connection_summary :: "connection_plan \<Rightarrow> bool \<Rightarrow> (manager_error, json) act" where
  "connection_summary plan dry_run =
     bindA (lift (json_path (hf_target (cp_files plan)))) (\<lambda>target.
     bindA (lift (json_path (hf_receipt_path (cp_files plan)))) (\<lambda>receipt.
     bindA (connection_backup_after plan dry_run) (\<lambda>backup.
     bindA (lift (case backup of None \<Rightarrow> Inr JNull | Some p \<Rightarrow> json_path p)) (\<lambda>backup_json.
     ret (JObj
       ([(''version'', JNum ''1''),
         (''status'', JStr (if dry_run then ''dry_run'' else if connection_is_noop plan then ''unchanged''
                            else ''applied'')),
         (''action'', JStr (change_action_str (cp_action plan))),
         (''host'', JStr (host_serde (cp_host plan))),
         (''scope'', JStr (scope_as_str (cp_scope plan))),
         (''profile'', case cp_profile plan of None \<Rightarrow> JNull | Some p \<Rightarrow> JStr p),
         (''target'', target), (''owner_receipt'', receipt), (''backup'', backup_json)]
        @ (case cp_restore plan of
             None \<Rightarrow> []
           | Some tier \<Rightarrow>
               (''restore'', JStr (restore_tier_str tier)) #
               (if tier = Structural
                then [(''formatting'', JStr (if cp_formatting_preserved plan then ''preserved'' else ''normalized''))]
                else []))
        @ (if cp_adopted plan then [(''adopted'', JBool True)] else [])
        @ (if cp_action plan = Adopt
           then [(''detail'', JStr ''existing content is byte-identical to the manager's; the owner receipt was written and no bytes were changed'')]
           else [])))))))"

definition writes_nothing :: "connection_plan \<Rightarrow> bool" where
  "writes_nothing plan = is_leave (cp_write plan)"

end
