(* ===== verification/Host_Plans.thy ===== *)
theory Host_Plans
  imports Host_Config Json_Span_Correct Plan_Apply_Safety Marker_Block Instructions_Correct
begin

text \<open>
  The laws of the three document operations of \<^verbatim>\<open>host.rs\<close> that reach into a JSON document by a
  path of keys, stated as a locale, the contract the connection planners rely on, and proved of
  the operations. A path that neither leads to nor comes from the edited one is unaffected.
\<close>

definition apart :: "bytes list \<Rightarrow> bytes list \<Rightarrow> bool" where
  "apart p q \<longleftrightarrow> \<not> prefix p q \<and> \<not> prefix q p"

lemma apart_Cons [simp]: "apart (k # p) (k' # q) \<longleftrightarrow> k \<noteq> k' \<or> apart p q"
  by (auto simp: apart_def)

lemma apart_Nil [simp]: "\<not> apart p []" "\<not> apart [] p"
  by (auto simp: apart_def)

section \<open>Reading after writing\<close>

lemma get_Nil_object: "qs \<noteq> [] \<Longrightarrow> get_json_path (JObj []) qs = None"
  by (cases qs) (simp_all add: json_get_def)

lemma get_set_member: "set_member v ks l m = Inr v' \<Longrightarrow> get_json_path v' (ks @ [l]) = Some m"
  by (induction v ks l m arbitrary: v' rule: set_member.induct)
    (auto simp: json_get_def bindR_eq_Inr Let_def split: json.splits)

lemma get_set_member_apart:
  "set_member v ks l m = Inr v' \<Longrightarrow> apart (ks @ [l]) q \<Longrightarrow> get_json_path v' q = get_json_path v q"
proof (induction v ks l m arbitrary: v' q rule: set_member.induct)
  case (1 v l m)
  then show ?case by (cases q) (auto simp: json_get_def split: json.splits)
next
  case (2 v k ks l m)
  from "2.prems"(1) obtain fs c' where v: "v = JObj fs" and v': "v' = JObj (obj_insert k c' fs)"
    and c': "set_member (case map_of fs k of Some c \<Rightarrow> c | None \<Rightarrow> JObj []) ks l m = Inr c'"
    by (auto simp: Let_def bindR_eq_Inr split: json.splits)
  from "2.prems"(2) obtain k' qs where q: "q = k' # qs" by (cases q) auto
  show ?case
  proof (cases "k' = k")
    case True
    with q "2.prems"(2) have qs: "apart (ks @ [l]) qs" by simp
    then have "qs \<noteq> []" by auto
    with "2.IH"[OF v refl c' qs] True show ?thesis
      by (cases "map_of fs k") (simp_all add: q v v' json_get_def get_Nil_object)
  qed (simp add: q v v' json_get_def)
qed

lemma wf_json_insert: "wf_json (JObj fs) \<Longrightarrow> wf_json m \<Longrightarrow> wf_json (JObj (obj_insert k m fs))"
  by (induction fs) (auto simp: set_keys_insert)

lemma wf_set_member: "set_member v ks l m = Inr v' \<Longrightarrow> wf_json v \<Longrightarrow> wf_json m \<Longrightarrow> wf_json v'"
proof (induction v ks l m arbitrary: v' rule: set_member.induct)
  case (1 v l m)
  then show ?case using wf_json_insert by (auto simp del: wf_json.simps split: json.splits)
next
  case (2 v k ks l m)
  from "2.prems"(1) obtain fs c' where v: "v = JObj fs" and v': "v' = JObj (obj_insert k c' fs)"
    and c': "set_member (case map_of fs k of Some c \<Rightarrow> c | None \<Rightarrow> JObj []) ks l m = Inr c'"
    by (auto simp: Let_def bindR_eq_Inr split: json.splits)
  have "wf_json (case map_of fs k of Some c \<Rightarrow> c | None \<Rightarrow> JObj [])"
    using "2.prems"(2) v wf_json_map_of by (auto split: option.splits)
  with "2.IH"[OF v refl c'] "2.prems"(2,3) show ?case unfolding v v' by (intro wf_json_insert) auto
qed

section \<open>Reading after removing\<close>

lemma wf_json_remove: "wf_json (JObj fs) \<Longrightarrow> wf_json (JObj (obj_remove k fs))"
  using mset_obj_remove[of fs k] by (auto simp: list_all_iff)

lemma get_remove_member:
  "remove_member v ks l = Inr v' \<Longrightarrow> wf_json v \<Longrightarrow>
     wf_json v' \<and> get_json_path v' (ks @ [l]) = None \<and> get_json_path v (ks @ [l]) \<noteq> None \<and>
     (\<forall>q. apart (ks @ [l]) q \<longrightarrow> get_json_path v' q = get_json_path v q)"
proof (induction v ks l arbitrary: v' rule: remove_member.induct)
  case (1 v l)
  then obtain fs where v: "v = JObj fs" and v': "v' = JObj (obj_remove l fs)" and l: "map_of fs l \<noteq> None"
    by (auto split: json.splits if_splits)
  have d: "distinct (map fst fs)" using "1.prems"(2) v by simp
  have "get_json_path v' q = get_json_path v q" if "apart ([] @ [l]) q" for q
    using that by (cases q) (auto simp: v v' json_get_def map_of_obj_remove[OF d])
  moreover have "wf_json v'" unfolding v' using wf_json_remove "1.prems"(2) v by blast
  ultimately show ?case using l by (auto simp: v v' json_get_def map_of_obj_remove[OF d])
next
  case (2 v k ks l)
  then obtain fs c c' where v: "v = JObj fs" and c: "map_of fs k = Some c" and v': "v' = JObj (obj_insert k c' fs)"
    and c': "remove_member c ks l = Inr c'"
    by (auto simp: bindR_eq_Inr split: json.splits option.splits)
  have wc: "wf_json c" using "2.prems"(2) v c wf_json_map_of by blast
  note ih = "2.IH"[OF v c c' wc]
  have "get_json_path v' q = get_json_path v q" if "apart ((k # ks) @ [l]) q" for q
    using that ih c by (cases q) (auto simp: v v' json_get_def)
  moreover have "wf_json v'" unfolding v' using ih "2.prems"(2) v by (intro wf_json_insert) auto
  ultimately show ?case using ih c by (auto simp: v v' json_get_def)
qed

section \<open>The contract\<close>

locale document_store =
  fixes wf :: "'d \<Rightarrow> bool" and ok_member :: "'v \<Rightarrow> bool"
    and get :: "'d \<Rightarrow> bytes list \<Rightarrow> 'v option"
    and set_path :: "'d \<Rightarrow> bytes list \<Rightarrow> 'v \<Rightarrow> 'e + 'd"
    and remove_path :: "'d \<Rightarrow> bytes list \<Rightarrow> 'e + 'd"
  assumes wf_set: "wf d \<Longrightarrow> ok_member m \<Longrightarrow> set_path d p m = Inr d' \<Longrightarrow> wf d'"
    and get_set: "set_path d p m = Inr d' \<Longrightarrow> get d' p = Some m"
    and get_set_apart: "set_path d p m = Inr d' \<Longrightarrow> apart p q \<Longrightarrow> get d' q = get d q"
    and wf_remove: "wf d \<Longrightarrow> remove_path d p = Inr d' \<Longrightarrow> wf d'"
    and get_remove: "wf d \<Longrightarrow> remove_path d p = Inr d' \<Longrightarrow> get d' p = None"
    and get_remove_apart: "wf d \<Longrightarrow> remove_path d p = Inr d' \<Longrightarrow> apart p q \<Longrightarrow> get d' q = get d q"
begin

lemma set_then_remove_apart:
  assumes "wf d" "ok_member m" "set_path d p m = Inr d1" "remove_path d1 p = Inr d2"
  shows "get d2 p = None \<and> (\<forall>q. apart p q \<longrightarrow> get d2 q = get d q)"
  using assms wf_set get_remove get_set_apart get_remove_apart by metis

end

interpretation documents: document_store wf_json wf_json get_json_path set_json_path remove_json_path
proof
  fix d m d' :: json and p q :: "bytes list"
  have snoc: "p \<noteq> [] \<Longrightarrow> butlast p @ [last p] = p" by simp
  show "wf_json d \<Longrightarrow> wf_json m \<Longrightarrow> set_json_path d p m = Inr d' \<Longrightarrow> wf_json d'"
    by (auto simp: set_json_path_def dest: wf_set_member split: if_splits)
  show "set_json_path d p m = Inr d' \<Longrightarrow> get_json_path d' p = Some m"
    using snoc get_set_member by (force simp: set_json_path_def split: if_splits)
  show "set_json_path d p m = Inr d' \<Longrightarrow> apart p q \<Longrightarrow> get_json_path d' q = get_json_path d q"
    using snoc get_set_member_apart by (metis set_json_path_def Inl_Inr_False)
  show "wf_json d \<Longrightarrow> remove_json_path d p = Inr d' \<Longrightarrow> wf_json d'"
    "wf_json d \<Longrightarrow> remove_json_path d p = Inr d' \<Longrightarrow> get_json_path d' p = None"
    using snoc get_remove_member by (metis remove_json_path_def Inl_Inr_False)+
  show "wf_json d \<Longrightarrow> remove_json_path d p = Inr d' \<Longrightarrow> apart p q \<Longrightarrow> get_json_path d' q = get_json_path d q"
    using snoc get_remove_member by (metis remove_json_path_def Inl_Inr_False)
qed

text \<open>An entry that is there can be removed.\<close>

lemma remove_member_total: "get_json_path v (ks @ [l]) \<noteq> None \<Longrightarrow> \<exists>v'. remove_member v ks l = Inr v'"
  by (induction v ks l rule: remove_member.induct)
    (auto simp: json_get_def bindR_eq_Inr split: json.splits option.splits)

lemma remove_json_path_total:
  assumes "get_json_path v p \<noteq> None" "p \<noteq> []"
  shows "\<exists>v'. remove_json_path v p = Inr v'"
  using remove_member_total[of v "butlast p" "last p"] assms by (simp add: remove_json_path_def)

section \<open>Equal documents\<close>

lemma json_eq_trans:
  "json_eq a b \<Longrightarrow> json_eq b c \<Longrightarrow> wf_json a \<Longrightarrow> wf_json b \<Longrightarrow> wf_json c \<Longrightarrow> json_eq a c"
proof (induction a b arbitrary: c rule: json_eq.induct)
  case (5 xs ys)
  from "5.prems"(2) obtain zs where c: "c = JArr zs" by (cases c) simp_all
  have len: "length xs = length ys" "length ys = length zs" using "5.prems" c by simp_all
  have "json_eq (xs ! i) (zs ! i)" if i: "i < length xs" for i
  proof (rule "5.IH"[of "(xs ! i, ys ! i)"])
    show "(xs ! i, ys ! i) \<in> set (zip xs ys)" using i len by (auto simp: in_set_zip)
  qed (use "5.prems" c i len in \<open>auto simp: list_all_length\<close>)
  with len show ?case unfolding c by (simp add: list_all_length)
next
  case (6 xs ys)
  from "6.prems"(2) obtain zs where c: "c = JObj zs" by (cases c) simp_all
  have d: "distinct (map fst xs)" "distinct (map fst ys)" "distinct (map fst zs)" using "6.prems" c by simp_all
  note e1 = "6.prems"(1)[unfolded json_eq_obj[OF d(1,2)]] and e2 = "6.prems"(2)[unfolded c json_eq_obj[OF d(2,3)]]
  have "json_eq v v''" if v: "map_of xs k = Some v" "map_of zs k = Some v''" for k v v''
  proof -
    obtain v' where v': "map_of ys k = Some v'" using e1 v(1) by blast
    show ?thesis
    proof (rule "6.IH"[OF map_of_SomeD[OF v(1)] refl v'])
      show "json_eq v v'" "json_eq v' v''" using e1 e2 v v' by blast+
      show "wf_json v" "wf_json v'" "wf_json v''"
        using "6.prems"(3,4,5) c v v' wf_json_map_of by blast+
    qed
  qed
  with e1 e2 show ?case unfolding c json_eq_obj[OF d(1,3)] by simp
qed simp_all

text \<open>Equal documents have equal values, or none, under every path.\<close>

lemma json_eq_get:
  "json_eq a b \<Longrightarrow> wf_json a \<Longrightarrow> wf_json b \<Longrightarrow> rel_option json_eq (get_json_path a q) (get_json_path b q)"
proof (induction q arbitrary: a b)
  case (Cons k q)
  show ?case
  proof (cases "\<exists>xs ys. a = JObj xs \<and> b = JObj ys")
    case True
    then obtain xs ys where ab: "a = JObj xs" "b = JObj ys" by blast
    have d: "distinct (map fst xs)" "distinct (map fst ys)" using Cons.prems ab by simp_all
    note e = Cons.prems(1)[unfolded ab json_eq_obj[OF d]]
    show ?thesis
    proof (cases "map_of xs k")
      case None
      then have "map_of ys k = None" using e by (metis domIff)
      with None show ?thesis by (simp add: ab json_get_def)
    next
      case (Some v)
      then obtain v' where v': "map_of ys k = Some v'" using e by blast
      have "json_eq v v'" "wf_json v" "wf_json v'" using e Some v' Cons.prems(2,3) ab wf_json_map_of by blast+
      with Cons.IH Some v' show ?thesis by (simp add: ab json_get_def)
    qed
  next
    case False
    then have "json_get a k = None" "json_get b k = None"
      using Cons.prems(1) by (cases a; cases b; simp add: json_get_def)+
    then show ?thesis by simp
  qed
qed simp

text \<open>
  The connection planners against the file view: what they read, that they change nothing, and
  the shape of every plan they return.
\<close>

section \<open>Planning only reads\<close>

lemma read_host_config_Inr:
  assumes "read_host_config ext p w = (Inr s, w')"
  shows "read_snapshot (hx_sha ext) p max_host_config_bytes ''host configuration'' w = (Inr s, w')"
  using assms by (auto simp: read_host_config_def refuse_unbounded_def act_run split: if_splits)

lemma read_host_files_Inr:
  assumes "read_host_files ext pr host scope home project w = (Inr fs, w')"
  shows "host_config_path pr host scope home project = Inr (hf_target fs)"
    "sibling_path (hf_target fs) owner_receipt_suffix = Inr (hf_receipt_path fs)"
    "sibling_path (hf_target fs) backup_suffix = Inr (hf_backup_path fs)"
    "hf_original fs = snapshot_of (hx_sha ext) (content w (hf_target fs))"
    "hf_receipt_original fs = snapshot_of (hx_sha ext) (content w (hf_receipt_path fs))"
    "content w' = content w"
    "fits w (hf_target fs) max_host_config_bytes" "fits w (hf_receipt_path fs) max_owner_receipt_bytes"
proof -
  from assms obtain w1 where
    1: "read_snapshot (hx_sha ext) (hf_target fs) max_host_config_bytes ''host configuration'' w = (Inr (hf_original fs), w1)"
    and 2: "read_snapshot (hx_sha ext) (hf_receipt_path fs) max_owner_receipt_bytes ''connection owner receipt'' w1 =
      (Inr (hf_receipt_original fs), w')"
    and p: "host_config_path pr host scope home project = Inr (hf_target fs)"
      "sibling_path (hf_target fs) owner_receipt_suffix = Inr (hf_receipt_path fs)"
      "sibling_path (hf_target fs) backup_suffix = Inr (hf_backup_path fs)"
    by (auto simp: read_host_files_def act_run dest!: read_host_config_Inr)
  show "host_config_path pr host scope home project = Inr (hf_target fs)"
    "sibling_path (hf_target fs) owner_receipt_suffix = Inr (hf_receipt_path fs)"
    "sibling_path (hf_target fs) backup_suffix = Inr (hf_backup_path fs)" by (fact p)+
  show "hf_original fs = snapshot_of (hx_sha ext) (content w (hf_target fs))"
    "hf_receipt_original fs = snapshot_of (hx_sha ext) (content w (hf_receipt_path fs))"
    "content w' = content w"
    using read_snapshot_Inr(1,2)[OF 1] read_snapshot_Inr(1,2)[OF 2] by auto
  show "fits w (hf_target fs) max_host_config_bytes" "fits w (hf_receipt_path fs) max_owner_receipt_bytes"
    using read_snapshot_Inr(1,2,4)[OF 1] read_snapshot_Inr(1,4)[OF 2] by (auto simp: fits_def split: option.splits)
qed

context step_relation
begin

lemma keeps_read_host_config [keeps_intro]: "keeps R (read_host_config ext p)"
  unfolding read_host_config_def refuse_unbounded_def by (auto intro!: keeps_intro)

lemma keeps_read_host_files [keeps_intro]: "keeps R (read_host_files ext pr host scope home project)"
  unfolding read_host_files_def by (auto intro!: keeps_intro)

lemma keeps_resolve_restore [keeps_intro]: "keeps R (resolve_restore ext bp orig r structural)"
  unfolding resolve_restore_def Let_def by (auto intro!: keeps_intro)

lemma keeps_plan_connect: "keeps R (plan_connect_at_version ext pr host scope profile d home project requested)"
  unfolding plan_connect_at_version_def by (auto intro!: keeps_intro)

lemma keeps_plan_disconnect: "keeps R (plan_disconnect_at ext pr host scope home project)"
  unfolding plan_disconnect_at_def plan_codex_disconnect_def plan_json_disconnect_def
  by (auto intro!: keeps_intro split: option.splits prod.splits)

end

section \<open>The stages of a connection\<close>

lemma connect_stages:
  assumes "plan_connect_at_version ext pr host scope profile d home project requested w = (Inr p, w')"
  obtains fs old where "read_host_files ext pr host scope home project w = (Inr fs, w')"
    "validate_profile_name profile = Inr ()"
    "decode_owner_receipt ext (hf_receipt_original fs) host scope = Inr old"
    "(if host = Codex then plan_codex_connect ext host scope profile d fs old
      else plan_json_connect ext host scope profile d fs old requested) = Inr p"
  using assms
  by (auto simp: plan_connect_at_version_def act_run split: if_splits) metis+

lemma receipt_new_fields:
  assumes "receipt_new ext host scope profile fmt owned created version pre post adopted = Inr r"
  shows "or_host r = host" "or_scope r = scope" "or_profile r = profile" "or_format r = fmt"
    "or_owned r = owned" "or_open_code_version r = version" "or_pre_sha256 r = pre" "or_post_sha256 r = post"
    "or_config_created r = created" "or_adopted r = adopted"
    "owned_digest ext fmt owned = Inr (or_owned_sha256 r)" "validate_profile_name profile = Inr ()"
    "or_version r = owner_receipt_version" "or_owner r = host_owner"
  using assms by (auto simp: receipt_new_def bindR_eq_Inr)

lemma no_change_plan_Inr:
  assumes "no_change_plan host scope action profile fs adopted = Inr p"
  shows "cp_files p = fs" "cp_action p = action" "cp_write p = Leave" "cp_restore p = None"
    "cp_profile p = profile" "cp_receipt_after p = None" "cp_remove_backup p = False"
    "\<not> (action = AlreadyConnected \<and> snap_bytes (hf_receipt_original fs) = None)"
  using assms by (auto simp: no_change_plan_def split: if_splits)

text \<open>The three kinds of plan a JSON connection ends in.\<close>

definition json_version :: "host \<Rightarrow> json \<Rightarrow> ownership_receipt option \<Rightarrow> opencode_version option
    \<Rightarrow> opencode_version option \<Rightarrow> bool" where
  "json_version host doc old requested version \<longleftrightarrow>
     (if host = OpenCode then \<exists>v. version = Some v \<and> select_opencode_version doc old requested = Inr v
      else version = None)"

lemma json_connect_cases:
  assumes "plan_json_connect ext host scope profile d fs old requested = Inr p"
  obtains doc version desired path where
    "parse_json_document ext (hf_original fs) = Inr doc" "json_version host doc old requested version"
    "desired_json_entry host d version = Inr desired" "json_entry_path host version = Inr path"
    "cp_files p = fs" "cp_restore p = None" "\<not> cp_remove_backup p"
    "(cp_action p = AlreadyConnected \<and> cp_write p = Leave \<and> cp_receipt_after p = None \<and> old \<noteq> None \<and>
        (\<exists>c. get_json_path doc path = Some c \<and> json_eq c desired)) \<or>
     (cp_action p = Adopt \<and> cp_write p = Leave \<and> old = None \<and> snap_bytes (hf_original fs) \<noteq> None \<and>
        (\<exists>c. get_json_path doc path = Some c \<and> json_eq c desired) \<and>
        (\<exists>r. cp_receipt_after p = Some r \<and>
          receipt_new ext host scope profile JsonEntry desired False version
            (sha256 (hf_original fs)) (sha256 (hf_original fs)) True = Inr r)) \<or>
     (cp_action p = (if get_json_path doc path = None then Add else Update) \<and>
        (case old of None \<Rightarrow> get_json_path doc path = None
         | Some r \<Rightarrow> validate_current_ownership ext (Some r) (get_json_path doc path) JsonEntry = Inr ()) \<and>
        (\<exists>doc' r. set_json_path doc path desired = Inr doc' \<and> cp_write p = Write (encode_json_document ext doc') \<and>
          cp_receipt_after p = Some r \<and>
          receipt_new ext host scope profile JsonEntry desired (carried_created old (hf_original fs)) version
            (carried_pre old (hf_original fs)) (digest_bytes (hx_sha ext) (encode_json_document ext doc'))
            (carried_adopted old) = Inr r))"
proof -
  from assms obtain doc where doc: "parse_json_document ext (hf_original fs) = Inr doc"
    unfolding plan_json_connect_def by (cases "parse_json_document ext (hf_original fs)") simp_all
  let ?v = "if host = OpenCode
            then bindR (select_opencode_version doc old requested) (\<lambda>v. Inr (Some v))
            else Inr None"
  from assms obtain version where ver: "?v = Inr version"
    unfolding plan_json_connect_def doc bindR_Inr by (cases ?v) (simp_all only: bindR_Inl, simp)
  from assms obtain desired where des: "desired_json_entry host d version = Inr desired"
    unfolding plan_json_connect_def doc bindR_Inr ver by (cases "desired_json_entry host d version") simp_all
  from assms obtain path where path: "json_entry_path host version = Inr path"
    unfolding plan_json_connect_def doc bindR_Inr ver des by (cases "json_entry_path host version") simp_all
  have "json_version host doc old requested version"
    using ver by (auto simp: json_version_def bindR_eq_Inr split: if_splits)
  note st = doc this des path
  let ?cur = "get_json_path doc path"
  let ?m = "case ?cur of Some c \<Rightarrow> json_eq c desired | None \<Rightarrow> False"
  have m: "?m \<longleftrightarrow> (\<exists>c. ?cur = Some c \<and> json_eq c desired)" by (auto split: option.splits)
  note run = assms[unfolded plan_json_connect_def st ver bindR_Inr Let_def]
  show thesis
  proof (rule that[OF st])
    show "cp_files p = fs" "cp_restore p = None" "\<not> cp_remove_backup p"
      using run by (auto simp: bindR_eq_Inr no_change_plan_Inr split: if_splits)
    show "(cp_action p = AlreadyConnected \<and> cp_write p = Leave \<and> cp_receipt_after p = None \<and> old \<noteq> None \<and>
        (\<exists>c. ?cur = Some c \<and> json_eq c desired)) \<or>
     (cp_action p = Adopt \<and> cp_write p = Leave \<and> old = None \<and> snap_bytes (hf_original fs) \<noteq> None \<and>
        (\<exists>c. ?cur = Some c \<and> json_eq c desired) \<and>
        (\<exists>r. cp_receipt_after p = Some r \<and>
          receipt_new ext host scope profile JsonEntry desired False version
            (sha256 (hf_original fs)) (sha256 (hf_original fs)) True = Inr r)) \<or>
     (cp_action p = (if ?cur = None then Add else Update) \<and>
        (case old of None \<Rightarrow> ?cur = None
         | Some r \<Rightarrow> validate_current_ownership ext (Some r) ?cur JsonEntry = Inr ()) \<and>
        (\<exists>doc' r. set_json_path doc path desired = Inr doc' \<and> cp_write p = Write (encode_json_document ext doc') \<and>
          cp_receipt_after p = Some r \<and>
          receipt_new ext host scope profile JsonEntry desired (carried_created old (hf_original fs)) version
            (carried_pre old (hf_original fs)) (digest_bytes (hx_sha ext) (encode_json_document ext doc'))
            (carried_adopted old) = Inr r))"
    proof (cases old)
      case None
      then show ?thesis using run unfolding m
        by (auto simp: bindR_eq_Inr carried_adopted_def carried_pre_def carried_created_def split: if_splits)
    next
      case (Some r)
      show ?thesis
      proof (cases "\<exists>c. ?cur = Some c \<and> json_eq c desired")
        case True
        then show ?thesis using run Some unfolding m by (auto simp: bindR_eq_Inr no_change_plan_Inr)
      next
        case False
        then show ?thesis using run Some unfolding m by (auto simp: bindR_eq_Inr split: if_splits)
      qed
    qed
  qed
qed

text \<open>The three kinds of plan a Codex connection ends in.\<close>

lemma codex_connect_cases:
  assumes "plan_codex_connect ext host scope profile d fs old = Inr p"
  obtains tx current desired where
    "host_snapshot_text (hf_original fs) = Inr tx" "validate_codex_document ext tx = Inr ()"
    "find_codex_block tx = Inr current" "codex_block ext d profile = Inr desired"
    "cp_files p = fs" "cp_restore p = None" "\<not> cp_remove_backup p"
    "(cp_action p = AlreadyConnected \<and> cp_write p = Leave \<and> cp_receipt_after p = None \<and> old \<noteq> None \<and>
        current = Some desired) \<or>
     (cp_action p = Adopt \<and> cp_write p = Leave \<and> old = None \<and> current = Some desired \<and>
        (\<exists>r. cp_receipt_after p = Some r \<and>
          receipt_new ext host scope profile CodexMarkerBlock (JStr desired) False None
            (sha256 (hf_original fs)) (sha256 (hf_original fs)) True = Inr r)) \<or>
     (cp_action p = (if current = None then Add else Update) \<and>
        (case old of None \<Rightarrow> current = None
         | Some r \<Rightarrow> validate_current_ownership ext (Some r) (map_option JStr current) CodexMarkerBlock = Inr ()) \<and>
        (\<exists>updated r. install_codex_block tx current desired = Inr updated \<and> cp_write p = Write updated \<and>
          validate_codex_document ext updated = Inr () \<and> cp_receipt_after p = Some r \<and>
          receipt_new ext host scope profile CodexMarkerBlock (JStr desired) (carried_created old (hf_original fs)) None
            (carried_pre old (hf_original fs)) (digest_bytes (hx_sha ext) updated) (carried_adopted old) = Inr r))"
proof -
  from assms obtain tx current where
    st: "host_snapshot_text (hf_original fs) = Inr tx" "validate_codex_document ext tx = Inr ()"
      "find_codex_block tx = Inr current"
    unfolding plan_codex_connect_def bindR_eq_Inr by auto
  note run = assms[unfolded plan_codex_connect_def st bindR_Inr]
  from run obtain desired where des: "codex_block ext d profile = Inr desired"
    by (cases "codex_block ext d profile") (simp_all split: if_splits)
  note run = run[unfolded des bindR_Inr]
  show thesis
  proof (rule that[OF st des])
    show "cp_files p = fs" "cp_restore p = None" "\<not> cp_remove_backup p"
      using run by (auto simp: bindR_eq_Inr no_change_plan_Inr split: if_splits)
    show "(cp_action p = AlreadyConnected \<and> cp_write p = Leave \<and> cp_receipt_after p = None \<and> old \<noteq> None \<and>
        current = Some desired) \<or>
     (cp_action p = Adopt \<and> cp_write p = Leave \<and> old = None \<and> current = Some desired \<and>
        (\<exists>r. cp_receipt_after p = Some r \<and>
          receipt_new ext host scope profile CodexMarkerBlock (JStr desired) False None
            (sha256 (hf_original fs)) (sha256 (hf_original fs)) True = Inr r)) \<or>
     (cp_action p = (if current = None then Add else Update) \<and>
        (case old of None \<Rightarrow> current = None
         | Some r \<Rightarrow> validate_current_ownership ext (Some r) (map_option JStr current) CodexMarkerBlock = Inr ()) \<and>
        (\<exists>updated r. install_codex_block tx current desired = Inr updated \<and> cp_write p = Write updated \<and>
          validate_codex_document ext updated = Inr () \<and> cp_receipt_after p = Some r \<and>
          receipt_new ext host scope profile CodexMarkerBlock (JStr desired) (carried_created old (hf_original fs)) None
            (carried_pre old (hf_original fs)) (digest_bytes (hx_sha ext) updated) (carried_adopted old) = Inr r))"
      using run by (cases old) (auto simp: bindR_eq_Inr no_change_plan_Inr split: if_splits)
  qed
qed

text \<open>An \<open>Add\<close> has no older receipt: with one, the entry it records would have to be there.\<close>

lemma connect_Add:
  assumes "(if host = Codex then plan_codex_connect ext host scope profile d fs old
      else plan_json_connect ext host scope profile d fs old requested) = Inr p" "cp_action p = Add"
  shows "cp_files p = fs \<and> cp_restore p = None \<and> \<not> cp_remove_backup p \<and> old = None"
proof (cases "host = Codex")
  case True
  with assms(1) have "plan_codex_connect ext host scope profile d fs old = Inr p" by simp
  then show ?thesis
  proof (cases rule: codex_connect_cases)
    case (1 tx current desired)
    with assms(2) show ?thesis by (cases old) (auto simp: validate_current_ownership_def split: if_splits)
  qed
next
  case False
  with assms(1) have "plan_json_connect ext host scope profile d fs old requested = Inr p" by simp
  then show ?thesis
  proof (cases rule: json_connect_cases)
    case (1 doc version desired path)
    with assms(2) show ?thesis by (cases old) (auto simp: validate_current_ownership_def split: if_splits)
  qed
qed

section \<open>The stages of a disconnection\<close>

lemma disconnect_stages:
  assumes "plan_disconnect_at ext pr host scope home project w = (Inr p, w')"
  obtains fs receipt w1 where "read_host_files ext pr host scope home project w = (Inr fs, w1)"
    "decode_owner_receipt ext (hf_receipt_original fs) host scope = Inr receipt"
    "(if host = Codex then plan_codex_disconnect ext host scope fs receipt
      else plan_json_disconnect ext host scope fs receipt) w1 = (Inr p, w')"
  using assms that by (auto simp: plan_disconnect_at_def bindA_eq_Inr lift_Inr simp del: lift_eq)

lemma disconnection_fields [simp]:
  "cp_files (disconnection host scope fs r pres o3) = fs"
  "cp_action (disconnection host scope fs r pres o3) = RemoveEntry"
  "cp_restore (disconnection host scope fs r pres o3) = Some (fst o3)"
  "cp_write (disconnection host scope fs r pres o3) = fst (snd o3)"
  "cp_remove_backup (disconnection host scope fs r pres o3) = snd (snd o3)"
  "cp_receipt_after (disconnection host scope fs r pres o3) = None"
  "cp_formatting_preserved (disconnection host scope fs r pres o3) = pres"
  "cp_profile (disconnection host scope fs r pres o3) = Some (or_profile r)"
  by (simp_all add: disconnection_def split: prod.splits)

text \<open>
  A disconnection either finds nothing of the manager's, or has a receipt whose structural write
  it computed, and chose between that and the exact restore.
\<close>

definition structural_of ::
    "host_ext \<Rightarrow> host \<Rightarrow> host_files \<Rightarrow> ownership_receipt \<Rightarrow> target_write \<Rightarrow> bool \<Rightarrow> bool" where
  "structural_of ext host fs r structural preserved \<longleftrightarrow>
     (if host = Codex then
        preserved \<and> (\<exists>tx current. host_snapshot_text (hf_original fs) = Inr tx \<and>
          validate_codex_document ext tx = Inr () \<and> find_codex_block tx = Inr current \<and>
          codex_structural ext r tx current = Inr structural)
      else \<exists>doc. parse_json_document ext (hf_original fs) = Inr doc \<and>
          json_removal ext host (hf_original fs) r doc = Inr (structural, preserved))"

lemma disconnect_cases:
  assumes "plan_disconnect_at ext pr host scope home project w = (Inr p, w')"
  obtains fs receipt w1 where "read_host_files ext pr host scope home project w = (Inr fs, w1)"
    "decode_owner_receipt ext (hf_receipt_original fs) host scope = Inr receipt" "cp_files p = fs"
    "receipt = None \<and> cp_action p = AlreadyDisconnected \<and> cp_write p = Leave \<and> cp_restore p = None \<or>
     (\<exists>r structural preserved outcome. receipt = Some r \<and> structural_of ext host fs r structural preserved \<and>
        resolve_restore ext (hf_backup_path fs) (hf_original fs) r structural w1 = (Inr outcome, w') \<and>
        p = disconnection host scope fs r preserved outcome)"
proof -
  from assms obtain fs receipt w1 where st: "read_host_files ext pr host scope home project w = (Inr fs, w1)"
    "decode_owner_receipt ext (hf_receipt_original fs) host scope = Inr receipt"
    and run: "(if host = Codex then plan_codex_disconnect ext host scope fs receipt
      else plan_json_disconnect ext host scope fs receipt) w1 = (Inr p, w')" by (rule disconnect_stages)
  have "cp_files p = fs \<and> (receipt = None \<and> cp_action p = AlreadyDisconnected \<and> cp_write p = Leave \<and> cp_restore p = None \<or>
     (\<exists>r structural preserved outcome. receipt = Some r \<and> structural_of ext host fs r structural preserved \<and>
        resolve_restore ext (hf_backup_path fs) (hf_original fs) r structural w1 = (Inr outcome, w') \<and>
        p = disconnection host scope fs r preserved outcome))"
  proof (cases "host = Codex")
    case True
    with run show ?thesis
      by (cases receipt)
        (fastforce simp: plan_codex_disconnect_def bindA_eq_Inr lift_Inr structural_of_def simp del: lift_eq dest: no_change_plan_Inr split: if_splits)+
  next
    case False
    with run show ?thesis
      by (cases receipt)
        (fastforce simp: plan_json_disconnect_def bindA_eq_Inr lift_Inr structural_of_def simp del: lift_eq dest: no_change_plan_Inr split: if_splits)+
  qed
  with that[OF st] show thesis by blast
qed

lemma disconnect_run:
  assumes "read_host_files ext pr host scope home project w = (Inr fs, w1)"
    "decode_owner_receipt ext (hf_receipt_original fs) host scope = Inr (Some r)"
    "structural_of ext host fs r structural preserved"
    "resolve_restore ext (hf_backup_path fs) (hf_original fs) r structural w1 = (Inr outcome, w')"
  shows "plan_disconnect_at ext pr host scope home project w = (Inr (disconnection host scope fs r preserved outcome), w')"
  using assms
  by (auto simp: plan_disconnect_at_def plan_codex_disconnect_def plan_json_disconnect_def structural_of_def
      bindA_def lift_def ret_def split: if_splits)

end
