(* ===== verification/Host_Connect.thy ===== *)
theory Host_Connect
  imports Host_Plans
begin

text \<open>
  Connecting and disconnecting on a machine whose calls do not fail: the files after a fresh
  connection, and that the disconnection that follows restores every byte.
\<close>

section \<open>Reading on a quiet machine\<close>

lemma owner_suffix_ok: "suffix_ok owner_receipt_suffix"
  by (auto simp: suffix_ok_def owner_receipt_suffix_def sublist_code intro!: utf8_valid_ascii)

lemma owner_suffixes_differ:
  "owner_receipt_suffix \<noteq> []" "backup_suffix \<noteq> []" "owner_receipt_suffix \<noteq> backup_suffix"
  by (simp_all add: owner_receipt_suffix_def backup_suffix_def)

lemma owner_site:
  "backup_suffix \<in> site_suffixes owner_receipt_suffix"
  "owner_receipt_suffix \<in> site_suffixes owner_receipt_suffix" "[] \<in> site_suffixes owner_receipt_suffix"
  by (simp_all add: site_suffixes_def backup_suffix_def)

definition files_at :: "hash \<Rightarrow> path \<Rightarrow> bytes \<Rightarrow> view \<Rightarrow> host_files" where
  "files_at sha d n v =
     \<lparr>hf_target = at d n, hf_receipt_path = at d (n @ owner_receipt_suffix), hf_backup_path = at d (n @ backup_suffix),
      hf_original = snapshot_of sha (v (at d n)),
      hf_receipt_original = snapshot_of sha (v (at d (n @ owner_receipt_suffix)))\<rparr>"

lemma read_host_files_at:
  assumes "read_host_files ext pr host scope home project w = (Inr fs, w')"
    "host_config_path pr host scope home project = Inr (at d n)"
  shows "fs = files_at (hx_sha ext) d n (content w)"
proof -
  note r = read_host_files_Inr[OF assms(1)]
  have t: "hf_target fs = at d n" using r(1) assms(2) by simp
  with r(2,3) have "hf_receipt_path fs = at d (n @ owner_receipt_suffix)" "hf_backup_path fs = at d (n @ backup_suffix)"
    by (simp_all add: sibling_path_snoc)
  with t r(4,5) show ?thesis by (cases fs) (simp add: files_at_def)
qed

lemma read_host_files_calm:
  assumes w: "runnable d n owner_receipt_suffix w" "path_ok (at d n)"
    and p: "host_config_path pr host scope home project = Inr (at d n)"
    and f: "fits w (at d n) max_host_config_bytes" "fits w (at d (n @ owner_receipt_suffix)) max_owner_receipt_bytes"
  shows "\<exists>w'. read_host_files ext pr host scope home project w = (Inr (files_at (hx_sha ext) d n (content w)), w') \<and>
    runnable d n owner_receipt_suffix w' \<and> content w' = content w"
proof -
  obtain w1 where 1: "read_snapshot (hx_sha ext) (at d n) max_host_config_bytes ''host configuration'' w =
      (Inr (snapshot_of (hx_sha ext) (content w (at d n))), w1)"
    and w1: "runnable d n owner_receipt_suffix w1" "content w1 = content w"
    using runnable_read[OF w(1) owner_suffix_ok w(2) owner_site(3)] f(1) by (metis append_Nil2)
  have f2: "fits w1 (at d (n @ owner_receipt_suffix)) max_owner_receipt_bytes" using f(2) w1(2) by (simp add: fits_def)
  obtain w2 where 2: "read_snapshot (hx_sha ext) (at d (n @ owner_receipt_suffix)) max_owner_receipt_bytes
      ''connection owner receipt'' w1 =
      (Inr (snapshot_of (hx_sha ext) (content w1 (at d (n @ owner_receipt_suffix)))), w2)"
    and w2: "runnable d n owner_receipt_suffix w2" "content w2 = content w1"
    using runnable_read[OF w1(1) owner_suffix_ok w(2) owner_site(2) f2] by blast
  have "read_host_config ext (at d n) w = (Inr (snapshot_of (hx_sha ext) (content w (at d n))), w1)"
    using 1 by (simp add: read_host_config_def bindA_def attempt_def lift_def)
  then show ?thesis
    using 2 w1 w2 p by (simp add: read_host_files_def files_at_def bindA_def lift_def ret_def)
qed

section \<open>What was written can be taken out\<close>

interpretation codex_blocks: marker_blocks "\<lambda>_ :: unit. True" "\<lambda>_. codex_marker_start" "\<lambda>_. codex_marker_end"
  "\<lambda>text _. find_codex_block text"
proof
  show "line_needle codex_marker_start" "line_needle codex_marker_end"
    by (simp_all add: line_needleI codex_marker_start_def codex_marker_end_def)
  show "\<not> prefix codex_marker_start (codex_marker_end @ nl)"
    by (simp add: codex_marker_start_def codex_marker_end_def)
qed (auto simp: find_codex_block_def block_end_def Let_def split: list.splits if_splits)

text \<open>
  What the code relies on from outside: serde reads back the receipt and the document it printed,
  a parsed document has no repeated key, SHA-256 is not empty, and the block the manager prints
  carries its markers only at its ends.
\<close>

definition owner_codec :: "host_ext \<Rightarrow> ownership_receipt \<Rightarrow> bool" where
  "owner_codec ext r \<longleftrightarrow> hx_receipt_from_slice ext (owner_receipt_encode ext r) = Some r"

definition prints_back :: "json_ext \<Rightarrow> bytes \<Rightarrow> bool" where
  "prints_back jx b \<longleftrightarrow>
     (\<forall>v. wf_json v \<longrightarrow> jx_to_vec_pretty jx v @ nl = b \<longrightarrow>
        jx_value jx b = Some v \<and> \<not> list_all ascii_whitespace b)"

definition parses_wf :: "json_ext \<Rightarrow> bool" where
  "parses_wf jx \<longleftrightarrow> (\<forall>b v. jx_value jx b = Some v \<longrightarrow> wf_json v)"

definition sha_nonempty :: "hash \<Rightarrow> bool" where
  "sha_nonempty sha \<longleftrightarrow> (\<forall>b. sha b \<noteq> [])"

lemma digest_nonempty: "sha_nonempty sha \<Longrightarrow> digest_bytes sha b \<noteq> []"
  by (cases "sha b") (auto simp: digest_bytes_def sha_nonempty_def)

lemma snapshot_digest_nonempty: "sha_nonempty sha \<Longrightarrow> sha256 (snapshot_of sha c) \<noteq> []"
  by (cases c) (auto simp: snapshot_of_sha digest_nonempty)

lemma install_codex_append: "install_codex_block tx None desired = Inr (tx @ block_separator tx @ desired)"
  by (simp add: install_codex_block_def block_separator_def Let_def)

lemma remove_codex_total:
  assumes b: "framed codex_marker_start codex_marker_end b" and none: "find_codex_block tx = Inr None"
  shows "remove_codex_block (tx @ block_separator tx @ b) b sep =
    Inr (if sep \<and> tx @ block_separator tx \<noteq> [] then butlast (tx @ block_separator tx) else tx @ block_separator tx)"
proof -
  let ?u = "tx @ block_separator tx"
  have st: "str_find b (tx @ block_separator tx @ b) = Some (length ?u)"
    by (rule codex_blocks.find_start[OF TrueI b none block_separator_laws])
  have ne: "b \<noteq> []" using b by (auto simp: framed_def)
  show ?thesis
  proof (cases "?u = []")
    case True
    then have "tx = []" "block_separator tx = []" by auto
    then show ?thesis using st ne by (simp add: remove_codex_block_def str_contains_def)
  next
    case False
    then obtain u where u: "?u = u @ nl @ nl"
      using block_separator_laws(2)[of tx] by (auto simp: ends_with_def suffix_def)
    have whole: "tx @ block_separator tx @ b = u @ nl @ nl @ b" using u by (metis append.assoc)
    have "is_char_boundary (u @ nl @ nl @ b) (length u)" by (simp add: is_char_boundary_def is_cont_def nth_append)
    then show ?thesis
      using st ne unfolding whole u by (simp add: remove_codex_block_def str_contains_def butlast_append Let_def)
  qed
qed

lemma receipt_new_valid:
  assumes "receipt_new ext host scope profile fmt owned created version pre post adopted = Inr r"
    "(host = OpenCode) = (version \<noteq> None)"
    "(fmt = JsonEntry \<and> (\<exists>fs. owned = JObj fs)) \<or>
     (fmt = CodexMarkerBlock \<and> (\<exists>b. owned = JStr b \<and> starts_with b codex_marker_start))"
  shows "owner_receipt_validate ext r host scope = Inr ()"
  using receipt_new_fields[OF assms(1)] assms(2,3)
  by (auto simp: owner_receipt_validate_def)

lemma wf_desired: "desired_json_entry host d version = Inr v \<Longrightarrow> wf_json v \<and> (\<exists>fs. v = JObj fs)"
  by (auto simp: desired_json_entry_def Let_def list_all_iff split: host.splits option.splits opencode_version.splits)

lemma set_json_path_object: "set_json_path v p m = Inr v' \<Longrightarrow> \<exists>fs. v' = JObj fs"
  unfolding set_json_path_def
  by (cases "(v, butlast p, last p, m)" rule: set_member.cases)
    (auto simp: bindR_eq_Inr Let_def split: if_splits json.splits)

lemma entry_path_nonempty: "json_entry_path host version = Inr p \<Longrightarrow> host \<noteq> Codex \<Longrightarrow> p \<noteq> []"
  by (auto simp: json_entry_path_def split: host.splits option.splits opencode_version.splits)

lemma current_ownership_own:
  assumes "receipt_new ext host scope profile fmt owned created version pre post adopted = Inr r" "json_eq owned owned"
  shows "validate_current_ownership ext (Some r) (Some owned) fmt = Inr ()"
  using receipt_new_fields[OF assms(1)] assms(2) by (simp add: validate_current_ownership_def)

lemma shell_total: "(host = OpenCode) = (version \<noteq> None) \<Longrightarrow> host \<noteq> Codex \<Longrightarrow>
    \<exists>x. json_document_is_empty_shell host version doc = Inr x"
  by (cases host) (auto simp: json_document_is_empty_shell_def split: opencode_version.splits)

lemma json_structural_total:
  assumes "(host = OpenCode) = (or_open_code_version r \<noteq> None)" "host \<noteq> Codex"
  shows "\<exists>write preserved. json_structural ext host orig r before doc = Inr (write, preserved)"
  using shell_total[OF assms, of doc] by (auto simp: json_structural_def split: option.splits)

text \<open>Setting the entry of the selected version leaves a document of that version.\<close>

lemma select_no_conflict:
  assumes "select_opencode_version doc old requested = Inr v"
  obtains st where "opencode_shape_state doc = Inr st" "\<not> conflicts_with st v"
  using assms by (auto simp: select_opencode_version_def bindR_eq_Inr split: if_splits)

lemma set_member_one:
  assumes "set_member (JObj f) (k # ks) l m = Inr doc'"
  obtains c' where "set_member (case map_of f k of Some c \<Rightarrow> c | None \<Rightarrow> JObj []) ks l m = Inr c'"
    "doc' = JObj (obj_insert k c' f)"
  using assms by (auto simp: Let_def bindR_eq_Inr)

lemma set_member_last:
  assumes "set_member c [] l m = Inr c'"
  obtains g where "c = JObj g" "c' = JObj (obj_insert l m g)"
  using assms by (auto split: json.splits)

lemma shape_after_set:
  assumes v: "select_opencode_version doc old requested = Inr v"
    and p: "json_entry_path OpenCode (Some v) = Inr path" and set: "set_json_path doc path m = Inr doc'"
  shows "\<exists>st. opencode_shape_state doc' = Inr st \<and> \<not> conflicts_with st v"
proof -
  obtain st where st: "opencode_shape_state doc = Inr st" "\<not> conflicts_with st v"
    using select_no_conflict[OF v] .
  have "path \<noteq> []" "butlast path \<noteq> []" using p by (auto simp: json_entry_path_def split: opencode_version.splits)
  then obtain f where f: "doc = JObj f" using set
    by (cases doc; cases "butlast path") (auto simp: set_json_path_def)
  show ?thesis
  proof (cases v)
    case StableV1
    with set p have "set_member (JObj f) [''mcp''] ''kaleidoscope'' m = Inr doc'"
      by (auto simp: f set_json_path_def json_entry_path_def)
    then obtain g where g: "(case map_of f ''mcp'' of Some c \<Rightarrow> c | None \<Rightarrow> JObj []) = JObj g"
      and doc': "doc' = JObj (obj_insert ''mcp'' (JObj (obj_insert ''kaleidoscope'' m g)) f)"
      by (elim set_member_one set_member_last) simp
    have "map_of g ''servers'' = None"
      using st g StableV1 by (auto simp: f opencode_shape_state_def json_get_def conflicts_with_def split: option.splits json.splits)
    then show ?thesis using StableV1 by (simp add: doc' opencode_shape_state_def json_get_def conflicts_with_def)
  next
    case BetaV2
    with set p have "set_member (JObj f) [''mcp'', ''servers''] ''kaleidoscope'' m = Inr doc'"
      by (auto simp: f set_json_path_def json_entry_path_def)
    then obtain c' where c': "set_member (case map_of f ''mcp'' of Some c \<Rightarrow> c | None \<Rightarrow> JObj []) [''servers''] ''kaleidoscope'' m = Inr c'"
      and doc': "doc' = JObj (obj_insert ''mcp'' c' f)" by (rule set_member_one)
    from c' obtain g where g: "(case map_of f ''mcp'' of Some c \<Rightarrow> c | None \<Rightarrow> JObj []) = JObj g"
      by (cases "case map_of f ''mcp'' of Some c \<Rightarrow> c | None \<Rightarrow> JObj []") simp_all
    from c'[unfolded g] obtain h where c'': "c' = JObj (obj_insert ''servers'' (JObj h) g)"
      by (elim set_member_one set_member_last) simp
    have "map_of g ''kaleidoscope'' = None"
      using st g BetaV2 by (auto simp: f opencode_shape_state_def json_get_def conflicts_with_def obj_contains_def
          split: option.splits json.splits)
    then show ?thesis using BetaV2 by (simp add: doc' c'' opencode_shape_state_def json_get_def conflicts_with_def obj_contains_def)
  qed
qed

text \<open>
  A fresh connection: the configuration becomes \<open>b\<close>, and what the receipt records of it lets a
  disconnection find a structural write, whatever it then chooses.
\<close>

definition codex_block_ok :: "host_ext \<Rightarrow> launch_descriptor \<Rightarrow> bytes \<Rightarrow> bool" where
  "codex_block_ok ext d profile \<longleftrightarrow>
     (\<forall>b. codex_block ext d profile = Inr b \<longrightarrow> framed codex_marker_start codex_marker_end b)"

definition connection_of :: "host_ext \<Rightarrow> host \<Rightarrow> scope \<Rightarrow> snapshot \<Rightarrow> bytes \<Rightarrow> ownership_receipt \<Rightarrow> bool" where
  "connection_of ext host scope original b r \<longleftrightarrow>
     owner_receipt_validate ext r host scope = Inr () \<and> \<not> or_adopted r \<and>
     or_config_created r = (snap_bytes original = None) \<and> or_pre_sha256 r = sha256 original \<and>
     or_post_sha256 r = digest_bytes (hx_sha ext) b \<and>
     (\<forall>fs. snap_bytes (hf_original fs) = Some b \<longrightarrow> (\<exists>s pv. structural_of ext host fs r s pv))"

lemma carried_None: "carried_created None orig = (snap_bytes orig = None)" "carried_pre None orig = sha256 orig"
  "carried_adopted None = False"
  by (simp_all add: carried_created_def carried_pre_def carried_adopted_def)

lemma json_connection_of:
  assumes plan: "plan_json_connect ext host scope profile d fs old requested = Inr p" "cp_action p = Add"
    and host: "host \<noteq> Codex" and ext: "parses_wf (hx_json ext)" "\<forall>b. cp_write p = Write b \<longrightarrow> prints_back (hx_json ext) b"
  shows "\<exists>b r. cp_write p = Write b \<and> cp_receipt_after p = Some r \<and> connection_of ext host scope (hf_original fs) b r"
  using plan(1)
proof (cases rule: json_connect_cases)
  case (1 doc version desired path)
  have old: "old = None" using 1(8) plan(2)
    by (cases old) (auto simp: validate_current_ownership_def split: if_splits option.splits)
  from 1(8) plan(2) old obtain doc' r where set: "set_json_path doc path desired = Inr doc'"
    and w: "cp_write p = Write (encode_json_document ext doc')" "cp_receipt_after p = Some r"
    and r: "receipt_new ext host scope profile JsonEntry desired (snap_bytes (hf_original fs) = None) version
      (sha256 (hf_original fs)) (digest_bytes (hx_sha ext) (encode_json_document ext doc')) False = Inr r"
    by (auto simp: carried_None split: if_splits)
  note f = receipt_new_fields[OF r]
  have ver: "(host = OpenCode) = (version \<noteq> None)" using 1(2) by (auto simp: json_version_def split: if_splits)
  have wfd: "wf_json doc" using 1(1) ext(1)
    by (auto simp: parse_json_document_def parses_wf_def split: option.splits if_splits json.splits)
  have des: "wf_json desired" "\<exists>fs. desired = JObj fs" using wf_desired[OF 1(3)] by auto
  have wfd': "wf_json doc'" by (rule documents.wf_set[OF wfd des(1) set])
  have get: "get_json_path doc' path = Some desired" by (rule documents.get_set[OF set])
  have "\<exists>s pv. structural_of ext host fs' r s pv" if o: "snap_bytes (hf_original fs') = Some (encode_json_document ext doc')" for fs'
  proof -
    have "parse_json_document ext (hf_original fs') = Inr doc'"
      using o ext(2) w(1) wfd' set_json_path_object[OF set] by (auto simp: parse_json_document_def prints_back_def encode_json_document_def)
    moreover obtain doc2 where rm: "remove_json_path doc' path = Inr doc2"
      using remove_json_path_total get entry_path_nonempty[OF 1(4) host] by blast
    moreover have "(if host = OpenCode then
              bindR (opencode_shape_state doc') (\<lambda>state.
              case or_open_code_version r of
                None \<Rightarrow> Inl (Panicked ''validated OpenCode receipt'')
              | Some v \<Rightarrow> if conflicts_with state v then Inl (HostConflict BothOpenCodeShapes) else Inr ())
            else Inr ()) = Inr ()"
    proof (cases "host = OpenCode")
      case True
      then obtain v where v: "version = Some v" "select_opencode_version doc old requested = Inr v"
        using 1(2) by (auto simp: json_version_def)
      with shape_after_set[OF v(2) _ set] 1(4) True obtain st where "opencode_shape_state doc' = Inr st" "\<not> conflicts_with st v"
        by blast
      with v f(6) True show ?thesis by simp
    qed simp
    moreover obtain s pv where "json_structural ext host (hf_original fs') r doc' doc2 = Inr (s, pv)"
      using json_structural_total[of host r] ver host f(6) by blast
    ultimately have "json_removal ext host (hf_original fs') r doc' = Inr (s, pv)"
      using 1(4) get current_ownership_own[OF r json_eq_refl[OF des(1)]] f(6) by (simp add: json_removal_def)
    with \<open>parse_json_document ext (hf_original fs') = Inr doc'\<close> host show ?thesis by (auto simp: structural_of_def)
  qed
  with w f receipt_new_valid[OF r ver] des(2) show ?thesis unfolding connection_of_def by auto
qed

lemma codex_connection_of:
  assumes plan: "plan_codex_connect ext Codex scope profile d fs old = Inr p" "cp_action p = Add"
    and ok: "codex_block_ok ext d profile"
  shows "\<exists>b r. cp_write p = Write b \<and> cp_receipt_after p = Some r \<and> connection_of ext Codex scope (hf_original fs) b r"
  using plan(1)
proof (cases rule: codex_connect_cases)
  case (1 tx current desired)
  have old: "old = None" using 1(8) plan(2)
    by (cases old) (auto simp: validate_current_ownership_def split: if_splits option.splits)
  let ?b = "tx @ block_separator tx @ desired"
  from 1(8) plan(2) old obtain r where cur: "current = None" and w: "cp_write p = Write ?b" "cp_receipt_after p = Some r"
    and v: "validate_codex_document ext ?b = Inr ()"
    and r: "receipt_new ext Codex scope profile CodexMarkerBlock (JStr desired) (snap_bytes (hf_original fs) = None) None
      (sha256 (hf_original fs)) (digest_bytes (hx_sha ext) ?b) False = Inr r"
    by (auto simp: carried_None install_codex_append split: if_splits)
  note f = receipt_new_fields[OF r]
  have fr: "framed codex_marker_start codex_marker_end desired" using ok 1(4) by (simp add: codex_block_ok_def)
  have none: "find_codex_block tx = Inr None" using 1(3) cur by simp
  have utf: "utf8_valid tx" "utf8_valid desired"
    using 1(1) fr by (auto simp: host_snapshot_text_def Let_def framed_def split: if_splits)
  have "utf8_valid (block_separator tx)"
    by (rule utf8_valid_ascii) (use block_separator_laws(1)[of tx] in auto)
  then have utfb: "utf8_valid ?b" using utf by (intro utf8_valid_append)
  have fnd: "find_codex_block ?b = Inr (Some desired)"
    by (rule codex_blocks.find_appended[OF TrueI fr none block_separator_laws])
  have "\<exists>s pv. structural_of ext Codex fs' r s pv" if o: "snap_bytes (hf_original fs') = Some ?b" for fs'
    using o utfb v fnd current_ownership_own[OF r] remove_codex_total[OF fr none] f(10)
    by (auto simp: structural_of_def codex_structural_def host_snapshot_text_def)
  moreover have "starts_with desired codex_marker_start"
    using codex_blocks.framed_prefix[OF TrueI fr] by (simp add: starts_with_def)
  ultimately show ?thesis using w f receipt_new_valid[OF r] unfolding connection_of_def by auto
qed

section \<open>The two applications\<close>

lemma connection_apply_calm:
  assumes w: "runnable d n owner_receipt_suffix w" "path_ok (at d n)" and act: "\<not> connection_is_noop p"
    and files: "cp_files p = files_at (hx_sha ext) d n (content w)"
    and f: "fits w (at d n) max_host_config_bytes" "fits w (at d (n @ owner_receipt_suffix)) max_owner_receipt_bytes"
  shows "\<exists>w'. connection_apply ext p w = (Inr (), w') \<and>
    content w' = change_effect (connection_change ext p) (content w) \<and>
    (is_remove (cp_write p) \<or> runnable d n owner_receipt_suffix w')"
proof -
  have "change_fresh (hx_sha ext) (connection_change ext p) w" "change_at d n owner_receipt_suffix (connection_change ext p)"
    using f files by (simp_all add: change_fresh_def change_at_def connection_change_def files_at_def backup_suffix_def)
  from apply_change_effect[OF w(1) owner_suffix_ok w(2) this(2,1)] act
  show ?thesis by (simp add: connection_apply_def connection_change_def)
qed

text \<open>The file view a fresh connection produces, and the one the exact restore gives back.\<close>

definition connect_effect :: "path \<Rightarrow> bytes \<Rightarrow> bytes \<Rightarrow> bytes \<Rightarrow> view \<Rightarrow> view" where
  "connect_effect d n b receipt v =
     (case v (at d n) of None \<Rightarrow> v | Some (old, _) \<Rightarrow> v(at d (n @ backup_suffix) \<mapsto> (old, 384)))
       (at d n \<mapsto> (b, case v (at d n) of None \<Rightarrow> 384 | Some (_, m) \<Rightarrow> m AND 511),
        at d (n @ owner_receipt_suffix) \<mapsto> (receipt, 384))"

lemma connect_view:
  assumes "cp_files p = files_at (hx_sha ext) d n v" "cp_restore p = None" "cp_write p = Write b" "cp_receipt_after p = Some r"
    "\<not> cp_remove_backup p"
  shows "change_effect (connection_change ext p) v = connect_effect d n b (owner_receipt_encode ext r) v"
  using assms by (auto simp: change_effect_def Let_def connection_change_def files_at_def connect_effect_def
      mode_or_default_def is_leave_def split: option.splits)

lemma connect_effect_at:
  "connect_effect d n b receipt v (at d n) = Some (b, case v (at d n) of None \<Rightarrow> 384 | Some (_, m) \<Rightarrow> m AND 511)"
  "connect_effect d n b receipt v (at d (n @ owner_receipt_suffix)) = Some (receipt, 384)"
  "connect_effect d n b receipt v (at d (n @ backup_suffix)) =
     (case v (at d n) of None \<Rightarrow> v (at d (n @ backup_suffix)) | Some (b, _) \<Rightarrow> Some (b, 384))"
  using owner_suffixes_differ by (auto simp: connect_effect_def split: option.splits)

lemma disconnect_view:
  "change_effect (connection_change ext (disconnection host scope (files_at (hx_sha ext) d n v) r pv (ByteIdentical, undo_write c, True))) v =
    v(at d n := map_option (\<lambda>(b, _). (b, case v (at d n) of None \<Rightarrow> 384 | Some (_, m) \<Rightarrow> m AND 511)) c,
      at d (n @ owner_receipt_suffix) := None, at d (n @ backup_suffix) := None)"
  by (auto simp: change_effect_def Let_def connection_change_def files_at_def mode_or_default_def undo_write_def
      split: option.splits)

lemma resolve_restore_exact:
  assumes w: "runnable d n owner_receipt_suffix w" "path_ok (at d n)"
    and f: "fits w (at d (n @ backup_suffix)) max_host_config_bytes" and sha: "sha_nonempty (hx_sha ext)"
    and r: "connection_of ext host scope (snapshot_of (hx_sha ext) c) b r"
    and o: "snap_bytes original = Some b" "sha256 original = digest_bytes (hx_sha ext) b"
    and bk: "\<forall>x m. c = Some (x, m) \<longrightarrow> content w (at d (n @ backup_suffix)) = Some (x, 384)"
  shows "\<exists>w'. resolve_restore ext (at d (n @ backup_suffix)) original r structural w =
      (Inr (ByteIdentical, undo_write c, True), w') \<and> runnable d n owner_receipt_suffix w' \<and> content w' = content w"
proof -
  obtain w' where rd: "read_snapshot (hx_sha ext) (at d (n @ backup_suffix)) max_host_config_bytes
      ''host configuration backup'' w = (Inr (snapshot_of (hx_sha ext) (content w (at d (n @ backup_suffix)))), w')"
    and w': "runnable d n owner_receipt_suffix w'" "content w' = content w"
    using runnable_read[OF w(1) owner_suffix_ok w(2) owner_site(1) f] by blast
  show ?thesis
    using r o bk w' digest_nonempty[OF sha] rd
    by (cases c) (auto simp: resolve_restore_def connection_of_def undo_write_def snapshot_of_sha bindA_def ret_def Let_def)
qed

text \<open>A fresh connection, planned and applied.\<close>

lemma connect_calm:
  assumes plan: "plan_connect_at_version ext pr host scope profile desc home project requested w = (Inr p, w1)"
      "cp_action p = Add"
    and path: "host_config_path pr host scope home project = Inr (at d n)" "path_ok (at d n)"
    and w1: "runnable d n owner_receipt_suffix w1"
    and ext: "parses_wf (hx_json ext)" "\<forall>b. host \<noteq> Codex \<longrightarrow> cp_write p = Write b \<longrightarrow> prints_back (hx_json ext) b"
      "host = Codex \<longrightarrow> codex_block_ok ext desc profile"
  shows "\<exists>b r w2. cp_write p = Write b \<and> cp_receipt_after p = Some r \<and>
    connection_of ext host scope (snapshot_of (hx_sha ext) (content w (at d n))) b r \<and>
    content w (at d (n @ owner_receipt_suffix)) = None \<and>
    connection_apply ext p w1 = (Inr (), w2) \<and> runnable d n owner_receipt_suffix w2 \<and>
    content w2 = connect_effect d n b (owner_receipt_encode ext r) (content w)"
proof -
  obtain fs old where st: "read_host_files ext pr host scope home project w = (Inr fs, w1)"
    "decode_owner_receipt ext (hf_receipt_original fs) host scope = Inr old"
    "(if host = Codex then plan_codex_connect ext host scope profile desc fs old
      else plan_json_connect ext host scope profile desc fs old requested) = Inr p"
    using connect_stages[OF plan(1)] by metis
  have fs: "fs = files_at (hx_sha ext) d n (content w)" by (rule read_host_files_at[OF st(1) path(1)])
  have c1: "content w1 = content w" by (rule read_host_files_Inr(6)[OF st(1)])
  have p: "cp_files p = fs" "cp_restore p = None" "\<not> cp_remove_backup p" "old = None"
    using connect_Add[OF st(3) plan(2)] by auto
  obtain b r where br: "cp_write p = Write b" "cp_receipt_after p = Some r"
    and con: "connection_of ext host scope (hf_original fs) b r"
  proof (cases "host = Codex")
    case True
    then have "plan_codex_connect ext Codex scope profile desc fs old = Inr p" using st(3) by simp
    from codex_connection_of[OF this plan(2)] ext(3) that True show thesis by blast
  next
    case False
    then have "plan_json_connect ext host scope profile desc fs old requested = Inr p" using st(3) by simp
    from json_connection_of[OF this plan(2) False ext(1)] ext(2) that False show thesis by blast
  qed
  have none: "content w (at d (n @ owner_receipt_suffix)) = None"
    using st(2) p(4) by (auto simp: fs files_at_def decode_owner_receipt_def bindR_eq_Inr split: option.splits)
  have f: "fits w1 (at d n) max_host_config_bytes" "fits w1 (at d (n @ owner_receipt_suffix)) max_owner_receipt_bytes"
    using read_host_files_Inr(7,8)[OF st(1)] c1 by (simp_all add: fs files_at_def fits_def)
  have "\<not> connection_is_noop p" using plan(2) by (simp add: connection_is_noop_def)
  from connection_apply_calm[OF w1 path(2) this _ f] p(1) fs c1 br
  obtain w2 where "connection_apply ext p w1 = (Inr (), w2)" "runnable d n owner_receipt_suffix w2"
    "content w2 = change_effect (connection_change ext p) (content w)" by (auto simp: is_remove_def)
  with br con none connect_view[of p ext d n "content w" b r] p fs show ?thesis
    by (auto simp: files_at_def)
qed

text \<open>The disconnection of a fresh connection, planned and applied.\<close>

lemma disconnect_calm:
  assumes r2: "runnable d n owner_receipt_suffix w2"
    and path: "host_config_path pr host scope home project = Inr (at d n)" "path_ok (at d n)"
    and f2: "fits w2 (at d n) max_host_config_bytes" "fits w2 (at d (n @ owner_receipt_suffix)) max_owner_receipt_bytes"
      "fits w2 (at d (n @ backup_suffix)) max_host_config_bytes"
    and con: "connection_of ext host scope (snapshot_of (hx_sha ext) c) b r" and codec: "owner_codec ext r"
    and sha: "sha_nonempty (hx_sha ext)"
    and at2: "content w2 (at d n) = Some (b, k)"
      "content w2 (at d (n @ owner_receipt_suffix)) = Some (owner_receipt_encode ext r, 384)"
    and bk: "\<forall>x m. c = Some (x, m) \<longrightarrow> content w2 (at d (n @ backup_suffix)) = Some (x, 384)"
  shows "\<exists>q w3 w4. plan_disconnect_at ext pr host scope home project w2 = (Inr q, w3) \<and>
    connection_apply ext q w3 = (Inr (), w4) \<and> cp_restore q = Some ByteIdentical \<and>
    content w4 = (content w2)
      (at d n := map_option (\<lambda>(b, _). (b, case content w2 (at d n) of None \<Rightarrow> 384 | Some (_, m) \<Rightarrow> m AND 511)) c,
       at d (n @ owner_receipt_suffix) := None, at d (n @ backup_suffix) := None)"
proof -
  let ?fs = "files_at (hx_sha ext) d n (content w2)"
  obtain w2' where rd2: "read_host_files ext pr host scope home project w2 = (Inr ?fs, w2')"
    and r2': "runnable d n owner_receipt_suffix w2'" and c2': "content w2' = content w2"
    using read_host_files_calm[OF r2 path(2,1) f2(1,2)] by blast
  have dec: "decode_owner_receipt ext (hf_receipt_original ?fs) host scope = Inr (Some r)"
    using at2(2) codec con by (simp add: files_at_def decode_owner_receipt_def owner_codec_def connection_of_def)
  have o: "snap_bytes (hf_original ?fs) = Some b" "sha256 (hf_original ?fs) = digest_bytes (hx_sha ext) b"
    using at2(1) by (simp_all add: files_at_def snapshot_of_sha)
  from con o(1) obtain st pv where st: "structural_of ext host ?fs r st pv" unfolding connection_of_def by blast
  have bk': "\<forall>x m. c = Some (x, m) \<longrightarrow> content w2' (at d (n @ backup_suffix)) = Some (x, 384)"
    using bk c2' by auto
  have f3: "fits w2' (at d (n @ backup_suffix)) max_host_config_bytes" using f2(3) c2' by (simp add: fits_def)
  let ?q = "disconnection host scope ?fs r pv (ByteIdentical, undo_write c, True)"
  obtain w3 where rs: "resolve_restore ext (hf_backup_path ?fs) (hf_original ?fs) r st w2' =
      (Inr (ByteIdentical, undo_write c, True), w3)"
    and r3: "runnable d n owner_receipt_suffix w3" and c3: "content w3 = content w2"
    using resolve_restore_exact[OF r2' path(2) f3 sha con o bk', of st] c2' by (auto simp: files_at_def)
  have 2: "plan_disconnect_at ext pr host scope home project w2 = (Inr ?q, w3)"
    by (rule disconnect_run[OF rd2 dec st rs])
  have "fits w3 (at d n) max_host_config_bytes" "fits w3 (at d (n @ owner_receipt_suffix)) max_owner_receipt_bytes"
    using f2 c3 by (simp_all add: fits_def)
  with connection_apply_calm[OF r3 path(2), of ?q ext] c3
  obtain w4 where 3: "connection_apply ext ?q w3 = (Inr (), w4)"
    and c4: "content w4 = change_effect (connection_change ext ?q) (content w2)"
    by (auto simp: connection_is_noop_def)
  with 2 3 disconnect_view show ?thesis by auto
qed

section \<open>The files of a plan\<close>

lemma connect_files:
  assumes "plan_connect_at_version ext pr host scope profile desc home project requested w = (Inr p, w')"
  shows "read_host_files ext pr host scope home project w = (Inr (cp_files p), w')"
proof -
  obtain fs old where st: "read_host_files ext pr host scope home project w = (Inr fs, w')"
    "(if host = Codex then plan_codex_connect ext host scope profile desc fs old
      else plan_json_connect ext host scope profile desc fs old requested) = Inr p"
    using connect_stages[OF assms] by metis
  from st(2) have "cp_files p = fs"
    by (cases "host = Codex") (auto elim: json_connect_cases codex_connect_cases)
  with st(1) show ?thesis by simp
qed

lemma disconnect_files:
  assumes "plan_disconnect_at ext pr host scope home project w = (Inr p, w')"
  shows "\<exists>w1. read_host_files ext pr host scope home project w = (Inr (cp_files p), w1)"
  using assms by (cases rule: disconnect_cases) auto

end
