(* ===== verification/Demo_Host.thy ===== *)
theory Demo_Host
  imports Host_Connect Demo
begin

text \<open>
  A project with a hand-written \<^verbatim>\<open>.mcp.json\<close>, and stand-ins for serde and the TOML parser that
  know the texts involved, on which the connection properties' hypotheses are discharged.
\<close>

definition demo_process :: process where
  "demo_process = \<lparr>pr_var = (\<lambda>_. None), pr_cwd = Inr demo_project, pr_canonicalize = (\<lambda>p. Inr p)\<rparr>"

definition demo_descriptor :: launch_descriptor where
  "demo_descriptor =
     \<lparr>ld_version = 1, ld_transport = ''stdio'', ld_command = [RootDir, Normal ''e''],
      ld_args = [''mcp'', ''--profile'', ''work''], ld_tools = public_tools, ld_environment = []\<rparr>"

definition demo_entry :: json where
  "demo_entry = JObj [(''type'', JStr ''stdio''), (''command'', JStr ''/e''),
     (''args'', JArr [JStr ''mcp'', JStr ''--profile'', JStr ''work''])]"

definition demo_doc :: json where
  "demo_doc = JObj [(''a'', JNum ''1'')]"

definition demo_doc' :: json where
  "demo_doc' = JObj [(''a'', JNum ''1''), (''mcpServers'', JObj [(''kaleidoscope'', demo_entry)])]"

definition demo_sha :: hash where
  "demo_sha = (\<lambda>b. [char_of (length b)])"

definition demo_owner_receipt :: ownership_receipt where
  "demo_owner_receipt =
     \<lparr>or_version = 1, or_owner = ''kaleidoscope-manager-v1'', or_host = ClaudeCode, or_scope = ProjectScope,
      or_profile = ''work'', or_format = JsonEntry, or_open_code_version = None,
      or_owned_sha256 = digest_bytes demo_sha ''E'', or_owned = demo_entry,
      or_pre_sha256 = digest_bytes demo_sha ''{a}'', or_post_sha256 = digest_bytes demo_sha (''{a,k}'' @ nl),
      or_config_created = False, or_adopted = False\<rparr>"

text \<open>
  The same document as a user's formatter left it, and without the entry; the text of the entry's
  own value is cut short, which the stand-in parser allows.
\<close>

definition demo_spaced :: bytes where
  "demo_spaced = ''{\"a\":1,\"mcpServers\": {\"kaleidoscope\":{} }}''"

definition demo_excised :: bytes where
  "demo_excised = ''{\"a\":1,\"mcpServers\": {}}''"

definition demo_doc_after :: json where
  "demo_doc_after = JObj [(''a'', JNum ''1''), (''mcpServers'', JObj [])]"

definition demo_hx :: host_ext where
  "demo_hx =
     \<lparr>hx_sha = demo_sha,
      hx_json = \<lparr>jx_value = (\<lambda>b. if b = ''{a}'' then Some demo_doc
                   else if b = ''{a,k}'' @ nl then Some demo_doc'
                   else if b = demo_spaced then Some demo_doc'
                   else if b = demo_excised then Some demo_doc_after else None),
                 jx_string = (\<lambda>lit. Some (butlast (tl lit))),
                 jx_to_vec_pretty = (\<lambda>v. if v = demo_doc' then ''{a,k}'' else ''?'')\<rparr>,
      hx_to_vec = (\<lambda>_. ''E''), hx_quote = (\<lambda>s. [CHR 0x22] @ s @ [CHR 0x22]),
      hx_receipt_to_vec_pretty = (\<lambda>_. ''{}''),
      hx_receipt_from_slice = (\<lambda>b. if b = ''{}'' @ nl then Some demo_owner_receipt else None),
      hx_toml_valid = (\<lambda>_. True)\<rparr>"

definition demo_host_machine :: "bytes \<Rightarrow> (path \<times> node) list \<Rightarrow> world" where
  "demo_host_machine b others = demo_machine ((at demo_project ''.mcp.json'', File b 420) # others)"

definition demo_host_world :: world where
  "demo_host_world = demo_host_machine ''{a}'' []"

lemma demo_host_path:
  "host_config_path demo_process ClaudeCode ProjectScope demo_project demo_project = Inr (at demo_project ''.mcp.json'')"
  by (simp add: host_config_path_def join_def demo_project_def)

lemma demo_host_path_ok: "path_ok (at demo_project ''.mcp.json'')"
  by (rule demo_path_ok, rule utf8_valid_ascii) simp

lemma demo_host_runnable: "runnable demo_project ''.mcp.json'' owner_receipt_suffix demo_host_world"
proof -
  have "site demo_project ''.mcp.json'' owner_receipt_suffix demo_host_world"
    unfolding demo_host_world_def demo_host_machine_def by (rule demo_site) (auto simp: temp_suffix_def)
  moreover have "tree_ok demo_host_world"
    unfolding demo_host_world_def demo_host_machine_def by (rule demo_tree_ok) auto
  moreover have "lookup demo_host_world (lock_at demo_project ''.mcp.json'') = None"
    by (simp add: demo_host_world_def demo_host_machine_def demo_lookup demo_project_def)
  moreover have "calm demo_host_world" "anc_ok demo_host_world (at demo_project ''.mcp.json'')"
    by (simp_all add: demo_host_world_def demo_host_machine_def demo_calm demo_anc_ok)
  ultimately show ?thesis by (simp add: runnable_def)
qed

lemma demo_host_content:
  "content demo_host_world q = (if q = at demo_project ''.mcp.json'' then Some (''{a}'', 420) else None)"
  by (auto simp: content_def demo_host_world_def demo_host_machine_def demo_lookup demo_project_def)

definition demo_connect :: "world \<Rightarrow> (manager_error + connection_plan) \<times> world" where
  "demo_connect = plan_connect_at_version demo_hx demo_process ClaudeCode ProjectScope ''work'' demo_descriptor
     demo_project demo_project None"

lemma demo_connect_plan:
  "\<exists>p w1. demo_connect demo_host_world = (Inr p, w1) \<and> cp_action p = Add \<and> cp_write p = Write (''{a,k}'' @ nl) \<and>
     cp_receipt_after p = Some demo_owner_receipt"
proof -
  have "(case demo_connect demo_host_world of
      (Inr p, _) \<Rightarrow> cp_action p = Add \<and> cp_write p = Write (''{a,k}'' @ nl) \<and>
        cp_receipt_after p = Some demo_owner_receipt
    | _ \<Rightarrow> False)" by code_simp
  then show ?thesis by (auto split: prod.splits sum.splits)
qed

lemma demo_wf: "wf_json demo_doc" "wf_json demo_doc'" "wf_json demo_doc_after"
  by (simp_all add: demo_doc_def demo_doc'_def demo_doc_after_def demo_entry_def)

lemma demo_hx_laws:
  "parses_wf (hx_json demo_hx)" "prints_back (hx_json demo_hx) (''{a,k}'' @ nl)" "owner_codec demo_hx demo_owner_receipt"
  "sha_nonempty (hx_sha demo_hx)"
proof -
  show "parses_wf (hx_json demo_hx)" using demo_wf by (simp add: parses_wf_def demo_hx_def)
  show "prints_back (hx_json demo_hx) (''{a,k}'' @ nl)"
    by (auto simp: prints_back_def demo_hx_def ascii_whitespace_def split: if_splits)
  show "owner_codec demo_hx demo_owner_receipt" by (simp add: owner_codec_def demo_hx_def owner_receipt_encode_def)
  show "sha_nonempty (hx_sha demo_hx)" by (simp add: sha_nonempty_def demo_hx_def demo_sha_def)
qed

text \<open>The reformatted configuration with its receipt beside it.\<close>

definition demo_reformatted :: world where
  "demo_reformatted = demo_host_machine demo_spaced
     [(at demo_project (''.mcp.json'' @ owner_receipt_suffix), File (''{}'' @ nl) 384)]"

definition demo_disconnect :: "world \<Rightarrow> (manager_error + connection_plan) \<times> world" where
  "demo_disconnect = plan_disconnect_at demo_hx demo_process ClaudeCode ProjectScope demo_project demo_project"

lemma demo_disconnect_plan:
  "\<exists>p w1. demo_disconnect demo_reformatted = (Inr p, w1) \<and> cp_restore p = Some Structural \<and>
     cp_write p = Write demo_excised \<and> cp_formatting_preserved p"
proof -
  have "(case demo_disconnect demo_reformatted of
      (Inr p, _) \<Rightarrow> cp_restore p = Some Structural \<and> cp_write p = Write demo_excised \<and> cp_formatting_preserved p
    | _ \<Rightarrow> False)" by code_simp
  then show ?thesis by (auto split: prod.splits sum.splits)
qed

end
