(* ===== verification/Host_Properties.thy ===== *)
theory Host_Properties
  imports Demo_Host Instructions_Plans
begin

text \<open>
  The properties of the host connections.
\<close>

text \<open>C1. On a machine whose calls do not fail, connecting a host whose configuration has no entry of
  the manager's and disconnecting it again succeeds, reports an exact restore, and every file (bytes
  and permission bits) is back to what it was; a stale backup file is the only thing that may be gone.\<close>

theorem connect_then_disconnect_restores:
  assumes plan: "plan_connect_at_version ext pr host scope profile desc home project requested w = (Inr p, w1)"
      "cp_action p = Add"
    and path: "host_config_path pr host scope home project = Inr (at d n)" "path_ok (at d n)"
    and w: "runnable d n owner_receipt_suffix w"
    and ext: "parses_wf (hx_json ext)" "\<forall>b. host \<noteq> Codex \<longrightarrow> cp_write p = Write b \<longrightarrow> prints_back (hx_json ext) b"
      "host = Codex \<longrightarrow> codex_block_ok ext desc profile"
      "\<forall>r. cp_receipt_after p = Some r \<longrightarrow> owner_codec ext r" "sha_nonempty (hx_sha ext)"
    and size: "fits w (at d (n @ backup_suffix)) max_host_config_bytes"
      "\<forall>b. cp_write p = Write b \<longrightarrow> length b \<le> max_host_config_bytes"
      "\<forall>r. cp_receipt_after p = Some r \<longrightarrow> length (owner_receipt_encode ext r) \<le> max_owner_receipt_bytes"
  shows "\<exists>w2 q w3 w4. connection_apply ext p w1 = (Inr (), w2) \<and>
     plan_disconnect_at ext pr host scope home project w2 = (Inr q, w3) \<and> connection_apply ext q w3 = (Inr (), w4) \<and>
     cp_restore q = Some ByteIdentical \<and> content w4 = (content w)(at d (n @ backup_suffix) := None)"
proof -
  let ?c = "content w (at d n)"
  obtain fs where rd: "read_host_files ext pr host scope home project w = (Inr fs, w1)"
    using connect_stages[OF plan(1)] by metis
  have t: "hf_target fs = at d n" "hf_receipt_path fs = at d (n @ owner_receipt_suffix)"
    using read_host_files_at[OF rd path(1)] by (simp_all add: files_at_def)
  have f0: "fits w (at d n) max_host_config_bytes" "fits w (at d (n @ owner_receipt_suffix)) max_owner_receipt_bytes"
    using read_host_files_Inr(7,8)[OF rd] t by simp_all
  have w1: "runnable d n owner_receipt_suffix w1"
    using read_host_files_calm[OF w path(2,1) f0, of ext] rd by auto
  obtain b r w2 where br: "cp_write p = Write b" "cp_receipt_after p = Some r"
    and con: "connection_of ext host scope (snapshot_of (hx_sha ext) ?c) b r"
    and none: "content w (at d (n @ owner_receipt_suffix)) = None"
    and 1: "connection_apply ext p w1 = (Inr (), w2)" and r2: "runnable d n owner_receipt_suffix w2"
    and c2: "content w2 = connect_effect d n b (owner_receipt_encode ext r) (content w)"
    using connect_calm[OF plan path w1 ext(1-3)] by blast
  note at2 = connect_effect_at[of d n b "owner_receipt_encode ext r" "content w", folded c2]
  have f2: "fits w2 (at d n) max_host_config_bytes" "fits w2 (at d (n @ owner_receipt_suffix)) max_owner_receipt_bytes"
      "fits w2 (at d (n @ backup_suffix)) max_host_config_bytes"
    using size br f0(1) at2 by (auto simp: fits_def split: option.splits)
  obtain q w3 w4 where 2: "plan_disconnect_at ext pr host scope home project w2 = (Inr q, w3)"
    "connection_apply ext q w3 = (Inr (), w4)" "cp_restore q = Some ByteIdentical"
    and c4: "content w4 = (content w2)
      (at d n := map_option (\<lambda>(b, _). (b, case content w2 (at d n) of None \<Rightarrow> 384 | Some (_, m) \<Rightarrow> m AND 511)) ?c,
       at d (n @ owner_receipt_suffix) := None, at d (n @ backup_suffix) := None)"
    using disconnect_calm[OF r2 path f2 con _ ext(5) at2(1,2)] ext(4) br(2) at2(3) by auto
  have "content w4 = (content w)(at d (n @ backup_suffix) := None)"
  proof
    fix x
    have m: "map_option (\<lambda>(b, _). (b, case content w2 (at d n) of None \<Rightarrow> 384 | Some (_, m) \<Rightarrow> m AND 511)) ?c = ?c"
      using at2(1) content_masked by (auto split: option.splits)
    show "content w4 x = ((content w)(at d (n @ backup_suffix) := None)) x"
      unfolding c4 m using none owner_suffixes_differ
      by (auto simp: c2 connect_effect_def split: option.splits)
  qed
  with 1 2 show ?thesis by blast
qed

theorem connect_then_disconnect_restores_witness:
  "\<exists>p w1 w2 q w3 w4. demo_connect demo_host_world = (Inr p, w1) \<and> cp_action p = Add \<and>
     connection_apply demo_hx p w1 = (Inr (), w2) \<and>
     plan_disconnect_at demo_hx demo_process ClaudeCode ProjectScope demo_project demo_project w2 = (Inr q, w3) \<and>
     connection_apply demo_hx q w3 = (Inr (), w4) \<and> cp_restore q = Some ByteIdentical \<and>
     content w4 = (content demo_host_world)(at demo_project (''.mcp.json'' @ backup_suffix) := None)"
proof -
  obtain p w1 where p: "demo_connect demo_host_world = (Inr p, w1)" "cp_action p = Add"
    "cp_write p = Write (''{a,k}'' @ nl)" "cp_receipt_after p = Some demo_owner_receipt"
    using demo_connect_plan by blast
  have "\<exists>w2 q w3 w4. connection_apply demo_hx p w1 = (Inr (), w2) \<and>
     plan_disconnect_at demo_hx demo_process ClaudeCode ProjectScope demo_project demo_project w2 = (Inr q, w3) \<and>
     connection_apply demo_hx q w3 = (Inr (), w4) \<and> cp_restore q = Some ByteIdentical \<and>
     content w4 = (content demo_host_world)(at demo_project (''.mcp.json'' @ backup_suffix) := None)"
    by (rule connect_then_disconnect_restores[OF p(1)[unfolded demo_connect_def] p(2) demo_host_path demo_host_path_ok
          demo_host_runnable])
      (use p demo_hx_laws owner_suffixes_differ in \<open>simp_all add: fits_def demo_host_content demo_hx_def
         owner_receipt_encode_def max_host_config_bytes_def max_owner_receipt_bytes_def\<close>)
  with p show ?thesis by blast
qed

text \<open>C33. A connection that writes the configuration of a JSON host sets its own entry and nothing else:
  the document written has the entry under the host's path and agrees with the old one under every
  path apart from it; an entry that was there before is overwritten only when the owner receipt
  beside the file records that entry.\<close>

theorem connect_edits_only_its_entry:
  assumes "plan_connect_at_version ext pr host scope profile desc home project requested w = (Inr p, w1)"
    and "host \<noteq> Codex" and "cp_write p = Write b"
  shows "\<exists>doc doc' version path desired.
     parse_json_document ext (snapshot_of (hx_sha ext) (content w (hf_target (cp_files p)))) = Inr doc \<and>
     desired_json_entry host desc version = Inr desired \<and> json_entry_path host version = Inr path \<and>
     b = encode_json_document ext doc' \<and> get_json_path doc' path = Some desired \<and>
     (\<forall>q. apart path q \<longrightarrow> get_json_path doc' q = get_json_path doc q) \<and>
     (\<forall>c. get_json_path doc path = Some c \<longrightarrow>
        (\<exists>r. decode_owner_receipt ext (snapshot_of (hx_sha ext) (content w (hf_receipt_path (cp_files p)))) host scope =
           Inr (Some r) \<and> json_eq (or_owned r) c))"
proof -
  obtain fs old where st: "read_host_files ext pr host scope home project w = (Inr fs, w1)"
    "decode_owner_receipt ext (hf_receipt_original fs) host scope = Inr old"
    "plan_json_connect ext host scope profile desc fs old requested = Inr p"
    using connect_stages[OF assms(1)] assms(2) by metis
  note rd = read_host_files_Inr(4,5)[OF st(1)]
  from st(3) show ?thesis
  proof (cases rule: json_connect_cases)
    case (1 doc version desired path)
    then obtain doc' where set: "set_json_path doc path desired = Inr doc'" "b = encode_json_document ext doc'"
      and old: "case old of None \<Rightarrow> get_json_path doc path = None
         | Some r \<Rightarrow> validate_current_ownership ext (Some r) (get_json_path doc path) JsonEntry = Inr ()"
      using assms(3) by auto
    have "\<exists>r. old = Some r \<and> json_eq (or_owned r) c" if "get_json_path doc path = Some c" for c
      using old that by (auto simp: validate_current_ownership_def split: option.splits if_splits)
    then have own: "\<exists>r. decode_owner_receipt ext (snapshot_of (hx_sha ext) (content w (hf_receipt_path fs))) host scope =
        Inr (Some r) \<and> json_eq (or_owned r) c" if "get_json_path doc path = Some c" for c
      using that st(2) rd(2) by auto
    show ?thesis
      unfolding 1(5) rd(1)[symmetric]
      by (rule exI[of _ doc], rule exI[of _ doc'], rule exI[of _ version], rule exI[of _ path], rule exI[of _ desired])
        (use 1(1,3,4) set own documents.get_set[OF set(1)] documents.get_set_apart[OF set(1)] in auto)
  qed
qed

theorem connect_edits_only_its_entry_witness:
  "\<exists>p w1 doc doc' version path desired. demo_connect demo_host_world = (Inr p, w1) \<and>
     parse_json_document demo_hx (snapshot_of (hx_sha demo_hx) (content demo_host_world (hf_target (cp_files p)))) = Inr doc \<and>
     desired_json_entry ClaudeCode demo_descriptor version = Inr desired \<and> json_entry_path ClaudeCode version = Inr path \<and>
     ''{a,k}'' @ nl = encode_json_document demo_hx doc' \<and> get_json_path doc' path = Some desired \<and>
     (\<forall>q. apart path q \<longrightarrow> get_json_path doc' q = get_json_path doc q)"
proof -
  obtain p w1 where p: "demo_connect demo_host_world = (Inr p, w1)" "cp_write p = Write (''{a,k}'' @ nl)"
    using demo_connect_plan by blast
  from connect_edits_only_its_entry[OF p(1)[unfolded demo_connect_def] _ p(2)] p(1) show ?thesis by blast
qed

section \<open>Any plan\<close>

text \<open>\<open>p\<close> was planned, to connect or to disconnect, from the files of \<open>w\<close>.\<close>

definition connection_planned :: "host_ext \<Rightarrow> connection_plan \<Rightarrow> world \<Rightarrow> bool" where
  "connection_planned ext p w \<longleftrightarrow> (\<exists>pr host scope profile desc home project requested w'.
     plan_connect_at_version ext pr host scope profile desc home project requested w = (Inr p, w') \<or>
     plan_disconnect_at ext pr host scope home project w = (Inr p, w'))"

lemma connection_planned_at:
  assumes "connection_planned ext p w"
  obtains d n where "cp_files p = files_at (hx_sha ext) d n (content w)"
proof -
  from assms obtain pr host scope home project w' where
    "read_host_files ext pr host scope home project w = (Inr (cp_files p), w')"
    unfolding connection_planned_def by (elim exE disjE) (blast dest: connect_files, blast dest: disconnect_files)
  note r = this and rd = read_host_files_Inr[OF this]
  from rd(2) obtain d n where "hf_target (cp_files p) = at d n" by (auto elim!: sibling_path_Inr)
  with read_host_files_at[OF r] rd(1) that show thesis by simp
qed

lemma files_at_change:
  assumes "cp_files p = files_at (hx_sha ext) d n v"
  shows "change_at d n owner_receipt_suffix (connection_change ext p)"
    "ch_original (connection_change ext p) = snapshot_of (hx_sha ext) (v (at d n))"
    "ch_receipt_original (connection_change ext p) = snapshot_of (hx_sha ext) (v (at d (n @ owner_receipt_suffix)))"
  using assms by (simp_all add: change_at_def connection_change_def files_at_def backup_suffix_def)

lemma connection_outcomes:
  assumes "connection_planned ext p w0" and "content w (hf_target (cp_files p)) = content w0 (hf_target (cp_files p))"
    and "connection_apply ext p w = (r, w')"
  shows "content w' (hf_target (cp_files p)) \<in>
    outcomes (connection_change ext p) (content w (hf_target (cp_files p)))"
proof (cases "connection_is_noop p")
  case False
  from assms(1) obtain d n where fs: "cp_files p = files_at (hx_sha ext) d n (content w0)" by (rule connection_planned_at)
  then have t: "hf_target (cp_files p) = at d n" by (simp add: files_at_def)
  have run: "apply_change (hx_sha ext) (connection_change ext p) w = (r, w')"
    using assms(3) False by (simp add: connection_apply_def)
  have "keeps (one_of (at d n) (outcomes (connection_change ext p) (content w0 (at d n))))
      (apply_change (hx_sha ext) (connection_change ext p))"
    using content_masked by (intro apply_change_among[OF files_at_change(1)[OF fs] owner_suffixes_differ(1) files_at_change(2)[OF fs]])
  from keepsD[OF this run] assms(2) t show ?thesis by (auto simp: one_of_def outcomes_def split: if_splits)
qed (use assms(3) in \<open>simp add: connection_apply_def outcomes_def\<close>)

text \<open>Whatever call fails while a connection plan is applied, the host's configuration has its old
  contents or the planned ones, never anything in between.\<close>

theorem connection_never_tears_target:
  assumes "connection_planned ext p w0" and "content w (hf_target (cp_files p)) = content w0 (hf_target (cp_files p))"
    and "connection_apply ext p w = (r, w')"
  shows "content w' (hf_target (cp_files p)) = content w (hf_target (cp_files p)) \<or>
    (\<exists>b m. cp_write p = Write b \<and> content w' (hf_target (cp_files p)) = Some (b, m)) \<or>
    (cp_write p = Remove \<and> content w' (hf_target (cp_files p)) = None)"
  using connection_outcomes[OF assms]
  by (cases "cp_write p") (auto simp: outcomes_def new_value_def connection_change_def is_leave_def)

theorem connection_never_tears_target_witness:
  "\<exists>p. connection_planned demo_hx p demo_host_world \<and>
    (let w = demo_host_world\<lparr>faults := \<lambda>k. if k = 20 then Some (Fault 28 3) else None\<rparr>; w' = snd (connection_apply demo_hx p w);
         t = hf_target (cp_files p) in
     content w' t = content w t \<or> (\<exists>b m. cp_write p = Write b \<and> content w' t = Some (b, m)) \<or>
     (cp_write p = Remove \<and> content w' t = None))"
proof -
  obtain p w1 where p: "demo_connect demo_host_world = (Inr p, w1)" using demo_connect_plan by blast
  then have pl: "connection_planned demo_hx p demo_host_world" unfolding connection_planned_def demo_connect_def by blast
  let ?w = "demo_host_world\<lparr>faults := \<lambda>k. if k = 20 then Some (Fault 28 3) else None\<rparr>"
  have "content ?w t = content demo_host_world t" for t by (simp add: content_def lookup_def)
  from connection_never_tears_target[OF pl this, of "fst (connection_apply demo_hx p ?w)" "snd (connection_apply demo_hx p ?w)"] pl
  show ?thesis by (auto simp: Let_def)
qed

text \<open>Adopting an entry that is already what the manager would write touches no byte of the
  configuration, even when a call fails half way.\<close>

theorem adoption_touches_nothing:
  assumes "plan_connect_at_version ext pr host scope profile desc home project requested w0 = (Inr p, w1)"
    and "cp_action p = Adopt" and "content w (hf_target (cp_files p)) = content w0 (hf_target (cp_files p))"
    and "connection_apply ext p w = (r, w')"
  shows "content w' (hf_target (cp_files p)) = content w (hf_target (cp_files p))"
proof -
  have "connection_planned ext p w0" using assms(1) unfolding connection_planned_def by blast
  note o = connection_outcomes[OF this assms(3,4)]
  obtain fs old where st: "(if host = Codex then plan_codex_connect ext host scope profile desc fs old
      else plan_json_connect ext host scope profile desc fs old requested) = Inr p"
    using connect_stages[OF assms(1)] by metis
  have "cp_write p = Leave"
    using st assms(2) by (cases "host = Codex") (auto elim!: json_connect_cases codex_connect_cases split: if_splits)
  with o show ?thesis by (simp add: outcomes_def connection_change_def is_leave_def)
qed

text \<open>The configuration that holds the entry already, in a form of its own.\<close>

definition demo_adopt_world :: world where
  "demo_adopt_world = demo_host_machine demo_spaced []"

theorem adoption_touches_nothing_witness:
  "\<exists>p w1. demo_connect demo_adopt_world = (Inr p, w1) \<and> cp_action p = Adopt \<and>
     content (snd (connection_apply demo_hx p w1)) (hf_target (cp_files p)) = content w1 (hf_target (cp_files p))"
proof -
  have "(case demo_connect demo_adopt_world of (Inr p, _) \<Rightarrow> cp_action p = Adopt | _ \<Rightarrow> False)" by code_simp
  then obtain p w1 where p: "demo_connect demo_adopt_world = (Inr p, w1)" "cp_action p = Adopt"
    by (auto split: prod.splits sum.splits)
  have "content w1 = content demo_adopt_world"
    using keepsD[OF outside.keeps_plan_connect[of "{}"] p(1)[unfolded demo_connect_def]] by (simp add: untouched_empty)
  then show ?thesis
    using adoption_touches_nothing[OF p(1)[unfolded demo_connect_def] p(2), of w1 "fst (connection_apply demo_hx p w1)"
        "snd (connection_apply demo_hx p w1)"] p by auto
qed

section \<open>Taking an entry out\<close>

text \<open>C34. A structural disconnection of a JSON host (the file changed since the connection) takes out the
  manager's entry and keeps the value under every path apart from it. When it reports the formatting
  as preserved, the bytes written are the old ones with one contiguous range cut out, and they parse
  to exactly that document; otherwise they are that document printed anew.\<close>

theorem structural_disconnect_keeps_the_rest:
  assumes "plan_disconnect_at ext pr host scope home project w = (Inr p, w')" and "host \<noteq> Codex" and "parses_wf (hx_json ext)"
    and "cp_restore p = Some Structural" and "cp_write p = Write b"
  shows "\<exists>doc doc' r path old.
     snap_bytes (hf_original (cp_files p)) = old \<and> parse_json_document ext (hf_original (cp_files p)) = Inr doc \<and>
     decode_owner_receipt ext (hf_receipt_original (cp_files p)) host scope = Inr (Some r) \<and>
     json_entry_path host (or_open_code_version r) = Inr path \<and>
     get_json_path doc' path = None \<and> (\<forall>q. apart path q \<longrightarrow> get_json_path doc' q = get_json_path doc q) \<and>
     (if cp_formatting_preserved p
      then \<exists>bs s e v. old = Some bs \<and> s \<le> e \<and> e < length bs \<and> b = take s bs @ drop e bs \<and>
             jx_value (hx_json ext) b = Some v \<and> json_eq v doc'
      else b = encode_json_document ext doc')"
  using assms(1)
proof (cases rule: disconnect_cases)
  case (1 fs receipt w1)
  then obtain r s pv o3 where r: "receipt = Some r" and st: "structural_of ext host fs r s pv"
    and rs: "resolve_restore ext (hf_backup_path fs) (hf_original fs) r s w1 = (Inr o3, w')"
    and p: "p = disconnection host scope fs r pv o3" using assms(4) by auto
  have s: "s = Write b" using rs p assms(4,5)
    by (auto simp: resolve_restore_def act_run Let_def split: if_splits)
  from st assms(2) obtain doc where doc: "parse_json_document ext (hf_original fs) = Inr doc"
    and rm: "json_removal ext host (hf_original fs) r doc = Inr (s, pv)" by (auto simp: structural_of_def)
  from rm obtain path doc' where path: "json_entry_path host (or_open_code_version r) = Inr path"
    and rem: "remove_json_path doc path = Inr doc'"
    and js: "json_structural ext host (hf_original fs) r doc doc' = Inr (s, pv)"
    unfolding json_removal_def by (auto simp: bindR_eq_Inr split: option.splits)
  have wf: "wf_json doc" using doc assms(3)
    by (auto simp: parse_json_document_def parses_wf_def split: option.splits if_splits json.splits)
  have res: "if pv then \<exists>bs s e v. snap_bytes (hf_original fs) = Some bs \<and> s \<le> e \<and> e < length bs \<and>
             b = take s bs @ drop e bs \<and> jx_value (hx_json ext) b = Some v \<and> json_eq v doc'
      else b = encode_json_document ext doc'"
    using js s documents.get_remove[OF wf rem] by (auto simp: json_structural_def bindR_eq_Inr host_snapshot_text_def Let_def
        split: if_splits option.splits dest!: excise_cut)
  show ?thesis
    by (rule exI[of _ doc], rule exI[of _ doc'], rule exI[of _ r], rule exI[of _ path], rule exI[of _ "snap_bytes (hf_original fs)"])
      (use 1(2,3) r doc path res p documents.get_remove[OF wf rem] documents.get_remove_apart[OF wf rem] in simp)
qed

theorem structural_disconnect_keeps_the_rest_witness:
  "\<exists>p w1 doc doc' r path bs s e v. demo_disconnect demo_reformatted = (Inr p, w1) \<and>
     parse_json_document demo_hx (hf_original (cp_files p)) = Inr doc \<and>
     decode_owner_receipt demo_hx (hf_receipt_original (cp_files p)) ClaudeCode ProjectScope = Inr (Some r) \<and>
     json_entry_path ClaudeCode (or_open_code_version r) = Inr path \<and>
     get_json_path doc' path = None \<and> (\<forall>q. apart path q \<longrightarrow> get_json_path doc' q = get_json_path doc q) \<and>
     snap_bytes (hf_original (cp_files p)) = Some bs \<and> demo_excised = take s bs @ drop e bs \<and> s \<le> e \<and>
     jx_value (hx_json demo_hx) demo_excised = Some v \<and> json_eq v doc'"
proof -
  obtain p w1 where p: "demo_disconnect demo_reformatted = (Inr p, w1)" "cp_restore p = Some Structural"
     "cp_write p = Write demo_excised" "cp_formatting_preserved p" using demo_disconnect_plan by blast
  from structural_disconnect_keeps_the_rest[OF p(1)[unfolded demo_disconnect_def] _ demo_hx_laws(1) p(2,3)] p(4)
  obtain doc doc' r path bs s e v where
    "parse_json_document demo_hx (hf_original (cp_files p)) = Inr doc"
    "decode_owner_receipt demo_hx (hf_receipt_original (cp_files p)) ClaudeCode ProjectScope = Inr (Some r)"
    "json_entry_path ClaudeCode (or_open_code_version r) = Inr path"
    "get_json_path doc' path = None" "\<forall>q. apart path q \<longrightarrow> get_json_path doc' q = get_json_path doc q"
    "snap_bytes (hf_original (cp_files p)) = Some bs" "demo_excised = take s bs @ drop e bs" "s \<le> e"
    "jx_value (hx_json demo_hx) demo_excised = Some v" "json_eq v doc'" by auto
  with p(1) show ?thesis by blast
qed

text \<open>Without an owner receipt beside the file a disconnection removes nothing: the only plan it can
  return is the no-op, and applying it leaves the whole world as it is.\<close>

theorem no_receipt_no_disconnect:
  assumes "plan_disconnect_at ext pr host scope home project w = (Inr p, w')"
    and "content w (hf_receipt_path (cp_files p)) = None"
  shows "cp_action p = AlreadyDisconnected \<and> connection_apply ext p v = (Inr (), v)"
  using assms(1)
proof (cases rule: disconnect_cases)
  case (1 fs receipt w1)
  then have "receipt = None" using read_host_files_Inr(5)[OF 1(1)] assms(2) by (simp add: decode_owner_receipt_def)
  with 1 show ?thesis by (simp add: connection_apply_def connection_is_noop_def ret_def)
qed

theorem no_receipt_no_disconnect_witness:
  "\<exists>p w'. demo_disconnect demo_host_world = (Inr p, w') \<and>
     cp_action p = AlreadyDisconnected \<and> connection_apply demo_hx p demo_world = (Inr (), demo_world)"
proof -
  have "(case demo_disconnect demo_host_world of (Inr p, _) \<Rightarrow> hf_receipt_path (cp_files p) \<noteq> at demo_project ''.mcp.json''
      | _ \<Rightarrow> False)" by code_simp
  then obtain p w' where p: "demo_disconnect demo_host_world = (Inr p, w')"
    and rp: "hf_receipt_path (cp_files p) \<noteq> at demo_project ''.mcp.json''" by (auto split: prod.splits sum.splits)
  from rp have "content demo_host_world (hf_receipt_path (cp_files p)) = None" by (simp add: demo_host_content)
  from no_receipt_no_disconnect[OF p[unfolded demo_disconnect_def] this] p show ?thesis by blast
qed

text \<open>C35. Every receipt a connection plan will write is one the manager itself accepts on the next run:
  it passes the validation for this host and scope.\<close>

theorem written_receipts_are_accepted:
  assumes "plan_connect_at_version ext pr host scope profile desc home project requested w = (Inr p, w')"
    and "cp_receipt_after p = Some r"
  shows "owner_receipt_validate ext r host scope = Inr ()"
proof -
  obtain fs old where st: "(if host = Codex then plan_codex_connect ext host scope profile desc fs old
      else plan_json_connect ext host scope profile desc fs old requested) = Inr p"
    using connect_stages[OF assms(1)] by metis
  show ?thesis
  proof (cases "host = Codex")
    case True
    with st have "plan_codex_connect ext host scope profile desc fs old = Inr p" by simp
    then show ?thesis
    proof (cases rule: codex_connect_cases)
      case (1 tx current desired)
      then obtain a b c d where "receipt_new ext host scope profile CodexMarkerBlock (JStr desired) a None b c d = Inr r"
        using assms(2) by auto
      moreover have "starts_with desired codex_marker_start"
        using 1(4) by (auto simp: codex_block_def starts_with_def split: option.splits)
      ultimately show ?thesis using True by (auto intro!: receipt_new_valid)
    qed
  next
    case False
    with st have "plan_json_connect ext host scope profile desc fs old requested = Inr p" by simp
    then show ?thesis
    proof (cases rule: json_connect_cases)
      case (1 doc version desired path)
      then obtain a b c d where new: "receipt_new ext host scope profile JsonEntry desired a version b c d = Inr r"
        using assms(2) by auto
      show ?thesis
        by (rule receipt_new_valid[OF new]) (use 1(2) wf_desired[OF 1(3)] in \<open>auto simp: json_version_def split: if_splits\<close>)
    qed
  qed
qed

theorem written_receipts_are_accepted_witness:
  "\<exists>p w'. demo_connect demo_host_world = (Inr p, w') \<and>
     owner_receipt_validate demo_hx demo_owner_receipt ClaudeCode ProjectScope = Inr ()"
proof -
  obtain p w1 where p: "demo_connect demo_host_world = (Inr p, w1)" "cp_receipt_after p = Some demo_owner_receipt"
    using demo_connect_plan by blast
  from written_receipts_are_accepted[OF p(1)[unfolded demo_connect_def] p(2)] p(1) show ?thesis by blast
qed

text \<open>Ownership of an entry does not depend on the order of its keys: two entries that are equal as
  JSON values pass or fail the ownership check together.\<close>

theorem ownership_ignores_key_order:
  assumes "json_eq c c'" and "wf_json c" and "wf_json c'" and "wf_json (or_owned r)"
  shows "validate_current_ownership ext (Some r) (Some c) fmt = validate_current_ownership ext (Some r) (Some c') fmt"
proof -
  have "json_eq (or_owned r) c \<longleftrightarrow> json_eq (or_owned r) c'"
    using assms json_eq_trans json_eq_sym by blast
  then show ?thesis by (simp add: validate_current_ownership_def)
qed

theorem ownership_ignores_key_order_witness:
  "validate_current_ownership demo_hx (Some demo_owner_receipt)
     (Some (JObj [(''args'', JArr [JStr ''mcp'', JStr ''--profile'', JStr ''work'']), (''command'', JStr ''/e''), (''type'', JStr ''stdio'')]))
     JsonEntry =
   validate_current_ownership demo_hx (Some demo_owner_receipt) (Some demo_entry) JsonEntry"
  by (rule ownership_ignores_key_order) (code_simp, code_simp, code_simp, code_simp)

text \<open>An OpenCode connection never produces a document of both shapes: in the document it writes, the
  shape that was not selected has no entry of the manager's (for the stable shape: the beta
  container is absent), and the receipt records the selected version.\<close>

theorem opencode_shapes_stay_exclusive:
  assumes "plan_connect_at_version ext pr OpenCode scope profile desc home project requested w = (Inr p, w')"
    and "cp_write p = Write b"
  shows "\<exists>doc' v st r. b = encode_json_document ext doc' \<and> opencode_shape_state doc' = Inr st \<and>
     \<not> conflicts_with st v \<and> cp_receipt_after p = Some r \<and> or_open_code_version r = Some v"
proof -
  obtain fs old where "plan_json_connect ext OpenCode scope profile desc fs old requested = Inr p"
    using connect_stages[OF assms(1)] by (metis host.distinct(5))
  then show ?thesis
  proof (cases rule: json_connect_cases)
    case (1 doc version desired path)
    then obtain v where v: "version = Some v" "select_opencode_version doc old requested = Inr v"
      by (auto simp: json_version_def)
    from 1(8) assms(2) obtain doc' r a c d e where set: "set_json_path doc path desired = Inr doc'"
      and b: "b = encode_json_document ext doc'" and r: "cp_receipt_after p = Some r"
      "receipt_new ext OpenCode scope profile JsonEntry desired a version c d e = Inr r" by auto
    obtain st where "opencode_shape_state doc' = Inr st" "\<not> conflicts_with st v"
      using shape_after_set[OF v(2) _ set] 1(4) v(1) by blast
    with b r(1) receipt_new_fields(6)[OF r(2)] v(1) show ?thesis by blast
  qed
qed

theorem opencode_shapes_stay_exclusive_witness:
  "\<exists>p w' b doc' v st r.
     plan_connect_at_version demo_hx demo_process OpenCode ProjectScope ''work'' demo_descriptor demo_project demo_project None
       demo_host_world = (Inr p, w') \<and>
     b = encode_json_document demo_hx doc' \<and> opencode_shape_state doc' = Inr st \<and>
     \<not> conflicts_with st v \<and> cp_receipt_after p = Some r \<and> or_open_code_version r = Some v"
proof -
  let ?plan = "plan_connect_at_version demo_hx demo_process OpenCode ProjectScope ''work'' demo_descriptor demo_project
    demo_project None demo_host_world"
  have "(case ?plan of (Inr p, _) \<Rightarrow> (case cp_write p of Write b \<Rightarrow> True | _ \<Rightarrow> False) | _ \<Rightarrow> False)" by code_simp
  then obtain p w' b where p: "?plan = (Inr p, w')" "cp_write p = Write b"
    by (auto split: prod.splits sum.splits target_write.splits)
  from opencode_shapes_stay_exclusive[OF p] p(1) show ?thesis by blast
qed

section \<open>The Codex block\<close>

text \<open>C36. What the structural removal of the Codex block gives back, byte for byte: the text before the
  block was appended exactly when that text was empty or ended in one newline. A text that ended in
  a blank line loses its last newline, and a text that did not end in a newline keeps an added one.\<close>

theorem codex_removal_undoes_install_iff:
  assumes "framed codex_marker_start codex_marker_end block" and "find_codex_block tx = Inr None"
    and "install_codex_block tx None block = Inr installed_text"
  shows "remove_codex_block installed_text block True = Inr tx \<longleftrightarrow>
    tx = [] \<or> (ends_with tx nl \<and> \<not> ends_with tx (nl @ nl))"
proof -
  have i: "installed_text = tx @ block_separator tx @ block" using assms(3) by (simp add: install_codex_append)
  show ?thesis
    unfolding i remove_codex_total[OF assms(1,2)]
    by (auto simp: block_separator_def ends_with_def suffix_def butlast_append split: if_splits)
qed

theorem codex_removal_undoes_install_iff_witness:
  "remove_codex_block (''a'' @ nl @ nl @ codex_marker_start @ nl @ codex_marker_end @ nl)
     (codex_marker_start @ nl @ codex_marker_end @ nl) True \<noteq> Inr (''a'' @ nl @ nl)"
proof -
  let ?b = "codex_marker_start @ nl @ codex_marker_end @ nl"
  have "match_indices ?b codex_marker_start = [0]" "match_indices ?b codex_marker_end = [length (codex_marker_start @ nl)]"
    by code_simp+
  then have fr: "framed codex_marker_start codex_marker_end ?b"
    unfolding framed_def by (auto simp: codex_marker_start_def codex_marker_end_def intro!: utf8_valid_ascii
        exI[of _ "codex_marker_start @ nl"])
  have none: "find_codex_block (''a'' @ nl @ nl) = Inr None" by code_simp
  have "install_codex_block (''a'' @ nl @ nl) None ?b = Inr (''a'' @ nl @ nl @ ?b)"
    by (simp add: install_codex_append block_separator_def ends_with_def suffix_def)
  from codex_removal_undoes_install_iff[OF fr none this] show ?thesis by (simp add: ends_with_def suffix_def)
qed

end
