(* ===== verification/Hooks.thy ===== *)
theory Hooks
  imports Host_Config
begin

text \<open>
  The session-start hook of Claude Code, as an entry of its settings file (\<^verbatim>\<open>src/src/hooks.rs\<close>,
  the planners and the application). The manager owns one element of the array
  \<^verbatim>\<open>hooks.SessionStart\<close>, recognised by comparing it with the receipt; there is no marker. serde and
  SHA-256 are the record \<open>hook_ext\<close>. The previews are display text.
\<close>

section \<open>Data\<close>

definition hook_owner :: string where
  "hook_owner = ''kaleidoscope-manager-v1''"

definition hook_receipt_version :: nat where
  "hook_receipt_version = 1"

definition max_settings_bytes :: nat where
  "max_settings_bytes = 1024 * 1024"

definition max_hook_receipt_bytes :: nat where
  "max_hook_receipt_bytes = 64 * 1024"

definition hook_event :: bytes where
  "hook_event = ''SessionStart''"

definition hook_matcher :: bytes where
  "hook_matcher = ''startup|resume|clear|compact''"

definition hook_timeout_seconds :: bytes where
  "hook_timeout_seconds = ''10''"

datatype hook_action = HookAdd | HookAdopt | HookUpdate | HookRemove | HookAlreadyInstalled | HookAlreadyRemoved

record hook_receipt =
  hr_version :: nat
  hr_owner :: string
  hr_scope :: scope
  hr_profile :: bytes
  hr_owned :: json
  hr_owned_sha256 :: string
  hr_pre_sha256 :: string
  hr_post_sha256 :: string
  hr_file_created :: bool
  hr_adopted :: bool

record hook_ext =
  kx_sha :: hash
  kx_json :: json_ext
  kx_to_vec :: "json \<Rightarrow> bytes"
  kx_receipt_to_vec_pretty :: "hook_receipt \<Rightarrow> bytes"
  kx_receipt_from_slice :: "bytes \<Rightarrow> hook_receipt option"

record hook_plan =
  hk_scope :: scope
  hk_action :: hook_action
  hk_files :: host_files
  hk_restore :: "restore_tier option"
  hk_adopted :: bool
  hk_formatting_preserved :: bool
  hk_write :: target_write
  hk_receipt_after :: "hook_receipt option"
  hk_remove_backup :: bool

section \<open>Receipts\<close>

definition canonical_digest :: "hook_ext \<Rightarrow> json \<Rightarrow> string" where
  "canonical_digest ext v = digest_bytes (kx_sha ext) (kx_to_vec ext v)"

definition hook_receipt_validate :: "hook_ext \<Rightarrow> hook_receipt \<Rightarrow> scope \<Rightarrow> manager_error + unit" where
  "hook_receipt_validate ext r scope =
     (if hr_version r \<noteq> hook_receipt_version \<or> hr_owner r \<noteq> hook_owner \<or> hr_scope r \<noteq> scope
         \<or> isl (validate_profile_name (hr_profile r))
         \<or> (case hr_owned r of JObj _ \<Rightarrow> False | _ \<Rightarrow> True)
         \<or> hr_owned_sha256 r \<noteq> canonical_digest ext (hr_owned r)
      then Inl InvalidOwnerReceipt else Inr ())"

definition hook_receipt_encode :: "hook_ext \<Rightarrow> hook_receipt \<Rightarrow> bytes" where
  "hook_receipt_encode ext r = kx_receipt_to_vec_pretty ext r @ nl"

definition decode_hook_receipt :: "hook_ext \<Rightarrow> snapshot \<Rightarrow> scope \<Rightarrow> manager_error + hook_receipt option" where
  "decode_hook_receipt ext s scope =
     (case snap_bytes s of
        None \<Rightarrow> Inr None
      | Some b \<Rightarrow>
          (case kx_receipt_from_slice ext b of
             None \<Rightarrow> Inl InvalidOwnerReceipt
           | Some r \<Rightarrow> bindR (hook_receipt_validate ext r scope) (\<lambda>_. Inr (Some r))))"

section \<open>The settings document\<close>

definition parse_settings :: "hook_ext \<Rightarrow> snapshot \<Rightarrow> manager_error + json" where
  "parse_settings ext s =
     (case snap_bytes s of
        None \<Rightarrow> Inr (JObj [])
      | Some b \<Rightarrow>
          if list_all ascii_whitespace b then Inr (JObj [])
          else (case jx_value (kx_json ext) b of
                  None \<Rightarrow> Inl (InvalidHostConfig SettingsNotJson)
                | Some (JObj fs) \<Rightarrow> Inr (JObj fs)
                | Some _ \<Rightarrow> Inl (InvalidHostConfig SettingsNotObject)))"

definition encode_settings :: "hook_ext \<Rightarrow> json \<Rightarrow> bytes" where
  "encode_settings ext document = jx_to_vec_pretty (kx_json ext) document @ nl"

definition json_array :: "json \<Rightarrow> json list option" where
  "json_array v = (case v of JArr xs \<Rightarrow> Some xs | _ \<Rightarrow> None)"

definition json_index :: "json \<Rightarrow> nat \<Rightarrow> json option" where
  "json_index v i = (case v of JArr xs \<Rightarrow> if i < length xs then Some (xs ! i) else None | _ \<Rightarrow> None)"

definition json_str :: "json \<Rightarrow> bytes option" where
  "json_str v = (case v of JStr s \<Rightarrow> Some s | _ \<Rightarrow> None)"

definition event_array :: "json \<Rightarrow> json list option" where
  "event_array document =
     Option.bind (json_get document ''hooks'') (\<lambda>hooks.
     Option.bind (json_get hooks hook_event) json_array)"

text \<open>The positions of the elements that satisfy a predicate, in order.\<close>

definition indices_of :: "(json \<Rightarrow> bool) \<Rightarrow> json \<Rightarrow> nat list" where
  "indices_of P document =
     (case event_array document of
        None \<Rightarrow> []
      | Some entries \<Rightarrow> map fst (filter (\<lambda>(_, e). P e) (List.enumerate 0 entries)))"

definition matching_indices :: "json \<Rightarrow> json option \<Rightarrow> nat list" where
  "matching_indices document owned =
     (case owned of None \<Rightarrow> [] | Some o' \<Rightarrow> indices_of (\<lambda>e. json_eq e o') document)"

definition identical_indices :: "json \<Rightarrow> json \<Rightarrow> nat list" where
  "identical_indices document desired = indices_of (\<lambda>e. json_eq e desired) document"

definition entry_command :: "json \<Rightarrow> bytes option" where
  "entry_command owned =
     Option.bind (json_get owned ''hooks'') (\<lambda>hooks.
     Option.bind (json_index hooks 0) (\<lambda>hook.
     Option.bind (json_get hook ''command'') json_str))"

definition runs_command :: "bytes \<Rightarrow> json \<Rightarrow> bool" where
  "runs_command command e =
     (case Option.bind (json_get e ''hooks'') json_array of
        None \<Rightarrow> False
      | Some hooks \<Rightarrow> list_ex (\<lambda>hook. Option.bind (json_get hook ''command'') json_str = Some command) hooks)"

definition resembling_indices :: "json \<Rightarrow> json \<Rightarrow> nat list" where
  "resembling_indices document owned =
     (case entry_command owned of
        None \<Rightarrow> []
      | Some command \<Rightarrow> indices_of (\<lambda>e. \<not> json_eq e owned \<and> runs_command command e) document)"

definition entry_at :: "json \<Rightarrow> nat \<Rightarrow> manager_error + json" where
  "entry_at document i =
     (case event_array document of
        None \<Rightarrow> Inl InvalidOwnerReceipt
      | Some entries \<Rightarrow> if i < length entries then Inr (entries ! i) else Inl InvalidOwnerReceipt)"

definition push_entry :: "json \<Rightarrow> json \<Rightarrow> manager_error + json" where
  "push_entry document entry =
     (case document of
        JObj fs \<Rightarrow>
          (case (case map_of fs ''hooks'' of Some h \<Rightarrow> h | None \<Rightarrow> JObj []) of
             JObj hooks \<Rightarrow>
               (case (case map_of hooks hook_event of Some a \<Rightarrow> a | None \<Rightarrow> JArr []) of
                  JArr entries \<Rightarrow>
                    Inr (JObj (obj_insert ''hooks'' (JObj (obj_insert hook_event (JArr (entries @ [entry])) hooks)) fs))
                | _ \<Rightarrow> Inl (InvalidHostConfig HookEventNotArray))
           | _ \<Rightarrow> Inl (InvalidHostConfig HooksNotObject))
      | _ \<Rightarrow> Inl (InvalidHostConfig SettingsNotObject))"

definition replace_entry :: "json \<Rightarrow> nat \<Rightarrow> json \<Rightarrow> manager_error + json" where
  "replace_entry document i entry =
     (case document of
        JObj fs \<Rightarrow>
          (case map_of fs ''hooks'' of
             Some (JObj hooks) \<Rightarrow>
               (case map_of hooks hook_event of
                  Some (JArr entries) \<Rightarrow>
                    if i < length entries
                    then Inr (JObj (obj_insert ''hooks'' (JObj (obj_insert hook_event (JArr (entries[i := entry])) hooks)) fs))
                    else Inl InvalidOwnerReceipt
                | _ \<Rightarrow> Inl InvalidOwnerReceipt)
           | _ \<Rightarrow> Inl InvalidOwnerReceipt)
      | _ \<Rightarrow> Inl InvalidOwnerReceipt)"

text \<open>The element, then the key if the array is empty, then \<^verbatim>\<open>hooks\<close> if that is.\<close>

definition remove_entry :: "json \<Rightarrow> nat \<Rightarrow> manager_error + json" where
  "remove_entry document i =
     (case document of
        JObj fs \<Rightarrow>
          (case map_of fs ''hooks'' of
             Some (JObj hooks) \<Rightarrow>
               (case map_of hooks hook_event of
                  Some (JArr entries) \<Rightarrow>
                    if i \<ge> length entries then Inl InvalidOwnerReceipt
                    else
                      let entries' = remove_nth i entries;
                          hooks' = (if entries' = [] then obj_remove hook_event hooks
                                    else obj_insert hook_event (JArr entries') hooks)
                      in Inr (JObj (if hooks' = [] then obj_remove ''hooks'' fs
                                    else obj_insert ''hooks'' (JObj hooks') fs))
                | _ \<Rightarrow> Inl InvalidOwnerReceipt)
           | _ \<Rightarrow> Inl InvalidOwnerReceipt)
      | _ \<Rightarrow> Inl InvalidOwnerReceipt)"

definition hook_is_empty_shell :: "json \<Rightarrow> bool" where
  "hook_is_empty_shell document \<longleftrightarrow> document = JObj []"

section \<open>Planning\<close>

definition settings_path :: "process \<Rightarrow> scope \<Rightarrow> path option \<Rightarrow> (manager_error, path) act" where
  "settings_path pr scope explicit =
     (case scope of
        UserScope \<Rightarrow> bindA (user_home pr) (\<lambda>home. ret (join home [Normal ''.claude'', Normal ''settings.json'']))
      | ProjectScope \<Rightarrow>
          bindA (project_root pr explicit) (\<lambda>project. ret (join project [Normal ''.claude'', Normal ''settings.json''])))"

text \<open>\<^verbatim>\<open>Path::display\<close> renders as \<^verbatim>\<open>to_string_lossy\<close> does.\<close>

definition owned_entry :: "path \<Rightarrow> bytes \<Rightarrow> json" where
  "owned_entry manager profile =
     JObj [(''matcher'', JStr hook_matcher),
           (''hooks'', JArr [JObj
              [(''type'', JStr ''command''),
               (''command'', JStr (path_to_string_lossy manager @ '' hook session-start --profile '' @ profile)),
               (''timeout'', JNum hook_timeout_seconds)]])]"

definition hook_noop_plan :: "scope \<Rightarrow> hook_action \<Rightarrow> host_files \<Rightarrow> hook_plan" where
  "hook_noop_plan scope action fs =
     \<lparr>hk_scope = scope, hk_action = action, hk_files = fs, hk_restore = None, hk_adopted = False,
      hk_formatting_preserved = False, hk_write = Leave, hk_receipt_after = None, hk_remove_backup = False\<rparr>"

definition read_settings_files :: "hook_ext \<Rightarrow> path \<Rightarrow> (manager_error, host_files) act" where
  "read_settings_files ext target =
     bindA (lift (sibling_path target owner_receipt_suffix)) (\<lambda>receipt_path.
     bindA (lift (sibling_path target backup_suffix)) (\<lambda>backup_path.
     bindA (read_snapshot (kx_sha ext) target max_settings_bytes ''harness settings'') (\<lambda>original.
     bindA (read_snapshot (kx_sha ext) receipt_path max_hook_receipt_bytes ''hook owner receipt'') (\<lambda>receipt_original.
     ret \<lparr>hf_target = target, hf_receipt_path = receipt_path, hf_backup_path = backup_path,
          hf_original = original, hf_receipt_original = receipt_original\<rparr>))))"

text \<open>
  The match over the three counts: what to do, or \<open>None\<close> for an entry that is already the wanted
  one.
\<close>

definition hook_install_action ::
    "json \<Rightarrow> json \<Rightarrow> hook_receipt option \<Rightarrow> manager_error + hook_action option" where
  "hook_install_action document desired receipt =
     (let matches = matching_indices document (map_option hr_owned receipt);
          identical = identical_indices document desired;
          resembling = resembling_indices document desired in
      if length matches = 0 \<and> length identical = 0 \<and> length resembling = 0 then Inr (Some HookAdd)
      else if length matches = 0 \<and> length identical = 1 \<and> receipt = None then Inr (Some HookAdopt)
      else if length matches = 0 \<and> receipt = None \<and> length identical > 1
      then Inl (HostConflict (HookIdenticalEntries (length identical)))
      else if length matches = 1 then
        bindR (entry_at document (matches ! 0)) (\<lambda>e.
        Inr (if json_eq e desired then None else Some HookUpdate))
      else if length matches = 0 then Inl (HostConflict HookEntryResembles)
      else Inl (HostConflict (HookOwnedEntriesRepeated (length matches))))"

definition hook_install_write ::
    "hook_ext \<Rightarrow> hook_action \<Rightarrow> json \<Rightarrow> json \<Rightarrow> hook_receipt option \<Rightarrow> snapshot \<Rightarrow> manager_error + target_write \<times> string" where
  "hook_install_write ext action document desired receipt original =
     (case action of
        HookAdopt \<Rightarrow> Inr (Leave, sha256 original)
      | HookAdd \<Rightarrow>
          bindR (push_entry document desired) (\<lambda>document'.
          let encoded = encode_settings ext document' in
          Inr (Write encoded, digest_bytes (kx_sha ext) encoded))
      | HookUpdate \<Rightarrow>
          bindR (replace_entry document (matching_indices document (map_option hr_owned receipt) ! 0) desired) (\<lambda>document'.
          let encoded = encode_settings ext document' in
          Inr (Write encoded, digest_bytes (kx_sha ext) encoded))
      | _ \<Rightarrow> Inl (Panicked ''only Add, Adopt and Update reach here''))"

definition decide_hook_install ::
    "hook_ext \<Rightarrow> scope \<Rightarrow> path \<Rightarrow> bytes \<Rightarrow> host_files \<Rightarrow> manager_error + hook_plan" where
  "decide_hook_install ext scope manager profile fs =
     (let original = hf_original fs; desired = owned_entry manager profile in
      bindR (decode_hook_receipt ext (hf_receipt_original fs) scope) (\<lambda>receipt.
      bindR (parse_settings ext original) (\<lambda>document.
      bindR (hook_install_action document desired receipt) (\<lambda>decision.
      case decision of
        None \<Rightarrow> Inr (hook_noop_plan scope HookAlreadyInstalled fs)
      | Some action \<Rightarrow>
          bindR (hook_install_write ext action document desired receipt original) (\<lambda>(write, post).
          let adopted = (action = HookAdopt \<or> (case receipt of Some r \<Rightarrow> hr_adopted r | None \<Rightarrow> False)) in
          Inr \<lparr>hk_scope = scope, hk_action = action, hk_files = fs, hk_restore = None, hk_adopted = adopted,
               hk_formatting_preserved = False, hk_write = write,
               hk_receipt_after = Some
                 \<lparr>hr_version = hook_receipt_version, hr_owner = hook_owner, hr_scope = scope, hr_profile = profile,
                  hr_owned = desired, hr_owned_sha256 = canonical_digest ext desired,
                  hr_pre_sha256 =
                    (if action = HookAdopt then sha256 original
                     else case receipt of None \<Rightarrow> sha256 original | Some r \<Rightarrow> hr_pre_sha256 r),
                  hr_post_sha256 = post,
                  hr_file_created =
                    (action \<noteq> HookAdopt \<and>
                     (case receipt of None \<Rightarrow> snap_bytes original = None | Some r \<Rightarrow> hr_file_created r)),
                  hr_adopted = adopted\<rparr>,
               hk_remove_backup = False\<rparr>)))))"

definition hook_plan_install_at ::
    "hook_ext \<Rightarrow> scope \<Rightarrow> path \<Rightarrow> bytes \<Rightarrow> path \<Rightarrow> (manager_error, hook_plan) act" where
  "hook_plan_install_at ext scope manager profile target =
     bindA (lift (validate_profile_name profile)) (\<lambda>_.
     bindA (read_settings_files ext target) (\<lambda>fs.
     lift (decide_hook_install ext scope manager profile fs)))"

definition hook_plan_install ::
    "hook_ext \<Rightarrow> process \<Rightarrow> scope \<Rightarrow> path \<Rightarrow> bytes \<Rightarrow> path option \<Rightarrow> (manager_error, hook_plan) act" where
  "hook_plan_install ext pr scope manager profile explicit =
     bindA (settings_path pr scope explicit) (\<lambda>target.
     hook_plan_install_at ext scope manager profile target)"

section \<open>Removing\<close>

text \<open>Which element goes, or \<open>None\<close> when there is nothing to remove.\<close>

definition hook_removal_index :: "json \<Rightarrow> hook_receipt \<Rightarrow> bool \<Rightarrow> manager_error + nat option" where
  "hook_removal_index document r force =
     (let matches = matching_indices document (Some (hr_owned r)) in
      if length matches = 0 then
        let resembling = resembling_indices document (hr_owned r) in
        if resembling = [] then Inr None
        else if \<not> force then Inl (HostConflict HookEntryHandEdited)
        else Inr (Some (resembling ! 0))
      else if length matches = 1 then Inr (Some (matches ! 0))
      else Inl (HostConflict (HookOwnedEntriesRepeated (length matches))))"

definition hook_structural :: "hook_ext \<Rightarrow> hook_receipt \<Rightarrow> snapshot \<Rightarrow> json \<Rightarrow> json \<Rightarrow> target_write \<times> bool" where
  "hook_structural ext r original before document =
     (if hr_file_created r \<and> hook_is_empty_shell document then (Remove, False)
      else
        case (case snap_bytes original of
                None \<Rightarrow> None
              | Some b \<Rightarrow> if utf8_valid b then excise (kx_json ext) b before document else None) of
          Some text \<Rightarrow> (Write text, True)
        | None \<Rightarrow> (Write (encode_settings ext document), False))"

definition hook_removal ::
    "scope \<Rightarrow> host_files \<Rightarrow> hook_receipt \<Rightarrow> restore_tier \<Rightarrow> target_write \<Rightarrow> bool \<Rightarrow> bool \<Rightarrow> hook_plan" where
  "hook_removal scope fs r tier write preserved remove_backup =
     \<lparr>hk_scope = scope, hk_action = HookRemove, hk_files = fs, hk_restore = Some tier, hk_adopted = hr_adopted r,
      hk_formatting_preserved = preserved, hk_write = write, hk_receipt_after = None,
      hk_remove_backup = remove_backup\<rparr>"

text \<open>The exact restore where the file is still the one the receipt records, else the structural one.\<close>

definition hook_restore ::
    "hook_ext \<Rightarrow> scope \<Rightarrow> host_files \<Rightarrow> hook_receipt \<Rightarrow> json \<Rightarrow> json \<Rightarrow> snapshot \<Rightarrow> hook_plan" where
  "hook_restore ext scope fs r before document backup =
     (let file_is_ours = (sha256 (hf_original fs) = hr_post_sha256 r);
          backup_is_pre = (snap_bytes backup \<noteq> None \<and> sha256 backup = hr_pre_sha256 r) in
      if \<not> hr_adopted r \<and> file_is_ours \<and> (hr_file_created r \<or> backup_is_pre) then
        hook_removal scope fs r ByteIdentical
          (if hr_file_created r then Remove
           else case snap_bytes backup of None \<Rightarrow> Remove | Some b \<Rightarrow> Write b) False True
      else
        (case hook_structural ext r (hf_original fs) before document of
           (write, preserved) \<Rightarrow> hook_removal scope fs r Structural write preserved False))"

definition hook_remove_owned ::
    "hook_ext \<Rightarrow> scope \<Rightarrow> bool \<Rightarrow> host_files \<Rightarrow> hook_receipt \<Rightarrow> (manager_error, hook_plan) act" where
  "hook_remove_owned ext scope force fs r =
     bindA (lift (parse_settings ext (hf_original fs))) (\<lambda>before.
     bindA (lift (hook_removal_index before r force)) (\<lambda>choice.
     case choice of
       None \<Rightarrow> ret (hook_noop_plan scope HookAlreadyRemoved fs)
     | Some i \<Rightarrow>
         bindA (lift (remove_entry before i)) (\<lambda>document.
         bindA (read_snapshot (kx_sha ext) (hf_backup_path fs) max_settings_bytes ''settings backup'') (\<lambda>backup.
         ret (hook_restore ext scope fs r before document backup)))))"

definition hook_plan_remove_at ::
    "hook_ext \<Rightarrow> scope \<Rightarrow> path \<Rightarrow> bool \<Rightarrow> (manager_error, hook_plan) act" where
  "hook_plan_remove_at ext scope target force =
     bindA (read_settings_files ext target) (\<lambda>fs.
     bindA (lift (decode_hook_receipt ext (hf_receipt_original fs) scope)) (\<lambda>receipt.
     case receipt of
       None \<Rightarrow> ret (hook_noop_plan scope HookAlreadyRemoved fs)
     | Some r \<Rightarrow> hook_remove_owned ext scope force fs r))"

definition hook_plan_remove ::
    "hook_ext \<Rightarrow> process \<Rightarrow> scope \<Rightarrow> path option \<Rightarrow> bool \<Rightarrow> (manager_error, hook_plan) act" where
  "hook_plan_remove ext pr scope explicit force =
     bindA (settings_path pr scope explicit) (\<lambda>target. hook_plan_remove_at ext scope target force)"

section \<open>Applying a plan\<close>

definition hook_is_noop :: "hook_plan \<Rightarrow> bool" where
  "hook_is_noop plan \<longleftrightarrow> hk_action plan = HookAlreadyInstalled \<or> hk_action plan = HookAlreadyRemoved"

definition hook_change :: "hook_ext \<Rightarrow> hook_plan \<Rightarrow> change" where
  "hook_change ext plan =
     \<lparr>ch_target = hf_target (hk_files plan), ch_receipt_path = hf_receipt_path (hk_files plan),
      ch_backup_path = hf_backup_path (hk_files plan), ch_undoing = (hk_restore plan \<noteq> None),
      ch_original = hf_original (hk_files plan), ch_receipt_original = hf_receipt_original (hk_files plan),
      ch_write = hk_write plan,
      ch_receipt_bytes = map_option (hook_receipt_encode ext) (hk_receipt_after plan),
      ch_remove_backup = hk_remove_backup plan,
      ch_max = max_settings_bytes, ch_max_receipt = max_hook_receipt_bytes,
      ch_label = ''harness settings'', ch_receipt_label = ''hook owner receipt'',
      ch_unchecked_rollback = True\<rparr>"

definition hook_apply :: "hook_ext \<Rightarrow> hook_plan \<Rightarrow> (manager_error, unit) act" where
  "hook_apply ext plan =
     (if hook_is_noop plan then ret () else apply_change (kx_sha ext) (hook_change ext plan))"

definition hook_backup_after :: "hook_plan \<Rightarrow> bool \<Rightarrow> ('e, path option) act" where
  "hook_backup_after plan dry_run =
     (if dry_run \<and> hk_restore plan = None \<and> \<not> is_leave (hk_write plan)
      then ret (Some (hf_backup_path (hk_files plan)))
      else if dry_run \<and> hk_remove_backup plan then ret None
      else bindA (path_exists (hf_backup_path (hk_files plan))) (\<lambda>there.
             ret (if there then Some (hf_backup_path (hk_files plan)) else None)))"

fun hook_action_str :: "hook_action \<Rightarrow> string" where
  "hook_action_str HookAdd = ''add''"
| "hook_action_str HookAdopt = ''adopt''"
| "hook_action_str HookUpdate = ''update''"
| "hook_action_str HookRemove = ''remove''"
| "hook_action_str HookAlreadyInstalled = ''already_installed''"
| "hook_action_str HookAlreadyRemoved = ''already_removed''"

definition hook_summary :: "hook_plan \<Rightarrow> bool \<Rightarrow> (manager_error, json) act" where
  "hook_summary plan dry_run =
     bindA (lift (json_path (hf_target (hk_files plan)))) (\<lambda>target.
     bindA (lift (json_path (hf_receipt_path (hk_files plan)))) (\<lambda>receipt.
     bindA (hook_backup_after plan dry_run) (\<lambda>backup.
     bindA (lift (case backup of None \<Rightarrow> Inr JNull | Some p \<Rightarrow> json_path p)) (\<lambda>backup_json.
     ret (JObj
       ([(''version'', JNum ''1''),
         (''status'', JStr (if dry_run then ''dry_run'' else if hook_is_noop plan then ''unchanged'' else ''applied'')),
         (''action'', JStr (hook_action_str (hk_action plan))),
         (''event'', JStr hook_event),
         (''scope'', JStr (scope_as_str (hk_scope plan))),
         (''target'', target), (''owner_receipt'', receipt), (''backup'', backup_json)]
        @ (case hk_restore plan of
             None \<Rightarrow> []
           | Some tier \<Rightarrow>
               (''restore'', JStr (restore_tier_str tier)) #
               (if tier = Structural
                then [(''formatting'', JStr (if hk_formatting_preserved plan then ''preserved'' else ''normalized''))]
                else []))
        @ (if hk_adopted plan then [(''adopted'', JBool True)] else [])
        @ (if hk_action plan = HookAdopt
           then [(''detail'', JStr ''existing content is byte-identical to the manager's; the owner receipt was written and no bytes were changed'')]
           else [])))))))"

definition hook_writes_nothing :: "hook_plan \<Rightarrow> bool" where
  "hook_writes_nothing plan = is_leave (hk_write plan)"

end
