(* ===== verification/Hook_Report.thy ===== *)
theory Hook_Report
  imports Hooks
begin

text \<open>
  The session-start report of the hook (\<^verbatim>\<open>src/src/hooks.rs\<close>, the second half), its pure parts: which
  server the host is registered to start, how an answer of that server is read, the verdict, the
  rendering of retrieved memories, and the byte budgets of the line the hook prints. Running the
  server and the engine, and the clock, are outside.
\<close>

definition max_hook_output_bytes :: nat where
  "max_hook_output_bytes = 4 * 1024"

definition max_context_bytes :: nat where
  "max_context_bytes = 2600"

definition max_memory_section_bytes :: nat where
  "max_memory_section_bytes = 1500"

definition max_host_config_probe_bytes :: nat where
  "max_host_config_probe_bytes = 4 * 1024 * 1024"

definition server_key :: bytes where
  "server_key = ''kaleidoscope''"

definition hook_public_tools :: "bytes list" where
  "hook_public_tools = [''remember'', ''search'']"

section \<open>Registration\<close>

record registration =
  rg_scope :: string
  rg_source :: path
  rg_command :: bytes
  rg_args :: "bytes list"

fun join_words :: "bytes \<Rightarrow> bytes list \<Rightarrow> bytes" where
  "join_words sep [] = []"
| "join_words sep [x] = x"
| "join_words sep (x # y # ys) = x @ sep @ join_words sep (y # ys)"

definition display_command :: "registration \<Rightarrow> bytes" where
  "display_command r =
     (if rg_args r = [] then rg_command r else rg_command r @ '' '' @ join_words '' '' (rg_args r))"

text \<open>\<^verbatim>\<open>value["key"]\<close>: \<^verbatim>\<open>null\<close> where there is no such member.\<close>

definition json_at :: "json \<Rightarrow> bytes \<Rightarrow> json" where
  "json_at v k = (case json_get v k of Some x \<Rightarrow> x | None \<Rightarrow> JNull)"

definition registration_of :: "scope \<Rightarrow> path \<Rightarrow> json \<Rightarrow> registration option" where
  "registration_of scope p document =
     (let entry = json_at (json_at document ''mcpServers'') server_key in
      case json_str (json_at entry ''command'') of
        None \<Rightarrow> None
      | Some command \<Rightarrow>
          Some \<lparr>rg_scope = scope_as_str scope, rg_source = p, rg_command = command,
                rg_args = (case json_array (json_at entry ''args'') of
                             None \<Rightarrow> [] | Some vs \<Rightarrow> List.map_filter json_str vs)\<rparr>)"

text \<open>One turn of the loop: anything that goes wrong moves on to the next scope.\<close>

definition registration_in ::
    "hash \<Rightarrow> json_ext \<Rightarrow> process \<Rightarrow> path \<Rightarrow> path \<Rightarrow> scope \<Rightarrow> ('e, registration option) act" where
  "registration_in sha jx pr home project scope =
     (case host_config_path pr ClaudeCode scope home project of
        Inl _ \<Rightarrow> ret None
      | Inr p \<Rightarrow>
          bindA (attempt (read_snapshot sha p max_host_config_probe_bytes ''host configuration'')) (\<lambda>r.
          ret (case r of
                 Inl _ \<Rightarrow> None
               | Inr s \<Rightarrow>
                   Option.bind (snap_bytes s) (\<lambda>b. Option.bind (jx_value jx b) (registration_of scope p)))))"

definition find_registration ::
    "hash \<Rightarrow> json_ext \<Rightarrow> process \<Rightarrow> path \<Rightarrow> ('e, registration option) act" where
  "find_registration sha jx pr cwd =
     bindA (attempt (user_home pr)) (\<lambda>home.
     case home of Inl _ \<Rightarrow> ret None | Inr h \<Rightarrow>
     bindA (attempt (project_root pr (Some cwd))) (\<lambda>project.
     case project of Inl _ \<Rightarrow> ret None | Inr p \<Rightarrow>
     bindA (registration_in sha jx pr h p ProjectScope) (\<lambda>first.
     case first of
       Some r \<Rightarrow> ret (Some r)
     | None \<Rightarrow> registration_in sha jx pr h p UserScope)))"

section \<open>The probe\<close>

datatype probe =
    Unregistered
  | Unusable bytes
  | NoAnswer bytes
  | Answered "bytes option" "bytes option" "bytes list" "bytes option" nat

fun probe_tools :: "probe \<Rightarrow> bytes list" where
  "probe_tools (Answered _ _ tools _ _) = tools"
| "probe_tools _ = []"

definition publishes_both :: "probe \<Rightarrow> bool" where
  "publishes_both p = list_all (\<lambda>wanted. wanted \<in> set (probe_tools p)) hook_public_tools"

definition quote :: bytes where
  "quote = [CHR 0x22]"

definition contract_text :: bytes where
  "contract_text =
     ''the server's tools/list result omits the top-level `ttlMs` (number) and `cacheScope` ('' @ quote @ ''public'' @ quote
     @ ''|'' @ quote @ ''private'' @ quote
     @ '') fields this Claude Code build requires, so the client rejects the whole result and drops both tools''"

definition client_contract :: "json \<Rightarrow> bytes option" where
  "client_contract result =
     (let ttl = (case json_get result ''ttlMs'' of Some (JNum _) \<Rightarrow> True | _ \<Rightarrow> False);
          scope = (case json_get result ''cacheScope'' of
                     Some (JStr v) \<Rightarrow> v = ''public'' \<or> v = ''private'' | _ \<Rightarrow> False)
      in if ttl \<and> scope then None else Some contract_text)"

text \<open>The last answer to each of the two requests counts, as the loop overwrites.\<close>

fun probe_answers :: "json_ext \<Rightarrow> bytes list \<Rightarrow> json option \<times> json option \<Rightarrow> json option \<times> json option" where
  "probe_answers jx [] acc = acc"
| "probe_answers jx (l # ls) (initialize, listing) =
     (case jx_value jx l of
        None \<Rightarrow> probe_answers jx ls (initialize, listing)
      | Some message \<Rightarrow>
          (case json_get message ''id'' of
             Some (JNum n) \<Rightarrow>
               if n = ''1'' then probe_answers jx ls (json_get message ''result'', listing)
               else if n = ''2'' then probe_answers jx ls (initialize, json_get message ''result'')
               else probe_answers jx ls (initialize, listing)
           | _ \<Rightarrow> probe_answers jx ls (initialize, listing)))"

definition no_listing_detail :: "bool \<Rightarrow> bytes \<Rightarrow> bytes" where
  "no_listing_detail success stderr =
     (if stderr = [] then ''the server returned no tools/list result'' @ (if success then [] else '' and exited non-zero'')
      else stderr)"

definition server_name :: "json \<Rightarrow> bytes option" where
  "server_name initialize =
     (case json_str (json_at (json_at initialize ''serverInfo'') ''name'') of
        None \<Rightarrow> None
      | Some name \<Rightarrow>
          Some (name @ '' '' @
                (case json_str (json_at (json_at initialize ''serverInfo'') ''version'') of Some v \<Rightarrow> v | None \<Rightarrow> ''?'')))"

definition read_probe_answer :: "json_ext \<Rightarrow> bytes \<Rightarrow> bytes \<Rightarrow> bool \<Rightarrow> nat \<Rightarrow> probe" where
  "read_probe_answer jx stdout stderr success elapsed =
     (case probe_answers jx (str_lines (lossy stdout)) (None, None) of
        (_, None) \<Rightarrow> NoAnswer (no_listing_detail success stderr)
      | (initialize, Some listing) \<Rightarrow>
          Answered
            (Option.bind initialize (\<lambda>v. json_str (json_at v ''protocolVersion'')))
            (Option.bind initialize server_name)
            (case json_array (json_at listing ''tools'') of
               None \<Rightarrow> [] | Some vs \<Rightarrow> List.map_filter (\<lambda>tool. json_str (json_at tool ''name'')) vs)
            (client_contract listing) elapsed)"

definition tools_visible :: "registration option \<Rightarrow> probe \<Rightarrow> bool" where
  "tools_visible reg p \<longleftrightarrow>
     reg \<noteq> None \<and> publishes_both p \<and> (case p of Answered _ _ _ None _ \<Rightarrow> True | _ \<Rightarrow> False)"

definition verdict_reason :: "registration option \<Rightarrow> probe \<Rightarrow> bool \<Rightarrow> bytes" where
  "verdict_reason reg p visible =
     (if visible then ''server publishes both tools and the tools/list result satisfies the client contract''
      else case p of
        Unregistered \<Rightarrow>
          if reg = None then ''no mcpServers.kaleidoscope entry applies to this project'' else ''unregistered''
      | Unusable _ \<Rightarrow> ''the registered command is not an executable file''
      | NoAnswer _ \<Rightarrow> ''the registered command did not answer tools/list''
      | Answered _ _ _ contract _ \<Rightarrow>
          if contract \<noteq> None then ''client_tools_list_contract''
          else ''the server did not publish both search and remember'')"

section \<open>Byte budgets\<close>

definition ellipsis :: bytes where
  "ellipsis = [CHR 0xE2, CHR 0x80, CHR 0xA6]"

fun back_to_boundary :: "bytes \<Rightarrow> nat \<Rightarrow> nat" where
  "back_to_boundary s 0 = 0"
| "back_to_boundary s (Suc k) = (if is_char_boundary s (Suc k) then Suc k else back_to_boundary s k)"

definition clip :: "bytes \<Rightarrow> nat \<Rightarrow> bytes" where
  "clip text budget =
     (if length text \<le> budget then text
      else
        let room = budget - length ellipsis;
            end' = back_to_boundary text (min room (length text)) in
        take end' text @ (if length ellipsis \<le> budget then ellipsis else []))"

definition dash :: bytes where
  "dash = [CHR 0xE2, CHR 0x80, CHR 0x94]"

definition strip_hashes :: "bytes \<Rightarrow> bytes" where
  "strip_hashes s = dropWhile (\<lambda>c. c = CHR ''#'') s"

definition or_text :: "bytes option \<Rightarrow> bytes \<Rightarrow> bytes" where
  "or_text x d = (case x of Some s \<Rightarrow> s | None \<Rightarrow> d)"

definition render_hit :: "json \<Rightarrow> bytes" where
  "render_hit h =
     (let lines = filter (\<lambda>l. str_trim l \<noteq> []) (str_lines (or_text (json_str (json_at h ''content_md'')) []));
          title = str_trim (strip_hashes (case lines of l # _ \<Rightarrow> l | [] \<Rightarrow> ''(untitled)''));
          body = str_trim (case lines of _ # l # _ \<Rightarrow> l | _ \<Rightarrow> []);
          kind = or_text (json_str (json_at h ''memory_type'')) ''memory'';
          ident = or_text (json_str (json_at h ''memory_id'')) ''mem_?'' in
      ''- ['' @ kind @ ''] '' @ title @ '' '' @ dash @ '' '' @ clip body (min 160 max_memory_section_bytes)
        @ '' ('' @ ident @ '')'')"

text \<open>The loop over the hits: it stops at the first entry that does not fit.\<close>

fun render_go :: "bytes \<Rightarrow> nat \<Rightarrow> json list \<Rightarrow> bytes list \<times> nat" where
  "render_go label spent [] = ([], 0)"
| "render_go label spent (h # hs) =
     (let entry = render_hit h in
      if spent + length entry + 1 > max_memory_section_bytes then ([], 0)
      else case render_go label (spent + length entry + 1) hs of
        (entries, labelled) \<Rightarrow>
          (entry # entries,
           (if json_str (json_at (json_at h ''scope'') ''project'') = Some label then 1 else 0) + labelled))"

definition render_hits :: "json \<Rightarrow> bytes \<Rightarrow> bytes list \<times> nat" where
  "render_hits v label =
     (case json_array (json_at v ''selected_hits'') of None \<Rightarrow> ([], 0) | Some hits \<Rightarrow> render_go label 0 hits)"

text \<open>What the header of the memory section claims about where the memories come from.\<close>

datatype provenance = RecordedFor | RankedUnlabelled | RankedPartly nat

definition provenance_of :: "bytes list \<Rightarrow> nat \<Rightarrow> provenance" where
  "provenance_of entries labelled =
     (if labelled = length entries then RecordedFor
      else if labelled = 0 then RankedUnlabelled else RankedPartly labelled)"

section \<open>The line\<close>

definition clip_context :: "bytes \<Rightarrow> bytes" where
  "clip_context context = clip context max_context_bytes"

definition wrap_hook_line :: "(json \<Rightarrow> bytes) \<Rightarrow> bytes \<Rightarrow> bytes" where
  "wrap_hook_line to_string context =
     to_string (JObj [(''hookSpecificOutput'',
       JObj [(''hookEventName'', JStr hook_event), (''additionalContext'', JStr context)])])"

text \<open>\<^verbatim>\<open>context.split("\n\n").next()\<close>.\<close>

definition first_paragraph :: "bytes \<Rightarrow> bytes" where
  "first_paragraph context = (case str_find (nl @ nl) context of None \<Rightarrow> context | Some i \<Rightarrow> take i context)"

definition encode_hook_line :: "(json \<Rightarrow> bytes) \<Rightarrow> bytes \<Rightarrow> json \<Rightarrow> bytes" where
  "encode_hook_line to_string context facts =
     (let line = wrap_hook_line to_string (clip_context context) in
      if length line \<le> max_hook_output_bytes then line
      else
        let line' = wrap_hook_line to_string (clip_context (first_paragraph context)) in
        if length line' \<le> max_hook_output_bytes then line'
        else wrap_hook_line to_string (clip (to_string facts) max_context_bytes))"

section \<open>Clipping\<close>

lemma back_to_boundary_le: "back_to_boundary s k \<le> k"
  by (induction k) auto

lemma back_to_boundary_boundary: "is_char_boundary s (back_to_boundary s k)"
  by (induction k) (auto simp: is_char_boundary_def)

lemma utf8_next_take: "utf8_next s = Some w \<Longrightarrow> utf8_next (take w s) = Some w"
  by (cases s) (auto split: if_splits list.splits)

lemma second_ok_cont: "second_ok x c \<Longrightarrow> is_cont c"
  by (auto simp: second_ok_def is_cont_def split: if_splits)

lemma utf8_next_shape:
  assumes "utf8_next s = Some w"
  shows "w = 1 \<or> (\<exists>a b r. s = a # b # r \<and> w = 2 \<and> is_cont b) \<or>
    (\<exists>a b c r. s = a # b # c # r \<and> w = 3 \<and> is_cont b \<and> is_cont c) \<or>
    (\<exists>a b c d r. s = a # b # c # d # r \<and> w = 4 \<and> is_cont b \<and> is_cont c \<and> is_cont d)"
  using assms by (cases s) (auto dest: second_ok_cont split: if_splits list.splits)

lemma utf8_next_inner:
  assumes "utf8_next s = Some w" "0 < k" "k < w"
  shows "is_cont (s ! k)"
proof -
  have "k = 1 \<or> k = 2 \<or> k = 3" using assms(2,3) utf8_next_shape[OF assms(1)] by auto
  then show ?thesis using assms(3) utf8_next_shape[OF assms(1)] by auto
qed

lemma utf8_valid_width: "utf8_next s = Some w \<Longrightarrow> utf8_valid (take w s)"
  using utf8_next_take[of s w] utf8_next_bounds[of s w] by (subst utf8_valid.simps) simp

lemma utf8_valid_take:
  "utf8_valid s \<Longrightarrow> is_char_boundary s k \<Longrightarrow> k \<le> length s \<Longrightarrow> utf8_valid (take k s)"
proof (induction s arbitrary: k rule: utf8_valid.induct)
  case (1 s)
  show ?case
  proof (cases "s = [] \<or> k = 0 \<or> k = length s")
    case False
    with "1.prems"(1) obtain w where w: "utf8_next s = Some w" and v: "utf8_valid (drop w s)"
      by (subst (asm) utf8_valid.simps) (auto split: option.splits)
    have kw: "w \<le> k"
      using utf8_next_inner[OF w, of k] False "1.prems"(2) by (force simp: is_char_boundary_def)
    have "is_char_boundary (drop w s) (k - w)" using "1.prems"(2,3) kw False by (auto simp: is_char_boundary_def)
    then have "utf8_valid (take (k - w) (drop w s))" using "1.IH"[OF _ w v, of "k - w"] False "1.prems"(3) kw by auto
    with utf8_valid_width[OF w] have "utf8_valid (take w s @ take (k - w) (drop w s))" by (rule utf8_valid_append)
    moreover have "take k s = take w s @ take (k - w) (drop w s)" using kw by (metis le_add_diff_inverse take_add)
    ultimately show ?thesis by simp
  qed (use "1.prems" in auto)
qed

text \<open>A character takes at most four bytes, so a boundary is never more than three bytes back.\<close>

lemma utf8_valid_head: "utf8_valid s \<Longrightarrow> s \<noteq> [] \<Longrightarrow> \<not> is_cont (hd s)"
  by (subst (asm) utf8_valid.simps, cases s)
    (auto simp: is_cont_def split: option.splits if_splits list.splits)

lemma back_to_boundary_max: "is_char_boundary s j \<Longrightarrow> j \<le> k \<Longrightarrow> j \<le> back_to_boundary s k"
  by (induction k) (auto simp: le_Suc_eq)

lemma boundary_near:
  "utf8_valid s \<Longrightarrow> k \<le> length s \<Longrightarrow> \<exists>j. is_char_boundary s j \<and> j \<le> k \<and> k \<le> j + 3"
proof (induction s arbitrary: k rule: utf8_valid.induct)
  case (1 s)
  show ?case
  proof (cases "s = []")
    case False
    with "1.prems"(1) obtain w where w: "utf8_next s = Some w" and v: "utf8_valid (drop w s)"
      by (subst (asm) utf8_valid.simps) (auto split: option.splits)
    have w4: "w \<le> 4" "w \<le> length s" using utf8_next_shape[OF w] utf8_next_bounds[OF w] by auto
    show ?thesis
    proof (cases "k < w")
      case True
      then show ?thesis using w4 by (intro exI[of _ 0]) (simp add: is_char_boundary_def)
    next
      case False
      have "k - w \<le> length (drop w s)" using "1.prems"(2) by simp
      from "1.IH"[OF \<open>s \<noteq> []\<close> w v this] obtain j where
        j: "is_char_boundary (drop w s) j" "j \<le> k - w" "k - w \<le> j + 3" by blast
      have "drop w s \<noteq> [] \<Longrightarrow> \<not> is_cont (s ! w)" using utf8_valid_head[OF v] by (simp add: hd_drop_conv_nth)
      then have "is_char_boundary s (w + j)"
        using j(1) w4(2) by (auto simp: is_char_boundary_def)
      with j False show ?thesis by (intro exI[of _ "w + j"]) auto
    qed
  qed (use "1.prems" in \<open>auto simp: is_char_boundary_def\<close>)
qed

lemma back_to_boundary_near: "utf8_valid s \<Longrightarrow> k \<le> length s \<Longrightarrow> k \<le> back_to_boundary s k + 3"
  using boundary_near[of s k] back_to_boundary_max[of s _ k] by (metis add_le_mono1 order_trans)

section \<open>The memory section\<close>

lemma render_go_bounds:
  "spent \<le> max_memory_section_bytes \<Longrightarrow>
   (case render_go label spent hits of (entries, labelled) \<Rightarrow>
     spent + sum_list (map (\<lambda>e. length e + 1) entries) \<le> max_memory_section_bytes \<and> labelled \<le> length entries \<and>
     prefix entries (map render_hit hits))"
proof (induction hits arbitrary: spent)
  case (Cons h hits)
  show ?case
    using Cons.IH[of "spent + length (render_hit h) + 1"] Cons.prems by (auto simp: Let_def split: prod.splits)
qed simp

end
