(* ===== verification/Hook_Plans.thy ===== *)
theory Hook_Plans
  imports Hooks Host_Connect
begin

text \<open>
  The hook planners against the file view: the entry an install appends, that a removal finds it
  again, and the two applications on a machine whose calls do not fail.
\<close>

section \<open>The entries of the event\<close>

definition event_entries :: "json \<Rightarrow> json list" where
  "event_entries document = (case event_array document of None \<Rightarrow> [] | Some es \<Rightarrow> es)"

lemma wf_owned_entry: "wf_json (owned_entry manager profile)"
  by (simp add: owned_entry_def)

lemma indices_of_entries:
  "indices_of P document = filter (\<lambda>i. P (event_entries document ! i)) [0..<length (event_entries document)]"
proof -
  have "map fst (filter (\<lambda>(_, e). P e) (List.enumerate 0 es)) = filter (\<lambda>i. P (es ! i)) [0..<length es]" for es
    by (induction es rule: rev_induct) (auto simp: enumerate_append_eq nth_append intro: filter_cong)
  then show ?thesis by (auto simp: indices_of_def event_entries_def split: option.splits)
qed

lemma event_array_nested:
  "event_array (JObj (obj_insert ''hooks'' (JObj (obj_insert hook_event (JArr es) hooks)) fs)) = Some es"
  by (simp add: event_array_def json_get_def json_array_def)

lemma push_entry_Inr:
  assumes "push_entry document e = Inr document'"
  shows "event_array document' = Some (event_entries document @ [e])"
    and "k \<noteq> ''hooks'' \<Longrightarrow> json_get document' k = json_get document k"
    and "wf_json document \<Longrightarrow> wf_json e \<Longrightarrow> wf_json document'" and "\<exists>fs. document' = JObj fs"
proof -
  from assms obtain fs hooks entries where d: "document = JObj fs"
    and h: "(case map_of fs ''hooks'' of Some h \<Rightarrow> h | None \<Rightarrow> JObj []) = JObj hooks"
    and a: "(case map_of hooks hook_event of Some a \<Rightarrow> a | None \<Rightarrow> JArr []) = JArr entries"
    and d': "document' = JObj (obj_insert ''hooks'' (JObj (obj_insert hook_event (JArr (entries @ [e])) hooks)) fs)"
    by (auto simp: push_entry_def split: json.splits)
  have "event_entries document = entries"
    using h a by (auto simp: d event_entries_def event_array_def json_get_def json_array_def split: option.splits)
  then show "event_array document' = Some (event_entries document @ [e])" by (simp add: d' event_array_nested)
  show "k \<noteq> ''hooks'' \<Longrightarrow> json_get document' k = json_get document k" by (simp add: d d' json_get_def)
  show "\<exists>fs. document' = JObj fs" using d' by blast
  assume wf: "wf_json document" "wf_json e"
  have hs: "wf_json (JObj hooks)" using wf_json_map_of[OF wf(1)[unfolded d], of "''hooks''"] h by (cases "map_of fs ''hooks''") auto
  then have "wf_json (JArr (entries @ [e]))"
    using wf_json_map_of[OF hs, of hook_event] a wf(2) by (cases "map_of hooks hook_event") auto
  with hs wf(1) show "wf_json document'" unfolding d' d by (intro wf_json_insert)
qed

text \<open>An element that is there can be replaced and removed.\<close>

lemma replace_entry_Inr:
  assumes "replace_entry document i e = Inr document'"
  shows "event_entries document' = (event_entries document)[i := e]" "i < length (event_entries document)"
  using assms
  by (auto simp: replace_entry_def event_entries_def event_array_nested split: json.splits option.splits if_splits)
    (auto simp: event_array_def json_get_def json_array_def)

lemma remove_entry_total:
  assumes "event_array document = Some es" "i < length es"
  shows "\<exists>document'. remove_entry document i = Inr document'"
  using assms
  by (auto simp: remove_entry_def event_array_def json_get_def json_array_def Let_def
      split: json.splits Option.bind_splits)

lemma remove_entry_Inr:
  assumes "remove_entry document i = Inr document'" "wf_json document"
  shows "event_entries document' = remove_nth i (event_entries document)" "i < length (event_entries document)"
    "k \<noteq> ''hooks'' \<Longrightarrow> json_get document' k = json_get document k"
proof -
  from assms(1) obtain fs hooks es where d: "document = JObj fs" and h: "map_of fs ''hooks'' = Some (JObj hooks)"
    and es: "map_of hooks hook_event = Some (JArr es)" and i: "i < length es"
    and d': "document' =
      (let es' = remove_nth i es;
           hooks' = (if es' = [] then obj_remove hook_event hooks else obj_insert hook_event (JArr es') hooks)
       in JObj (if hooks' = [] then obj_remove ''hooks'' fs else obj_insert ''hooks'' (JObj hooks') fs))"
    by (auto simp: remove_entry_def Let_def split: json.splits option.splits if_splits)
  have old: "event_entries document = es" using h es
    by (simp add: d event_entries_def event_array_def json_get_def json_array_def)
  then show "i < length (event_entries document)" using i by simp
  have "distinct (map fst fs)" "distinct (map fst hooks)"
    using assms(2) wf_json_map_of[OF assms(2)[unfolded d] h] d by auto
  note m = map_of_obj_remove[OF this(1)] map_of_obj_remove[OF this(2)]
  have "obj_insert k' v fs' \<noteq> []" for k' v fs' by (cases fs') (auto split: if_splits)
  then show "event_entries document' = remove_nth i (event_entries document)"
    unfolding old using h by (auto simp: d' Let_def event_entries_def event_array_def json_get_def json_array_def m)
  show "k \<noteq> ''hooks'' \<Longrightarrow> json_get document' k = json_get document k"
    by (auto simp: d d' Let_def json_get_def m)
qed

section \<open>An install that appends\<close>

lemma decide_install_Add:
  assumes "decide_hook_install ext scope manager profile fs = Inr p" "hk_action p = HookAdd"
  obtains receipt doc doc' r where "decode_hook_receipt ext (hf_receipt_original fs) scope = Inr receipt"
    "parse_settings ext (hf_original fs) = Inr doc" "identical_indices doc (owned_entry manager profile) = []"
    "push_entry doc (owned_entry manager profile) = Inr doc'"
    "hk_files p = fs" "hk_restore p = None" "\<not> hk_remove_backup p"
    "hk_write p = Write (encode_settings ext doc')" "hk_receipt_after p = Some r"
    "hr_version r = hook_receipt_version" "hr_owner r = hook_owner" "hr_scope r = scope" "hr_profile r = profile"
    "hr_owned r = owned_entry manager profile" "hr_owned_sha256 r = canonical_digest ext (owned_entry manager profile)"
    "hr_post_sha256 r = digest_bytes (kx_sha ext) (encode_settings ext doc')"
    "hr_pre_sha256 r = (case receipt of None \<Rightarrow> sha256 (hf_original fs) | Some r0 \<Rightarrow> hr_pre_sha256 r0)"
    "hr_file_created r = (case receipt of None \<Rightarrow> snap_bytes (hf_original fs) = None | Some r0 \<Rightarrow> hr_file_created r0)"
    "hr_adopted r = (case receipt of Some r0 \<Rightarrow> hr_adopted r0 | None \<Rightarrow> False)"
proof -
  let ?e = "owned_entry manager profile"
  from assms(1) obtain receipt doc decision where st: "decode_hook_receipt ext (hf_receipt_original fs) scope = Inr receipt"
    "parse_settings ext (hf_original fs) = Inr doc"
    and act: "hook_install_action doc ?e receipt = Inr decision"
    by (auto simp: decide_hook_install_def Let_def bindR_eq_Inr)
  from assms st act have d: "decision = Some HookAdd"
    by (auto simp: decide_hook_install_def hook_noop_plan_def bindR_eq_Inr Let_def split: option.splits)
  from act d have "identical_indices doc ?e = []"
    by (auto simp: hook_install_action_def Let_def bindR_eq_Inr split: if_splits)
  moreover from assms st act d obtain doc' where new: "push_entry doc ?e = Inr doc'" "hk_files p = fs" "hk_restore p = None"
    "\<not> hk_remove_backup p" "hk_write p = Write (encode_settings ext doc')"
    "hk_receipt_after p = Some
       \<lparr>hr_version = hook_receipt_version, hr_owner = hook_owner, hr_scope = scope, hr_profile = profile,
        hr_owned = ?e, hr_owned_sha256 = canonical_digest ext ?e,
        hr_pre_sha256 = (case receipt of None \<Rightarrow> sha256 (hf_original fs) | Some r \<Rightarrow> hr_pre_sha256 r),
        hr_post_sha256 = digest_bytes (kx_sha ext) (encode_settings ext doc'),
        hr_file_created = (case receipt of None \<Rightarrow> snap_bytes (hf_original fs) = None | Some r \<Rightarrow> hr_file_created r),
        hr_adopted = (case receipt of Some r \<Rightarrow> hr_adopted r | None \<Rightarrow> False)\<rparr>"
    by (auto simp: decide_hook_install_def bindR_eq_Inr Let_def hook_install_write_def)
  ultimately show thesis by (intro that[OF st _ new(1-6)]) simp_all
qed

lemma identical_after_push:
  assumes "push_entry doc e = Inr doc'" "identical_indices doc e = []" "wf_json e"
  shows "identical_indices doc' e = [length (event_entries doc)]"
proof -
  have "event_entries doc' = event_entries doc @ [e]" using push_entry_Inr(1)[OF assms(1)] by (simp add: event_entries_def)
  moreover have "\<forall>i < length (event_entries doc). \<not> json_eq (event_entries doc ! i) e"
    using assms(2) by (auto simp: identical_indices_def indices_of_entries filter_empty_conv)
  ultimately show ?thesis
    using json_eq_refl[OF assms(3)]
    by (auto simp: identical_indices_def indices_of_entries nth_append filter_empty_conv)
qed

section \<open>An install that updates\<close>

lemma decide_install_Update:
  assumes "decide_hook_install ext scope manager profile fs = Inr p" "hk_action p = HookUpdate"
  obtains doc i doc' r where "parse_settings ext (hf_original (hk_files p)) = Inr doc"
    "\<not> json_eq (event_entries doc ! i) (owned_entry manager profile)"
    "replace_entry doc i (owned_entry manager profile) = Inr doc'" "hk_files p = fs"
    "hk_write p = Write (encode_settings ext doc')" "hk_receipt_after p = Some r"
    "hr_owned r = owned_entry manager profile"
proof -
  let ?e = "owned_entry manager profile"
  from assms(1) obtain receipt doc decision where st: "decode_hook_receipt ext (hf_receipt_original fs) scope = Inr receipt"
    "parse_settings ext (hf_original fs) = Inr doc"
    and act: "hook_install_action doc ?e receipt = Inr decision"
    by (auto simp: decide_hook_install_def Let_def bindR_eq_Inr)
  from assms st act have d: "decision = Some HookUpdate"
    by (auto simp: decide_hook_install_def hook_noop_plan_def bindR_eq_Inr Let_def split: option.splits)
  let ?m = "matching_indices doc (map_option hr_owned receipt)"
  from act d obtain e where e: "entry_at doc (?m ! 0) = Inr e" "\<not> json_eq e ?e"
    by (auto simp: hook_install_action_def Let_def bindR_eq_Inr split: if_splits)
  have "\<not> json_eq (event_entries doc ! (?m ! 0)) ?e"
    using e by (auto simp: entry_at_def event_entries_def split: option.splits if_splits)
  moreover from assms st act d obtain doc' r where "replace_entry doc (?m ! 0) ?e = Inr doc'" "hk_files p = fs"
    "hk_write p = Write (encode_settings ext doc')" "hk_receipt_after p = Some r" "hr_owned r = ?e"
    by (auto simp: decide_hook_install_def bindR_eq_Inr Let_def hook_install_write_def)
  ultimately show thesis using st(2) by (intro that) simp_all
qed

lemma identical_after_replace:
  assumes "replace_entry doc i e = Inr doc'" "\<not> json_eq (event_entries doc ! i) e" "identical_indices doc e \<noteq> []" "wf_json e"
  shows "2 \<le> length (identical_indices doc' e)"
proof -
  let ?es = "event_entries doc" and ?es' = "event_entries doc'"
  note r = replace_entry_Inr[OF assms(1)]
  from assms(3) obtain j where j: "j < length ?es" "json_eq (?es ! j) e"
    by (auto simp: identical_indices_def indices_of_entries filter_empty_conv)
  with assms(2) have "i \<noteq> j" by auto
  have "{i, j} \<subseteq> set (identical_indices doc' e)"
    using r j \<open>i \<noteq> j\<close> json_eq_refl[OF assms(4)] by (auto simp: identical_indices_def indices_of_entries)
  then have "card {i, j} \<le> length (identical_indices doc' e)"
    by (meson card_length card_mono finite_set order_trans)
  with \<open>i \<noteq> j\<close> show ?thesis by simp
qed

section \<open>Reading and applying on a quiet machine\<close>

lemma read_settings_files_Inr:
  assumes "read_settings_files ext (at d n) w = (Inr fs, w')"
  shows "fs = files_at (kx_sha ext) d n (content w)" "content w' = content w"
    "fits w (at d n) max_settings_bytes" "fits w (at d (n @ owner_receipt_suffix)) max_hook_receipt_bytes"
proof -
  from assms obtain w1 s s' where
    1: "read_snapshot (kx_sha ext) (at d n) max_settings_bytes ''harness settings'' w = (Inr s, w1)"
    and 2: "read_snapshot (kx_sha ext) (at d (n @ owner_receipt_suffix)) max_hook_receipt_bytes ''hook owner receipt'' w1 =
      (Inr s', w')"
    and fs: "fs = \<lparr>hf_target = at d n, hf_receipt_path = at d (n @ owner_receipt_suffix),
      hf_backup_path = at d (n @ backup_suffix), hf_original = s, hf_receipt_original = s'\<rparr>"
    by (auto simp: read_settings_files_def act_run sibling_path_snoc)
  note r1 = read_snapshot_Inr(1,2,4)[OF 1] and r2 = read_snapshot_Inr(1,2,4)[OF 2]
  show "fs = files_at (kx_sha ext) d n (content w)" "content w' = content w"
    using r1 r2 fs by (simp_all add: files_at_def)
  show "fits w (at d n) max_settings_bytes" "fits w (at d (n @ owner_receipt_suffix)) max_hook_receipt_bytes"
    using r1 r2 by (auto simp: fits_def split: option.splits)
qed

lemma read_settings_files_calm:
  assumes w: "runnable d n owner_receipt_suffix w" "path_ok (at d n)"
    and f: "fits w (at d n) max_settings_bytes" "fits w (at d (n @ owner_receipt_suffix)) max_hook_receipt_bytes"
  shows "\<exists>w'. read_settings_files ext (at d n) w = (Inr (files_at (kx_sha ext) d n (content w)), w') \<and>
    runnable d n owner_receipt_suffix w' \<and> content w' = content w"
proof -
  obtain w1 where 1: "read_snapshot (kx_sha ext) (at d n) max_settings_bytes ''harness settings'' w =
      (Inr (snapshot_of (kx_sha ext) (content w (at d n))), w1)"
    and w1: "runnable d n owner_receipt_suffix w1" "content w1 = content w"
    using runnable_read[OF w(1) owner_suffix_ok w(2) owner_site(3)] f(1) by (metis append_Nil2)
  have f2: "fits w1 (at d (n @ owner_receipt_suffix)) max_hook_receipt_bytes" using f(2) w1(2) by (simp add: fits_def)
  obtain w2 where 2: "read_snapshot (kx_sha ext) (at d (n @ owner_receipt_suffix)) max_hook_receipt_bytes
      ''hook owner receipt'' w1 = (Inr (snapshot_of (kx_sha ext) (content w1 (at d (n @ owner_receipt_suffix)))), w2)"
    and w2: "runnable d n owner_receipt_suffix w2" "content w2 = content w1"
    using runnable_read[OF w1(1) owner_suffix_ok w(2) owner_site(2) f2] by blast
  show ?thesis
    using 1 2 w1 w2 by (simp add: read_settings_files_def sibling_path_snoc files_at_def bindA_def lift_def ret_def)
qed

lemma hook_apply_calm:
  assumes w: "runnable d n owner_receipt_suffix w" "path_ok (at d n)" and act: "\<not> hook_is_noop p"
    and files: "hk_files p = files_at (kx_sha ext) d n (content w)"
    and f: "fits w (at d n) max_settings_bytes" "fits w (at d (n @ owner_receipt_suffix)) max_hook_receipt_bytes"
  shows "\<exists>w'. hook_apply ext p w = (Inr (), w') \<and> content w' = change_effect (hook_change ext p) (content w) \<and>
    (is_remove (hk_write p) \<or> runnable d n owner_receipt_suffix w')"
proof -
  have "change_fresh (kx_sha ext) (hook_change ext p) w" "change_at d n owner_receipt_suffix (hook_change ext p)"
    using f files by (simp_all add: change_fresh_def change_at_def hook_change_def files_at_def backup_suffix_def)
  from apply_change_effect[OF w(1) owner_suffix_ok w(2) this(2,1)] act
  show ?thesis by (simp add: hook_apply_def hook_change_def)
qed

lemma hook_add_view:
  assumes "hk_files p = files_at (kx_sha ext) d n v" "hk_restore p = None" "hk_write p = Write b"
    "hk_receipt_after p = Some r" "\<not> hk_remove_backup p"
  shows "change_effect (hook_change ext p) v = connect_effect d n b (hook_receipt_encode ext r) v"
  using assms by (auto simp: change_effect_def Let_def hook_change_def files_at_def connect_effect_def
      mode_or_default_def is_leave_def split: option.splits)

lemma hook_removal_view:
  "change_effect (hook_change ext (hook_removal scope (files_at (kx_sha ext) d n v) r ByteIdentical write False True)) v =
    v(at d n := (case write of Leave \<Rightarrow> v (at d n) | Remove \<Rightarrow> None
        | Write b \<Rightarrow> Some (b, case v (at d n) of None \<Rightarrow> 384 | Some (_, m) \<Rightarrow> m AND 511)),
      at d (n @ owner_receipt_suffix) := None, at d (n @ backup_suffix) := None)"
  by (auto simp: change_effect_def Let_def hook_change_def hook_removal_def files_at_def mode_or_default_def
      split: option.splits target_write.splits)

section \<open>What a removal takes\<close>

lemma removal_index_owned:
  assumes "hook_removal_index doc r force = Inr (Some i)"
  shows "json_eq (event_entries doc ! i) (hr_owned r) \<or>
    force \<and> (\<exists>command. entry_command (hr_owned r) = Some command \<and> runs_command command (event_entries doc ! i))"
proof -
  let ?m = "matching_indices doc (Some (hr_owned r))" and ?r = "resembling_indices doc (hr_owned r)"
  from assms have "i \<in> set ?m \<or> force \<and> i \<in> set ?r"
    by (auto simp: hook_removal_index_def Let_def split: if_splits)
  then show ?thesis
    by (auto simp: matching_indices_def resembling_indices_def indices_of_entries intro: sym split: option.splits)
qed

lemma structural_removal_stages:
  assumes "hook_plan_remove_at ext scope target force w = (Inr q, w')" "hk_restore q = Some Structural"
  obtains fs r doc i doc' where "decode_hook_receipt ext (hf_receipt_original fs) scope = Inr (Some r)"
    "parse_settings ext (hf_original fs) = Inr doc" "hook_removal_index doc r force = Inr (Some i)"
    "remove_entry doc i = Inr doc'"
    "\<exists>write pv. hook_structural ext r (hf_original fs) doc doc' = (write, pv) \<and>
      q = hook_removal scope fs r Structural write pv False"
proof -
  have noop: "hk_restore (hook_noop_plan scope a fs) = None" for a fs by (simp add: hook_noop_plan_def)
  have exact: "hk_restore (hook_removal scope fs r ByteIdentical wr pv rb) = Some ByteIdentical" for fs r wr pv rb
    by (simp add: hook_removal_def)
  from assms obtain fs w1 r where r: "decode_hook_receipt ext (hf_receipt_original fs) scope = Inr (Some r)"
    and rest: "hook_remove_owned ext scope force fs r w1 = (Inr q, w')"
    unfolding hook_plan_remove_at_def by (auto simp: bindA_eq_Inr lift_Inr noop simp del: lift_eq split: option.splits)
  from rest assms(2) obtain doc i doc' backup where d: "parse_settings ext (hf_original fs) = Inr doc"
    "hook_removal_index doc r force = Inr (Some i)" "remove_entry doc i = Inr doc'"
    and q: "q = hook_restore ext scope fs r doc doc' backup"
    unfolding hook_remove_owned_def by (auto simp: bindA_eq_Inr lift_Inr noop simp del: lift_eq split: option.splits)
  obtain wr pv where st: "hook_structural ext r (hf_original fs) doc doc' = (wr, pv)" by fastforce
  with q assms(2) have "q = hook_removal scope fs r Structural wr pv False"
    by (auto simp: hook_restore_def Let_def exact split: if_splits)
  with that r d st show thesis by blast
qed

section \<open>Installing and removing again\<close>

definition hook_codec :: "hook_ext \<Rightarrow> hook_receipt \<Rightarrow> bool" where
  "hook_codec ext r \<longleftrightarrow> kx_receipt_from_slice ext (hook_receipt_encode ext r) = Some r"

lemma decode_own_receipt:
  assumes "hook_codec ext r" "hook_receipt_validate ext r scope = Inr ()" "snap_bytes s = Some (hook_receipt_encode ext r)"
  shows "decode_hook_receipt ext s scope = Inr (Some r)"
  using assms by (simp add: decode_hook_receipt_def hook_codec_def)

lemma parse_own_settings:
  assumes "prints_back (kx_json ext) (encode_settings ext doc)" "wf_json doc" "\<exists>fs. doc = JObj fs"
    "snap_bytes s = Some (encode_settings ext doc)"
  shows "parse_settings ext s = Inr doc"
  using assms by (auto simp: parse_settings_def prints_back_def encode_settings_def)

lemma parse_settings_wf: "parses_wf (kx_json ext) \<Longrightarrow> parse_settings ext s = Inr doc \<Longrightarrow> wf_json doc"
  by (auto simp: parse_settings_def parses_wf_def split: option.splits if_splits json.splits)

text \<open>
  The removal of a receipt whose entry is in the document exactly once, where the file is still the
  one written and either the receipt claims the file or the backup is the recorded one.
\<close>

lemma hook_remove_exact:
  assumes w: "runnable d n owner_receipt_suffix w" "path_ok (at d n)"
    and f: "fits w (at d n) max_settings_bytes" "fits w (at d (n @ owner_receipt_suffix)) max_hook_receipt_bytes"
      "fits w (at d (n @ backup_suffix)) max_settings_bytes"
    and r: "decode_hook_receipt ext (snapshot_of (kx_sha ext) (content w (at d (n @ owner_receipt_suffix)))) scope = Inr (Some r)"
    and doc: "parse_settings ext (snapshot_of (kx_sha ext) (content w (at d n))) = Inr doc"
    and one: "matching_indices doc (Some (hr_owned r)) = [i]" "event_array doc = Some es" "i < length es"
    and ours: "sha256 (snapshot_of (kx_sha ext) (content w (at d n))) = hr_post_sha256 r" "\<not> hr_adopted r"
    and bk: "\<not> hr_file_created r \<Longrightarrow> content w (at d (n @ backup_suffix)) = Some (x, m) \<and>
      digest_bytes (kx_sha ext) x = hr_pre_sha256 r"
  shows "\<exists>q w1 w2. hook_plan_remove_at ext scope (at d n) force w = (Inr q, w1) \<and> hook_apply ext q w1 = (Inr (), w2) \<and>
    hk_restore q = Some ByteIdentical \<and>
    content w2 = (content w)
      (at d n := (if hr_file_created r then None
         else Some (x, case content w (at d n) of None \<Rightarrow> 384 | Some (_, m) \<Rightarrow> m AND 511)),
       at d (n @ owner_receipt_suffix) := None, at d (n @ backup_suffix) := None)"
proof -
  let ?fs = "files_at (kx_sha ext) d n (content w)"
  let ?wr = "if hr_file_created r then Remove else Write x"
  let ?q = "hook_removal scope ?fs r ByteIdentical ?wr False True"
  obtain w' where rd: "read_settings_files ext (at d n) w = (Inr ?fs, w')"
    and w': "runnable d n owner_receipt_suffix w'" "content w' = content w"
    using read_settings_files_calm[OF w f(1,2)] by blast
  have f': "fits w' (at d (n @ backup_suffix)) max_settings_bytes" using f(3) w'(2) by (simp add: fits_def)
  obtain w1 where rb: "read_snapshot (kx_sha ext) (at d (n @ backup_suffix)) max_settings_bytes ''settings backup'' w' =
      (Inr (snapshot_of (kx_sha ext) (content w (at d (n @ backup_suffix)))), w1)"
    and w1: "runnable d n owner_receipt_suffix w1" "content w1 = content w"
    using runnable_read[OF w'(1) owner_suffix_ok w(2) owner_site(1) f'] w'(2) by metis
  obtain doc' where rm: "remove_entry doc i = Inr doc'" using remove_entry_total[OF one(2,3)] by blast
  have "hook_plan_remove_at ext scope (at d n) force w = (Inr ?q, w1)"
    using rd rb r doc one(1) rm ours bk
    by (auto simp: hook_plan_remove_at_def hook_remove_owned_def hook_restore_def bindA_def lift_def ret_def files_at_def hook_removal_index_def snapshot_of_sha)
  moreover have "fits w1 (at d n) max_settings_bytes" "fits w1 (at d (n @ owner_receipt_suffix)) max_hook_receipt_bytes"
    using f w1(2) by (simp_all add: fits_def)
  with hook_apply_calm[OF w1(1) w(2), of ?q ext] w1(2) obtain w2 where "hook_apply ext ?q w1 = (Inr (), w2)"
    "content w2 = change_effect (hook_change ext ?q) (content w)"
    by (auto simp: hook_is_noop_def hook_removal_def)
  ultimately show ?thesis using hook_removal_view[of ext scope d n "content w" r ?wr]
    by (auto simp: hook_removal_def)
qed

text \<open>The removal from settings that are not the ones written, without a backup.\<close>

lemma hook_remove_structural:
  assumes w: "runnable d n owner_receipt_suffix w" "path_ok (at d n)"
    and c: "content w (at d n) = Some c" "content w (at d (n @ owner_receipt_suffix)) = Some cr"
      "content w (at d (n @ backup_suffix)) = None"
    and f: "length (fst c) \<le> max_settings_bytes" "length (fst cr) \<le> max_hook_receipt_bytes"
    and r: "decode_hook_receipt ext (snapshot_of (kx_sha ext) (Some cr)) scope = Inr (Some r)"
    and doc: "parse_settings ext (snapshot_of (kx_sha ext) (Some c)) = Inr doc"
      "hook_removal_index doc r force = Inr (Some i)" "remove_entry doc i = Inr doc'"
    and theirs: "sha256 (snapshot_of (kx_sha ext) (Some c)) \<noteq> hr_post_sha256 r"
    and st: "hook_structural ext r (snapshot_of (kx_sha ext) (Some c)) doc doc' = (wr, pv)"
  shows "\<exists>q w'. hook_plan_remove_at ext scope (at d n) force w = (Inr q, w') \<and> hk_restore q = Some Structural \<and> hk_write q = wr"
proof -
  let ?fs = "files_at (kx_sha ext) d n (content w)"
  have "fits w (at d n) max_settings_bytes" "fits w (at d (n @ owner_receipt_suffix)) max_hook_receipt_bytes"
    using c f by (auto simp: fits_def split: prod.splits)
  then obtain w1 where rd: "read_settings_files ext (at d n) w = (Inr ?fs, w1)"
    and w1: "runnable d n owner_receipt_suffix w1" "content w1 = content w"
    using read_settings_files_calm[OF w] by blast
  have "fits w1 (at d (n @ backup_suffix)) max_settings_bytes" using c(3) w1(2) by (simp add: fits_def)
  then obtain w2 where rb: "read_snapshot (kx_sha ext) (at d (n @ backup_suffix)) max_settings_bytes ''settings backup'' w1 =
      (Inr (snapshot_of (kx_sha ext) None), w2)"
    using runnable_read[OF w1(1) owner_suffix_ok w(2) owner_site(1)] c(3) w1(2) by metis
  have "hook_plan_remove_at ext scope (at d n) force w = (Inr (hook_removal scope ?fs r Structural wr pv False), w2)"
    using rd rb c r doc theirs st
    by (simp add: hook_plan_remove_at_def hook_remove_owned_def hook_restore_def bindA_def lift_def ret_def files_at_def)
  then show ?thesis by (simp add: hook_removal_def)
qed

text \<open>An install that appends, and the removal that follows.\<close>

lemma hook_add_remove_calm:
  assumes plan: "hook_plan_install_at ext scope manager profile (at d n) w = (Inr p, w1)" "hk_action p = HookAdd"
    and w: "runnable d n owner_receipt_suffix w" "path_ok (at d n)"
    and ext: "parses_wf (kx_json ext)" "\<forall>b. hk_write p = Write b \<longrightarrow> prints_back (kx_json ext) b"
      "\<forall>r. hk_receipt_after p = Some r \<longrightarrow> hook_codec ext r"
    and size: "fits w (at d (n @ backup_suffix)) max_settings_bytes"
      "\<forall>b. hk_write p = Write b \<longrightarrow> length b \<le> max_settings_bytes"
      "\<forall>r. hk_receipt_after p = Some r \<longrightarrow> length (hook_receipt_encode ext r) \<le> max_hook_receipt_bytes"
    and receipt: "decode_hook_receipt ext (snapshot_of (kx_sha ext) (content w (at d (n @ owner_receipt_suffix)))) scope = Inr receipt"
    and old: "case receipt of None \<Rightarrow> True | Some r \<Rightarrow> hr_file_created r \<and> \<not> hr_adopted r"
  shows "\<exists>w2 q w3 w4. hook_apply ext p w1 = (Inr (), w2) \<and>
    hook_plan_remove_at ext scope (at d n) False w2 = (Inr q, w3) \<and> hook_apply ext q w3 = (Inr (), w4) \<and>
    hk_restore q = Some ByteIdentical \<and>
    content w4 = (content w)
      (at d n := (if receipt = None then content w (at d n) else None),
       at d (n @ owner_receipt_suffix) := None, at d (n @ backup_suffix) := None)"
proof -
  let ?sha = "kx_sha ext" and ?fs = "files_at (kx_sha ext) d n (content w)"
  from plan(1) obtain fs where "validate_profile_name profile = Inr ()"
    and rd: "read_settings_files ext (at d n) w = (Inr fs, w1)" and dec: "decide_hook_install ext scope manager profile fs = Inr p"
    by (auto simp: hook_plan_install_at_def act_run)
  note prof = this(1) and fs = read_settings_files_Inr[OF rd]
  obtain w1' where "read_settings_files ext (at d n) w = (Inr ?fs, w1')" and w1: "runnable d n owner_receipt_suffix w1"
    using read_settings_files_calm[OF w fs(3,4), of ext] rd by auto
  from dec plan(2) show ?thesis
  proof (cases rule: decide_install_Add)
    case (1 receipt' doc doc' r)
    have rc: "receipt' = receipt" using 1(1) receipt by (simp add: fs(1) files_at_def)
    have "\<not> hook_is_noop p" using plan(2) by (simp add: hook_is_noop_def)
    moreover have "fits w1 (at d n) max_settings_bytes" "fits w1 (at d (n @ owner_receipt_suffix)) max_hook_receipt_bytes"
      using fs(2-4) by (simp_all add: fits_def)
    ultimately obtain w2 where ap: "hook_apply ext p w1 = (Inr (), w2)" and r2: "runnable d n owner_receipt_suffix w2"
      and c2: "content w2 = connect_effect d n (encode_settings ext doc') (hook_receipt_encode ext r) (content w)"
      using hook_apply_calm[OF w1 w(2)] 1(5-9) fs(1,2) hook_add_view[of p ext d n "content w"]
      by (fastforce simp: is_remove_def)
    note at2 = connect_effect_at[of d n "encode_settings ext doc'" "hook_receipt_encode ext r" "content w", folded c2]
    have f2: "fits w2 (at d n) max_settings_bytes" "fits w2 (at d (n @ owner_receipt_suffix)) max_hook_receipt_bytes"
      "fits w2 (at d (n @ backup_suffix)) max_settings_bytes"
      using size 1(8,9) fs(3) at2 by (auto simp: fits_def split: option.splits)
    have wf: "wf_json doc'" "\<exists>fs. doc' = JObj fs"
      using push_entry_Inr(3,4)[OF 1(4)] parse_settings_wf[OF ext(1) 1(2)] wf_owned_entry by blast+
    have valid: "hook_receipt_validate ext r scope = Inr ()"
      using 1(10-15) prof by (simp add: hook_receipt_validate_def owned_entry_def)
    have d2: "decode_hook_receipt ext (snapshot_of ?sha (content w2 (at d (n @ owner_receipt_suffix)))) scope = Inr (Some r)"
      by (rule decode_own_receipt) (use ext(3) 1(9) valid at2(2) in simp_all)
    have p2: "parse_settings ext (snapshot_of ?sha (content w2 (at d n))) = Inr doc'"
      by (rule parse_own_settings) (use ext(2) 1(8) wf at2(1) in simp_all)
    have m: "matching_indices doc' (Some (hr_owned r)) = [length (event_entries doc)]"
      using identical_after_push[OF 1(4,3) wf_owned_entry] 1(14) by (simp add: matching_indices_def identical_indices_def)
    note ev = push_entry_Inr(1)[OF 1(4)]
    have len: "length (event_entries doc) < length (event_entries doc @ [owned_entry manager profile])" by simp
    define x where "x = (case content w (at d n) of Some (b, _) \<Rightarrow> b | None \<Rightarrow> [])"
    have bk: "content w2 (at d (n @ backup_suffix)) = Some (x, 384) \<and> digest_bytes ?sha x = hr_pre_sha256 r"
      if "\<not> hr_file_created r"
      using that old 1(17,18) at2(3) rc fs(1)
      by (auto simp: files_at_def snapshot_of_sha x_def split: option.splits)
    have post: "sha256 (snapshot_of ?sha (content w2 (at d n))) = hr_post_sha256 r" "\<not> hr_adopted r"
      using at2(1) 1(16,19) old rc by (auto simp: snapshot_of_sha split: option.splits)
    obtain q w3 w4 where run: "hook_plan_remove_at ext scope (at d n) False w2 = (Inr q, w3)" "hook_apply ext q w3 = (Inr (), w4)"
      "hk_restore q = Some ByteIdentical"
      and c4: "content w4 = (content w2)
        (at d n := (if hr_file_created r then None
           else Some (x, case content w2 (at d n) of None \<Rightarrow> 384 | Some (_, m) \<Rightarrow> m AND 511)),
         at d (n @ owner_receipt_suffix) := None, at d (n @ backup_suffix) := None)"
      using hook_remove_exact[where force = False, OF r2 w(2) f2 d2 p2 m ev len post bk] by blast
    have "content w4 = (content w)
      (at d n := (if receipt = None then content w (at d n) else None),
       at d (n @ owner_receipt_suffix) := None, at d (n @ backup_suffix) := None)"
      using c4 at2 1(18) rc old fs(1) content_masked
      by (auto simp: c2 connect_effect_def files_at_def x_def fun_eq_iff split: option.splits)
    with ap run show ?thesis by blast
  qed
qed

end
