(* ===== verification/Demo_Hooks.thy ===== *)
theory Demo_Hooks
  imports Hook_Plans Demo
begin

text \<open>
  A project with hand-written settings, and stand-ins for serde that know the texts involved, on
  which the hook properties' hypotheses are discharged.
\<close>

definition demo_manager :: path where
  "demo_manager = [RootDir, Normal ''m'']"

definition demo_hook :: "bytes \<Rightarrow> json" where
  "demo_hook profile = owned_entry demo_manager profile"

definition demo_settings :: "json list \<Rightarrow> json" where
  "demo_settings es = JObj ((''permissions'', JNum ''1'') #
     (if es = [] then [] else [(''hooks'', JObj [(hook_event, JArr es)])]))"

definition demo_hook_receipt :: "bytes \<Rightarrow> bytes \<Rightarrow> bytes \<Rightarrow> bool \<Rightarrow> hook_receipt" where
  "demo_hook_receipt profile pre post created =
     \<lparr>hr_version = 1, hr_owner = ''kaleidoscope-manager-v1'', hr_scope = ProjectScope, hr_profile = profile,
      hr_owned = demo_hook profile, hr_owned_sha256 = ''0101'', hr_pre_sha256 = pre,
      hr_post_sha256 = post, hr_file_created = created, hr_adopted = False\<rparr>"

text \<open>The documents and receipts of the stories, under short texts.\<close>

definition demo_kx :: hook_ext where
  "demo_kx =
     \<lparr>kx_sha = (\<lambda>b. [char_of (length b), CHR 0x01]),
      kx_json = \<lparr>jx_value = (\<lambda>b. if b = ''{p}'' then Some (demo_settings [])
                   else if b = ''{p,w}'' @ nl then Some (demo_settings [demo_hook ''work''])
                   else if b = ''{p,a,b}'' then Some (demo_settings [demo_hook ''a'', demo_hook ''b'']) else None),
                 jx_string = (\<lambda>lit. Some (butlast (tl lit))),
                 jx_to_vec_pretty = (\<lambda>v. if v = demo_settings [demo_hook ''work''] then ''{p,w}''
                   else ''?'')\<rparr>,
      kx_to_vec = (\<lambda>_. ''E''),
      kx_receipt_to_vec_pretty = (\<lambda>r. if hr_file_created r then ''Rw'' else ''Rf''),
      kx_receipt_from_slice = (\<lambda>b.
         if b = ''R0'' then Some (demo_hook_receipt ''work'' ''ff'' ''00'' True)
         else if b = ''Rw'' @ nl then Some (demo_hook_receipt ''work'' ''ff'' ''0601'' True)
         else if b = ''Rf'' @ nl then Some (demo_hook_receipt ''work'' ''0301'' ''0601'' False)
         else if b = ''Ra'' then Some (demo_hook_receipt ''a'' ''ff'' ''00'' False) else None)\<rparr>"

definition demo_settings_path :: path where
  "demo_settings_path = at demo_project ''settings.json''"

definition demo_settings_world :: "bytes \<Rightarrow> bytes option \<Rightarrow> world" where
  "demo_settings_world b receipt = demo_machine ((at demo_project ''settings.json'', File b 420) #
     (case receipt of None \<Rightarrow> [] | Some r \<Rightarrow> [(at demo_project (''settings.json'' @ owner_receipt_suffix), File r 384)]))"

definition demo_hook_install :: "bytes \<Rightarrow> world \<Rightarrow> (manager_error + hook_plan) \<times> world" where
  "demo_hook_install profile = hook_plan_install_at demo_kx ProjectScope demo_manager profile (at demo_project ''settings.json'')"

lemma demo_settings_path_ok: "path_ok (at demo_project ''settings.json'')"
  by (rule demo_path_ok, rule utf8_valid_ascii) simp

lemma demo_settings_runnable: "runnable demo_project ''settings.json'' owner_receipt_suffix (demo_settings_world b receipt)"
proof -
  let ?w = "demo_settings_world b receipt"
  have "site demo_project ''settings.json'' owner_receipt_suffix ?w"
    unfolding demo_settings_world_def
    by (rule demo_site) (auto simp: temp_suffix_def site_suffixes_def owner_receipt_suffix_def split: option.splits)
  moreover have "tree_ok ?w" unfolding demo_settings_world_def by (rule demo_tree_ok) (auto split: option.splits)
  moreover have "lookup ?w (lock_at demo_project ''settings.json'') = None"
    by (auto simp: demo_settings_world_def demo_lookup demo_project_def owner_receipt_suffix_def split: option.splits)
  moreover have "calm ?w" "anc_ok ?w (at demo_project ''settings.json'')"
    by (simp_all add: demo_settings_world_def demo_calm demo_anc_ok)
  ultimately show ?thesis by (simp add: runnable_def)
qed

lemma demo_settings_content:
  "content (demo_settings_world b receipt) q = (if q = at demo_project ''settings.json'' then Some (b, 420)
     else if q = at demo_project (''settings.json'' @ owner_receipt_suffix) then map_option (\<lambda>r. (r, 384)) receipt else None)"
  by (auto simp: content_def demo_settings_world_def demo_lookup demo_project_def owner_receipt_suffix_def split: option.splits)

lemma demo_kx_wf: "parses_wf (kx_json demo_kx)"
  by (simp add: parses_wf_def demo_kx_def demo_settings_def demo_hook_def wf_owned_entry)

lemma demo_kx_prints: "prints_back (kx_json demo_kx) (''{p,w}'' @ nl)"
  by (auto simp: prints_back_def demo_kx_def ascii_whitespace_def split: if_splits)

lemma demo_kx_codec:
  "hook_codec demo_kx (demo_hook_receipt ''work'' ''ff'' ''0601'' True)"
  "hook_codec demo_kx (demo_hook_receipt ''work'' ''0301'' ''0601'' False)"
  by (simp_all add: hook_codec_def demo_kx_def hook_receipt_encode_def demo_hook_receipt_def)

lemma demo_hook_plans:
  "\<exists>p w1. demo_hook_install ''work'' (demo_settings_world ''{p}'' None) = (Inr p, w1) \<and> hk_action p = HookAdd \<and>
     hk_write p = Write (''{p,w}'' @ nl) \<and>
     hk_receipt_after p = Some (demo_hook_receipt ''work'' ''0301'' ''0601'' False)"
  "\<exists>p w1. demo_hook_install ''work'' (demo_settings_world ''{p}'' (Some ''R0'')) = (Inr p, w1) \<and> hk_action p = HookAdd \<and>
     hk_write p = Write (''{p,w}'' @ nl) \<and>
     hk_receipt_after p = Some (demo_hook_receipt ''work'' ''ff'' ''0601'' True)"
proof -
  have "(case demo_hook_install ''work'' (demo_settings_world ''{p}'' None) of
      (Inr p, _) \<Rightarrow> hk_action p = HookAdd \<and> hk_write p = Write (''{p,w}'' @ nl) \<and>
        hk_receipt_after p = Some (demo_hook_receipt ''work'' ''0301'' ''0601'' False)
    | _ \<Rightarrow> False)" by code_simp
  then show "\<exists>p w1. demo_hook_install ''work'' (demo_settings_world ''{p}'' None) = (Inr p, w1) \<and> hk_action p = HookAdd \<and>
     hk_write p = Write (''{p,w}'' @ nl) \<and>
     hk_receipt_after p = Some (demo_hook_receipt ''work'' ''0301'' ''0601'' False)" by (auto split: prod.splits sum.splits)
  have "(case demo_hook_install ''work'' (demo_settings_world ''{p}'' (Some ''R0'')) of
      (Inr p, _) \<Rightarrow> hk_action p = HookAdd \<and> hk_write p = Write (''{p,w}'' @ nl) \<and>
        hk_receipt_after p = Some (demo_hook_receipt ''work'' ''ff'' ''0601'' True)
    | _ \<Rightarrow> False)" by code_simp
  then show "\<exists>p w1. demo_hook_install ''work'' (demo_settings_world ''{p}'' (Some ''R0'')) = (Inr p, w1) \<and> hk_action p = HookAdd \<and>
     hk_write p = Write (''{p,w}'' @ nl) \<and>
     hk_receipt_after p = Some (demo_hook_receipt ''work'' ''ff'' ''0601'' True)" by (auto split: prod.splits sum.splits)
qed

lemma demo_duplicate_plan:
  "\<exists>p w1. demo_hook_install ''b'' (demo_settings_world ''{p,a,b}'' (Some ''Ra'')) = (Inr p, w1) \<and> hk_action p = HookUpdate \<and>
     identical_indices (demo_settings [demo_hook ''a'', demo_hook ''b'']) (owned_entry demo_manager ''b'') \<noteq> [] \<and>
     parse_settings demo_kx (hf_original (hk_files p)) = Inr (demo_settings [demo_hook ''a'', demo_hook ''b''])"
proof -
  have "(case demo_hook_install ''b'' (demo_settings_world ''{p,a,b}'' (Some ''Ra'')) of
      (Inr p, _) \<Rightarrow> hk_action p = HookUpdate \<and>
        identical_indices (demo_settings [demo_hook ''a'', demo_hook ''b'']) (owned_entry demo_manager ''b'') \<noteq> [] \<and>
        parse_settings demo_kx (hf_original (hk_files p)) = Inr (demo_settings [demo_hook ''a'', demo_hook ''b''])
    | _ \<Rightarrow> False)" by code_simp
  then show ?thesis by (auto split: prod.splits sum.splits)
qed

lemma demo_hook_sizes:
  "length (hook_receipt_encode demo_kx r) \<le> max_hook_receipt_bytes" "6 \<le> max_settings_bytes"
  "length ''{p}'' \<le> max_settings_bytes" "length ''R0'' \<le> max_hook_receipt_bytes"
  by (simp_all add: hook_receipt_encode_def demo_kx_def max_hook_receipt_bytes_def max_settings_bytes_def)

lemma demo_stale_receipt:
  "decode_hook_receipt demo_kx (snapshot_of (kx_sha demo_kx) (Some (''R0'', 384))) ProjectScope =
     Inr (Some (demo_hook_receipt ''work'' ''ff'' ''00'' True))"
  by code_simp

text \<open>A removal of the entry from settings that are no longer the bytes the receipt records.\<close>

definition demo_changed_settings :: world where
  "demo_changed_settings = demo_settings_world (''{p,w}'' @ nl) (Some ''R0'')"

lemma demo_structural_stages:
  "hook_removal_index (demo_settings [demo_hook ''work'']) (demo_hook_receipt ''work'' ''ff'' ''00'' True) False = Inr (Some 0)"
  "remove_entry (demo_settings [demo_hook ''work'']) 0 = Inr (demo_settings [])"
  "parse_settings demo_kx (snapshot_of (kx_sha demo_kx) (Some (''{p,w}'' @ nl, 420))) = Inr (demo_settings [demo_hook ''work''])"
  "sha256 (snapshot_of (kx_sha demo_kx) (Some (''{p,w}'' @ nl, 420))) \<noteq>
     hr_post_sha256 (demo_hook_receipt ''work'' ''ff'' ''00'' True)"
  "hook_structural demo_kx (demo_hook_receipt ''work'' ''ff'' ''00'' True) (snapshot_of (kx_sha demo_kx) (Some (''{p,w}'' @ nl, 420)))
     (demo_settings [demo_hook ''work'']) (demo_settings []) = (Write (''?'' @ nl), False)"
  by code_simp+

lemma demo_hook_removal:
  "\<exists>q w'. hook_plan_remove_at demo_kx ProjectScope (at demo_project ''settings.json'') False demo_changed_settings = (Inr q, w') \<and>
     hk_restore q = Some Structural \<and> hk_write q = Write (''?'' @ nl)"
  by (rule hook_remove_structural[where c = "(''{p,w}'' @ nl, 420)" and cr = "(''R0'', 384)",
        OF _ demo_settings_path_ok _ _ _ _ _ demo_stale_receipt demo_structural_stages(3,1,2,4,5)])
    (simp_all only: demo_changed_settings_def demo_settings_runnable demo_settings_content,
     simp_all add: owner_receipt_suffix_def backup_suffix_def max_settings_bytes_def max_hook_receipt_bytes_def)

end
