(* ===== verification/Hooks_Properties.thy ===== *)
theory Hooks_Properties
  imports Hook_Report Demo_Hooks
begin

text \<open>
  The properties of the session-start hook: its entry in the settings file, and its report.
\<close>

section \<open>Installing\<close>

text \<open>Installing the hook where nothing like it is there appends its entry behind the entries that are
  there, in their order; the entry then occurs exactly once, and every other key of the settings
  keeps its value.\<close>

theorem hook_add_appends_one_entry:
  assumes "hook_plan_install_at ext scope manager profile target w = (Inr p, w')" and "hk_action p = HookAdd"
  shows "\<exists>doc doc'. parse_settings ext (hf_original (hk_files p)) = Inr doc \<and> hk_write p = Write (encode_settings ext doc') \<and>
     event_array doc' = Some (event_entries doc @ [owned_entry manager profile]) \<and>
     identical_indices doc' (owned_entry manager profile) = [length (event_entries doc)] \<and>
     (\<forall>k. k \<noteq> ''hooks'' \<longrightarrow> json_get doc' k = json_get doc k)"
proof -
  from assms(1) obtain fs where "decide_hook_install ext scope manager profile fs = Inr p"
    by (auto simp: hook_plan_install_at_def act_run)
  from this assms(2) show ?thesis
  proof (cases rule: decide_install_Add)
    case (1 receipt doc doc' r)
    with push_entry_Inr(1,2)[OF 1(4)] identical_after_push[OF 1(4,3) wf_owned_entry] show ?thesis by auto
  qed
qed

theorem hook_add_appends_one_entry_witness:
  "\<exists>p w' doc doc'. demo_hook_install ''work'' (demo_settings_world ''{p}'' None) = (Inr p, w') \<and>
     parse_settings demo_kx (hf_original (hk_files p)) = Inr doc \<and> hk_write p = Write (encode_settings demo_kx doc') \<and>
     event_array doc' = Some (event_entries doc @ [owned_entry demo_manager ''work'']) \<and>
     identical_indices doc' (owned_entry demo_manager ''work'') = [length (event_entries doc)]"
proof -
  obtain p w' where p: "demo_hook_install ''work'' (demo_settings_world ''{p}'' None) = (Inr p, w')" "hk_action p = HookAdd"
    using demo_hook_plans(1) by blast
  from hook_add_appends_one_entry[OF p[unfolded demo_hook_install_def]] p(1) show ?thesis by blast
qed

section \<open>Removing\<close>

text \<open>C3. On a machine whose calls do not fail, installing the hook where no owner receipt is and removing it
  again puts every file back: the settings have their old bytes and mode, or are gone if they were not
  there, and neither the receipt nor the backup is left.\<close>

theorem hook_install_then_remove_restores:
  assumes plan: "hook_plan_install_at ext scope manager profile (at d n) w = (Inr p, w1)" "hk_action p = HookAdd"
    and w: "runnable d n owner_receipt_suffix w" "path_ok (at d n)"
    and ext: "parses_wf (kx_json ext)" "\<forall>b. hk_write p = Write b \<longrightarrow> prints_back (kx_json ext) b"
      "\<forall>r. hk_receipt_after p = Some r \<longrightarrow> hook_codec ext r"
    and size: "fits w (at d (n @ backup_suffix)) max_settings_bytes"
      "\<forall>b. hk_write p = Write b \<longrightarrow> length b \<le> max_settings_bytes"
      "\<forall>r. hk_receipt_after p = Some r \<longrightarrow> length (hook_receipt_encode ext r) \<le> max_hook_receipt_bytes"
    and fresh: "content w (at d (n @ owner_receipt_suffix)) = None"
  shows "\<exists>w2 q w3 w4. hook_apply ext p w1 = (Inr (), w2) \<and>
     hook_plan_remove_at ext scope (at d n) False w2 = (Inr q, w3) \<and> hook_apply ext q w3 = (Inr (), w4) \<and>
     hk_restore q = Some ByteIdentical \<and> content w4 = (content w)(at d (n @ backup_suffix) := None)"
proof -
  have "decode_hook_receipt ext (snapshot_of (kx_sha ext) (content w (at d (n @ owner_receipt_suffix)))) scope = Inr None"
    using fresh by (simp add: decode_hook_receipt_def)
  from hook_add_remove_calm[OF plan w ext size this] fresh show ?thesis by (simp add: fun_upd_idem)
qed

theorem hook_install_then_remove_restores_witness:
  "\<exists>p w1 w2 q w3 w4. demo_hook_install ''work'' (demo_settings_world ''{p}'' None) = (Inr p, w1) \<and>
     hook_apply demo_kx p w1 = (Inr (), w2) \<and>
     hook_plan_remove_at demo_kx ProjectScope (at demo_project ''settings.json'') False w2 = (Inr q, w3) \<and>
     hook_apply demo_kx q w3 = (Inr (), w4) \<and> hk_restore q = Some ByteIdentical \<and>
     content w4 = (content (demo_settings_world ''{p}'' None))(at demo_project (''settings.json'' @ backup_suffix) := None)"
proof -
  let ?w = "demo_settings_world ''{p}'' None"
  obtain p w1 where p: "demo_hook_install ''work'' ?w = (Inr p, w1)" "hk_action p = HookAdd" "hk_write p = Write (''{p,w}'' @ nl)"
     "hk_receipt_after p = Some (demo_hook_receipt ''work'' ''0301'' ''0601'' False)"
    using demo_hook_plans(1) by blast
  have "\<exists>w2 q w3 w4. hook_apply demo_kx p w1 = (Inr (), w2) \<and>
     hook_plan_remove_at demo_kx ProjectScope (at demo_project ''settings.json'') False w2 = (Inr q, w3) \<and>
     hook_apply demo_kx q w3 = (Inr (), w4) \<and> hk_restore q = Some ByteIdentical \<and>
     content w4 = (content ?w)(at demo_project (''settings.json'' @ backup_suffix) := None)"
    by (rule hook_install_then_remove_restores[OF p(1)[unfolded demo_hook_install_def] p(2) demo_settings_runnable
          demo_settings_path_ok demo_kx_wf])
      (use p demo_kx_prints demo_kx_codec in \<open>simp_all add: fits_def demo_settings_content demo_hook_sizes max_settings_bytes_def
         owner_receipt_suffix_def backup_suffix_def\<close>)
  with p(1) show ?thesis by blast
qed

text \<open>C40. A receipt that outlived its entry makes the removal delete the user's settings. The manager once
  created the file and the user has since replaced it; installing anew keeps the old receipt's claim to
  have created the file, and the removal that follows deletes the settings, and their backup with
  them.\<close>

theorem stale_receipt_deletes_user_settings:
  assumes plan: "hook_plan_install_at ext scope manager profile (at d n) w = (Inr p, w1)" "hk_action p = HookAdd"
    and w: "runnable d n owner_receipt_suffix w" "path_ok (at d n)"
    and ext: "parses_wf (kx_json ext)" "\<forall>b. hk_write p = Write b \<longrightarrow> prints_back (kx_json ext) b"
      "\<forall>r. hk_receipt_after p = Some r \<longrightarrow> hook_codec ext r"
    and size: "fits w (at d (n @ backup_suffix)) max_settings_bytes"
      "\<forall>b. hk_write p = Write b \<longrightarrow> length b \<le> max_settings_bytes"
      "\<forall>r. hk_receipt_after p = Some r \<longrightarrow> length (hook_receipt_encode ext r) \<le> max_hook_receipt_bytes"
    and stale: "decode_hook_receipt ext (snapshot_of (kx_sha ext) (content w (at d (n @ owner_receipt_suffix)))) scope =
      Inr (Some r)" "hr_file_created r" "\<not> hr_adopted r"
    and user: "content w (at d n) = Some (user_settings, m)"
  shows "\<exists>w2 q w3 w4. hook_apply ext p w1 = (Inr (), w2) \<and>
     hook_plan_remove_at ext scope (at d n) False w2 = (Inr q, w3) \<and> hook_apply ext q w3 = (Inr (), w4) \<and>
     hk_restore q = Some ByteIdentical \<and>
     content w4 (at d n) = None \<and> content w4 (at d (n @ backup_suffix)) = None"
proof -
  from hook_add_remove_calm[OF plan w ext size stale(1)] stale(2,3) obtain w2 q w3 w4 where
    run: "hook_apply ext p w1 = (Inr (), w2)" "hook_plan_remove_at ext scope (at d n) False w2 = (Inr q, w3)"
      "hook_apply ext q w3 = (Inr (), w4)" "hk_restore q = Some ByteIdentical"
    and c: "content w4 = (content w)(at d n := None, at d (n @ owner_receipt_suffix) := None, at d (n @ backup_suffix) := None)"
    by auto
  have "content w4 (at d n) = None \<and> content w4 (at d (n @ backup_suffix)) = None" by (simp add: c)
  with run show ?thesis by blast
qed

theorem stale_receipt_deletes_user_settings_witness:
  "\<exists>p w1 w2 q w3 w4. content (demo_settings_world ''{p}'' (Some ''R0'')) (at demo_project ''settings.json'') = Some (''{p}'', 420) \<and>
     demo_hook_install ''work'' (demo_settings_world ''{p}'' (Some ''R0'')) = (Inr p, w1) \<and>
     hook_apply demo_kx p w1 = (Inr (), w2) \<and>
     hook_plan_remove_at demo_kx ProjectScope (at demo_project ''settings.json'') False w2 = (Inr q, w3) \<and>
     hook_apply demo_kx q w3 = (Inr (), w4) \<and>
     content w4 (at demo_project ''settings.json'') = None \<and>
     content w4 (at demo_project (''settings.json'' @ backup_suffix)) = None"
proof -
  let ?w = "demo_settings_world ''{p}'' (Some ''R0'')"
  obtain p w1 where p: "demo_hook_install ''work'' ?w = (Inr p, w1)" "hk_action p = HookAdd" "hk_write p = Write (''{p,w}'' @ nl)"
     "hk_receipt_after p = Some (demo_hook_receipt ''work'' ''ff'' ''0601'' True)"
    using demo_hook_plans(2) by blast
  have "\<exists>w2 q w3 w4. hook_apply demo_kx p w1 = (Inr (), w2) \<and>
     hook_plan_remove_at demo_kx ProjectScope (at demo_project ''settings.json'') False w2 = (Inr q, w3) \<and>
     hook_apply demo_kx q w3 = (Inr (), w4) \<and> hk_restore q = Some ByteIdentical \<and>
     content w4 (at demo_project ''settings.json'') = None \<and>
     content w4 (at demo_project (''settings.json'' @ backup_suffix)) = None"
    by (rule stale_receipt_deletes_user_settings[OF p(1)[unfolded demo_hook_install_def] p(2) demo_settings_runnable
          demo_settings_path_ok demo_kx_wf, where r = "demo_hook_receipt ''work'' ''ff'' ''00'' True"])
      (use p demo_kx_prints demo_kx_codec demo_stale_receipt in \<open>simp_all add: fits_def demo_settings_content demo_hook_sizes max_settings_bytes_def
         owner_receipt_suffix_def backup_suffix_def demo_hook_receipt_def\<close>)
  with p(1) show ?thesis by (auto simp: demo_settings_content)
qed

text \<open>Updating the hook can write a second copy of its entry: the entry the receipt records is replaced by
  the wanted one although the wanted one is there already. The receipt written with it then matches
  more than one entry, and a removal refuses, forced or not.\<close>

theorem hook_update_can_duplicate:
  assumes "hook_plan_install_at ext scope manager profile target w = (Inr p, w')" and "hk_action p = HookUpdate"
    and "parse_settings ext (hf_original (hk_files p)) = Inr doc" and "identical_indices doc (owned_entry manager profile) \<noteq> []"
  shows "\<exists>doc' r k. hk_write p = Write (encode_settings ext doc') \<and> hk_receipt_after p = Some r \<and> k \<ge> 2 \<and>
     (\<forall>force. hook_removal_index doc' r force = Inl (HostConflict (HookOwnedEntriesRepeated k)))"
proof -
  from assms(1) obtain fs where "decide_hook_install ext scope manager profile fs = Inr p"
    by (auto simp: hook_plan_install_at_def act_run)
  from this assms(2) show ?thesis
  proof (cases rule: decide_install_Update)
    case (1 doc0 i doc' r)
    have "doc0 = doc" using 1 assms(3) by simp
    with 1 assms(4) have two: "2 \<le> length (identical_indices doc' (owned_entry manager profile))"
      by (intro identical_after_replace[OF 1(3)]) (simp_all add: wf_owned_entry)
    have "hook_removal_index doc' r force =
        Inl (HostConflict (HookOwnedEntriesRepeated (length (identical_indices doc' (owned_entry manager profile)))))" for force
      using two 1(7) by (auto simp: hook_removal_index_def matching_indices_def identical_indices_def Let_def)
    with 1(5,6) two show ?thesis by blast
  qed
qed

theorem hook_update_can_duplicate_witness:
  "\<exists>p w' doc' r k. demo_hook_install ''b'' (demo_settings_world ''{p,a,b}'' (Some ''Ra'')) = (Inr p, w') \<and>
     hk_write p = Write (encode_settings demo_kx doc') \<and> hk_receipt_after p = Some r \<and> k \<ge> 2 \<and>
     (\<forall>force. hook_removal_index doc' r force = Inl (HostConflict (HookOwnedEntriesRepeated k)))"
proof -
  obtain p w' where p: "demo_hook_install ''b'' (demo_settings_world ''{p,a,b}'' (Some ''Ra'')) = (Inr p, w')"
    "hk_action p = HookUpdate"
    "identical_indices (demo_settings [demo_hook ''a'', demo_hook ''b'']) (owned_entry demo_manager ''b'') \<noteq> []"
    "parse_settings demo_kx (hf_original (hk_files p)) = Inr (demo_settings [demo_hook ''a'', demo_hook ''b''])"
    using demo_duplicate_plan by blast
  from hook_update_can_duplicate[OF p(1,2)[unfolded demo_hook_install_def] p(4,3)] p(1) show ?thesis by blast
qed

text \<open>C39. A structural removal of the hook (the settings changed since the install) takes out one element of the
  event's array: one equal to the receipt's, or, when forced, one that runs the receipt's command. Every
  other element stays in its order and every other key keeps its value. When the plan reports the
  formatting as preserved, the bytes written are the old ones with one contiguous range cut out, and they
  parse to exactly that document; otherwise they are that document printed anew.\<close>

theorem hook_removal_takes_one_entry:
  assumes "hook_plan_remove_at ext scope target force w = (Inr q, w')" and "parses_wf (kx_json ext)"
    and "hk_restore q = Some Structural" and "hk_write q = Write b"
  shows "\<exists>doc doc' r i. parse_settings ext (hf_original (hk_files q)) = Inr doc \<and>
     decode_hook_receipt ext (hf_receipt_original (hk_files q)) scope = Inr (Some r) \<and>
     i < length (event_entries doc) \<and> event_entries doc' = remove_nth i (event_entries doc) \<and>
     (json_eq (event_entries doc ! i) (hr_owned r) \<or>
      force \<and> (\<exists>command. entry_command (hr_owned r) = Some command \<and> runs_command command (event_entries doc ! i))) \<and>
     (\<forall>k. k \<noteq> ''hooks'' \<longrightarrow> json_get doc' k = json_get doc k) \<and>
     (if hk_formatting_preserved q
      then \<exists>bs s e v. snap_bytes (hf_original (hk_files q)) = Some bs \<and> s \<le> e \<and> e < length bs \<and> b = take s bs @ drop e bs \<and>
             jx_value (kx_json ext) b = Some v \<and> json_eq v doc'
      else b = encode_settings ext doc')"
proof -
  from assms(1,3) obtain fs r doc i doc' where st: "decode_hook_receipt ext (hf_receipt_original fs) scope = Inr (Some r)"
    "parse_settings ext (hf_original fs) = Inr doc" "hook_removal_index doc r force = Inr (Some i)"
    "remove_entry doc i = Inr doc'"
    and q: "\<exists>write pv. hook_structural ext r (hf_original fs) doc doc' = (write, pv) \<and>
      q = hook_removal scope fs r Structural write pv False"
    by (rule structural_removal_stages)
  have files: "hk_files q = fs" using q by (auto simp: hook_removal_def)
  note rm = remove_entry_Inr[OF st(4) parse_settings_wf[OF assms(2) st(2)]]
  have owned: "json_eq (event_entries doc ! i) (hr_owned r) \<or>
      force \<and> (\<exists>command. entry_command (hr_owned r) = Some command \<and> runs_command command (event_entries doc ! i))"
    by (rule removal_index_owned[OF st(3)])
  have written: "if hk_formatting_preserved q
      then \<exists>bs s e v. snap_bytes (hf_original fs) = Some bs \<and> s \<le> e \<and> e < length bs \<and> b = take s bs @ drop e bs \<and>
             jx_value (kx_json ext) b = Some v \<and> json_eq v doc'
      else b = encode_settings ext doc'"
    using q assms(4) by (auto simp: hook_structural_def hook_removal_def split: if_splits option.splits dest!: excise_cut)
  show ?thesis unfolding files using st rm owned written by blast
qed

theorem hook_removal_takes_one_entry_witness:
  "\<exists>q w' doc doc' r i. hook_plan_remove_at demo_kx ProjectScope (at demo_project ''settings.json'') False
       demo_changed_settings = (Inr q, w') \<and>
     parse_settings demo_kx (hf_original (hk_files q)) = Inr doc \<and>
     decode_hook_receipt demo_kx (hf_receipt_original (hk_files q)) ProjectScope = Inr (Some r) \<and>
     i < length (event_entries doc) \<and> event_entries doc' = remove_nth i (event_entries doc) \<and>
     json_eq (event_entries doc ! i) (hr_owned r)"
proof -
  obtain q w' where q: "hook_plan_remove_at demo_kx ProjectScope (at demo_project ''settings.json'') False
       demo_changed_settings = (Inr q, w')" "hk_restore q = Some Structural" "hk_write q = Write (''?'' @ nl)"
    using demo_hook_removal by blast
  from hook_removal_takes_one_entry[OF q(1) demo_kx_wf q(2,3)] obtain doc doc' r i where
    "parse_settings demo_kx (hf_original (hk_files q)) = Inr doc"
    "decode_hook_receipt demo_kx (hf_receipt_original (hk_files q)) ProjectScope = Inr (Some r)"
    "i < length (event_entries doc)" "event_entries doc' = remove_nth i (event_entries doc)"
    "json_eq (event_entries doc ! i) (hr_owned r)" by blast
  with q(1) show ?thesis by blast
qed

section \<open>The report's budgets\<close>

text \<open>Clipping a valid text keeps it within the budget and valid: what is kept is a prefix of the text that
  ends at a character boundary, with an ellipsis behind it when something was cut and the budget has
  room for one.\<close>

theorem clip_respects_budget:
  assumes "utf8_valid s"
  shows "length (clip s budget) \<le> budget \<and> utf8_valid (clip s budget) \<and>
     (\<exists>k. is_char_boundary s k \<and> k \<le> length s \<and>
       clip s budget = take k s @ (if length s \<le> budget \<or> budget < 3 then [] else ellipsis))"
proof (cases "length s \<le> budget")
  case True
  then show ?thesis using assms by (auto simp: clip_def is_char_boundary_def intro!: exI[of _ "length s"])
next
  case False
  let ?k = "back_to_boundary s (min (budget - length ellipsis) (length s))"
  have k: "?k \<le> budget - length ellipsis" "?k \<le> length s" "is_char_boundary s ?k"
    using back_to_boundary_le[of s "min (budget - length ellipsis) (length s)"] back_to_boundary_boundary by auto
  have e: "length ellipsis = 3" "utf8_valid ellipsis" by (simp add: ellipsis_def, code_simp)
  have c: "clip s budget = take ?k s @ (if budget < 3 then [] else ellipsis)" using False by (simp add: clip_def e Let_def)
  have "utf8_valid (clip s budget)"
    unfolding c using utf8_valid_take[OF assms k(3,2)] e(2) by (auto intro: utf8_valid_append)
  moreover have "length (clip s budget) \<le> budget" unfolding c using k(1) e(1) by auto
  ultimately show ?thesis using c False k by auto
qed

theorem clip_respects_budget_witness:
  "length (clip (''ab'' @ ellipsis @ ''cd'') 6) \<le> 6 \<and> utf8_valid (clip (''ab'' @ ellipsis @ ''cd'') 6) \<and>
   clip (''ab'' @ ellipsis @ ''cd'') 6 = ''ab'' @ ellipsis"
proof -
  have "utf8_valid (''ab'' @ ellipsis @ ''cd'')" by code_simp
  moreover have "clip (''ab'' @ ellipsis @ ''cd'') 6 = ''ab'' @ ellipsis" by code_simp
  ultimately show ?thesis using clip_respects_budget[of "''ab'' @ ellipsis @ ''cd''" 6] by simp
qed

text \<open>The loop that backs up to a character boundary ends within three steps on a valid text, wherever it
  starts.\<close>

theorem clip_backs_up_within_a_character:
  assumes "utf8_valid s" and "k \<le> length s"
  shows "k \<le> back_to_boundary s k + 3"
  using assms by (rule back_to_boundary_near)

theorem clip_backs_up_within_a_character_witness:
  "(4::nat) \<le> back_to_boundary (''ab'' @ ellipsis @ ''cd'') 4 + 3 \<and> back_to_boundary (''ab'' @ ellipsis @ ''cd'') 4 = 2"
proof -
  have "utf8_valid (''ab'' @ ellipsis @ ''cd'')" by code_simp
  moreover have "back_to_boundary (''ab'' @ ellipsis @ ''cd'') 4 = 2" by code_simp
  ultimately show ?thesis using clip_backs_up_within_a_character[of "''ab'' @ ellipsis @ ''cd''" 4]
    by (simp add: ellipsis_def)
qed

text \<open>The rendered memories with a line end each take no more than their share of the context, they render
  a prefix of the retrieved hits in order, and no more of them are counted as labelled than were
  rendered.\<close>

theorem render_hits_within_budget:
  "let hits = (case json_array (json_at v ''selected_hits'') of None \<Rightarrow> [] | Some hits \<Rightarrow> hits);
       (entries, labelled) = render_hits v label
   in sum_list (map (\<lambda>e. length e + 1) entries) \<le> max_memory_section_bytes \<and> labelled \<le> length entries \<and>
      prefix entries (map render_hit hits)"
proof (cases "json_array (json_at v ''selected_hits'')")
  case (Some hits)
  with render_go_bounds[where spent = 0 and label = label and hits = hits] show ?thesis by (simp add: render_hits_def)
qed (simp add: render_hits_def)

end
