(* ===== verification/Engine.thy ===== *)
theory Engine
  imports Manager_Config Hook_Report
begin

text \<open>
  The engine driver (\<^verbatim>\<open>src/src/engine.rs\<close>): which executable is run, with which environment, the
  argument list of each command, what is demanded of each answer, and how a refusal is reported. The
  engine itself is another program: one run of it is a parameter, an action on the world that gives an
  exit status and two streams.
\<close>

definition max_engine_output_bytes :: nat where
  "max_engine_output_bytes = 1024 * 1024"

definition max_engine_error_bytes :: nat where
  "max_engine_error_bytes = 8 * 1024"

definition engine_env_allowlist :: "string list" where
  "engine_env_allowlist =
     [''HOME'', ''USERPROFILE'', ''APPDATA'', ''LOCALAPPDATA'', ''XDG_CONFIG_HOME'', ''XDG_DATA_HOME'',
      ''SystemRoot'', ''SYSTEMROOT'', ''TMPDIR'', ''TEMP'', ''TMP'', ''KSCOPE_PROFILE_HOME'',
      ''KALEIDOSCOPE_API_KEY'', ''KSCOPE_ENTITLEMENT_HOME'']"

record resolved_project =
  rp_project :: path
  rp_project_source :: bytes
  rp_project_marker :: "bytes option"
  rp_repository :: "path option"

record process_output =
  po_stdout :: bytes
  po_stderr :: bytes
  po_success :: bool

text \<open>A run: the program, its environment, its working directory, its arguments.\<close>

type_synonym engine_run =
  "path \<Rightarrow> (string \<times> bytes) list \<Rightarrow> path option \<Rightarrow> bytes list \<Rightarrow> (io_kind, process_output) act"

record engine_ext =
  en_run :: engine_run
  en_current_exe :: "io_kind + path"
  en_created_at :: bytes
  en_value :: "bytes \<Rightarrow> json option"
  en_profile :: "bytes \<Rightarrow> profile option"
  en_profile_list :: "bytes \<Rightarrow> profile_list option"
  en_init_result :: "bytes \<Rightarrow> init_result option"
  en_remove_result :: "bytes \<Rightarrow> remove_result option"
  en_launch :: "bytes \<Rightarrow> launch_descriptor option"
  en_resolved :: "bytes \<Rightarrow> resolved_project option"

section \<open>Which engine\<close>

text \<open>
  \<^verbatim>\<open>Path::exists\<close>, \<^verbatim>\<open>is_dir\<close> and \<^verbatim>\<open>is_file\<close> follow links: they look at what the path canonicalises to.
\<close>

definition followed :: "process \<Rightarrow> path \<Rightarrow> ('e, node option) act" where
  "followed pr p =
     (case pr_canonicalize pr p of
        Inl _ \<Rightarrow> ret None
      | Inr q \<Rightarrow> bindA (attempt (symlink_metadata q)) (\<lambda>r. ret (case r of Inl _ \<Rightarrow> None | Inr n \<Rightarrow> Some n)))"

fun is_dir_node :: "node option \<Rightarrow> bool" where
  "is_dir_node (Some (Directory _)) = True"
| "is_dir_node _ = False"

fun is_file_node :: "node option \<Rightarrow> bool" where
  "is_file_node (Some (File _ _)) = True"
| "is_file_node _ = False"

definition engine_file_name :: bytes where
  "engine_file_name = ''kscope''"

definition engine_new :: "process \<Rightarrow> path \<Rightarrow> (manager_error, path) act" where
  "engine_new pr p =
     (case pr_canonicalize pr p of
        Inl k \<Rightarrow> throw (Io ''canonicalize engine'' k)
      | Inr canonical \<Rightarrow>
          bindA (map_err (Io ''inspect engine'') (symlink_metadata canonical)) (\<lambda>n.
          case n of
            Symlink \<Rightarrow> throw (UnsafePath ''engine'' ''selected executable is a symlink'')
          | File _ mode \<Rightarrow>
              if mode AND 73 = 0 then throw (UnsafePath ''engine'' ''not executable'') else ret canonical
          | _ \<Rightarrow> throw (UnsafePath ''engine'' ''not a regular file'')))"

fun first_file :: "process \<Rightarrow> path list \<Rightarrow> ('e, path option) act" where
  "first_file pr [] = ret None"
| "first_file pr (p # ps) =
     bindA (followed pr p) (\<lambda>n. if is_file_node n then ret (Some p) else first_file pr ps)"

definition find_on_path :: "process \<Rightarrow> bytes \<Rightarrow> ('e, path option) act" where
  "find_on_path pr name =
     first_file pr (case pr_var pr ''PATH'' of
       None \<Rightarrow> []
     | Some v \<Rightarrow> map (\<lambda>d. join (parse_path d) [Normal name]) (split_at_char (CHR '':'') v))"

definition engine_resolve :: "process \<Rightarrow> engine_ext \<Rightarrow> path option \<Rightarrow> (manager_error, path) act" where
  "engine_resolve pr eg explicit =
     (case explicit of
        Some p \<Rightarrow> engine_new pr p
      | None \<Rightarrow>
          (case var_nonempty pr ''KALEIDOSCOPE_ENGINE'' of
             Some v \<Rightarrow> engine_new pr (parse_path v)
           | None \<Rightarrow>
               let sibling = (case en_current_exe eg of
                     Inl _ \<Rightarrow> None
                   | Inr current \<Rightarrow> map_option (\<lambda>d. join d [Normal engine_file_name]) (parent current)) in
               bindA (case sibling of None \<Rightarrow> ret None | Some s \<Rightarrow> followed pr s) (\<lambda>n.
               case (sibling, n) of
                 (Some s, Some _) \<Rightarrow> engine_new pr s
               | _ \<Rightarrow>
                   bindA (find_on_path pr engine_file_name) (\<lambda>found.
                   case found of Some p \<Rightarrow> engine_new pr p | None \<Rightarrow> throw EngineNotFound))))"

section \<open>One run\<close>

text \<open>\<^verbatim>\<open>env_clear\<close>, then the variables of the allowlist that are set.\<close>

definition engine_environment :: "process \<Rightarrow> (string \<times> bytes) list" where
  "engine_environment pr =
     List.map_filter (\<lambda>name. map_option (Pair name) (pr_var pr name)) engine_env_allowlist"

definition char_count :: "bytes \<Rightarrow> nat" where
  "char_count s = length (filter (\<lambda>c. \<not> is_cont c) s)"

fun take_chars :: "nat \<Rightarrow> bytes \<Rightarrow> bytes" where
  "take_chars n [] = []"
| "take_chars n (c # s) =
     (if is_cont c then c # take_chars n s
      else case n of 0 \<Rightarrow> [] | Suc m \<Rightarrow> c # take_chars m s)"

definition stderr_budget :: nat where
  "stderr_budget = 300"

definition announces_error :: "bytes \<Rightarrow> bool" where
  "announces_error line \<longleftrightarrow>
     starts_with (map ascii_lower line) ''error:'' \<or> starts_with (map ascii_lower line) ''kscope:''"

definition summarize_engine_stderr :: "bytes \<Rightarrow> bytes" where
  "summarize_engine_stderr raw =
     (let lines = filter (\<lambda>l. l \<noteq> []) (map str_trim (str_lines raw)) in
      if lines = [] then []
      else
        let whole = join_words '' '' lines in
        if char_count whole \<le> stderr_budget then whole
        else
          let chosen = (case find announces_error lines of Some l \<Rightarrow> l | None \<Rightarrow> hd lines);
              head = take_chars stderr_budget chosen @ (if char_count chosen > stderr_budget then ellipsis else [])
          in head @ '' [+'' @ show_nat (length lines - 1)
             @ '' further line(s) of engine output not shown; run the engine command directly to see them]'')"

definition annotate_engine_refusal :: "process \<Rightarrow> bytes \<Rightarrow> bytes" where
  "annotate_engine_refusal pr message =
     (if \<not> str_contains message ''unsafe vault root path'' then message
      else
        let registry = (case var_nonempty pr ''KSCOPE_PROFILE_HOME'' of
              None \<Rightarrow> '' (the engine's profile registry)'' | Some v \<Rightarrow> '' ('' @ lossy v @ '')'')
        in message @ '' -- one registered profile names a vault root the engine will not open, most often because the directory was deleted or moved. The engine refuses the entire registry until that record is gone, so `profile list`, `profile show` and `profile remove` all fail this way and no manager command can repair it. Delete the offending <NAME>.json from the profile registry''
             @ registry @ '' by hand; that removes a pointer and does not touch any vault.'')"

text \<open>An engine is its canonical path.\<close>

type_synonym engine = path

definition run_in :: "process \<Rightarrow> engine_ext \<Rightarrow> engine \<Rightarrow> path option \<Rightarrow> bytes list \<Rightarrow> (manager_error, bytes) act" where
  "run_in pr eg engine cwd args =
     bindA (map_err (Io ''execute engine'') (en_run eg engine (engine_environment pr) cwd args)) (\<lambda>out.
     if length (po_stdout out) > max_engine_output_bytes \<or> length (po_stderr out) > max_engine_output_bytes
     then throw (InvalidEngineContract ''process output'' ''size limit exceeded'')
     else if \<not> po_success out then
       let message = summarize_engine_stderr (lossy (take max_engine_error_bytes (po_stderr out))) in
       throw (EngineRefused (if message = [] then ''native engine refused the request''
                             else annotate_engine_refusal pr message))
     else ret (po_stdout out))"

definition run_json ::
    "process \<Rightarrow> engine_ext \<Rightarrow> engine \<Rightarrow> path option \<Rightarrow> (bytes \<Rightarrow> 'a option) \<Rightarrow> bytes list \<Rightarrow> (manager_error, 'a) act" where
  "run_json pr eg engine cwd decode args =
     bindA (run_in pr eg engine cwd args) (\<lambda>b.
     case decode b of
       None \<Rightarrow> throw (InvalidEngineContract ''JSON output'' ''malformed or unknown fields'')
     | Some x \<Rightarrow> ret x)"

section \<open>Commands\<close>

definition has_whitespace :: "bytes \<Rightarrow> bool" where
  "has_whitespace s \<longleftrightarrow> list_ex (\<lambda>i. ws_width (drop i s) \<noteq> 0) [0..<length s]"

definition version_text :: "bytes \<Rightarrow> manager_error + bytes" where
  "version_text b =
     (if \<not> utf8_valid b then Inl (InvalidEngineContract ''version'' ''not UTF-8'')
      else case strip_prefix b ''kscope '' of
        None \<Rightarrow> Inl (InvalidEngineContract ''version'' ''unexpected format'')
      | Some v \<Rightarrow>
          let version = (case strip_suffix v nl of Some t \<Rightarrow> t | None \<Rightarrow> v) in
          if version = [] \<or> has_whitespace version
          then Inl (InvalidEngineContract ''version'' ''unexpected format'') else Inr version)"

definition engine_version :: "process \<Rightarrow> engine_ext \<Rightarrow> engine \<Rightarrow> (manager_error, bytes) act" where
  "engine_version pr eg engine =
     bindA (run_in pr eg engine None [''--version'']) (\<lambda>b. lift (version_text b))"

definition seed_ok :: "json \<Rightarrow> bool" where
  "seed_ok v \<longleftrightarrow>
     json_at v ''schema_version'' = JStr ''kaleidoscope.public-seed.v1'' \<and>
     json_at (json_at v ''capabilities'') ''network_required'' = JBool False \<and>
     json_at (json_at v ''capabilities'') ''local_vault'' = JBool True \<and>
     json_at (json_at v ''capabilities'') ''stdio_mcp'' = JBool True \<and>
     json_at (json_at v ''capabilities'') ''operator_commands_in_mcp'' = JBool False"

definition public_contract_seed :: "process \<Rightarrow> engine_ext \<Rightarrow> engine \<Rightarrow> (manager_error, json) act" where
  "public_contract_seed pr eg engine =
     bindA (run_json pr eg engine None (en_value eg) [''public-contract'']) (\<lambda>v.
     if \<not> seed_ok v then throw (InvalidEngineContract ''public contract seed'' ''unsupported capability boundary'')
     else ret v)"

definition root_text :: "path \<Rightarrow> manager_error + bytes" where
  "root_text root =
     (case path_to_str root of None \<Rightarrow> Inl (UnsafePath ''vault root'' ''path is not UTF-8'') | Some s \<Rightarrow> Inr s)"

definition init_profile ::
    "process \<Rightarrow> engine_ext \<Rightarrow> engine \<Rightarrow> bytes \<Rightarrow> path \<Rightarrow> bytes \<Rightarrow> durability \<Rightarrow> (manager_error, init_result) act" where
  "init_profile pr eg engine name root created_at d =
     bindA (lift (validate_profile_name name)) (\<lambda>_.
     bindA (lift (root_text root)) (\<lambda>r.
     bindA (run_json pr eg engine None (en_init_result eg)
              [''init-profile'', name, r, created_at, durability_as_str d]) (\<lambda>result.
     if in_version result \<noteq> 1 \<or> in_status result \<noteq> ''initialized''
     then throw (InvalidEngineContract ''init-profile result'' ''unexpected status'')
     else
       bindA (lift (profile_validate (in_profile result) (Some name))) (\<lambda>_.
       bindA (lift (descriptor_validate (in_launch result) engine name)) (\<lambda>_. ret result)))))"

definition profile_import ::
    "process \<Rightarrow> engine_ext \<Rightarrow> engine \<Rightarrow> bytes \<Rightarrow> path \<Rightarrow> durability \<Rightarrow> (manager_error, profile) act" where
  "profile_import pr eg engine name root d =
     bindA (lift (validate_profile_name name)) (\<lambda>_.
     bindA (lift (root_text root)) (\<lambda>r.
     bindA (run_json pr eg engine None (en_profile eg)
              [''profile'', ''import'', name, r, durability_as_str d]) (\<lambda>p.
     bindA (lift (profile_validate p (Some name))) (\<lambda>_. ret p))))"

definition engine_profile_list :: "process \<Rightarrow> engine_ext \<Rightarrow> engine \<Rightarrow> (manager_error, profile_list) act" where
  "engine_profile_list pr eg engine =
     bindA (run_json pr eg engine None (en_profile_list eg) [''profile'', ''list'']) (\<lambda>l.
     bindA (lift (profile_list_validate l)) (\<lambda>_. ret l))"

definition engine_profile_show :: "process \<Rightarrow> engine_ext \<Rightarrow> engine \<Rightarrow> bytes \<Rightarrow> (manager_error, profile) act" where
  "engine_profile_show pr eg engine name =
     bindA (lift (validate_profile_name name)) (\<lambda>_.
     bindA (run_json pr eg engine None (en_profile eg) [''profile'', ''show'', name]) (\<lambda>p.
     bindA (lift (profile_validate p (Some name))) (\<lambda>_. ret p)))"

definition engine_profile_remove :: "process \<Rightarrow> engine_ext \<Rightarrow> engine \<Rightarrow> bytes \<Rightarrow> (manager_error, remove_result) act" where
  "engine_profile_remove pr eg engine name =
     bindA (lift (validate_profile_name name)) (\<lambda>_.
     bindA (run_json pr eg engine None (en_remove_result eg) [''profile'', ''remove'', name]) (\<lambda>removed.
     if rm_version removed \<noteq> 1 \<or> rm_name removed \<noteq> name \<or> rm_status removed \<noteq> ''removed''
     then throw (InvalidEngineContract ''profile removal'' ''unexpected result'') else ret removed))"

definition resolved_project_validate :: "process \<Rightarrow> resolved_project \<Rightarrow> (manager_error, unit) act" where
  "resolved_project_validate pr v =
     (if \<not> is_absolute (rp_project v) then throw (InvalidEngineContract ''project root'' ''project is not absolute'')
      else
        bindA (followed pr (rp_project v)) (\<lambda>n.
        if \<not> is_dir_node n then throw (InvalidEngineContract ''project root'' ''project is not an existing directory'')
        else if rp_project_source v = ''environment''
        then throw (InvalidEngineContract ''project root'' ''project source must not come from the environment'')
        else ret ()))"

definition engine_resolved_project :: "process \<Rightarrow> engine_ext \<Rightarrow> engine \<Rightarrow> path \<Rightarrow> (manager_error, resolved_project) act" where
  "engine_resolved_project pr eg engine cwd =
     bindA (run_json pr eg engine (Some cwd) (en_resolved eg) [''where'', ''--root-only'']) (\<lambda>v.
     bindA (resolved_project_validate pr v) (\<lambda>_. ret v))"

definition engine_profile_launch :: "process \<Rightarrow> engine_ext \<Rightarrow> engine \<Rightarrow> bytes \<Rightarrow> (manager_error, launch_descriptor) act" where
  "engine_profile_launch pr eg engine name =
     bindA (lift (validate_profile_name name)) (\<lambda>_.
     bindA (run_json pr eg engine None (en_launch eg) [''profile'', ''launch'', name]) (\<lambda>d.
     bindA (lift (descriptor_validate d engine name)) (\<lambda>_. ret d)))"

end
