(* ===== verification/Vault_Discovery.thy ===== *)
theory Vault_Discovery
  imports Manager_Config Hook_Report
begin

text \<open>
  Vault discovery (\<^verbatim>\<open>src/src/discovery.rs\<close>): the read-only probe of a directory, the listing of the
  user's vaults, and the collector that reports a vault once, under the first rule that found it.
  \<open>serde_json::from_slice\<close> is the parameter \<open>value\<close>.
\<close>

definition max_manifest_bytes :: nat where
  "max_manifest_bytes = 1024 * 1024"

definition root_manifest_schema :: bytes where
  "root_manifest_schema = ''filesystem.root-manifest''"

datatype candidate = NotAVault | Vault path nat

datatype discovery_rule = ExplicitRoot | RegisteredProfile | DefaultRoot | ProjectLocal | UserVaultDirectory

fun rule_as_str :: "discovery_rule \<Rightarrow> string" where
  "rule_as_str ExplicitRoot = ''--root''"
| "rule_as_str RegisteredProfile = ''registered profile''"
| "rule_as_str DefaultRoot = ''default root''"
| "rule_as_str ProjectLocal = ''<project>/.kaleidoscope''"
| "rule_as_str UserVaultDirectory = ''user vault directory''"

record found_vault =
  fv_rule :: discovery_rule
  fv_detail :: "bytes option"
  fv_root :: path
  fv_workspaces :: nat

section \<open>Listing a directory\<close>

text \<open>\<^verbatim>\<open>fs::read_dir\<close> in the order of the tree; a type of an entry is that of the entry itself.\<close>

definition read_dir :: "path \<Rightarrow> (io_kind, (path \<times> node) list) act" where
  "read_dir p = syscall (\<lambda>w.
     (if lookup w p = None then Inl NotFound
      else if \<not> is_directory w p then Inl NotADirectory
      else Inr (filter (\<lambda>(q, _). parent q = Some p) (AList.clearjunk (files w))), w))"

fun is_directory_node :: "node \<Rightarrow> bool" where
  "is_directory_node (Directory _) = True"
| "is_directory_node _ = False"

definition count_workspaces :: "path \<Rightarrow> ('e, nat) act" where
  "count_workspaces root =
     bindA (attempt (read_dir (join root [Normal ''workspaces'']))) (\<lambda>r.
     ret (case r of
            Inl _ \<Rightarrow> 0
          | Inr entries \<Rightarrow>
              length (filter (\<lambda>(q, n).
                starts_with (case file_name q of None \<Rightarrow> [] | Some b \<Rightarrow> lossy b) ''wsp_'' \<and> is_directory_node n)
                entries)))"

definition child_directories :: "path \<Rightarrow> ('e, path list) act" where
  "child_directories d =
     bindA (attempt (read_dir d)) (\<lambda>r.
     ret (case r of
            Inl _ \<Rightarrow> []
          | Inr entries \<Rightarrow>
              sort_key (\<lambda>q. component_bytes (last q)) (map fst (filter (\<lambda>(_, n). is_directory_node n) entries))))"

section \<open>The probe\<close>

definition manifest_path :: "path \<Rightarrow> path" where
  "manifest_path root = join root [Normal ''manifest.json'']"

text \<open>What a manifest must be, once its bytes are read.\<close>

definition manifest_ok :: "(bytes \<Rightarrow> json option) \<Rightarrow> bytes \<Rightarrow> bool" where
  "manifest_ok value b =
     (case value b of
        None \<Rightarrow> False
      | Some document \<Rightarrow> json_at document ''schema_name'' = JStr root_manifest_schema)"

definition probe_vault :: "(bytes \<Rightarrow> json option) \<Rightarrow> path \<Rightarrow> ('e, candidate) act" where
  "probe_vault value root =
     (if \<not> is_absolute root then ret NotAVault
      else
        bindA (attempt (symlink_metadata root)) (\<lambda>r.
        case r of
          Inr (Directory _) \<Rightarrow>
            bindA (attempt (symlink_metadata (manifest_path root))) (\<lambda>m.
            case m of
              Inr (File b _) \<Rightarrow>
                if length b > max_manifest_bytes then ret NotAVault
                else
                  bindA (attempt (fs_read (manifest_path root))) (\<lambda>content.
                  case content of
                    Inl _ \<Rightarrow> ret NotAVault
                  | Inr bytes \<Rightarrow>
                      if \<not> manifest_ok value bytes then ret NotAVault
                      else bindA (count_workspaces root) (\<lambda>n. ret (Vault root n)))
            | _ \<Rightarrow> ret NotAVault)
        | _ \<Rightarrow> ret NotAVault))"

section \<open>The collector\<close>

record candidate_set =
  cs_seen :: "path list"
  cs_found :: "found_vault list"

definition candidate_set_new :: candidate_set where
  "candidate_set_new = \<lparr>cs_seen = [], cs_found = []\<rparr>"

definition offer ::
    "process \<Rightarrow> (bytes \<Rightarrow> json option) \<Rightarrow> candidate_set \<Rightarrow> discovery_rule \<Rightarrow> bytes option \<Rightarrow> path \<Rightarrow> ('e, candidate_set) act" where
  "offer pr value s rule detail root =
     (let key = (case pr_canonicalize pr root of Inr p \<Rightarrow> p | Inl _ \<Rightarrow> root) in
      if key \<in> set (cs_seen s) then ret s
      else
        bindA (probe_vault value key) (\<lambda>c.
        case c of
          NotAVault \<Rightarrow> ret (s\<lparr>cs_seen := key # cs_seen s\<rparr>)
        | Vault p n \<Rightarrow>
            ret (s\<lparr>cs_seen := key # cs_seen s,
                   cs_found := cs_found s @ [\<lparr>fv_rule = rule, fv_detail = detail, fv_root = p, fv_workspaces = n\<rparr>]\<rparr>)))"

end
