(* ===== verification/Manager.thy ===== *)
theory Manager
  imports Engine Vault_Discovery
begin

text \<open>
  The manager (\<^verbatim>\<open>src/src/manager.rs\<close>): \<^verbatim>\<open>init\<close>, which reuses the profile, adopts the one vault
  found, creates one, or refuses, and the commands on profiles. The clock is the engine parameter
  \<open>en_created_at\<close>; messages for people are not modelled.
\<close>

record vault_init =
  vi_status :: string
  vi_profile :: "profile option"
  vi_launch :: launch_descriptor
  vi_provisional_launch :: bool
  vi_discovered_by :: string
  vi_discovered_detail :: "bytes option"
  vi_workspaces :: nat
  vi_created :: bool

datatype vault_policy = Auto | Adopt | Create

record manager =
  mg_engine :: engine
  mg_config :: config_store

text \<open>What the manager asks of the outside.\<close>

record outside =
  ou_process :: process
  ou_engine :: engine_ext
  ou_config :: config_ext

definition manager_resolve :: "outside \<Rightarrow> path option \<Rightarrow> (manager_error, manager) act" where
  "manager_resolve ou explicit =
     bindA (engine_resolve (ou_process ou) (ou_engine ou) explicit) (\<lambda>e.
     bindA (config_resolve (ou_process ou)) (\<lambda>c. ret \<lparr>mg_engine = e, mg_config = c\<rparr>))"

abbreviation "show_profile ou m \<equiv> engine_profile_show (ou_process ou) (ou_engine ou) (mg_engine m)"
abbreviation "launch_profile ou m \<equiv> engine_profile_launch (ou_process ou) (ou_engine ou) (mg_engine m)"
abbreviation "probe_root ou \<equiv> probe_vault (en_value (ou_engine ou))"

definition workspaces_of :: "candidate \<Rightarrow> nat" where
  "workspaces_of c = (case c of Vault _ n \<Rightarrow> n | NotAVault \<Rightarrow> 0)"

text \<open>\<^verbatim>\<open>set_active_profile\<close>, whose failure is reported with its cause.\<close>

definition select_profile :: "outside \<Rightarrow> manager \<Rightarrow> bytes \<Rightarrow> (manager_error, unit) act" where
  "select_profile ou m profile =
     bindA (map_err (InitManagerStateRecovery profile) (set_active_profile (ou_config ou) (mg_config m) (Some profile)))
       (\<lambda>_. ret ())"

definition publish_profile :: "outside \<Rightarrow> manager \<Rightarrow> bytes \<Rightarrow> (manager_error, launch_descriptor) act" where
  "publish_profile ou m profile = bindA (select_profile ou m profile) (\<lambda>_. launch_profile ou m profile)"

definition same_root :: "process \<Rightarrow> path \<Rightarrow> path \<Rightarrow> bool" where
  "same_root pr a b =
     (case (pr_canonicalize pr a, pr_canonicalize pr b) of (Inr p, Inr q) \<Rightarrow> p = q | _ \<Rightarrow> False)"

definition reuse_existing_profile ::
    "outside \<Rightarrow> manager \<Rightarrow> bytes \<Rightarrow> path option \<Rightarrow> bool \<Rightarrow> (manager_error, vault_init option) act" where
  "reuse_existing_profile ou m profile root dry_run =
     bindA (attempt (show_profile ou m profile)) (\<lambda>shown.
     case shown of
       Inl _ \<Rightarrow> ret None
     | Inr existing \<Rightarrow>
         if (case root of None \<Rightarrow> False | Some requested \<Rightarrow> \<not> same_root (ou_process ou) requested (pf_root existing))
         then throw (ProfileRootMismatch profile)
         else
           bindA (probe_root ou (pf_root existing)) (\<lambda>c.
           bindA (if dry_run then launch_profile ou m profile else publish_profile ou m profile) (\<lambda>launch.
           ret (Some \<lparr>vi_status = ''already_initialized'', vi_profile = Some existing, vi_launch = launch,
                      vi_provisional_launch = False, vi_discovered_by = ''existing profile'',
                      vi_discovered_detail = Some profile, vi_workspaces = workspaces_of c,
                      vi_created = False\<rparr>))))"

section \<open>Discovery\<close>

text \<open>The roots of the other registered profiles; one that cannot be shown is passed over.\<close>

fun offer_profiles :: "outside \<Rightarrow> manager \<Rightarrow> bytes \<Rightarrow> bytes list \<Rightarrow> candidate_set \<Rightarrow> (manager_error, candidate_set) act" where
  "offer_profiles ou m profile [] s = ret s"
| "offer_profiles ou m profile (name # names) s =
     (if name = profile then offer_profiles ou m profile names s
      else
        bindA (attempt (show_profile ou m name)) (\<lambda>shown.
        case shown of
          Inl _ \<Rightarrow> offer_profiles ou m profile names s
        | Inr other \<Rightarrow>
            bindA (offer (ou_process ou) (en_value (ou_engine ou)) s RegisteredProfile (Some name) (pf_root other)) (\<lambda>s'.
            offer_profiles ou m profile names s')))"

fun offer_children :: "outside \<Rightarrow> path list \<Rightarrow> candidate_set \<Rightarrow> ('e, candidate_set) act" where
  "offer_children ou [] s = ret s"
| "offer_children ou (child # children) s =
     bindA (offer (ou_process ou) (en_value (ou_engine ou)) s UserVaultDirectory None child) (\<lambda>s'.
     offer_children ou children s')"

definition discover_vaults ::
    "outside \<Rightarrow> manager \<Rightarrow> bytes \<Rightarrow> path option \<Rightarrow> path option \<Rightarrow> (manager_error, found_vault list) act" where
  "discover_vaults ou m profile root project =
     (let pr = ou_process ou; value = en_value (ou_engine ou) in
      case root of
        Some p \<Rightarrow> bindA (offer pr value candidate_set_new ExplicitRoot None p) (\<lambda>s. ret (cs_found s))
      | None \<Rightarrow>
          bindA (attempt (engine_profile_list pr (ou_engine ou) (mg_engine m))) (\<lambda>listed.
          bindA (case listed of Inl _ \<Rightarrow> ret candidate_set_new
                 | Inr l \<Rightarrow> offer_profiles ou m profile (pl_profiles l) candidate_set_new) (\<lambda>s1.
          bindA (default_vault_root pr profile) (\<lambda>default_root.
          bindA (offer pr value s1 DefaultRoot None default_root) (\<lambda>s2.
          bindA (attempt (project_root pr project)) (\<lambda>rooted.
          bindA (case rooted of Inl _ \<Rightarrow> ret s2
                 | Inr p \<Rightarrow> offer pr value s2 ProjectLocal None (join p [Normal ''.kaleidoscope''])) (\<lambda>s3.
          case parent default_root of
            None \<Rightarrow> ret (cs_found s3)
          | Some vaults \<Rightarrow>
              bindA (child_directories vaults) (\<lambda>children.
              bindA (offer_children ou children s3) (\<lambda>s4. ret (cs_found s4))))))))))"

section \<open>The outcomes of init\<close>

definition adopt :: "outside \<Rightarrow> manager \<Rightarrow> bytes \<Rightarrow> found_vault \<Rightarrow> durability \<Rightarrow> (manager_error, vault_init) act" where
  "adopt ou m profile found d =
     bindA (profile_import (ou_process ou) (ou_engine ou) (mg_engine m) profile (fv_root found) d) (\<lambda>imported.
     bindA (publish_profile ou m profile) (\<lambda>launch.
     ret \<lparr>vi_status = ''adopted'', vi_profile = Some imported, vi_launch = launch, vi_provisional_launch = False,
          vi_discovered_by = rule_as_str (fv_rule found), vi_discovered_detail = fv_detail found,
          vi_workspaces = fv_workspaces found, vi_created = False\<rparr>))"

text \<open>The guard against forking: a root that probes as a vault is refused.\<close>

definition refuse_vault :: "outside \<Rightarrow> path \<Rightarrow> (manager_error, unit) act" where
  "refuse_vault ou root =
     bindA (probe_root ou root) (\<lambda>c. case c of Vault _ n \<Rightarrow> throw (WouldForkVault n) | NotAVault \<Rightarrow> ret ())"

definition default_or_root :: "bool \<Rightarrow> string" where
  "default_or_root uses_default_root = (if uses_default_root then ''default root'' else ''--root'')"

definition create ::
    "outside \<Rightarrow> manager \<Rightarrow> bytes \<Rightarrow> path \<Rightarrow> durability \<Rightarrow> bool \<Rightarrow> (manager_error, vault_init) act" where
  "create ou m profile root d uses_default_root =
     bindA (refuse_vault ou root) (\<lambda>_.
     bindA (if uses_default_root \<and> d = ProcessLocal then ensure_vault_parent_directory root else ret ()) (\<lambda>_.
     bindA (init_profile (ou_process ou) (ou_engine ou) (mg_engine m) profile root (en_created_at (ou_engine ou)) d)
       (\<lambda>initialized.
     bindA (select_profile ou m profile) (\<lambda>_.
     bindA (probe_root ou (pf_root (in_profile initialized))) (\<lambda>c.
     ret \<lparr>vi_status = ''initialized'', vi_profile = Some (in_profile initialized), vi_launch = in_launch initialized,
          vi_provisional_launch = False, vi_discovered_by = default_or_root uses_default_root,
          vi_discovered_detail = None, vi_workspaces = workspaces_of c, vi_created = True\<rparr>)))))"

definition preview ::
    "manager \<Rightarrow> bytes \<Rightarrow> string \<Rightarrow> string \<Rightarrow> bytes option \<Rightarrow> nat \<Rightarrow> bool \<Rightarrow> (manager_error, vault_init) act" where
  "preview m profile status discovered_by detail workspaces created =
     bindA (lift (provisional (mg_engine m) profile)) (\<lambda>launch.
     ret \<lparr>vi_status = status, vi_profile = None, vi_launch = launch, vi_provisional_launch = True,
          vi_discovered_by = discovered_by, vi_discovered_detail = detail, vi_workspaces = workspaces,
          vi_created = created\<rparr>)"

definition vault_target :: "outside \<Rightarrow> bytes \<Rightarrow> path option \<Rightarrow> (manager_error, path) act" where
  "vault_target ou profile root =
     (case root of None \<Rightarrow> default_vault_root (ou_process ou) profile | Some p \<Rightarrow> ret p)"

definition init_create ::
    "outside \<Rightarrow> manager \<Rightarrow> bytes \<Rightarrow> path option \<Rightarrow> durability \<Rightarrow> bool \<Rightarrow> bool \<Rightarrow> (manager_error, vault_init) act" where
  "init_create ou m profile root d dry_run guarded =
     bindA (vault_target ou profile root) (\<lambda>target.
     if dry_run then
       bindA (if guarded then refuse_vault ou target else ret ()) (\<lambda>_.
       preview m profile ''would_create'' (default_or_root (root = None)) None 0 True)
     else create ou m profile target d (root = None))"

definition init ::
    "outside \<Rightarrow> manager \<Rightarrow> bytes \<Rightarrow> path option \<Rightarrow> durability \<Rightarrow> vault_policy \<Rightarrow> path option \<Rightarrow> bool
     \<Rightarrow> (manager_error, vault_init) act" where
  "init ou m profile root d policy project dry_run =
     bindA (lift (validate_profile_name profile)) (\<lambda>_.
     if (case root of None \<Rightarrow> False | Some p \<Rightarrow> \<not> is_absolute p)
     then throw (UnsafePath ''vault root'' ''path must be absolute'')
     else
       bindA (reuse_existing_profile ou m profile root dry_run) (\<lambda>reused.
       case reused of
         Some v \<Rightarrow> ret v
       | None \<Rightarrow>
           bindA (discover_vaults ou m profile root project) (\<lambda>candidates.
           if policy = Create then init_create ou m profile root d dry_run True
           else
             case candidates of
               [found] \<Rightarrow>
                 if dry_run
                 then preview m profile ''would_adopt'' (rule_as_str (fv_rule found)) (fv_detail found)
                        (fv_workspaces found) False
                 else adopt ou m profile found d
             | _ \<Rightarrow>
                 if policy = Adopt then throw (Usage (AdoptNeedsOneVault (length candidates)))
                 else if candidates = [] then init_create ou m profile root d dry_run False
                 else throw AmbiguousVault)))"

section \<open>Profiles\<close>

definition profile_use :: "outside \<Rightarrow> manager \<Rightarrow> bytes \<Rightarrow> (manager_error, unit) act" where
  "profile_use ou m name =
     bindA (show_profile ou m name) (\<lambda>_.
     bindA (set_active_profile (ou_config ou) (mg_config m) (Some name)) (\<lambda>_. ret ()))"

definition profile_remove :: "outside \<Rightarrow> manager \<Rightarrow> bytes \<Rightarrow> (manager_error, remove_result) act" where
  "profile_remove ou m name =
     bindA (engine_profile_remove (ou_process ou) (ou_engine ou) (mg_engine m) name) (\<lambda>removed.
     bindA (forget_profile (ou_config ou) (mg_config m) name) (\<lambda>_. ret removed))"

definition config_descriptor :: "outside \<Rightarrow> manager \<Rightarrow> bytes option \<Rightarrow> (manager_error, bytes \<times> launch_descriptor) act" where
  "config_descriptor ou m explicit =
     bindA (selected_profile (ou_config ou) (mg_config m) explicit) (\<lambda>profile.
     bindA (launch_profile ou m profile) (\<lambda>d. ret (profile, d)))"

end
