(* ===== verification/Manager_Correct.thy ===== *)
theory Manager_Correct
  imports Manager Fs_Safe_Correct
begin

text \<open>
  What \<^verbatim>\<open>init\<close> does to the machine: the guard against forking a vault, the dry run, and what
  discovery finds.
\<close>

section \<open>Vaults of the tree\<close>

text \<open>A directory with a readable manifest of the schema, whatever calls fail.\<close>

definition vault_in :: "(bytes \<Rightarrow> json option) \<Rightarrow> world \<Rightarrow> path \<Rightarrow> bool" where
  "vault_in value w root \<longleftrightarrow>
     is_absolute root \<and> is_directory w root \<and>
     (\<exists>b m. lookup w (manifest_path root) = Some (File b m) \<and> length b \<le> max_manifest_bytes \<and> manifest_ok value b)"

lemma probe_calm:
  assumes "calm w"
  shows "\<exists>t n. probe_vault value root w =
    (Inr (if vault_in value w root then Vault root n else NotAVault), w\<lparr>ticks := t\<rparr>)"
proof (cases "is_absolute root \<and> is_directory w root")
  case False
  with assms show ?thesis
    by (auto simp: probe_vault_def vault_in_def bindA_def attempt_def ret_def symlink_metadata_def syscall_calm is_directory_def
        split: option.splits node.splits intro: exI[of _ "ticks w"])
next
  case True
  then obtain m where dir: "lookup w root = Some (Directory m)" and absolute: "is_absolute root"
    by (auto simp: is_directory_iff)
  let ?m = "manifest_path root"
  show ?thesis
  proof (cases "\<exists>b k. lookup w ?m = Some (File b k) \<and> length b \<le> max_manifest_bytes \<and> manifest_ok value b")
    case False
    with dir absolute assms show ?thesis
      by (auto simp: probe_vault_def vault_in_def bindA_def attempt_def ret_def symlink_metadata_def fs_read_def syscall_calm
          split: option.splits node.splits)
  next
    case True
    then obtain b k where "lookup w ?m = Some (File b k)" "length b \<le> max_manifest_bytes" "manifest_ok value b"
      by blast
    with dir absolute assms show ?thesis
      by (auto simp: probe_vault_def vault_in_def is_directory_def bindA_def attempt_def ret_def symlink_metadata_def
          fs_read_def read_dir_def count_workspaces_def syscall_calm split: option.splits)
  qed
qed

lemma vault_in_content:
  assumes "content w' = content w" and "tree_ok w"
  shows "vault_in value w' root \<Longrightarrow> vault_in value w root"
proof -
  assume v: "vault_in value w' root"
  then obtain b m where "is_absolute root" and "lookup w' (manifest_path root) = Some (File b m)"
    and b: "length b \<le> max_manifest_bytes" "manifest_ok value b"
    by (auto simp: vault_in_def)
  then have "content w' (manifest_path root) = Some (b, m AND 511)"
    by (simp add: content_def)
  then have "content w (manifest_path root) = Some (b, m AND 511)"
    using assms(1) by simp
  then obtain m' where found: "lookup w (manifest_path root) = Some (File b m')"
    by (auto simp: content_Some)
  moreover have "manifest_path root \<noteq> [RootDir]" "parent (manifest_path root) = Some root"
    using \<open>is_absolute root\<close> by (cases root; simp add: manifest_path_def join_def parent_def)+
  ultimately have "is_directory w root"
    using tree_okD(2)[OF assms(2), of "manifest_path root"] by auto
  with found b \<open>is_absolute root\<close> show ?thesis by (auto simp: vault_in_def)
qed

section \<open>The text of a path\<close>

text \<open>The components \<^verbatim>\<open>Path\<close> yields, so that a text names one path.\<close>

fun component_wf :: "component \<Rightarrow> bool" where
  "component_wf RootDir = False"
| "component_wf (Normal n) \<longleftrightarrow> n \<noteq> [] \<and> n \<noteq> ''.'' \<and> n \<noteq> ''..'' \<and> CHR ''/'' \<notin> set n"
| "component_wf _ = True"

definition path_wf :: "path \<Rightarrow> bool" where
  "path_wf p \<longleftrightarrow> (\<exists>cs. p = RootDir # cs \<and> list_all component_wf cs)"

lemma component_wf_bytes:
  "component_wf c \<Longrightarrow> component_bytes c \<noteq> [] \<and> CHR ''/'' \<notin> set (component_bytes c)"
  by (cases c) auto

lemma component_bytes_inject:
  "component_wf c \<Longrightarrow> component_wf d \<Longrightarrow> component_bytes c = component_bytes d \<Longrightarrow> c = d"
  by (cases c; cases d) auto

text \<open>The first component ends at the first slash.\<close>

definition tail_text :: "path \<Rightarrow> bytes" where
  "tail_text cs = (if cs = [] then [] else CHR ''/'' # join_slash (map component_bytes cs))"

lemma join_slash_Cons: "join_slash (map component_bytes (c # cs)) = component_bytes c @ tail_text cs"
  by (cases cs) (simp_all add: tail_text_def)

lemma first_component:
  "component_wf c \<Longrightarrow> takeWhile (\<lambda>x. x \<noteq> CHR ''/'') (component_bytes c @ tail_text cs) = component_bytes c"
  by (subst takeWhile_append2) (auto simp: tail_text_def dest: component_wf_bytes)

lemma tail_text_inject:
  "list_all component_wf cs \<Longrightarrow> list_all component_wf ds \<Longrightarrow> tail_text cs = tail_text ds \<Longrightarrow> cs = ds"
proof (induction cs arbitrary: ds)
  case Nil
  then show ?case by (simp add: tail_text_def split: if_splits)
next
  case (Cons c cs)
  then obtain d ds' where ds: "ds = d # ds'"
    by (cases ds) (auto simp: tail_text_def)
  with Cons.prems have texts: "component_bytes c @ tail_text cs = component_bytes d @ tail_text ds'"
    by (simp add: tail_text_def[of "_ # _"] join_slash_Cons[unfolded list.map])
  then have "component_bytes c = component_bytes d"
    using first_component[of c cs] first_component[of d ds'] Cons.prems ds by simp
  moreover from texts this have "tail_text cs = tail_text ds'" by simp
  ultimately show ?case
    using Cons.IH[of ds'] Cons.prems ds by (auto dest: component_bytes_inject)
qed

lemma join_slash_inject:
  assumes "list_all component_wf cs" and "list_all component_wf ds"
    and "join_slash (map component_bytes cs) = join_slash (map component_bytes ds)"
  shows "cs = ds"
proof (cases "cs = [] \<or> ds = []")
  case True
  with assms show ?thesis
    by (cases cs; cases ds) (auto simp: join_slash_Cons[unfolded list.map] dest: component_wf_bytes)
next
  case False
  with assms show ?thesis
    by (intro tail_text_inject) (simp_all add: tail_text_def)
qed

lemma path_text_inject:
  assumes "path_wf p" and "path_wf q" and "path_to_str p = Some t" and "path_to_str q = Some t"
  shows "p = q"
  using assms
  by (auto simp: path_wf_def path_to_str_def path_bytes_def split: if_splits dest: join_slash_inject)

section \<open>Default roots\<close>

lemma split_slash_no_slash:
  "x \<in> set (split_slash acc b) \<Longrightarrow> CHR ''/'' \<notin> set acc \<Longrightarrow> CHR ''/'' \<notin> set x"
  by (induction acc b rule: split_slash.induct) (auto split: if_splits)

lemma parse_path_wf: "is_absolute (parse_path b) \<Longrightarrow> path_wf (parse_path b)"
proof -
  assume a: "is_absolute (parse_path b)"
  let ?piece = "\<lambda>(i, x). if x = [] then []
      else if x = ''.'' then (if i = (0::nat) \<and> \<not> starts_with b ''/'' then [CurDir] else [])
      else if x = ''..'' then [ParentDir] else [Normal x]"
  have parts: "parse_path b = (if starts_with b ''/'' then [RootDir] else []) @
      concat (map ?piece (List.enumerate 0 (split_slash [] b)))"
    by (simp add: parse_path_def Let_def)
  have "component_wf c" if "c \<in> set (concat (map ?piece (List.enumerate 0 (split_slash [] b))))" for c
    using that by (auto simp: in_set_enumerate_eq split: if_splits dest!: nth_mem dest: split_slash_no_slash[where acc = "[]", simplified])
  then have wf: "list_all component_wf (concat (map ?piece (List.enumerate 0 (split_slash [] b))))"
    by (simp only: list_all_iff) blast
  show ?thesis
  proof (cases "starts_with b ''/''")
    case True
    with parts wf show ?thesis unfolding path_wf_def by auto
  next
    case False
    with parts have "parse_path b = concat (map ?piece (List.enumerate 0 (split_slash [] b)))" by simp
    with a wf show ?thesis by (cases "parse_path b") (auto elim: is_absolute.elims)
  qed
qed

lemma path_wf_join: "path_wf p \<Longrightarrow> list_all component_wf ns \<Longrightarrow> path_wf (join p ns)"
  by (cases ns) (auto simp: path_wf_def join_def elim: is_absolute.elims)

text \<open>What \<^verbatim>\<open>canonicalize\<close> returns has the components a path has.\<close>

definition canonical_wf :: "process \<Rightarrow> bool" where
  "canonical_wf pr \<longleftrightarrow> (\<forall>p q. pr_canonicalize pr p = Inr q \<longrightarrow> path_wf q)"

lemma canonical_directory_wf:
  assumes "canonical_wf pr" and "canonical_directory pr q t w = (Inr p, w')"
  shows "path_wf p"
proof -
  obtain c where "pr_canonicalize pr q = Inr c"
    using assms(2) by (auto simp: canonical_directory_def split: if_splits sum.splits)
  moreover from this have "p = c"
    using assms(2) by (auto simp: canonical_directory_def act_run split: if_splits sum.splits node.split_asm)
      (metis node.exhaust)
  ultimately show ?thesis using assms(1) by (auto simp: canonical_wf_def)
qed

lemma absolute_join: "is_absolute (join p [Normal n]) \<longleftrightarrow> is_absolute p"
  by (cases p) (auto simp: join_def elim: is_absolute.elims)

lemma user_home_wf: "canonical_wf pr \<Longrightarrow> user_home pr w = (Inr p, w') \<Longrightarrow> path_wf p"
  by (auto simp: user_home_def act_run split: option.splits if_splits dest: canonical_directory_wf)

lemma profile_name_wf: "validate_profile_name n = Inr () \<Longrightarrow> component_wf (Normal n)"
  by (simp add: profile_name_component)

lemma default_vault_root_wf:
  assumes "canonical_wf pr" and "default_vault_root pr profile w = (Inr p, w')"
  shows "path_wf p"
proof -
  obtain base w1 where base: "(case var_nonempty pr ''KALEIDOSCOPE_DATA_HOME'' of
        Some v \<Rightarrow> ret (parse_path v)
      | None \<Rightarrow> bindA (platform_data_base pr) (\<lambda>b. ret (join b [Normal ''kaleidoscope'']))) w1 = (Inr base, w')"
    and "validate_config_path base = Inr ()" and name: "validate_profile_name profile = Inr ()"
    and p: "p = join base [Normal ''vaults'', Normal profile]"
    using assms(2) by (auto simp: default_vault_root_def act_run lift_Inr simp del: lift_eq)
  then have absolute: "is_absolute base" by (simp add: validate_config_path_def split: if_splits)
  have "path_wf base"
    using base absolute
    by (auto simp: platform_data_base_def act_run absolute_join split: option.splits
        intro!: parse_path_wf path_wf_join dest: user_home_wf[OF assms(1)])
  then show ?thesis
    using profile_name_wf[OF name] unfolding p by (intro path_wf_join) simp_all
qed

section \<open>What every step of init keeps\<close>

text \<open>
  The engine's runs are its own: what they keep is a hypothesis, on the argument lists in \<open>C\<close>. The
  read-only commands are those that show, list and launch.
\<close>

definition runs_keep :: "(world \<Rightarrow> world \<Rightarrow> bool) \<Rightarrow> (bytes list \<Rightarrow> bool) \<Rightarrow> outside \<Rightarrow> bool" where
  "runs_keep R C ou \<longleftrightarrow>
     (\<forall>p env cwd args. C args \<longrightarrow> keeps R (en_run (ou_engine ou) p env cwd args))"

definition read_only_command :: "bytes list \<Rightarrow> bool" where
  "read_only_command args \<longleftrightarrow>
     args = [''profile'', ''list''] \<or> (\<exists>n. args = [''profile'', ''show'', n]) \<or> (\<exists>n. args = [''profile'', ''launch'', n])"

lemma runs_keepI: "runs_keep R C ou \<Longrightarrow> C args \<Longrightarrow> keeps R (en_run (ou_engine ou) p env cwd args)"
  by (simp add: runs_keep_def)

lemma runs_keep_mono: "runs_keep R (\<lambda>_. True) ou \<Longrightarrow> runs_keep R C ou"
  by (simp add: runs_keep_def)

context step_relation
begin

lemma keeps_read_entries [keeps_intro]: "keeps R (Vault_Discovery.read_dir p)"
  unfolding Vault_Discovery.read_dir_def by (rule keeps_syscall) (simp add: R_refl)

lemma keeps_count_workspaces [keeps_intro]: "keeps R (count_workspaces p)"
  unfolding count_workspaces_def by (intro keeps_intro)

lemma keeps_child_directories [keeps_intro]: "keeps R (child_directories p)"
  unfolding child_directories_def by (intro keeps_intro)

lemma keeps_probe [keeps_intro]: "keeps R (probe_vault value p)"
  unfolding probe_vault_def by (auto intro!: keeps_intro split: keeps_splits)

lemma keeps_offer [keeps_intro]: "keeps R (offer pr value s rule detail p)"
  unfolding offer_def Let_def by (auto intro!: keeps_intro split: keeps_splits candidate.split)

lemma keeps_offer_children [keeps_intro]: "keeps R (offer_children ou ps s)"
  by (induction ps arbitrary: s) (auto intro!: keeps_intro)

lemma keeps_canonical_directory [keeps_intro]: "keeps R (canonical_directory pr p t)"
  unfolding canonical_directory_def by (auto intro!: keeps_intro split: keeps_splits)

lemma keeps_user_home [keeps_intro]: "keeps R (user_home pr)"
  unfolding user_home_def by (auto intro!: keeps_intro split: keeps_splits)

lemma keeps_project_root [keeps_intro]: "keeps R (project_root pr p)"
  unfolding project_root_def by (auto intro!: keeps_intro split: keeps_splits)

lemma keeps_default_vault_root [keeps_intro]: "keeps R (default_vault_root pr p)"
  unfolding default_vault_root_def platform_data_base_def by (auto intro!: keeps_intro split: keeps_splits)

lemma keeps_vault_target [keeps_intro]: "keeps R (vault_target ou profile root)"
  unfolding vault_target_def by (auto intro!: keeps_intro split: keeps_splits)

lemma keeps_refuse_vault [keeps_intro]: "keeps R (refuse_vault ou p)"
  unfolding refuse_vault_def by (auto intro!: keeps_intro split: candidate.split)

lemma keeps_preview [keeps_intro]: "keeps R (preview m profile status by detail n c)"
  unfolding preview_def by (intro keeps_intro)

lemma keeps_run_json:
  "runs_keep R C ou \<Longrightarrow> C args \<Longrightarrow> keeps R (run_json pr (ou_engine ou) e cwd decode args)"
  unfolding run_json_def run_in_def Let_def
  by (auto intro!: keeps_intro runs_keepI split: keeps_splits)

lemma keeps_reads:
  assumes "runs_keep R read_only_command ou"
  shows "keeps R (show_profile ou m n)" and "keeps R (launch_profile ou m n)"
    and "keeps R (engine_profile_list (ou_process ou) (ou_engine ou) e)"
  unfolding engine_profile_show_def engine_profile_launch_def engine_profile_list_def
  by (intro keeps_intro keeps_run_json[OF assms]; simp add: read_only_command_def)+

lemma keeps_offer_profiles:
  "runs_keep R read_only_command ou \<Longrightarrow> keeps R (offer_profiles ou m profile ns s)"
  by (induction ns arbitrary: s) (auto intro!: keeps_intro keeps_reads split: keeps_splits)

lemma keeps_discover_vaults:
  assumes "runs_keep R read_only_command ou"
  shows "keeps R (discover_vaults ou m profile root project)"
  unfolding discover_vaults_def Let_def
  by (auto intro!: keeps_intro keeps_reads[OF assms] keeps_offer_profiles[OF assms] split: keeps_splits)

lemma keeps_reuse_preview:
  assumes "runs_keep R read_only_command ou"
  shows "keeps R (reuse_existing_profile ou m profile root True)"
  unfolding reuse_existing_profile_def
  by (auto intro!: keeps_intro keeps_reads[OF assms] split: keeps_splits)

end

section \<open>The dry run\<close>

definition files_same :: "world \<Rightarrow> world \<Rightarrow> bool" where
  "files_same w w' \<longleftrightarrow> files w' = files w"

interpretation nothing: step_relation files_same
  by unfold_locales (simp_all add: files_same_def)

lemma dry_run_keeps_files:
  assumes "runs_keep files_same read_only_command ou"
  shows "keeps files_same (init ou m profile root d policy project True)"
  unfolding init_def init_create_def
  by (auto intro!: keeps_intro nothing.keeps_discover_vaults[OF assms] nothing.keeps_reuse_preview[OF assms]
      split: keeps_splits list.split)

section \<open>The guard against forking\<close>

text \<open>
  An engine that answers as \<open>f\<close> says, instead, when it is asked to initialise a profile on a root that
  is a vault of the world it runs in. If \<^verbatim>\<open>init\<close> cannot tell the two apart, it never asks.
\<close>

definition asks_for_fork :: "(bytes \<Rightarrow> json option) \<Rightarrow> bytes list \<Rightarrow> world \<Rightarrow> bool" where
  "asks_for_fork value args w \<longleftrightarrow>
     (\<exists>n r c d p. args = [''init-profile'', n, r, c, d] \<and> path_wf p \<and> path_to_str p = Some r \<and> vault_in value w p)"

definition forking :: "engine_run \<Rightarrow> outside \<Rightarrow> outside" where
  "forking f ou =
     ou\<lparr>ou_engine := (ou_engine ou)
         \<lparr>en_run := (\<lambda>p env cwd args w.
            if asks_for_fork (en_value (ou_engine ou)) args w then f p env cwd args w
            else en_run (ou_engine ou) p env cwd args w)\<rparr>\<rparr>"

lemma forking_fields [simp]:
  "ou_process (forking f ou) = ou_process ou" "ou_config (forking f ou) = ou_config ou"
  "en_value (ou_engine (forking f ou)) = en_value (ou_engine ou)"
  "en_created_at (ou_engine (forking f ou)) = en_created_at (ou_engine ou)"
  "en_profile (ou_engine (forking f ou)) = en_profile (ou_engine ou)"
  "en_profile_list (ou_engine (forking f ou)) = en_profile_list (ou_engine ou)"
  "en_init_result (ou_engine (forking f ou)) = en_init_result (ou_engine ou)"
  "en_launch (ou_engine (forking f ou)) = en_launch (ou_engine ou)"
  by (simp_all add: forking_def)

lemma forking_run_in:
  "\<not> asks_for_fork (en_value (ou_engine ou)) args w \<Longrightarrow>
   run_in pr (ou_engine (forking f ou)) e cwd args w = run_in pr (ou_engine ou) e cwd args w"
  by (simp add: run_in_def forking_def bindA_def map_err_def)

lemma forking_run_json:
  "hd args \<noteq> ''init-profile'' \<Longrightarrow>
   run_json pr (ou_engine (forking f ou)) e cwd decode args = run_json pr (ou_engine ou) e cwd decode args"
proof -
  assume "hd args \<noteq> ''init-profile''"
  then have "\<not> asks_for_fork (en_value (ou_engine ou)) args w" for w by (auto simp: asks_for_fork_def)
  then show ?thesis by (intro ext) (simp add: run_json_def bindA_def forking_run_in)
qed

lemma forking_commands [simp]:
  "engine_profile_show pr (ou_engine (forking f ou)) = engine_profile_show pr (ou_engine ou)"
  "engine_profile_launch pr (ou_engine (forking f ou)) = engine_profile_launch pr (ou_engine ou)"
  "engine_profile_list pr (ou_engine (forking f ou)) = engine_profile_list pr (ou_engine ou)"
  "profile_import pr (ou_engine (forking f ou)) = profile_import pr (ou_engine ou)"
  by (intro ext, simp add: engine_profile_show_def engine_profile_launch_def engine_profile_list_def profile_import_def
      forking_run_json)+

lemma forking_steps [simp]:
  "select_profile (forking f ou) = select_profile ou"
  "publish_profile (forking f ou) = publish_profile ou"
  "refuse_vault (forking f ou) = refuse_vault ou"
  "vault_target (forking f ou) = vault_target ou"
  by (intro ext, simp add: select_profile_def publish_profile_def refuse_vault_def vault_target_def cong: option.case_cong)+

lemma forking_reuse [simp]: "reuse_existing_profile (forking f ou) = reuse_existing_profile ou"
  by (intro ext) (simp add: reuse_existing_profile_def cong: option.case_cong sum.case_cong if_cong)

lemma forking_adopt [simp]: "adopt (forking f ou) = adopt ou"
  by (intro ext) (simp add: adopt_def)

lemma forking_offer_profiles [simp]:
  "offer_profiles (forking f ou) m profile ns = offer_profiles ou m profile ns"
  by (induction ns) (intro ext, simp cong: sum.case_cong)+

lemma forking_offer_children [simp]: "offer_children (forking f ou) ps = offer_children ou ps"
  by (induction ps) (intro ext, simp)+

lemma forking_discover [simp]: "discover_vaults (forking f ou) = discover_vaults ou"
  by (intro ext) (simp add: discover_vaults_def cong: sum.case_cong option.case_cong)

definition engine_keeps_calm_tree :: "outside \<Rightarrow> bool" where
  "engine_keeps_calm_tree ou \<longleftrightarrow>
     runs_keep tree_kept read_only_command ou \<and> runs_keep same_machine read_only_command ou"

text \<open>On a calm tree the guard sees the vault, and making its parents leaves it one.\<close>

definition calm_tree :: "world \<Rightarrow> bool" where
  "calm_tree w \<longleftrightarrow> calm w \<and> tree_ok w"

lemma calm_tree_kept:
  assumes "keeps tree_kept a" and "keeps same_machine a" and "a w = (r, w')" and "calm_tree w"
  shows "calm_tree w'"
  using keepsD[OF assms(1,3)] keepsD[OF assms(2,3)] assms(4)
  by (simp add: calm_tree_def tree_kept_def same_machine_def calm_def)

lemma refuse_vault_passes:
  assumes "refuse_vault ou p w = (Inr (), w')" and "calm_tree w"
  shows "\<not> vault_in (en_value (ou_engine ou)) w p" and "content w' = content w"
proof -
  obtain t n where "probe_root ou p w = ((Inr (if vault_in (en_value (ou_engine ou)) w p then Vault p n else NotAVault)
      :: manager_error + candidate), w\<lparr>ticks := t\<rparr>)"
    using probe_calm[of w "en_value (ou_engine ou)" p] assms(2) by (auto simp: calm_tree_def)
  with assms(1) show "\<not> vault_in (en_value (ou_engine ou)) w p" and "content w' = content w"
    by (auto simp: refuse_vault_def bindA_def ret_def throw_def split: if_splits)
qed

lemma bindA_cong_at:
  assumes "m w = m' w" and "\<And>x w'. m' w = (Inr x, w') \<Longrightarrow> k x w' = k' x w'"
  shows "bindA m k w = bindA m' k' w"
  using assms by (simp add: bindA_def split: sum.split prod.split)

lemma forking_create:
  assumes "calm_tree w" and "path_wf p"
  shows "create (forking f ou) m profile p d b w = create ou m profile p d b w"
proof -
  let ?v = "en_value (ou_engine ou)"
  have init: "init_profile (ou_process ou) (ou_engine (forking f ou)) e profile p c d w2 =
      init_profile (ou_process ou) (ou_engine ou) e profile p c d w2" if "\<not> vault_in ?v w2 p" for e c w2
  proof -
    have "\<not> asks_for_fork ?v [''init-profile'', profile, r, c, durability_as_str d] w2" if "root_text p = Inr r" for r
      using that \<open>\<not> vault_in ?v w2 p\<close> path_text_inject[OF assms(2)]
      by (auto simp: asks_for_fork_def root_text_def split: option.splits)
    then show ?thesis
      by (auto simp: init_profile_def run_json_def bindA_def lift_def forking_run_in split: sum.split)
  qed
  have "\<not> vault_in ?v w2 p"
    if "refuse_vault ou p w = (Inr u, w1)" and "content w2 = content w1" for u w1 w2
    using refuse_vault_passes[of ou p w w1] that assms(1) vault_in_content[of w2 w ?v p]
    by (auto simp: calm_tree_def)
  moreover have "content w2 = content w1"
    if "(if x then ensure_vault_parent_directory p else ret ()) w1 = (Inr u, w2)" for x u w1 and w2 :: world
    using that keepsD[OF ensure_parent_content(2)[of "{}"]] by (auto simp: ret_def untouched_empty split: if_splits)
  ultimately have "init_profile (ou_process ou) (ou_engine (forking f ou)) e profile p c d w2 =
      init_profile (ou_process ou) (ou_engine ou) e profile p c d w2"
    if "refuse_vault ou p w = (Inr u, w1)"
      and "(if x then ensure_vault_parent_directory p else ret ()) w1 = (Inr u', w2)" for u u' x w1 e c and w2 :: world
    using that init by blast
  then show ?thesis
    unfolding create_def forking_steps forking_fields by (intro bindA_cong_at refl) auto
qed

lemma calm_tree_of_reads:
  assumes "engine_keeps_calm_tree ou" and "calm_tree w"
  shows "show_profile ou m n w = (r, w') \<Longrightarrow> calm_tree w'"
    and "discover_vaults ou m profile root project w = (r', w') \<Longrightarrow> calm_tree w'"
    and "vault_target ou profile root w = (r'', w') \<Longrightarrow> calm_tree w'"
  using assms calm_tree_kept
  by (metis engine_keeps_calm_tree_def tree_steps.keeps_reads(1) machine.keeps_reads(1),
      metis engine_keeps_calm_tree_def tree_steps.keeps_discover_vaults machine.keeps_discover_vaults,
      metis tree_steps.keeps_vault_target machine.keeps_vault_target)

lemma reuse_passes:
  "reuse_existing_profile ou m profile root dry w = (Inr None, w') \<Longrightarrow> \<exists>e. show_profile ou m profile w = (Inl e, w')"
  by (cases "show_profile ou m profile w"; cases "fst (show_profile ou m profile w)")
    (auto simp: reuse_existing_profile_def act_run bindA_def attempt_def throw_def ret_def
      split: sum.splits prod.splits if_splits)

lemma forking_init_create:
  assumes "calm_tree w" and "canonical_wf (ou_process ou)" and "\<And>p. root = Some p \<Longrightarrow> path_wf p"
  shows "init_create (forking f ou) m profile root d dry guarded w = init_create ou m profile root d dry guarded w"
proof -
  have "create (forking f ou) m profile p d b w' = create ou m profile p d b w'"
    if "vault_target ou profile root w = (Inr p, w')" for p b w'
  proof (rule forking_create)
    show "calm_tree w'" using calm_tree_kept[OF tree_steps.keeps_vault_target machine.keeps_vault_target that assms(1)] .
    show "path_wf p" using that assms(3) default_vault_root_wf[OF assms(2)]
      by (auto simp: vault_target_def ret_def split: option.splits)
  qed
  then show ?thesis
    unfolding init_create_def forking_steps by (intro bindA_cong_at refl) (simp cong: if_cong)
qed

section \<open>What discovery finds\<close>

text \<open>
  The collector is exact for a world: it lists the vaults among the paths it has seen, each once.
\<close>

definition candidate_key :: "process \<Rightarrow> path \<Rightarrow> path" where
  "candidate_key pr p = (case pr_canonicalize pr p of Inr q \<Rightarrow> q | Inl _ \<Rightarrow> p)"

definition collected :: "(bytes \<Rightarrow> json option) \<Rightarrow> world \<Rightarrow> candidate_set \<Rightarrow> bool" where
  "collected value w s \<longleftrightarrow>
     distinct (map fv_root (cs_found s)) \<and>
     fv_root ` set (cs_found s) = {p \<in> set (cs_seen s). vault_in value w p}"

definition same_calm :: "world \<Rightarrow> world \<Rightarrow> bool" where
  "same_calm w w' \<longleftrightarrow> files w' = files w \<and> (calm w \<longrightarrow> calm w')"

interpretation quiet: step_relation same_calm
  by unfold_locales (auto simp: same_calm_def calm_def)

lemma collected_new: "collected value w candidate_set_new"
  by (simp add: collected_def candidate_set_new_def)

lemma vault_in_same: "files w' = files w \<Longrightarrow> vault_in value w' = vault_in value w"
  by (simp add: vault_in_def fun_eq_iff lookup_def is_directory_def)

lemma offer_result:
  assumes "calm w" and "offer pr value s rule detail p w = (Inr s', w')"
  shows "\<exists>n. s' = (let key = candidate_key pr p in
     if key \<in> set (cs_seen s) then s
     else \<lparr>cs_seen = key # cs_seen s, cs_found = cs_found s @
       (if vault_in value w key
        then [\<lparr>fv_rule = rule, fv_detail = detail, fv_root = key, fv_workspaces = n\<rparr>] else [])\<rparr>)"
proof -
  let ?key = "candidate_key pr p"
  obtain t n where "probe_vault value ?key w = ((Inr (if vault_in value w ?key then Vault ?key n else NotAVault)
      :: 'a + candidate), w\<lparr>ticks := t\<rparr>)"
    using probe_calm[OF assms(1)] by blast
  with assms(2) show ?thesis
    unfolding offer_def candidate_key_def[symmetric] Let_def
    by (cases "?key \<in> set (cs_seen s)"; cases "vault_in value w ?key"; cases s)
      (auto simp: bindA_def ret_def)
qed

lemma offer_collects:
  assumes "calm w" and "collected value w s" and "offer pr value s rule detail p w = (Inr s', w')"
  shows "collected value w s' \<and> set (cs_seen s') = insert (candidate_key pr p) (set (cs_seen s))"
proof (cases "candidate_key pr p \<in> set (cs_seen s)")
  case True
  with assms(2) offer_result[OF assms(1,3)] show ?thesis by (auto simp: Let_def insert_absorb)
next
  case False
  let ?key = "candidate_key pr p"
  from False offer_result[OF assms(1,3)] obtain n where
    seen: "cs_seen s' = ?key # cs_seen s" and
    found: "map fv_root (cs_found s') = map fv_root (cs_found s) @ (if vault_in value w ?key then [?key] else [])"
    by (auto simp: Let_def)
  have old: "set (map fv_root (cs_found s)) = {p \<in> set (cs_seen s). vault_in value w p}"
    and "distinct (map fv_root (cs_found s))"
    using assms(2) by (simp_all add: collected_def)
  then have "distinct (map fv_root (cs_found s'))"
    unfolding found using False by (simp only: distinct_append) auto
  moreover have "set (map fv_root (cs_found s')) = {p \<in> set (cs_seen s'). vault_in value w p}"
    unfolding found set_append old seen by auto
  ultimately show ?thesis by (simp add: collected_def seen)
qed

text \<open>
  Discovery as a sequence of offers over one tree: each keeps the collector exact and forgets no path.
\<close>

definition exact_at :: "(bytes \<Rightarrow> json option) \<Rightarrow> world \<Rightarrow> candidate_set \<Rightarrow> world \<Rightarrow> bool" where
  "exact_at value w0 s w \<longleftrightarrow> same_calm w0 w \<and> calm w0 \<and> collected value w0 s"

lemma exact_offer:
  assumes "exact_at value w0 s w" and "offer pr value s rule detail p w = (Inr s', w')"
  shows "exact_at value w0 s' w'" and "insert (candidate_key pr p) (set (cs_seen s)) = set (cs_seen s')"
proof -
  have same: "vault_in value w = vault_in value w0" and calm: "calm w"
    using assms(1) vault_in_same[of w w0 "value"] by (auto simp: exact_at_def same_calm_def)
  then have "collected value w s" using assms(1) by (simp add: exact_at_def collected_def)
  note result = offer_collects[OF calm this assms(2)]
  then show "insert (candidate_key pr p) (set (cs_seen s)) = set (cs_seen s')" by simp
  have "collected value w0 s'" using result same by (simp add: collected_def)
  moreover have "same_calm w0 w'"
    using keepsD[OF quiet.keeps_offer assms(2)] assms(1) quiet.R_trans by (auto simp: exact_at_def)
  ultimately show "exact_at value w0 s' w'" using assms(1) by (simp add: exact_at_def)
qed

lemma exact_step:
  "exact_at value w0 s w \<Longrightarrow> keeps same_calm a \<Longrightarrow> a w = (r, w') \<Longrightarrow> exact_at value w0 s w'"
  unfolding exact_at_def using keepsD[of same_calm a w r w'] quiet.R_trans by blast

lemma exact_offer_children:
  "exact_at (en_value (ou_engine ou)) w0 s w \<Longrightarrow> offer_children ou ps s w = (Inr s' :: manager_error + _, w') \<Longrightarrow>
   exact_at (en_value (ou_engine ou)) w0 s' w' \<and>
   set (cs_seen s) \<union> candidate_key (ou_process ou) ` set ps = set (cs_seen s')"
proof (induction ps arbitrary: s w)
  case Nil
  then show ?case by (simp add: ret_def)
next
  case (Cons p ps)
  from Cons.prems(2) obtain s1 w1 where
    first: "offer (ou_process ou) (en_value (ou_engine ou)) s UserVaultDirectory None p w =
      (Inr s1 :: manager_error + _, w1)"
    and rest: "offer_children ou ps s1 w1 = (Inr s' :: manager_error + _, w')"
    by (auto simp: act_run)
  from Cons.IH[OF exact_offer(1)[OF Cons.prems(1) first] rest] exact_offer(2)[OF Cons.prems(1) first]
  show ?case by auto
qed

lemma exact_offer_profiles:
  assumes "runs_keep same_calm read_only_command ou"
  shows "exact_at (en_value (ou_engine ou)) w0 s w \<Longrightarrow> offer_profiles ou m profile ns s w = (Inr s', w') \<Longrightarrow>
   exact_at (en_value (ou_engine ou)) w0 s' w' \<and> set (cs_seen s) \<subseteq> set (cs_seen s')"
proof (induction ns arbitrary: s w)
  case Nil
  then show ?case by (simp add: ret_def)
next
  case (Cons n ns)
  show ?case
  proof (cases "n = profile")
    case True
    with Cons show ?thesis by auto
  next
    case False
    obtain r w1 where shown: "show_profile ou m n w = (r, w1)" by force
    note at = exact_step[OF Cons.prems(1) quiet.keeps_reads(1)[OF assms] shown]
    show ?thesis
    proof (cases r)
      case (Inl e)
      with False Cons.prems(2) shown have "offer_profiles ou m profile ns s w1 = (Inr s', w')"
        by (simp add: bindA_def attempt_def)
      then show ?thesis by (rule Cons.IH[OF at])
    next
      case (Inr other)
      with False Cons.prems(2) shown obtain s1 w2 where
        first: "offer (ou_process ou) (en_value (ou_engine ou)) s RegisteredProfile (Some n) (pf_root other) w1
          = (Inr s1 :: manager_error + _, w2)"
        and rest: "offer_profiles ou m profile ns s1 w2 = (Inr s', w')"
        by (auto simp: act_run)
      from Cons.IH[OF exact_offer(1)[OF at first] rest] exact_offer(2)[OF at first] show ?thesis by auto
    qed
  qed
qed

text \<open>The root the rules start from depends on the tree alone, when no call fails.\<close>

lemma symlink_metadata_same:
  "calm w \<Longrightarrow> same_calm w w' \<Longrightarrow> fst (symlink_metadata p w') = fst (symlink_metadata p w)"
  by (simp add: symlink_metadata_def syscall_calm same_calm_def lookup_def through_file_def split: option.split)

lemma default_vault_root_same:
  assumes "calm w" and "same_calm w w'"
  shows "fst (default_vault_root pr profile w') = fst (default_vault_root pr profile w)"
proof -
  have directory: "fst (canonical_directory pr p t w') = fst (canonical_directory pr p t w)" for p t
    using symlink_metadata_same[OF assms, of p]
    by (auto simp: canonical_directory_def bindA_def map_err_def ret_def throw_def
        split: sum.split prod.split node.split)
  then have "fst (user_home pr w') = fst (user_home pr w)"
    by (simp add: user_home_def throw_def split: option.split)
  then show ?thesis
    by (auto simp: default_vault_root_def platform_data_base_def bindA_def lift_def ret_def
        split: sum.split prod.split option.split)
qed

lemma child_directories_calm:
  assumes "calm w" and "tree_ok w" and "child_directories d w = (Inr cs, w')"
  shows "set cs = {c. is_directory w c \<and> parent c = Some d}"
proof -
  have entry: "(q, n) \<in> set (AList.clearjunk (files w)) \<longleftrightarrow> lookup w q = Some n" for q n
    by (metis lookup_def map_of_clearjunk map_of_eq_Some_iff distinct_clearjunk)
  have listed: "set (map fst (filter (\<lambda>(_, n). is_directory_node n)
      (filter (\<lambda>(q, _). parent q = Some d) (AList.clearjunk (files w))))) = {c. is_directory w c \<and> parent c = Some d}"
    by (force simp: entry is_directory_iff elim!: is_directory_node.elims)
  show ?thesis
  proof (cases "is_directory w d")
    case True
    then have "cs = sort_key (\<lambda>q. component_bytes (last q)) (map fst (filter (\<lambda>(_, n). is_directory_node n)
        (filter (\<lambda>(q, _). parent q = Some d) (AList.clearjunk (files w)))))"
      using assms(1,3)
      by (auto simp: child_directories_def Vault_Discovery.read_dir_def syscall_calm bindA_def attempt_def ret_def
          is_directory_iff simp del: filter_filter)
    then show ?thesis using listed by simp
  next
    case False
    then have "cs = []"
      using assms(1,3)
      by (auto simp: child_directories_def Vault_Discovery.read_dir_def syscall_calm bindA_def attempt_def ret_def)
    moreover have "\<not> is_directory w c" if "parent c = Some d" for c
    proof -
      have "c \<noteq> [RootDir]" using that by (auto simp: parent_def)
      then show ?thesis
        using False tree_okD(2)[OF assms(2), of c] that by (auto simp: is_directory_iff parent_is_directory_iff)
    qed
    ultimately show ?thesis by auto
  qed
qed

lemma default_vault_root_parent:
  "default_vault_root pr profile w = (Inr p, w') \<Longrightarrow> \<exists>base. p = join base [Normal ''vaults'', Normal profile]"
  by (auto simp: default_vault_root_def act_run)

lemma discovered:
  assumes "calm w" and "tree_ok w" and "runs_keep same_calm read_only_command ou"
    and run: "discover_vaults ou m profile None project w = (Inr fs, w')"
  obtains r s where "fst (default_vault_root (ou_process ou) profile w) = Inr r"
    and "fs = cs_found s" and "collected (en_value (ou_engine ou)) w s"
    and "insert (candidate_key (ou_process ou) r)
      (candidate_key (ou_process ou) ` {c. is_directory w c \<and> parent c = parent r}) \<subseteq> set (cs_seen s)"
proof -
  let ?v = "en_value (ou_engine ou)" and ?pr = "ou_process ou"
  obtain listed w1 where 1: "engine_profile_list ?pr (ou_engine ou) (mg_engine m) w = (listed, w1)" by force
  from run 1 obtain s1 w2 r w3 s2 w4 rooted w5 s3 w6 where
    2: "(case listed of Inl _ \<Rightarrow> ret candidate_set_new
         | Inr l \<Rightarrow> offer_profiles ou m profile (pl_profiles l) candidate_set_new) w1 = (Inr s1, w2)"
    and 3: "default_vault_root ?pr profile w2 = (Inr r, w3)"
    and 4: "offer ?pr ?v s1 DefaultRoot None r w3 = (Inr s2 :: manager_error + _, w4)"
    and 5: "project_root ?pr project w4 = (rooted, w5)"
    and 6: "(case rooted of Inl _ \<Rightarrow> ret s2
             | Inr p \<Rightarrow> offer ?pr ?v s2 ProjectLocal None (join p [Normal ''.kaleidoscope''])) w5
      = (Inr s3 :: manager_error + _, w6)"
    and 7: "(case parent r of None \<Rightarrow> ret (cs_found s3)
         | Some vaults \<Rightarrow> bindA (child_directories vaults) (\<lambda>children.
             bindA (offer_children ou children s3) (\<lambda>s4. ret (cs_found s4)))) w6 = (Inr fs :: manager_error + _, w')"
    by (auto simp: discover_vaults_def Let_def act_run)
  have "exact_at ?v w candidate_set_new w"
    using assms(1) by (simp add: exact_at_def quiet.R_refl collected_new)
  note e1 = exact_step[OF this quiet.keeps_reads(3)[OF assms(3)] 1]
  have e2: "exact_at ?v w s1 w2"
    using e1 2 exact_offer_profiles[OF assms(3) e1] by (auto simp: ret_def split: sum.splits)
  note e3 = exact_step[OF e2 quiet.keeps_default_vault_root 3]
  note e4 = exact_offer[OF e3 4]
  note e5 = exact_step[OF e4(1) quiet.keeps_project_root 5]
  have e6: "exact_at ?v w s3 w6 \<and> set (cs_seen s2) \<subseteq> set (cs_seen s3)"
  proof (cases rooted)
    case (Inl e)
    with e5 6 show ?thesis by (simp add: ret_def)
  next
    case (Inr p)
    with 6 have "offer ?pr ?v s2 ProjectLocal None (join p [Normal ''.kaleidoscope'']) w5 =
        (Inr s3 :: manager_error + _, w6)" by simp
    from exact_offer[OF e5 this] show ?thesis by blast
  qed
  obtain vaults where parent: "parent r = Some vaults"
    using default_vault_root_parent[OF 3] by (auto simp: join_def parent_def)
  with 7 obtain cs w7 s4 where 8: "child_directories vaults w6 = (Inr cs :: manager_error + _, w7)"
    and 9: "offer_children ou cs s3 w7 = (Inr s4 :: manager_error + _, w')" and fs: "fs = cs_found s4"
    by (auto simp: act_run)
  have same: "same_calm w w6" "same_calm w w2" using e6 e2 by (simp_all add: exact_at_def)
  then have tree: "is_directory w6 = is_directory w" "lookup w6 = lookup w"
    by (simp_all add: fun_eq_iff same_calm_def is_directory_def lookup_def)
  then have "tree_ok w6" using assms(2) by (simp add: tree_ok_def parent_is_directory_def cong: option.case_cong)
  then have cs: "set cs = {c. is_directory w c \<and> parent c = parent r}"
    using child_directories_calm[OF _ _ 8] assms(1) same by (simp add: tree parent same_calm_def)
  note e7 = exact_offer_children[OF exact_step[OF conjunct1[OF e6] quiet.keeps_child_directories 8] 9]
  show ?thesis
  proof (rule that)
    show "fst (default_vault_root ?pr profile w) = Inr r"
      using default_vault_root_same[OF assms(1) same(2)] 3 by (metis fst_conv)
    show "fs = cs_found s4" by (rule fs)
    show "collected ?v w s4" using e7 by (simp add: exact_at_def)
    show "insert (candidate_key ?pr r) (candidate_key ?pr ` {c. is_directory w c \<and> parent c = parent r}) \<subseteq> set (cs_seen s4)"
      using e7 e6 e4(2) cs by auto
  qed
qed

section \<open>Discovery does not fail\<close>

text \<open>
  Every refused call is taken as a vault that is not there, so past the default root nothing fails.
\<close>

definition never_fails :: "('e, 'a) act \<Rightarrow> bool" where
  "never_fails a \<longleftrightarrow> (\<forall>w. \<not> isl (fst (a w)))"

lemma never_failsD: "never_fails a \<Longrightarrow> \<exists>x w'. a w = (Inr x, w')"
  unfolding never_fails_def by (metis isl_def prod.collapse sum.collapse(2))

named_theorems no_fail \<open>actions that always return a value\<close>

lemma never_fails_steps [no_fail]:
  "never_fails (ret x)" "never_fails (attempt a)"
  "never_fails a \<Longrightarrow> (\<And>x. never_fails (k x)) \<Longrightarrow> never_fails (bindA a k)"
  by (auto simp: never_fails_def act_unfold split: sum.split prod.split) (metis fst_conv sum.disc(1))

lemma never_fails_probe [no_fail]: "never_fails (probe_vault v p)"
  unfolding probe_vault_def count_workspaces_def
  by (auto intro!: no_fail split: sum.split node.split)

lemma never_fails_offer [no_fail]: "never_fails (offer pr v s rule detail p)"
  unfolding offer_def Let_def by (auto intro!: no_fail split: candidate.split)

lemma never_fails_offers [no_fail]: "never_fails (offer_children ou ps s)"
  by (induction ps arbitrary: s) (auto intro!: no_fail)

lemma never_fails_child_directories [no_fail]: "never_fails (child_directories d)"
  unfolding child_directories_def by (intro no_fail)

lemma discover_vaults_returns:
  assumes "runs_keep same_calm read_only_command ou" "calm w" 
    and "fst (default_vault_root (ou_process ou) profile w) = Inr r"
  shows "\<exists>fs w'. discover_vaults ou m profile None project w = (Inr fs, w')"
proof -
  obtain listed w1 where 1: "engine_profile_list (ou_process ou) (ou_engine ou) (mg_engine m) w = (listed, w1)" by force
  have "never_fails (offer_profiles ou m profile ns s)" for ns s
    by (induction ns arbitrary: s) (auto intro!: no_fail split: sum.split)
  then have first: "never_fails (case listed of Inl _ \<Rightarrow> ret candidate_set_new
         | Inr l \<Rightarrow> offer_profiles ou m profile (pl_profiles l) candidate_set_new)"
    by (auto intro!: no_fail split: sum.split)
  then obtain s1 w2 where 2: "(case listed of Inl _ \<Rightarrow> ret candidate_set_new
         | Inr l \<Rightarrow> offer_profiles ou m profile (pl_profiles l) candidate_set_new) w1 = (Inr s1, w2)"
    using never_failsD by blast
  have "keeps same_calm (case listed of Inl _ \<Rightarrow> ret candidate_set_new
         | Inr l \<Rightarrow> offer_profiles ou m profile (pl_profiles l) candidate_set_new)"
    by (auto intro!: keeps_intro quiet.keeps_offer_profiles[OF assms(1)] split: sum.split)
  from quiet.R_trans[OF keepsD[OF quiet.keeps_reads(3)[OF assms(1)] 1] keepsD[OF this 2]]
  have "fst (default_vault_root (ou_process ou) profile w2) = Inr r"
    using default_vault_root_same[OF assms(2)] assms(3) by metis
  then obtain w3 where 3: "default_vault_root (ou_process ou) profile w2 = (Inr r, w3)"
    by (cases "default_vault_root (ou_process ou) profile w2") simp
  define k where "k = (\<lambda>s1 default_root. 
      bindA (offer (ou_process ou) (en_value (ou_engine ou)) s1 DefaultRoot None default_root) (\<lambda>s2.
            bindA (attempt (project_root (ou_process ou) project)) (\<lambda>rooted.
            bindA (case rooted of Inl _ \<Rightarrow> ret s2
                   | Inr p \<Rightarrow> offer (ou_process ou) (en_value (ou_engine ou)) s2 ProjectLocal None (join p [Normal ''.kaleidoscope''])) (\<lambda>s3.
            case parent default_root of
              None \<Rightarrow> ret (cs_found s3)
            | Some vaults \<Rightarrow>
                bindA (child_directories vaults) (\<lambda>children.
                bindA (offer_children ou children s3) (\<lambda>s4. ret (cs_found s4)))))) :: (manager_error, found_vault list) act)"
  have k: "never_fails (k s1 r)" for s1 r
    unfolding k_def by (auto intro!: no_fail split: sum.split option.split)
  have "discover_vaults ou m profile None project w = k s1 r w3"
    using 1 2 3 by (simp add: discover_vaults_def Let_def k_def bindA_def attempt_def)
  then show ?thesis using never_failsD[OF k] by metis
qed

end
