(* ===== verification/Demo_Manager.thy ===== *)
theory Demo_Manager
  imports Manager_Correct
begin

text \<open>
  A home with a vault at the default root and one beside it, a link to the first, and an engine that
  lists no profile and refuses the rest.
\<close>

definition demo_vaults :: path where
  "demo_vaults = [RootDir, Normal ''h'', Normal ''vaults'']"

definition demo_vault :: "bytes \<Rightarrow> path" where
  "demo_vault n = join demo_vaults [Normal n]"

definition demo_link :: path where
  "demo_link = [RootDir, Normal ''h'', Normal ''link'']"

definition demo_manifest :: json where
  "demo_manifest = JObj [(''schema_name'', JStr root_manifest_schema)]"

definition demo_canonicalize :: "path \<Rightarrow> io_kind + path" where
  "demo_canonicalize p =
     (if p = demo_link then Inr (demo_vault ''work'')
      else if p \<in> {demo_vault ''work'', demo_vault ''other'', demo_vaults, [RootDir, Normal ''h'']} then Inr p
      else Inl NotFound)"

definition demo_manager_process :: process where
  "demo_manager_process =
     \<lparr>pr_var = (\<lambda>n. if n = ''KALEIDOSCOPE_DATA_HOME'' then Some ''/h'' else None), pr_cwd = Inr demo_vaults,
      pr_canonicalize = demo_canonicalize\<rparr>"

definition demo_engine_run :: engine_run where
  "demo_engine_run = (\<lambda>_ _ _ args.
     ret (if args = [''profile'', ''list''] then \<lparr>po_stdout = ''L'', po_stderr = [], po_success = True\<rparr>
          else \<lparr>po_stdout = [], po_stderr = ''no'', po_success = False\<rparr>))"

definition demo_listing :: profile_list where
  "demo_listing = \<lparr>pl_version = 1, pl_profiles = [], pl_entries = [], pl_stale = 0\<rparr>"

definition demo_engine_ext :: engine_ext where
  "demo_engine_ext =
     \<lparr>en_run = demo_engine_run, en_current_exe = Inl NotFound, en_created_at = ''now'',
      en_value = (\<lambda>b. if b = ''M'' then Some demo_manifest else None),
      en_profile = \<lambda>_. None, en_profile_list = (\<lambda>b. if b = ''L'' then Some demo_listing else None),
      en_init_result = \<lambda>_. None, en_remove_result = \<lambda>_. None, en_launch = \<lambda>_. None, en_resolved = \<lambda>_. None\<rparr>"

definition demo_outside :: outside where
  "demo_outside =
     \<lparr>ou_process = demo_manager_process, ou_engine = demo_engine_ext,
      ou_config = \<lparr>cx_sha = \<lambda>b. [], cx_from_slice = \<lambda>_. None, cx_to_vec_pretty = \<lambda>_. []\<rparr>\<rparr>"

definition demo_the_manager :: manager where
  "demo_the_manager = \<lparr>mg_engine = [RootDir, Normal ''e''], mg_config = [RootDir, Normal ''c'']\<rparr>"

definition demo_vault_entries :: "bytes \<Rightarrow> (path \<times> node) list" where
  "demo_vault_entries n =
     [(demo_vault n, Directory 493), (manifest_path (demo_vault n), File ''M'' 420)]"

definition demo_vault_world :: "bytes list \<Rightarrow> world" where
  "demo_vault_world names =
     \<lparr>files = ([RootDir], Directory 493) # ([RootDir, Normal ''h''], Directory 493) # (demo_vaults, Directory 493)
        # (demo_link, Symlink) # concat (map demo_vault_entries names),
      ticks = 0, faults = \<lambda>_. None, temp_sequence = 0, pid = 7, umask = 18\<rparr>"

lemmas demo_manager_defs = demo_vaults_def demo_vault_def demo_link_def demo_manifest_def demo_canonicalize_def
  demo_manager_process_def demo_engine_ext_def demo_outside_def demo_the_manager_def demo_vault_entries_def
  demo_vault_world_def manifest_path_def join_def

lemma demo_runs_keep:
  "state_preorder R \<Longrightarrow> runs_keep R C demo_outside"
  unfolding runs_keep_def demo_outside_def demo_engine_ext_def demo_engine_run_def
  by (auto intro: state_preorder.keeps_ret)

lemma demo_canonical_wf: "canonical_wf (ou_process demo_outside)"
  by (auto simp: canonical_wf_def demo_manager_defs path_wf_def split: if_splits)

lemma demo_vault_calm: "calm (demo_vault_world ns)"
  by (simp add: calm_def demo_vault_world_def)

lemma demo_vault_tree:
  "tree_ok (demo_vault_world [])" "tree_ok (demo_vault_world [''work''])" "tree_ok (demo_vault_world [''work'', ''other''])"
  by (auto simp: tree_ok_def demo_manager_defs lookup_def is_directory_def parent_is_directory_def parent_def
      split: if_splits)

lemma demo_list:
  "engine_profile_list (ou_process demo_outside) (ou_engine demo_outside) e w = (Inr demo_listing, w)"
  by (simp add: engine_profile_list_def run_json_def run_in_def act_unfold demo_outside_def demo_engine_ext_def
      demo_engine_run_def max_engine_output_bytes_def profile_list_validate_def
      demo_listing_def profile_version_def)

lemma demo_default: "default_vault_root (ou_process demo_outside) ''work'' w = (Inr (demo_vault ''work''), w)"
  by (simp add: default_vault_root_def validate_profile_name_def act_unfold demo_manager_defs var_nonempty_def parse_path_def
    validate_config_path_def starts_with_def ascii_alnum_def is_ascii_def)

lemma demo_vault_in:
  "n \<in> set ns \<Longrightarrow> vault_in (en_value (ou_engine demo_outside)) (demo_vault_world ns) (demo_vault n)"
  by (induction ns) 
   (auto simp add: vault_in_def demo_manager_defs lookup_def is_directory_def max_manifest_bytes_def manifest_ok_def json_at_def json_get_def split: if_splits)

end
