(* ===== verification/Manager_Properties.thy ===== *)
theory Manager_Properties
  imports Demo_Manager
begin

text \<open>Properties of vault discovery and of \<^verbatim>\<open>init\<close>.\<close>

text \<open>C8. On a machine whose calls do not fail and whose tree is one, whatever the policy,
  \<^verbatim>\<open>init\<close> never asks the engine to initialise a profile on a root that is a vault at that moment:
  replacing the engine's answer to exactly those requests by anything changes nothing.
\<close>

theorem init_never_forks:
  assumes "calm w" and "tree_ok w" and "engine_keeps_calm_tree ou"
    and "canonical_wf (ou_process ou)" and "\<And>p. root = Some p \<Longrightarrow> path_wf p"
  shows "init (forking f ou) m profile root d policy project dry_run w =
         init ou m profile root d policy project dry_run w"
proof -
  have calm: "calm_tree w" using assms(1,2) by (simp add: calm_tree_def)
  have create: "init_create (forking f ou) m profile root d dry_run g w2 = init_create ou m profile root d dry_run g w2"
    if reused: "reuse_existing_profile ou m profile root dry_run w = (Inr None, w1)"
      and found: "discover_vaults ou m profile root project w1 = (Inr cs, w2)" for g cs w1 w2
  proof (rule forking_init_create[OF _ assms(4,5)])
    obtain e where "show_profile ou m profile w = (Inl e, w1)" using reuse_passes[OF reused] by blast
    then show "calm_tree w2"
      using calm_tree_of_reads(1)[OF assms(3) calm] calm_tree_of_reads(2)[OF assms(3) _ found] by blast
  qed
  show ?thesis
  proof (cases "case root of None \<Rightarrow> False | Some p \<Rightarrow> \<not> is_absolute p")
    case True
    then show ?thesis by (simp add: init_def)
  next
    case False
    then show ?thesis
      unfolding init_def forking_steps forking_reuse forking_discover forking_adopt
      by (simp only: if_False)
        (auto intro!: bindA_cong_at simp: lift_def create split: option.split list.split)
  qed
qed

text \<open>A vault at the default root, a policy that creates, and a guard that stands.\<close>

theorem init_never_forks_witness:
  "init (forking (\<lambda>_ _ _ _. throw PermissionDenied) demo_outside) demo_the_manager ''work'' None ProcessLocal Create None
     False (demo_vault_world [''work'']) =
   init demo_outside demo_the_manager ''work'' None ProcessLocal Create None False (demo_vault_world [''work''])"
  by (rule init_never_forks[OF demo_vault_calm demo_vault_tree(2) _ demo_canonical_wf])
    (simp_all add: engine_keeps_calm_tree_def demo_runs_keep tree_steps.state_preorder_axioms machine.state_preorder_axioms)

text \<open>C9. Where the default root can be named, discovery answers; what it reports is vaults, no root twice, and
  it misses neither the default root nor any vault beside it: a directory next to the default root whose
  canonical path is a vault is reported.
\<close>

theorem discovery_finds_the_vaults:
  assumes "calm w" and "tree_ok w" and "runs_keep same_calm read_only_command ou"
    and "fst (default_vault_root (ou_process ou) profile w) = Inr r"
  shows "\<exists>fs w'. discover_vaults ou m profile None project w = (Inr fs, w') \<and>
    distinct (map fv_root fs) \<and>
    (\<forall>v. v \<in> set fs \<longrightarrow> vault_in (en_value (ou_engine ou)) w (fv_root v)) \<and>
    (\<forall>c. c = r \<or> is_directory w c \<and> parent c = parent r \<longrightarrow>
      vault_in (en_value (ou_engine ou)) w (candidate_key (ou_process ou) c) \<longrightarrow>
      candidate_key (ou_process ou) c \<in> fv_root ` set fs)"
proof -
  obtain fs w' where run: "discover_vaults ou m profile None project w = (Inr fs, w')"
    using discover_vaults_returns[OF assms(3,1,4)] by blast
  obtain r' s where "fst (default_vault_root (ou_process ou) profile w) = Inr r'" and fs: "fs = cs_found s"
    and collected: "collected (en_value (ou_engine ou)) w s"
    and seen: "insert (candidate_key (ou_process ou) r')
      (candidate_key (ou_process ou) ` {c. is_directory w c \<and> parent c = parent r'}) \<subseteq> set (cs_seen s)"
    using discovered[OF assms(1-3) run] by blast
  with assms(4) have "r' = r" by simp
  moreover have "v \<in> set (cs_found s) \<Longrightarrow> vault_in (en_value (ou_engine ou)) w (fv_root v)" for v
    using collected by (auto simp: collected_def)
  ultimately show ?thesis using run fs collected seen by (auto simp: collected_def)
qed

text \<open>With two vaults side by side, both are found.\<close>

theorem discovery_finds_the_vaults_witness:
  "\<exists>fs w'. discover_vaults demo_outside demo_the_manager ''work'' None None (demo_vault_world [''work'', ''other'']) = (Inr fs, w') \<and>
    {demo_vault ''work'', demo_vault ''other''} \<subseteq> fv_root ` set fs"
proof -
  let ?w = "demo_vault_world [''work'', ''other'']"
  have "is_directory ?w (demo_vault ''other'')" "parent (demo_vault ''other'') = parent (demo_vault ''work'')"
    by (simp_all add: demo_manager_defs is_directory_def lookup_def parent_def)
  moreover have "candidate_key (ou_process demo_outside) (demo_vault n) = demo_vault n" if "n \<in> {''work'', ''other''}" for n
    using that by (auto simp: candidate_key_def demo_manager_defs)
  moreover have "fst (default_vault_root (ou_process demo_outside) ''work'' ?w) = Inr (demo_vault ''work'')"
    by (simp add: demo_default)
  from discovery_finds_the_vaults[OF demo_vault_calm demo_vault_tree(3) demo_runs_keep[OF quiet.state_preorder_axioms] this]
  obtain fs w' where "discover_vaults demo_outside demo_the_manager ''work'' None None ?w = (Inr fs, w')"
    and "\<And>c. c = demo_vault ''work'' \<or> is_directory ?w c \<and> parent c = parent (demo_vault ''work'') \<Longrightarrow>
      vault_in (en_value (ou_engine demo_outside)) ?w (candidate_key (ou_process demo_outside) c) \<Longrightarrow>
      candidate_key (ou_process demo_outside) c \<in> fv_root ` set fs"
    by blast
  ultimately show ?thesis using demo_vault_in[of _ "[''work'', ''other'']"] by (metis empty_subsetI insert_iff insert_subset list.set_intros)
qed

text \<open>A dry run writes nothing: with an engine whose read-only commands leave the tree alone, so does \<^verbatim>\<open>init\<close>.\<close>

theorem dry_run_writes_nothing:
  assumes "runs_keep files_same read_only_command ou"
    and "init ou m profile root d policy project True w = (r, w')"
  shows "files w' = files w"
  using keepsD[OF dry_run_keeps_files[OF assms(1)] assms(2)] by (simp add: files_same_def)

theorem dry_run_writes_nothing_witness:
  "files (snd (init demo_outside demo_the_manager ''work'' None ProcessLocal Auto None True (demo_vault_world [''work'']))) =
   files (demo_vault_world [''work''])"
  by (rule dry_run_writes_nothing[OF demo_runs_keep[OF nothing.state_preorder_axioms] prod.collapse[symmetric]])

text \<open>The guard looks at the root as it is named. A root that is a link to a vault is discovered as that
  vault, under its canonical path, and yet passes the guard: a policy that creates goes on to ask the
  engine to initialise a profile through the link.
\<close>

theorem guard_misses_a_linked_vault:
  assumes "calm w" and "lookup w p = Some Symlink" and "is_absolute p"
    and "pr_canonicalize (ou_process ou) p = Inr q" and "vault_in (en_value (ou_engine ou)) w q"
  shows "(\<exists>n t. discover_vaults ou m profile (Some p) project w =
      (Inr [\<lparr>fv_rule = ExplicitRoot, fv_detail = None, fv_root = q, fv_workspaces = n\<rparr>], w\<lparr>ticks := t\<rparr>)) \<and>
    (\<exists>t. refuse_vault ou p w = (Inr (), w\<lparr>ticks := t\<rparr>))"
proof
  let ?v = "en_value (ou_engine ou)"
  obtain t n where "probe_vault ?v q w = (Inr (Vault q n) :: manager_error + candidate, w\<lparr>ticks := t\<rparr>)"
    using probe_calm[OF assms(1), of ?v q] assms(5) by (metis (full_types))
  then show "\<exists>n t. discover_vaults ou m profile (Some p) project w =
      (Inr [\<lparr>fv_rule = ExplicitRoot, fv_detail = None, fv_root = q, fv_workspaces = n\<rparr>], w\<lparr>ticks := t\<rparr>)"
    using assms(4) by (auto simp: discover_vaults_def offer_def candidate_set_new_def Let_def bindA_def ret_def)
  have "\<not> vault_in ?v w p" using assms(2) by (simp add: vault_in_def is_directory_def)
  then obtain s where "probe_vault ?v p w = (Inr NotAVault :: manager_error + candidate, w\<lparr>ticks := s\<rparr>)"
    using probe_calm[OF assms(1), of ?v p] by (metis (full_types))
  then show "\<exists>t. refuse_vault ou p w = (Inr (), w\<lparr>ticks := t\<rparr>)"
    by (auto simp: refuse_vault_def bindA_def ret_def)
qed

theorem guard_misses_a_linked_vault_witness:
  "is_directory (demo_vault_world [''work'']) (demo_vault ''work'') \<and>
   (\<exists>t. refuse_vault demo_outside demo_link (demo_vault_world [''work'']) = (Inr (), (demo_vault_world [''work''])\<lparr>ticks := t\<rparr>))"
proof
  show "is_directory (demo_vault_world [''work'']) (demo_vault ''work'')"
    by (simp add: demo_manager_defs is_directory_def lookup_def)
  have "lookup (demo_vault_world [''work'']) demo_link = Some Symlink" "is_absolute demo_link"
    "pr_canonicalize (ou_process demo_outside) demo_link = Inr (demo_vault ''work'')"
    by (simp_all add: demo_manager_defs lookup_def)
  then show "\<exists>t. refuse_vault demo_outside demo_link (demo_vault_world [''work'']) = (Inr (), (demo_vault_world [''work''])\<lparr>ticks := t\<rparr>)"
    using guard_misses_a_linked_vault[OF demo_vault_calm] demo_vault_in[of "''work''" "[''work'']"] by simp
qed

end
