(* ===== verification/Doctor.thy ===== *)
theory Doctor
  imports Manager Host_Connect Hooks Instructions_Plans
begin

text \<open>
  The diagnosis (\<^verbatim>\<open>src/src/doctor.rs\<close>): one check after the other, each from the planner that would undo
  what it looks at, and the coherence checks over the list so far. The text an error renders to is the
  parameter \<open>dx_message\<close>; a panic is not an error value and ends the run.
\<close>

record doctor_check =
  dc_name :: bytes
  dc_status :: bytes
  dc_detail :: bytes
  dc_managed :: "bool option"

record doctor_report =
  dr_version :: nat
  dr_status :: bytes
  dr_offline :: bool
  dr_redacted :: bool
  dr_checks :: "doctor_check list"

record doctor_ext =
  dx_instr :: instr_ext
  dx_host :: host_ext
  dx_hook :: hook_ext
  dx_message :: "manager_error \<Rightarrow> bytes"

text \<open>The \<^verbatim>\<open>Result\<close> of a call, taken as a value.\<close>

fun no_panic :: "manager_error + 'a \<Rightarrow> (manager_error, manager_error + 'a) act" where
  "no_panic (Inl (Panicked s)) = throw (Panicked s)"
| "no_panic r = ret r"

definition outcome :: "(manager_error, 'a) act \<Rightarrow> (manager_error, manager_error + 'a) act" where
  "outcome a = bindA (attempt a) no_panic"

section \<open>Checks\<close>

definition generic_detail :: "bytes \<Rightarrow> bytes" where
  "generic_detail e =
     (if str_contains e ''owner receipt'' \<or> str_contains e ''configuration conflict''
      then ''managed configuration ownership check failed''
      else if str_contains e ''profile'' then ''native profile validation failed''
      else if str_contains e ''engine'' \<or> str_contains e ''kscope'' then ''native engine validation failed''
      else ''local validation failed'')"

definition issue_check :: "doctor_ext \<Rightarrow> bytes \<Rightarrow> manager_error \<Rightarrow> doctor_check" where
  "issue_check dx name e =
     \<lparr>dc_name = name, dc_status = ''issue'', dc_detail = generic_detail (dx_message dx e), dc_managed = None\<rparr>"

definition result_check :: "doctor_ext \<Rightarrow> bytes \<Rightarrow> manager_error + bytes \<Rightarrow> doctor_check" where
  "result_check dx name r =
     (case r of
        Inr detail \<Rightarrow> \<lparr>dc_name = name, dc_status = ''ok'', dc_detail = detail, dc_managed = None\<rparr>
      | Inl e \<Rightarrow> issue_check dx name e)"

definition managed_check :: "doctor_ext \<Rightarrow> bytes \<Rightarrow> manager_error + bytes \<Rightarrow> doctor_check" where
  "managed_check dx name r =
     (case r of
        Inr detail \<Rightarrow>
          \<lparr>dc_name = name, dc_status = ''ok'', dc_detail = detail, dc_managed = Some (detail \<noteq> ''not managed'')\<rparr>
      | Inl e \<Rightarrow> issue_check dx name e)"

definition connection_check :: "doctor_ext \<Rightarrow> bytes \<Rightarrow> manager_error + bytes option \<Rightarrow> doctor_check" where
  "connection_check dx name r =
     (case r of
        Inr (Some _) \<Rightarrow>
          \<lparr>dc_name = name, dc_status = ''ok'', dc_detail = ''manager-owned entry and owner receipt match'',
           dc_managed = Some True\<rparr>
      | Inr None \<Rightarrow> \<lparr>dc_name = name, dc_status = ''ok'', dc_detail = ''not managed'', dc_managed = Some False\<rparr>
      | Inl e \<Rightarrow> issue_check dx name e)"

section \<open>The engine and the profiles\<close>

definition engine_checks :: "outside \<Rightarrow> doctor_ext \<Rightarrow> manager \<Rightarrow> (manager_error, doctor_check list) act" where
  "engine_checks ou dx m =
     (let pr = ou_process ou; eg = ou_engine ou; e = mg_engine m in
      bindA (outcome (engine_version pr eg e)) (\<lambda>version.
      bindA (outcome (public_contract_seed pr eg e)) (\<lambda>seed.
      bindA (outcome (engine_profile_list pr eg e)) (\<lambda>profiles.
      bindA (outcome (config_load (ou_config ou) (mg_config m))) (\<lambda>active.
      bindA (case active of
               Inl err \<Rightarrow> ret (issue_check dx ''profile.launch'' err)
             | Inr c \<Rightarrow>
                 let selected = (case mc_active_profile c of Some p \<Rightarrow> p | None \<Rightarrow> ''default'') in
                 bindA (outcome (launch_profile ou m selected)) (\<lambda>r.
                 ret (result_check dx ''profile.launch''
                        (map_sum id (\<lambda>_. ''active launch descriptor v1 validated'') r)))) (\<lambda>launch.
      ret [result_check dx ''engine.version'' (map_sum id (\<lambda>v. ''kscope '' @ v) version),
           result_check dx ''engine.public_contract''
             (map_sum id (\<lambda>_. ''offline local stdio boundary accepted'') seed),
           result_check dx ''profiles''
             (map_sum id (\<lambda>l. show_nat (length (pl_profiles l)) @ '' native profile(s) validated'') profiles),
           launch]))))))"

section \<open>What the manager owns\<close>

definition connection_name :: "host \<Rightarrow> scope \<Rightarrow> bytes" where
  "connection_name h s = ''connection.'' @ host_as_str h @ ''.'' @ scope_as_str s"

fun connection_checks ::
    "process \<Rightarrow> doctor_ext \<Rightarrow> path option \<Rightarrow> (host \<times> scope) list \<Rightarrow> (manager_error, doctor_check list) act" where
  "connection_checks pr dx project [] = ret []"
| "connection_checks pr dx project ((h, s) # sites) =
     bindA (outcome (inspect_owned_connection (dx_host dx) pr h s project)) (\<lambda>r.
     bindA (connection_checks pr dx project sites) (\<lambda>checks.
     ret (connection_check dx (connection_name h s) r # checks)))"

definition plan_remove ::
    "instr_ext \<Rightarrow> process \<Rightarrow> instruction_target \<Rightarrow> host option \<Rightarrow> path option \<Rightarrow> bool
     \<Rightarrow> (manager_error, instruction_plan) act" where
  "plan_remove ext pr t h explicit force =
     bindA (project_root pr explicit) (\<lambda>project. plan_remove_at ext t h project force)"

definition instruction_name :: "instruction_target \<Rightarrow> bytes" where
  "instruction_name t = ''instructions.'' @ target_as_str t"

fun instruction_checks ::
    "process \<Rightarrow> doctor_ext \<Rightarrow> path option \<Rightarrow> instruction_target list \<Rightarrow> (manager_error, doctor_check list) act" where
  "instruction_checks pr dx project [] = ret []"
| "instruction_checks pr dx project (t # ts) =
     bindA (outcome (plan_remove (dx_instr dx) pr t None project False)) (\<lambda>r.
     bindA (instruction_checks pr dx project ts) (\<lambda>checks.
     ret (managed_check dx (instruction_name t)
            (map_sum id (\<lambda>plan. if is_noop plan then ''not managed''
               else ''manager-owned block and receipt match at '' @ path_to_string_lossy (ip_target plan)) r)
          # checks)))"

definition skill_name :: "host \<Rightarrow> bytes" where
  "skill_name h = ''skill.'' @ host_as_str h"

fun skill_checks ::
    "process \<Rightarrow> doctor_ext \<Rightarrow> path option \<Rightarrow> host list \<Rightarrow> (manager_error, doctor_check list) act" where
  "skill_checks pr dx project [] = ret []"
| "skill_checks pr dx project (h # hs) =
     bindA (outcome (project_root pr project)) (\<lambda>rooted.
     bindA (case rooted of
              Inl e \<Rightarrow> ret (issue_check dx (skill_name h) e)
            | Inr root \<Rightarrow>
                bindA (outcome (plan_remove_at (dx_instr dx) Skill (Some h) root False)) (\<lambda>r.
                ret (managed_check dx (skill_name h)
                       (map_sum id (\<lambda>plan. if is_noop plan then ''not managed''
                          else ''installed and byte-identical at '' @ path_to_string_lossy (ip_target plan)) r)))) (\<lambda>c.
     bindA (skill_checks pr dx project hs) (\<lambda>checks. ret (c # checks))))"

definition hook_name :: "scope \<Rightarrow> bytes" where
  "hook_name s = ''hook.claude-code.'' @ scope_as_str s"

fun hook_checks ::
    "process \<Rightarrow> doctor_ext \<Rightarrow> path option \<Rightarrow> scope list \<Rightarrow> (manager_error, doctor_check list) act" where
  "hook_checks pr dx project [] = ret []"
| "hook_checks pr dx project (s # ss) =
     bindA (outcome (settings_path pr s project)) (\<lambda>located.
     bindA (case located of
              Inl e \<Rightarrow> ret (issue_check dx (hook_name s) e)
            | Inr target \<Rightarrow>
                bindA (outcome (hook_plan_remove_at (dx_hook dx) s target False)) (\<lambda>r.
                ret (managed_check dx (hook_name s)
                       (map_sum id (\<lambda>plan. if hook_is_noop plan then ''not managed''
                          else ''SessionStart entry and receipt match at ''
                               @ path_to_string_lossy (hf_target (hk_files plan))) r)))) (\<lambda>c.
     bindA (hook_checks pr dx project ss) (\<lambda>checks. ret (c # checks))))"

section \<open>Coherence\<close>

definition is_managed :: "doctor_check list \<Rightarrow> bytes \<Rightarrow> bool" where
  "is_managed checks name \<longleftrightarrow> list_ex (\<lambda>c. dc_name c = name \<and> dc_managed c = Some True) checks"

fun instruction_target_for :: "host \<Rightarrow> instruction_target" where
  "instruction_target_for Codex = Agents"
| "instruction_target_for OpenCode = Agents"
| "instruction_target_for ClaudeCode = Claude"
| "instruction_target_for CursorHost = Cursor"

definition wiring_name :: "host \<Rightarrow> bytes" where
  "wiring_name h = ''wiring.'' @ host_as_str h"

definition told :: "doctor_check list \<Rightarrow> host \<Rightarrow> bool" where
  "told checks h \<longleftrightarrow>
     is_managed checks (instruction_name (instruction_target_for h))
     \<or> (h \<noteq> CursorHost \<and> is_managed checks (skill_name h))"

definition wired :: "doctor_check list \<Rightarrow> host \<Rightarrow> bool" where
  "wired checks h \<longleftrightarrow>
     is_managed checks (connection_name h UserScope) \<or> is_managed checks (connection_name h ProjectScope)"

definition wiring_check :: "host \<Rightarrow> bool \<Rightarrow> doctor_check" where
  "wiring_check h ok =
     (if ok then
        \<lparr>dc_name = wiring_name h, dc_status = ''ok'',
         dc_detail = ''instructions and a manager-owned MCP entry are both present'', dc_managed = Some True\<rparr>
      else
        \<lparr>dc_name = wiring_name h, dc_status = ''issue'',
         dc_detail = ''this project carries manager-owned Kaleidoscope instructions but NO manager-owned MCP entry in either scope, so the agent is told to call `search` and `remember` and has nothing to call. Run `kaleidoscope connect ''
           @ host_as_str h @ ''` to wire it, or `kaleidoscope teardown --host '' @ host_as_str h
           @ ''` to remove the instructions too.'', dc_managed = Some False\<rparr>)"

fun push_coherence_checks :: "host list \<Rightarrow> doctor_check list \<Rightarrow> doctor_check list" where
  "push_coherence_checks [] checks = checks"
| "push_coherence_checks (h # hs) checks =
     push_coherence_checks hs (if told checks h then checks @ [wiring_check h (wired checks h)] else checks)"

section \<open>The report\<close>

definition doctor_status :: "doctor_check list \<Rightarrow> bytes" where
  "doctor_status checks = (if list_ex (\<lambda>c. dc_status c = ''issue'') checks then ''issues'' else ''ready'')"

definition run_doctor ::
    "outside \<Rightarrow> doctor_ext \<Rightarrow> manager \<Rightarrow> path option \<Rightarrow> (manager_error, doctor_report) act" where
  "run_doctor ou dx m project =
     (let pr = ou_process ou in
      bindA (engine_checks ou dx m) (\<lambda>engine.
      bindA (connection_checks pr dx project (List.product all_hosts [UserScope, ProjectScope])) (\<lambda>connections.
      bindA (instruction_checks pr dx project [Agents, Claude, Cursor]) (\<lambda>instructions.
      bindA (skill_checks pr dx project [ClaudeCode, Codex, OpenCode]) (\<lambda>skills.
      bindA (hook_checks pr dx project [UserScope, ProjectScope]) (\<lambda>hooks.
      let checks = push_coherence_checks all_hosts (engine @ connections @ instructions @ skills @ hooks) in
      ret \<lparr>dr_version = 1, dr_status = doctor_status checks, dr_offline = True, dr_redacted = True,
           dr_checks = checks\<rparr>))))))"

end
