(* ===== verification/Doctor_Correct.thy ===== *)
theory Doctor_Correct
  imports Doctor Manager_Correct Host_Plans
begin

text \<open>What a diagnosis leaves alone, when it answers, and what its verdict means.\<close>

section \<open>A diagnosis reads\<close>

text \<open>The commands a diagnosis gives the engine.\<close>

definition query_command :: "bytes list \<Rightarrow> bool" where
  "query_command args \<longleftrightarrow>
     args = [''--version''] \<or> args = [''public-contract''] \<or> read_only_command args"

lemma runs_keep_queries: "runs_keep R query_command ou \<Longrightarrow> runs_keep R read_only_command ou"
  by (simp add: runs_keep_def query_command_def)

context step_relation
begin

lemma keeps_outcome [keeps_intro]: "keeps R a \<Longrightarrow> keeps R (outcome a)"
proof -
  have "keeps R (no_panic r)" for r :: "manager_error + 'x"
    by (cases r rule: no_panic.cases) (simp_all add: keeps_ret keeps_throw)
  then show "keeps R a \<Longrightarrow> keeps R (outcome a)" unfolding outcome_def by (intro keeps_intro)
qed

lemma keeps_config_load: "keeps R (config_load cx store)"
  unfolding config_load_def by (auto intro!: keeps_intro split: keeps_splits)

lemma keeps_run_in:
  "runs_keep R C ou \<Longrightarrow> C args \<Longrightarrow> keeps R (run_in pr (ou_engine ou) e cwd args)"
  unfolding run_in_def Let_def by (auto intro!: keeps_intro runs_keepI split: keeps_splits)

lemma keeps_engine_checks:
  assumes "runs_keep R query_command ou"
  shows "keeps R (engine_checks ou dx m)"
proof -
  have "keeps R (engine_version (ou_process ou) (ou_engine ou) e)"
    "keeps R (public_contract_seed (ou_process ou) (ou_engine ou) e)" for e
    unfolding engine_version_def public_contract_seed_def
    by (auto intro!: keeps_intro keeps_run_in[OF assms] keeps_run_json[OF assms] simp: query_command_def)
  then show ?thesis
    unfolding engine_checks_def Let_def
    by (auto intro!: keeps_intro keeps_config_load keeps_reads[OF runs_keep_queries[OF assms]] split: keeps_splits)
qed

lemma keeps_connection_checks [keeps_intro]: "keeps R (connection_checks pr dx project sites)"
proof (induction sites)
  case (Cons site sites)
  have "keeps R (inspect_owned_connection (dx_host dx) pr h s project)" for h s
    unfolding inspect_owned_connection_def plan_disconnect_def
    by (auto intro!: keeps_intro keeps_plan_disconnect split: change_action.split)
  with Cons show ?case by (cases site) (auto intro!: keeps_intro)
qed (simp add: keeps_ret)

lemma keeps_instruction_checks [keeps_intro]: "keeps R (instruction_checks pr dx project ts)"
  by (induction ts) (auto simp: plan_remove_def intro!: keeps_intro keeps_plan_remove)

lemma keeps_skill_checks [keeps_intro]: "keeps R (skill_checks pr dx project hs)"
  by (induction hs) (auto intro!: keeps_intro keeps_plan_remove split: sum.split)

lemma keeps_hook_checks [keeps_intro]: "keeps R (hook_checks pr dx project ss)"
proof (induction ss)
  case (Cons s ss)
  have "keeps R (settings_path pr s project)"
    unfolding settings_path_def by (auto intro!: keeps_intro split: scope.split)
  moreover have "keeps R (hook_plan_remove_at (dx_hook dx) s target False)" for target
    unfolding hook_plan_remove_at_def hook_remove_owned_def read_settings_files_def
    by (auto intro!: keeps_intro split: keeps_splits)
  ultimately show ?case using Cons by (auto intro!: keeps_intro split: sum.split)
qed (simp add: keeps_ret)

lemma keeps_run_doctor: "runs_keep R query_command ou \<Longrightarrow> keeps R (run_doctor ou dx m project)"
  unfolding run_doctor_def Let_def by (intro keeps_intro keeps_engine_checks)

end

section \<open>A diagnosis answers\<close>

text \<open>Nothing it asks for can make a diagnosis fail: every refusal is a check. Only a panic ends it.\<close>

definition only_panics :: "(manager_error, 'a) act \<Rightarrow> bool" where
  "only_panics a \<longleftrightarrow> (\<forall>w e. fst (a w) = Inl e \<longrightarrow> (\<exists>s. e = Panicked s))"

lemma only_panics_steps [no_fail]:
  "only_panics (ret x)"
  "only_panics a \<Longrightarrow> (\<And>x. only_panics (k x)) \<Longrightarrow> only_panics (bindA a k)"
  "only_panics (outcome b)"
proof -
  show "only_panics (ret x)" by (simp add: only_panics_def ret_def)
  show bind: "only_panics a \<Longrightarrow> (\<And>x. only_panics (k x)) \<Longrightarrow> only_panics (bindA a k)"
    for a :: "(manager_error, 'x) act" and k :: "'x \<Rightarrow> (manager_error, 'y) act"
    by (auto simp: only_panics_def bindA_def split: sum.splits prod.splits) (metis fst_conv)+
  have "only_panics (no_panic r)" for r :: "manager_error + 'z"
    by (cases r rule: no_panic.cases) (auto simp: only_panics_def ret_def throw_def)
  moreover have "only_panics (attempt b)"
    by (auto simp: only_panics_def attempt_def split: prod.split)
  ultimately show "only_panics (outcome b)" unfolding outcome_def by (intro bind)
qed

lemma only_panics_lists [no_fail]:
  "only_panics (connection_checks pr dx project sites)" "only_panics (instruction_checks pr dx project ts)"
  "only_panics (skill_checks pr dx project hs)" "only_panics (hook_checks pr dx project ss)"
proof -
  show "only_panics (connection_checks pr dx project sites)"
    by (induction pr dx project sites rule: connection_checks.induct) (auto intro!: no_fail)
  show "only_panics (instruction_checks pr dx project ts)" by (induction ts) (auto intro!: no_fail)
  show "only_panics (skill_checks pr dx project hs)" by (induction hs) (auto intro!: no_fail split: sum.split)
  show "only_panics (hook_checks pr dx project ss)" by (induction ss) (auto intro!: no_fail split: sum.split)
qed

lemma only_panics_engine [no_fail]: "only_panics (engine_checks ou dx m)"
  unfolding engine_checks_def Let_def by (auto intro!: no_fail split: sum.split)

lemma run_doctor_only_panics: "only_panics (run_doctor ou dx m project)"
  unfolding run_doctor_def Let_def by (intro no_fail)

section \<open>The checks of a report\<close>

lemma check_names [simp]:
  "dc_name (result_check dx n r) = n" "dc_name (managed_check dx n r') = n" "dc_name (connection_check dx n r'') = n"
  "dc_name (issue_check dx n e) = n" "dc_name (wiring_check h b) = wiring_name h"
  by (auto simp: result_check_def managed_check_def connection_check_def issue_check_def wiring_check_def
      split: sum.split option.split)

text \<open>What every value an action returns satisfies.\<close>

definition yields :: "('a \<Rightarrow> bool) \<Rightarrow> ('e, 'a) act \<Rightarrow> bool" where
  "yields P a \<longleftrightarrow> (\<forall>w x w'. a w = (Inr x, w') \<longrightarrow> P x)"

lemma yieldsD: "yields P a \<Longrightarrow> a w = (Inr x, w') \<Longrightarrow> P x"
  by (auto simp: yields_def)

lemma yields_ret: "P x \<Longrightarrow> yields P (ret x)"
  by (simp add: yields_def ret_def)

lemma yields_bind:
  "yields Q a \<Longrightarrow> (\<And>x. Q x \<Longrightarrow> yields P (k x)) \<Longrightarrow> yields P (bindA a k)"
  by (force simp: yields_def act_run)

lemma yields_after: "(\<And>x. yields P (k x)) \<Longrightarrow> yields P (bindA a k)"
  by (force simp: yields_def act_run)

abbreviation "named n \<equiv> (\<lambda>c. dc_name c = n)"
abbreviation "all_named ns \<equiv> (\<lambda>cs. map dc_name cs = ns)"

definition engine_names :: "bytes list" where
  "engine_names = [''engine.version'', ''engine.public_contract'', ''profiles'', ''profile.launch'']"

lemma engine_checks_names: "yields (all_named engine_names) (engine_checks ou dx m)"
proof -
  have step: "yields (all_named engine_names) (bindA a (\<lambda>launch. ret [result_check dx ''engine.version'' x,
      result_check dx ''engine.public_contract'' y, result_check dx ''profiles'' z, launch]))"
    if "yields (named ''profile.launch'') a" for a :: "(manager_error, doctor_check) act" and x y z
    by (rule yields_bind[OF that]) (simp add: yields_ret engine_names_def)
  show ?thesis
    unfolding engine_checks_def Let_def
    by (rule yields_after, rule yields_after, rule yields_after, rule yields_after, rule step)
      (auto intro!: yields_ret yields_after split: sum.split)
qed

lemma connection_checks_names:
  "yields (all_named (map (\<lambda>(h, s). connection_name h s) sites)) (connection_checks pr dx project sites)"
proof (induction pr dx project sites rule: connection_checks.induct)
  case (2 pr dx project h s sites)
  then show ?case by (auto intro!: yields_after yields_ret elim!: yields_bind)
qed (simp add: yields_ret)

lemma instruction_checks_names:
  "yields (all_named (map instruction_name ts)) (instruction_checks pr dx project ts)"
  by (induction ts) (auto intro!: yields_after yields_ret elim!: yields_bind)

lemma skill_checks_names: "yields (all_named (map skill_name hs)) (skill_checks pr dx project hs)"
proof (induction hs)
  case (Cons h hs)
  have step: "yields (all_named (map skill_name (h # hs)))
      (bindA a (\<lambda>c. bindA (skill_checks pr dx project hs) (\<lambda>checks. ret (c # checks))))"
    if "yields (named (skill_name h)) a" for a
    using that Cons by (auto intro!: yields_ret elim!: yields_bind)
  show ?case
    unfolding skill_checks.simps
    by (rule yields_after, rule step) (auto intro!: yields_ret yields_after split: sum.split)
qed (simp add: yields_ret)

lemma hook_checks_names: "yields (all_named (map hook_name ss)) (hook_checks pr dx project ss)"
proof (induction ss)
  case (Cons s ss)
  have step: "yields (all_named (map hook_name (s # ss)))
      (bindA a (\<lambda>c. bindA (hook_checks pr dx project ss) (\<lambda>checks. ret (c # checks))))"
    if "yields (named (hook_name s)) a" for a
    using that Cons by (auto intro!: yields_ret elim!: yields_bind)
  show ?case
    unfolding hook_checks.simps
    by (rule yields_after, rule step) (auto intro!: yields_ret yields_after split: sum.split)
qed (simp add: yields_ret)

section \<open>Coherence\<close>

lemma names_apart:
  "wiring_name h \<noteq> instruction_name t" "wiring_name h \<noteq> skill_name h'" "wiring_name h \<noteq> connection_name h' s"
  by (simp_all add: wiring_name_def instruction_name_def skill_name_def connection_name_def)

lemma coherence_sees_through:
  "told (checks @ [wiring_check h b]) = told checks" "wired (checks @ [wiring_check h b]) = wired checks"
  by (simp_all add: fun_eq_iff told_def wired_def is_managed_def names_apart)

lemma push_coherence_checks_eq:
  "push_coherence_checks hs checks =
   checks @ map (\<lambda>h. wiring_check h (wired checks h)) (filter (told checks) hs)"
  by (induction hs arbitrary: checks) (simp_all add: coherence_sees_through)

lemma wiring_check_status: "dc_status (wiring_check h b) = (if b then ''ok'' else ''issue'')"
  by (simp add: wiring_check_def)

lemma set_all_hosts: "set all_hosts = UNIV"
  by (auto simp: all_hosts_def intro: host.exhaust)

lemma coherent_status:
  "doctor_status (push_coherence_checks all_hosts checks) = ''ready'' \<longleftrightarrow>
   (\<forall>c. c \<in> set checks \<longrightarrow> dc_status c \<noteq> ''issue'') \<and> (\<forall>h. told checks h \<longrightarrow> wired checks h)"
proof -
  have "list_ex (\<lambda>c. dc_status c = ''issue'') (push_coherence_checks all_hosts checks) \<longleftrightarrow>
      list_ex (\<lambda>c. dc_status c = ''issue'') checks \<or> (\<exists>h. told checks h \<and> \<not> wired checks h)"
    by (auto simp: push_coherence_checks_eq list_ex_iff set_all_hosts wiring_check_status bex_Un)
  then show ?thesis by (auto simp: doctor_status_def list_ex_iff)
qed

text \<open>A report is twenty checks, and one more for every host an agent of which is told to use the vault.\<close>

definition doctor_names :: "bytes list" where
  "doctor_names = engine_names
     @ map (\<lambda>(h, s). connection_name h s) (List.product all_hosts [UserScope, ProjectScope])
     @ map instruction_name [Agents, Claude, Cursor] @ map skill_name [ClaudeCode, Codex, OpenCode]
     @ map hook_name [UserScope, ProjectScope]"

lemma run_doctor_report:
  assumes "run_doctor ou dx m project w = (Inr report, w')"
  obtains base where "map dc_name base = doctor_names"
    and "dr_checks report = base @ map (\<lambda>h. wiring_check h (wired base h)) (filter (told base) all_hosts)"
    and "dr_status report = doctor_status (push_coherence_checks all_hosts base)"
proof -
  from assms obtain e w1 c w2 i w3 s w4 h where
    "engine_checks ou dx m w = (Inr e, w1)"
    "connection_checks (ou_process ou) dx project (List.product all_hosts [UserScope, ProjectScope]) w1 = (Inr c, w2)"
    "instruction_checks (ou_process ou) dx project [Agents, Claude, Cursor] w2 = (Inr i, w3)"
    "skill_checks (ou_process ou) dx project [ClaudeCode, Codex, OpenCode] w3 = (Inr s, w4)"
    "hook_checks (ou_process ou) dx project [UserScope, ProjectScope] w4 = (Inr h, w')"
    and report: "report = (let checks = push_coherence_checks all_hosts (e @ c @ i @ s @ h) in
      \<lparr>dr_version = 1, dr_status = doctor_status checks, dr_offline = True, dr_redacted = True, dr_checks = checks\<rparr>)"
    by (auto simp: run_doctor_def Let_def act_run simp del: connection_checks.simps instruction_checks.simps
        skill_checks.simps hook_checks.simps)
  note names = yieldsD[OF engine_checks_names this(1)] yieldsD[OF connection_checks_names this(2)]
    yieldsD[OF instruction_checks_names this(3)] yieldsD[OF skill_checks_names this(4)]
    yieldsD[OF hook_checks_names this(5)]
  show ?thesis
  proof (rule that[of "e @ c @ i @ s @ h"])
    show "map dc_name (e @ c @ i @ s @ h) = doctor_names"
      by (simp only: map_append names doctor_names_def)
  qed (simp_all add: report push_coherence_checks_eq Let_def)
qed

section \<open>Calls that do not panic\<close>

lemma outcome_Inl: "a w = (Inl e, w') \<Longrightarrow> (\<forall>s. e \<noteq> Panicked s) \<Longrightarrow> outcome a w = (Inr (Inl e), w')"
  by (cases e) (simp_all add: outcome_def act_unfold)

lemma outcome_Inr: "a w = (Inr e, w') \<Longrightarrow> outcome a w = (Inr (Inr e), w')"
  by (simp add: outcome_def act_unfold)

definition no_panics :: "(manager_error, 'a) act \<Rightarrow> bool" where
  "no_panics a \<longleftrightarrow> (\<forall>w s. fst (a w) \<noteq> Inl (Panicked s))"

lemma no_panics_steps:
  "no_panics (ret x)" "(\<And>s. e \<noteq> Panicked s) \<Longrightarrow> no_panics (throw e)" "(\<And>s. r \<noteq> Inl (Panicked s)) \<Longrightarrow> no_panics (lift r)"
  "no_panics a \<Longrightarrow> (\<And>x. no_panics (k x)) \<Longrightarrow> no_panics (bindA a k)"
  "no_panics (map_err (Io op) b)" "no_panics (attempt c)"
  by (auto simp: no_panics_def act_unfold split: sum.split prod.split) (metis fst_conv)+

lemma never_fails_outcome: "no_panics a \<Longrightarrow> never_fails (outcome a)"
  unfolding never_fails_def
proof
  fix w assume "no_panics a"
  obtain r w' where "a w = (r, w')" by force
  with \<open>no_panics a\<close> have "\<And>s. r \<noteq> Inl (Panicked s)" unfolding no_panics_def by (metis fst_conv)
  with \<open>a w = (r, w')\<close> show "\<not> isl (fst (outcome a w))"
    by (cases r rule: no_panic.cases) (auto simp: outcome_def act_unfold)
qed

lemma no_panics_run_in: "no_panics (run_in pr eg e cwd args)"
  unfolding run_in_def Let_def by (auto intro!: no_panics_steps)

lemma no_panics_run_json: "no_panics (run_json pr eg e cwd d args)"
  unfolding run_json_def by (auto intro!: no_panics_steps no_panics_run_in split: option.split)

lemma no_panics_read_snapshot: "no_panics (read_snapshot sha p n t)"
  unfolding read_snapshot_def
  by (auto intro!: no_panics_steps split: sum.split node.split io_kind.split simp: validate_absolute_path_def)

end
