(* ===== verification/Demo_Doctor.thy ===== *)
theory Demo_Doctor
  imports Doctor_Correct Demo_Manager Demo_Host Demo_Hooks
begin

text \<open>A diagnosis run where neither the home nor the working directory can be found.\<close>

definition demo_lost :: outside where
  "demo_lost = demo_outside\<lparr>ou_process := demo_manager_process\<lparr>pr_cwd := Inl NotFound\<rparr>\<rparr>"

definition demo_dx :: doctor_ext where
  "demo_dx = \<lparr>dx_instr = demo_ext, dx_host = demo_hx, dx_hook = demo_kx, dx_message = \<lambda>_. []\<rparr>"

lemma demo_user_home: "user_home (ou_process demo_lost) w = (Inl (InvalidManagerConfig ''user home is unavailable''), w)"
  by (simp add: user_home_def demo_lost_def demo_manager_process_def var_nonempty_def throw_def)
lemma demo_project: "project_root (ou_process demo_lost) None w = (Inl (Io ''resolve project directory'' NotFound), w)"
  by (simp add: project_root_def demo_lost_def throw_def)

lemma lost_connections: "\<exists>cs. connection_checks (ou_process demo_lost) dx None sites w = (Inr cs, w)"
proof (induction sites)
  case (Cons site sites)
  have "outcome (inspect_owned_connection (dx_host dx) (ou_process demo_lost) h s None) w =
     (Inr (Inl (InvalidManagerConfig ''user home is unavailable'')), w)" for h s
    by (rule outcome_Inl) (simp_all add: inspect_owned_connection_def plan_disconnect_def bindA_def demo_user_home)
  with Cons show ?case by (cases site) (auto simp: bindA_def ret_def)
qed (simp add: ret_def)

lemma lost_instructions: "\<exists>cs. instruction_checks (ou_process demo_lost) dx None ts w = (Inr cs, w)"
proof (induction ts)
  case (Cons t ts)
  have "outcome (plan_remove (dx_instr dx) (ou_process demo_lost) t None None False) w =
     (Inr (Inl (Io ''resolve project directory'' NotFound)), w)"
    by (rule outcome_Inl) (simp_all add: plan_remove_def bindA_def demo_project)
  with Cons show ?case by (auto simp: bindA_def ret_def)
qed (simp add: ret_def)

lemma lost_skills: "\<exists>cs. skill_checks (ou_process demo_lost) dx None hs w = (Inr cs, w)"
proof (induction hs)
  case (Cons h hs)
  have "outcome (project_root (ou_process demo_lost) None) w =
     (Inr (Inl (Io ''resolve project directory'' NotFound)), w)"
    by (rule outcome_Inl) (simp_all add: demo_project)
  with Cons show ?case by (auto simp: bindA_def ret_def)
qed (simp add: ret_def)

lemma lost_hooks: "\<exists>cs. hook_checks (ou_process demo_lost) dx None ss w = (Inr cs, w)"
proof (induction ss)
  case (Cons s ss)
  have "\<exists>e. outcome (settings_path (ou_process demo_lost) s None) w = (Inr (Inl e), w)"
    by (cases s) (auto intro!: exI outcome_Inl simp: settings_path_def bindA_def demo_user_home demo_project)
  with Cons show ?case by (auto simp: bindA_def ret_def)
qed (simp add: ret_def)

lemma demo_engine_checks: "never_fails (engine_checks demo_lost dx m)"
proof -
  have "no_panics (engine_version pr eg e)" "no_panics (public_contract_seed pr eg e)" for pr eg e
    unfolding engine_version_def public_contract_seed_def
    by (auto intro!: no_panics_steps no_panics_run_in no_panics_run_json simp: version_text_def Let_def split: option.splits if_splits)
  moreover have "no_panics (engine_profile_list (ou_process demo_lost) (ou_engine demo_lost) e)" for e
    unfolding no_panics_def demo_lost_def
    by (simp add: engine_profile_list_def run_json_def run_in_def act_unfold demo_outside_def demo_engine_ext_def
      demo_engine_run_def max_engine_output_bytes_def profile_list_validate_def
      demo_listing_def profile_version_def)
  moreover have "no_panics (launch_profile demo_lost m n)" for n
    unfolding engine_profile_launch_def run_json_def
    by (auto intro!: no_panics_steps no_panics_run_in simp: demo_lost_def demo_outside_def demo_engine_ext_def validate_profile_name_def descriptor_validate_def
        split: if_splits)
  moreover have "no_panics (config_load (ou_config demo_lost) c)" for c
    unfolding config_load_def
    by (auto intro!: no_panics_steps no_panics_read_snapshot simp: demo_lost_def demo_outside_def split: option.split)
  ultimately show ?thesis
    unfolding engine_checks_def Let_def
    by (auto intro!: no_fail never_fails_outcome split: sum.split)
qed

text \<open>A project where Codex is connected and instructed, and every check before the last is fine.\<close>

definition demo_codex_only :: "doctor_check list" where
  "demo_codex_only =
     map (\<lambda>n. \<lparr>dc_name = n, dc_status = ''ok'', dc_detail = [],
               dc_managed = Some (n \<in> {instruction_name Agents, connection_name Codex ProjectScope})\<rparr>) doctor_names"

lemma demo_doctor_answers: "never_fails (run_doctor demo_lost demo_dx m None)"
proof -
  have "never_fails (connection_checks (ou_process demo_lost) dx None sites)"
    "never_fails (instruction_checks (ou_process demo_lost) dx None ts)"
    "never_fails (skill_checks (ou_process demo_lost) dx None hs)"
    "never_fails (hook_checks (ou_process demo_lost) dx None ss)" for dx sites ts hs ss
    using lost_connections lost_instructions lost_skills lost_hooks
    unfolding never_fails_def by (metis fst_conv sum.disc(2))+
  then show ?thesis
    unfolding run_doctor_def Let_def by (intro no_fail demo_engine_checks)
qed

end
