(* ===== verification/Doctor_Properties.thy ===== *)
theory Doctor_Properties
  imports Demo_Doctor
begin

text \<open>Properties of the diagnosis.\<close>

text \<open>C15. A diagnosis that does not panic answers with a report: the twenty checks, in order, then one wiring
  check for each host an agent of which is told to use the vault; and its verdict is \<open>ready\<close> exactly
  when none of the twenty has an issue and every host that is told is wired.
\<close>

theorem doctor_verdict:
  assumes "run_doctor ou dx m project w = (r, w')" and "\<And>s. r \<noteq> Inl (Panicked s)"
  shows "\<exists>report base. r = Inr report \<and> map dc_name base = doctor_names \<and>
    dr_checks report = base @ map (\<lambda>h. wiring_check h (wired base h)) (filter (told base) all_hosts) \<and>
    (dr_status report = ''ready'' \<longleftrightarrow>
      (\<forall>c. c \<in> set base \<longrightarrow> dc_status c \<noteq> ''issue'') \<and> (\<forall>h. told base h \<longrightarrow> wired base h))"
proof -
  obtain report where r: "r = Inr report"
  proof (cases r)
    case (Inl e)
    then have "\<exists>s. e = Panicked s"
      using run_doctor_only_panics[of ou dx m project] assms(1) unfolding only_panics_def by (metis fst_conv)
    with Inl assms(2) show ?thesis by auto
  qed
  with assms(1) have "run_doctor ou dx m project w = (Inr report, w')" by simp
  then obtain base where "map dc_name base = doctor_names"
    and "dr_checks report = base @ map (\<lambda>h. wiring_check h (wired base h)) (filter (told base) all_hosts)"
    and "dr_status report = doctor_status (push_coherence_checks all_hosts base)"
    by (rule run_doctor_report)
  with r coherent_status[of base] show ?thesis by auto
qed

theorem doctor_verdict_witness:
  "\<exists>report w'. run_doctor demo_lost demo_dx demo_the_manager None (demo_vault_world []) = (Inr report, w') \<and>
    20 \<le> length (dr_checks report) \<and> take 20 (map dc_name (dr_checks report)) = doctor_names"
proof -
  obtain report w' where run: "run_doctor demo_lost demo_dx demo_the_manager None (demo_vault_world []) = (Inr report, w')"
    using never_failsD[OF demo_doctor_answers] by blast
  obtain base where base: "map dc_name base = doctor_names"
    and checks: "dr_checks report = base @ map (\<lambda>h. wiring_check h (wired base h)) (filter (told base) all_hosts)"
    using doctor_verdict[OF run] by auto
  have twenty: "length doctor_names = 20" by (simp add: doctor_names_def engine_names_def all_hosts_def)
  then have "length base = 20" using base by (metis length_map)
  with run base checks twenty show ?thesis by simp
qed

text \<open>A diagnosis writes nothing, when the engine's answers to its four queries leave the tree alone.\<close>

theorem doctor_writes_nothing:
  assumes "runs_keep files_same query_command ou" and "run_doctor ou dx m project w = (r, w')"
  shows "files w' = files w"
  using keepsD[OF nothing.keeps_run_doctor[OF assms(1)] assms(2)] by (simp add: files_same_def)

theorem doctor_writes_nothing_witness:
  "files (snd (run_doctor demo_lost demo_dx demo_the_manager None (demo_vault_world [''work'']))) =
   files (demo_vault_world [''work''])"
proof (rule doctor_writes_nothing[OF _ prod.collapse[symmetric]])
  show "runs_keep files_same query_command demo_lost"
    using demo_runs_keep[OF nothing.state_preorder_axioms] by (simp add: runs_keep_def demo_lost_def)
qed

text \<open>Codex and OpenCode read the same \<^verbatim>\<open>AGENTS.md\<close>: as soon as its block is managed, a project that
  wires Codex alone is reported as broken, for OpenCode, and no report of it is ever \<open>ready\<close>.
\<close>

theorem shared_instructions_need_both_hosts:
  assumes "is_managed checks (instruction_name Agents)" and "\<not> wired checks OpenCode"
  shows "doctor_status (push_coherence_checks all_hosts checks) = ''issues'' \<and>
    wiring_check OpenCode False \<in> set (push_coherence_checks all_hosts checks)"
proof -
  have told: "told checks OpenCode" using assms(1) by (simp add: told_def)
  with assms(2) have "doctor_status (push_coherence_checks all_hosts checks) \<noteq> ''ready''"
    by (auto simp: coherent_status)
  then have "doctor_status (push_coherence_checks all_hosts checks) = ''issues''"
    by (simp add: doctor_status_def split: if_splits)
  moreover have "wiring_check OpenCode False \<in> set (push_coherence_checks all_hosts checks)"
    using told assms(2) set_all_hosts by (force simp: push_coherence_checks_eq)
  ultimately show ?thesis by simp
qed

theorem shared_instructions_need_both_hosts_witness:
  "list_all (\<lambda>c. dc_status c = ''ok'') demo_codex_only \<and> wired demo_codex_only Codex \<and>
   doctor_status (push_coherence_checks all_hosts demo_codex_only) = ''issues''"
proof -
  have agents: "is_managed demo_codex_only (instruction_name Agents)" "wired demo_codex_only Codex"
    "\<not> wired demo_codex_only OpenCode" "list_all (\<lambda>c. dc_status c = ''ok'') demo_codex_only"
    by (simp_all add: demo_codex_only_def is_managed_def wired_def doctor_names_def engine_names_def all_hosts_def
        connection_name_def instruction_name_def skill_name_def hook_name_def)
  then show ?thesis using shared_instructions_need_both_hosts[OF agents(1,3)] by simp
qed

end
