(* ===== verification/Account_Types.thy ===== *)
theory Account_Types
  imports World Json Profile_Model
begin

text \<open>
  The data of the account client: its errors (\<^verbatim>\<open>src/src/account/error.rs\<close>), bounded secrets
  (\<^verbatim>\<open>secret.rs\<close>), the public results (\<^verbatim>\<open>model.rs\<close>) and the wire types of \<^verbatim>\<open>protocol.rs\<close>,
  \<^verbatim>\<open>oidc.rs\<close> and \<^verbatim>\<open>store.rs\<close>. URLs and UUIDs belong to third-party crates: a URL is what its
  accessors return, a UUID its 128 bits. Every function of those crates and of serde, base64, SHA-256 and
  RSA is a field of the record \<open>account_ext\<close>.
\<close>

section \<open>Errors\<close>

datatype account_error =
    ProviderNotConfigured
  | InvalidConfiguration string
  | UnsafeRequest
  | Offline
  | DeadlineExceeded
  | Cancelled
  | AuthorizationDenied
  | DeviceAuthorizationExpired
  | RateLimited
  | InvalidResponse
  | OidcVerification
  | InvalidPkceCallback
  | RefreshReuseDetected
  | SessionRevoked
  | CredentialStoreUnavailable string
  | CredentialStoreFailure
  | AlreadySignedIn
  | NotSignedIn
  | RefreshLockUnavailable
  | RemoteRevocationUnconfirmed
  | InteractionUnavailable

section \<open>Third-party values\<close>

type_synonym uuid = "128 word"

datatype url_host = Domain bytes | Ipv4 nat | Ipv6 nat

record url =
  u_text :: bytes
  u_scheme :: bytes
  u_host :: "url_host option"
  u_username :: bytes
  u_password :: "bytes option"
  u_port :: "nat option"
  u_path :: bytes
  u_query :: "bytes option"
  u_fragment :: "bytes option"

text \<open>\<^verbatim>\<open>Url\<close> compares its serialization.\<close>

definition url_eq :: "url \<Rightarrow> url \<Rightarrow> bool" where
  "url_eq a b \<longleftrightarrow> u_text a = u_text b"

text \<open>\<^verbatim>\<open>Ipv4Addr::is_loopback\<close> is 127.0.0.0/8, \<^verbatim>\<open>Ipv6Addr::is_loopback\<close> is \<^verbatim>\<open>::1\<close>.\<close>

fun host_is_loopback :: "url_host option \<Rightarrow> bool" where
  "host_is_loopback (Some (Ipv4 a)) = (a div 2 ^ 24 = 127)"
| "host_is_loopback (Some (Ipv6 a)) = (a = 1)"
| "host_is_loopback _ = False"

definition u64_max :: nat where
  "u64_max = 2 ^ 64 - 1"

definition saturating_add :: "nat \<Rightarrow> nat \<Rightarrow> nat" where
  "saturating_add a b = min (a + b) u64_max"

text \<open>A \<^verbatim>\<open>Duration\<close> in nanoseconds.\<close>

type_synonym duration = nat

definition from_secs :: "nat \<Rightarrow> duration" where
  "from_secs s = s * 1000000000"

definition as_secs :: "duration \<Rightarrow> nat" where
  "as_secs d = d div 1000000000"

lemma as_secs_from_secs [simp]: "as_secs (from_secs s) = s"
  by (simp add: as_secs_def from_secs_def)

section \<open>Secrets\<close>

type_synonym secret = bytes

definition is_bounded_ascii :: "secret \<Rightarrow> bool" where
  "is_bounded_ascii s \<longleftrightarrow> 32 \<le> length s \<and> length s \<le> 4096 \<and> is_ascii s \<and> \<not> list_ex ascii_whitespace s"

section \<open>Public results\<close>

datatype logout_scope = CurrentSession | AllDevices

datatype local_logout_policy = RequireRemoteRevocation | ConfirmedLocalOnly

datatype account_state = SignedOut | Online | OfflineStale | Revoked

record account_status =
  as_state :: account_state
  as_account_id :: "uuid option"
  as_device_id :: "uuid option"
  as_stale :: bool

definition signed_out :: "account_state \<Rightarrow> account_status" where
  "signed_out state = \<lparr>as_state = state, as_account_id = None, as_device_id = None, as_stale = False\<rparr>"

record login_result =
  lr_status :: string
  lr_account_id :: uuid
  lr_device_id :: uuid

record logout_result =
  lo_status :: string
  lo_remote_revoked :: bool
  lo_local_credential_removed :: bool
  lo_warning :: "string option"

record link_result =
  lk_status :: string
  lk_verification_uri :: url
  lk_expires_at :: nat

record external_identity =
  ei_id :: uuid
  ei_issuer :: url
  ei_linked_at :: nat

datatype device_platform = Macos | Windows | Linux

record device_summary =
  ds_device_id :: uuid
  ds_label :: bytes
  ds_platform :: device_platform
  ds_created_at :: nat
  ds_last_seen_at :: nat
  ds_revoked :: bool

definition looks_like_absolute_path :: "bytes \<Rightarrow> bool" where
  "looks_like_absolute_path v \<longleftrightarrow>
     starts_with v ''/'' \<or> starts_with v ''~/'' \<or> starts_with v [CHR 0x5C, CHR 0x5C] \<or>
     (1 < length v \<and> v ! 1 = CHR '':'' \<and> 2 < length v \<and> v ! 2 \<in> {CHR ''/'', CHR 0x5C})"

record device_display =
  dd_product_name :: bytes
  dd_device_label :: bytes
  dd_platform :: device_platform
  dd_application_version :: bytes

definition device_display_validate :: "device_display \<Rightarrow> bool" where
  "device_display_validate d =
     list_all (\<lambda>v. v \<noteq> [] \<and> length v \<le> 100 \<and> \<not> has_control v \<and> \<not> looks_like_absolute_path v)
       [dd_product_name d, dd_device_label d, dd_application_version d]"

record device_prompt =
  dp_user_code :: bytes
  dp_verification_uri :: url
  dp_expires_at :: nat
  dp_interval_seconds :: nat
  dp_display :: device_display

section \<open>Wire types\<close>

record wire_response =
  wr_status :: nat
  wr_body :: bytes

record session_wire =
  sw_token_type :: bytes
  sw_access_token :: bytes
  sw_refresh_token :: bytes
  sw_id_token :: bytes
  sw_expires_in :: nat
  sw_account_id :: uuid
  sw_device_id :: uuid
  sw_token_family_id :: uuid
  sw_refresh_generation :: "64 word"

record device_authorization_wire =
  da_device_code :: bytes
  da_user_code :: bytes
  da_verification_uri :: url
  da_expires_at :: nat
  da_interval_seconds :: nat

record link_wire =
  lw_verification_uri :: url
  lw_expires_at :: nat

record discovery_document =
  dc_issuer :: url
  dc_authorization_endpoint :: url
  dc_jwks_uri :: url
  dc_algorithms :: "bytes list"

record rsa_jwk =
  jk_kty :: bytes
  jk_kid :: bytes
  jk_use :: "bytes option"
  jk_alg :: "bytes option"
  jk_n :: bytes
  jk_e :: bytes

record token_header =
  th_alg :: bytes
  th_kid :: bytes
  th_typ :: "bytes option"
  th_crit :: "bytes list option"

datatype audience_claim = AudOne bytes | AudMany "bytes list"

record token_claims =
  tc_iss :: bytes
  tc_aud :: audience_claim
  tc_azp :: "bytes option"
  tc_sub :: bytes
  tc_exp :: nat
  tc_iat :: nat
  tc_nonce :: "bytes option"

record stored_credential =
  sc_account_id :: uuid
  sc_device_id :: uuid
  sc_token_family_id :: uuid
  sc_refresh_generation :: "64 word"
  sc_issuer :: url
  sc_audience :: bytes
  sc_subject :: bytes
  sc_refresh_token :: secret

text \<open>\<^verbatim>\<open>CredentialWire\<close> is the credential with a version in front.\<close>

type_synonym credential_wire = "nat \<times> stored_credential"

section \<open>The outside\<close>

record account_ext =
  ax_uuid_print :: "uuid \<Rightarrow> bytes"
  ax_uuid_parse :: "bytes \<Rightarrow> uuid option"
  ax_origin :: "url \<Rightarrow> bytes"
  ax_join :: "url \<Rightarrow> bytes \<Rightarrow> url option"
  ax_url_parse :: "bytes \<Rightarrow> url option"
  ax_append_pairs :: "url \<Rightarrow> (bytes \<times> bytes) list \<Rightarrow> url"
  ax_query_pairs :: "url \<Rightarrow> (bytes \<times> bytes) list"
  ax_clear_query :: "url \<Rightarrow> url"
  ax_value :: "bytes \<Rightarrow> json option"
  ax_to_vec :: "json \<Rightarrow> bytes"
  ax_session :: "bytes \<Rightarrow> session_wire option"
  ax_device_authorization :: "bytes \<Rightarrow> device_authorization_wire option"
  ax_account :: "bytes \<Rightarrow> uuid option"
  ax_link :: "bytes \<Rightarrow> link_wire option"
  ax_identities :: "bytes \<Rightarrow> external_identity list option"
  ax_devices :: "bytes \<Rightarrow> device_summary list option"
  ax_error :: "bytes \<Rightarrow> bytes option"
  ax_discovery :: "bytes \<Rightarrow> discovery_document option"
  ax_jwks :: "bytes \<Rightarrow> rsa_jwk list option"
  ax_header :: "bytes \<Rightarrow> token_header option"
  ax_claims :: "bytes \<Rightarrow> token_claims option"
  ax_credential :: "bytes \<Rightarrow> credential_wire option"
  ax_credential_to_vec :: "credential_wire \<Rightarrow> bytes"
  ax_b64url :: "bytes \<Rightarrow> bytes"
  ax_b64url_decode :: "bytes \<Rightarrow> bytes option"
  ax_b64 :: "bytes \<Rightarrow> bytes"
  ax_b64_decode :: "bytes \<Rightarrow> bytes option"
  ax_sha256 :: "bytes \<Rightarrow> bytes"
  ax_rsa_key :: "bytes \<Rightarrow> bytes \<Rightarrow> bool"
  ax_rsa_verify :: "bytes \<Rightarrow> bytes \<Rightarrow> bytes \<Rightarrow> bytes \<Rightarrow> bytes \<Rightarrow> bool"

end
