(* ===== verification/Account_Protocol.thy ===== *)
theory Account_Protocol
  imports Account_Types
begin

text \<open>
  Requests of the account client (\<^verbatim>\<open>src/src/account/protocol.rs\<close>): the closed set of endpoints,
  the client's configuration, the requests with the guard that keeps local memory and local paths
  out of them, and the meaning of the answers.
\<close>

section \<open>Endpoints\<close>

datatype http_method = Delete | Get | Post

datatype authentication = PublicNativeClient | AccountAccessToken | ExternalIdentityLinkState

record route_spec =
  rs_operation_id :: string
  rs_method :: http_method
  rs_path :: bytes
  rs_authentication :: authentication

definition max_account_body_bytes :: nat where
  "max_account_body_bytes = 64 * 1024"

definition max_oidc_document_bytes :: nat where
  "max_oidc_document_bytes = 1024 * 1024"

definition route :: "string \<Rightarrow> http_method \<Rightarrow> bytes \<Rightarrow> authentication \<Rightarrow> route_spec" where
  "route op m p a = \<lparr>rs_operation_id = op, rs_method = m, rs_path = p, rs_authentication = a\<rparr>"

definition account_openapi_routes :: "route_spec list" where
  "account_openapi_routes =
     [route ''exchangePkceAuthorization'' Post ''/v1/login/pkce/exchange'' PublicNativeClient,
      route ''beginDeviceAuthorization'' Post ''/v1/device-authorizations'' PublicNativeClient,
      route ''pollDeviceAuthorization'' Post ''/v1/device-authorizations/token'' PublicNativeClient,
      route ''refreshTokenFamily'' Post ''/v1/token/refresh'' PublicNativeClient,
      route ''revokeTokenFamily'' Post ''/v1/token/revoke'' AccountAccessToken,
      route ''getAccount'' Get ''/v1/account'' AccountAccessToken,
      route ''beginExternalIdentityLink'' Post ''/v1/external-identities/link'' AccountAccessToken,
      route ''completeExternalIdentityLink'' Post ''/v1/external-identities/link/complete'' ExternalIdentityLinkState,
      route ''listExternalIdentities'' Get ''/v1/external-identities'' AccountAccessToken,
      route ''unlinkExternalIdentity'' Delete ''/v1/external-identities/{external_identity_id}'' AccountAccessToken,
      route ''listDevices'' Get ''/v1/devices'' AccountAccessToken,
      route ''revokeDevice'' Post ''/v1/devices/{device_id}/revoke'' AccountAccessToken,
      route ''listAuditEvents'' Get ''/v1/audit-events'' AccountAccessToken]"

datatype account_endpoint =
    ExchangePkce
  | BeginDeviceAuthorization
  | PollDeviceAuthorization
  | Refresh
  | RevokeTokenFamily
  | GetAccount
  | BeginExternalIdentityLink
  | CompleteExternalIdentityLink
  | ListExternalIdentities
  | UnlinkExternalIdentity uuid
  | ListDevices
  | RevokeDevice uuid
  | ListAuditEvents

fun endpoint_method :: "account_endpoint \<Rightarrow> http_method" where
  "endpoint_method GetAccount = Get"
| "endpoint_method ListExternalIdentities = Get"
| "endpoint_method ListDevices = Get"
| "endpoint_method ListAuditEvents = Get"
| "endpoint_method (UnlinkExternalIdentity _) = Delete"
| "endpoint_method _ = Post"

fun endpoint_authentication :: "account_endpoint \<Rightarrow> authentication" where
  "endpoint_authentication ExchangePkce = PublicNativeClient"
| "endpoint_authentication BeginDeviceAuthorization = PublicNativeClient"
| "endpoint_authentication PollDeviceAuthorization = PublicNativeClient"
| "endpoint_authentication Refresh = PublicNativeClient"
| "endpoint_authentication CompleteExternalIdentityLink = ExternalIdentityLinkState"
| "endpoint_authentication _ = AccountAccessToken"

fun endpoint_path :: "account_ext \<Rightarrow> account_endpoint \<Rightarrow> bytes" where
  "endpoint_path ax ExchangePkce = ''/v1/login/pkce/exchange''"
| "endpoint_path ax BeginDeviceAuthorization = ''/v1/device-authorizations''"
| "endpoint_path ax PollDeviceAuthorization = ''/v1/device-authorizations/token''"
| "endpoint_path ax Refresh = ''/v1/token/refresh''"
| "endpoint_path ax RevokeTokenFamily = ''/v1/token/revoke''"
| "endpoint_path ax GetAccount = ''/v1/account''"
| "endpoint_path ax BeginExternalIdentityLink = ''/v1/external-identities/link''"
| "endpoint_path ax CompleteExternalIdentityLink = ''/v1/external-identities/link/complete''"
| "endpoint_path ax ListExternalIdentities = ''/v1/external-identities''"
| "endpoint_path ax (UnlinkExternalIdentity i) = ''/v1/external-identities/'' @ ax_uuid_print ax i"
| "endpoint_path ax ListDevices = ''/v1/devices''"
| "endpoint_path ax (RevokeDevice i) = ''/v1/devices/'' @ ax_uuid_print ax i @ ''/revoke''"
| "endpoint_path ax ListAuditEvents = ''/v1/audit-events''"

fun endpoint_operation_id :: "account_endpoint \<Rightarrow> string" where
  "endpoint_operation_id ExchangePkce = ''exchangePkceAuthorization''"
| "endpoint_operation_id BeginDeviceAuthorization = ''beginDeviceAuthorization''"
| "endpoint_operation_id PollDeviceAuthorization = ''pollDeviceAuthorization''"
| "endpoint_operation_id Refresh = ''refreshTokenFamily''"
| "endpoint_operation_id RevokeTokenFamily = ''revokeTokenFamily''"
| "endpoint_operation_id GetAccount = ''getAccount''"
| "endpoint_operation_id BeginExternalIdentityLink = ''beginExternalIdentityLink''"
| "endpoint_operation_id CompleteExternalIdentityLink = ''completeExternalIdentityLink''"
| "endpoint_operation_id ListExternalIdentities = ''listExternalIdentities''"
| "endpoint_operation_id (UnlinkExternalIdentity _) = ''unlinkExternalIdentity''"
| "endpoint_operation_id ListDevices = ''listDevices''"
| "endpoint_operation_id (RevokeDevice _) = ''revokeDevice''"
| "endpoint_operation_id ListAuditEvents = ''listAuditEvents''"

definition fixed_endpoint :: "http_method \<Rightarrow> bytes \<Rightarrow> account_endpoint option" where
  "fixed_endpoint m p =
     (if m = Post \<and> p = ''/v1/login/pkce/exchange'' then Some ExchangePkce
      else if m = Post \<and> p = ''/v1/device-authorizations'' then Some BeginDeviceAuthorization
      else if m = Post \<and> p = ''/v1/device-authorizations/token'' then Some PollDeviceAuthorization
      else if m = Post \<and> p = ''/v1/token/refresh'' then Some Refresh
      else if m = Post \<and> p = ''/v1/token/revoke'' then Some RevokeTokenFamily
      else if m = Get \<and> p = ''/v1/account'' then Some GetAccount
      else if m = Post \<and> p = ''/v1/external-identities/link'' then Some BeginExternalIdentityLink
      else if m = Post \<and> p = ''/v1/external-identities/link/complete'' then Some CompleteExternalIdentityLink
      else if m = Get \<and> p = ''/v1/external-identities'' then Some ListExternalIdentities
      else if m = Get \<and> p = ''/v1/devices'' then Some ListDevices
      else if m = Get \<and> p = ''/v1/audit-events'' then Some ListAuditEvents
      else None)"

definition endpoint_id :: "account_ext \<Rightarrow> (uuid \<Rightarrow> account_endpoint) \<Rightarrow> bytes \<Rightarrow> account_error + account_endpoint" where
  "endpoint_id ax f s = (case ax_uuid_parse ax s of None \<Rightarrow> Inl UnsafeRequest | Some i \<Rightarrow> Inr (f i))"

definition parse_endpoint :: "account_ext \<Rightarrow> http_method \<Rightarrow> bytes \<Rightarrow> account_error + account_endpoint" where
  "parse_endpoint ax m p =
     (case fixed_endpoint m p of
        Some e \<Rightarrow> Inr e
      | None \<Rightarrow>
          (case (if m = Delete then strip_prefix p ''/v1/external-identities/'' else None) of
             Some s \<Rightarrow> endpoint_id ax UnlinkExternalIdentity s
           | None \<Rightarrow>
               (case (if m = Post
                      then Option.bind (strip_prefix p ''/v1/devices/'') (\<lambda>v. strip_suffix v ''/revoke'')
                      else None) of
                  Some s \<Rightarrow> endpoint_id ax RevokeDevice s
                | None \<Rightarrow> Inl UnsafeRequest)))"

section \<open>Configuration\<close>

record account_config =
  ac_control_plane_origin :: url
  ac_issuer :: url
  ac_audience :: bytes
  ac_public_client_id :: bytes
  ac_loopback_callback_path :: bytes
  ac_request_timeout :: duration
  ac_interactive_timeout :: duration
  ac_device_timeout :: duration
  ac_allowed_oidc_origins :: "bytes set"

definition validate_https_url :: "url \<Rightarrow> bool \<Rightarrow> account_error + unit" where
  "validate_https_url u allow_query =
     (if u_scheme u \<noteq> ''https'' \<or> u_host u = None \<or> u_username u \<noteq> [] \<or> u_password u \<noteq> None
         \<or> (\<not> allow_query \<and> u_query u \<noteq> None) \<or> u_fragment u \<noteq> None
      then Inl (InvalidConfiguration ''account and OIDC endpoints require credential-free HTTPS URLs'')
      else Inr ())"

definition origin_key :: "account_ext \<Rightarrow> url \<Rightarrow> account_error + bytes" where
  "origin_key ax u = bindR (validate_https_url u True) (\<lambda>_. Inr (ax_origin ax u))"

definition valid_identifier :: "bytes \<Rightarrow> bool" where
  "valid_identifier s \<longleftrightarrow> s \<noteq> [] \<and> length s \<le> 200 \<and> is_ascii s \<and> \<not> list_ex ascii_whitespace s"

definition valid_callback_path :: "bytes \<Rightarrow> bool" where
  "valid_callback_path p \<longleftrightarrow>
     starts_with p ''/'' \<and> length p \<le> 120 \<and> \<not> list_ex (\<lambda>c. c = CHR ''?'' \<or> c = CHR ''#'') p
     \<and> \<not> str_contains p ''..''"

definition account_config_validate :: "account_ext \<Rightarrow> account_config \<Rightarrow> account_error + unit" where
  "account_config_validate ax cfg =
     bindR (validate_https_url (ac_control_plane_origin cfg) False) (\<lambda>_.
     if u_path (ac_control_plane_origin cfg) \<noteq> ''/'' \<or> u_query (ac_control_plane_origin cfg) \<noteq> None
        \<or> u_fragment (ac_control_plane_origin cfg) \<noteq> None
     then Inl (InvalidConfiguration ''control-plane origin must not contain a path, query, or fragment'')
     else
       bindR (validate_https_url (ac_issuer cfg) False) (\<lambda>_.
       if u_query (ac_issuer cfg) \<noteq> None \<or> u_fragment (ac_issuer cfg) \<noteq> None
       then Inl (InvalidConfiguration ''issuer must not contain a query or fragment'')
       else if \<not> valid_identifier (ac_audience cfg) \<or> \<not> valid_identifier (ac_public_client_id cfg)
       then Inl (InvalidConfiguration ''audience and client id must be bounded ASCII identifiers'')
       else if \<not> valid_callback_path (ac_loopback_callback_path cfg)
       then Inl (InvalidConfiguration ''loopback callback path is invalid'')
       else if \<not> (from_secs 1 \<le> ac_request_timeout cfg \<and> ac_request_timeout cfg \<le> from_secs 60)
            \<or> \<not> (from_secs 30 \<le> ac_interactive_timeout cfg \<and> ac_interactive_timeout cfg \<le> from_secs 900)
            \<or> \<not> (from_secs 30 \<le> ac_device_timeout cfg \<and> ac_device_timeout cfg \<le> from_secs 900)
       then Inl (InvalidConfiguration ''account deadlines are outside the closed bounds'')
       else
         bindR (origin_key ax (ac_issuer cfg)) (\<lambda>key.
         if key \<notin> ac_allowed_oidc_origins cfg
         then Inl (InvalidConfiguration ''issuer origin must be explicitly allowlisted'')
         else Inr ())))"

definition account_config_new ::
    "account_ext \<Rightarrow> url \<Rightarrow> url \<Rightarrow> bytes \<Rightarrow> bytes \<Rightarrow> bytes \<Rightarrow> account_error + account_config" where
  "account_config_new ax origin issuer audience client_id callback_path =
     bindR (origin_key ax issuer) (\<lambda>issuer_origin.
     let cfg = \<lparr>ac_control_plane_origin = origin, ac_issuer = issuer, ac_audience = audience,
                ac_public_client_id = client_id, ac_loopback_callback_path = callback_path,
                ac_request_timeout = from_secs 15, ac_interactive_timeout = from_secs 300,
                ac_device_timeout = from_secs 600, ac_allowed_oidc_origins = {issuer_origin}\<rparr>
     in bindR (account_config_validate ax cfg) (\<lambda>_. Inr cfg))"

definition allow_oidc_origin :: "account_ext \<Rightarrow> account_config \<Rightarrow> url \<Rightarrow> account_error + account_config" where
  "allow_oidc_origin ax cfg origin =
     bindR (origin_key ax origin) (\<lambda>key.
     let cfg' = cfg\<lparr>ac_allowed_oidc_origins := insert key (ac_allowed_oidc_origins cfg)\<rparr>
     in bindR (account_config_validate ax cfg') (\<lambda>_. Inr cfg'))"

definition validate_oidc_url :: "account_ext \<Rightarrow> account_config \<Rightarrow> url \<Rightarrow> bool \<Rightarrow> account_error + unit" where
  "validate_oidc_url ax cfg u allow_query =
     bindR (validate_https_url u allow_query) (\<lambda>_.
     bindR (origin_key ax u) (\<lambda>key.
     if key \<notin> ac_allowed_oidc_origins cfg
     then Inl (InvalidConfiguration ''OIDC endpoint origin is not allowlisted'') else Inr ()))"

definition account_url :: "account_ext \<Rightarrow> account_config \<Rightarrow> account_endpoint \<Rightarrow> account_error + url" where
  "account_url ax cfg e =
     (case ax_join ax (ac_control_plane_origin cfg) (endpoint_path ax e) of
        None \<Rightarrow> Inl (InvalidConfiguration ''account endpoint URL is invalid'') | Some u \<Rightarrow> Inr u)"

definition validate_first_party_verification_url :: "account_ext \<Rightarrow> account_config \<Rightarrow> url \<Rightarrow> account_error + unit" where
  "validate_first_party_verification_url ax cfg u =
     bindR (validate_https_url u True) (\<lambda>_.
     bindR (origin_key ax u) (\<lambda>a.
     bindR (origin_key ax (ac_control_plane_origin cfg)) (\<lambda>b.
     if a \<noteq> b then Inl InvalidResponse else Inr ())))"

section \<open>The privacy guard\<close>

definition forbidden_keys :: "bytes list" where
  "forbidden_keys =
     [''compiledcontext'', ''context'', ''journal'', ''localpath'', ''memory'', ''memoryid'',
      ''modelprovidertoken'', ''ontology'', ''principal'', ''principalid'', ''profile'', ''profileid'',
      ''prompt'', ''query'', ''remember'', ''root'', ''search'', ''searchquery'', ''semanticdelta'',
      ''semanticentity'', ''semanticfact'', ''semanticfacts'', ''toolpayload'', ''vault'', ''vaultfile'',
      ''workspace'', ''workspaceid'']"

definition normalized_key :: "bytes \<Rightarrow> bytes" where
  "normalized_key k = map ascii_lower (filter ascii_alnum k)"

text \<open>Every refusal is the same error, so the traversal is a conjunction.\<close>

fun account_value_safe :: "json \<Rightarrow> bool" where
  "account_value_safe (JObj fs) =
     list_all (\<lambda>(k, v). normalized_key k \<notin> set forbidden_keys \<and> account_value_safe v) fs"
| "account_value_safe (JArr vs) = list_all account_value_safe vs"
| "account_value_safe (JStr s) = (\<not> looks_like_absolute_path s)"
| "account_value_safe JNull = True"
| "account_value_safe (JBool _) = True"
| "account_value_safe (JNum _) = True"

definition validate_account_payload :: "account_ext \<Rightarrow> bytes \<Rightarrow> account_error + unit" where
  "validate_account_payload ax b =
     (if length b > max_account_body_bytes then Inl UnsafeRequest
      else case ax_value ax b of
        None \<Rightarrow> Inl UnsafeRequest
      | Some v \<Rightarrow> if account_value_safe v then Inr () else Inl UnsafeRequest)"

definition validate_provider :: "bytes \<Rightarrow> account_error + unit" where
  "validate_provider p =
     (if p = [] \<or> length p > 64 \<or> \<not> is_ascii p
         \<or> \<not> list_all (\<lambda>c. ascii_alnum c \<or> c \<in> {CHR ''-'', CHR ''_'', CHR ''.''}) p
      then Inl UnsafeRequest else Inr ())"

section \<open>Requests\<close>

record wire_request =
  wq_endpoint :: account_endpoint
  wq_access_token :: "secret option"
  wq_body :: bytes

definition wire_request_validate :: "account_ext \<Rightarrow> wire_request \<Rightarrow> account_error + unit" where
  "wire_request_validate ax r =
     bindR (parse_endpoint ax (endpoint_method (wq_endpoint r)) (endpoint_path ax (wq_endpoint r))) (\<lambda>reparsed.
     if reparsed \<noteq> wq_endpoint r
        \<or> (endpoint_authentication (wq_endpoint r) = AccountAccessToken) \<noteq> (wq_access_token r \<noteq> None)
        \<or> (case wq_access_token r of None \<Rightarrow> False | Some t \<Rightarrow> \<not> is_bounded_ascii t)
        \<or> length (wq_body r) > max_account_body_bytes
     then Inl UnsafeRequest
     else if wq_body r \<noteq> [] then validate_account_payload ax (wq_body r) else Inr ())"

definition request_of :: "account_ext \<Rightarrow> account_endpoint \<Rightarrow> secret option \<Rightarrow> bytes \<Rightarrow> account_error + wire_request" where
  "request_of ax e token body =
     (let r = \<lparr>wq_endpoint = e, wq_access_token = token, wq_body = body\<rparr>
      in bindR (wire_request_validate ax r) (\<lambda>_. Inr r))"

definition request_json :: "account_ext \<Rightarrow> account_endpoint \<Rightarrow> secret option \<Rightarrow> json \<Rightarrow> account_error + wire_request" where
  "request_json ax e token v = request_of ax e token (ax_to_vec ax v)"

definition account_empty :: "account_ext \<Rightarrow> account_endpoint \<Rightarrow> secret \<Rightarrow> account_error + wire_request" where
  "account_empty ax e token = request_of ax e (Some token) []"

fun platform_str :: "device_platform \<Rightarrow> bytes" where
  "platform_str Macos = ''macos''"
| "platform_str Windows = ''windows''"
| "platform_str Linux = ''linux''"

definition device_wire :: "device_display \<Rightarrow> json" where
  "device_wire d =
     JObj [(''product_name'', JStr (dd_product_name d)), (''device_label'', JStr (dd_device_label d)),
           (''platform'', JStr (platform_str (dd_platform d))),
           (''application_version'', JStr (dd_application_version d))]"

definition exchange_pkce_request ::
    "account_ext \<Rightarrow> bytes \<Rightarrow> secret \<Rightarrow> secret \<Rightarrow> url \<Rightarrow> secret \<Rightarrow> device_display \<Rightarrow> account_error + wire_request" where
  "exchange_pkce_request ax client_id code verifier redirect nonce display =
     request_json ax ExchangePkce None
       (JObj [(''client_id'', JStr client_id), (''code'', JStr code), (''code_verifier'', JStr verifier),
              (''redirect_uri'', JStr (u_text redirect)), (''nonce'', JStr nonce), (''device'', device_wire display)])"

definition begin_device_request ::
    "account_ext \<Rightarrow> bytes \<Rightarrow> secret \<Rightarrow> device_display \<Rightarrow> account_error + wire_request" where
  "begin_device_request ax client_id nonce display =
     request_json ax BeginDeviceAuthorization None
       (JObj [(''client_id'', JStr client_id), (''nonce'', JStr nonce), (''device'', device_wire display)])"

definition poll_device_request :: "account_ext \<Rightarrow> bytes \<Rightarrow> secret \<Rightarrow> account_error + wire_request" where
  "poll_device_request ax client_id device_code =
     request_json ax PollDeviceAuthorization None
       (JObj [(''client_id'', JStr client_id), (''device_code'', JStr device_code)])"

definition refresh_request :: "account_ext \<Rightarrow> bytes \<Rightarrow> secret \<Rightarrow> secret \<Rightarrow> account_error + wire_request" where
  "refresh_request ax client_id refresh_token nonce =
     request_json ax Refresh None
       (JObj [(''client_id'', JStr client_id), (''refresh_token'', JStr refresh_token), (''nonce'', JStr nonce)])"

definition revoke_request :: "account_ext \<Rightarrow> secret \<Rightarrow> account_error + wire_request" where
  "revoke_request ax token = request_json ax RevokeTokenFamily (Some token) (JObj [])"

definition get_account_request :: "account_ext \<Rightarrow> secret \<Rightarrow> account_error + wire_request" where
  "get_account_request ax token = account_empty ax GetAccount token"

definition begin_link_request :: "account_ext \<Rightarrow> secret \<Rightarrow> bytes \<Rightarrow> account_error + wire_request" where
  "begin_link_request ax token provider =
     bindR (validate_provider provider) (\<lambda>_.
     request_json ax BeginExternalIdentityLink (Some token) (JObj [(''provider'', JStr provider)]))"

definition unlink_request :: "account_ext \<Rightarrow> secret \<Rightarrow> uuid \<Rightarrow> account_error + wire_request" where
  "unlink_request ax token i = account_empty ax (UnlinkExternalIdentity i) token"

definition list_external_identities_request :: "account_ext \<Rightarrow> secret \<Rightarrow> account_error + wire_request" where
  "list_external_identities_request ax token = account_empty ax ListExternalIdentities token"

definition list_devices_request :: "account_ext \<Rightarrow> secret \<Rightarrow> account_error + wire_request" where
  "list_devices_request ax token = account_empty ax ListDevices token"

definition revoke_device_request :: "account_ext \<Rightarrow> secret \<Rightarrow> uuid \<Rightarrow> account_error + wire_request" where
  "revoke_device_request ax token i = request_json ax (RevokeDevice i) (Some token) (JObj [])"

section \<open>Answers\<close>

definition wire_response_new :: "nat \<Rightarrow> bytes \<Rightarrow> account_error + wire_response" where
  "wire_response_new status body =
     (if length body > max_oidc_document_bytes then Inl InvalidResponse
      else Inr \<lparr>wr_status = status, wr_body = body\<rparr>)"

definition map_error_response :: "account_ext \<Rightarrow> wire_response \<Rightarrow> account_error" where
  "map_error_response ax r =
     (if wr_status r = 429 then RateLimited
      else
        let code = ax_error ax (wr_body r) in
        if code = Some ''authorization_pending'' \<or> code = Some ''slow_down'' then InvalidResponse
        else if code = Some ''access_denied'' then AuthorizationDenied
        else if code = Some ''expired_token'' then DeviceAuthorizationExpired
        else if code = Some ''cancelled'' then Cancelled
        else if code = Some ''token_reuse'' then RefreshReuseDetected
        else if code = Some ''invalid_grant'' \<or> code = Some ''session_revoked'' then SessionRevoked
        else if wr_status r \<ge> 500 then Offline
        else InvalidResponse)"

definition parse_success ::
    "account_ext \<Rightarrow> (bytes \<Rightarrow> 'a option) \<Rightarrow> wire_response \<Rightarrow> nat \<Rightarrow> account_error + 'a" where
  "parse_success ax decode r expected =
     (if wr_status r \<noteq> expected \<or> length (wr_body r) > max_account_body_bytes then Inl (map_error_response ax r)
      else case decode (wr_body r) of None \<Rightarrow> Inl InvalidResponse | Some x \<Rightarrow> Inr x)"

definition expect_empty_success :: "account_ext \<Rightarrow> wire_response \<Rightarrow> nat \<Rightarrow> account_error + unit" where
  "expect_empty_success ax r expected =
     (if wr_status r = expected \<and> (wr_body r = [] \<or> ax_value ax (wr_body r) = Some JNull) then Inr ()
      else Inl (map_error_response ax r))"

datatype device_poll_error = PollPending | PollSlowDown | PollDenied | PollExpired | PollCancelled

definition device_poll_error :: "account_ext \<Rightarrow> wire_response \<Rightarrow> account_error + device_poll_error" where
  "device_poll_error ax r =
     (if wr_status r \<noteq> 400 then Inl (map_error_response ax r)
      else case ax_error ax (wr_body r) of
        None \<Rightarrow> Inl InvalidResponse
      | Some e \<Rightarrow>
          if e = ''authorization_pending'' then Inr PollPending
          else if e = ''slow_down'' then Inr PollSlowDown
          else if e = ''access_denied'' then Inr PollDenied
          else if e = ''expired_token'' then Inr PollExpired
          else if e = ''cancelled'' then Inr PollCancelled
          else Inl InvalidResponse)"

definition pkce_challenge :: "account_ext \<Rightarrow> secret \<Rightarrow> bytes" where
  "pkce_challenge ax verifier = ax_b64url ax (ax_sha256 ax verifier)"

definition build_authorization_url ::
    "account_ext \<Rightarrow> url \<Rightarrow> bytes \<Rightarrow> url \<Rightarrow> secret \<Rightarrow> secret \<Rightarrow> bytes \<Rightarrow> url" where
  "build_authorization_url ax endpoint client_id redirect state nonce challenge =
     ax_append_pairs ax endpoint
       [(''client_id'', client_id), (''response_type'', ''code''), (''redirect_uri'', u_text redirect),
        (''scope'', ''openid profile''), (''state'', state), (''nonce'', nonce),
        (''code_challenge'', challenge), (''code_challenge_method'', ''S256'')]"

end
