(* ===== verification/Account_World.thy ===== *)
theory Account_World
  imports Account_Protocol
begin

text \<open>
  What the account client runs on: the clock, randomness and cancellation (\<^verbatim>\<open>runtime.rs\<close>), the
  transport (the trait of \<^verbatim>\<open>protocol.rs\<close>), the credential store and the refresh lock
  (\<^verbatim>\<open>src/src/account/store.rs\<close>, the Secret Service of Linux). Everything the outside decides, the
  answers of the servers, the time a call takes, a failing or busy service, is a function of the number
  of calls made so far, so a statement about all worlds is one about every behaviour of the outside.
  The requests sent, with their deadlines and answers, and the sleeps are recorded.
\<close>

section \<open>The world\<close>

datatype oidc_document = Discovery | Jwks

record account_world =
  aw_keyring :: "bytes option"
  aw_locked :: bool
  aw_now :: nat
  aw_calls :: nat
  aw_sent :: "(wire_request \<times> nat \<times> (account_error + wire_response)) list"
  aw_slept :: "duration list"
  aw_delay :: "nat \<Rightarrow> nat"
  aw_random :: "nat \<Rightarrow> account_error + bytes"
  aw_cancelled :: "nat \<Rightarrow> bool"
  aw_keyring_down :: "nat \<Rightarrow> bool"
  aw_lock_busy :: "nat \<Rightarrow> bool"
  aw_reply :: "nat \<Rightarrow> wire_request \<Rightarrow> account_error + wire_response"
  aw_document :: "nat \<Rightarrow> oidc_document \<Rightarrow> url \<Rightarrow> account_error + wire_response"

type_synonym 'a client = "(account_world, account_error, 'a) action"

definition tick :: "account_world \<Rightarrow> account_world" where
  "tick w = w\<lparr>aw_calls := Suc (aw_calls w), aw_now := aw_now w + aw_delay w (aw_calls w)\<rparr>"

section \<open>Runtime\<close>

definition now_unix :: "nat client" where
  "now_unix w = (Inr (aw_now (tick w)), tick w)"

definition cancelled :: "bool client" where
  "cancelled w = (Inr (aw_cancelled w (aw_calls w)), tick w)"

definition sleep :: "duration \<Rightarrow> unit client" where
  "sleep d w = (let w' = tick w in (Inr (), w'\<lparr>aw_now := aw_now w' + as_secs d, aw_slept := aw_slept w' @ [d]\<rparr>))"

definition fill_random :: "bytes client" where
  "fill_random w = (aw_random w (aw_calls w), tick w)"

definition fresh_secret :: "account_ext \<Rightarrow> secret client" where
  "fresh_secret ax = bindA fill_random (\<lambda>b. ret (ax_b64url ax b))"

record pkce_callback =
  pc_redirect_uri :: url
  pc_code :: secret
  pc_state :: secret

text \<open>The three values of the query that count; a repeated one is refused.\<close>

fun callback_slots ::
    "(bytes \<times> bytes) list \<Rightarrow> bytes option \<times> bytes option \<times> bytes option
     \<Rightarrow> account_error + bytes option \<times> bytes option \<times> bytes option" where
  "callback_slots [] slots = Inr slots"
| "callback_slots ((k, v) # kvs) (code, state, error) =
     (if k = ''code'' then
        if code \<noteq> None then Inl InvalidPkceCallback else callback_slots kvs (Some v, state, error)
      else if k = ''state'' then
        if state \<noteq> None then Inl InvalidPkceCallback else callback_slots kvs (code, Some v, error)
      else if k = ''error'' then
        if error \<noteq> None then Inl InvalidPkceCallback else callback_slots kvs (code, state, Some v)
      else callback_slots kvs (code, state, error))"

definition first_crlf_line :: "bytes \<Rightarrow> bytes" where
  "first_crlf_line s = (case str_find [CHR 0x0D, CHR 0x0A] s of None \<Rightarrow> s | Some i \<Rightarrow> take i s)"

definition callback_target :: "bytes \<Rightarrow> account_error + bytes" where
  "callback_target b =
     (if \<not> utf8_valid b then Inl InvalidPkceCallback
      else case split_at_char (CHR '' '') (first_crlf_line b) of
        [m, target, version] \<Rightarrow>
          if m \<noteq> ''GET'' \<or> version \<noteq> ''HTTP/1.1'' \<or> \<not> starts_with target ''/''
          then Inl InvalidPkceCallback else Inr target
      | _ \<Rightarrow> Inl InvalidPkceCallback)"

definition parse_callback_request :: "account_ext \<Rightarrow> bytes \<Rightarrow> bytes \<Rightarrow> account_error + pkce_callback" where
  "parse_callback_request ax b listener_address =
     bindR (callback_target b) (\<lambda>target.
     case ax_url_parse ax (''http://'' @ listener_address @ target) of
       None \<Rightarrow> Inl InvalidPkceCallback
     | Some parsed \<Rightarrow>
         if u_fragment parsed \<noteq> None then Inl InvalidPkceCallback
         else
           bindR (callback_slots (ax_query_pairs ax parsed) (None, None, None)) (\<lambda>(code, state, error).
           if error = Some ''access_denied'' \<and> code = None then Inl AuthorizationDenied
           else
             case (error, code, state) of
               (None, Some c, Some s) \<Rightarrow>
                 Inr \<lparr>pc_redirect_uri = ax_clear_query ax parsed, pc_code = c, pc_state = s\<rparr>
             | _ \<Rightarrow> Inl InvalidPkceCallback))"

section \<open>Transport\<close>

definition send :: "wire_request \<Rightarrow> nat \<Rightarrow> wire_response client" where
  "send r deadline w =
     (let reply = aw_reply w (aw_calls w) r
      in (reply, (tick w)\<lparr>aw_sent := aw_sent w @ [(r, deadline, reply)]\<rparr>))"

definition get_oidc_document :: "oidc_document \<Rightarrow> url \<Rightarrow> nat \<Rightarrow> wire_response client" where
  "get_oidc_document kind u deadline w = (aw_document w (aw_calls w) kind u, tick w)"

section \<open>Credentials\<close>

definition credential_validate :: "stored_credential \<Rightarrow> account_error + unit" where
  "credential_validate c =
     (let u = sc_issuer c in
      if u_scheme u \<noteq> ''https'' \<or> u_host u = None \<or> u_username u \<noteq> [] \<or> u_password u \<noteq> None
         \<or> u_query u \<noteq> None \<or> u_fragment u \<noteq> None
         \<or> sc_audience c = [] \<or> length (sc_audience c) > 200 \<or> \<not> is_ascii (sc_audience c)
         \<or> sc_subject c = [] \<or> length (sc_subject c) > 512 \<or> has_control (sc_subject c)
         \<or> \<not> is_bounded_ascii (sc_refresh_token c)
      then Inl CredentialStoreFailure else Inr ())"

definition credential_new ::
    "uuid \<Rightarrow> uuid \<Rightarrow> uuid \<Rightarrow> 64 word \<Rightarrow> url \<Rightarrow> bytes \<Rightarrow> bytes \<Rightarrow> secret \<Rightarrow> account_error + stored_credential" where
  "credential_new account_id device_id family_id generation issuer audience subject token =
     (let c = \<lparr>sc_account_id = account_id, sc_device_id = device_id, sc_token_family_id = family_id,
               sc_refresh_generation = generation, sc_issuer = issuer, sc_audience = audience,
               sc_subject = subject, sc_refresh_token = token\<rparr>
      in bindR (credential_validate c) (\<lambda>_. Inr c))"

definition encode_credential :: "account_ext \<Rightarrow> stored_credential \<Rightarrow> account_error + bytes" where
  "encode_credential ax c = bindR (credential_validate c) (\<lambda>_. Inr (ax_credential_to_vec ax (1, c)))"

definition decode_credential :: "account_ext \<Rightarrow> bytes \<Rightarrow> account_error + stored_credential" where
  "decode_credential ax b =
     (case ax_credential ax b of
        None \<Rightarrow> Inl CredentialStoreFailure
      | Some (version, c) \<Rightarrow>
          if version \<noteq> 1 then Inl CredentialStoreFailure
          else credential_new (sc_account_id c) (sc_device_id c) (sc_token_family_id c) (sc_refresh_generation c)
                 (sc_issuer c) (sc_audience c) (sc_subject c) (sc_refresh_token c))"

definition keyring_guidance :: string where
  "keyring_guidance = ''Linux Secret Service is unavailable; install and unlock a Freedesktop Secret Service''"

definition keyring_call :: "(account_world \<Rightarrow> account_error + 'a) \<Rightarrow> (account_world \<Rightarrow> account_world) \<Rightarrow> 'a client" where
  "keyring_call result change w =
     (if aw_keyring_down w (aw_calls w) then (Inl (CredentialStoreUnavailable keyring_guidance), tick w)
      else (result w, change (tick w)))"

definition stored :: "account_ext \<Rightarrow> account_world \<Rightarrow> account_error + stored_credential option" where
  "stored ax w =
     (case aw_keyring w of
        None \<Rightarrow> Inr None
      | Some encoded \<Rightarrow>
          (case ax_b64_decode ax encoded of
             None \<Rightarrow> Inl CredentialStoreFailure
           | Some b \<Rightarrow> bindR (decode_credential ax b) (\<lambda>c. Inr (Some c))))"

definition load_credential :: "account_ext \<Rightarrow> stored_credential option client" where
  "load_credential ax = keyring_call (stored ax) (\<lambda>w. w)"

definition save_credential :: "account_ext \<Rightarrow> stored_credential \<Rightarrow> unit client" where
  "save_credential ax c =
     bindA (lift (encode_credential ax c)) (\<lambda>b.
     keyring_call (\<lambda>_. Inr ()) (\<lambda>w. w\<lparr>aw_keyring := Some (ax_b64 ax b)\<rparr>))"

definition delete_credential :: "bool client" where
  "delete_credential = keyring_call (\<lambda>w. Inr (aw_keyring w \<noteq> None)) (\<lambda>w. w\<lparr>aw_keyring := None\<rparr>)"

section \<open>The refresh lock\<close>

text \<open>
  \<^verbatim>\<open>FileRefreshLock\<close>: \<open>aw_locked\<close> is the slot of this process; whether the file cannot be opened or
  another process keeps its lock past the timeout is the outside's choice.
\<close>

definition refresh_lock_acquire :: "duration \<Rightarrow> unit client" where
  "refresh_lock_acquire timeout w =
     (if aw_locked w \<or> aw_lock_busy w (aw_calls w) then (Inl RefreshLockUnavailable, tick w)
      else (Inr (), (tick w)\<lparr>aw_locked := True\<rparr>))"

definition refresh_lock_release :: "unit client" where
  "refresh_lock_release w = (Inr (), w\<lparr>aw_locked := False\<rparr>)"

text \<open>\<^verbatim>\<open>RefreshRelease\<close> is dropped on every way out of the scope.\<close>

definition with_refresh_lock :: "duration \<Rightarrow> 'a client \<Rightarrow> 'a client" where
  "with_refresh_lock timeout body =
     bindA (refresh_lock_acquire timeout) (\<lambda>_.
     bindA (attempt body) (\<lambda>r.
     bindA refresh_lock_release (\<lambda>_. lift r)))"

end
