(* ===== verification/Account_Oidc.thy ===== *)
theory Account_Oidc
  imports Account_World
begin

text \<open>
  OpenID Connect (\<^verbatim>\<open>src/src/account/oidc.rs\<close>): discovery of the provider and its keys, and the
  verification of an ID token. RSA is a parameter.
\<close>

definition max_compact_token_bytes :: nat where
  "max_compact_token_bytes = 16 * 1024"

definition max_jwt_part_bytes :: nat where
  "max_jwt_part_bytes = 12 * 1024"

definition clock_skew_seconds :: nat where
  "clock_skew_seconds = 60"

record validated_provider =
  vp_discovery :: discovery_document
  vp_jwks :: "rsa_jwk list"

definition is_supported_algorithm :: "bytes \<Rightarrow> bool" where
  "is_supported_algorithm a \<longleftrightarrow> a \<in> set [''RS256'', ''RS384'', ''RS512'', ''PS256'', ''PS384'', ''PS512'']"

section \<open>Discovery\<close>

definition trim_end_slashes :: "bytes \<Rightarrow> bytes" where
  "trim_end_slashes s = rev (dropWhile (\<lambda>c. c = CHR ''/'') (rev s))"

definition discovery_url :: "account_ext \<Rightarrow> url \<Rightarrow> account_error + url" where
  "discovery_url ax issuer =
     (case ax_url_parse ax (trim_end_slashes (u_text issuer) @ ''/.well-known/openid-configuration'') of
        None \<Rightarrow> Inl OidcVerification | Some u \<Rightarrow> Inr u)"

definition parse_document :: "(bytes \<Rightarrow> 'a option) \<Rightarrow> wire_response \<Rightarrow> account_error + 'a" where
  "parse_document decode r =
     (if wr_status r \<noteq> 200 \<or> length (wr_body r) > max_oidc_document_bytes then Inl OidcVerification
      else case decode (wr_body r) of None \<Rightarrow> Inl OidcVerification | Some x \<Rightarrow> Inr x)"

definition discover :: "account_ext \<Rightarrow> account_config \<Rightarrow> nat \<Rightarrow> validated_provider client" where
  "discover ax cfg deadline =
     bindA (lift (discovery_url ax (ac_issuer cfg))) (\<lambda>u.
     bindA (lift (validate_oidc_url ax cfg u False)) (\<lambda>_.
     bindA (get_oidc_document Discovery u deadline) (\<lambda>discovery_response.
     bindA (lift (parse_document (ax_discovery ax) discovery_response)) (\<lambda>discovery.
     if \<not> url_eq (dc_issuer discovery) (ac_issuer cfg) then throw OidcVerification
     else
       bindA (lift (validate_oidc_url ax cfg (dc_authorization_endpoint discovery) True)) (\<lambda>_.
       bindA (lift (validate_oidc_url ax cfg (dc_jwks_uri discovery) False)) (\<lambda>_.
       if dc_algorithms discovery = [] \<or> \<not> list_ex is_supported_algorithm (dc_algorithms discovery)
       then throw OidcVerification
       else
         bindA (get_oidc_document Jwks (dc_jwks_uri discovery) deadline) (\<lambda>jwks_response.
         bindA (lift (parse_document (ax_jwks ax) jwks_response)) (\<lambda>keys.
         if keys = [] \<or> length keys > 100 then throw OidcVerification
         else ret \<lparr>vp_discovery = discovery, vp_jwks = keys\<rparr>))))))))"

section \<open>Tokens\<close>

definition decode_part :: "account_ext \<Rightarrow> bytes \<Rightarrow> account_error + bytes" where
  "decode_part ax v =
     (if length v > max_jwt_part_bytes \<or> CHR ''='' \<in> set v then Inl OidcVerification
      else case ax_b64url_decode ax v of None \<Rightarrow> Inl OidcVerification | Some b \<Rightarrow> Inr b)"

definition decode_json_part :: "account_ext \<Rightarrow> (bytes \<Rightarrow> 'a option) \<Rightarrow> bytes \<Rightarrow> account_error + 'a" where
  "decode_json_part ax decode v =
     bindR (decode_part ax v) (\<lambda>b. case decode b of None \<Rightarrow> Inl OidcVerification | Some x \<Rightarrow> Inr x)"

definition decode_jwk_component :: "account_ext \<Rightarrow> bytes \<Rightarrow> account_error + bytes" where
  "decode_jwk_component ax v =
     bindR (decode_part ax v) (\<lambda>b.
     if b = [] \<or> length b > 1024 \<or> hd b = CHR 0x00 then Inl OidcVerification else Inr b)"

definition verify_rsa_signature ::
    "account_ext \<Rightarrow> bytes \<Rightarrow> bytes \<Rightarrow> bytes \<Rightarrow> bytes \<Rightarrow> bytes \<Rightarrow> account_error + unit" where
  "verify_rsa_signature ax algorithm modulus exponent message signature =
     (if is_supported_algorithm algorithm \<and> ax_rsa_verify ax algorithm modulus exponent message signature
      then Inr () else Inl OidcVerification)"

definition audiences_of :: "audience_claim \<Rightarrow> bytes list" where
  "audiences_of a = (case a of AudOne x \<Rightarrow> [x] | AudMany xs \<Rightarrow> xs)"

definition audiences_ok :: "account_config \<Rightarrow> bytes list \<Rightarrow> bytes option \<Rightarrow> bool" where
  "audiences_ok cfg auds azp \<longleftrightarrow>
     \<not> (auds = [] \<or> length auds > 16 \<or> \<not> distinct auds \<or> ac_audience cfg \<notin> set auds
        \<or> list_ex (\<lambda>v. v = [] \<or> length v > 512 \<or> \<not> is_ascii v) auds
        \<or> (length auds > 1 \<and> azp \<noteq> Some (ac_public_client_id cfg))
        \<or> (case azp of None \<Rightarrow> False | Some v \<Rightarrow> v \<noteq> ac_public_client_id cfg))"

definition nonce_ok :: "secret option \<Rightarrow> bytes option \<Rightarrow> bool" where
  "nonce_ok expected actual =
     (case (expected, actual) of
        (Some e, Some a) \<Rightarrow> is_bounded_ascii a \<and> e = a
      | (None, None) \<Rightarrow> True
      | _ \<Rightarrow> False)"

definition validate_claims :: "account_config \<Rightarrow> token_claims \<Rightarrow> secret option \<Rightarrow> nat \<Rightarrow> account_error + bytes" where
  "validate_claims cfg claims expected_nonce now =
     (if tc_iss claims \<noteq> u_text (ac_issuer cfg) \<or> tc_sub claims = [] \<or> length (tc_sub claims) > 512
         \<or> has_control (tc_sub claims) \<or> tc_exp claims \<le> now
         \<or> tc_iat claims > saturating_add now clock_skew_seconds \<or> tc_exp claims \<le> tc_iat claims
      then Inl OidcVerification
      else if \<not> audiences_ok cfg (audiences_of (tc_aud claims)) (tc_azp claims) then Inl OidcVerification
      else if \<not> nonce_ok expected_nonce (tc_nonce claims) then Inl OidcVerification
      else Inr (tc_sub claims))"

definition header_ok :: "validated_provider \<Rightarrow> token_header \<Rightarrow> bytes \<Rightarrow> bool" where
  "header_ok provider header signature \<longleftrightarrow>
     \<not> (length signature > 1024 \<or> th_kid header = [] \<or> length (th_kid header) > 256 \<or> has_control (th_kid header)
        \<or> th_crit header \<noteq> None \<or> (case th_typ header of None \<Rightarrow> False | Some v \<Rightarrow> v \<noteq> ''JWT'')
        \<or> th_alg header \<notin> set (dc_algorithms (vp_discovery provider)))
     \<and> is_supported_algorithm (th_alg header)"

definition key_ok :: "token_header \<Rightarrow> rsa_jwk \<Rightarrow> bool" where
  "key_ok header key \<longleftrightarrow>
     \<not> (jk_kty key \<noteq> ''RSA'' \<or> (case jk_use key of None \<Rightarrow> False | Some v \<Rightarrow> v \<noteq> ''sig'')
        \<or> (case jk_alg key of None \<Rightarrow> False | Some v \<Rightarrow> v \<noteq> th_alg header))"

text \<open>The key named by the header must be in the set exactly once.\<close>

definition select_key :: "validated_provider \<Rightarrow> token_header \<Rightarrow> account_error + rsa_jwk" where
  "select_key provider header =
     (case filter (\<lambda>k. jk_kid k = th_kid header) (vp_jwks provider) of
        [key] \<Rightarrow> if key_ok header key then Inr key else Inl OidcVerification
      | _ \<Rightarrow> Inl OidcVerification)"

definition verify_id_token ::
    "account_ext \<Rightarrow> validated_provider \<Rightarrow> account_config \<Rightarrow> secret \<Rightarrow> secret option \<Rightarrow> nat \<Rightarrow> account_error + bytes" where
  "verify_id_token ax provider cfg compact nonce now =
     (if length compact > max_compact_token_bytes \<or> \<not> is_ascii compact then Inl OidcVerification
      else case split_at_char (CHR ''.'') compact of
        [encoded_header, encoded_claims, encoded_signature] \<Rightarrow>
          if encoded_header = [] \<or> encoded_claims = [] \<or> encoded_signature = [] then Inl OidcVerification
          else
            bindR (decode_json_part ax (ax_header ax) encoded_header) (\<lambda>header.
            bindR (decode_json_part ax (ax_claims ax) encoded_claims) (\<lambda>claims.
            bindR (decode_part ax encoded_signature) (\<lambda>signature.
            if \<not> header_ok provider header signature then Inl OidcVerification
            else
              bindR (select_key provider header) (\<lambda>key.
              bindR (decode_jwk_component ax (jk_n key)) (\<lambda>modulus.
              bindR (decode_jwk_component ax (jk_e key)) (\<lambda>exponent.
              let signing_input = take (length encoded_header + length encoded_claims + 1) compact in
              if \<not> ax_rsa_key ax modulus exponent then Inl OidcVerification
              else
                bindR (verify_rsa_signature ax (th_alg header) modulus exponent signing_input signature) (\<lambda>_.
                validate_claims cfg claims nonce now)))))))
      | _ \<Rightarrow> Inl OidcVerification)"

end
