(* ===== verification/Account_Client.thy ===== *)
theory Account_Client
  imports Account_Oidc
begin

text \<open>
  The account client (\<^verbatim>\<open>src/src/account/client.rs\<close>): signing in through the browser and through a
  device code, the rotation of the refresh token, and what runs on an access token.
\<close>

definition max_device_poll_interval_seconds :: nat where
  "max_device_poll_interval_seconds = 30"

definition device_slow_down_seconds :: nat where
  "device_slow_down_seconds = 5"

record active_session =
  ss_access_token :: secret
  ss_credential :: stored_credential

section \<open>Deadlines\<close>

definition request_deadline :: "account_config \<Rightarrow> nat \<Rightarrow> nat client" where
  "request_deadline cfg overall =
     bindA now_unix (\<lambda>n. ret (min (saturating_add n (as_secs (ac_request_timeout cfg))) overall))"

definition ensure_before :: "nat \<Rightarrow> unit client" where
  "ensure_before deadline =
     bindA cancelled (\<lambda>c.
     if c then throw Cancelled
     else bindA now_unix (\<lambda>n. if n \<ge> deadline then throw DeadlineExceeded else ret ()))"

text \<open>\<^verbatim>\<open>self.transport.send(request?, self.request_deadline(overall))\<close>.\<close>

definition send_request :: "account_config \<Rightarrow> account_error + wire_request \<Rightarrow> nat \<Rightarrow> wire_response client" where
  "send_request cfg request overall =
     bindA (lift request) (\<lambda>r.
     bindA (request_deadline cfg overall) (\<lambda>deadline.
     send r deadline))"

definition discover_provider :: "account_ext \<Rightarrow> account_config \<Rightarrow> nat \<Rightarrow> validated_provider client" where
  "discover_provider ax cfg overall =
     bindA (ensure_before overall) (\<lambda>_.
     bindA (request_deadline cfg overall) (\<lambda>deadline.
     discover ax cfg deadline))"

section \<open>Sessions\<close>

definition checked_add_64 :: "64 word \<Rightarrow> 64 word \<Rightarrow> 64 word option" where
  "checked_add_64 a b = (if unat a + unat b < 2 ^ 64 then Some (a + b) else None)"

definition session_wire_ok :: "session_wire \<Rightarrow> bool" where
  "session_wire_ok wire \<longleftrightarrow>
     \<not> (sw_token_type wire \<noteq> ''Bearer'' \<or> \<not> (1 \<le> sw_expires_in wire \<and> sw_expires_in wire \<le> 3600)
        \<or> sw_account_id wire = 0 \<or> sw_device_id wire = 0 \<or> sw_token_family_id wire = 0)
     \<and> \<not> (\<not> is_bounded_ascii (sw_access_token wire) \<or> \<not> is_bounded_ascii (sw_refresh_token wire)
        \<or> \<not> is_bounded_ascii (sw_id_token wire) \<or> sw_access_token wire = sw_refresh_token wire)"

text \<open>Against the stored credential when there is one, as the first of its family otherwise.\<close>

definition rotation_ok :: "account_config \<Rightarrow> stored_credential option \<Rightarrow> session_wire \<Rightarrow> bool" where
  "rotation_ok cfg expected wire =
     (case expected of
        Some previous \<Rightarrow>
          sw_account_id wire = sc_account_id previous \<and> sw_device_id wire = sc_device_id previous \<and>
          sw_token_family_id wire = sc_token_family_id previous \<and>
          url_eq (sc_issuer previous) (ac_issuer cfg) \<and> sc_audience previous = ac_audience cfg \<and>
          Some (sw_refresh_generation wire) = checked_add_64 (sc_refresh_generation previous) 1 \<and>
          sc_refresh_token previous \<noteq> sw_refresh_token wire
      | None \<Rightarrow> sw_refresh_generation wire = 0)"

definition validate_session ::
    "account_ext \<Rightarrow> account_config \<Rightarrow> wire_response \<Rightarrow> validated_provider \<Rightarrow> secret \<Rightarrow> stored_credential option
     \<Rightarrow> active_session client" where
  "validate_session ax cfg response provider nonce expected =
     bindA (lift (parse_success ax (ax_session ax) response 200)) (\<lambda>wire.
     if \<not> session_wire_ok wire then throw InvalidResponse
     else
       bindA now_unix (\<lambda>n.
       bindA (lift (verify_id_token ax provider cfg (sw_id_token wire) (Some nonce) n)) (\<lambda>subject.
       if \<not> rotation_ok cfg expected wire then throw InvalidResponse
       else
         bindA (lift (credential_new (sw_account_id wire) (sw_device_id wire) (sw_token_family_id wire)
                        (sw_refresh_generation wire) (ac_issuer cfg) (ac_audience cfg) subject (sw_refresh_token wire)))
           (\<lambda>credential. ret \<lparr>ss_access_token = sw_access_token wire, ss_credential = credential\<rparr>))))"

definition best_effort_revoke :: "account_ext \<Rightarrow> account_config \<Rightarrow> secret \<Rightarrow> unit client" where
  "best_effort_revoke ax cfg token =
     (case revoke_request ax token of
        Inl _ \<Rightarrow> ret ()
      | Inr r \<Rightarrow> bindA (attempt (send_request cfg (Inr r) u64_max)) (\<lambda>_. ret ()))"

definition publish_login :: "account_ext \<Rightarrow> account_config \<Rightarrow> active_session \<Rightarrow> login_result client" where
  "publish_login ax cfg session =
     bindA (attempt (save_credential ax (ss_credential session))) (\<lambda>saved.
     case saved of
       Inl e \<Rightarrow> bindA (best_effort_revoke ax cfg (ss_access_token session)) (\<lambda>_. throw e)
     | Inr _ \<Rightarrow>
         ret \<lparr>lr_status = ''signed_in'', lr_account_id = sc_account_id (ss_credential session),
              lr_device_id = sc_device_id (ss_credential session)\<rparr>)"

definition ensure_signed_out :: "account_ext \<Rightarrow> unit client" where
  "ensure_signed_out ax =
     bindA (load_credential ax) (\<lambda>c. if c \<noteq> None then throw AlreadySignedIn else ret ())"

section \<open>Signing in through the browser\<close>

definition validate_loopback_redirect :: "url \<Rightarrow> bytes \<Rightarrow> account_error + unit" where
  "validate_loopback_redirect u expected_path =
     (if u_scheme u \<noteq> ''http'' \<or> \<not> host_is_loopback (u_host u) \<or> u_username u \<noteq> [] \<or> u_password u \<noteq> None
         \<or> (case u_port u of None \<Rightarrow> True | Some p \<Rightarrow> p < 1024)
         \<or> u_path u \<noteq> expected_path \<or> u_query u \<noteq> None \<or> u_fragment u \<noteq> None
      then Inl InvalidPkceCallback else Inr ())"

text \<open>The interaction is the browser and the loopback listener: a redirect URL, and what calls it back.\<close>

record pkce_interaction =
  pi_prepare_redirect :: "bytes \<Rightarrow> account_error + url"
  pi_authorize :: "url \<Rightarrow> nat \<Rightarrow> account_error + pkce_callback"

definition callback_ok :: "pkce_callback \<Rightarrow> secret \<Rightarrow> url \<Rightarrow> bool" where
  "callback_ok callback state redirect \<longleftrightarrow>
     state = pc_state callback \<and> url_eq (pc_redirect_uri callback) redirect \<and> is_bounded_ascii (pc_code callback)"

definition login_pkce ::
    "account_ext \<Rightarrow> account_config \<Rightarrow> pkce_interaction \<Rightarrow> device_display \<Rightarrow> login_result client" where
  "login_pkce ax cfg interaction display =
     bindA (ensure_signed_out ax) (\<lambda>_.
     if \<not> device_display_validate display then throw UnsafeRequest
     else
       bindA now_unix (\<lambda>started.
       let deadline = saturating_add started (as_secs (ac_interactive_timeout cfg)) in
       bindA (discover_provider ax cfg deadline) (\<lambda>provider.
       bindA (lift (pi_prepare_redirect interaction (ac_loopback_callback_path cfg))) (\<lambda>redirect.
       bindA (lift (validate_loopback_redirect redirect (ac_loopback_callback_path cfg))) (\<lambda>_.
       bindA (fresh_secret ax) (\<lambda>verifier.
       bindA (fresh_secret ax) (\<lambda>state.
       bindA (fresh_secret ax) (\<lambda>nonce.
       let authorization = build_authorization_url ax (dc_authorization_endpoint (vp_discovery provider))
             (ac_public_client_id cfg) redirect state nonce (pkce_challenge ax verifier) in
       bindA (lift (validate_oidc_url ax cfg authorization True)) (\<lambda>_.
       bindA (lift (pi_authorize interaction authorization deadline)) (\<lambda>callback.
       if \<not> callback_ok callback state redirect then throw InvalidPkceCallback
       else
         bindA (ensure_before deadline) (\<lambda>_.
         bindA (send_request cfg
                  (exchange_pkce_request ax (ac_public_client_id cfg) (pc_code callback) verifier redirect nonce display)
                  deadline) (\<lambda>response.
         bindA (validate_session ax cfg response provider nonce None) (\<lambda>session.
         publish_login ax cfg session)))))))))))))"

section \<open>Signing in with a device code\<close>

definition valid_user_code :: "bytes \<Rightarrow> bool" where
  "valid_user_code code \<longleftrightarrow>
     4 \<le> length code \<and> length code \<le> 20 \<and> is_ascii code \<and> list_all (\<lambda>c. ascii_alnum c \<or> c = CHR ''-'') code"

definition slower :: "nat \<Rightarrow> nat" where
  "slower interval = min (min (interval + device_slow_down_seconds) (2 ^ 32 - 1)) max_device_poll_interval_seconds"

text \<open>
  The loop of \<^verbatim>\<open>login_device\<close>, on fuel: \<open>None\<close> says that the fuel ran out before the loop returned.
\<close>

fun poll_loop ::
    "nat \<Rightarrow> account_ext \<Rightarrow> account_config \<Rightarrow> validated_provider \<Rightarrow> secret \<Rightarrow> secret \<Rightarrow> nat \<Rightarrow> nat \<Rightarrow> login_result option client" where
  "poll_loop 0 ax cfg provider nonce device_code deadline interval = ret None"
| "poll_loop (Suc fuel) ax cfg provider nonce device_code deadline interval =
     bindA cancelled (\<lambda>c.
     if c then throw Cancelled
     else
       bindA (map_err (\<lambda>_. DeviceAuthorizationExpired) (ensure_before deadline)) (\<lambda>_.
       bindA (sleep (from_secs interval)) (\<lambda>_.
       bindA cancelled (\<lambda>c'.
       if c' then throw Cancelled
       else
         bindA (map_err (\<lambda>_. DeviceAuthorizationExpired) (ensure_before deadline)) (\<lambda>_.
         bindA (send_request cfg (poll_device_request ax (ac_public_client_id cfg) device_code) deadline) (\<lambda>response.
         if wr_status response = 200 then
           bindA (validate_session ax cfg response provider nonce None) (\<lambda>session.
           bindA (publish_login ax cfg session) (\<lambda>result. ret (Some result)))
         else
           bindA (lift (device_poll_error ax response)) (\<lambda>e.
           case e of
             PollPending \<Rightarrow> poll_loop fuel ax cfg provider nonce device_code deadline interval
           | PollSlowDown \<Rightarrow> poll_loop fuel ax cfg provider nonce device_code deadline (slower interval)
           | PollDenied \<Rightarrow> throw AuthorizationDenied
           | PollExpired \<Rightarrow> throw DeviceAuthorizationExpired
           | PollCancelled \<Rightarrow> throw Cancelled)))))))"

definition device_authorization_ok :: "device_authorization_wire \<Rightarrow> nat \<Rightarrow> nat \<Rightarrow> duration \<Rightarrow> bool" where
  "device_authorization_ok a now started timeout \<longleftrightarrow>
     \<not> (\<not> is_bounded_ascii (da_device_code a) \<or> \<not> valid_user_code (da_user_code a)
        \<or> \<not> (1 \<le> da_interval_seconds a \<and> da_interval_seconds a \<le> max_device_poll_interval_seconds)
        \<or> da_expires_at a \<le> now \<or> da_expires_at a > saturating_add started (as_secs timeout))"

definition login_device ::
    "nat \<Rightarrow> account_ext \<Rightarrow> account_config \<Rightarrow> (device_prompt \<Rightarrow> account_error + unit) \<Rightarrow> device_display
     \<Rightarrow> login_result option client" where
  "login_device fuel ax cfg display_prompt display =
     bindA (ensure_signed_out ax) (\<lambda>_.
     if \<not> device_display_validate display then throw UnsafeRequest
     else
       bindA now_unix (\<lambda>started.
       let overall = saturating_add started (as_secs (ac_device_timeout cfg)) in
       bindA (discover_provider ax cfg overall) (\<lambda>provider.
       bindA (fresh_secret ax) (\<lambda>nonce.
       bindA (send_request cfg (begin_device_request ax (ac_public_client_id cfg) nonce display) overall) (\<lambda>response.
       bindA (lift (parse_success ax (ax_device_authorization ax) response 200)) (\<lambda>a.
       bindA now_unix (\<lambda>n.
       if \<not> device_authorization_ok a n started (ac_device_timeout cfg) then throw InvalidResponse
       else
         bindA (lift (validate_first_party_verification_url ax cfg (da_verification_uri a))) (\<lambda>_.
         let prompt = \<lparr>dp_user_code = da_user_code a, dp_verification_uri = da_verification_uri a,
                       dp_expires_at = da_expires_at a, dp_interval_seconds = da_interval_seconds a,
                       dp_display = display\<rparr> in
         bindA (lift (display_prompt prompt)) (\<lambda>_.
         poll_loop fuel ax cfg provider nonce (da_device_code a) (min overall (da_expires_at a))
           (da_interval_seconds a))))))))))"

section \<open>Refreshing\<close>

definition revoked_error :: "account_error \<Rightarrow> bool" where
  "revoked_error e \<longleftrightarrow> e = RefreshReuseDetected \<or> e = SessionRevoked"

definition unreachable_error :: "account_error \<Rightarrow> bool" where
  "unreachable_error e \<longleftrightarrow> e = Offline \<or> e = DeadlineExceeded"

text \<open>A revoked session is forgotten; a failing deletion is not reported.\<close>

definition forget_if_revoked :: "account_error \<Rightarrow> 'a client" where
  "forget_if_revoked e =
     (if revoked_error e then bindA (attempt delete_credential) (\<lambda>_. throw e) else throw e)"

definition refresh_body :: "account_ext \<Rightarrow> account_config \<Rightarrow> active_session client" where
  "refresh_body ax cfg =
     bindA (load_credential ax) (\<lambda>loaded.
     case loaded of
       None \<Rightarrow> throw NotSignedIn
     | Some previous \<Rightarrow>
         if \<not> url_eq (sc_issuer previous) (ac_issuer cfg) \<or> sc_audience previous \<noteq> ac_audience cfg
         then throw CredentialStoreFailure
         else
           bindA (discover_provider ax cfg u64_max) (\<lambda>provider.
           bindA (fresh_secret ax) (\<lambda>nonce.
           bindA (lift (refresh_request ax (ac_public_client_id cfg) (sc_refresh_token previous) nonce)) (\<lambda>request.
           bindA (attempt (send_request cfg (Inr request) u64_max)) (\<lambda>sent.
           case sent of
             Inl e \<Rightarrow> forget_if_revoked e
           | Inr response \<Rightarrow>
               if wr_status response \<noteq> 200 then forget_if_revoked (map_error_response ax response)
               else
                 bindA (validate_session ax cfg response provider nonce (Some previous)) (\<lambda>session.
                 bindA (attempt (save_credential ax (ss_credential session))) (\<lambda>saved.
                 case saved of
                   Inl e \<Rightarrow>
                     bindA (best_effort_revoke ax cfg (ss_access_token session)) (\<lambda>_.
                     bindA (attempt delete_credential) (\<lambda>_. throw e))
                 | Inr _ \<Rightarrow> ret session)))))))"

definition refresh_access :: "account_ext \<Rightarrow> account_config \<Rightarrow> active_session client" where
  "refresh_access ax cfg = with_refresh_lock (ac_request_timeout cfg) (refresh_body ax cfg)"

section \<open>With an access token\<close>

definition stale_status :: "stored_credential \<Rightarrow> account_status" where
  "stale_status c =
     \<lparr>as_state = OfflineStale, as_account_id = Some (sc_account_id c), as_device_id = Some (sc_device_id c),
      as_stale = True\<rparr>"

definition client_status :: "account_ext \<Rightarrow> account_config \<Rightarrow> account_status client" where
  "client_status ax cfg =
     bindA (load_credential ax) (\<lambda>loaded.
     case loaded of
       None \<Rightarrow> ret (signed_out SignedOut)
     | Some c \<Rightarrow>
         bindA (attempt (refresh_access ax cfg)) (\<lambda>refreshed.
         case refreshed of
           Inr active \<Rightarrow>
             bindA (lift (get_account_request ax (ss_access_token active))) (\<lambda>request.
             bindA (attempt (send_request cfg (Inr request) u64_max)) (\<lambda>sent.
             case sent of
               Inr response \<Rightarrow>
                 bindA (lift (parse_success ax (ax_account ax) response 200)) (\<lambda>account_id.
                 if account_id \<noteq> sc_account_id (ss_credential active) then throw InvalidResponse
                 else ret \<lparr>as_state = Online, as_account_id = Some account_id,
                           as_device_id = Some (sc_device_id (ss_credential active)), as_stale = False\<rparr>)
             | Inl e \<Rightarrow> if unreachable_error e then ret (stale_status c) else throw e))
         | Inl e \<Rightarrow>
             if unreachable_error e then ret (stale_status c)
             else if revoked_error e then ret (signed_out Revoked)
             else throw e))"

definition device_list_ok :: "device_summary list \<Rightarrow> bool" where
  "device_list_ok devices \<longleftrightarrow>
     list_all (\<lambda>d. ds_device_id d \<noteq> 0 \<and> ds_label d \<noteq> [] \<and> length (ds_label d) \<le> 100 \<and> \<not> has_control (ds_label d)
       \<and> ds_created_at d \<le> ds_last_seen_at d) devices
     \<and> distinct (map ds_device_id devices)"

definition list_devices_with_access :: "account_ext \<Rightarrow> account_config \<Rightarrow> secret \<Rightarrow> device_summary list client" where
  "list_devices_with_access ax cfg token =
     bindA (send_request cfg (list_devices_request ax token) u64_max) (\<lambda>response.
     bindA (lift (parse_success ax (ax_devices ax) response 200)) (\<lambda>devices.
     if device_list_ok devices then ret devices else throw InvalidResponse))"

definition send_expecting_empty :: "account_ext \<Rightarrow> account_config \<Rightarrow> account_error + wire_request \<Rightarrow> unit client" where
  "send_expecting_empty ax cfg request =
     bindA (send_request cfg request u64_max) (\<lambda>response. lift (expect_empty_success ax response 204))"

fun revoke_devices :: "account_ext \<Rightarrow> account_config \<Rightarrow> secret \<Rightarrow> device_summary list \<Rightarrow> unit client" where
  "revoke_devices ax cfg token [] = ret ()"
| "revoke_devices ax cfg token (d # ds) =
     bindA (send_expecting_empty ax cfg (revoke_device_request ax token (ds_device_id d))) (\<lambda>_.
     revoke_devices ax cfg token ds)"

definition local_only_warning :: string where
  "local_only_warning = ''remote session remains valid until expiry or revocation from the account web UI''"

definition logout_result_of :: "string \<Rightarrow> bool \<Rightarrow> bool \<Rightarrow> string option \<Rightarrow> logout_result" where
  "logout_result_of status remote removed warning =
     \<lparr>lo_status = status, lo_remote_revoked = remote, lo_local_credential_removed = removed, lo_warning = warning\<rparr>"

definition logout_revoking ::
    "account_ext \<Rightarrow> account_config \<Rightarrow> logout_scope \<Rightarrow> active_session \<Rightarrow> logout_result client" where
  "logout_revoking ax cfg scope active =
     bindA (if scope = AllDevices
            then bindA (list_devices_with_access ax cfg (ss_access_token active)) (\<lambda>devices.
                 revoke_devices ax cfg (ss_access_token active) devices)
            else ret ()) (\<lambda>_.
     bindA (send_expecting_empty ax cfg (revoke_request ax (ss_access_token active))) (\<lambda>_.
     bindA delete_credential (\<lambda>removed.
     ret (logout_result_of
            (case scope of CurrentSession \<Rightarrow> ''session_revoked'' | AllDevices \<Rightarrow> ''all_devices_revoked'')
            True removed None))))"

definition logout :: "account_ext \<Rightarrow> account_config \<Rightarrow> logout_scope \<Rightarrow> local_logout_policy \<Rightarrow> logout_result client" where
  "logout ax cfg scope policy =
     bindA (load_credential ax) (\<lambda>loaded.
     if loaded = None then ret (logout_result_of ''already_signed_out'' False False None)
     else if policy = ConfirmedLocalOnly then
       bindA delete_credential (\<lambda>removed. ret (logout_result_of ''local_only'' False removed (Some local_only_warning)))
     else
       bindA (attempt (refresh_access ax cfg)) (\<lambda>refreshed.
       case refreshed of
         Inr active \<Rightarrow> logout_revoking ax cfg scope active
       | Inl e \<Rightarrow>
           if revoked_error e \<and> scope = CurrentSession then
             bindA delete_credential (\<lambda>removed. ret (logout_result_of ''session_revoked'' True removed None))
           else if unreachable_error e then throw RemoteRevocationUnconfirmed
           else throw e))"

definition link_account ::
    "account_ext \<Rightarrow> account_config \<Rightarrow> bytes \<Rightarrow> (url \<Rightarrow> account_error + unit) \<Rightarrow> link_result client" where
  "link_account ax cfg provider open_url =
     bindA (refresh_access ax cfg) (\<lambda>active.
     bindA (send_request cfg (begin_link_request ax (ss_access_token active) provider) u64_max) (\<lambda>response.
     bindA (lift (parse_success ax (ax_link ax) response 202)) (\<lambda>link.
     bindA (lift (validate_first_party_verification_url ax cfg (lw_verification_uri link))) (\<lambda>_.
     bindA now_unix (\<lambda>n.
     if lw_expires_at link \<le> n then throw InvalidResponse
     else
       bindA now_unix (\<lambda>n'.
       if lw_expires_at link > saturating_add n' (as_secs (ac_interactive_timeout cfg)) then throw InvalidResponse
       else
         bindA (lift (open_url (lw_verification_uri link))) (\<lambda>_.
         ret \<lparr>lk_status = ''fresh_auth_required'', lk_verification_uri = lw_verification_uri link,
              lk_expires_at = lw_expires_at link\<rparr>)))))))"

definition unlink_account :: "account_ext \<Rightarrow> account_config \<Rightarrow> uuid \<Rightarrow> uuid client" where
  "unlink_account ax cfg i =
     bindA (refresh_access ax cfg) (\<lambda>active.
     bindA (send_expecting_empty ax cfg (unlink_request ax (ss_access_token active) i)) (\<lambda>_. ret i))"

text \<open>The loop over the identities: the first that is not acceptable ends it.\<close>

fun identities_ok :: "account_ext \<Rightarrow> account_config \<Rightarrow> external_identity list \<Rightarrow> bool client" where
  "identities_ok ax cfg [] = ret True"
| "identities_ok ax cfg (i # is) =
     (if ei_id i = 0 then ret False
      else
        bindA now_unix (\<lambda>n.
        if ei_linked_at i > n \<or> isl (validate_oidc_url ax cfg (ei_issuer i) False) then ret False
        else identities_ok ax cfg is))"

definition external_identities :: "account_ext \<Rightarrow> account_config \<Rightarrow> external_identity list client" where
  "external_identities ax cfg =
     bindA (refresh_access ax cfg) (\<lambda>active.
     bindA (send_request cfg (list_external_identities_request ax (ss_access_token active)) u64_max) (\<lambda>response.
     bindA (lift (parse_success ax (ax_identities ax) response 200)) (\<lambda>identities.
     if length identities > 100 then throw InvalidResponse
     else bindA (identities_ok ax cfg identities) (\<lambda>ok. if ok then ret identities else throw InvalidResponse))))"

definition devices :: "account_ext \<Rightarrow> account_config \<Rightarrow> device_summary list client" where
  "devices ax cfg =
     bindA (refresh_access ax cfg) (\<lambda>active. list_devices_with_access ax cfg (ss_access_token active))"

definition revoke_device :: "account_ext \<Rightarrow> account_config \<Rightarrow> uuid \<Rightarrow> uuid client" where
  "revoke_device ax cfg i =
     bindA (refresh_access ax cfg) (\<lambda>active.
     bindA (send_expecting_empty ax cfg (revoke_device_request ax (ss_access_token active) i)) (\<lambda>_.
     if i = sc_device_id (ss_credential active) then bindA delete_credential (\<lambda>_. ret i) else ret i))"

end
