(* ===== verification/Account_Correct.thy ===== *)
theory Account_Correct
  imports Account_Protocol Account_Client
begin

text \<open>
  What the requests are: every endpoint parses back from its own method and path, the guard is the
  statement that nothing anywhere in a body is forbidden, and every constructor of requests
  produces one that keeps the contract.
\<close>

section \<open>Endpoints\<close>

lemma endpoint_parses_back:
  assumes "\<And>i. ax_uuid_parse ax (ax_uuid_print ax i) = Some i"
  shows "parse_endpoint ax (endpoint_method e) (endpoint_path ax e) = Inr e"
proof (cases e)
  case (UnlinkExternalIdentity i)
  have "strip_prefix (''/v1/external-identities/'' @ ax_uuid_print ax i) ''/v1/external-identities/'' =
      Some (ax_uuid_print ax i)"
    by (rule strip_prefix_append)
  with UnlinkExternalIdentity show ?thesis
    by (simp add: parse_endpoint_def fixed_endpoint_def endpoint_id_def assms)
next
  case (RevokeDevice i)
  have "strip_prefix (''/v1/devices/'' @ ax_uuid_print ax i @ ''/revoke'') ''/v1/devices/'' =
      Some (ax_uuid_print ax i @ ''/revoke'')"
    by (rule strip_prefix_append)
  with RevokeDevice show ?thesis
    by (simp add: parse_endpoint_def fixed_endpoint_def endpoint_id_def strip_suffix_append assms)
qed (simp_all add: parse_endpoint_def fixed_endpoint_def)

lemma parsed_endpoint_method: "parse_endpoint ax m p = Inr e \<Longrightarrow> endpoint_method e = m"
  by (auto simp: parse_endpoint_def fixed_endpoint_def endpoint_id_def
           split: if_splits option.splits)

text \<open>The route of an endpoint is its path with the name of the parameter in the place of the id.\<close>

fun placeholder :: "account_endpoint \<Rightarrow> bytes" where
  "placeholder (UnlinkExternalIdentity _) = ''{external_identity_id}''"
| "placeholder (RevokeDevice _) = ''{device_id}''"
| "placeholder _ = []"

definition route_of :: "account_ext \<Rightarrow> account_endpoint \<Rightarrow> route_spec" where
  "route_of ax e =
     route (endpoint_operation_id e) (endpoint_method e)
       (endpoint_path (ax\<lparr>ax_uuid_print := \<lambda>_. placeholder e\<rparr>) e) (endpoint_authentication e)"

lemma route_of_listed: "route_of ax e \<in> set account_openapi_routes"
  by (cases e) (simp_all add: route_of_def account_openapi_routes_def)

lemma operation_ids_distinct: "distinct (map rs_operation_id account_openapi_routes)"
  by (simp add: account_openapi_routes_def route_def)

section \<open>The guard\<close>

text \<open>The values that occur in a value, and the keys that occur in it.\<close>

inductive occurs_in :: "json \<Rightarrow> json \<Rightarrow> bool" where
  here: "occurs_in v v"
| field: "(k, u) \<in> set fs \<Longrightarrow> occurs_in v u \<Longrightarrow> occurs_in v (JObj fs)"
| element: "u \<in> set us \<Longrightarrow> occurs_in v u \<Longrightarrow> occurs_in v (JArr us)"

inductive_simps occurs_in_obj: "occurs_in v (JObj fs)"
inductive_simps occurs_in_arr: "occurs_in v (JArr us)"
inductive_simps occurs_in_str: "occurs_in v (JStr s)"
inductive_simps occurs_in_leaf: "occurs_in v JNull" "occurs_in v (JBool b)" "occurs_in v (JNum n)"

definition nothing_private :: "json \<Rightarrow> bool" where
  "nothing_private v \<longleftrightarrow>
     (\<forall>fs k u. occurs_in (JObj fs) v \<longrightarrow> (k, u) \<in> set fs \<longrightarrow> normalized_key k \<notin> set forbidden_keys) \<and>
     (\<forall>s. occurs_in (JStr s) v \<longrightarrow> \<not> looks_like_absolute_path s)"

lemma nothing_private_obj:
  "nothing_private (JObj fs) \<longleftrightarrow>
     (\<forall>k u. (k, u) \<in> set fs \<longrightarrow> normalized_key k \<notin> set forbidden_keys \<and> nothing_private u)"
  unfolding nothing_private_def occurs_in_obj json.inject json.distinct by blast

lemma nothing_private_arr: "nothing_private (JArr us) \<longleftrightarrow> (\<forall>u \<in> set us. nothing_private u)"
  unfolding nothing_private_def occurs_in_arr json.inject json.distinct by blast

lemma account_value_safe_iff: "account_value_safe v \<longleftrightarrow> nothing_private v"
proof (induction v rule: account_value_safe.induct)
  case (1 fs)
  then have "(k, u) \<in> set fs \<Longrightarrow> account_value_safe u \<longleftrightarrow> nothing_private u" for k u
    by blast
  then show ?case
    unfolding account_value_safe.simps nothing_private_obj list_all_iff by blast
next
  case (2 us)
  then show ?case
    unfolding account_value_safe.simps nothing_private_arr list_all_iff by blast
qed (simp_all add: nothing_private_def occurs_in_str occurs_in_leaf)

section \<open>The contract of a request\<close>

text \<open>
  What the client promises of everything it sends: a bearer token exactly where the endpoint
  authenticates by one, a bounded body, and a body with nothing private in it.
\<close>

definition body_private_free :: "account_ext \<Rightarrow> bytes \<Rightarrow> bool" where
  "body_private_free ax b \<longleftrightarrow> (\<exists>v. ax_value ax b = Some v \<and> nothing_private v)"

definition request_contract :: "account_ext \<Rightarrow> wire_request \<Rightarrow> bool" where
  "request_contract ax r \<longleftrightarrow>
     parse_endpoint ax (endpoint_method (wq_endpoint r)) (endpoint_path ax (wq_endpoint r)) = Inr (wq_endpoint r) \<and>
     (case wq_access_token r of
        None \<Rightarrow> endpoint_authentication (wq_endpoint r) \<noteq> AccountAccessToken
      | Some t \<Rightarrow> endpoint_authentication (wq_endpoint r) = AccountAccessToken \<and> is_bounded_ascii t) \<and>
     length (wq_body r) \<le> 65536 \<and>
     (wq_body r \<noteq> [] \<longrightarrow> body_private_free ax (wq_body r))"

lemma payload_ok_iff:
  "validate_account_payload ax b = Inr () \<longleftrightarrow> length b \<le> 65536 \<and> body_private_free ax b"
  by (auto simp: validate_account_payload_def body_private_free_def max_account_body_bytes_def
      account_value_safe_iff split: option.splits)

lemma wire_request_validate_iff: "wire_request_validate ax r = Inr () \<longleftrightarrow> request_contract ax r"
  by (auto simp: wire_request_validate_def request_contract_def bindR_eq_Inr payload_ok_iff
      max_account_body_bytes_def split: option.splits)

lemma request_of_contract: "request_of ax e token body = Inr r \<Longrightarrow> request_contract ax r"
  by (auto simp: request_of_def Let_def bindR_eq_Inr wire_request_validate_iff)

lemma request_json_contract: "request_json ax e token v = Inr r \<Longrightarrow> request_contract ax r"
  unfolding request_json_def by (rule request_of_contract)

lemma account_empty_contract: "account_empty ax e token = Inr r \<Longrightarrow> request_contract ax r"
  unfolding account_empty_def by (rule request_of_contract)

text \<open>Every constructor the client uses.\<close>

lemma constructors_contract:
  "exchange_pkce_request ax client_id code verifier redirect nonce display = Inr r \<Longrightarrow> request_contract ax r"
  "begin_device_request ax client_id nonce display = Inr r \<Longrightarrow> request_contract ax r"
  "poll_device_request ax client_id device_code = Inr r \<Longrightarrow> request_contract ax r"
  "refresh_request ax client_id refresh_token nonce = Inr r \<Longrightarrow> request_contract ax r"
  "revoke_request ax token = Inr r \<Longrightarrow> request_contract ax r"
  "get_account_request ax token = Inr r \<Longrightarrow> request_contract ax r"
  "begin_link_request ax token provider = Inr r \<Longrightarrow> request_contract ax r"
  "unlink_request ax token i = Inr r \<Longrightarrow> request_contract ax r"
  "list_external_identities_request ax token = Inr r \<Longrightarrow> request_contract ax r"
  "list_devices_request ax token = Inr r \<Longrightarrow> request_contract ax r"
  "revoke_device_request ax token i = Inr r \<Longrightarrow> request_contract ax r"
  unfolding exchange_pkce_request_def begin_device_request_def poll_device_request_def refresh_request_def
    revoke_request_def get_account_request_def begin_link_request_def unlink_request_def
    list_external_identities_request_def list_devices_request_def revoke_device_request_def bindR_eq_Inr
  by (auto intro: request_json_contract account_empty_contract)

text \<open>
  What every operation of the client keeps. A relation between the worlds before and after that the
  calls of the client keep is kept by every operation; the locale says which calls, and the
  interpretations below are what the client sends, its lock and the way time passes.
\<close>

section \<open>Relations the client keeps\<close>

lemma keeps_if: "(b \<Longrightarrow> keeps R m) \<Longrightarrow> (\<not> b \<Longrightarrow> keeps R n) \<Longrightarrow> keeps R (if b then m else n)"
  by simp

text \<open>
  Calls that do not touch the credential store: \<open>allowed\<close> says which requests are sent, \<open>nap\<close> how
  long the client sleeps.
\<close>

locale client_calls = state_preorder R for R :: "account_world \<Rightarrow> account_world \<Rightarrow> bool" +
  fixes allowed :: "wire_request \<Rightarrow> bool" and nap :: "duration \<Rightarrow> bool"
  assumes R_tick: "R w (tick w)"
    and R_sleep: "nap d \<Longrightarrow> R w (w\<lparr>aw_now := aw_now w + n, aw_slept := aw_slept w @ [d]\<rparr>)"
    and R_send: "allowed r \<Longrightarrow> R w (w\<lparr>aw_sent := aw_sent w @ [(r, d, a)]\<rparr>)"
begin

lemma keeps_bind_lift: "(\<And>x. r = Inr x \<Longrightarrow> keeps R (k x)) \<Longrightarrow> keeps R (bindA (lift r) k)"
  by (cases r) (simp_all add: keeps_def bindA_def lift_def R_refl)

lemma keeps_now_unix [keeps_intro]: "keeps R now_unix"
  by (simp add: keeps_def now_unix_def R_tick)

lemma keeps_cancelled [keeps_intro]: "keeps R cancelled"
  by (simp add: keeps_def cancelled_def R_tick)

lemma keeps_sleep: "nap d \<Longrightarrow> keeps R (sleep d)"
  unfolding keeps_def sleep_def Let_def snd_conv by (blast intro: R_trans R_tick R_sleep)

lemma keeps_fill_random [keeps_intro]: "keeps R fill_random"
  by (simp add: keeps_def fill_random_def R_tick)

lemma keeps_fresh_secret [keeps_intro]: "keeps R (fresh_secret ax)"
  unfolding fresh_secret_def by (intro keeps_intro)

lemma keeps_send:
  assumes "allowed r"
  shows "keeps R (send r d)"
proof -
  have "R (tick w) ((tick w)\<lparr>aw_sent := aw_sent w @ [(r, d, a)]\<rparr>)" for w a
    using R_send[OF assms, of "tick w"] by (simp add: tick_def)
  then show ?thesis
    unfolding keeps_def send_def Let_def snd_conv by (blast intro: R_trans R_tick)
qed

lemma keeps_get_oidc_document [keeps_intro]: "keeps R (get_oidc_document kind u d)"
  by (simp add: keeps_def get_oidc_document_def R_tick)

lemma keeps_request_deadline [keeps_intro]: "keeps R (request_deadline cfg d)"
  unfolding request_deadline_def by (intro keeps_intro)

lemma keeps_ensure_before [keeps_intro]: "keeps R (ensure_before d)"
  unfolding ensure_before_def by (intro keeps_intro keeps_if)

lemma keeps_discover [keeps_intro]: "keeps R (discover ax cfg d)"
  unfolding discover_def by (intro keeps_intro keeps_if)

lemma keeps_discover_provider [keeps_intro]: "keeps R (discover_provider ax cfg d)"
  unfolding discover_provider_def by (intro keeps_intro)

lemma keeps_validate_session [keeps_intro]: "keeps R (validate_session ax cfg response provider nonce expected)"
  unfolding validate_session_def by (intro keeps_intro keeps_if)

lemma keeps_send_request:
  assumes "\<And>r. request = Inr r \<Longrightarrow> allowed r"
  shows "keeps R (send_request cfg request overall)"
proof (cases request)
  case (Inl e)
  then show ?thesis by (simp add: send_request_def keeps_def bindA_def lift_def R_refl)
next
  case (Inr r)
  have "send_request cfg request overall = bindA (request_deadline cfg overall) (send r)"
    by (simp add: Inr send_request_def bindA_def lift_def fun_eq_iff)
  then show ?thesis
    by (simp add: keeps_bindA keeps_request_deadline keeps_send assms Inr)
qed

lemma keeps_identities_ok [keeps_intro]: "keeps R (identities_ok ax cfg is)"
  by (induction "is") (auto intro!: keeps_intro keeps_if)

lemma keeps_keyring_read:
  shows "keeps R (load_credential ax)"
  unfolding load_credential_def keeps_def keyring_call_def by (simp add: R_tick)

end

text \<open>Between two polls of the token endpoint.\<close>

definition poll_nap :: "duration \<Rightarrow> bool" where
  "poll_nap d \<longleftrightarrow> from_secs 1 \<le> d \<and> d \<le> from_secs 30"

lemma poll_nap_secs: "1 \<le> i \<Longrightarrow> i \<le> 30 \<Longrightarrow> poll_nap (from_secs i)"
  by (simp add: poll_nap_def from_secs_def)

lemma slower_bounds: "1 \<le> i \<Longrightarrow> 1 \<le> slower i" "slower i \<le> 30" "i \<le> 30 \<Longrightarrow> i \<le> slower i"
  by (simp_all add: slower_def device_slow_down_seconds_def max_device_poll_interval_seconds_def)

text \<open>
  The whole client: the stored credential may change, and a section under the refresh lock is a
  step. Every request of the client keeps the contract.
\<close>

locale client_relation = client_calls R "request_contract ax" poll_nap
  for R :: "account_world \<Rightarrow> account_world \<Rightarrow> bool" and ax :: account_ext +
  assumes R_keyring: "R w (w\<lparr>aw_keyring := k\<rparr>)"
    and R_section: "\<not> aw_locked w \<Longrightarrow> R (w\<lparr>aw_locked := True\<rparr>) w' \<Longrightarrow> R w (w'\<lparr>aw_locked := False\<rparr>)"
begin

lemma keeps_load_credential [keeps_intro]: "keeps R (load_credential ax)"
  by (rule keeps_keyring_read)

lemma keeps_delete_credential [keeps_intro]: "keeps R delete_credential"
  unfolding delete_credential_def keeps_def keyring_call_def by (auto intro: R_tick R_trans R_keyring)

lemma keeps_save_credential [keeps_intro]: "keeps R (save_credential ax c)"
proof -
  have "keeps R (keyring_call (\<lambda>_. Inr ()) (\<lambda>w. w\<lparr>aw_keyring := Some b\<rparr>))" for b
    unfolding keeps_def keyring_call_def by (auto intro: R_tick R_trans R_keyring)
  then show ?thesis unfolding save_credential_def by (intro keeps_intro)
qed

lemma keeps_with_refresh_lock:
  assumes "keeps R body"
  shows "keeps R (with_refresh_lock t body)"
proof -
  have "R w (snd (with_refresh_lock t body w))" for w
  proof (cases "aw_locked w \<or> aw_lock_busy w (aw_calls w)")
    case True
    then show ?thesis
      by (simp add: with_refresh_lock_def bindA_def refresh_lock_acquire_def R_tick)
  next
    case False
    let ?w = "(tick w)\<lparr>aw_locked := True\<rparr>"
    obtain r w' where body: "body ?w = (r, w')" by force
    have "R ?w w'" using assms body by (rule keepsD)
    moreover have "\<not> aw_locked (tick w)" using False by (simp add: tick_def)
    ultimately have "R (tick w) (w'\<lparr>aw_locked := False\<rparr>)" by (intro R_section)
    moreover have "snd (with_refresh_lock t body w) = w'\<lparr>aw_locked := False\<rparr>"
      using False body
      by (simp add: with_refresh_lock_def bindA_def refresh_lock_acquire_def attempt_def
          refresh_lock_release_def lift_def)
    ultimately show ?thesis using R_tick R_trans by metis
  qed
  then show ?thesis by (simp add: keeps_def)
qed

lemma keeps_best_effort_revoke [keeps_intro]: "keeps R (best_effort_revoke ax cfg token)"
  unfolding best_effort_revoke_def
  by (auto split: sum.split intro!: keeps_intro keeps_send_request dest: constructors_contract)

lemma keeps_publish_login [keeps_intro]: "keeps R (publish_login ax cfg session)"
  unfolding publish_login_def by (auto intro!: keeps_intro split: sum.split)

lemma keeps_ensure_signed_out [keeps_intro]: "keeps R (ensure_signed_out ax)"
  unfolding ensure_signed_out_def by (intro keeps_intro keeps_if)

lemma keeps_poll_loop:
  "1 \<le> interval \<Longrightarrow> interval \<le> 30 \<Longrightarrow>
     keeps R (poll_loop fuel ax cfg provider nonce device_code deadline interval)"
proof (induction fuel arbitrary: interval)
  case 0
  show ?case by (simp add: keeps_ret)
next
  case (Suc fuel)
  have "keeps R (sleep (from_secs interval))"
    using Suc.prems by (intro keeps_sleep poll_nap_secs)
  then show ?case
    unfolding poll_loop.simps
    by (intro keeps_intro keeps_if keeps_send_request constructors_contract)
      (auto split: device_poll_error.split intro: Suc slower_bounds keeps_throw simp: Suc.prems)
qed

lemma keeps_login_pkce: "keeps R (login_pkce ax cfg interaction display)"
  unfolding login_pkce_def Let_def
  by (intro keeps_intro keeps_if keeps_send_request) (rule constructors_contract)

lemma keeps_login_device: "keeps R (login_device fuel ax cfg display_prompt display)"
  unfolding login_device_def Let_def
  by (intro keeps_intro keeps_if keeps_send_request keeps_poll_loop)
    (auto simp: device_authorization_ok_def max_device_poll_interval_seconds_def elim: constructors_contract)

lemma keeps_forget_if_revoked [keeps_intro]: "keeps R (forget_if_revoked e)"
  unfolding forget_if_revoked_def by (intro keeps_intro keeps_if)

lemma keeps_refresh_body: "keeps R (refresh_body ax cfg)"
  unfolding refresh_body_def
  by (intro keeps_bindA keeps_load_credential)
    (auto split: option.split sum.split
      intro!: keeps_if keeps_bind_lift keeps_intro keeps_send_request elim!: constructors_contract)

lemma keeps_refresh_access [keeps_intro]: "keeps R (refresh_access ax cfg)"
  unfolding refresh_access_def by (rule keeps_with_refresh_lock[OF keeps_refresh_body])

lemma keeps_client_status: "keeps R (client_status ax cfg)"
  unfolding client_status_def
  by (intro keeps_bindA keeps_load_credential)
    (auto split: option.split sum.split
      intro!: keeps_if keeps_bind_lift keeps_intro keeps_send_request elim!: constructors_contract)

lemma keeps_list_devices_with_access [keeps_intro]: "keeps R (list_devices_with_access ax cfg token)"
  unfolding list_devices_with_access_def
  by (intro keeps_intro keeps_if keeps_send_request) (rule constructors_contract)

lemma keeps_send_expecting_empty:
  "(\<And>r. request = Inr r \<Longrightarrow> request_contract ax r) \<Longrightarrow> keeps R (send_expecting_empty ax cfg request)"
  unfolding send_expecting_empty_def by (intro keeps_intro keeps_send_request)

lemma keeps_revoke_devices [keeps_intro]: "keeps R (revoke_devices ax cfg token ds)"
  by (induction ds) (auto intro!: keeps_intro keeps_send_expecting_empty elim: constructors_contract)

lemma keeps_logout_revoking [keeps_intro]: "keeps R (logout_revoking ax cfg scope active)"
  unfolding logout_revoking_def
  by (intro keeps_intro keeps_if keeps_send_expecting_empty) (rule constructors_contract)

lemma keeps_logout: "keeps R (logout ax cfg scope policy)"
  unfolding logout_def by (intro keeps_bindA keeps_load_credential)
    (auto split: sum.split intro!: keeps_intro keeps_if)

lemma keeps_link_account: "keeps R (link_account ax cfg provider open_url)"
  unfolding link_account_def by (intro keeps_intro keeps_if keeps_send_request) (rule constructors_contract)

lemma keeps_unlink_account: "keeps R (unlink_account ax cfg i)"
  unfolding unlink_account_def by (intro keeps_intro keeps_send_expecting_empty) (rule constructors_contract)

lemma keeps_external_identities: "keeps R (external_identities ax cfg)"
  unfolding external_identities_def
  by (intro keeps_intro keeps_if keeps_send_request) (rule constructors_contract)

lemma keeps_devices: "keeps R (devices ax cfg)"
  unfolding devices_def by (intro keeps_intro)

lemma keeps_revoke_device: "keeps R (revoke_device ax cfg i)"
  unfolding revoke_device_def
  by (intro keeps_intro keeps_if keeps_send_expecting_empty) (rule constructors_contract)

lemmas keeps_operation =
  keeps_login_pkce keeps_login_device keeps_client_status keeps_logout keeps_link_account
  keeps_unlink_account keeps_external_identities keeps_devices keeps_revoke_device

end

section \<open>The client as a state machine\<close>

text \<open>One step is one operation of \<^verbatim>\<open>AccountClient\<close>, with any arguments and any answers of the outside.\<close>

inductive client_step :: "account_ext \<Rightarrow> account_config \<Rightarrow> account_world \<Rightarrow> account_world \<Rightarrow> bool"
  for ax :: account_ext and cfg :: account_config where
  login_pkce: "login_pkce ax cfg interaction display w = (r, w') \<Longrightarrow> client_step ax cfg w w'"
| login_device: "login_device fuel ax cfg display_prompt display w = (r, w') \<Longrightarrow> client_step ax cfg w w'"
| status: "client_status ax cfg w = (r, w') \<Longrightarrow> client_step ax cfg w w'"
| logout: "logout ax cfg scope policy w = (r, w') \<Longrightarrow> client_step ax cfg w w'"
| link: "link_account ax cfg provider open_url w = (r, w') \<Longrightarrow> client_step ax cfg w w'"
| unlink: "unlink_account ax cfg i w = (r, w') \<Longrightarrow> client_step ax cfg w w'"
| external_identities: "external_identities ax cfg w = (r, w') \<Longrightarrow> client_step ax cfg w w'"
| devices: "devices ax cfg w = (r, w') \<Longrightarrow> client_step ax cfg w w'"
| revoke_device: "revoke_device ax cfg i w = (r, w') \<Longrightarrow> client_step ax cfg w w'"

context client_relation
begin

lemma step_related: "client_step ax cfg w w' \<Longrightarrow> R w w'"
  by (induction rule: client_step.induct) (auto dest: keepsD[rotated] intro: keeps_operation)

lemma steps_related: "(client_step ax cfg)\<^sup>*\<^sup>* w w' \<Longrightarrow> R w w'"
  by (induction rule: rtranclp_induct) (auto intro: R_refl R_trans step_related)

end

section \<open>What the client sends, its lock, the clock\<close>

definition sends_by_contract :: "account_ext \<Rightarrow> account_world \<Rightarrow> account_world \<Rightarrow> bool" where
  "sends_by_contract ax w w' \<longleftrightarrow>
     (\<exists>new. aw_sent w' = aw_sent w @ new \<and> (\<forall>r \<in> set new. request_contract ax (fst r))) \<and>
     (\<exists>naps. aw_slept w' = aw_slept w @ naps \<and> (\<forall>d \<in> set naps. poll_nap d))"

lemma sends_by_contractI:
  assumes "aw_sent w' = aw_sent w @ new" and "\<And>r. r \<in> set new \<Longrightarrow> request_contract ax (fst r)"
    and "aw_slept w' = aw_slept w @ naps" and "\<And>d. d \<in> set naps \<Longrightarrow> poll_nap d"
  shows "sends_by_contract ax w w'"
  using assms by (auto simp: sends_by_contract_def)

lemma sends_by_contract_trans:
  "sends_by_contract ax u v \<Longrightarrow> sends_by_contract ax v w \<Longrightarrow> sends_by_contract ax u w"
  by (fastforce simp: sends_by_contract_def)

interpretation sends: client_relation "sends_by_contract ax" ax for ax :: account_ext
proof
  show "sends_by_contract ax w w" for w by (rule sends_by_contractI[of _ _ "[]" _ "[]"]) auto
  show "sends_by_contract ax w (tick w)" for w
    by (rule sends_by_contractI[of _ _ "[]" _ "[]"]) (auto simp: tick_def)
  show "sends_by_contract ax w (w\<lparr>aw_keyring := k\<rparr>)" for w k
    by (rule sends_by_contractI[of _ _ "[]" _ "[]"]) auto
  show "poll_nap d \<Longrightarrow> sends_by_contract ax w (w\<lparr>aw_now := aw_now w + n, aw_slept := aw_slept w @ [d]\<rparr>)" for w d n
    by (rule sends_by_contractI[of _ _ "[]" _ "[d]"]) auto
  show "request_contract ax r \<Longrightarrow> sends_by_contract ax w (w\<lparr>aw_sent := aw_sent w @ [(r, d, a)]\<rparr>)" for w r d a
    by (rule sends_by_contractI[of _ _ "[(r, d, a)]" _ "[]"]) auto
  show "sends_by_contract ax (w\<lparr>aw_locked := True\<rparr>) w' \<Longrightarrow> sends_by_contract ax w (w'\<lparr>aw_locked := False\<rparr>)" for w w'
    by (simp add: sends_by_contract_def)
qed (rule sends_by_contract_trans)

definition lock_restored :: "account_world \<Rightarrow> account_world \<Rightarrow> bool" where
  "lock_restored w w' \<longleftrightarrow> aw_locked w' = aw_locked w"

interpretation lock: client_relation lock_restored ax for ax :: account_ext
  by unfold_locales (auto simp: lock_restored_def tick_def)

definition clock_runs_on :: "account_world \<Rightarrow> account_world \<Rightarrow> bool" where
  "clock_runs_on w w' \<longleftrightarrow> aw_now w \<le> aw_now w' \<and> aw_calls w \<le> aw_calls w'"

interpretation clock: client_relation clock_runs_on ax for ax :: account_ext
  by unfold_locales (auto simp: clock_runs_on_def tick_def)

text \<open>Away from the credential store nothing changes what is stored.\<close>

definition keyring_same :: "account_world \<Rightarrow> account_world \<Rightarrow> bool" where
  "keyring_same w w' \<longleftrightarrow> aw_keyring w' = aw_keyring w"

interpretation keyring: client_calls keyring_same "\<lambda>_. True" "\<lambda>_. True"
  by unfold_locales (auto simp: keyring_same_def tick_def)

end
