(* ===== verification/Account_Sessions.thy ===== *)
theory Account_Sessions
  imports Account_Correct
begin

text \<open>
  What happens to the stored credential: the codec, the rotation of the refresh token, signing in and
  out, and the end of the polling loop.
\<close>

section \<open>The codec\<close>

text \<open>Serde and base64 read back what they wrote, for this credential.\<close>

definition codec_reads_back :: "account_ext \<Rightarrow> stored_credential \<Rightarrow> bool" where
  "codec_reads_back ax c \<longleftrightarrow>
     (let b = ax_credential_to_vec ax (1, c) in
      ax_credential ax b = Some (1, c) \<and> ax_b64_decode ax (ax_b64 ax b) = Some b)"

lemma credential_new_Inr:
  "credential_new i d f g u a s t = Inr c \<longleftrightarrow>
     credential_validate c = Inr () \<and>
     c = \<lparr>sc_account_id = i, sc_device_id = d, sc_token_family_id = f, sc_refresh_generation = g,
          sc_issuer = u, sc_audience = a, sc_subject = s, sc_refresh_token = t\<rparr>"
  by (auto simp: credential_new_def Let_def bindR_eq_Inr)

lemma encode_credential_Inr:
  "encode_credential ax c = Inr b \<longleftrightarrow> credential_validate c = Inr () \<and> b = ax_credential_to_vec ax (1, c)"
  by (auto simp: encode_credential_def bindR_eq_Inr)

lemma decode_encoded:
  assumes "codec_reads_back ax c" and "credential_validate c = Inr ()"
  shows "decode_credential ax (ax_credential_to_vec ax (1, c)) = Inr c"
  using assms by (simp add: codec_reads_back_def Let_def decode_credential_def credential_new_Inr)

text \<open>What decodes is valid, whatever is in the keyring.\<close>

lemma decoded_valid: "decode_credential ax b = Inr c \<Longrightarrow> credential_validate c = Inr ()"
  by (auto simp: decode_credential_def credential_new_Inr split: option.splits if_splits)

lemma stored_valid: "stored ax w = Inr (Some c) \<Longrightarrow> credential_validate c = Inr ()"
  by (auto simp: stored_def bindR_eq_Inr dest: decoded_valid split: option.splits)

text \<open>The keyring holds exactly this credential.\<close>

definition holds :: "account_ext \<Rightarrow> stored_credential \<Rightarrow> account_world \<Rightarrow> bool" where
  "holds ax c w \<longleftrightarrow> credential_validate c = Inr () \<and> aw_keyring w = Some (ax_b64 ax (ax_credential_to_vec ax (1, c)))"

lemma holds_stored: "codec_reads_back ax c \<Longrightarrow> holds ax c w \<Longrightarrow> stored ax w = Inr (Some c)"
  using decode_encoded[of ax c] by (auto simp: holds_def stored_def codec_reads_back_def Let_def)

lemma load_credential_Inr:
  "load_credential ax w = (Inr c, w') \<longleftrightarrow>
     \<not> aw_keyring_down w (aw_calls w) \<and> stored ax w = Inr c \<and> w' = tick w"
  by (auto simp: load_credential_def keyring_call_def)

lemma save_credential_Inr:
  "save_credential ax c w = (Inr x, w') \<Longrightarrow> holds ax c w'"
  by (auto simp: save_credential_def act_run lift_Inr encode_credential_Inr keyring_call_def holds_def
      simp del: lift_eq split: if_splits)

definition store_error :: "account_error \<Rightarrow> bool" where
  "store_error e \<longleftrightarrow> e = CredentialStoreFailure \<or> e = CredentialStoreUnavailable keyring_guidance"

lemma save_credential_Inl:
  "save_credential ax c w = (Inl e, w') \<Longrightarrow> aw_keyring w' = aw_keyring w \<and> store_error e"
  by (auto simp: save_credential_def bindA_eq_Inl keyring_call_def encode_credential_def bindR_eq_Inl
      credential_validate_def Let_def store_error_def tick_def split: if_splits)

lemma delete_credential_Inr:
  "delete_credential w = (Inr removed, w') \<Longrightarrow> aw_keyring w' = None \<and> (removed \<longleftrightarrow> aw_keyring w \<noteq> None)"
  by (auto simp: delete_credential_def keyring_call_def split: if_splits)

lemma delete_credential_Inl: "delete_credential w = (Inl e, w') \<Longrightarrow> keyring_same w w'"
  by (auto simp: delete_credential_def keyring_call_def keyring_same_def tick_def split: if_splits)

lemma delete_credential_keyring:
  "delete_credential w = (r, w') \<Longrightarrow> aw_keyring w' = None \<or> aw_keyring w' = aw_keyring w"
  by (auto simp: delete_credential_def keyring_call_def tick_def split: if_splits)

section \<open>Calls that leave the keyring alone\<close>

lemma same_trans: "keyring_same u v \<Longrightarrow> keyring_same v w \<Longrightarrow> keyring_same u w"
  by (simp add: keyring_same_def)

lemma send_request_same: "send_request cfg request d w = (r, w') \<Longrightarrow> keyring_same w w'"
  by (rule keepsD[OF keyring.keeps_send_request]) simp

lemma discover_provider_same: "discover_provider ax cfg d w = (r, w') \<Longrightarrow> keyring_same w w'"
  by (rule keepsD[OF keyring.keeps_discover_provider])

lemma fresh_secret_same: "fresh_secret ax w = (r, w') \<Longrightarrow> keyring_same w w'"
  by (rule keepsD[OF keyring.keeps_fresh_secret])

lemma validate_session_same: "validate_session ax cfg response provider nonce e w = (r, w') \<Longrightarrow> keyring_same w w'"
  by (rule keepsD[OF keyring.keeps_validate_session])

lemma best_effort_revoke_same: "best_effort_revoke ax cfg token w = (r, w') \<Longrightarrow> keyring_same w w'"
  by (rule keepsD[where m = "best_effort_revoke ax cfg token"])
    (auto simp: best_effort_revoke_def split: sum.split
      intro!: keyring.keeps_bindA keyring.keeps_attempt keyring.keeps_send_request keyring.keeps_ret)

lemma best_effort_revoke_total: "best_effort_revoke ax cfg token w \<noteq> (Inl e, w')"
  by (auto simp: best_effort_revoke_def bindA_def attempt_def split: sum.splits prod.splits)

lemma now_unix_same: "now_unix w = (r, w') \<Longrightarrow> keyring_same w w'"
  by (rule keepsD[OF keyring.keeps_now_unix])

lemma load_credential_same: "load_credential ax w = (r, w') \<Longrightarrow> keyring_same w w'"
  by (rule keepsD[OF keyring.keeps_keyring_read])

lemma ensure_before_same: "ensure_before d w = (r, w') \<Longrightarrow> keyring_same w w'"
  by (rule keepsD[OF keyring.keeps_ensure_before])

lemmas calls_same = send_request_same discover_provider_same fresh_secret_same validate_session_same
  best_effort_revoke_same now_unix_same load_credential_same ensure_before_same

section \<open>Sessions\<close>

lemma validate_session_Inr:
  assumes "validate_session ax cfg response provider nonce expected w = (Inr session, w')"
  obtains wire subject where "parse_success ax (ax_session ax) response 200 = Inr wire"
    and "session_wire_ok wire" and "rotation_ok cfg expected wire"
    and "verify_id_token ax provider cfg (sw_id_token wire) (Some nonce) (aw_now w') = Inr subject"
    and "credential_validate (ss_credential session) = Inr ()"
    and "ss_credential session =
      \<lparr>sc_account_id = sw_account_id wire, sc_device_id = sw_device_id wire,
       sc_token_family_id = sw_token_family_id wire, sc_refresh_generation = sw_refresh_generation wire,
       sc_issuer = ac_issuer cfg, sc_audience = ac_audience cfg, sc_subject = subject,
       sc_refresh_token = sw_refresh_token wire\<rparr>"
  using assms
  by (auto simp: validate_session_def act_run lift_Inr credential_new_Inr now_unix_def simp del: lift_eq
      split: if_splits)

text \<open>Forgetting a revoked session.\<close>

lemma forget_if_revoked_run:
  assumes "forget_if_revoked e w = (r, w')"
  shows "r = Inl e \<and> (aw_keyring w' = aw_keyring w \<or> aw_keyring w' = None \<and> revoked_error e)"
  using assms
  by (auto simp: forget_if_revoked_def bindA_def attempt_def dest: delete_credential_keyring
      split: if_splits prod.splits)

text \<open>The rotated credential is the stored one, one generation later.\<close>

definition successor :: "stored_credential \<Rightarrow> stored_credential \<Rightarrow> bool" where
  "successor c c' \<longleftrightarrow>
     sc_account_id c' = sc_account_id c \<and> sc_device_id c' = sc_device_id c \<and>
     sc_token_family_id c' = sc_token_family_id c \<and>
     unat (sc_refresh_generation c') = unat (sc_refresh_generation c) + 1 \<and>
     sc_refresh_token c' \<noteq> sc_refresh_token c"

lemma checked_add_64_Some: "checked_add_64 a 1 = Some b \<Longrightarrow> unat b = unat a + 1"
  by (auto simp: checked_add_64_def unat_word_ariths split: if_splits)

lemma rotation_successor:
  assumes "rotation_ok cfg (Some previous) wire"
    and "c = \<lparr>sc_account_id = sw_account_id wire, sc_device_id = sw_device_id wire,
       sc_token_family_id = sw_token_family_id wire, sc_refresh_generation = sw_refresh_generation wire,
       sc_issuer = u, sc_audience = a, sc_subject = subject, sc_refresh_token = sw_refresh_token wire\<rparr>"
  shows "successor previous c"
  using assms by (auto simp: rotation_ok_def successor_def dest!: sym[THEN checked_add_64_Some])

section \<open>Refreshing\<close>

lemmas same_keyring = calls_same[unfolded keyring_same_def]

text \<open>Running an operation branch by branch.\<close>

lemmas run_branches = bindA_def attempt_def lift_def ret_def throw_def map_err_def

lemma refresh_body_Inr:
  assumes "refresh_body ax cfg w = (Inr session, w')"
  shows "\<exists>previous. stored ax w = Inr (Some previous) \<and> successor previous (ss_credential session) \<and>
    holds ax (ss_credential session) w'"
  using assms unfolding refresh_body_def
  by (auto simp: run_branches load_credential_Inr split: if_splits option.splits sum.splits prod.splits
      elim!: validate_session_Inr dest!: save_credential_Inr dest: forget_if_revoked_run
      intro: rotation_successor)

text \<open>What a failing refresh can leave, by its error.\<close>

definition kept_or_forgotten :: "account_error \<Rightarrow> account_world \<Rightarrow> account_world \<Rightarrow> bool" where
  "kept_or_forgotten e w w' \<longleftrightarrow>
     aw_keyring w' = aw_keyring w \<or> aw_keyring w' = None \<and> (revoked_error e \<or> store_error e)"

lemma refresh_body_Inl:
  assumes "refresh_body ax cfg w = (Inl e, w')"
  shows "kept_or_forgotten e w w'"
  using assms unfolding refresh_body_def
  by (auto simp: run_branches kept_or_forgotten_def split: if_splits option.splits sum.splits prod.splits
      dest!: same_keyring[THEN sym] forget_if_revoked_run save_credential_Inl delete_credential_keyring)

lemma stored_cong: "aw_keyring w' = aw_keyring w \<Longrightarrow> stored ax w' = stored ax w"
  by (simp add: stored_def)

lemma holds_locked [simp]: "holds ax c (w\<lparr>aw_locked := b\<rparr>) \<longleftrightarrow> holds ax c w"
  by (simp add: holds_def)

lemma with_refresh_lock_run:
  assumes "with_refresh_lock t body w = (r, w')"
  obtains (busy) "r = Inl RefreshLockUnavailable" "w' = tick w"
  | (ran) w1 where "\<not> aw_locked w" "body ((tick w)\<lparr>aw_locked := True\<rparr>) = (r, w1)" "w' = w1\<lparr>aw_locked := False\<rparr>"
  using assms
  by (auto simp: with_refresh_lock_def bindA_def refresh_lock_acquire_def attempt_def refresh_lock_release_def
      lift_def split: if_splits prod.splits)

lemma refresh_access_Inr:
  assumes "refresh_access ax cfg w = (Inr session, w')"
  shows "\<exists>previous. stored ax w = Inr (Some previous) \<and> successor previous (ss_credential session) \<and>
    holds ax (ss_credential session) w'"
proof -
  from assms obtain w1 where "refresh_body ax cfg ((tick w)\<lparr>aw_locked := True\<rparr>) = (Inr session, w1)"
    and w': "w' = w1\<lparr>aw_locked := False\<rparr>"
    unfolding refresh_access_def by (auto elim: with_refresh_lock_run)
  moreover have "stored ax ((tick w)\<lparr>aw_locked := True\<rparr>) = stored ax w"
    by (rule stored_cong) (simp add: tick_def)
  ultimately show ?thesis
    using refresh_body_Inr[of ax cfg "(tick w)\<lparr>aw_locked := True\<rparr>" session w1]
    by (simp add: w')
qed

lemma refresh_access_Inl:
  assumes "refresh_access ax cfg w = (Inl e, w')"
  shows "kept_or_forgotten e w w'"
  using assms unfolding refresh_access_def
  by (auto elim!: with_refresh_lock_run dest!: refresh_body_Inl simp: kept_or_forgotten_def tick_def)

section \<open>What was asked and answered\<close>

definition exchanged ::
    "account_world \<Rightarrow> account_world \<Rightarrow> wire_request \<Rightarrow> account_error + wire_response \<Rightarrow> bool" where
  "exchanged w w' q a \<longleftrightarrow> (\<exists>new d. aw_sent w' = aw_sent w @ new \<and> (q, d, a) \<in> set new)"

definition log_grows :: "account_world \<Rightarrow> account_world \<Rightarrow> bool" where
  "log_grows w w' \<longleftrightarrow> prefix (aw_sent w) (aw_sent w')"

interpretation log: client_relation log_grows ax for ax :: account_ext
  by unfold_locales (auto simp: log_grows_def tick_def)

lemma exchanged_mono: "log_grows u v \<Longrightarrow> exchanged v w q a \<Longrightarrow> log_grows w x \<Longrightarrow> exchanged u x q a"
  unfolding exchanged_def log_grows_def prefix_def by fastforce

lemma send_request_exchanged:
  assumes "send_request cfg (Inr q) overall w = (a, w')"
  shows "exchanged w w' q a"
  using assms
  by (auto simp: send_request_def run_branches request_deadline_def now_unix_def send_def Let_def exchanged_def tick_def)

lemma send_request_Inr:
  assumes "send_request cfg request overall w = (Inr a, w')"
  shows "\<exists>q. request = Inr q \<and> exchanged w w' q (Inr a)"
proof (cases request)
  case (Inl e)
  with assms show ?thesis by (simp add: send_request_def bindA_def lift_def)
next
  case (Inr q)
  with assms show ?thesis using send_request_exchanged by blast
qed

lemma send_expecting_empty_Inr:
  assumes "send_expecting_empty ax cfg request w = (Inr x, w')"
  shows "\<exists>q a. request = Inr q \<and> exchanged w w' q (Inr a) \<and> wr_status a = 204"
  using assms
  by (auto simp: send_expecting_empty_def run_branches expect_empty_success_def
      split: prod.splits sum.splits if_splits dest!: send_request_Inr)

lemma send_expecting_empty_same: "send_expecting_empty ax cfg request w = (r, w') \<Longrightarrow> keyring_same w w'"
  by (rule keepsD[where m = "send_expecting_empty ax cfg request"])
    (auto simp: send_expecting_empty_def intro!: keyring.keeps_bindA keyring.keeps_lift keyring.keeps_send_request)

lemma revoke_devices_same: "revoke_devices ax cfg token ds w = (r, w') \<Longrightarrow> keyring_same w w'"
proof (induction ds arbitrary: w)
  case Nil
  then show ?case by (simp add: keyring_same_def)
next
  case (Cons d ds)
  then show ?case
    by (auto simp: bindA_def split: prod.splits sum.splits dest!: send_expecting_empty_same
        dest: Cons.IH intro: same_trans)
qed

lemma list_devices_same: "list_devices_with_access ax cfg token w = (r, w') \<Longrightarrow> keyring_same w w'"
  by (rule keepsD[where m = "list_devices_with_access ax cfg token"])
    (auto simp: list_devices_with_access_def
      intro!: keyring.keeps_bindA keyring.keeps_lift keyring.keeps_send_request keyring.keeps_ret keyring.keeps_throw)

section \<open>Which errors say that the session is revoked\<close>

named_theorems not_revoked \<open>errors that do not say so\<close>

text \<open>Outside the account server nobody claims it: not the identity provider, not the random source.\<close>

definition outside_never_revokes :: "account_world \<Rightarrow> bool" where
  "outside_never_revokes w \<longleftrightarrow>
     (\<forall>n k u e. aw_document w n k u = Inl e \<longrightarrow> \<not> revoked_error e) \<and>
     (\<forall>n e. aw_random w n = Inl e \<longrightarrow> \<not> revoked_error e)"

definition oracles_same :: "account_world \<Rightarrow> account_world \<Rightarrow> bool" where
  "oracles_same w w' \<longleftrightarrow> aw_document w' = aw_document w \<and> aw_random w' = aw_random w"

interpretation oracles: client_relation oracles_same ax for ax :: account_ext
  by unfold_locales (auto simp: oracles_same_def tick_def)

lemma outside_never_revokes_kept: "oracles_same w w' \<Longrightarrow> outside_never_revokes w' \<longleftrightarrow> outside_never_revokes w"
  by (simp add: oracles_same_def outside_never_revokes_def)

lemma validate_https_url_error [not_revoked]: "validate_https_url u q = Inl e \<Longrightarrow> \<not> revoked_error e"
  by (auto simp: validate_https_url_def revoked_error_def split: if_splits)

lemma validate_oidc_url_error [not_revoked]: "validate_oidc_url ax cfg u q = Inl e \<Longrightarrow> \<not> revoked_error e"
  by (auto simp: validate_oidc_url_def origin_key_def bindR_eq_Inl revoked_error_def validate_https_url_def
      split: if_splits)

lemma parse_document_error [not_revoked]: "parse_document f r = Inl e \<Longrightarrow> \<not> revoked_error e"
  by (auto simp: parse_document_def revoked_error_def split: if_splits option.splits)

lemma discovery_url_error [not_revoked]: "discovery_url ax u = Inl e \<Longrightarrow> \<not> revoked_error e"
  by (auto simp: discovery_url_def revoked_error_def split: option.splits)

lemma discover_error:
  assumes "discover ax cfg d w = (Inl e, w')" and "outside_never_revokes w"
  shows "\<not> revoked_error e"
proof -
  have doc: "get_oidc_document k u d v = (Inl e, v') \<Longrightarrow> oracles_same w v \<Longrightarrow> \<not> revoked_error e" for k u v v'
    using assms(2) by (auto simp: get_oidc_document_def oracles_same_def outside_never_revokes_def)
  have first: "get_oidc_document k u d w = (Inl e, v) \<Longrightarrow> \<not> revoked_error e" for k u v
    by (erule doc) (rule oracles.R_refl)
  have second: "get_oidc_document k u d w = (r, v) \<Longrightarrow> get_oidc_document k' u' d v = (Inl e, v') \<Longrightarrow>
      \<not> revoked_error e" for k u v r k' u' v'
    by (erule doc) (rule keepsD[OF oracles.keeps_get_oidc_document])
  have throw: "\<not> revoked_error OidcVerification"
    by (simp add: revoked_error_def)
  from assms(1) show ?thesis
    unfolding discover_def
    by (auto simp: run_branches throw split: if_splits sum.splits prod.splits dest: not_revoked first second)
qed

lemma ensure_before_error: "ensure_before d w = (Inl e, w') \<Longrightarrow> e = Cancelled \<or> e = DeadlineExceeded"
  by (auto simp: ensure_before_def run_branches cancelled_def now_unix_def split: if_splits)

lemma discover_provider_error:
  assumes "discover_provider ax cfg d w = (Inl e, w')" and "outside_never_revokes w"
  shows "\<not> revoked_error e"
proof -
  have "ensure_before d w = (r, v) \<Longrightarrow> request_deadline cfg d v = (r', v') \<Longrightarrow> outside_never_revokes v'" for r r' v v'
    using assms(2) keepsD[OF oracles.keeps_ensure_before] keepsD[OF oracles.keeps_request_deadline]
    by (metis outside_never_revokes_kept)
  with assms(1) show ?thesis
    by (auto simp: discover_provider_def bindA_def split: prod.splits sum.splits
        dest!: ensure_before_error dest: discover_error simp: revoked_error_def)
      (auto simp: request_deadline_def run_branches now_unix_def revoked_error_def)
qed

lemma wire_request_validate_error: "wire_request_validate ax r = Inl e \<Longrightarrow> e = UnsafeRequest"
  by (auto simp: wire_request_validate_def validate_account_payload_def parse_endpoint_def endpoint_id_def
      bindR_eq_Inl split: if_splits option.splits)

lemma refresh_request_error [not_revoked]: "refresh_request ax i t n = Inl e \<Longrightarrow> \<not> revoked_error e"
  by (auto simp: refresh_request_def request_json_def request_of_def Let_def bindR_eq_Inl revoked_error_def
      dest: wire_request_validate_error)

lemma decode_part_error: "decode_part ax v = Inl e \<Longrightarrow> e = OidcVerification"
  by (auto simp: decode_part_def split: if_splits option.splits)

lemma decode_json_part_error: "decode_json_part ax f v = Inl e \<Longrightarrow> e = OidcVerification"
  by (auto simp: decode_json_part_def bindR_eq_Inl dest: decode_part_error split: option.splits)

lemma verify_id_token_error:
  assumes "verify_id_token ax provider cfg compact nonce now = Inl e"
  shows "e = OidcVerification"
proof -
  have component: "decode_jwk_component ax v = Inl e' \<Longrightarrow> e' = OidcVerification" for v e'
    by (auto simp: decode_jwk_component_def bindR_eq_Inl dest: decode_part_error split: if_splits)
  have key: "select_key provider h = Inl e' \<Longrightarrow> e' = OidcVerification" for h e'
    by (auto simp: select_key_def split: list.splits if_splits)
  have rest: "validate_claims cfg claims nonce now = Inl e' \<Longrightarrow> e' = OidcVerification"
    "verify_rsa_signature ax a n x m s = Inl e' \<Longrightarrow> e' = OidcVerification" for claims a n x m s e'
    by (auto simp: validate_claims_def verify_rsa_signature_def split: if_splits)
  show ?thesis
    using assms unfolding verify_id_token_def
    by (auto simp: bindR_eq_Inl Let_def split: if_splits list.splits
        dest: decode_json_part_error decode_part_error component key rest)
qed

lemma validate_session_error:
  assumes "validate_session ax cfg response provider nonce expected w = (Inl e, w')" and "revoked_error e"
  shows "e = map_error_response ax response"
  using assms
  by (auto simp: validate_session_def run_branches now_unix_def parse_success_def revoked_error_def
      credential_new_def Let_def bindR_eq_Inl credential_validate_def
      split: if_splits option.splits sum.splits dest!: verify_id_token_error)

text \<open>The server answered a refresh with the revocation.\<close>

definition refresh_revoked :: "account_ext \<Rightarrow> account_world \<Rightarrow> account_world \<Rightarrow> account_error \<Rightarrow> bool" where
  "refresh_revoked ax w w' e \<longleftrightarrow>
     (\<exists>q a. exchanged w w' q a \<and> wq_endpoint q = Refresh \<and>
        (case a of Inl e' \<Rightarrow> e' = e | Inr response \<Rightarrow> map_error_response ax response = e))"

lemma refresh_request_endpoint: "refresh_request ax i t n = Inr q \<Longrightarrow> wq_endpoint q = Refresh"
  by (auto simp: refresh_request_def request_json_def request_of_def Let_def bindR_eq_Inr)

lemma load_credential_error [not_revoked]: "load_credential ax w = (Inl e, w') \<Longrightarrow> \<not> revoked_error e"
  by (auto simp: load_credential_def keyring_call_def stored_def decode_credential_def credential_new_def
      credential_validate_def Let_def bindR_eq_Inl revoked_error_def split: if_splits option.splits)

lemma refresh_exchanged:
  assumes "load_credential ax w = (r1, w1)" and "discover_provider ax cfg d w1 = (r2, w2)"
    and "fresh_secret ax w2 = (r3, w3)" and "send_request cfg (Inr q) d w3 = (a, w4)" and "log_grows w4 w'"
  shows "exchanged w w' q a"
proof -
  have "log_grows w w3"
    using assms(1-3) keepsD[OF log.keeps_load_credential] keepsD[OF log.keeps_discover_provider]
      keepsD[OF log.keeps_fresh_secret] log.R_trans by metis
  then show ?thesis
    using send_request_exchanged[OF assms(4)] assms(5) by (rule exchanged_mono)
qed

lemma refresh_body_revoked:
  assumes "refresh_body ax cfg w = (Inl e, w')" and "revoked_error e" and "outside_never_revokes w"
  shows "refresh_revoked ax w w' e"
proof -
  have before: "outside_never_revokes w1" if "load_credential ax w = (r, w1)" for r w1
    using that assms(3) keepsD[OF oracles.keeps_load_credential] outside_never_revokes_kept by metis
  have no_discover: "discover_provider ax cfg d w1 = (Inl e, w2) \<Longrightarrow> load_credential ax w = (r, w1) \<Longrightarrow> False"
    for d w1 w2 r
    using discover_provider_error before assms(2) by blast
  have "outside_never_revokes w2"
    if "load_credential ax w = (r, w1)" "discover_provider ax cfg d w1 = (r', w2)" for r r' w1 w2 d
    using that before keepsD[OF oracles.keeps_discover_provider] outside_never_revokes_kept by metis
  then have no_fresh: "load_credential ax w = (r, w1) \<Longrightarrow> discover_provider ax cfg d w1 = (r', w2) \<Longrightarrow>
      fresh_secret ax w2 = (Inl e, w3) \<Longrightarrow> False" for r r' w1 w2 w3 d
    using assms(2) by (fastforce simp: fresh_secret_def fill_random_def run_branches outside_never_revokes_def
        split: sum.splits)
  have answer: "refresh_revoked ax w w' e"
    if "load_credential ax w = (r1, w1)" "discover_provider ax cfg d w1 = (r2, w2)" "fresh_secret ax w2 = (r3, w3)"
      "refresh_request ax i t n = Inr q" "send_request cfg (Inr q) d w3 = (a, w4)" "log_grows w4 w'"
      "case a of Inl e' \<Rightarrow> e' = e | Inr response \<Rightarrow> map_error_response ax response = e"
    for r1 w1 d r2 w2 r3 w3 i t n q a w4
    using refresh_exchanged[OF that(1,2,3,5,6)] refresh_request_endpoint[OF that(4)] that(7)
    unfolding refresh_revoked_def by blast
  have tail: "forget_if_revoked e' v = (r, w') \<Longrightarrow> log_grows v w'"
    "validate_session ax cfg response provider nonce expected v = (r', w') \<Longrightarrow> log_grows v w'"
    for e' v r r' response provider nonce expected
    by (erule keepsD[rotated], rule log.keeps_forget_if_revoked log.keeps_validate_session)+
  have other: "\<not> revoked_error NotSignedIn" "\<not> revoked_error CredentialStoreFailure"
      "store_error e \<Longrightarrow> False"
    using assms(2) by (auto simp: revoked_error_def store_error_def)
  have forgot: "forget_if_revoked e' v = (Inl e, w') \<Longrightarrow> e' = e" for e' v
    using forget_if_revoked_run by blast
  note session = validate_session_error[OF _ assms(2)]
  have saved: "save_credential ax c v = (Inl e, v') \<Longrightarrow> False" for c v v'
    using save_credential_Inl other(3) by blast
  from assms(1,2) show ?thesis
    unfolding refresh_body_def
    by (auto simp: run_branches other best_effort_revoke_total
        split: if_splits option.splits sum.splits prod.splits
        dest: not_revoked no_discover no_fresh saved)
      (erule (4) answer, erule tail, auto dest: forgot session)+
qed

end
