(* ===== verification/Account_Login.thy ===== *)
theory Account_Login
  imports Account_Sessions
begin

text \<open>
  Signing out and signing in: what a sign-out that demands the remote revocation may remove, what a
  sign-in stores, and how long the polling of the token endpoint can last.
\<close>

lemma tick_keyring [simp]: "aw_keyring (tick w) = aw_keyring w"
  by (simp add: tick_def)

section \<open>Refreshing, seen from outside\<close>

lemma refresh_access_revoked:
  assumes "refresh_access ax cfg w = (Inl e, w')" and "revoked_error e" and "outside_never_revokes w"
  shows "refresh_revoked ax w w' e"
proof -
  let ?w = "(tick w)\<lparr>aw_locked := True\<rparr>"
  from assms(1,2) obtain w1 where "refresh_body ax cfg ?w = (Inl e, w1)" and w': "w' = w1\<lparr>aw_locked := False\<rparr>"
    unfolding refresh_access_def by (auto simp: revoked_error_def elim: with_refresh_lock_run)
  moreover have "outside_never_revokes ?w"
    using assms(3) by (simp add: outside_never_revokes_def tick_def)
  ultimately have "refresh_revoked ax ?w w1 e"
    using assms(2) refresh_body_revoked by blast
  then show ?thesis
    by (simp add: refresh_revoked_def exchanged_def w' tick_def)
qed

section \<open>Signing out\<close>

text \<open>A server said that the session is over.\<close>

definition revocation_confirmed :: "account_ext \<Rightarrow> account_world \<Rightarrow> account_world \<Rightarrow> bool" where
  "revocation_confirmed ax w w' \<longleftrightarrow>
     (\<exists>q a. exchanged w w' q (Inr a) \<and> wq_endpoint q = RevokeTokenFamily \<and> wr_status a = 204) \<or>
     (\<exists>e. revoked_error e \<and> refresh_revoked ax w w' e)"

lemma revoke_request_endpoint: "revoke_request ax t = Inr q \<Longrightarrow> wq_endpoint q = RevokeTokenFamily"
  by (auto simp: revoke_request_def request_json_def request_of_def Let_def bindR_eq_Inr)

lemma logout_revoking_Inr:
  assumes "logout_revoking ax cfg scope active w = (Inr res, w')"
  shows "lo_remote_revoked res \<and> aw_keyring w' = None \<and> revocation_confirmed ax w w'"
proof -
  let ?first = "if scope = AllDevices
     then bindA (list_devices_with_access ax cfg (ss_access_token active)) (revoke_devices ax cfg (ss_access_token active))
     else ret ()"
  from assms obtain w1 w2 removed where first: "?first w = (Inr (), w1)"
    and revoke: "send_expecting_empty ax cfg (revoke_request ax (ss_access_token active)) w1 = (Inr (), w2)"
    and delete: "delete_credential w2 = (Inr removed, w')" and res: "lo_remote_revoked res"
    by (auto simp: logout_revoking_def bindA_eq_Inr logout_result_of_def)
  have "keeps log_grows ?first"
    by (intro keeps_if log.keeps_bindA log.keeps_list_devices_with_access log.keeps_revoke_devices log.keeps_ret)
  then have "log_grows w w1" using first by (rule keepsD)
  moreover have "log_grows w2 w'" using log.keeps_delete_credential delete by (rule keepsD)
  moreover obtain q a where "exchanged w1 w2 q (Inr a)" "wq_endpoint q = RevokeTokenFamily" "wr_status a = 204"
    using send_expecting_empty_Inr[OF revoke] revoke_request_endpoint by blast
  ultimately have "revocation_confirmed ax w w'"
    unfolding revocation_confirmed_def using exchanged_mono by blast
  with res delete_credential_Inr[OF delete] show ?thesis by simp
qed

lemma logout_revoking_Inl:
  assumes "logout_revoking ax cfg scope active w = (Inl e, w')"
  shows "aw_keyring w' = aw_keyring w"
  using assms
  by (auto simp: logout_revoking_def run_branches split: if_splits prod.splits sum.splits
      dest!: list_devices_same revoke_devices_same send_expecting_empty_same delete_credential_Inl
      simp: keyring_same_def)

text \<open>A success that demanded the revocation.\<close>

lemma logout_required_Inr:
  assumes "logout ax cfg scope RequireRemoteRevocation w = (Inr res, w')" and "outside_never_revokes w"
  shows "stored ax w = Inr None \<and> aw_keyring w' = aw_keyring w \<or>
    lo_remote_revoked res \<and> aw_keyring w' = None \<and> revocation_confirmed ax w w'"
proof -
  have after_load: "outside_never_revokes (tick w)" using assms(2) by (simp add: outside_never_revokes_def tick_def)
  have extend: "revocation_confirmed ax u v \<Longrightarrow> log_grows w u \<Longrightarrow> log_grows v x \<Longrightarrow> revocation_confirmed ax w x"
    for u v x
    unfolding revocation_confirmed_def refresh_revoked_def using exchanged_mono by blast
  have tick: "log_grows w (tick w)" by (rule log.R_tick)
  have refreshed: "refresh_access ax cfg (tick w) = (r, w1) \<Longrightarrow> log_grows w w1" for r w1
    using keepsD[OF log.keeps_refresh_access] tick log.R_trans by blast
  have deleted: "delete_credential v = (r, v') \<Longrightarrow> log_grows v v'" for v r v'
    by (rule keepsD[OF log.keeps_delete_credential])
  have revoked: "refresh_access ax cfg (tick w) = (Inl e, w1) \<Longrightarrow> revoked_error e \<Longrightarrow>
      revocation_confirmed ax (tick w) w1" for e w1
    unfolding revocation_confirmed_def using refresh_access_revoked after_load by blast
  show ?thesis
    using assms(1) unfolding logout_def
    by (auto simp: run_branches load_credential_Inr logout_result_of_def
        split: if_splits prod.splits sum.splits
        dest: logout_revoking_Inr delete_credential_Inr)
      (blast intro: extend tick refreshed deleted revoked log.R_refl dest: logout_revoking_Inr)+
qed

text \<open>The credential is still there, as it was or one generation later.\<close>

definition still_signed_in :: "account_ext \<Rightarrow> account_world \<Rightarrow> account_world \<Rightarrow> bool" where
  "still_signed_in ax w w' \<longleftrightarrow>
     aw_keyring w' = aw_keyring w \<or> (\<exists>c c'. stored ax w = Inr (Some c) \<and> successor c c' \<and> holds ax c' w')"

lemma logout_required_Inl:
  assumes "logout ax cfg scope RequireRemoteRevocation w = (Inl e, w')"
  shows "still_signed_in ax w w' \<or> aw_keyring w' = None \<and> (revoked_error e \<or> store_error e)"
proof -
  have stored_tick: "stored ax (tick w) = stored ax w" by (rule stored_cong) simp
  have rotated: "refresh_access ax cfg (tick w) = (Inr s, w1) \<Longrightarrow> aw_keyring w' = aw_keyring w1 \<Longrightarrow>
      still_signed_in ax w w'" for s w1
    using refresh_access_Inr[of ax cfg "tick w" s w1] stored_tick
    by (auto simp: still_signed_in_def holds_def)
  have failed: "refresh_access ax cfg (tick w) = (Inl e', w1) \<Longrightarrow>
      aw_keyring w1 = aw_keyring w \<or> aw_keyring w1 = None \<and> (revoked_error e' \<or> store_error e')" for e' w1
    using refresh_access_Inl[of ax cfg "tick w" e' w1] by (simp add: kept_or_forgotten_def)
  have kinds: "\<not> (unreachable_error x \<and> revoked_error x)" "\<not> (unreachable_error x \<and> store_error x)" for x
    by (auto simp: unreachable_error_def revoked_error_def store_error_def)
  have delete: "delete_credential v = (Inl e', v') \<Longrightarrow> aw_keyring v' = aw_keyring v \<and> store_error e'" for v e' v'
    by (auto simp: delete_credential_def keyring_call_def store_error_def split: if_splits)
  have load: "load_credential ax w = (r, w1) \<Longrightarrow> aw_keyring w1 = aw_keyring w \<and> (r = Inl e \<or> w1 = tick w)" for r w1
    by (auto simp: load_credential_def keyring_call_def split: if_splits)
  show ?thesis
    using assms unfolding logout_def
    by (auto simp: run_branches split: if_splits prod.splits sum.splits dest!: load
        dest: failed logout_revoking_Inl delete intro: rotated simp: kinds)
      (use kinds in \<open>auto simp: still_signed_in_def dest!: delete failed\<close>)
qed

text \<open>
  Signing in: the provider a sign-in trusts, what an accepted ID token says, what is stored, and how
  long the polling of the token endpoint can last.
\<close>

section \<open>The provider and its tokens\<close>

text \<open>The configured issuer, with endpoints on allowed HTTPS origins.\<close>

definition trusted_provider :: "account_ext \<Rightarrow> account_config \<Rightarrow> validated_provider \<Rightarrow> bool" where
  "trusted_provider ax cfg provider \<longleftrightarrow>
     (let d = vp_discovery provider in
      url_eq (dc_issuer d) (ac_issuer cfg) \<and>
      (\<forall>u \<in> {dc_authorization_endpoint d, dc_jwks_uri d}.
         u_scheme u = ''https'' \<and> ax_origin ax u \<in> ac_allowed_oidc_origins cfg) \<and>
      vp_jwks provider \<noteq> [] \<and> length (vp_jwks provider) \<le> 100)"

lemma validate_oidc_url_Inr:
  "validate_oidc_url ax cfg u q = Inr () \<Longrightarrow> u_scheme u = ''https'' \<and> ax_origin ax u \<in> ac_allowed_oidc_origins cfg"
  by (auto simp: validate_oidc_url_def origin_key_def validate_https_url_def split: if_splits)

lemma discover_trusted: "discover ax cfg d w = (Inr provider, w') \<Longrightarrow> trusted_provider ax cfg provider"
  by (auto simp: discover_def run_branches trusted_provider_def Let_def split: if_splits sum.splits prod.splits
      dest: validate_oidc_url_Inr)

lemma discover_provider_trusted:
  "discover_provider ax cfg d w = (Inr provider, w') \<Longrightarrow> trusted_provider ax cfg provider"
  by (auto simp: discover_provider_def act_run dest: discover_trusted)

text \<open>
  The token that is accepted: signed, over its header and claims as they stand in it, by the one key
  of the provider its header names, for this client, now, and for the nonce of this sign-in.
\<close>

definition token_accepted ::
    "account_ext \<Rightarrow> validated_provider \<Rightarrow> account_config \<Rightarrow> bytes \<Rightarrow> secret \<Rightarrow> nat \<Rightarrow> bytes \<Rightarrow> bool" where
  "token_accepted ax provider cfg compact nonce now subject \<longleftrightarrow>
     (\<exists>h c s header claims signature key modulus exponent.
        split_at_char (CHR ''.'') compact = [h, c, s] \<and>
        decode_json_part ax (ax_header ax) h = Inr header \<and>
        decode_json_part ax (ax_claims ax) c = Inr claims \<and>
        decode_part ax s = Inr signature \<and>
        key \<in> set (vp_jwks provider) \<and> jk_kid key = th_kid header \<and>
        (\<forall>k \<in> set (vp_jwks provider). jk_kid k = th_kid header \<longrightarrow> k = key) \<and>
        th_alg header \<in> set (dc_algorithms (vp_discovery provider)) \<and>
        is_supported_algorithm (th_alg header) \<and>
        decode_jwk_component ax (jk_n key) = Inr modulus \<and>
        decode_jwk_component ax (jk_e key) = Inr exponent \<and>
        ax_rsa_verify ax (th_alg header) modulus exponent (take (length h + length c + 1) compact) signature \<and>
        tc_iss claims = u_text (ac_issuer cfg) \<and> ac_audience cfg \<in> set (audiences_of (tc_aud claims)) \<and>
        now < tc_exp claims \<and> tc_iat claims < tc_exp claims \<and>
        tc_nonce claims = Some nonce \<and> tc_sub claims = subject)"

lemma select_key_Inr:
  assumes "select_key provider header = Inr key"
  shows "key \<in> set (vp_jwks provider) \<and> jk_kid key = th_kid header \<and>
    (\<forall>k \<in> set (vp_jwks provider). jk_kid k = th_kid header \<longrightarrow> k = key)"
proof -
  have "filter (\<lambda>k. jk_kid k = th_kid header) (vp_jwks provider) = [key]"
    using assms by (auto simp: select_key_def split: list.splits if_splits)
  then have "set (filter (\<lambda>k. jk_kid k = th_kid header) (vp_jwks provider)) = {key}" by simp
  then show ?thesis by auto
qed

lemma validate_claims_Inr:
  "validate_claims cfg claims (Some nonce) now = Inr subject \<Longrightarrow>
     tc_iss claims = u_text (ac_issuer cfg) \<and> ac_audience cfg \<in> set (audiences_of (tc_aud claims)) \<and>
     now < tc_exp claims \<and> tc_iat claims < tc_exp claims \<and> tc_nonce claims = Some nonce \<and> tc_sub claims = subject"
  by (auto simp: validate_claims_def audiences_ok_def nonce_ok_def split: if_splits option.splits)

lemma three_parts:
  "(case xs of [a, b, c] \<Rightarrow> f a b c | _ \<Rightarrow> Inl e) = Inr y \<longleftrightarrow> (\<exists>a b c. xs = [a, b, c] \<and> f a b c = Inr y)"
  by (auto split: list.splits)

lemma if_Inr: "(if b then Inl e else x) = Inr y \<longleftrightarrow> \<not> b \<and> x = Inr y"
  by simp

lemma verify_id_token_Inr:
  assumes "verify_id_token ax provider cfg compact (Some nonce) now = Inr subject"
  shows "token_accepted ax provider cfg compact nonce now subject"
proof -
  from assms obtain h c s header claims signature key modulus exponent u
    where split: "split_at_char (CHR ''.'') compact = [h, c, s]"
      and parts: "decode_json_part ax (ax_header ax) h = Inr header"
        "decode_json_part ax (ax_claims ax) c = Inr claims" "decode_part ax s = Inr signature"
      and header: "header_ok provider header signature"
      and key: "select_key provider header = Inr key"
      and components: "decode_jwk_component ax (jk_n key) = Inr modulus" "decode_jwk_component ax (jk_e key) = Inr exponent"
      and rsa: "verify_rsa_signature ax (th_alg header) modulus exponent
        (take (length h + length c + 1) compact) signature = Inr u"
      and claims: "validate_claims cfg claims (Some nonce) now = Inr subject"
    unfolding verify_id_token_def if_Inr three_parts bindR_eq_Inr Let_def not_not by blast
  from header have algorithm: "th_alg header \<in> set (dc_algorithms (vp_discovery provider))"
      "is_supported_algorithm (th_alg header)"
    unfolding header_ok_def by blast+
  from rsa have verified: "ax_rsa_verify ax (th_alg header) modulus exponent
      (take (length h + length c + 1) compact) signature"
    unfolding verify_rsa_signature_def by (metis Inl_Inr_False)
  show ?thesis
    unfolding token_accepted_def
    using split parts select_key_Inr[OF key] algorithm components verified validate_claims_Inr[OF claims]
    by blast
qed

section \<open>What a sign-in stores\<close>

text \<open>
  The credential of an answer: the first of its family, with the identifiers of the answer and the
  subject of its ID token.
\<close>

definition signed_in_by ::
    "account_ext \<Rightarrow> account_config \<Rightarrow> secret \<Rightarrow> wire_response \<Rightarrow> stored_credential \<Rightarrow> bool" where
  "signed_in_by ax cfg nonce response c \<longleftrightarrow>
     (\<exists>wire provider now. trusted_provider ax cfg provider \<and>
        wr_status response = 200 \<and> ax_session ax (wr_body response) = Some wire \<and>
        token_accepted ax provider cfg (sw_id_token wire) nonce now (sc_subject c) \<and>
        sc_account_id c = sw_account_id wire \<and> sc_device_id c = sw_device_id wire \<and>
        sc_token_family_id c = sw_token_family_id wire \<and> sc_refresh_token c = sw_refresh_token wire \<and>
        sc_refresh_generation c = 0 \<and> sc_issuer c = ac_issuer cfg \<and> sc_audience c = ac_audience cfg)"

lemma first_session:
  assumes "validate_session ax cfg response provider nonce None w = (Inr session, w')"
    and "trusted_provider ax cfg provider"
  shows "signed_in_by ax cfg nonce response (ss_credential session)"
  using assms(1)
proof (rule validate_session_Inr)
  fix wire subject
  assume "parse_success ax (ax_session ax) response 200 = Inr wire" and "rotation_ok cfg None wire"
    and "verify_id_token ax provider cfg (sw_id_token wire) (Some nonce) (aw_now w') = Inr subject"
    and "ss_credential session =
      \<lparr>sc_account_id = sw_account_id wire, sc_device_id = sw_device_id wire,
       sc_token_family_id = sw_token_family_id wire, sc_refresh_generation = sw_refresh_generation wire,
       sc_issuer = ac_issuer cfg, sc_audience = ac_audience cfg, sc_subject = subject,
       sc_refresh_token = sw_refresh_token wire\<rparr>"
  with assms(2) show ?thesis
    unfolding signed_in_by_def
    by (intro exI[of _ wire] exI[of _ provider] exI[of _ "aw_now w'"])
      (auto simp: parse_success_def rotation_ok_def split: if_splits option.splits dest: verify_id_token_Inr)
qed

lemma publish_login_Inr:
  assumes "publish_login ax cfg session w = (Inr res, w')"
  shows "holds ax (ss_credential session) w' \<and> lr_account_id res = sc_account_id (ss_credential session) \<and>
    lr_device_id res = sc_device_id (ss_credential session)"
  using assms
  by (auto simp: publish_login_def run_branches split: sum.splits prod.splits dest: save_credential_Inr)

lemma publish_login_Inl:
  "publish_login ax cfg session w = (Inl e, w') \<Longrightarrow> keyring_same w w'"
  by (auto simp: publish_login_def run_branches keyring_same_def split: sum.splits prod.splits
      dest!: save_credential_Inl best_effort_revoke_same)

text \<open>The outcome of a sign-in: nothing, or the credential an answer of the server supports.\<close>

definition sign_in_outcome ::
    "account_ext \<Rightarrow> account_config \<Rightarrow> account_world \<Rightarrow> account_error + login_result \<Rightarrow> account_world \<Rightarrow> bool" where
  "sign_in_outcome ax cfg w r w' \<longleftrightarrow>
     (case r of
        Inl e \<Rightarrow> aw_keyring w' = aw_keyring w
      | Inr res \<Rightarrow>
          \<exists>q response nonce c. exchanged w w' q (Inr response) \<and> signed_in_by ax cfg nonce response c \<and>
            holds ax c w' \<and> lr_account_id res = sc_account_id c \<and> lr_device_id res = sc_device_id c)"

lemma cancelled_same: "cancelled w = (r, w') \<Longrightarrow> keyring_same w w'"
  by (rule keepsD[OF keyring.keeps_cancelled])

lemma sleep_same: "sleep d w = (r, w') \<Longrightarrow> keyring_same w w'"
  by (rule keepsD[OF keyring.keeps_sleep]) simp_all

lemma ensure_signed_out_same: "ensure_signed_out ax w = (r, w') \<Longrightarrow> keyring_same w w'"
  by (auto simp: ensure_signed_out_def run_branches split: if_splits sum.splits prod.splits dest: load_credential_same)

lemmas sign_in_same = same_keyring ensure_signed_out_same[unfolded keyring_same_def]
  cancelled_same[unfolded keyring_same_def] sleep_same[unfolded keyring_same_def]
  publish_login_Inl[unfolded keyring_same_def]

text \<open>From the answer to the stored credential.\<close>

definition finish_login ::
    "account_ext \<Rightarrow> account_config \<Rightarrow> wire_response \<Rightarrow> validated_provider \<Rightarrow> secret \<Rightarrow> login_result client" where
  "finish_login ax cfg response provider nonce =
     bindA (validate_session ax cfg response provider nonce None) (publish_login ax cfg)"

lemma finish_login_outcome:
  assumes "finish_login ax cfg response provider nonce w1 = (r, w')" and "trusted_provider ax cfg provider"
    and "exchanged w w1 q (Inr response)" and "aw_keyring w1 = aw_keyring w"
  shows "sign_in_outcome ax cfg w r w'"
proof (cases r)
  case (Inl e)
  with assms(1,4) show ?thesis
    by (auto simp: sign_in_outcome_def finish_login_def bindA_def split: sum.splits prod.splits dest!: sign_in_same)
next
  case (Inr res)
  with assms(1) obtain session w2 where session: "validate_session ax cfg response provider nonce None w1 = (Inr session, w2)"
    and publish: "publish_login ax cfg session w2 = (Inr res, w')"
    by (auto simp: finish_login_def bindA_eq_Inr)
  have "log_grows w1 w'"
    using keepsD[OF log.keeps_validate_session session] keepsD[OF log.keeps_publish_login publish] log.R_trans by blast
  then have "exchanged w w' q (Inr response)"
    using exchanged_mono[OF log.R_refl assms(3)] by blast
  moreover have "signed_in_by ax cfg nonce response (ss_credential session)"
    using session assms(2) by (rule first_session)
  ultimately show ?thesis
    using publish_login_Inr[OF publish] Inr unfolding sign_in_outcome_def by auto
qed

text \<open>The calls on the way to the answer only add to what was asked and answered.\<close>

lemmas log_calls =
  log.R_trans[rotated, OF keepsD[OF log.keeps_ensure_signed_out]]
  log.R_trans[rotated, OF keepsD[OF log.keeps_now_unix]]
  log.R_trans[rotated, OF keepsD[OF log.keeps_cancelled]]
  log.R_trans[rotated, OF keepsD[OF log.keeps_ensure_before]]
  log.R_trans[rotated, OF keepsD[OF log.keeps_discover_provider]]
  log.R_trans[rotated, OF keepsD[OF log.keeps_fresh_secret]]

lemma answer_login:
  assumes "finish_login ax cfg response provider nonce w1 = (r, w')"
    and "send_request cfg request d w0 = (Inr response, w1)"
    and "log_grows w w0" and "aw_keyring w0 = aw_keyring w" and "trusted_provider ax cfg provider"
  shows "sign_in_outcome ax cfg w r w'"
proof -
  from send_request_Inr[OF assms(2)] obtain q where "exchanged w0 w1 q (Inr response)" by blast
  then have "exchanged w w1 q (Inr response)"
    using exchanged_mono[OF assms(3) _ log.R_refl] by blast
  then show ?thesis
    using finish_login_outcome[OF assms(1,5)] same_keyring(1)[OF assms(2)] assms(4) by simp
qed

lemma login_pkce_outcome:
  assumes "login_pkce ax cfg interaction display w = (r, w')"
  shows "sign_in_outcome ax cfg w r w'"
proof -
  have early: "aw_keyring w' = aw_keyring w \<Longrightarrow> sign_in_outcome ax cfg w (Inl e) w'" for e
    by (simp add: sign_in_outcome_def)
  show ?thesis
    using assms unfolding login_pkce_def Let_def finish_login_def[symmetric]
    by (auto simp: run_branches split: if_splits sum.splits prod.splits)
      ((rule early, (auto dest!: sign_in_same)[1])+,
       erule (1) answer_login, ((erule log_calls)+, rule log.R_refl), (auto dest!: sign_in_same)[1],
       erule discover_provider_trusted)
qed

text \<open>With a device code, on whatever fuel: a run that the fuel ends has stored nothing.\<close>

definition device_outcome ::
    "account_ext \<Rightarrow> account_config \<Rightarrow> account_world \<Rightarrow> account_error + login_result option \<Rightarrow> account_world \<Rightarrow> bool" where
  "device_outcome ax cfg w r w' \<longleftrightarrow>
     (case r of Inr (Some res) \<Rightarrow> sign_in_outcome ax cfg w (Inr res) w' | _ \<Rightarrow> aw_keyring w' = aw_keyring w)"

lemma finish_device:
  assumes "bindA (validate_session ax cfg response provider nonce None) (\<lambda>session.
      bindA (publish_login ax cfg session) (\<lambda>result. ret (Some result))) w1 = (r, w')"
    and "send_request cfg request d w0 = (Inr response, w1)"
    and "log_grows w w0" and "aw_keyring w0 = aw_keyring w" and "trusted_provider ax cfg provider"
  shows "device_outcome ax cfg w r w'"
proof -
  obtain r1 where "finish_login ax cfg response provider nonce w1 = (r1, w')" and "r = map_sum id Some r1"
    using assms(1) by (auto simp: finish_login_def run_branches split: sum.splits prod.splits)
  moreover from this(1) have "sign_in_outcome ax cfg w r1 w'"
    using assms(2-5) by (rule answer_login)
  ultimately show ?thesis
    by (cases r1) (auto simp: device_outcome_def sign_in_outcome_def)
qed

lemma log_sleep: "sleep d v = (r, v') \<Longrightarrow> log_grows w v \<Longrightarrow> log_grows w v'"
  by (auto simp: sleep_def Let_def log_grows_def tick_def)

lemma log_send: "send_request cfg request d v = (r, v') \<Longrightarrow> log_grows w v \<Longrightarrow> log_grows w v'"
  by (rule log.R_trans) (auto simp: send_request_def run_branches request_deadline_def now_unix_def send_def Let_def
      log_grows_def tick_def split: sum.splits)

text \<open>One round of the loop, up to its answer.\<close>

lemmas poll_branches = bindA_def[of cancelled] bindA_def[of "map_err f m" for f m] bindA_def[of "sleep d" for d]
  bindA_def[of "send_request c q d" for c q d] bindA_def[of "lift a" for a] throw_def lift_def map_err_def

lemma poll_loop_outcome:
  assumes "poll_loop fuel ax cfg provider nonce device_code deadline interval v = (r, w')"
    and "log_grows w v" and "aw_keyring v = aw_keyring w" and "trusted_provider ax cfg provider"
  shows "device_outcome ax cfg w r w'"
  using assms
proof (induction fuel arbitrary: interval v)
  case 0
  then show ?case by (simp add: device_outcome_def)
next
  case (Suc fuel)
  have early: "aw_keyring w' = aw_keyring w \<Longrightarrow> device_outcome ax cfg w (Inl e) w'" for e
    by (simp add: device_outcome_def)
  from Suc.prems(1) show ?case
    unfolding poll_loop.simps
    by (auto simp: poll_branches split: if_splits sum.splits prod.splits device_poll_error.splits)
      (rule early, (auto simp: Suc.prems(3) dest!: sign_in_same)[1]
       | (erule (1) finish_device | erule Suc.IH),
         ((erule log_calls log_sleep log_send)+, rule Suc.prems(2)), (auto simp: Suc.prems(3) dest!: sign_in_same)[1],
         rule Suc.prems(4))+
qed

lemma login_device_outcome:
  assumes "login_device fuel ax cfg display_prompt display w = (r, w')"
  shows "device_outcome ax cfg w r w'"
proof -
  have early: "aw_keyring w' = aw_keyring w \<Longrightarrow> device_outcome ax cfg w (Inl e) w'" for e
    by (simp add: device_outcome_def)
  show ?thesis
    using assms unfolding login_device_def Let_def
    by (auto simp: run_branches split: if_splits sum.splits prod.splits)
      (rule early, (auto dest!: sign_in_same)[1]
       | erule poll_loop_outcome, ((erule log_calls log_send)+, rule log.R_refl), (auto dest!: sign_in_same)[1],
         erule discover_provider_trusted)+
qed

section \<open>The polling loop ends\<close>

lemma clock_calls:
  "cancelled v = (r1, v') \<Longrightarrow> aw_now v \<le> aw_now v'"
  "ensure_before d v = (r2, v') \<Longrightarrow> aw_now v \<le> aw_now v'"
  "send_request cfg request d v = (r3, v') \<Longrightarrow> aw_now v \<le> aw_now v'"
  "now_unix v = (r4, v') \<Longrightarrow> aw_now v \<le> aw_now v'"
  "discover_provider ax cfg d v = (r5, v') \<Longrightarrow> aw_now v \<le> aw_now v'"
  "fresh_secret ax v = (r6, v') \<Longrightarrow> aw_now v \<le> aw_now v'"
proof -
  show "send_request cfg request d v = (r3, v') \<Longrightarrow> aw_now v \<le> aw_now v'"
    by (auto simp: send_request_def run_branches request_deadline_def now_unix_def send_def Let_def tick_def
        split: sum.splits)
qed (auto simp: clock_runs_on_def dest: keepsD[OF clock.keeps_cancelled] keepsD[OF clock.keeps_ensure_before]
      keepsD[OF clock.keeps_now_unix] keepsD[OF clock.keeps_discover_provider] keepsD[OF clock.keeps_fresh_secret])

lemma ensure_before_Inr: "ensure_before d v = (Inr x, v') \<Longrightarrow> aw_now v \<le> aw_now v' \<and> aw_now v' < d"
  by (auto simp: ensure_before_def run_branches cancelled_def now_unix_def tick_def split: if_splits)

lemma sleep_now: "sleep (from_secs i) v = (r, v') \<Longrightarrow> aw_now v + i \<le> aw_now v'"
  by (auto simp: sleep_def Let_def tick_def)

text \<open>
  Every round passes a deadline check and then sleeps at least a second, so the seconds left before
  the deadline bound the number of rounds.
\<close>

lemma poll_loop_returns:
  assumes "poll_loop fuel ax cfg provider nonce device_code deadline interval v = (r, w')"
    and "1 \<le> interval" and "deadline - aw_now v < fuel"
  shows "r \<noteq> Inr None"
  using assms
proof (induction fuel arbitrary: interval v r)
  case 0
  then show ?case by simp
next
  case (Suc fuel)
  have round: "deadline - aw_now i < fuel"
    if "cancelled v = (r1, a)" "ensure_before deadline a = (Inr r2, b)" "sleep (from_secs interval) b = (r3, c)"
      "cancelled c = (r4, e)" "ensure_before deadline e = (Inr r5, g)" "send_request cfg request d g = (r6, i)"
    for r1 a r2 b r3 c r4 e r5 g request d r6 i
    using clock_calls(1)[OF that(1)] ensure_before_Inr[OF that(2)] sleep_now[OF that(3)] clock_calls(1)[OF that(4)]
      ensure_before_Inr[OF that(5)] clock_calls(3)[OF that(6)] Suc.prems(2,3)
    by linarith
  have again: "poll_loop fuel ax cfg provider nonce device_code deadline i u = (Inr None, w') \<Longrightarrow> 1 \<le> i \<Longrightarrow>
      deadline - aw_now u < fuel \<Longrightarrow> False" for i u
    using Suc.IH by blast
  from Suc.prems(1) show ?case
    unfolding poll_loop.simps
    by (auto simp: poll_branches split: if_splits sum.splits prod.splits device_poll_error.splits)
      ((auto simp: run_branches split: sum.splits prod.splits)[1]
       | erule again, simp add: Suc.prems(2) slower_bounds(1) del: One_nat_def, rule round, assumption+)+
qed

text \<open>A fuel above the configured device timeout, in seconds, is never used up.\<close>

lemma login_device_returns:
  assumes "login_device fuel ax cfg display_prompt display w = (r, w')"
    and "as_secs (ac_device_timeout cfg) < fuel"
  shows "r \<noteq> Inr None"
proof -
  have loop: "poll_loop fuel ax cfg provider nonce device_code (min (saturating_add started timeout) expires) interval v =
      (Inr None, w') \<Longrightarrow> 1 \<le> interval \<Longrightarrow> started \<le> aw_now v \<Longrightarrow> timeout < fuel \<Longrightarrow> False"
    for provider nonce device_code started timeout expires interval v
    by (drule poll_loop_returns) (auto simp: saturating_add_def)
  have started: "n \<le> aw_now f"
    if "now_unix v = (Inr n, a)" "discover_provider ax cfg d a = (r1, b)" "fresh_secret ax b = (r2, c)"
      "send_request cfg request d' c = (r3, e)" "now_unix e = (r4, f)"
    for v n a d r1 b r2 c request d' r3 e r4 f
    using clock_calls(5)[OF that(2)] clock_calls(6)[OF that(3)] clock_calls(3)[OF that(4)] clock_calls(4)[OF that(5)] that(1)
    by (auto simp: now_unix_def)
  have bound: "device_authorization_ok a n s t \<Longrightarrow> 1 \<le> da_interval_seconds a" for a n s t
    by (simp add: device_authorization_ok_def)
  show ?thesis
    using assms unfolding login_device_def Let_def
    by (auto simp: run_branches split: if_splits sum.splits prod.splits)
      (erule loop, erule bound, rule started, assumption+)
qed

end
