(* ===== verification/Demo_Account.thy ===== *)
theory Demo_Account
  imports Account_Login
begin

text \<open>
  A small account server, with stand-ins for the crates, on which the statements about the account
  client are applied: one account, an identity provider with one key, a credential of generation zero.
\<close>

section \<open>The parties\<close>

definition demo_url :: "bytes \<Rightarrow> url" where
  "demo_url u =
     \<lparr>u_text = u, u_scheme = ''https'', u_host = Some (Domain ''kal.example''), u_username = [], u_password = None,
      u_port = None, u_path = ''/'', u_query = None, u_fragment = None\<rparr>"

definition demo_issuer :: url where
  "demo_issuer = demo_url ''https://kal.example/''"

definition demo_account_config :: account_config where
  "demo_account_config =
     \<lparr>ac_control_plane_origin = demo_issuer, ac_issuer = demo_issuer, ac_audience = ''manager'',
      ac_public_client_id = ''manager'', ac_loopback_callback_path = ''/callback'',
      ac_request_timeout = from_secs 15, ac_interactive_timeout = from_secs 300,
      ac_device_timeout = from_secs 600, ac_allowed_oidc_origins = {''https://kal.example''}\<rparr>"

definition demo_secret :: "char \<Rightarrow> secret" where
  "demo_secret c = replicate 32 c"

definition demo_id_token :: bytes where
  "demo_id_token = ''hhhhhhhhhhhhhhhh.cccccccccccccccc.ssss''"

definition demo_session :: "64 word \<Rightarrow> char \<Rightarrow> session_wire" where
  "demo_session generation refresh =
     \<lparr>sw_token_type = ''Bearer'', sw_access_token = demo_secret CHR ''a'', sw_refresh_token = demo_secret refresh,
      sw_id_token = demo_id_token, sw_expires_in = 600, sw_account_id = 1, sw_device_id = 2,
      sw_token_family_id = 3, sw_refresh_generation = generation\<rparr>"

definition demo_credential :: "64 word \<Rightarrow> char \<Rightarrow> stored_credential" where
  "demo_credential generation refresh =
     \<lparr>sc_account_id = 1, sc_device_id = 2, sc_token_family_id = 3, sc_refresh_generation = generation,
      sc_issuer = demo_issuer, sc_audience = ''manager'', sc_subject = ''user'',
      sc_refresh_token = demo_secret refresh\<rparr>"

definition demo_discovery :: discovery_document where
  "demo_discovery =
     \<lparr>dc_issuer = demo_issuer, dc_authorization_endpoint = demo_url ''https://kal.example/authorize'',
      dc_jwks_uri = demo_url ''https://kal.example/keys'', dc_algorithms = [''RS256'']\<rparr>"

definition demo_key :: rsa_jwk where
  "demo_key = \<lparr>jk_kty = ''RSA'', jk_kid = ''k'', jk_use = None, jk_alg = None, jk_n = ''n'', jk_e = ''e''\<rparr>"

definition demo_device_authorization :: device_authorization_wire where
  "demo_device_authorization =
     \<lparr>da_device_code = demo_secret CHR ''d'', da_user_code = ''ABCD'', da_verification_uri = demo_issuer,
      da_expires_at = 400, da_interval_seconds = 5\<rparr>"

text \<open>The generation a credential or a session has is its serialization here.\<close>

definition demo_account_ext :: account_ext where
  "demo_account_ext =
     \<lparr>ax_uuid_print = \<lambda>i. replicate (unat i) (CHR ''0''), ax_uuid_parse = \<lambda>s. Some (of_nat (length s)),
      ax_origin = \<lambda>_. ''https://kal.example'', ax_join = \<lambda>_ p. Some (demo_url p), ax_url_parse = \<lambda>s. Some (demo_url s),
      ax_append_pairs = \<lambda>u _. u, ax_query_pairs = \<lambda>_. [], ax_clear_query = \<lambda>u. u,
      ax_value = \<lambda>_. Some (JObj []), ax_to_vec = \<lambda>_. ''{}'',
      ax_session = \<lambda>b. Some (if b = ''0'' then demo_session 0 CHR ''r'' else demo_session 1 CHR ''s''),
      ax_device_authorization = \<lambda>_. Some demo_device_authorization,
      ax_account = \<lambda>_. Some 1, ax_link = \<lambda>_. None, ax_identities = \<lambda>_. Some [], ax_devices = \<lambda>_. Some [],
      ax_error = \<lambda>b. Some b, ax_discovery = \<lambda>_. Some demo_discovery, ax_jwks = \<lambda>_. Some [demo_key],
      ax_header = \<lambda>_. Some \<lparr>th_alg = ''RS256'', th_kid = ''k'', th_typ = None, th_crit = None\<rparr>,
      ax_claims = \<lambda>_. Some \<lparr>tc_iss = ''https://kal.example/'', tc_aud = AudOne ''manager'', tc_azp = None,
        tc_sub = ''user'', tc_exp = 1000, tc_iat = 0, tc_nonce = Some (demo_secret CHR ''n'')\<rparr>,
      ax_credential = \<lambda>b. Some (1, if b = ''0'' then demo_credential 0 CHR ''r'' else demo_credential 1 CHR ''s''),
      ax_credential_to_vec = \<lambda>(_, c). if sc_refresh_generation c = 0 then ''0'' else ''1'',
      ax_b64url = \<lambda>b. b, ax_b64url_decode = \<lambda>b. Some b, ax_b64 = \<lambda>b. b, ax_b64_decode = \<lambda>b. Some b,
      ax_sha256 = \<lambda>b. b, ax_rsa_key = \<lambda>_ _. True, ax_rsa_verify = \<lambda>_ _ _ _ _. True\<rparr>"

text \<open>The server's answers, by endpoint, and a world that starts from them.\<close>

fun demo_reply :: "account_error + wire_response \<Rightarrow> account_endpoint \<Rightarrow> account_error + wire_response" where
  "demo_reply refresh Refresh = refresh"
| "demo_reply refresh ExchangePkce = Inr \<lparr>wr_status = 200, wr_body = ''0''\<rparr>"
| "demo_reply refresh PollDeviceAuthorization = Inr \<lparr>wr_status = 200, wr_body = ''0''\<rparr>"
| "demo_reply refresh BeginDeviceAuthorization = Inr \<lparr>wr_status = 200, wr_body = ''d''\<rparr>"
| "demo_reply refresh RevokeTokenFamily = Inr \<lparr>wr_status = 204, wr_body = []\<rparr>"
| "demo_reply refresh _ = Inl Offline"

definition demo_account_world :: "bytes option \<Rightarrow> account_error + wire_response \<Rightarrow> account_world" where
  "demo_account_world keyring refresh =
     \<lparr>aw_keyring = keyring, aw_locked = False, aw_now = 0, aw_calls = 0, aw_sent = [], aw_slept = [],
      aw_delay = \<lambda>_. 0, aw_random = \<lambda>_. Inr (demo_secret CHR ''n''), aw_cancelled = \<lambda>_. False,
      aw_keyring_down = \<lambda>_. False, aw_lock_busy = \<lambda>_. False,
      aw_reply = \<lambda>_ r. demo_reply refresh (wq_endpoint r),
      aw_document = \<lambda>_ _ _. Inr \<lparr>wr_status = 200, wr_body = []\<rparr>\<rparr>"

definition demo_rotates :: "account_error + wire_response" where
  "demo_rotates = Inr \<lparr>wr_status = 200, wr_body = ''1''\<rparr>"

definition demo_revokes :: "account_error + wire_response" where
  "demo_revokes = Inr \<lparr>wr_status = 400, wr_body = ''session_revoked''\<rparr>"

definition demo_provider :: validated_provider where
  "demo_provider = \<lparr>vp_discovery = demo_discovery, vp_jwks = [demo_key]\<rparr>"

section \<open>Pure stages\<close>

lemma demo_secret_ok [simp]:
  "is_bounded_ascii (demo_secret CHR ''a'')" "is_bounded_ascii (demo_secret CHR ''d'')"
  "is_bounded_ascii (demo_secret CHR ''n'')" "is_bounded_ascii (demo_secret CHR ''r'')"
  "is_bounded_ascii (demo_secret CHR ''s'')"
  by code_simp+

lemma demo_secret_eq [simp]: "demo_secret c = demo_secret d \<longleftrightarrow> c = d"
  by (simp add: demo_secret_def)

lemma demo_oidc_url [simp]: "validate_oidc_url demo_account_ext demo_account_config (demo_url u) q = Inr ()"
  by (simp add: validate_oidc_url_def origin_key_def validate_https_url_def demo_url_def demo_account_ext_def
      demo_account_config_def)

lemma demo_first_party [simp]:
  "validate_first_party_verification_url demo_account_ext demo_account_config (demo_url u) = Inr ()"
  by (simp add: validate_first_party_verification_url_def origin_key_def validate_https_url_def demo_url_def
      demo_account_ext_def demo_account_config_def demo_issuer_def)

lemma demo_uuid: "ax_uuid_parse demo_account_ext (ax_uuid_print demo_account_ext i) = Some i"
  by (simp add: demo_account_ext_def)

lemma demo_request:
  assumes "endpoint_authentication e = AccountAccessToken \<longleftrightarrow> t \<noteq> None" and "\<And>s. t = Some s \<Longrightarrow> is_bounded_ascii s"
  shows "request_json demo_account_ext e t v = Inr \<lparr>wq_endpoint = e, wq_access_token = t, wq_body = ''{}''\<rparr>"
proof -
  have "parse_endpoint demo_account_ext (endpoint_method e) (endpoint_path demo_account_ext e) = Inr e"
    by (rule endpoint_parses_back) (rule demo_uuid)
  moreover have "validate_account_payload demo_account_ext ''{}'' = Inr ()"
    by (simp add: validate_account_payload_def max_account_body_bytes_def demo_account_ext_def)
  ultimately show ?thesis
    using assms(1,2)
    by (cases t) (simp_all add: request_json_def request_of_def Let_def wire_request_validate_def
        max_account_body_bytes_def demo_account_ext_def)
qed

lemma demo_request_public [simp]:
  "endpoint_authentication e \<noteq> AccountAccessToken \<Longrightarrow>
     request_json demo_account_ext e None v = Inr \<lparr>wq_endpoint = e, wq_access_token = None, wq_body = ''{}''\<rparr>"
  by (rule demo_request) simp_all

lemma demo_request_token [simp]:
  "endpoint_authentication e = AccountAccessToken \<Longrightarrow> is_bounded_ascii t \<Longrightarrow>
     request_json demo_account_ext e (Some t) v =
       Inr \<lparr>wq_endpoint = e, wq_access_token = Some t, wq_body = ''{}''\<rparr>"
  by (rule demo_request) simp_all

lemma demo_token_parts:
  "split_at_char CHR ''.'' demo_id_token = [''hhhhhhhhhhhhhhhh'', ''cccccccccccccccc'', ''ssss'']"
  "is_ascii demo_id_token" "is_bounded_ascii demo_id_token"
  by code_simp+

lemma demo_verify:
  assumes "now < 1000"
  shows "verify_id_token demo_account_ext demo_provider demo_account_config demo_id_token
    (Some (demo_secret CHR ''n'')) now = Inr ''user''"
proof -
  have claims: "validate_claims demo_account_config
      \<lparr>tc_iss = ''https://kal.example/'', tc_aud = AudOne ''manager'', tc_azp = None,
        tc_sub = ''user'', tc_exp = 1000, tc_iat = 0, tc_nonce = Some (demo_secret CHR ''n'')\<rparr>
      (Some (demo_secret CHR ''n'')) now = Inr ''user''"
    using assms
    by (simp add: validate_claims_def demo_account_config_def demo_issuer_def demo_url_def audiences_ok_def
        audiences_of_def nonce_ok_def is_ascii_def)
  show ?thesis
    by (simp add: verify_id_token_def demo_token_parts decode_json_part_def decode_part_def max_jwt_part_bytes_def
        max_compact_token_bytes_def demo_id_token_def[THEN arg_cong[of _ _ length]] demo_account_ext_def header_ok_def
        demo_provider_def demo_discovery_def is_supported_algorithm_def select_key_def demo_key_def
        key_ok_def decode_jwk_component_def verify_rsa_signature_def Let_def claims)
qed

lemma demo_discovery_fields:
  "dc_issuer demo_discovery = demo_issuer" "dc_jwks_uri demo_discovery = demo_url ''https://kal.example/keys''"
  "dc_authorization_endpoint demo_discovery = demo_url ''https://kal.example/authorize''"
  "dc_algorithms demo_discovery = [''RS256'']"
  by (simp_all add: demo_discovery_def)

lemma demo_discover [simp]:
  assumes "aw_document w = (\<lambda>_ _ _. Inr \<lparr>wr_status = 200, wr_body = []\<rparr>)"
  shows "discover demo_account_ext demo_account_config d w = (Inr demo_provider, tick (tick w))"
proof -
  have "discovery_url demo_account_ext (ac_issuer demo_account_config) =
      Inr (demo_url (trim_end_slashes ''https://kal.example/'' @ ''/.well-known/openid-configuration''))"
    by (simp add: discovery_url_def demo_account_ext_def demo_account_config_def demo_issuer_def demo_url_def)
  moreover have "url_eq (dc_issuer demo_discovery) (ac_issuer demo_account_config)"
    by (simp add: url_eq_def demo_discovery_fields demo_account_config_def)
  moreover have "parse_document (ax_discovery demo_account_ext) \<lparr>wr_status = 200, wr_body = []\<rparr> = Inr demo_discovery"
    "parse_document (ax_jwks demo_account_ext) \<lparr>wr_status = 200, wr_body = []\<rparr> = Inr [demo_key]"
    by (simp_all add: parse_document_def demo_account_ext_def)
  ultimately show ?thesis
    using assms
    by (simp add: discover_def run_branches get_oidc_document_def demo_discovery_fields is_supported_algorithm_def
        demo_provider_def tick_def)
qed

lemma demo_saturating: "n < 1000 \<Longrightarrow> saturating_add n k = min (n + k) (2 ^ 64 - 1)"
  by (simp add: saturating_add_def u64_max_def)

lemma demo_credential_ok [simp]:
  "credential_validate (demo_credential g CHR ''r'') = Inr ()" "credential_validate (demo_credential g CHR ''s'') = Inr ()"
  by (simp_all add: credential_validate_def demo_credential_def demo_issuer_def demo_url_def Let_def is_ascii_def)

lemma demo_reads_back: "codec_reads_back demo_account_ext (demo_credential 1 CHR ''s'')"
  by (simp add: codec_reads_back_def Let_def demo_account_ext_def demo_credential_def)

lemma demo_stored [simp]:
  "aw_keyring w = Some ''0'' \<Longrightarrow> stored demo_account_ext w = Inr (Some (demo_credential 0 CHR ''r''))"
  "aw_keyring w = None \<Longrightarrow> stored demo_account_ext w = Inr None"
proof -
  have "credential_new 1 2 3 0 demo_issuer ''manager'' ''user'' (demo_secret CHR ''r'') = Inr (demo_credential 0 CHR ''r'')"
    using demo_credential_ok(1)[of 0] by (simp add: credential_new_def Let_def demo_credential_def)
  then show "aw_keyring w = Some ''0'' \<Longrightarrow> stored demo_account_ext w = Inr (Some (demo_credential 0 CHR ''r''))"
    by (simp add: stored_def demo_account_ext_def decode_credential_def demo_credential_def)
qed (simp add: stored_def)

lemma demo_session_valid:
  assumes "aw_now (tick w) < 1000" and "rotation_ok demo_account_config expected (demo_session g c)"
    and "is_bounded_ascii (demo_secret c)" and "c \<noteq> CHR ''a''" and "wr_status response = 200"
    and "ax_session demo_account_ext (wr_body response) = Some (demo_session g c)"
    and "length (wr_body response) \<le> 65536"
  shows "validate_session demo_account_ext demo_account_config response demo_provider (demo_secret CHR ''n'') expected w =
    (Inr \<lparr>ss_access_token = demo_secret CHR ''a'', ss_credential = demo_credential g c\<rparr>, tick w)"
proof -
  have "parse_success demo_account_ext (ax_session demo_account_ext) response 200 = Inr (demo_session g c)"
    using assms(5-7) by (simp add: parse_success_def max_account_body_bytes_def)
  moreover have "session_wire_ok (demo_session g c)"
    using assms(3,4) by (simp add: session_wire_ok_def demo_session_def demo_token_parts)
  moreover have "verify_id_token demo_account_ext demo_provider demo_account_config
      (sw_id_token (demo_session g c)) (Some (demo_secret CHR ''n'')) (aw_now (tick w)) = Inr ''user''"
    using demo_verify[OF assms(1)] by (simp add: demo_session_def)
  moreover have "credential_new 1 2 3 g demo_issuer ''manager'' ''user'' (demo_secret c) = Inr (demo_credential g c)"
    using assms(3)
    by (simp add: credential_new_def credential_validate_def Let_def demo_credential_def demo_issuer_def demo_url_def
        is_ascii_def)
  ultimately show ?thesis
    using assms(2)
    by (simp add: validate_session_def run_branches now_unix_def)
      (simp add: demo_session_def demo_account_config_def)
qed

section \<open>A refresh\<close>

abbreviation "demo_keyring \<equiv> demo_account_world (Some ''0'')"

lemmas demo_run = run_branches Let_def load_credential_def keyring_call_def discover_provider_def ensure_before_def
  cancelled_def now_unix_def request_deadline_def fresh_secret_def fill_random_def send_request_def send_def
  save_credential_def encode_credential_def delete_credential_def tick_def

lemmas demo_calls = refresh_request_def revoke_request_def

lemma demo_rotation: "rotation_ok demo_account_config (Some (demo_credential 0 CHR ''r'')) (demo_session 1 CHR ''s'')"
  by (simp add: rotation_ok_def demo_credential_def demo_session_def demo_account_config_def url_eq_def checked_add_64_def)

lemma demo_fields [simp]:
  "sc_account_id (demo_credential g c) = 1" "sc_issuer (demo_credential g c) = demo_issuer" "sc_audience (demo_credential g c) = ''manager''"
  "sc_refresh_generation (demo_credential g c) = g" "sc_device_id (demo_credential g c) = 2"
  "ac_issuer demo_account_config = demo_issuer" "ac_audience demo_account_config = ''manager''"
  "as_secs (ac_request_timeout demo_account_config) = 15" "as_secs (ac_device_timeout demo_account_config) = 600"
  "as_secs (ac_interactive_timeout demo_account_config) = 300"
  "ax_b64url demo_account_ext b = b" "ax_b64 demo_account_ext b = b"
  "ax_session demo_account_ext b = Some (if b = ''0'' then demo_session 0 CHR ''r'' else demo_session 1 CHR ''s'')"
  "ax_credential_to_vec demo_account_ext (Suc 0, c') = (if sc_refresh_generation c' = 0 then ''0'' else ''1'')"
  by (simp_all add: demo_credential_def demo_account_config_def demo_account_ext_def)

lemma demo_rotated [simp]:
  "aw_now (tick w) < 1000 \<Longrightarrow>
     validate_session demo_account_ext demo_account_config \<lparr>wr_status = 200, wr_body = ''1''\<rparr> demo_provider
       (demo_secret CHR ''n'') (Some (demo_credential 0 CHR ''r'')) w =
     (Inr \<lparr>ss_access_token = demo_secret CHR ''a'', ss_credential = demo_credential 1 CHR ''s''\<rparr>, tick w)"
  by (rule demo_session_valid) (simp_all add: demo_rotation)

lemma demo_first [simp]:
  "aw_now (tick w) < 1000 \<Longrightarrow>
     validate_session demo_account_ext demo_account_config \<lparr>wr_status = 200, wr_body = ''0''\<rparr> demo_provider
       (demo_secret CHR ''n'') None w =
     (Inr \<lparr>ss_access_token = demo_secret CHR ''a'', ss_credential = demo_credential 0 CHR ''r''\<rparr>, tick w)"
  by (rule demo_session_valid) (simp_all add: rotation_ok_def, simp_all add: demo_session_def)

lemmas demo_refreshing = refresh_access_def with_refresh_lock_def refresh_lock_acquire_def refresh_lock_release_def
  refresh_body_def demo_calls demo_account_world_def url_eq_def u64_max_def

lemma demo_refresh:
  "fst (refresh_access demo_account_ext demo_account_config (demo_keyring demo_rotates)) =
     Inr \<lparr>ss_access_token = demo_secret CHR ''a'', ss_credential = demo_credential 1 CHR ''s''\<rparr>"
  by (simp add: demo_refreshing demo_run demo_rotates_def)

section \<open>Signing out\<close>

definition demo_logout :: "local_logout_policy \<Rightarrow> account_world \<Rightarrow> (account_error + logout_result) \<times> account_world" where
  "demo_logout = logout demo_account_ext demo_account_config CurrentSession"

lemma demo_logout_confirmed:
  "fst (demo_logout RequireRemoteRevocation (demo_keyring demo_rotates)) =
     Inr (logout_result_of ''session_revoked'' True True None)"
  by (simp add: demo_logout_def logout_def logout_revoking_def send_expecting_empty_def expect_empty_success_def
      demo_refreshing demo_run demo_rotates_def)

lemma demo_logout_offline:
  "fst (demo_logout RequireRemoteRevocation (demo_keyring (Inl Offline))) = Inl RemoteRevocationUnconfirmed"
  by (simp add: demo_logout_def logout_def forget_if_revoked_def revoked_error_def unreachable_error_def
      demo_refreshing demo_run)

lemma demo_refresh_revoked:
  "fst (refresh_access demo_account_ext demo_account_config (tick (demo_keyring demo_revokes))) = Inl SessionRevoked"
  "aw_keyring (snd (refresh_access demo_account_ext demo_account_config (tick (demo_keyring demo_revokes)))) = None"
  "aw_keyring_down (snd (refresh_access demo_account_ext demo_account_config (tick (demo_keyring demo_revokes)))) = (\<lambda>_. False)"
  by (simp_all add: forget_if_revoked_def revoked_error_def map_error_response_def demo_account_ext_def[THEN arg_cong[of _ _ ax_error]] demo_refreshing demo_run demo_revokes_def)

section \<open>Signing in\<close>

definition demo_display :: device_display where
  "demo_display = \<lparr>dd_product_name = ''K'', dd_device_label = ''L'', dd_platform = Linux, dd_application_version = ''1''\<rparr>"

definition demo_redirect :: url where
  "demo_redirect =
     \<lparr>u_text = ''http://127.0.0.1:9000/callback'', u_scheme = ''http'', u_host = Some (Ipv4 (127 * 2 ^ 24 + 1)),
      u_username = [], u_password = None, u_port = Some 9000, u_path = ''/callback'', u_query = None, u_fragment = None\<rparr>"

definition demo_interaction :: pkce_interaction where
  "demo_interaction =
     \<lparr>pi_prepare_redirect = \<lambda>_. Inr demo_redirect,
      pi_authorize = \<lambda>_ _. Inr \<lparr>pc_redirect_uri = demo_redirect, pc_code = demo_secret CHR ''a'',
                               pc_state = demo_secret CHR ''n''\<rparr>\<rparr>"

abbreviation "demo_empty \<equiv> demo_account_world None (Inl Offline)"

lemma demo_display_ok: "device_display_validate demo_display"
  by (simp add: device_display_validate_def demo_display_def looks_like_absolute_path_def starts_with_def)

lemma demo_redirect_ok:
  "validate_loopback_redirect demo_redirect (ac_loopback_callback_path demo_account_config) = Inr ()"
  by (simp add: validate_loopback_redirect_def demo_redirect_def demo_account_config_def)

lemma demo_authorization:
  "ax_append_pairs demo_account_ext u kvs = u" "vp_discovery demo_provider = demo_discovery"
  "parse_success demo_account_ext (ax_device_authorization demo_account_ext) \<lparr>wr_status = 200, wr_body = ''d''\<rparr> 200 =
     Inr demo_device_authorization"
  by (simp_all add: demo_account_ext_def demo_provider_def parse_success_def max_account_body_bytes_def)

lemma demo_device_ok:
  "device_authorization_ok demo_device_authorization 0 0 (ac_device_timeout demo_account_config)"
  by (simp add: device_authorization_ok_def demo_device_authorization_def max_device_poll_interval_seconds_def
      demo_saturating valid_user_code_def is_ascii_def ascii_alnum_def)

lemma demo_device_fields:
  "da_device_code demo_device_authorization = demo_secret CHR ''d''" "da_expires_at demo_device_authorization = 400"
  "da_interval_seconds demo_device_authorization = 5" "da_verification_uri demo_device_authorization = demo_issuer"
  "validate_first_party_verification_url demo_account_ext demo_account_config demo_issuer = Inr ()"
  by (simp_all add: demo_device_authorization_def demo_issuer_def)

lemmas demo_signing_in = ensure_signed_out_def demo_display_ok publish_login_def demo_authorization demo_saturating
  demo_refreshing demo_run

lemma demo_login_pkce:
  "fst (login_pkce demo_account_ext demo_account_config demo_interaction demo_display demo_empty) =
     Inr \<lparr>lr_status = ''signed_in'', lr_account_id = 1, lr_device_id = 2\<rparr>"
  by (simp add: login_pkce_def demo_interaction_def demo_redirect_ok build_authorization_url_def callback_ok_def
      exchange_pkce_request_def demo_signing_in demo_discovery_fields)

lemma demo_login_device:
  "fst (login_device 601 demo_account_ext demo_account_config (\<lambda>_. Inr ()) demo_display demo_empty) =
     Inr (Some \<lparr>lr_status = ''signed_in'', lr_account_id = 1, lr_device_id = 2\<rparr>)"
proof -
  have "poll_loop 601 ax cfg provider nonce code deadline i = poll_loop (Suc 600) ax cfg provider nonce code deadline i"
    for ax cfg provider nonce code deadline i by simp
  note round = this[unfolded poll_loop.simps(2)]
  show ?thesis
    by (simp add: login_device_def begin_device_request_def poll_device_request_def demo_signing_in demo_device_ok
        demo_device_fields sleep_def round)
qed

end
