(* ===== verification/Account_Properties.thy ===== *)
theory Account_Properties
  imports Demo_Account
begin

text \<open>
  The properties of the account client, each over the lemmas of \<open>Account_Correct\<close>,
  \<open>Account_Sessions\<close> and \<open>Account_Login\<close>.
\<close>

section \<open>What leaves the machine\<close>

text \<open>C19. However often the client runs, in whatever order and with whatever answers, errors and delays
  of the outside, everything it sends keeps the contract of a request: a bearer token exactly on the endpoints
  that authenticate by one, at most 64 KiB of body, and in the body no forbidden key and no absolute path.
  It sleeps between one and thirty seconds at a time, and it leaves the refresh lock as it found it.\<close>

theorem requests_keep_contract:
  assumes "(client_step ax cfg)\<^sup>*\<^sup>* w w'" and "aw_sent w = []" and "aw_slept w = []"
  shows "(\<forall>(q, d, a) \<in> set (aw_sent w'). request_contract ax q) \<and>
    (\<forall>nap \<in> set (aw_slept w'). from_secs 1 \<le> nap \<and> nap \<le> from_secs 30) \<and>
    aw_locked w' = aw_locked w"
proof -
  have "sends_by_contract ax w w'" using assms(1) by (rule sends.steps_related)
  moreover have "lock_restored w w'" using assms(1) by (rule lock.steps_related)
  ultimately show ?thesis
    using assms(2,3) by (auto simp: sends_by_contract_def poll_nap_def lock_restored_def)
qed

theorem requests_keep_contract_witness:
  "\<exists>w'. client_step demo_account_ext demo_account_config (demo_keyring demo_rotates) w' \<and> aw_locked w' = False"
proof -
  obtain r w' where "logout demo_account_ext demo_account_config CurrentSession RequireRemoteRevocation
      (demo_keyring demo_rotates) = (r, w')" by force
  then have step: "client_step demo_account_ext demo_account_config (demo_keyring demo_rotates) w'"
    by (rule client_step.logout)
  then show ?thesis
    using requests_keep_contract[OF r_into_rtranclp[of "client_step demo_account_ext demo_account_config"]]
    by (auto simp: demo_account_world_def)
qed

text \<open>C28. The guard of \<^verbatim>\<open>validate_value\<close> is exactly its specification: a body passes when it is within the
  bound, is JSON, and nowhere in it, at any depth, is there a key that normalises to a forbidden one or a
  string that looks like an absolute path.\<close>

theorem payload_guard_exact:
  "validate_account_payload ax b = Inr () \<longleftrightarrow>
     length b \<le> 65536 \<and>
     (\<exists>v. ax_value ax b = Some v \<and>
        (\<forall>fs k u. occurs_in (JObj fs) v \<longrightarrow> (k, u) \<in> set fs \<longrightarrow> normalized_key k \<notin> set forbidden_keys) \<and>
        (\<forall>s. occurs_in (JStr s) v \<longrightarrow> \<not> looks_like_absolute_path s))"
  by (simp add: payload_ok_iff body_private_free_def nothing_private_def)

theorem payload_guard_exact_witness:
  "validate_account_payload demo_account_ext ''{}'' = Inr () \<and>
   \<not> nothing_private (JObj [(''a'', JArr [JObj [(''Search-Query'', JNull)]])]) \<and>
   \<not> nothing_private (JArr [JStr ''~/notes''])"
proof -
  have "validate_account_payload demo_account_ext ''{}'' = Inr ()"
    unfolding payload_guard_exact
    by (simp add: demo_account_ext_def occurs_in_obj occurs_in_str)
  moreover have "\<not> account_value_safe (JObj [(''a'', JArr [JObj [(''Search-Query'', JNull)]])])"
    "\<not> account_value_safe (JArr [JStr ''~/notes''])"
    by code_simp+
  ultimately show ?thesis by (simp add: account_value_safe_iff)
qed

text \<open>Every endpoint is parsed back from the method and the path it is requested under, provided that
  UUIDs parse back from their text; so no two endpoints share a method and a path.\<close>

theorem endpoint_round_trip:
  assumes "\<And>i. ax_uuid_parse ax (ax_uuid_print ax i) = Some i"
  shows "parse_endpoint ax (endpoint_method e) (endpoint_path ax e) = Inr e"
  using assms by (rule endpoint_parses_back)

theorem endpoint_round_trip_witness:
  "parse_endpoint demo_account_ext Post (endpoint_path demo_account_ext (RevokeDevice 3)) = Inr (RevokeDevice 3)"
  using endpoint_round_trip[of demo_account_ext "RevokeDevice 3", OF demo_uuid] by simp

section \<open>The stored credential\<close>

text \<open>C20. A refresh moves the stored credential one generation on or leaves no doubt what became of it. When it
  succeeds there was a credential, the new one belongs to the same account, device and token family, its generation
  is one higher (as numbers: the counter does not wrap) and its token is another one, and a later load reads exactly
  it. When it fails, the keyring is as it was, unless the session is revoked or the rotated credential could not be
  stored: then it may be empty. The lock is free again in every case.\<close>

theorem refresh_rotates_or_keeps:
  assumes "refresh_access ax cfg w = (r, w')"
  shows "(case r of
      Inr session \<Rightarrow>
        (\<exists>c. stored ax w = Inr (Some c) \<and> successor c (ss_credential session) \<and>
           (codec_reads_back ax (ss_credential session) \<longrightarrow> stored ax w' = Inr (Some (ss_credential session))))
    | Inl e \<Rightarrow>
        aw_keyring w' = aw_keyring w \<or> aw_keyring w' = None \<and> (revoked_error e \<or> store_error e)) \<and>
    aw_locked w' = aw_locked w"
proof -
  have "aw_locked w' = aw_locked w"
    using keepsD[OF lock.keeps_refresh_access assms] by (simp add: lock_restored_def)
  then show ?thesis
    using assms by (cases r)
      (auto dest!: refresh_access_Inr refresh_access_Inl intro: holds_stored simp: kept_or_forgotten_def)
qed

theorem refresh_rotates_or_keeps_witness:
  "stored demo_account_ext (snd (refresh_access demo_account_ext demo_account_config (demo_keyring demo_rotates))) =
     Inr (Some (demo_credential 1 CHR ''s''))"
  using refresh_rotates_or_keeps[of demo_account_ext demo_account_config "demo_keyring demo_rotates",
      OF surjective_pairing]
  by (auto simp: demo_refresh demo_reads_back)

section \<open>Signing out\<close>

text \<open>A sign-out that requires the remote revocation succeeds only in two ways: there was no credential, and
  nothing changed, or the credential is gone and the account server said that the session is over, by
  acknowledging the revocation of the token family or by answering the refresh with the revocation. This rests
  on what the transport documents: the identity provider and the random source never report a revoked session.\<close>

theorem logout_needs_remote_confirmation:
  assumes "logout ax cfg scope RequireRemoteRevocation w = (Inr res, w')" and "outside_never_revokes w"
  shows "stored ax w = Inr None \<and> aw_keyring w' = aw_keyring w \<or>
    lo_remote_revoked res \<and> aw_keyring w' = None \<and> revocation_confirmed ax w w'"
  using assms by (rule logout_required_Inr)

theorem logout_needs_remote_confirmation_witness:
  "aw_keyring (snd (demo_logout RequireRemoteRevocation (demo_keyring demo_rotates))) = None"
proof -
  have "outside_never_revokes (demo_keyring demo_rotates)"
    by (simp add: outside_never_revokes_def demo_account_world_def)
  moreover have "demo_logout RequireRemoteRevocation (demo_keyring demo_rotates) =
      (Inr (logout_result_of ''session_revoked'' True True None),
       snd (demo_logout RequireRemoteRevocation (demo_keyring demo_rotates)))"
    using demo_logout_confirmed by (metis prod.collapse)
  ultimately show ?thesis
    using logout_needs_remote_confirmation[of demo_account_ext demo_account_config CurrentSession "demo_keyring demo_rotates"]
    by (auto simp: demo_logout_def demo_account_world_def)
qed

text \<open>When a sign-out that requires the remote revocation fails, the user is still signed in: the stored
  credential is the old one or its successor. The exceptions are the errors that say so: the session is revoked,
  or the credential store failed. In particular \<^verbatim>\<open>RemoteRevocationUnconfirmed\<close> never loses the credential.\<close>

theorem failed_logout_keeps_credential:
  assumes "logout ax cfg scope RequireRemoteRevocation w = (Inl e, w')"
  shows "aw_keyring w' = aw_keyring w \<or>
    (\<exists>c c'. stored ax w = Inr (Some c) \<and> successor c c' \<and> holds ax c' w') \<or>
    aw_keyring w' = None \<and> (revoked_error e \<or> store_error e)"
  using logout_required_Inl[OF assms] by (auto simp: still_signed_in_def)

theorem failed_logout_keeps_credential_witness:
  "aw_keyring (snd (demo_logout RequireRemoteRevocation (demo_keyring (Inl Offline)))) \<noteq> None"
proof -
  have "demo_logout RequireRemoteRevocation (demo_keyring (Inl Offline)) =
      (Inl RemoteRevocationUnconfirmed, snd (demo_logout RequireRemoteRevocation (demo_keyring (Inl Offline))))"
    using demo_logout_offline by (metis prod.collapse)
  then show ?thesis
    using failed_logout_keeps_credential[of demo_account_ext demo_account_config CurrentSession "demo_keyring (Inl Offline)"]
    by (auto simp: demo_logout_def demo_account_world_def holds_def revoked_error_def store_error_def)
qed

text \<open>A sign-out of the current session misreports what it did when the refresh finds the session revoked: the
  refresh already removes the credential, so the deletion of the sign-out finds none, and the result says that no
  local credential was removed although the keyring held one before and is empty after.\<close>

theorem revoked_logout_misreports_removal:
  assumes "stored ax w = Inr (Some c)" and "\<And>n. \<not> aw_keyring_down w n"
    and "refresh_access ax cfg (tick w) = (Inl e, w1)" and "revoked_error e" and "aw_keyring w1 = None"
    and "\<And>n. \<not> aw_keyring_down w1 n"
  shows "aw_keyring w \<noteq> None \<and>
    logout ax cfg CurrentSession RequireRemoteRevocation w =
      (Inr \<lparr>lo_status = ''session_revoked'', lo_remote_revoked = True, lo_local_credential_removed = False,
            lo_warning = None\<rparr>, (tick w1)\<lparr>aw_keyring := None\<rparr>)"
  using assms
  by (auto simp: logout_def run_branches load_credential_def keyring_call_def delete_credential_def
      logout_result_of_def stored_def split: option.splits)

theorem revoked_logout_misreports_removal_witness:
  "fst (demo_logout RequireRemoteRevocation (demo_keyring demo_revokes)) =
     Inr \<lparr>lo_status = ''session_revoked'', lo_remote_revoked = True, lo_local_credential_removed = False,
          lo_warning = None\<rparr>"
proof -
  let ?run = "refresh_access demo_account_ext demo_account_config (tick (demo_keyring demo_revokes))"
  have "?run = (Inl SessionRevoked, snd ?run)" using demo_refresh_revoked(1) by (metis prod.collapse)
  then show ?thesis
    using revoked_logout_misreports_removal[of demo_account_ext "demo_keyring demo_revokes"
        "demo_credential 0 CHR ''r''" demo_account_config SessionRevoked "snd ?run"] demo_refresh_revoked(2,3)
    by (simp add: demo_logout_def demo_account_world_def revoked_error_def)
qed

section \<open>Signing in\<close>



text \<open>C27. Signing in with a device code ends: the loop never uses up a fuel above the configured device timeout in
  seconds, whatever the server answers, slow-down requests included, because each round passes the deadline and
  then sleeps at least a second. With a valid configuration a fuel of 901 is always enough.\<close>

theorem device_login_returns:
  assumes "login_device fuel ax cfg display_prompt display w = (r, w')"
    and "as_secs (ac_device_timeout cfg) < fuel"
  shows "\<exists>e res. r = Inl e \<or> r = Inr (Some res)"
  using login_device_returns[OF assms] by (cases r) auto

theorem device_login_returns_witness:
  "\<exists>e res. fst (login_device 601 demo_account_ext demo_account_config (\<lambda>_. Inr ()) demo_display demo_empty) = Inl e \<or>
     fst (login_device 601 demo_account_ext demo_account_config (\<lambda>_. Inr ()) demo_display demo_empty) = Inr (Some res)"
  using device_login_returns[OF surjective_pairing, of demo_account_config 601] by simp

end
