(* ===== verification/Account_Transport.thy ===== *)
theory Account_Transport
  imports Account_Client Account_Login
begin

text \<open>
  The native transport of the account client (\<^verbatim>\<open>src/src/account/native_http.rs\<close>): what it puts into an
  HTTP request, when it refuses to make one, and what it makes of the answer. The HTTP and TLS stack is
  a third-party client; the outcome of one call, as a function of the number of calls served and of the
  whole request, is the outside's, and every request made is recorded.
\<close>

section \<open>The HTTP stack\<close>

text \<open>What \<^verbatim>\<open>ureq::AgentBuilder\<close> is told once, and what one request carries.\<close>

record http_agent =
  ha_redirects :: nat
  ha_timeout_connect :: duration
  ha_timeout_read :: duration
  ha_timeout_write :: duration
  ha_user_agent :: bytes

record http_request =
  hq_agent :: http_agent
  hq_method :: bytes
  hq_url :: url
  hq_timeout :: duration
  hq_headers :: "(bytes \<times> bytes) list"
  hq_body :: "bytes option"

text \<open>
  An answer, whatever its status: the \<^verbatim>\<open>Content-Length\<close> header, the bytes the reader delivers, and
  whether it fails after them. Or a failure of the transport, which is a timeout or is not.
\<close>

datatype http_outcome =
    Answered nat "bytes option" bytes bool
  | TransportFailed bool

text \<open>The clock is \<^verbatim>\<open>SystemTime\<close>, in nanoseconds since the epoch; it may be set before it.\<close>

record http_world =
  hw_calls :: nat
  hw_clock :: "nat \<Rightarrow> int"
  hw_outcome :: "nat \<Rightarrow> http_request \<Rightarrow> http_outcome"
  hw_requests :: "http_request list"

type_synonym 'a http = "(http_world, account_error, 'a) action"

definition system_now_unix :: "int \<Rightarrow> nat" where
  "system_now_unix t = (if t < 0 then 0 else as_secs (nat t))"

definition http_now :: "nat http" where
  "http_now w = (Inr (system_now_unix (hw_clock w (hw_calls w))), w\<lparr>hw_calls := Suc (hw_calls w)\<rparr>)"

definition call_http :: "http_request \<Rightarrow> http_outcome http" where
  "call_http q w =
     (Inr (hw_outcome w (hw_calls w) q),
      w\<lparr>hw_calls := Suc (hw_calls w), hw_requests := hw_requests w @ [q]\<rparr>)"

section \<open>The transport\<close>

record native_transport =
  nt_config :: account_config
  nt_agent :: http_agent

definition native_transport_new :: "account_ext \<Rightarrow> bytes \<Rightarrow> account_config \<Rightarrow> account_error + native_transport" where
  "native_transport_new ax version cfg =
     bindR (account_config_validate ax cfg) (\<lambda>_.
     let timeout = ac_request_timeout cfg in
     Inr \<lparr>nt_config = cfg,
          nt_agent = \<lparr>ha_redirects = 0, ha_timeout_connect = timeout, ha_timeout_read = timeout,
                     ha_timeout_write = timeout, ha_user_agent = ''kaleidoscope-manager/'' @ version\<rparr>\<rparr>)"

definition native_request_timeout :: "native_transport \<Rightarrow> nat \<Rightarrow> duration http" where
  "native_request_timeout nt deadline =
     bindA http_now (\<lambda>now.
     if deadline \<le> now then throw DeadlineExceeded
     else ret (min (ac_request_timeout (nt_config nt)) (from_secs (deadline - now))))"

definition request_headers :: "bytes \<Rightarrow> secret option \<Rightarrow> (bytes \<times> bytes) list" where
  "request_headers body bearer =
     [(''Accept'', ''application/json'')]
     @ (if body \<noteq> [] then [(''Content-Type'', ''application/json'')] else [])
     @ (case bearer of None \<Rightarrow> [] | Some token \<Rightarrow> [(''Authorization'', ''Bearer '' @ token)])"

text \<open>\<^verbatim>\<open>str::parse::<usize>\<close>: an optional plus sign and digits, below the 64 bits.\<close>

definition ascii_digit :: "char \<Rightarrow> bool" where
  "ascii_digit c \<longleftrightarrow> CHR ''0'' \<le> c \<and> c \<le> CHR ''9''"

definition digits_value :: "bytes \<Rightarrow> nat" where
  "digits_value s = foldl (\<lambda>n c. 10 * n + (of_char c - of_char CHR ''0'')) 0 s"

definition parse_usize :: "bytes \<Rightarrow> nat option" where
  "parse_usize s =
     (let digits = (case s of c # cs \<Rightarrow> if c = CHR ''+'' then cs else s | [] \<Rightarrow> []) in
      if digits = [] \<or> \<not> list_all ascii_digit digits \<or> digits_value digits > u64_max then None
      else Some (digits_value digits))"

definition announces_more :: "bytes option \<Rightarrow> nat \<Rightarrow> bool" where
  "announces_more content_length maximum =
     (case content_length of
        None \<Rightarrow> False
      | Some v \<Rightarrow> (case parse_usize v of None \<Rightarrow> False | Some n \<Rightarrow> n > maximum))"

text \<open>
  The reader is cut one byte past the bound, so a stream that is longer never gets to its failure.
\<close>

definition read_bounded :: "nat \<Rightarrow> bytes \<Rightarrow> bool \<Rightarrow> account_error + bytes" where
  "read_bounded maximum stream broken =
     (let limit = saturating_add maximum 1; bytes = take limit stream in
      if broken \<and> length stream < limit then Inl Offline
      else if length bytes > maximum then Inl InvalidResponse
      else Inr bytes)"

definition http_answer :: "nat \<Rightarrow> http_outcome \<Rightarrow> account_error + wire_response" where
  "http_answer maximum outcome =
     (case outcome of
        TransportFailed timed_out \<Rightarrow> Inl (if timed_out then DeadlineExceeded else Offline)
      | Answered status content_length stream broken \<Rightarrow>
          if announces_more content_length maximum then Inl InvalidResponse
          else bindR (read_bounded maximum stream broken) (wire_response_new status))"

definition http_execute ::
    "native_transport \<Rightarrow> bytes \<Rightarrow> url \<Rightarrow> bytes \<Rightarrow> secret option \<Rightarrow> nat \<Rightarrow> nat \<Rightarrow> wire_response http" where
  "http_execute nt verb u body bearer deadline maximum =
     bindA (native_request_timeout nt deadline) (\<lambda>timeout.
     bindA (call_http
              \<lparr>hq_agent = nt_agent nt, hq_method = verb, hq_url = u, hq_timeout = timeout,
               hq_headers = request_headers body bearer, hq_body = (if body = [] then None else Some body)\<rparr>) (\<lambda>outcome.
     lift (http_answer maximum outcome)))"

fun method_verb :: "http_method \<Rightarrow> bytes" where
  "method_verb Delete = ''DELETE''"
| "method_verb Get = ''GET''"
| "method_verb Post = ''POST''"

definition native_send :: "account_ext \<Rightarrow> native_transport \<Rightarrow> wire_request \<Rightarrow> nat \<Rightarrow> wire_response http" where
  "native_send ax nt r deadline =
     bindA (lift (wire_request_validate ax r)) (\<lambda>_.
     bindA (lift (account_url ax (nt_config nt) (wq_endpoint r))) (\<lambda>u.
     http_execute nt (method_verb (endpoint_method (wq_endpoint r))) u (wq_body r) (wq_access_token r)
       deadline max_account_body_bytes))"

definition native_discovery_url :: "account_ext \<Rightarrow> url \<Rightarrow> account_error + url" where
  "native_discovery_url ax issuer =
     (case ax_url_parse ax (trim_end_slashes (u_text issuer) @ ''/.well-known/openid-configuration'') of
        None \<Rightarrow> Inl OidcVerification | Some u \<Rightarrow> Inr u)"

definition native_get_oidc_document ::
    "account_ext \<Rightarrow> native_transport \<Rightarrow> oidc_document \<Rightarrow> url \<Rightarrow> nat \<Rightarrow> wire_response http" where
  "native_get_oidc_document ax nt kind u deadline =
     bindA (lift (validate_oidc_url ax (nt_config nt) u False)) (\<lambda>_.
     bindA (if kind = Discovery
            then bindA (lift (native_discovery_url ax (ac_issuer (nt_config nt)))) (\<lambda>expected. ret (\<not> url_eq u expected))
            else ret False) (\<lambda>elsewhere.
     if elsewhere then throw UnsafeRequest
     else http_execute nt ''GET'' u [] None deadline max_oidc_document_bytes))"

text \<open>
  What the native transport puts on the wire, what it accepts as an answer, and which errors it gives.
\<close>

section \<open>What goes out\<close>

text \<open>The part of a URL that says which server is spoken to, and as whom.\<close>

definition same_authority :: "url \<Rightarrow> url \<Rightarrow> bool" where
  "same_authority u v \<longleftrightarrow>
     u_scheme u = u_scheme v \<and> u_host u = u_host v \<and> u_port u = u_port v \<and> u_username u = u_username v \<and>
     u_password u = u_password v"

text \<open>\<^verbatim>\<open>Url::join\<close> keeps the authority of the base when the reference is an absolute path.\<close>

definition join_keeps_authority :: "account_ext \<Rightarrow> bool" where
  "join_keeps_authority ax \<longleftrightarrow>
     (\<forall>u p v. starts_with p ''/v1/'' \<longrightarrow> ax_join ax u p = Some v \<longrightarrow> same_authority v u)"

lemma endpoint_path_prefix: "starts_with (endpoint_path ax e) ''/v1/''"
  by (cases e) (simp_all add: starts_with_def)

text \<open>
  The contract of one HTTP request: no redirect is followed, the timeout is positive and within the
  configured one, the server is spoken to over TLS and as nobody, and it is the account server or one that
  serves the documents of an allowed identity provider; only the account server gets a bearer token or a body.
\<close>

definition to_account_server :: "native_transport \<Rightarrow> http_request \<Rightarrow> bool" where
  "to_account_server nt q \<longleftrightarrow> same_authority (hq_url q) (ac_control_plane_origin (nt_config nt))"

definition to_identity_provider :: "account_ext \<Rightarrow> native_transport \<Rightarrow> http_request \<Rightarrow> bool" where
  "to_identity_provider ax nt q \<longleftrightarrow>
     ax_origin ax (hq_url q) \<in> ac_allowed_oidc_origins (nt_config nt) \<and> u_query (hq_url q) = None \<and>
     hq_method q = ''GET'' \<and> hq_body q = None \<and> hq_headers q = [(''Accept'', ''application/json'')]"

definition http_contract :: "account_ext \<Rightarrow> native_transport \<Rightarrow> http_request \<Rightarrow> bool" where
  "http_contract ax nt q \<longleftrightarrow>
     hq_agent q = nt_agent nt \<and>
     0 < hq_timeout q \<and> hq_timeout q \<le> ac_request_timeout (nt_config nt) \<and>
     u_scheme (hq_url q) = ''https'' \<and> u_username (hq_url q) = [] \<and> u_password (hq_url q) = None \<and>
     (to_account_server nt q \<and>
        (\<forall>b. hq_body q = Some b \<longrightarrow> length b \<le> 65536 \<and> body_private_free ax b) \<or>
      to_identity_provider ax nt q)"

definition requests_by_contract :: "account_ext \<Rightarrow> native_transport \<Rightarrow> http_world \<Rightarrow> http_world \<Rightarrow> bool" where
  "requests_by_contract ax nt w w' \<longleftrightarrow>
     (\<exists>new. hw_requests w' = hw_requests w @ new \<and> (\<forall>q \<in> set new. http_contract ax nt q))"

interpretation out: state_preorder "requests_by_contract ax nt" for ax :: account_ext and nt :: native_transport
  by unfold_locales (auto simp: requests_by_contract_def)

text \<open>A transport that was made is one for a valid configuration.\<close>

lemma native_transport_new_valid:
  assumes "native_transport_new ax version cfg = Inr nt"
  shows "nt_config nt = cfg" "account_config_validate ax cfg = Inr ()" "ha_redirects (nt_agent nt) = 0"
  using assms by (auto simp: native_transport_new_def bindR_eq_Inr Let_def)

lemma valid_config:
  assumes "account_config_validate ax cfg = Inr ()"
  shows "u_scheme (ac_control_plane_origin cfg) = ''https''" "u_username (ac_control_plane_origin cfg) = []"
    "u_password (ac_control_plane_origin cfg) = None" "from_secs 1 \<le> ac_request_timeout cfg"
  using assms
  by (auto simp: account_config_validate_def bindR_eq_Inr validate_https_url_def split: if_splits)

lemma native_request_timeout_run:
  "native_request_timeout nt deadline w =
     (let now = system_now_unix (hw_clock w (hw_calls w)) in
      (if deadline \<le> now then Inl DeadlineExceeded
       else Inr (min (ac_request_timeout (nt_config nt)) (from_secs (deadline - now))),
       w\<lparr>hw_calls := Suc (hw_calls w)\<rparr>))"
  by (simp add: native_request_timeout_def http_now_def act_unfold Let_def)

text \<open>One call: nothing is sent once the deadline has passed, and otherwise exactly the request asked for.\<close>

definition asked ::
    "native_transport \<Rightarrow> bytes \<Rightarrow> url \<Rightarrow> bytes \<Rightarrow> secret option \<Rightarrow> duration \<Rightarrow> http_request" where
  "asked nt verb u body bearer timeout =
     \<lparr>hq_agent = nt_agent nt, hq_method = verb, hq_url = u, hq_timeout = timeout,
      hq_headers = request_headers body bearer, hq_body = (if body = [] then None else Some body)\<rparr>"

lemma http_execute_cases:
  assumes "http_execute nt verb u body bearer deadline maximum w = (r, w')"
  obtains
    (late) "r = Inl DeadlineExceeded" "hw_requests w' = hw_requests w"
  | (called) t where "system_now_unix (hw_clock w (hw_calls w)) < deadline"
      "t = min (ac_request_timeout (nt_config nt)) (from_secs (deadline - system_now_unix (hw_clock w (hw_calls w))))"
      "hw_requests w' = hw_requests w @ [asked nt verb u body bearer t]"
      "r = http_answer maximum (hw_outcome w (Suc (hw_calls w)) (asked nt verb u body bearer t))"
  using assms
  by (cases "deadline \<le> system_now_unix (hw_clock w (hw_calls w))")
    (auto simp: http_execute_def bindA_def native_request_timeout_run Let_def call_http_def lift_def asked_def)

lemma http_execute_out:
  assumes "http_execute nt verb u body bearer deadline maximum w = (r, w')"
    and "from_secs 1 \<le> ac_request_timeout (nt_config nt)"
  shows "hw_requests w' = hw_requests w \<or>
    (\<exists>t. hw_requests w' = hw_requests w @ [asked nt verb u body bearer t] \<and>
       0 < t \<and> t \<le> ac_request_timeout (nt_config nt))"
  using assms(1)
proof (cases rule: http_execute_cases)
  case (called t)
  then have "0 < t" using assms(2) by (simp add: from_secs_def)
  then show ?thesis using called by auto
qed simp

lemma same_authority_valid:
  assumes "same_authority u (ac_control_plane_origin cfg)" and "account_config_validate ax cfg = Inr ()"
  shows "u_scheme u = ''https''" "u_username u = []" "u_password u = None"
  using assms valid_config[OF assms(2)] by (simp_all add: same_authority_def)

lemma keeps_native_send:
  assumes "account_config_validate ax (nt_config nt) = Inr ()" and "join_keeps_authority ax"
  shows "keeps (requests_by_contract ax nt) (native_send ax nt r deadline)"
  unfolding keeps_def
proof
  fix w
  show "requests_by_contract ax nt w (snd (native_send ax nt r deadline w))"
  proof (cases "wire_request_validate ax r = Inr () \<and> isl (account_url ax (nt_config nt) (wq_endpoint r)) = False")
    case False
    then have "snd (native_send ax nt r deadline w) = w"
      by (auto simp: native_send_def bindA_def lift_def isl_def split: sum.splits)
    then show ?thesis by (simp add: out.R_refl)
  next
    case True
    then obtain u where u: "account_url ax (nt_config nt) (wq_endpoint r) = Inr u"
      by (metis isl_def sum.exhaust)
    have auth: "same_authority u (ac_control_plane_origin (nt_config nt))"
      using u assms(2) endpoint_path_prefix
      by (auto simp: account_url_def join_keeps_authority_def split: option.splits)
    obtain res v where run: "http_execute nt (method_verb (endpoint_method (wq_endpoint r))) u (wq_body r)
        (wq_access_token r) deadline max_account_body_bytes w = (res, v)" by force
    have "native_send ax nt r deadline w = (res, v)"
      using True u run by (simp add: native_send_def bindA_def lift_def)
    moreover have "requests_by_contract ax nt w v"
      using http_execute_out[OF run valid_config(4)[OF assms(1)]] True auth same_authority_valid[OF auth assms(1)]
      by (auto simp: asked_def requests_by_contract_def http_contract_def to_account_server_def wire_request_validate_iff
          request_contract_def)
    ultimately show ?thesis by simp
  qed
qed

lemma keeps_native_get:
  assumes "account_config_validate ax (nt_config nt) = Inr ()"
  shows "keeps (requests_by_contract ax nt) (native_get_oidc_document ax nt kind u deadline)"
proof -
  have "requests_by_contract ax nt w (snd (http_execute nt ''GET'' u [] None deadline max_oidc_document_bytes w))"
    if "validate_oidc_url ax (nt_config nt) u False = Inr ()" for w
  proof -
    obtain res v where run: "http_execute nt ''GET'' u [] None deadline max_oidc_document_bytes w = (res, v)" by force
    have "u_scheme u = ''https''" "u_username u = []" "u_password u = None" "u_query u = None"
      "ax_origin ax u \<in> ac_allowed_oidc_origins (nt_config nt)"
      using that by (auto simp: validate_oidc_url_def origin_key_def validate_https_url_def bindR_eq_Inr split: if_splits)
    then show ?thesis
      using http_execute_out[OF run valid_config(4)[OF assms]] run
      by (auto simp: asked_def requests_by_contract_def http_contract_def to_identity_provider_def request_headers_def)
  qed
  then show ?thesis
    by (auto simp: keeps_def native_get_oidc_document_def act_unfold out.R_refl split: sum.splits)
qed

text \<open>The transport at work: any requests, any documents, in any order.\<close>

inductive transport_step :: "account_ext \<Rightarrow> native_transport \<Rightarrow> http_world \<Rightarrow> http_world \<Rightarrow> bool"
  for ax :: account_ext and nt :: native_transport where
  sending: "native_send ax nt r deadline w = (res, w') \<Longrightarrow> transport_step ax nt w w'"
| fetching: "native_get_oidc_document ax nt kind u deadline w = (res, w') \<Longrightarrow> transport_step ax nt w w'"

lemma transport_steps_related:
  assumes "(transport_step ax nt)\<^sup>*\<^sup>* w w'" and "account_config_validate ax (nt_config nt) = Inr ()"
    and "join_keeps_authority ax"
  shows "requests_by_contract ax nt w w'"
  using assms(1)
proof (induction rule: rtranclp_induct)
  case base
  show ?case by (rule out.R_refl)
next
  case (step v v')
  from step(2) have "requests_by_contract ax nt v v'"
    by cases (auto dest: keepsD[OF keeps_native_send[OF assms(2,3)]] keepsD[OF keeps_native_get[OF assms(2)]])
  then show ?case using step(3) by (rule out.R_trans[rotated])
qed

section \<open>What comes back\<close>

lemma read_bounded_Inr:
  assumes "read_bounded maximum stream broken = Inr bytes" and "maximum < u64_max"
  shows "bytes = stream" "length stream \<le> maximum" "\<not> broken"
  using assms by (auto simp: read_bounded_def Let_def saturating_add_def split: if_splits)

text \<open>
  An answer that is accepted is the whole body the server sent: it fits, the reader did not fail, and the
  length the server announced, if it announced one that can be read, fits too.
\<close>

definition whole_answer :: "nat \<Rightarrow> http_outcome \<Rightarrow> wire_response \<Rightarrow> bool" where
  "whole_answer maximum outcome response \<longleftrightarrow>
     (\<exists>content_length. outcome = Answered (wr_status response) content_length (wr_body response) False \<and>
        length (wr_body response) \<le> maximum \<and>
        (\<forall>v n. content_length = Some v \<longrightarrow> parse_usize v = Some n \<longrightarrow> n \<le> maximum))"

lemma http_answer_Inr:
  assumes "http_answer maximum outcome = Inr response" and "maximum < u64_max"
  shows "whole_answer maximum outcome response"
proof (cases outcome)
  case (Answered status content_length stream broken)
  then obtain bytes where fits: "\<not> announces_more content_length maximum"
    and bytes: "read_bounded maximum stream broken = Inr bytes" "wire_response_new status bytes = Inr response"
    using assms(1) by (auto simp: http_answer_def bindR_eq_Inr split: if_splits)
  then show ?thesis
    using Answered read_bounded_Inr[OF bytes(1) assms(2)]
    by (auto simp: whole_answer_def announces_more_def wire_response_new_def split: if_splits option.splits)
qed (use assms in \<open>simp add: http_answer_def\<close>)

lemma http_execute_Inr:
  assumes "http_execute nt verb u body bearer deadline maximum w = (Inr response, w')" and "maximum < u64_max"
  shows "\<exists>q n. hw_requests w' = hw_requests w @ [q] \<and> whole_answer maximum (hw_outcome w n q) response \<and>
    system_now_unix (hw_clock w (hw_calls w)) < deadline \<and>
    hq_timeout q \<le> from_secs (deadline - system_now_unix (hw_clock w (hw_calls w)))"
  using assms(1)
proof (cases rule: http_execute_cases)
  case (called t)
  then show ?thesis
    using http_answer_Inr[OF called(4)[symmetric] assms(2)] by (fastforce simp: asked_def)
qed simp

section \<open>Which errors come back\<close>

text \<open>None of them says that the session is revoked; that is left to the answer of the account server.\<close>

lemma http_answer_error [not_revoked]: "http_answer maximum outcome = Inl e \<Longrightarrow> \<not> revoked_error e"
  by (auto simp: http_answer_def read_bounded_def Let_def wire_response_new_def revoked_error_def bindR_eq_Inl
      split: http_outcome.splits if_splits)

lemma http_execute_error [not_revoked]:
  assumes "http_execute nt verb u body bearer deadline maximum w = (Inl e, w')"
  shows "\<not> revoked_error e"
  using assms by (cases rule: http_execute_cases) (auto simp: revoked_error_def dest: http_answer_error[OF sym])

lemma native_discovery_url_same: "native_discovery_url ax issuer = discovery_url ax issuer"
  by (simp add: native_discovery_url_def discovery_url_def)

lemma native_get_oidc_document_error:
  assumes "native_get_oidc_document ax nt kind u deadline w = (Inl e, w')"
  shows "\<not> revoked_error e"
proof -
  have "\<not> revoked_error UnsafeRequest" by (simp add: revoked_error_def)
  then show ?thesis
    using assms
    by (auto simp: native_get_oidc_document_def native_discovery_url_same bindA_eq_Inl
        split: if_splits dest: not_revoked validate_oidc_url_error[OF sym] discovery_url_error[OF sym])
qed

text \<open>
  A client that fetches its documents through the native transport and draws on the random source of the
  operating system, which does not fail.
\<close>

definition client_over_native :: "account_ext \<Rightarrow> native_transport \<Rightarrow> account_world \<Rightarrow> bool" where
  "client_over_native ax nt w \<longleftrightarrow>
     (\<forall>n kind u. \<exists>deadline v. aw_document w n kind u = fst (native_get_oidc_document ax nt kind u deadline v)) \<and>
     (\<forall>n. \<exists>b. aw_random w n = Inr b)"

lemma native_outside_never_revokes: "client_over_native ax nt w \<Longrightarrow> outside_never_revokes w"
  unfolding client_over_native_def outside_never_revokes_def
  by (metis native_get_oidc_document_error prod.collapse Inl_Inr_False)

end
