(* ===== verification/Account_Loopback.thy ===== *)
theory Account_Loopback
  imports Account_Client Fs_Safe Text_Search
begin

text \<open>
  The native interactions of the account client (\<^verbatim>\<open>src/src/account/runtime.rs\<close>): the browser that is
  launched, and the listener on the loopback interface that the browser is sent back to, from its first
  connection to the parsed callback. Which connections arrive, what they carry and how long a call takes
  is the outside's choice, by the number of calls served; times are nanoseconds since the epoch. A poisoned
  mutex is left out: nothing panics while it is held.
\<close>

section \<open>The machine\<close>

record browser_command =
  bc_program :: bytes
  bc_arguments :: "bytes list"
  bc_environment :: "(bytes \<times> bytes) list"

text \<open>A connection: whether the read timeout could be set, what each read gives, and how long it takes.\<close>

record callback_stream =
  st_timeout_set :: bool
  st_read :: "nat \<Rightarrow> unit + bytes"
  st_wait :: "nat \<Rightarrow> duration"

datatype accepted =
    Connection bool callback_stream
  | NoConnection
  | AcceptFailed

record loopback_world =
  lb_slot :: "bytes option"
  lb_now :: nat
  lb_calls :: nat
  lb_launched :: "browser_command list"
  lb_answered :: "bytes list"
  lb_delay :: "nat \<Rightarrow> duration"
  lb_cancelled :: "nat \<Rightarrow> bool"
  lb_variable :: "bytes \<Rightarrow> bytes option"
  lb_spawns :: "nat \<Rightarrow> bool"
  lb_bound :: "nat \<Rightarrow> bytes option"
  lb_address_known :: "nat \<Rightarrow> bool"
  lb_accept :: "nat \<Rightarrow> accepted"

type_synonym 'a loopback = "(loopback_world, account_error, 'a) action"

definition lb_tick :: "loopback_world \<Rightarrow> loopback_world" where
  "lb_tick w = w\<lparr>lb_calls := Suc (lb_calls w), lb_now := lb_now w + lb_delay w (lb_calls w)\<rparr>"

definition ask_outside :: "(loopback_world \<Rightarrow> 'a) \<Rightarrow> 'a loopback" where
  "ask_outside f w = (Inr (f w), lb_tick w)"

definition runtime_cancelled :: "bool loopback" where
  "runtime_cancelled = ask_outside (\<lambda>w. lb_cancelled w (lb_calls w))"

definition runtime_now_unix :: "nat loopback" where
  "runtime_now_unix w = (Inr (as_secs (lb_now (lb_tick w))), lb_tick w)"

definition pass_time :: "duration \<Rightarrow> unit loopback" where
  "pass_time d = modify (\<lambda>w. w\<lparr>lb_now := lb_now w + d\<rparr>)"

definition runtime_sleep :: "duration \<Rightarrow> unit loopback" where
  "runtime_sleep d = bindA (ask_outside (\<lambda>_. ())) (\<lambda>_. pass_time d)"

section \<open>The browser\<close>

text \<open>\<open>None\<close> is a target for which no browser is known.\<close>

fun platform_browser_command :: "device_platform option \<Rightarrow> url \<Rightarrow> account_error + bytes \<times> bytes list" where
  "platform_browser_command (Some Macos) u = Inr (''/usr/bin/open'', [u_text u])"
| "platform_browser_command (Some Linux) u = Inr (''/usr/bin/xdg-open'', [u_text u])"
| "platform_browser_command (Some Windows) u = Inr (''rundll32.exe'', [''url.dll,FileProtocolHandler'', u_text u])"
| "platform_browser_command None u = Inl InteractionUnavailable"

definition inherited_variables :: "device_platform option \<Rightarrow> bytes list" where
  "inherited_variables platform =
     (case platform of
        Some Linux \<Rightarrow> [''DISPLAY'', ''WAYLAND_DISPLAY'', ''XDG_RUNTIME_DIR'', ''DBUS_SESSION_BUS_ADDRESS'', ''HOME'']
      | Some Windows \<Rightarrow> [''SystemRoot'', ''WINDIR'', ''USERPROFILE'']
      | _ \<Rightarrow> [])"

definition browser_environment :: "device_platform option \<Rightarrow> (bytes \<Rightarrow> bytes option) \<Rightarrow> (bytes \<times> bytes) list" where
  "browser_environment platform variable =
     (''PATH'', ''/usr/bin:/bin'')
     # concat (map (\<lambda>name. case variable name of None \<Rightarrow> [] | Some v \<Rightarrow> [(name, v)]) (inherited_variables platform))"

definition spawn_browser :: "browser_command \<Rightarrow> unit loopback" where
  "spawn_browser c w =
     (let w' = (lb_tick w)\<lparr>lb_launched := lb_launched w @ [c]\<rparr>
      in (if lb_spawns w (lb_calls w) then Inr () else Inl InteractionUnavailable, w'))"

definition launch_browser :: "device_platform option \<Rightarrow> url \<Rightarrow> unit loopback" where
  "launch_browser platform u =
     bindA (lift (platform_browser_command platform u)) (\<lambda>(program, arguments).
     bindA get_world (\<lambda>w.
     spawn_browser \<lparr>bc_program = program, bc_arguments = arguments,
                    bc_environment = browser_environment platform (lb_variable w)\<rparr>))"

section \<open>The listener\<close>

definition validate_callback_path :: "bytes \<Rightarrow> account_error + unit" where
  "validate_callback_path p =
     (if \<not> starts_with p ''/'' \<or> length p > 120 \<or> list_ex (\<lambda>c. c = CHR ''?'' \<or> c = CHR ''#'') p
         \<or> str_contains p ''..''
      then Inl InteractionUnavailable else Inr ())"

text \<open>Binding 127.0.0.1 on a port of the system's choice, not blocking; the address is known then.\<close>

definition bind_loopback :: "bytes loopback" where
  "bind_loopback =
     bindA (ask_outside (\<lambda>w. lb_bound w (lb_calls w))) (\<lambda>address.
     case address of None \<Rightarrow> throw InteractionUnavailable | Some a \<Rightarrow> ret a)"

definition prepare_redirect :: "account_ext \<Rightarrow> bytes \<Rightarrow> url loopback" where
  "prepare_redirect ax callback_path =
     bindA (lift (validate_callback_path callback_path)) (\<lambda>_.
     bindA bind_loopback (\<lambda>address.
     case ax_url_parse ax (''http://'' @ address @ callback_path) of
       None \<Rightarrow> throw InteractionUnavailable
     | Some redirect \<Rightarrow>
         bindA get_world (\<lambda>w.
         if lb_slot w \<noteq> None then throw InteractionUnavailable
         else bindA (modify (\<lambda>w. w\<lparr>lb_slot := Some address\<rparr>)) (\<lambda>_. ret redirect))))"

section \<open>One connection\<close>

definition crlf :: bytes where
  "crlf = [CHR 0x0D, CHR 0x0A]"

text \<open>
  The reads of one connection: a buffer of 1024 bytes at a time, until the head of the request is
  complete, the stream ends, or more than 8192 bytes have come. The number of reads is counted.
\<close>

function read_request :: "callback_stream \<Rightarrow> nat \<Rightarrow> bytes \<Rightarrow> (account_error + bytes) \<times> nat" where
  "read_request s n bytes =
     (case st_read s n of
        Inl _ \<Rightarrow> (Inl InvalidPkceCallback, Suc n)
      | Inr chunk \<Rightarrow>
          if take 1024 chunk = [] then (Inr bytes, Suc n)
          else if str_contains (bytes @ take 1024 chunk) (crlf @ crlf) then (Inr (bytes @ take 1024 chunk), Suc n)
          else if length (bytes @ take 1024 chunk) > 8192 then (Inl InvalidPkceCallback, Suc n)
          else read_request s (Suc n) (bytes @ take 1024 chunk))"
  by pat_completeness auto
termination
proof (relation "measure (\<lambda>(s, n, bytes). 8193 - length bytes)")
  fix s n bytes and chunk :: bytes
  assume "take 1024 chunk \<noteq> []" and "\<not> 8192 < length (bytes @ take 1024 chunk)"
  moreover from this(1) have "0 < length (take 1024 chunk)" by blast
  ultimately show "((s, Suc n, bytes @ take 1024 chunk), (s, n, bytes)) \<in> measure (\<lambda>(s, n, bytes). 8193 - length bytes)"
    by (simp only: in_measure prod.case length_append)
qed simp

declare read_request.simps [simp del]

definition read_callback :: "account_ext \<Rightarrow> callback_stream \<Rightarrow> bytes \<Rightarrow> pkce_callback loopback" where
  "read_callback ax s address =
     (if \<not> st_timeout_set s then throw InvalidPkceCallback
      else
        let (bytes, reads) = read_request s 0 [] in
        bindA (pass_time (sum_list (map (st_wait s) [0..<reads]))) (\<lambda>_.
        bindA (lift bytes) (\<lambda>b.
        lift (parse_callback_request ax b address))))"

definition callback_message :: bytes where
  "callback_message = ''Authentication received. You may close this window.''"

definition callback_answer :: bytes where
  "callback_answer =
     ''HTTP/1.1 200 OK'' @ crlf @ ''Content-Type: text/plain'' @ crlf @ ''Cache-Control: no-store'' @ crlf
     @ ''Content-Length: '' @ show_nat (length callback_message) @ crlf @ ''Connection: close'' @ crlf @ crlf
     @ callback_message"

section \<open>Waiting for the callback\<close>

text \<open>\<open>None\<close> says that the fuel ran out before the loop returned.\<close>

fun accept_loop :: "nat \<Rightarrow> account_ext \<Rightarrow> bytes \<Rightarrow> nat \<Rightarrow> pkce_callback option loopback" where
  "accept_loop 0 ax address deadline = ret None"
| "accept_loop (Suc fuel) ax address deadline =
     bindA runtime_cancelled (\<lambda>c.
     if c then throw Cancelled
     else
       bindA runtime_now_unix (\<lambda>now.
       if now \<ge> deadline then throw DeadlineExceeded
       else
         bindA (ask_outside (\<lambda>w. lb_accept w (lb_calls w))) (\<lambda>a.
         case a of
           Connection from_loopback s \<Rightarrow>
             if \<not> from_loopback then accept_loop fuel ax address deadline
             else
               bindA (read_callback ax s address) (\<lambda>callback.
               bindA (modify (\<lambda>w. w\<lparr>lb_answered := lb_answered w @ [callback_answer]\<rparr>)) (\<lambda>_.
               ret (Some callback)))
         | NoConnection \<Rightarrow> bindA (runtime_sleep 50000000) (\<lambda>_. accept_loop fuel ax address deadline)
         | AcceptFailed \<Rightarrow> throw InteractionUnavailable)))"

definition take_listener :: "bytes loopback" where
  "take_listener w =
     (case lb_slot w of None \<Rightarrow> Inl InteractionUnavailable | Some address \<Rightarrow> Inr address, w\<lparr>lb_slot := None\<rparr>)"

definition loopback_authorize ::
    "nat \<Rightarrow> device_platform option \<Rightarrow> account_ext \<Rightarrow> url \<Rightarrow> nat \<Rightarrow> pkce_callback option loopback" where
  "loopback_authorize fuel platform ax authorization_url deadline =
     bindA (launch_browser platform authorization_url) (\<lambda>_.
     bindA take_listener (\<lambda>address.
     bindA (ask_outside (\<lambda>w. lb_address_known w (lb_calls w))) (\<lambda>known.
     if \<not> known then throw InteractionUnavailable else accept_loop fuel ax address deadline)))"

text \<open>
  Waiting for the browser: what a callback that is returned was made from, how long one connection can take,
  and that the loop over the connections ends.
\<close>

section \<open>The query of the callback\<close>

text \<open>The values a key has in the query, in order.\<close>

definition values_of :: "bytes \<Rightarrow> (bytes \<times> bytes) list \<Rightarrow> bytes list" where
  "values_of k kvs = map snd (filter (\<lambda>p. fst p = k) kvs)"

definition slot_values :: "bytes option \<Rightarrow> bytes list" where
  "slot_values slot = (case slot of None \<Rightarrow> [] | Some v \<Rightarrow> [v])"

lemma slot_values_simps [simp]: "slot_values None = []" "slot_values (Some v) = [v]"
  by (simp_all add: slot_values_def)

lemma values_of_simps [simp]:
  "values_of k [] = []" "values_of k ((k', v) # kvs) = (if k' = k then v # values_of k kvs else values_of k kvs)"
  by (simp_all add: values_of_def)

lemma callback_slots_values:
  assumes "callback_slots kvs (c, s, e) = Inr (c', s', e')"
  shows "slot_values c' = slot_values c @ values_of ''code'' kvs \<and>
    slot_values s' = slot_values s @ values_of ''state'' kvs \<and>
    slot_values e' = slot_values e @ values_of ''error'' kvs"
  using assms
proof (induction kvs arbitrary: c s e)
  case (Cons kv kvs)
  obtain k v where [simp]: "kv = (k, v)" by force
  show ?case using Cons.prems Cons.IH by (auto split: if_splits)
qed simp

text \<open>
  A request that is a callback: a \<^verbatim>\<open>GET\<close> whose target carries exactly one code, exactly one state,
  no error and no fragment.
\<close>

definition is_callback :: "account_ext \<Rightarrow> bytes \<Rightarrow> bytes \<Rightarrow> pkce_callback \<Rightarrow> bool" where
  "is_callback ax address request callback \<longleftrightarrow>
     (\<exists>target parsed. callback_target request = Inr target \<and>
        ax_url_parse ax (''http://'' @ address @ target) = Some parsed \<and> u_fragment parsed = None \<and>
        values_of ''code'' (ax_query_pairs ax parsed) = [pc_code callback] \<and>
        values_of ''state'' (ax_query_pairs ax parsed) = [pc_state callback] \<and>
        values_of ''error'' (ax_query_pairs ax parsed) = [] \<and>
        pc_redirect_uri callback = ax_clear_query ax parsed)"

lemma slot_values_eq: "slot_values x = [v] \<longleftrightarrow> x = Some v" "slot_values x = [] \<longleftrightarrow> x = None"
  by (cases x; simp)+

lemma parse_callback_request_Inr:
  assumes "parse_callback_request ax b address = Inr callback"
  shows "is_callback ax address b callback"
proof -
  obtain target where target: "callback_target b = Inr target"
    using assms by (auto simp: parse_callback_request_def bindR_eq_Inr)
  then obtain parsed where parsed: "ax_url_parse ax (''http://'' @ address @ target) = Some parsed" "u_fragment parsed = None"
    using assms by (auto simp: parse_callback_request_def bindR_eq_Inr split: option.splits if_splits)
  obtain code state error where s: "callback_slots (ax_query_pairs ax parsed) (None, None, None) = Inr (code, state, error)"
    using assms target parsed by (auto simp: parse_callback_request_def bindR_eq_Inr)
  then have c: "error = None" "code = Some (pc_code callback)" "state = Some (pc_state callback)"
      "pc_redirect_uri callback = ax_clear_query ax parsed"
    using assms target parsed
    by (auto simp: parse_callback_request_def bindR_eq_Inr split: option.splits if_splits)
  have "values_of ''code'' (ax_query_pairs ax parsed) = [pc_code callback]"
    "values_of ''state'' (ax_query_pairs ax parsed) = [pc_state callback]"
    "values_of ''error'' (ax_query_pairs ax parsed) = []"
    using callback_slots_values[OF s] c by simp_all
  then show ?thesis using target parsed c(4) unfolding is_callback_def by blast
qed

section \<open>One connection\<close>

lemma read_request_bounds:
  assumes "read_request s n bytes = (r, m)" and "length bytes \<le> 8192"
  shows "n < m \<and> m + length bytes \<le> n + 8193 \<and> (\<forall>b. r = Inr b \<longrightarrow> length b \<le> 9216)"
  using assms
proof (induction s n bytes arbitrary: r m rule: read_request.induct)
  case (1 s n bytes)
  show ?case
  proof (cases "st_read s n")
    case (Inl u)
    then show ?thesis using "1.prems" by (auto simp: read_request.simps[of s n bytes])
  next
    case (Inr chunk)
    let ?more = "bytes @ take 1024 chunk"
    consider "take 1024 chunk = []" | "str_contains ?more (crlf @ crlf)" | "length ?more > 8192"
      | "take 1024 chunk \<noteq> []" "\<not> str_contains ?more (crlf @ crlf)" "\<not> length ?more > 8192" by blast
    then show ?thesis
    proof cases
      case 4
      then have "read_request s (Suc n) ?more = (r, m)"
        using "1.prems"(1) Inr by (simp add: read_request.simps[of s n bytes])
      define l where "l = length (take 1024 chunk)"
      from \<open>read_request s (Suc n) ?more = (r, m)\<close> have "Suc n < m \<and> m + length ?more \<le> Suc n + 8193 \<and> (\<forall>b. r = Inr b \<longrightarrow> length b \<le> 9216)"
        using "1.IH"[OF Inr 4] 4(3) by simp
      moreover have "0 < l" using 4(1) unfolding l_def by (metis length_greater_0_conv)
      ultimately show ?thesis by (auto simp only: length_append l_def[symmetric])
    qed (use "1.prems" Inr in \<open>auto simp: read_request.simps[of s n bytes] split: if_splits\<close>)
  qed
qed

lemma sum_list_le_mult: "(\<And>x. x \<in> set xs \<Longrightarrow> f x \<le> b) \<Longrightarrow> sum_list (map f xs) \<le> length xs * (b :: nat)"
  by (induction xs) (auto simp: add_le_mono)

lemma read_callback_time:
  assumes "read_callback ax s address w = (r, w')" and "\<And>n. st_wait s n \<le> b"
  shows "lb_now w' \<le> lb_now w + 8193 * b"
proof (cases "st_timeout_set s")
  case True
  obtain x m where run: "read_request s 0 [] = (x, m)" by force
  have "lb_now w' = lb_now w + sum_list (map (st_wait s) [0..<m])"
    using assms(1) True run
    by (auto simp: read_callback_def pass_time_def act_unfold split: sum.splits)
  also have "\<dots> \<le> lb_now w + m * b"
    using sum_list_le_mult[of "[0..<m]" "st_wait s" b] assms(2) by simp
  also have "\<dots> \<le> lb_now w + 8193 * b"
    using read_request_bounds[OF run] by (simp add: mult_right_mono)
  finally show ?thesis .
next
  case False
  then show ?thesis using assms(1) by (simp add: read_callback_def throw_def)
qed

text \<open>
  A connection that sends one letter at a time is read to the last of the 8193 bytes, however long each takes.
\<close>

definition dribble :: "duration \<Rightarrow> callback_stream" where
  "dribble d = \<lparr>st_timeout_set = True, st_read = \<lambda>_. Inr ''a'', st_wait = \<lambda>_. d\<rparr>"

lemma dribble_fields [simp]:
  "st_timeout_set (dribble d)" "st_read (dribble d) n = Inr ''a''" "st_wait (dribble d) n = d"
  by (simp_all add: dribble_def)

lemma no_crlf_in_letters: "\<not> str_contains (replicate k CHR ''a'') (crlf @ crlf)"
  by (auto simp: str_contains_sublist crlf_def dest!: set_mono_sublist)

lemma dribble_reads:
  assumes "k \<le> 8192"
  shows "read_request (dribble d) k (replicate k CHR ''a'') = (Inl InvalidPkceCallback, 8193)"
  using assms
proof (induction "8192 - k" arbitrary: k)
  case (Suc x)
  have "replicate k CHR ''a'' @ ''a'' = replicate (Suc k) CHR ''a''" by (simp add: replicate_append_same)
  moreover have "read_request (dribble d) (Suc k) (replicate (Suc k) CHR ''a'') = (Inl InvalidPkceCallback, 8193)"
    using Suc by (intro Suc.hyps) auto
  ultimately show ?case
    using Suc.hyps(2) Suc.prems no_crlf_in_letters[of "Suc k"]
    by (auto simp add: read_request.simps[of "dribble d" k])
next
  case 0
  have "replicate k CHR ''a'' @ ''a'' = replicate (Suc k) CHR ''a''" by (simp add: replicate_append_same)
  then show ?case
    using 0 no_crlf_in_letters[of "Suc k", unfolded replicate_Suc] by (subst read_request.simps) simp
qed

lemma sum_list_const: "sum_list (map (st_wait (dribble d)) ns) = length ns * d"
  by (induction ns) simp_all

lemma read_callback_dribble:
  "read_callback ax (dribble d) address w = (Inl InvalidPkceCallback, w\<lparr>lb_now := lb_now w + 8193 * d\<rparr>)"
  using dribble_reads[of 0 d]
  by (simp add: read_callback_def pass_time_def act_unfold sum_list_const)

section \<open>The loop\<close>

text \<open>The clock, and what the outside will do, along a run.\<close>

definition time_passes :: "loopback_world \<Rightarrow> loopback_world \<Rightarrow> bool" where
  "time_passes w w' \<longleftrightarrow> lb_now w \<le> lb_now w' \<and> lb_accept w' = lb_accept w"

interpretation passing: state_preorder time_passes
  by unfold_locales (auto simp: time_passes_def)

lemma keeps_outside:
  "keeps time_passes (ask_outside f)" "keeps time_passes runtime_cancelled" "keeps time_passes runtime_now_unix"
  "keeps time_passes (pass_time d)" "keeps time_passes (runtime_sleep d)" "keeps time_passes take_listener"
  "keeps time_passes (spawn_browser c)"
  by (auto simp: keeps_def time_passes_def ask_outside_def runtime_cancelled_def runtime_now_unix_def pass_time_def
      runtime_sleep_def take_listener_def spawn_browser_def lb_tick_def act_unfold Let_def split: option.splits)

lemma keeps_launch_browser: "keeps time_passes (launch_browser platform u)"
  unfolding launch_browser_def
  by (auto split: prod.splits intro!: passing.keeps_bindA passing.keeps_lift passing.keeps_get_world keeps_outside)

text \<open>One round that goes on: it was not cancelled, the deadline had not passed, and it waited unless a stranger connected.\<close>

lemma accept_loop_Suc_None:
  assumes "accept_loop (Suc fuel) ax address deadline w = (Inr None, w')"
    and "\<And>n s. lb_accept w n \<noteq> Connection False s"
  shows "lb_now w < from_secs deadline \<and>
    (\<exists>v. accept_loop fuel ax address deadline v = (Inr None, w') \<and> lb_now w + 50000000 \<le> lb_now v \<and>
       lb_accept v = lb_accept w)"
proof -
  let ?v = "lb_tick (lb_tick w)"
  have now: "lb_now w \<le> lb_now (lb_tick (lb_tick w))" by (simp add: lb_tick_def)
  have live: "as_secs (lb_now ?v) < deadline"
    and next_call: "(case lb_accept w (lb_calls ?v) of NoConnection \<Rightarrow>
        bindA (runtime_sleep 50000000) (\<lambda>_. accept_loop fuel ax address deadline) (lb_tick ?v) = (Inr None, w') | _ \<Rightarrow> False)"
    using assms
    by (auto simp: bindA_def runtime_cancelled_def runtime_now_unix_def ask_outside_def throw_def ret_def modify_def
        lb_tick_def Let_def split: if_splits accepted.splits sum.splits prod.splits)
  have "lb_now ?v < from_secs deadline"
    using live by (simp add: as_secs_def from_secs_def div_less_iff_less_mult)
  then show ?thesis
    using now next_call
    by (auto simp: runtime_sleep_def ask_outside_def pass_time_def act_unfold lb_tick_def split: accepted.splits)
qed

lemma accept_loop_None:
  assumes "accept_loop (Suc fuel) ax address deadline w = (Inr None, w')"
    and "\<And>n s. lb_accept w n \<noteq> Connection False s"
  shows "lb_now w + 50000000 * fuel < from_secs deadline"
  using assms
proof (induction fuel arbitrary: w)
  case 0
  then show ?case using accept_loop_Suc_None[OF 0] by simp
next
  case (Suc fuel)
  from accept_loop_Suc_None[OF Suc.prems] obtain v where v: "accept_loop (Suc fuel) ax address deadline v = (Inr None, w')"
    "lb_now w + 50000000 \<le> lb_now v" "lb_accept v = lb_accept w" by blast
  have "lb_now v + 50000000 * fuel < from_secs deadline"
    using v(1,3) Suc.prems(2) by (intro Suc.IH) simp_all
  then show ?case using v(2) by simp
qed

lemma loopback_authorize_returns:
  assumes "loopback_authorize (Suc fuel) platform ax u deadline w = (r, w')"
    and "\<And>n s. lb_accept w n \<noteq> Connection False s" and "from_secs deadline \<le> lb_now w + 50000000 * fuel"
  shows "r \<noteq> Inr None"
proof
  assume "r = Inr None"
  then obtain x1 v1 address v2 known v3 where
    run: "launch_browser platform u w = (x1, v1)" "take_listener v1 = (Inr address, v2)"
      "ask_outside (\<lambda>w. lb_address_known w (lb_calls w)) v2 = (known, v3)"
    and loop: "accept_loop (Suc fuel) ax address deadline v3 = (Inr None, w')"
    using assms(1)
    by (auto simp: loopback_authorize_def bindA_eq_Inr simp del: accept_loop.simps split: if_splits)
  have "time_passes w v3"
    using keepsD[OF keeps_launch_browser run(1)] keepsD[OF keeps_outside(6) run(2)] keepsD[OF keeps_outside(1) run(3)]
    by (metis passing.R_trans)
  then show False
    using loop accept_loop_None[of fuel ax _ deadline v3 w'] assms(2,3) unfolding time_passes_def by fastforce
qed

text \<open>
  The deadline is not looked at while a connection is read: one that is accepted in time and dribbles keeps
  the login for the time of 8193 reads, however far the deadline lies behind then.
\<close>

lemma slow_connection_outlasts_deadline:
  assumes "\<not> lb_cancelled w (lb_calls w)" and "as_secs (lb_now (lb_tick (lb_tick w))) < deadline"
    and "lb_accept w (Suc (Suc (lb_calls w))) = Connection True (dribble d)"
  obtains w' where "accept_loop (Suc fuel) ax address deadline w = (Inl InvalidPkceCallback, w')"
    "lb_now w + 8193 * d \<le> lb_now w'"
proof
  show "accept_loop (Suc fuel) ax address deadline w =
      (Inl InvalidPkceCallback, (lb_tick (lb_tick (lb_tick w)))\<lparr>lb_now := lb_now (lb_tick (lb_tick (lb_tick w))) + 8193 * d\<rparr>)"
    using assms
    by (simp add: bindA_def runtime_cancelled_def runtime_now_unix_def ask_outside_def read_callback_dribble)
      (simp add: lb_tick_def bindA_def read_callback_dribble)
  show "lb_now w + 8193 * d \<le>
      lb_now ((lb_tick (lb_tick (lb_tick w)))\<lparr>lb_now := lb_now (lb_tick (lb_tick (lb_tick w))) + 8193 * d\<rparr>)"
    by (simp add: lb_tick_def)
qed

section \<open>What is returned\<close>

text \<open>A callback comes from one connection of this machine, read while the deadline had not passed.\<close>

definition from_one_connection :: "account_ext \<Rightarrow> bytes \<Rightarrow> nat \<Rightarrow> loopback_world \<Rightarrow> pkce_callback \<Rightarrow> bool" where
  "from_one_connection ax address deadline w callback \<longleftrightarrow>
     (\<exists>n s m request. lb_accept w n = Connection True s \<and> st_timeout_set s \<and>
        read_request s 0 [] = (Inr request, m) \<and> is_callback ax address request callback)"

lemma accept_loop_Some:
  assumes "accept_loop fuel ax address deadline w = (Inr (Some callback), w')"
  shows "from_one_connection ax address deadline w callback \<and> lb_now w < from_secs deadline"
  using assms
proof (induction fuel arbitrary: w)
  case (Suc fuel)
  let ?v = "lb_tick (lb_tick w)"
  have live: "as_secs (lb_now ?v) < deadline"
    and next_call: "(case lb_accept w (lb_calls ?v) of
        NoConnection \<Rightarrow>
          bindA (runtime_sleep 50000000) (\<lambda>_. accept_loop fuel ax address deadline) (lb_tick ?v) = (Inr (Some callback), w')
      | Connection False s \<Rightarrow> accept_loop fuel ax address deadline (lb_tick ?v) = (Inr (Some callback), w')
      | Connection True s \<Rightarrow> fst (read_callback ax s address (lb_tick ?v)) = Inr callback
      | AcceptFailed \<Rightarrow> False)"
    using Suc.prems
    by (auto simp: bindA_def runtime_cancelled_def runtime_now_unix_def ask_outside_def throw_def ret_def modify_def
        lb_tick_def Let_def split: if_splits accepted.splits sum.splits prod.splits bool.splits)
  have "lb_now w \<le> lb_now ?v" by (simp add: lb_tick_def)
  also have "\<dots> < from_secs deadline"
    using live by (simp add: as_secs_def from_secs_def div_less_iff_less_mult)
  finally have now: "lb_now w < from_secs deadline" .
  consider (waits) "lb_accept w (lb_calls ?v) = NoConnection"
    | (stranger) s where "lb_accept w (lb_calls ?v) = Connection False s"
    | (served) s where "lb_accept w (lb_calls ?v) = Connection True s"
    | (failed) "lb_accept w (lb_calls ?v) = AcceptFailed"
    by (metis (full_types) accepted.exhaust)
  then show ?case
  proof cases
    case waits
    then obtain v where "accept_loop fuel ax address deadline v = (Inr (Some callback), w')" "lb_accept v = lb_accept w"
      using next_call by (auto simp: runtime_sleep_def ask_outside_def pass_time_def act_unfold lb_tick_def)
    then show ?thesis using Suc.IH[of v] now unfolding from_one_connection_def by simp
  next
    case stranger
    then have "from_one_connection ax address deadline (lb_tick ?v) callback" using next_call Suc.IH by simp
    then show ?thesis using now by (simp add: from_one_connection_def lb_tick_def)
  next
    case served
    then obtain request m where "st_timeout_set s" "read_request s 0 [] = (Inr request, m)"
      "parse_callback_request ax request address = Inr callback"
      using next_call
      by (auto simp: read_callback_def pass_time_def act_unfold Let_def split: if_splits prod.splits sum.splits)
    then show ?thesis
      using served now parse_callback_request_Inr unfolding from_one_connection_def by blast
  qed (use next_call in simp)
qed simp

lemma loopback_authorize_Some:
  assumes "loopback_authorize fuel platform ax u deadline w = (Inr (Some callback), w')"
  shows "\<exists>address. lb_slot w = Some address \<and> from_one_connection ax address deadline w callback \<and>
    lb_now w < from_secs deadline"
proof -
  obtain x1 v1 address v2 known v3 where
    run: "launch_browser platform u w = (x1, v1)" "take_listener v1 = (Inr address, v2)"
      "ask_outside (\<lambda>w. lb_address_known w (lb_calls w)) v2 = (known, v3)"
    and loop: "accept_loop fuel ax address deadline v3 = (Inr (Some callback), w')"
    using assms by (auto simp: loopback_authorize_def bindA_eq_Inr split: if_splits)
  have "time_passes w v3"
    using keepsD[OF keeps_launch_browser run(1)] keepsD[OF keeps_outside(6) run(2)] keepsD[OF keeps_outside(1) run(3)]
    by (metis passing.R_trans)
  moreover have "lb_slot v1 = lb_slot w"
    using run(1)
    by (auto simp: launch_browser_def spawn_browser_def lb_tick_def act_unfold Let_def split: sum.splits prod.splits)
  then have "lb_slot w = Some address" using run(2) by (auto simp: take_listener_def split: option.splits)
  ultimately show ?thesis
    using accept_loop_Some[OF loop] by (auto simp: time_passes_def from_one_connection_def)
qed

end
