(* ===== verification/Account_Locks.thy ===== *)
theory Account_Locks
  imports Account_World Fs_Safe
begin

text \<open>
  The refresh lock as it is implemented (\<^verbatim>\<open>FileRefreshLock\<close> of \<^verbatim>\<open>src/src/account/store.rs\<close>): the checks of
  its path, the file that is opened or created, the advisory lock that is tried until the timeout, and the
  slot that keeps one process from taking it twice. What the other processes hold is the outside's choice
  by the number of tries; the mutex of the slot is never poisoned, because nothing panics while it is held.
\<close>

section \<open>The machine\<close>

text \<open>What one \<^verbatim>\<open>try_lock_exclusive\<close> says.\<close>

datatype flock = Taken | HeldElsewhere | FlockFailed

record lock_world =
  lk_files :: world
  lk_held :: bool
  lk_now :: duration
  lk_tries :: nat
  lk_delay :: "nat \<Rightarrow> duration"
  lk_flock :: "nat \<Rightarrow> flock"

type_synonym 'a locking = "(lock_world, account_error, 'a) action"

definition on_files :: "(account_error, 'a) act \<Rightarrow> 'a locking" where
  "on_files m v = (case m (lk_files v) of (r, w) \<Rightarrow> (r, v\<lparr>lk_files := w\<rparr>))"

definition try_lock_exclusive :: "flock locking" where
  "try_lock_exclusive v =
     (Inr (lk_flock v (lk_tries v)), v\<lparr>lk_tries := Suc (lk_tries v), lk_now := lk_now v + lk_delay v (lk_tries v)\<rparr>)"

definition instant_now :: "duration locking" where
  "instant_now v = (Inr (lk_now v), v)"

definition thread_sleep :: "duration \<Rightarrow> unit locking" where
  "thread_sleep d = modify (\<lambda>v. v\<lparr>lk_now := lk_now v + d\<rparr>)"

section \<open>The path\<close>

definition file_lock_new :: "path \<Rightarrow> (account_error, path) act" where
  "file_lock_new p =
     (if \<not> is_absolute p \<or> file_name p = None then throw RefreshLockUnavailable
      else case parent p of
        None \<Rightarrow> throw RefreshLockUnavailable
      | Some d \<Rightarrow>
          bindA (map_err (\<lambda>_. RefreshLockUnavailable) (symlink_metadata d)) (\<lambda>n.
          if \<not> (case n of Directory _ \<Rightarrow> True | _ \<Rightarrow> False) then throw RefreshLockUnavailable
          else
            bindA (attempt (symlink_metadata p)) (\<lambda>existing.
            if existing = Inr Symlink then throw RefreshLockUnavailable else ret p)))"

text \<open>\<^verbatim>\<open>OpenOptions::new().read(true).write(true).create(true).mode(0o600)\<close>; the content is left as it is.\<close>

definition open_or_create :: "path \<Rightarrow> mode \<Rightarrow> (io_kind, unit) act" where
  "open_or_create p m = syscall (\<lambda>w.
     case lookup w p of
       Some (File _ _) \<Rightarrow> (Inr (), w)
     | Some (Directory _) \<Rightarrow> (Inl IsADirectory, w)
     | Some _ \<Rightarrow> (Inl (OtherKind 0), w)
     | None \<Rightarrow>
         if \<not> parent_is_directory w p then (Inl NotFound, w)
         else (Inr (), put p (File [] (m AND NOT (umask w))) w))"

definition file_lock_open :: "path \<Rightarrow> (account_error, unit) act" where
  "file_lock_open p = map_err (\<lambda>_. RefreshLockUnavailable) (open_or_create p 384)"

section \<open>Acquiring and releasing\<close>

text \<open>\<open>None\<close> says that the fuel ran out before the loop returned.\<close>

fun flock_loop :: "nat \<Rightarrow> duration \<Rightarrow> duration \<Rightarrow> unit option locking" where
  "flock_loop 0 started timeout = ret None"
| "flock_loop (Suc fuel) started timeout =
     bindA try_lock_exclusive (\<lambda>outcome.
     case outcome of
       Taken \<Rightarrow> bindA (modify (\<lambda>v. v\<lparr>lk_held := True\<rparr>)) (\<lambda>_. ret (Some ()))
     | HeldElsewhere \<Rightarrow>
         bindA instant_now (\<lambda>now.
         if now - started \<ge> timeout then throw RefreshLockUnavailable
         else bindA (thread_sleep 25000000) (\<lambda>_. flock_loop fuel started timeout))
     | FlockFailed \<Rightarrow> throw RefreshLockUnavailable)"

definition file_lock_acquire :: "nat \<Rightarrow> path \<Rightarrow> duration \<Rightarrow> unit option locking" where
  "file_lock_acquire fuel p timeout =
     bindA get_world (\<lambda>v.
     if lk_held v then throw RefreshLockUnavailable
     else
       bindA (on_files (file_lock_open p)) (\<lambda>_.
       bindA instant_now (\<lambda>started. flock_loop fuel started timeout)))"

text \<open>Taking the file out of the slot and unlocking it; an error of the unlock is dropped, and so is the file.\<close>

definition file_lock_release :: "unit locking" where
  "file_lock_release = modify (\<lambda>v. v\<lparr>lk_held := False\<rparr>)"

text \<open>
  The file lock implements the refresh lock the account client is specified with: it answers in bounded
  time, it is held exactly when it says so, and it leaves no trace but an empty file.
\<close>

section \<open>The files\<close>

text \<open>The only change to the tree: an empty file where none was.\<close>

definition only_empty_file :: "path \<Rightarrow> world \<Rightarrow> world \<Rightarrow> bool" where
  "only_empty_file p w w' \<longleftrightarrow>
     lookup w' = lookup w \<or>
     lookup w p = None \<and> lookup w' = (lookup w)(p \<mapsto> File [] (384 AND NOT (umask w)))"

lemma file_lock_open_files:
  assumes "file_lock_open p w = (r, w')"
  shows "only_empty_file p w w' \<and> (r = Inr () \<or> r = Inl RefreshLockUnavailable)"
  using assms
  by (auto simp: file_lock_open_def open_or_create_def map_err_def syscall_def only_empty_file_def lookup_put Let_def
      split: prod.splits option.splits fault.splits node.splits if_splits sum.splits)

section \<open>The loop\<close>

definition slot_follows :: "(account_error + unit option) \<Rightarrow> lock_world \<Rightarrow> lock_world \<Rightarrow> bool" where
  "slot_follows r v v' \<longleftrightarrow>
     lk_files v' = lk_files v \<and>
     (case r of
        Inl e \<Rightarrow> e = RefreshLockUnavailable \<and> lk_held v' = lk_held v
      | Inr taken \<Rightarrow> lk_held v' = (lk_held v \<or> taken = Some ()))"

lemma flock_loop_slot: "flock_loop fuel started timeout v = (r, v') \<Longrightarrow> slot_follows r v v'"
proof (induction fuel arbitrary: v)
  case 0
  then show ?case by (simp add: slot_follows_def)
next
  case (Suc fuel)
  let ?v = "v\<lparr>lk_tries := Suc (lk_tries v), lk_now := lk_now v + lk_delay v (lk_tries v)\<rparr>"
  show ?case
  proof (cases "lk_flock v (lk_tries v)")
    case HeldElsewhere
    show ?thesis
    proof (cases "timeout \<le> lk_now ?v - started")
      case True
      then show ?thesis
        using Suc.prems HeldElsewhere
        by (auto simp: try_lock_exclusive_def instant_now_def act_unfold slot_follows_def)
    next
      case False
      then have "flock_loop fuel started timeout (?v\<lparr>lk_now := lk_now ?v + 25000000\<rparr>) = (r, v')"
        using Suc.prems HeldElsewhere
        by (auto simp: try_lock_exclusive_def instant_now_def thread_sleep_def act_unfold)
      from Suc.IH[OF this] show ?thesis by (auto simp: slot_follows_def split: sum.splits)
    qed
  qed (use Suc.prems in \<open>auto simp: try_lock_exclusive_def act_unfold slot_follows_def\<close>)
qed

lemma flock_loop_None:
  assumes "flock_loop (Suc fuel) started timeout v = (Inr None, v')" and "started \<le> lk_now v"
  shows "lk_now v + 25000000 * fuel < started + timeout"
  using assms
proof (induction fuel arbitrary: v)
  case 0
  then show ?case
    by (auto simp: try_lock_exclusive_def instant_now_def thread_sleep_def act_unfold split: flock.splits if_splits)
next
  case (Suc fuel)
  let ?v = "v\<lparr>lk_tries := Suc (lk_tries v), lk_now := lk_now v + lk_delay v (lk_tries v) + 25000000\<rparr>"
  have "flock_loop (Suc fuel) started timeout ?v = (Inr None, v')"
    using Suc.prems(1)
    by (auto simp: try_lock_exclusive_def instant_now_def thread_sleep_def act_unfold simp del: flock_loop.simps(2)
        simp: flock_loop.simps(2)[of "Suc fuel"] split: flock.splits if_splits)
  from Suc.IH[OF this] show ?case using Suc.prems(2) by simp
qed

lemma file_lock_acquire_run:
  assumes "file_lock_acquire fuel p timeout v = (r, v')"
  shows "only_empty_file p (lk_files v) (lk_files v') \<and>
    (case r of
       Inl e \<Rightarrow> e = RefreshLockUnavailable \<and> lk_held v' = lk_held v
     | Inr taken \<Rightarrow> \<not> lk_held v \<and> lk_held v' = (taken = Some ()))"
proof (cases "lk_held v")
  case True
  then show ?thesis
    using assms by (auto simp: file_lock_acquire_def act_unfold only_empty_file_def)
next
  case False
  obtain x w where opened: "file_lock_open p (lk_files v) = (x, w)" by force
  show ?thesis
  proof (cases x)
    case (Inl e)
    then show ?thesis
      using assms False opened file_lock_open_files[OF opened]
      by (auto simp: file_lock_acquire_def on_files_def act_unfold)
  next
    case (Inr u)
    then have "flock_loop fuel (lk_now v) timeout (v\<lparr>lk_files := w\<rparr>) = (r, v')"
      using assms False opened
      by (auto simp: file_lock_acquire_def on_files_def instant_now_def act_unfold)
    from flock_loop_slot[OF this] show ?thesis
      using False file_lock_open_files[OF opened] by (auto simp: slot_follows_def split: sum.splits)
  qed
qed

lemma file_lock_acquire_returns:
  assumes "file_lock_acquire (Suc fuel) p timeout v = (r, v')" and "timeout \<le> 25000000 * fuel"
  shows "r \<noteq> Inr None"
proof
  assume none: "r = Inr None"
  obtain x w where opened: "file_lock_open p (lk_files v) = (x, w)" by force
  have "flock_loop (Suc fuel) (lk_now v) timeout (v\<lparr>lk_files := w\<rparr>) = (Inr None, v')"
    using assms(1) none opened
    by (auto simp: file_lock_acquire_def on_files_def instant_now_def act_unfold simp del: flock_loop.simps
        split: if_splits sum.splits)
  from flock_loop_None[OF this] show False using assms(2) by simp
qed

section \<open>The refinement\<close>

text \<open>
  A world of the client and the machine under its lock agree: on who holds the slot, and the client's world
  says busy exactly when the machine refuses.
\<close>

definition lock_agrees :: "nat \<Rightarrow> path \<Rightarrow> duration \<Rightarrow> account_world \<Rightarrow> lock_world \<Rightarrow> bool" where
  "lock_agrees fuel p timeout w v \<longleftrightarrow>
     aw_locked w = lk_held v \<and>
     (\<not> lk_held v \<longrightarrow> aw_lock_busy w (aw_calls w) = isl (fst (file_lock_acquire fuel p timeout v)))"

lemma file_lock_refines:
  assumes "lock_agrees (Suc fuel) p timeout w v" and "timeout \<le> 25000000 * fuel"
    and "file_lock_acquire (Suc fuel) p timeout v = (r, v')" and "refresh_lock_acquire timeout w = (a, w')"
  shows "(case r of Inl e \<Rightarrow> a = Inl e | Inr taken \<Rightarrow> taken = Some () \<and> a = Inr ()) \<and> aw_locked w' = lk_held v'"
proof (cases r)
  case (Inl e)
  then show ?thesis
    using assms file_lock_acquire_run[OF assms(3)]
    by (auto simp: lock_agrees_def refresh_lock_acquire_def tick_def split: if_splits)
next
  case (Inr taken)
  then show ?thesis
    using assms file_lock_acquire_run[OF assms(3)] file_lock_acquire_returns[OF assms(3,2)]
    by (auto simp: lock_agrees_def refresh_lock_acquire_def tick_def split: if_splits)
qed

end
