(* ===== verification/Demo_Transport.thy ===== *)
theory Demo_Transport
  imports Demo_Account Account_Transport Account_Loopback Account_Locks
begin

text \<open>
  Small machines under the account client: a server behind the HTTP stack, a browser that comes back to the
  loopback listener, a lock another process gives up after one try.
\<close>

section \<open>The HTTP stack\<close>

text \<open>A stand-in for \<^verbatim>\<open>Url::join\<close> that keeps the authority.\<close>

definition demo_transport_ext :: account_ext where
  "demo_transport_ext = demo_account_ext\<lparr>ax_join := \<lambda>u p. Some (u\<lparr>u_text := u_text u @ p, u_path := p\<rparr>)\<rparr>"

lemma demo_join: "join_keeps_authority demo_transport_ext"
  by (simp add: join_keeps_authority_def demo_transport_ext_def same_authority_def)

definition demo_transport :: native_transport where
  "demo_transport =
     \<lparr>nt_config = demo_account_config,
      nt_agent = \<lparr>ha_redirects = 0, ha_timeout_connect = from_secs 15, ha_timeout_read = from_secs 15,
                 ha_timeout_write = from_secs 15, ha_user_agent = ''kaleidoscope-manager/1''\<rparr>\<rparr>"

lemma demo_transport_made:
  "ax_origin ax = (\<lambda>_. ''https://kal.example'') \<Longrightarrow> native_transport_new ax ''1'' demo_account_config = Inr demo_transport"
  by (simp add: native_transport_new_def account_config_validate_def validate_https_url_def demo_account_config_def
      demo_issuer_def demo_url_def valid_identifier_def is_ascii_def ascii_whitespace_def valid_callback_path_def
      starts_with_def str_contains_def from_secs_def origin_key_def demo_transport_def Let_def)

text \<open>Every request is answered by status 200 and an empty body.\<close>

definition demo_http :: http_world where
  "demo_http = \<lparr>hw_calls = 0, hw_clock = \<lambda>_. 0, hw_outcome = \<lambda>_ _. Answered 200 None [] False, hw_requests = []\<rparr>"

definition demo_get_account :: wire_request where
  "demo_get_account = \<lparr>wq_endpoint = GetAccount, wq_access_token = Some (demo_secret CHR ''a''), wq_body = []\<rparr>"

definition demo_asked :: http_request where
  "demo_asked =
     asked demo_transport ''GET'' (demo_issuer\<lparr>u_text := u_text demo_issuer @ ''/v1/account'', u_path := ''/v1/account''\<rparr>)
       [] (Some (demo_secret CHR ''a'')) (from_secs 15)"

lemma demo_get_account_valid: "wire_request_validate demo_transport_ext demo_get_account = Inr ()"
  by (simp add: wire_request_validate_iff request_contract_def demo_get_account_def parse_endpoint_def fixed_endpoint_def)

lemma demo_native_send:
  "native_send demo_transport_ext demo_transport demo_get_account 100 demo_http =
     (Inr \<lparr>wr_status = 200, wr_body = []\<rparr>, demo_http\<lparr>hw_calls := 2, hw_requests := [demo_asked]\<rparr>)"
proof -
  have "account_url demo_transport_ext (nt_config demo_transport) GetAccount =
      Inr (demo_issuer\<lparr>u_text := u_text demo_issuer @ ''/v1/account'', u_path := ''/v1/account''\<rparr>)"
    by (simp add: account_url_def demo_transport_ext_def demo_transport_def demo_account_config_def)
  moreover have "min (ac_request_timeout (nt_config demo_transport)) (from_secs 100) = from_secs 15"
    by (simp add: demo_transport_def demo_account_config_def from_secs_def)
  ultimately show ?thesis
    using demo_get_account_valid
    by (simp add: native_send_def http_execute_def native_request_timeout_run act_unfold Let_def call_http_def
        demo_get_account_def demo_http_def system_now_unix_def as_secs_def demo_asked_def asked_def http_answer_def
        announces_more_def read_bounded_def saturating_add_def u64_max_def bindR_def wire_response_new_def)
qed

section \<open>The client over it\<close>

text \<open>The documents a client gets through the transport.\<close>

definition demo_documents :: "nat \<Rightarrow> oidc_document \<Rightarrow> url \<Rightarrow> account_error + wire_response" where
  "demo_documents n kind u = fst (native_get_oidc_document demo_account_ext demo_transport kind u 100 demo_http)"

lemma demo_documents_at:
  "demo_documents n Discovery (demo_url (trim_end_slashes ''https://kal.example/'' @ ''/.well-known/openid-configuration'')) =
     Inr \<lparr>wr_status = 200, wr_body = []\<rparr>"
  "demo_documents n Jwks (demo_url ''https://kal.example/keys'') = Inr \<lparr>wr_status = 200, wr_body = []\<rparr>"
proof -
  have execute: "http_execute demo_transport ''GET'' u [] None 100 max_oidc_document_bytes demo_http =
      (Inr \<lparr>wr_status = 200, wr_body = []\<rparr>, snd (http_execute demo_transport ''GET'' u [] None 100 max_oidc_document_bytes demo_http))"
    for u
    by (simp add: http_execute_def native_request_timeout_run act_unfold Let_def call_http_def demo_http_def
        system_now_unix_def as_secs_def http_answer_def announces_more_def read_bounded_def saturating_add_def
        u64_max_def bindR_def wire_response_new_def)
  have expected: "native_discovery_url demo_account_ext (ac_issuer (nt_config demo_transport)) =
      Inr (demo_url (trim_end_slashes ''https://kal.example/'' @ ''/.well-known/openid-configuration''))"
    by (simp add: native_discovery_url_def demo_account_ext_def demo_transport_def demo_issuer_def demo_url_def)
  have valid: "validate_oidc_url demo_account_ext (nt_config demo_transport) (demo_url u) q = Inr ()" for u q
    using demo_oidc_url by (simp add: demo_transport_def)
  show "demo_documents n Discovery (demo_url (trim_end_slashes ''https://kal.example/'' @ ''/.well-known/openid-configuration'')) =
     Inr \<lparr>wr_status = 200, wr_body = []\<rparr>"
    unfolding demo_documents_def native_get_oidc_document_def
    by (subst fst_conv[symmetric, of "Inr \<lparr>wr_status = 200, wr_body = []\<rparr>"], rule arg_cong[of _ _ fst])
      (simp add: bindA_def lift_def ret_def valid expected url_eq_def, rule execute)
  show "demo_documents n Jwks (demo_url ''https://kal.example/keys'') = Inr \<lparr>wr_status = 200, wr_body = []\<rparr>"
    unfolding demo_documents_def native_get_oidc_document_def
    by (subst fst_conv[symmetric, of "Inr \<lparr>wr_status = 200, wr_body = []\<rparr>"], rule arg_cong[of _ _ fst])
      (simp add: bindA_def lift_def ret_def valid, rule execute)
qed

definition demo_native_world :: account_world where
  "demo_native_world = (demo_keyring demo_rotates)\<lparr>aw_document := demo_documents\<rparr>"

lemma demo_native_discover [simp]:
  assumes "aw_document w = demo_documents"
  shows "discover demo_account_ext demo_account_config d w = (Inr demo_provider, tick (tick w))"
proof -
  have "discovery_url demo_account_ext (ac_issuer demo_account_config) =
      Inr (demo_url (trim_end_slashes ''https://kal.example/'' @ ''/.well-known/openid-configuration''))"
    by (simp add: discovery_url_def demo_account_ext_def demo_account_config_def demo_issuer_def demo_url_def)
  moreover have "url_eq (dc_issuer demo_discovery) (ac_issuer demo_account_config)"
    by (simp add: url_eq_def demo_discovery_fields demo_account_config_def)
  moreover have "parse_document (ax_discovery demo_account_ext) \<lparr>wr_status = 200, wr_body = []\<rparr> = Inr demo_discovery"
    "parse_document (ax_jwks demo_account_ext) \<lparr>wr_status = 200, wr_body = []\<rparr> = Inr [demo_key]"
    by (simp_all add: parse_document_def demo_account_ext_def)
  ultimately show ?thesis
    using assms demo_documents_at
    by (simp add: discover_def run_branches get_oidc_document_def demo_discovery_fields is_supported_algorithm_def
        demo_provider_def tick_def)
qed

lemma demo_native_logout:
  "fst (demo_logout RequireRemoteRevocation demo_native_world) = Inr (logout_result_of ''session_revoked'' True True None)"
  by (simp add: demo_native_world_def demo_logout_def logout_def logout_revoking_def send_expecting_empty_def
      expect_empty_success_def demo_refreshing demo_run demo_rotates_def)

lemma demo_over_native: "client_over_native demo_account_ext demo_transport demo_native_world"
  by (auto simp: client_over_native_def demo_native_world_def demo_documents_def demo_account_world_def)

section \<open>The browser that comes back\<close>

definition demo_callback_ext :: account_ext where
  "demo_callback_ext = demo_account_ext\<lparr>ax_query_pairs := \<lambda>_. [(''code'', ''c''), (''x'', ''y''), (''state'', ''s'')]\<rparr>"

definition demo_callback_stream :: callback_stream where
  "demo_callback_stream =
     \<lparr>st_timeout_set = True,
      st_read = \<lambda>n. if n = 0 then Inr (''GET /callback?code=c&x=y&state=s HTTP/1.1'' @ crlf)
                    else if n = 1 then Inr (''Host: localhost'' @ crlf @ crlf) else Inl (),
      st_wait = \<lambda>_. 1\<rparr>"

text \<open>Nobody connects at first, then the browser does.\<close>

definition demo_loopback_world :: loopback_world where
  "demo_loopback_world =
     \<lparr>lb_slot = Some ''127.0.0.1:9000'', lb_now = 0, lb_calls = 0, lb_launched = [], lb_answered = [],
      lb_delay = \<lambda>_. 0, lb_cancelled = \<lambda>_. False, lb_variable = \<lambda>_. None, lb_spawns = \<lambda>_. True,
      lb_bound = \<lambda>_. None, lb_address_known = \<lambda>_. True,
      lb_accept = \<lambda>n. if n < 6 then NoConnection else Connection True demo_callback_stream\<rparr>"

lemma demo_read_request:
  "read_request demo_callback_stream 0 [] =
     (Inr (''GET /callback?code=c&x=y&state=s HTTP/1.1'' @ crlf @ ''Host: localhost'' @ crlf @ crlf), 2)"
proof -
  have "\<not> str_contains (''GET /callback?code=c&x=y&state=s HTTP/1.1'' @ crlf) (crlf @ crlf)"
    "str_contains (''GET /callback?code=c&x=y&state=s HTTP/1.1'' @ crlf @ ''Host: localhost'' @ crlf @ crlf) (crlf @ crlf)"
    by code_simp+
  then show ?thesis
    by (simp add: read_request.simps demo_callback_stream_def crlf_def)
qed

lemma demo_parse_callback:
  "parse_callback_request demo_callback_ext
     (''GET /callback?code=c&x=y&state=s HTTP/1.1'' @ crlf @ ''Host: localhost'' @ crlf @ crlf) ''127.0.0.1:9000'' =
   Inr \<lparr>pc_redirect_uri = demo_url ''http://127.0.0.1:9000/callback?code=c&x=y&state=s'', pc_code = ''c'', pc_state = ''s''\<rparr>"
proof -
  have "callback_target (''GET /callback?code=c&x=y&state=s HTTP/1.1'' @ crlf @ ''Host: localhost'' @ crlf @ crlf) =
      Inr ''/callback?code=c&x=y&state=s''"
    by code_simp
  then show ?thesis
    by (simp add: parse_callback_request_def demo_callback_ext_def demo_account_ext_def demo_url_def bindR_def)
qed

definition demo_callback :: pkce_callback where
  "demo_callback =
     \<lparr>pc_redirect_uri = demo_url ''http://127.0.0.1:9000/callback?code=c&x=y&state=s'', pc_code = ''c'', pc_state = ''s''\<rparr>"

lemma demo_read_callback:
  "read_callback demo_callback_ext demo_callback_stream ''127.0.0.1:9000'' w = (Inr demo_callback, w\<lparr>lb_now := lb_now w + 2\<rparr>)"
proof -
  have "st_timeout_set demo_callback_stream" "sum_list (map (st_wait demo_callback_stream) [0..<2]) = 2"
    by (simp_all add: demo_callback_stream_def numeral_2_eq_2)
  then show ?thesis
    using demo_read_request demo_parse_callback
    by (simp add: read_callback_def act_unfold pass_time_def demo_callback_def)
qed

lemma demo_authorize:
  "fst (loopback_authorize (Suc (Suc fuel)) (Some Linux) demo_callback_ext u 1 demo_loopback_world) = Inr (Some demo_callback)"
  by (simp add: demo_loopback_world_def loopback_authorize_def launch_browser_def spawn_browser_def take_listener_def
      act_unfold ask_outside_def runtime_cancelled_def runtime_now_unix_def runtime_sleep_def pass_time_def
      lb_tick_def as_secs_def Let_def demo_read_callback)

section \<open>The lock\<close>

definition demo_lock_files :: world where
  "demo_lock_files =
     \<lparr>files = [([RootDir], Directory 493)], ticks = 0, faults = \<lambda>_. None, temp_sequence = 0, pid = 1, umask = 0\<rparr>"

definition demo_lock_world :: lock_world where
  "demo_lock_world =
     \<lparr>lk_files = demo_lock_files, lk_held = False, lk_now = 0, lk_tries = 0, lk_delay = \<lambda>_. 1,
      lk_flock = \<lambda>n. if n = 0 then HeldElsewhere else Taken\<rparr>"

definition demo_lock_path :: path where
  "demo_lock_path = [RootDir, Normal ''account-refresh.lock'']"

lemma demo_lock_acquire:
  "file_lock_acquire (Suc 2) demo_lock_path 30000000 demo_lock_world =
     (Inr (Some ()),
      demo_lock_world\<lparr>lk_files := put demo_lock_path (File [] 384) (demo_lock_files\<lparr>ticks := 1\<rparr>), lk_held := True,
        lk_tries := 2, lk_now := 25000002\<rparr>)"
proof -
  have fresh: "lookup demo_lock_files demo_lock_path = None" "parent_is_directory demo_lock_files demo_lock_path"
    by (simp_all add: lookup_def demo_lock_files_def demo_lock_path_def parent_is_directory_def parent_def is_directory_def)
  have plain: "faults demo_lock_files n = None" "ticks demo_lock_files = 0" "umask demo_lock_files = 0"
    "umask (demo_lock_files\<lparr>ticks := t\<rparr>) = 0" for n t
    by (simp_all add: demo_lock_files_def)
  have "on_files (file_lock_open demo_lock_path) demo_lock_world =
      (Inr (), demo_lock_world\<lparr>lk_files := put demo_lock_path (File [] 384) (demo_lock_files\<lparr>ticks := 1\<rparr>)\<rparr>)"
    by (simp add: on_files_def file_lock_open_def open_or_create_def syscall_def map_err_def demo_lock_world_def fresh plain Let_def)
  then show ?thesis
    by (simp add: file_lock_acquire_def act_unfold instant_now_def thread_sleep_def try_lock_exclusive_def numeral_2_eq_2
        demo_lock_world_def)
qed

end
