(* ===== verification/Transport_Properties.thy ===== *)
theory Transport_Properties
  imports Demo_Transport
begin

text \<open>
  The properties of what the account client stands on: the native transport, the listener the browser comes
  back to, the refresh lock. Each rests on \<open>Account_Transport\<close>, \<open>Account_Loopback\<close> or
  \<open>Account_Locks\<close>.
\<close>

section \<open>The transport\<close>

text \<open>C22. Whatever the native transport is asked to send or fetch, in any order, with any answers and at any time,
  every HTTP request it makes goes over TLS, without credentials in its URL, follows no redirect and has a positive
  timeout within the configured one; it goes to the account server, with a body that is within the bound and private
  to nobody, or it is a bare request for a document of an allowed identity provider. A bearer token reaches the
  account server only. This rests on \<^verbatim>\<open>Url::join\<close> keeping the authority of its base for an absolute path.\<close>

theorem native_requests_are_confined:
  assumes "native_transport_new ax version cfg = Inr nt" and "join_keeps_authority ax"
    and "(transport_step ax nt)\<^sup>*\<^sup>* w w'" and "hw_requests w = []" and "q \<in> set (hw_requests w')"
  shows "http_contract ax nt q \<and> ha_redirects (hq_agent q) = 0 \<and>
    ((\<exists>v. (''Authorization'', v) \<in> set (hq_headers q)) \<longrightarrow> same_authority (hq_url q) (ac_control_plane_origin cfg))"
proof -
  note made = native_transport_new_valid[OF assms(1)]
  have "requests_by_contract ax nt w w'"
    using transport_steps_related[OF assms(3) _ assms(2)] made by simp
  then have "http_contract ax nt q"
    using assms(4,5) by (auto simp: requests_by_contract_def)
  then show ?thesis
    using made by (auto simp: http_contract_def to_account_server_def to_identity_provider_def)
qed

theorem native_requests_are_confined_witness:
  "http_contract demo_transport_ext demo_transport demo_asked \<and>
   (''Authorization'', ''Bearer '' @ demo_secret CHR ''a'') \<in> set (hq_headers demo_asked)"
proof -
  have "(transport_step demo_transport_ext demo_transport)\<^sup>*\<^sup>* demo_http (demo_http\<lparr>hw_calls := 2, hw_requests := [demo_asked]\<rparr>)"
    using demo_native_send by (intro r_into_rtranclp) (rule transport_step.sending)
  moreover have "native_transport_new demo_transport_ext ''1'' demo_account_config = Inr demo_transport"
    by (rule demo_transport_made) (simp add: demo_transport_ext_def demo_account_ext_def)
  ultimately show ?thesis
    using native_requests_are_confined[of demo_transport_ext "''1''" demo_account_config demo_transport demo_http _ demo_asked]
      demo_join
    by (auto simp: demo_http_def demo_asked_def asked_def request_headers_def)
qed

text \<open>C23. An answer the transport accepts is the whole body the server sent in reply to the one request that was
  made, before the deadline: it fits the bound, 64 KiB for the account server and 1 MiB for a document, the reader
  did not fail, and the length the server announced fits too. A body is never cut short silently.\<close>

theorem native_answer_is_whole:
  shows "(native_send ax nt r deadline w = (Inr response, w') \<longrightarrow>
      (\<exists>q n. hw_requests w' = hw_requests w @ [q] \<and> whole_answer 65536 (hw_outcome w n q) response \<and>
         system_now_unix (hw_clock w (hw_calls w)) < deadline)) \<and>
    (native_get_oidc_document ax nt kind u deadline w = (Inr response, w') \<longrightarrow>
      (\<exists>q n. hw_requests w' = hw_requests w @ [q] \<and> whole_answer 1048576 (hw_outcome w n q) response \<and>
         system_now_unix (hw_clock w (hw_calls w)) < deadline))"
proof -
  have bounds: "max_account_body_bytes < u64_max" "max_oidc_document_bytes < u64_max"
    by (simp_all add: max_account_body_bytes_def max_oidc_document_bytes_def u64_max_def)
  have "\<exists>q n. hw_requests w' = hw_requests w @ [q] \<and> whole_answer 65536 (hw_outcome w n q) response \<and>
      system_now_unix (hw_clock w (hw_calls w)) < deadline"
    if "native_send ax nt r deadline w = (Inr response, w')"
    using that http_execute_Inr[OF _ bounds(1), of nt]
    by (fastforce simp: native_send_def bindA_eq_Inr max_account_body_bytes_def)
  moreover have "\<exists>q n. hw_requests w' = hw_requests w @ [q] \<and> whole_answer 1048576 (hw_outcome w n q) response \<and>
      system_now_unix (hw_clock w (hw_calls w)) < deadline"
    if "native_get_oidc_document ax nt kind u deadline w = (Inr response, w')"
    using that http_execute_Inr[OF _ bounds(2), of nt]
    by (fastforce simp: native_get_oidc_document_def bindA_eq_Inr max_oidc_document_bytes_def split: if_splits)
  ultimately show ?thesis by blast
qed

theorem native_answer_is_whole_witness:
  "\<exists>q n. hw_requests (demo_http\<lparr>hw_calls := 2, hw_requests := [demo_asked]\<rparr>) = hw_requests demo_http @ [q] \<and>
     whole_answer 65536 (hw_outcome demo_http n q) \<lparr>wr_status = 200, wr_body = []\<rparr> \<and>
     system_now_unix (hw_clock demo_http (hw_calls demo_http)) < 100"
  by (rule native_answer_is_whole[THEN conjunct1, rule_format, OF demo_native_send])



section \<open>The browser that comes back\<close>

text \<open>C24. Waiting for the browser ends, and with an error or with a genuine callback. The listener is bound to the
  loopback interface, so nobody else connects; then a fuel of twenty rounds for every second to the deadline is
  never used up. A callback that is returned was read from one connection to the listener that was prepared: a
  \<^verbatim>\<open>GET\<close> request whose target carries exactly one code, exactly one state, no error and no fragment.\<close>

theorem waiting_for_callback_ends:
  assumes "loopback_authorize (Suc fuel) platform ax u deadline w = (r, w')"
    and "\<And>n s. lb_accept w n \<noteq> Connection False s" and "from_secs deadline \<le> lb_now w + 50000000 * fuel"
  shows "(\<exists>e. r = Inl e) \<or>
    (\<exists>callback address. r = Inr (Some callback) \<and> lb_slot w = Some address \<and>
       from_one_connection ax address deadline w callback)"
proof (cases r)
  case (Inr x)
  then obtain callback where "x = Some callback"
    using loopback_authorize_returns[OF assms] by (cases x) auto
  then show ?thesis using assms(1) Inr loopback_authorize_Some by blast
qed blast

theorem waiting_for_callback_ends_witness:
  "\<exists>callback. from_one_connection demo_callback_ext ''127.0.0.1:9000'' 1 demo_loopback_world callback \<and>
     pc_code callback = ''c''"
proof -
  let ?run = "loopback_authorize (Suc (Suc 19)) (Some Linux) demo_callback_ext demo_issuer 1 demo_loopback_world"
  have run: "?run = (Inr (Some demo_callback), snd ?run)"
    using demo_authorize[of 19 demo_issuer] by (metis prod.collapse)
  have "\<And>n s. lb_accept demo_loopback_world n \<noteq> Connection False s"
    and "from_secs 1 \<le> lb_now demo_loopback_world + 50000000 * Suc 19"
    and "lb_slot demo_loopback_world = Some ''127.0.0.1:9000''"
    by (simp_all add: demo_loopback_world_def from_secs_def)
  then have "from_one_connection demo_callback_ext ''127.0.0.1:9000'' 1 demo_loopback_world demo_callback"
    using waiting_for_callback_ends[OF run] by auto
  then show ?thesis by (intro exI[of _ demo_callback]) (simp add: demo_callback_def)
qed

section \<open>The refresh lock\<close>



end
