(* ===== verification/Cli_Arguments.thy ===== *)
theory Cli_Arguments
  imports Instructions Manager_Config
begin

text \<open>
  The argument parser of the command line (\<^verbatim>\<open>src/src/main.rs\<close>): options are taken out of the list of
  arguments one after the other, wherever they stand, and what is left over is refused. Each command's
  options are a record, filled in the order the command takes them.
\<close>

section \<open>Taking arguments\<close>

fun take_flag :: "bytes list \<Rightarrow> bytes \<Rightarrow> bool \<times> bytes list" where
  "take_flag [] flag = (False, [])"
| "take_flag (a # as) flag =
     (if a = flag then (True, as) else (case take_flag as flag of (found, rest) \<Rightarrow> (found, a # rest)))"

text \<open>The first occurrence, and the argument behind it, whatever that is.\<close>

fun take_string_option :: "bytes list \<Rightarrow> bytes \<Rightarrow> manager_error + bytes option \<times> bytes list" where
  "take_string_option [] option = Inr (None, [])"
| "take_string_option (a # as) option =
     (if a = option then
        (case as of [] \<Rightarrow> Inl (Usage (OptionNeedsValue option)) | v # rest \<Rightarrow> Inr (Some v, rest))
      else bindR (take_string_option as option) (\<lambda>(found, rest). Inr (found, a # rest)))"

definition take_path_option :: "bytes list \<Rightarrow> bytes \<Rightarrow> manager_error + path option \<times> bytes list" where
  "take_path_option arguments option =
     map_sum id (map_prod (map_option parse_path) id) (take_string_option arguments option)"

definition require_empty :: "bytes list \<Rightarrow> manager_error + unit" where
  "require_empty arguments = (if arguments = [] then Inr () else Inl (Usage (UnexpectedArguments arguments)))"

definition one_argument :: "bytes list \<Rightarrow> bytes \<Rightarrow> manager_error + bytes" where
  "one_argument arguments message =
     (case arguments of
        [a] \<Rightarrow> Inr a
      | [] \<Rightarrow> Inl (Usage (ArgumentMissing message))
      | _ # rest \<Rightarrow> Inl (Usage (ArgumentNotAlone message rest)))"

definition optional_profile_argument :: "bytes list \<Rightarrow> bytes \<Rightarrow> manager_error + bytes option" where
  "optional_profile_argument arguments message =
     (case arguments of
        [] \<Rightarrow> Inr None
      | [a] \<Rightarrow> Inr (Some a)
      | _ \<Rightarrow> Inl (Usage (ArgumentMissing message)))"

text \<open>\<^verbatim>\<open>map_or(Ok(None), |value| parse(&value).map(Some))\<close>, and the same with a default.\<close>

definition parse_optional :: "(bytes \<Rightarrow> manager_error + 'a) \<Rightarrow> bytes option \<Rightarrow> manager_error + 'a option" where
  "parse_optional parse v = (case v of None \<Rightarrow> Inr None | Some s \<Rightarrow> map_sum id Some (parse s))"

definition parse_default :: "(bytes \<Rightarrow> manager_error + 'a) \<Rightarrow> 'a \<Rightarrow> bytes option \<Rightarrow> manager_error + 'a" where
  "parse_default parse d v = (case v of None \<Rightarrow> Inr d | Some s \<Rightarrow> parse s)"

lemma taken_is_shorter:
  "take_string_option as option = Inr (Some v, rest) \<Longrightarrow> length rest < length as"
  by (induction as option arbitrary: rest rule: take_string_option.induct)
    (auto simp: bindR_eq_Inr split: if_splits list.splits)

text \<open>\<^verbatim>\<open>--host\<close> may be repeated; a host is kept once, where it was named first.\<close>

function take_hosts :: "host list \<Rightarrow> bytes list \<Rightarrow> manager_error + host list \<times> bytes list" where
  "take_hosts hosts arguments =
     (case take_string_option arguments ''--host'' of
        Inl e \<Rightarrow> Inl e
      | Inr (None, rest) \<Rightarrow> Inr (hosts, rest)
      | Inr (Some v, rest) \<Rightarrow>
          (case host_from_str v of
             Inl e \<Rightarrow> Inl e
           | Inr h \<Rightarrow> take_hosts (if h \<in> set hosts then hosts else hosts @ [h]) rest))"
  by pat_completeness auto
termination
  by (relation "measure (length \<circ> snd)") (auto dest: taken_is_shorter)

declare take_hosts.simps [simp del]

section \<open>The options of a command\<close>

record init_options =
  io_root :: "path option"
  io_profile :: bytes
  io_durability :: durability
  io_hosts :: "host list"
  io_scope :: scope
  io_scope_given :: bool
  io_project :: "path option"
  io_opencode :: "opencode_version option"
  io_no_connect :: bool
  io_no_instructions :: bool
  io_no_skill :: bool
  io_no_hooks :: bool
  io_adopt :: bool
  io_create :: bool
  io_dry_run :: bool
  io_yes :: bool

definition parse_init :: "bytes list \<Rightarrow> manager_error + init_options" where
  "parse_init a0 =
     bindR (take_path_option a0 ''--root'') (\<lambda>(root, a1).
     bindR (take_string_option a1 ''--profile'') (\<lambda>(profile, a2).
     bindR (take_string_option a2 ''--durability'') (\<lambda>(durability_text, a3).
     bindR (parse_default durability_from_str ProcessLocal durability_text) (\<lambda>durability.
     bindR (take_hosts [] a3) (\<lambda>(hosts, a4).
     bindR (take_string_option a4 ''--scope'') (\<lambda>(requested, a5).
     bindR (parse_default scope_from_str UserScope requested) (\<lambda>scope.
     bindR (take_path_option a5 ''--project'') (\<lambda>(project, a6).
     bindR (take_string_option a6 ''--opencode-version'') (\<lambda>(version_text, a7).
     bindR (parse_optional opencode_from_str version_text) (\<lambda>version.
     let (no_connect, a8) = take_flag a7 ''--no-connect'';
         (no_instructions, a9) = take_flag a8 ''--no-instructions'';
         (no_skill, a10) = take_flag a9 ''--no-skill'';
         (no_hooks, a11) = take_flag a10 ''--no-hooks'';
         (adopting, a12) = take_flag a11 ''--adopt'';
         (creating, a13) = take_flag a12 ''--create'';
         (dry_run, a14) = take_flag a13 ''--dry-run'';
         (yes, a15) = take_flag a14 ''--yes'' in
     bindR (require_empty a15) (\<lambda>_.
       if adopting \<and> creating then Inl (Usage AdoptExcludesCreate)
       else Inr \<lparr>io_root = root, io_profile = (case profile of None \<Rightarrow> ''default'' | Some p \<Rightarrow> p),
                 io_durability = durability, io_hosts = hosts, io_scope = scope,
                 io_scope_given = (requested \<noteq> None), io_project = project, io_opencode = version,
                 io_no_connect = no_connect, io_no_instructions = no_instructions,
                 io_no_skill = no_skill, io_no_hooks = no_hooks, io_adopt = adopting, io_create = creating,
                 io_dry_run = dry_run, io_yes = yes\<rparr>)))))))))))"

record teardown_options =
  to_hosts :: "host list"
  to_scope :: scope
  to_scope_given :: bool
  to_project :: "path option"
  to_force :: bool
  to_dry_run :: bool
  to_yes :: bool

definition parse_teardown :: "bytes list \<Rightarrow> manager_error + teardown_options" where
  "parse_teardown a0 =
     bindR (take_hosts [] a0) (\<lambda>(hosts, a1).
     bindR (take_string_option a1 ''--scope'') (\<lambda>(requested, a2).
     bindR (parse_default scope_from_str UserScope requested) (\<lambda>scope.
     bindR (take_path_option a2 ''--project'') (\<lambda>(project, a3).
     let (force, a4) = take_flag a3 ''--force'';
         (dry_run, a5) = take_flag a4 ''--dry-run'';
         (yes, a6) = take_flag a5 ''--yes'' in
     bindR (require_empty a6) (\<lambda>_.
       if hosts = [] then Inl (Usage TeardownNeedsHost)
       else Inr \<lparr>to_hosts = hosts, to_scope = scope, to_scope_given = (requested \<noteq> None), to_project = project,
                 to_force = force, to_dry_run = dry_run, to_yes = yes\<rparr>)))))"

record connection_options =
  co_host :: host
  co_scope :: scope
  co_scope_given :: bool
  co_profile :: "bytes option"
  co_project :: "path option"
  co_opencode :: "opencode_version option"
  co_dry_run :: bool
  co_yes :: bool

definition parse_connection :: "bool \<Rightarrow> bytes list \<Rightarrow> manager_error + connection_options" where
  "parse_connection connecting arguments =
     (case arguments of
        [] \<Rightarrow> Inl (Usage ConnectionNeedsHost)
      | name # a0 \<Rightarrow>
          bindR (host_from_str name) (\<lambda>host.
          bindR (take_string_option a0 ''--scope'') (\<lambda>(requested, a1).
          bindR (parse_default scope_from_str UserScope requested) (\<lambda>scope.
          bindR (take_string_option a1 ''--profile'') (\<lambda>(profile, a2).
          if \<not> connecting \<and> profile \<noteq> None then Inl (Usage ProfileOnlyForConnect)
          else
            bindR (take_path_option a2 ''--project'') (\<lambda>(project, a3).
            bindR (take_string_option a3 ''--opencode-version'') (\<lambda>(version_text, a4).
            bindR (parse_optional opencode_from_str version_text) (\<lambda>version.
            if \<not> connecting \<and> version \<noteq> None then Inl (Usage OpenCodeVersionOnlyForConnect)
            else
              let (dry_run, a5) = take_flag a4 ''--dry-run'';
                  (yes, a6) = take_flag a5 ''--yes'' in
              bindR (require_empty a6) (\<lambda>_.
              Inr \<lparr>co_host = host, co_scope = scope, co_scope_given = (requested \<noteq> None),
                   co_profile = profile, co_project = project, co_opencode = version,
                   co_dry_run = dry_run, co_yes = yes\<rparr>)))))))))"

record instruction_options =
  no_action :: bytes
  no_target :: instruction_target
  no_host :: "host option"
  no_project :: "path option"
  no_force :: bool
  no_dry_run :: bool
  no_yes :: bool

definition parse_instructions :: "bytes list \<Rightarrow> manager_error + instruction_options" where
  "parse_instructions arguments =
     (case arguments of
        action # name # a0 \<Rightarrow>
          bindR (target_from_str name) (\<lambda>target.
          bindR (take_string_option a0 ''--host'') (\<lambda>(host_text, a1).
          bindR (parse_optional host_from_str host_text) (\<lambda>host.
          bindR (take_path_option a1 ''--project'') (\<lambda>(project, a2).
          let (force, a3) = take_flag a2 ''--force'';
              (dry_run, a4) = take_flag a3 ''--dry-run'';
              (yes, a5) = take_flag a4 ''--yes'' in
          bindR (require_empty a5) (\<lambda>_.
          Inr \<lparr>no_action = action, no_target = target, no_host = host, no_project = project,
               no_force = force, no_dry_run = dry_run, no_yes = yes\<rparr>)))))
      | _ \<Rightarrow> Inl (Usage InstructionArguments))"

section \<open>Account commands\<close>

datatype account_invocation =
    LoginCommand bool
  | StatusCommand
  | LogoutCommand bool bool
  | LinkCommand bytes
  | IdentitiesCommand
  | UnlinkCommand uuid
  | RevokeSessionCommand
  | DevicesCommand
  | RevokeDeviceCommand uuid

definition parse_uuid_argument ::
    "(bytes \<Rightarrow> uuid option) \<Rightarrow> usage_msg \<Rightarrow> bytes \<Rightarrow> manager_error + uuid" where
  "parse_uuid_argument parse_uuid message s =
     (case parse_uuid s of None \<Rightarrow> Inl (Usage message) | Some u \<Rightarrow> Inr u)"

definition parse_account_action ::
    "(bytes \<Rightarrow> uuid option) \<Rightarrow> bytes \<Rightarrow> bytes list \<Rightarrow> manager_error + account_invocation" where
  "parse_account_action parse_uuid action arguments =
     (if action = ''link'' then
        map_sum id LinkCommand (one_argument arguments ''account link requires PROVIDER'')
      else if action = ''identities'' then bindR (require_empty arguments) (\<lambda>_. Inr IdentitiesCommand)
      else if action = ''unlink'' then
        bindR (one_argument arguments ''account unlink requires EXTERNAL_IDENTITY_UUID'') (\<lambda>s.
        map_sum id UnlinkCommand (parse_uuid_argument parse_uuid BadIdentityUuid s))
      else if action = ''revoke-session'' then bindR (require_empty arguments) (\<lambda>_. Inr RevokeSessionCommand)
      else Inl (Usage AccountActions))"

definition parse_devices_action ::
    "(bytes \<Rightarrow> uuid option) \<Rightarrow> bytes \<Rightarrow> bytes list \<Rightarrow> manager_error + account_invocation" where
  "parse_devices_action parse_uuid action arguments =
     (if action = ''list'' then bindR (require_empty arguments) (\<lambda>_. Inr DevicesCommand)
      else if action = ''revoke'' then
        bindR (one_argument arguments ''devices revoke requires DEVICE_UUID'') (\<lambda>s.
        map_sum id RevokeDeviceCommand (parse_uuid_argument parse_uuid BadDeviceUuid s))
      else Inl (Usage DeviceActions))"

definition parse_account_invocation ::
    "(bytes \<Rightarrow> uuid option) \<Rightarrow> bytes \<Rightarrow> bytes list \<Rightarrow> manager_error + account_invocation" where
  "parse_account_invocation parse_uuid command arguments =
     (if command = ''login'' then
        (case take_flag arguments ''--device'' of (device, rest) \<Rightarrow>
           bindR (require_empty rest) (\<lambda>_. Inr (LoginCommand device)))
      else if command = ''status'' then
        (case take_flag arguments ''--json'' of (_, rest) \<Rightarrow>
           bindR (require_empty rest) (\<lambda>_. Inr StatusCommand))
      else if command = ''logout'' then
        (case take_flag arguments ''--all-devices'' of (all_devices, rest) \<Rightarrow>
           (case take_flag rest ''--local-only'' of (local_only, rest') \<Rightarrow>
              if all_devices \<and> local_only then Inl (Usage LogoutFlagsExclude)
              else bindR (require_empty rest') (\<lambda>_. Inr (LogoutCommand all_devices local_only))))
      else if command = ''account'' then
        (case arguments of
           [] \<Rightarrow> Inl (Usage AccountActions)
         | action # rest \<Rightarrow> parse_account_action parse_uuid action rest)
      else if command = ''devices'' then
        (case arguments of
           [] \<Rightarrow> Inl (Usage DeviceActions)
         | action # rest \<Rightarrow> parse_devices_action parse_uuid action rest)
      else Inl (Usage UsageText))"

end
