(* ===== verification/Cli_Account.thy ===== *)
theory Cli_Account
  imports Account_Sessions Cli_Arguments Account_Transport Account_Locks
begin

text \<open>
  The account commands of \<^verbatim>\<open>src/src/main.rs\<close>: the client's configuration, read from the environment, and
  the client's operation each invocation runs. They run on the world of the account client. The platform
  is one of the three that are supported; the prompts of the console and the browser are parameters.
\<close>

record console_ext =
  co_variable :: "bytes \<Rightarrow> bytes option"
  co_parse_url :: "bytes \<Rightarrow> url option"
  co_this_platform :: device_platform
  co_crate_version :: bytes
  co_display :: "device_prompt \<Rightarrow> account_error + unit"
  co_loopback :: pkce_interaction
  co_browse :: "url \<Rightarrow> account_error + unit"

section \<open>The configuration\<close>

text \<open>A variable that is not set, or set to nothing, is a provider that is not configured.\<close>

definition setting :: "console_ext \<Rightarrow> bytes \<Rightarrow> account_error + bytes" where
  "setting co name =
     (case co_variable co name of
        Some v \<Rightarrow> if v \<noteq> [] then Inr v else Inl ProviderNotConfigured
      | None \<Rightarrow> Inl ProviderNotConfigured)"

definition setting_url :: "console_ext \<Rightarrow> bytes \<Rightarrow> string \<Rightarrow> account_error + url" where
  "setting_url co name complaint =
     bindR (setting co name) (\<lambda>s.
     case co_parse_url co s of None \<Rightarrow> Inl (InvalidConfiguration complaint) | Some u \<Rightarrow> Inr u)"

definition account_config_from_environment :: "console_ext \<Rightarrow> account_ext \<Rightarrow> account_error + account_config" where
  "account_config_from_environment co ax =
     bindR (setting_url co ''KALEIDOSCOPE_ACCOUNT_ORIGIN'' ''account origin is not a valid URL'') (\<lambda>origin.
     bindR (setting_url co ''KALEIDOSCOPE_ACCOUNT_ISSUER'' ''issuer is not a valid URL'') (\<lambda>issuer.
     bindR (setting co ''KALEIDOSCOPE_ACCOUNT_AUDIENCE'') (\<lambda>audience.
     bindR (setting co ''KALEIDOSCOPE_ACCOUNT_CLIENT_ID'') (\<lambda>client_id.
     account_config_new ax origin issuer audience client_id ''/oauth/callback''))))"

section \<open>The commands\<close>

datatype account_printed =
    PrintedLogin "login_result option"
  | PrintedStatus account_status
  | PrintedLogout logout_result
  | PrintedLink link_result
  | PrintedIdentities "external_identity list"
  | PrintedUnlinked uuid
  | PrintedDevices "device_summary list"
  | PrintedRevoked uuid

definition cli_display :: "console_ext \<Rightarrow> device_display" where
  "cli_display co =
     \<lparr>dd_product_name = ''Kaleidoscope'', dd_device_label = ''Kaleidoscope CLI device'',
      dd_platform = co_this_platform co, dd_application_version = co_crate_version co\<rparr>"

definition printing_as :: "('a \<Rightarrow> account_printed) \<Rightarrow> 'a client \<Rightarrow> account_printed client" where
  "printing_as f a = bindA a (\<lambda>x. ret (f x))"

fun run_account :: "nat \<Rightarrow> console_ext \<Rightarrow> account_ext \<Rightarrow> account_config \<Rightarrow> account_invocation \<Rightarrow> account_printed client" where
  "run_account fuel co ax cfg (LoginCommand device) =
     (if device then printing_as PrintedLogin (login_device fuel ax cfg (co_display co) (cli_display co))
      else printing_as (PrintedLogin \<circ> Some) (login_pkce ax cfg (co_loopback co) (cli_display co)))"
| "run_account fuel co ax cfg StatusCommand = printing_as PrintedStatus (client_status ax cfg)"
| "run_account fuel co ax cfg (LogoutCommand all_devices local_only) =
     printing_as PrintedLogout
       (logout ax cfg (if all_devices then AllDevices else CurrentSession)
          (if local_only then ConfirmedLocalOnly else RequireRemoteRevocation))"
| "run_account fuel co ax cfg (LinkCommand provider) = printing_as PrintedLink (link_account ax cfg provider (co_browse co))"
| "run_account fuel co ax cfg IdentitiesCommand = printing_as PrintedIdentities (external_identities ax cfg)"
| "run_account fuel co ax cfg (UnlinkCommand i) = printing_as PrintedUnlinked (unlink_account ax cfg i)"
| "run_account fuel co ax cfg RevokeSessionCommand =
     printing_as PrintedLogout (logout ax cfg CurrentSession RequireRemoteRevocation)"
| "run_account fuel co ax cfg DevicesCommand = printing_as PrintedDevices (devices ax cfg)"
| "run_account fuel co ax cfg (RevokeDeviceCommand i) = printing_as PrintedRevoked (revoke_device ax cfg i)"

text \<open>
  What the native client is assembled from: the transport for the configuration of the environment, and a
  lock file beside the manager's own configuration. The error is the manager's or the account's.
\<close>

definition native_account_client ::
    "console_ext \<Rightarrow> account_ext \<Rightarrow> process \<Rightarrow> (manager_error + account_error, native_transport \<times> path) act" where
  "native_account_client co ax pr =
     bindA (map_err Inr (lift (account_config_from_environment co ax))) (\<lambda>cfg.
     bindA (map_err Inr (lift (native_transport_new ax (co_crate_version co) cfg))) (\<lambda>transport.
     bindA (map_err Inl (config_resolve pr)) (\<lambda>store.
     let lock_path = with_file_name (config_path store) ''account-refresh.lock'' in
     bindA (map_err Inl (ensure_parent_directory lock_path)) (\<lambda>_.
     bindA (map_err Inr (file_lock_new lock_path)) (\<lambda>lock.
     bindA (map_err Inr (lift (account_config_validate ax cfg))) (\<lambda>_.
     ret (transport, lock)))))))"

text \<open>So the client and its transport share one valid configuration, and the lock is in the manager's directory.\<close>

lemma native_account_client_Inr:
  assumes "native_account_client co ax pr w = (Inr (nt, p), w')"
  shows "account_config_from_environment co ax = Inr (nt_config nt)" "account_config_validate ax (nt_config nt) = Inr ()"
    "\<exists>store w1. config_resolve pr w = (Inr store, w1) \<and> p = with_file_name (config_path store) ''account-refresh.lock''"
proof -
  have transport: "nt_config nt = cfg \<and> account_config_validate ax cfg = Inr ()"
    if "native_transport_new ax (co_crate_version co) cfg = Inr nt" for cfg
    using that by (auto simp: native_transport_new_def bindR_eq_Inr Let_def)
  have lock: "file_lock_new q v = (Inr p, v') \<Longrightarrow> p = q" for q v v'
    by (auto simp: file_lock_new_def bindA_eq_Inr map_err_eq_Inr split: if_splits option.splits)
  obtain cfg store w1 w2 where
    parts: "account_config_from_environment co ax = Inr cfg" "native_transport_new ax (co_crate_version co) cfg = Inr nt"
      "config_resolve pr w = (Inr store, w1)"
    and "\<exists>v. file_lock_new (with_file_name (config_path store) ''account-refresh.lock'') v = (Inr p, w2)"
    using assms by (auto simp: native_account_client_def bindA_eq_Inr map_err_eq_Inr Let_def) (metis sum.inject(2))
  then show "account_config_from_environment co ax = Inr (nt_config nt)" "account_config_validate ax (nt_config nt) = Inr ()"
    "\<exists>store w1. config_resolve pr w = (Inr store, w1) \<and> p = with_file_name (config_path store) ''account-refresh.lock''"
    using transport[OF parts(2)] lock by auto
qed

text \<open>The native client: a configuration that is wrong ends the command before anything is sent.\<close>

definition account_command :: "nat \<Rightarrow> console_ext \<Rightarrow> account_ext \<Rightarrow> account_invocation \<Rightarrow> account_printed client" where
  "account_command fuel co ax invocation =
     bindA (lift (account_config_from_environment co ax)) (\<lambda>cfg. run_account fuel co ax cfg invocation)"

text \<open>A build without the native client refuses every account command.\<close>

definition run_account_without_provider :: "account_invocation \<Rightarrow> account_error + account_printed" where
  "run_account_without_provider invocation = Inl ProviderNotConfigured"

end
