(* ===== verification/Session_Start.thy ===== *)
theory Session_Start
  imports Engine
begin

text \<open>
  The session-start hook as a whole: the bounded runner (\<^verbatim>\<open>run_bounded\<close> of \<^verbatim>\<open>src/src/engine.rs\<close>) and the
  stages of \<^verbatim>\<open>session_start_output\<close> (\<^verbatim>\<open>src/src/hooks.rs\<close>): the shared deadline, the probe, the profile,
  the project, the memories, and the two halves of the text. Durations are nanoseconds. The clock is a
  function of the number of calls the world has served; a child process is a parameter that says what it
  wrote and when it was done.
\<close>

section \<open>The bounded runner\<close>

text \<open>
  A child: what it wrote, when both of its streams had been read to their end or to the cap (never, for
  a child that keeps one open), the success it reported within the reap budget if it did, and when the
  runner was done with it.
\<close>

record child =
  ch_stdout :: bytes
  ch_stderr :: bytes
  ch_drained :: "nat option"
  ch_success :: "bool option"
  ch_elapsed :: nat

text \<open>A spawn: the program, its environment, its working directory, its arguments, what it is fed. It fails with a message.\<close>

type_synonym child_run =
  "path \<Rightarrow> (string \<times> bytes) list \<Rightarrow> path option \<Rightarrow> bytes list \<Rightarrow> bytes \<Rightarrow> (bytes, child) act"

record session_ext =
  sx_sha :: hash
  sx_json :: json_ext
  sx_to_string :: "json \<Rightarrow> bytes"
  sx_clock :: "nat \<Rightarrow> nat"
  sx_child :: child_run
  sx_message :: "manager_error \<Rightarrow> bytes"

record bounded_output =
  bo_stdout :: bytes
  bo_stderr :: bytes
  bo_success :: bool
  bo_elapsed :: nat

datatype bounded_failure = SpawnFailed bytes | TimedOut nat

definition max_bounded_stream_bytes :: nat where
  "max_bounded_stream_bytes = 256 * 1024"

definition as_millis :: "nat \<Rightarrow> nat" where
  "as_millis d = d div 1000000"

fun failure_text :: "bounded_failure \<Rightarrow> bytes" where
  "failure_text (SpawnFailed reason) = ''could not start: '' @ reason"
| "failure_text (TimedOut elapsed) = ''timed out after '' @ show_nat (as_millis elapsed) @ '' ms''"

definition run_bounded ::
    "session_ext \<Rightarrow> process \<Rightarrow> path \<Rightarrow> bytes list \<Rightarrow> path option \<Rightarrow> bytes option \<Rightarrow> nat \<Rightarrow> (bounded_failure, bounded_output) act" where
  "run_bounded sx pr program arguments cwd payload timeout =
     bindA (map_err SpawnFailed
              (sx_child sx program (engine_environment pr) cwd arguments (or_text payload []))) (\<lambda>ch.
     if (case ch_drained ch of None \<Rightarrow> True | Some t \<Rightarrow> timeout < t) then throw (TimedOut (ch_elapsed ch))
     else
       let stderr = take max_bounded_stream_bytes (ch_stderr ch) in
       ret \<lparr>bo_stdout = take max_bounded_stream_bytes (ch_stdout ch),
            bo_stderr = summarize_engine_stderr (lossy (take (min (length stderr) max_engine_error_bytes) stderr)),
            bo_success = (ch_success ch = Some True), bo_elapsed = ch_elapsed ch\<rparr>)"

section \<open>The deadline\<close>

definition now :: "session_ext \<Rightarrow> ('e, nat) act" where
  "now sx w = (Inr (sx_clock sx (ticks w)), w\<lparr>ticks := Suc (ticks w)\<rparr>)"

record deadline =
  dl_started :: nat
  dl_end :: nat

definition milliseconds :: "nat \<Rightarrow> nat" where
  "milliseconds n = n * 1000000"

definition total_time_budget :: nat where
  "total_time_budget = milliseconds 6000"

definition launch_timeout :: nat where
  "launch_timeout = milliseconds 3000"

definition where_timeout :: nat where
  "where_timeout = milliseconds 1200"

definition probe_timeout :: nat where
  "probe_timeout = milliseconds 2500"

definition search_timeout :: nat where
  "search_timeout = milliseconds 2000"

definition deadline_new :: "session_ext \<Rightarrow> nat \<Rightarrow> ('e, deadline) act" where
  "deadline_new sx budget = bindA (now sx) (\<lambda>started. ret \<lparr>dl_started = started, dl_end = started + budget\<rparr>)"

text \<open>\<^verbatim>\<open>checked_duration_since\<close>: nothing once the end is past, and nothing when nothing is left.\<close>

definition slice :: "session_ext \<Rightarrow> deadline \<Rightarrow> nat \<Rightarrow> ('e, nat option) act" where
  "slice sx dl stage =
     bindA (now sx) (\<lambda>t.
     ret (if dl_end dl < t \<or> dl_end dl - t = 0 then None else Some (min stage (dl_end dl - t))))"

definition elapsed_since :: "session_ext \<Rightarrow> nat \<Rightarrow> ('e, nat) act" where
  "elapsed_since sx started = bindA (now sx) (\<lambda>t. ret (t - started))"

section \<open>The probe\<close>

definition probe_protocol_version :: bytes where
  "probe_protocol_version = ''2026-07-28''"

text \<open>A literal that holds quotation marks, written with backquotes in their place.\<close>

definition quoted :: "bytes \<Rightarrow> bytes" where
  "quoted s = map (\<lambda>c. if c = CHR 0x60 then CHR 0x22 else c) s"

definition probe_payload :: bytes where
  "probe_payload =
     quoted (''{`jsonrpc`:`2.0`,`id`:1,`method`:`initialize`,`params`:{`protocolVersion`:`'' @ probe_protocol_version
       @ ''`,`capabilities`:{},`clientInfo`:{`name`:`kaleidoscope-session-start-probe`,`version`:`1`}}}'') @ nl
     @ quoted ''{`jsonrpc`:`2.0`,`method`:`notifications/initialized`}'' @ nl
     @ quoted ''{`jsonrpc`:`2.0`,`id`:2,`method`:`tools/list`,`params`:{}}'' @ nl"

definition probe_mcp ::
    "session_ext \<Rightarrow> process \<Rightarrow> registration option \<Rightarrow> nat option \<Rightarrow> ('e, probe) act" where
  "probe_mcp sx pr registration timeout =
     (case registration of
        None \<Rightarrow> ret Unregistered
      | Some r \<Rightarrow>
          (case timeout of
             None \<Rightarrow> ret (NoAnswer ''skipped: the hook's time budget was already spent'')
           | Some t \<Rightarrow>
               bindA (attempt (engine_new pr (parse_path (rg_command r)))) (\<lambda>executable.
               case executable of
                 Inl e \<Rightarrow> ret (Unusable (rg_command r @ '': '' @ sx_message sx e))
               | Inr x \<Rightarrow>
                   bindA (attempt (run_bounded sx pr x (rg_args r) None (Some probe_payload) t)) (\<lambda>out.
                   ret (case out of
                          Inl failure \<Rightarrow> NoAnswer (failure_text failure)
                        | Inr o' \<Rightarrow> read_probe_answer (sx_json sx) (bo_stdout o') (bo_stderr o') (bo_success o') (bo_elapsed o'))))))"

section \<open>The profile and the project\<close>

definition launch_stage ::
    "session_ext \<Rightarrow> process \<Rightarrow> deadline \<Rightarrow> engine \<Rightarrow> bytes \<Rightarrow> ('e, bytes + unit) act" where
  "launch_stage sx pr dl engine profile =
     bindA (slice sx dl launch_timeout) (\<lambda>timeout.
     case timeout of
       None \<Rightarrow> ret (Inl ''skipped: the hook's time budget was already spent'')
     | Some t \<Rightarrow>
         bindA (attempt (run_bounded sx pr engine [''profile'', ''launch'', profile] None None t)) (\<lambda>out.
         ret (case out of
                Inl failure \<Rightarrow> Inl (failure_text failure)
              | Inr o' \<Rightarrow>
                  if bo_success o' then Inr ()
                  else Inl (if bo_stderr o' = [] then ''the engine refused the profile'' else bo_stderr o'))))"

text \<open>\<^verbatim>\<open>directory.file_name()?.to_str()?\<close> of the directory the engine names.\<close>

definition project_of_answer :: "session_ext \<Rightarrow> bounded_output \<Rightarrow> (bytes \<times> path) option" where
  "project_of_answer sx o' =
     (if \<not> bo_success o' then None
      else Option.bind (jx_value (sx_json sx) (bo_stdout o')) (\<lambda>v.
           Option.bind (case json_str (json_at v ''repository'') of
                          Some s \<Rightarrow> Some s | None \<Rightarrow> json_str (json_at v ''project'')) (\<lambda>s.
           let directory = parse_path s in
           Option.bind (file_name directory) (\<lambda>label.
           if utf8_valid label then Some (label, directory) else None))))"

definition resolve_project ::
    "session_ext \<Rightarrow> process \<Rightarrow> engine \<Rightarrow> path \<Rightarrow> nat option \<Rightarrow> ('e, (bytes \<times> path) option) act" where
  "resolve_project sx pr engine cwd timeout =
     (case timeout of
        None \<Rightarrow> ret None
      | Some t \<Rightarrow>
          bindA (attempt (run_bounded sx pr engine [''where'', ''--root-only''] (Some cwd) None t)) (\<lambda>out.
          ret (case out of Inl _ \<Rightarrow> None | Inr o' \<Rightarrow> project_of_answer sx o')))"

section \<open>The memories\<close>

datatype memories =
    Skipped bytes
  | Unavailable bytes
  | EmptyVault
  | Found "bytes list" bool nat nat

definition json_nat :: "nat \<Rightarrow> json" where
  "json_nat n = JNum (show_nat n)"

definition search_forms :: "bytes list list" where
  "search_forms = [[''--json''], []]"

definition search_request :: "bytes \<Rightarrow> bool \<Rightarrow> json" where
  "search_request label scope_requested =
     JObj ([(''query'', JStr label), (''top_k'', json_nat 4), (''maximum_context_bytes'', json_nat 2048)]
       @ (if scope_requested then [(''scope'', JObj [(''project'', JStr label)])] else []))"

text \<open>The forms of one request: an outcome that ends the retrieval, or the answer if any and the last error.\<close>

fun try_forms ::
    "session_ext \<Rightarrow> process \<Rightarrow> engine \<Rightarrow> bytes \<Rightarrow> path \<Rightarrow> deadline \<Rightarrow> bytes \<Rightarrow> bytes list list \<Rightarrow> bytes option
      \<Rightarrow> ('e, memories + json option \<times> bytes option) act" where
  "try_forms sx pr engine profile cwd dl payload [] last_error = ret (Inr (None, last_error))"
| "try_forms sx pr engine profile cwd dl payload (form # forms) last_error =
     bindA (slice sx dl search_timeout) (\<lambda>timeout.
     case timeout of
       None \<Rightarrow> ret (Inl (case last_error of
                 None \<Rightarrow> Skipped ''the hook's time budget was spent before retrieval''
               | Some e \<Rightarrow> Unavailable e))
     | Some t \<Rightarrow>
         bindA (attempt (run_bounded sx pr engine ([''call'', ''--profile'', profile, ''search''] @ form)
                  (Some cwd) (Some payload) t)) (\<lambda>out.
         case out of
           Inl failure \<Rightarrow> ret (Inl (Unavailable (failure_text failure)))
         | Inr o' \<Rightarrow>
             if \<not> bo_success o' then
               try_forms sx pr engine profile cwd dl payload forms
                 (Some (if bo_stderr o' = [] then ''the engine refused the search'' else bo_stderr o'))
             else case jx_value (sx_json sx) (bo_stdout o') of
               Some v \<Rightarrow> ret (Inr (Some v, last_error))
             | None \<Rightarrow>
                 try_forms sx pr engine profile cwd dl payload forms
                   (Some ''the engine's search result did not parse'')))"

fun retrieve_scopes ::
    "session_ext \<Rightarrow> process \<Rightarrow> engine \<Rightarrow> bytes \<Rightarrow> path \<Rightarrow> deadline \<Rightarrow> bytes \<Rightarrow> nat \<Rightarrow> bool list \<Rightarrow> bytes option
      \<Rightarrow> ('e, memories) act" where
  "retrieve_scopes sx pr engine profile cwd dl label started [] last_error =
     ret (case last_error of None \<Rightarrow> EmptyVault | Some e \<Rightarrow> Unavailable e)"
| "retrieve_scopes sx pr engine profile cwd dl label started (scope_requested # scopes) last_error =
     bindA (try_forms sx pr engine profile cwd dl (sx_to_string sx (search_request label scope_requested))
              search_forms last_error) (\<lambda>r.
     case r of
       Inl m \<Rightarrow> ret m
     | Inr (None, last') \<Rightarrow> retrieve_scopes sx pr engine profile cwd dl label started scopes last'
     | Inr (Some v, last') \<Rightarrow>
         (case render_hits v label of (entries, labelled) \<Rightarrow>
            if entries \<noteq> [] then
              bindA (elapsed_since sx started) (\<lambda>t. ret (Found entries scope_requested labelled t))
            else retrieve_scopes sx pr engine profile cwd dl label started scopes last'))"

definition retrieve_memories ::
    "session_ext \<Rightarrow> process \<Rightarrow> engine \<Rightarrow> bytes \<Rightarrow> bytes option \<Rightarrow> path \<Rightarrow> deadline \<Rightarrow> ('e, memories) act" where
  "retrieve_memories sx pr engine profile label cwd dl =
     (case label of
        None \<Rightarrow> ret (Unavailable ''the project could not be resolved'')
      | Some l \<Rightarrow>
          bindA (now sx) (\<lambda>started. retrieve_scopes sx pr engine profile cwd dl l started [True, False] None))"

section \<open>The text\<close>

record session_options =
  so_profile :: bytes
  so_cwd :: path
  so_retrieval :: bool

text \<open>What the stages found.\<close>

record findings =
  fd_registration :: "registration option"
  fd_probe :: probe
  fd_launch :: "bytes + unit"
  fd_engine :: "path option"
  fd_project :: "(bytes \<times> path) option"
  fd_memories :: memories

definition json_or_null :: "('a \<Rightarrow> json) \<Rightarrow> 'a option \<Rightarrow> json" where
  "json_or_null f x = (case x of None \<Rightarrow> JNull | Some a \<Rightarrow> f a)"

fun probe_value :: "probe \<Rightarrow> json" where
  "probe_value Unregistered = JObj [(''outcome'', JStr ''unregistered'')]"
| "probe_value (Unusable detail) = JObj [(''outcome'', JStr ''unusable''), (''detail'', JStr detail)]"
| "probe_value (NoAnswer detail) = JObj [(''outcome'', JStr ''no_answer''), (''detail'', JStr detail)]"
| "probe_value (Answered protocol server tools contract elapsed) =
     JObj [(''outcome'', JStr ''answered''), (''protocol'', json_or_null JStr protocol), (''server'', json_or_null JStr server),
           (''tools'', JArr (map JStr tools)), (''client_contract_ok'', JBool (contract = None)),
           (''ms'', json_nat (as_millis elapsed))]"

fun memories_value :: "memories \<Rightarrow> json" where
  "memories_value (Skipped reason) = JObj [(''outcome'', JStr ''skipped''), (''detail'', JStr reason)]"
| "memories_value (Unavailable detail) = JObj [(''outcome'', JStr ''unavailable''), (''detail'', JStr detail)]"
| "memories_value EmptyVault = JObj [(''outcome'', JStr ''empty''), (''count'', json_nat 0)]"
| "memories_value (Found entries scope_requested labelled elapsed) =
     JObj [(''outcome'', JStr ''found''), (''count'', json_nat (length entries)),
           (''scope_requested'', JBool scope_requested), (''labelled_for_project'', json_nat labelled),
           (''ms'', json_nat (as_millis elapsed))]"

definition probe_facts :: "session_options \<Rightarrow> findings \<Rightarrow> bool \<Rightarrow> nat \<Rightarrow> json" where
  "probe_facts so fd visible elapsed =
     JObj [(''kaleidoscope_session_start'', json_nat 1),
           (''tools_visible'', JBool visible),
           (''reason'', JStr (verdict_reason (fd_registration fd) (fd_probe fd) visible)),
           (''profile'', JStr (so_profile so)),
           (''engine'', json_or_null (\<lambda>p. JStr (path_to_string_lossy p)) (fd_engine fd)),
           (''profile_launch'', (case fd_launch fd of Inr _ \<Rightarrow> JStr ''ok'' | Inl detail \<Rightarrow> JStr detail)),
           (''registration'', json_or_null (\<lambda>r. JObj [(''scope'', JStr (rg_scope r)),
              (''source'', JStr (path_to_string_lossy (rg_source r))),
              (''command'', JStr (display_command r))]) (fd_registration fd)),
           (''probe'', probe_value (fd_probe fd)),
           (''project'', json_or_null (\<lambda>(label, directory). JObj [(''label'', JStr label),
              (''directory'', JStr (path_to_string_lossy directory))]) (fd_project fd)),
           (''memories'', memories_value (fd_memories fd)),
           (''budget_bytes'', json_nat max_context_bytes),
           (''total_ms'', json_nat (as_millis elapsed))]"

definition tool_name :: "bytes \<Rightarrow> bytes" where
  "tool_name t = ''mcp__'' @ server_key @ ''__'' @ t"

fun unreachable_detail :: "registration option \<Rightarrow> probe \<Rightarrow> bytes" where
  "unreachable_detail registration Unregistered =
     ''No `mcpServers.'' @ server_key @ ''` entry applies to this project, so the harness starts no server. Run `kaleidoscope connect --host claude-code`.''"
| "unreachable_detail registration (Unusable detail) =
     ''The registered command cannot be run ('' @ detail @ ''). Run `kaleidoscope doctor --json`.''"
| "unreachable_detail registration (NoAnswer detail) =
     ''The registered command `'' @ (case registration of None \<Rightarrow> ''?'' | Some r \<Rightarrow> display_command r)
     @ ''` did not answer tools/list ('' @ detail @ '').''"
| "unreachable_detail registration (Answered protocol server tools contract elapsed) =
     (case contract of
        Some reason \<Rightarrow>
          ''The server starts and publishes '' @ (if tools = [] then ''nothing'' else join_words '' and '' tools)
          @ '', but '' @ reason @ ''. No '' @ tool_name ''*'' @ '' name will appear in your tool list.''
      | None \<Rightarrow>
          ''The server answered but published '' @ (if tools = [] then ''no tools'' else join_words '', '' tools)
          @ '' rather than search and remember.'')"

definition provenance_text :: "bytes \<Rightarrow> nat \<Rightarrow> provenance \<Rightarrow> bytes" where
  "provenance_text label count p =
     (case p of
        RecordedFor \<Rightarrow> ''recorded for '' @ label
      | RankedUnlabelled \<Rightarrow>
          ''ranked for '' @ label @ '', none of them carrying a project label '' @ dash
          @ '' a memory with no project axis is not excluded by a scope filter, so these may belong to any project in this vault''
      | RankedPartly labelled \<Rightarrow>
          ''ranked for '' @ label @ ''; '' @ show_nat labelled @ '' of '' @ show_nat count
          @ '' carry that project label and the rest carry none'')"

definition memories_text :: "(bytes \<times> path) option \<Rightarrow> memories \<Rightarrow> bytes" where
  "memories_text project m =
     (case m of
        Found entries _ labelled _ \<Rightarrow>
          (let label = (case project of None \<Rightarrow> ''this project'' | Some (l, _) \<Rightarrow> l) in
           nl @ show_nat (length entries) @ '' memories ''
           @ provenance_text label (length entries) (provenance_of entries labelled)
           @ '' (budget '' @ show_nat max_memory_section_bytes @ '' B; there are more '' @ dash
           @ '' search for the rest):'' @ nl @ concat (map (\<lambda>e. e @ nl) entries))
      | EmptyVault \<Rightarrow>
          nl @ ''The vault holds no memories for this project yet. Record durable decisions as they are made.'' @ nl
      | Unavailable detail \<Rightarrow> nl @ ''No memories were retrieved: '' @ detail @ ''.'' @ nl
      | Skipped reason \<Rightarrow> nl @ ''No memories were retrieved: '' @ reason @ ''.'' @ nl)"

definition reachable_text :: "registration option \<Rightarrow> bytes" where
  "reachable_text registration =
     ''Kaleidoscope MCP tools ARE reachable: '' @ tool_name ''search'' @ '' and '' @ tool_name ''remember''
     @ ''. Probed by speaking MCP to '' @ (case registration of None \<Rightarrow> ''the registered server'' | Some r \<Rightarrow> display_command r)
     @ '', not assumed.'' @ nl"

definition fallback_text :: "bytes \<Rightarrow> bytes" where
  "fallback_text profile =
     ''The CLI is the fallback '' @ dash @ '' it is unaffected by the MCP fault, and that orthogonality is the point:'' @ nl
     @ ''  echo '' @ [CHR 0x27] @ quoted ''{`query`:`...`,`top_k`:5}'' @ [CHR 0x27] @ '' | kscope call --profile '' @ profile
     @ '' search'' @ nl
     @ ''  kscope schema search   # every accepted field, including memory_id lookups, which write no exposure row'' @ nl
     @ ''This probe watched the SERVER, not your tool list; no hook can see your tool list. If '' @ tool_name ''search''
     @ '' and '' @ tool_name ''remember'' @ '' are in fact present, prefer them '' @ dash
     @ '' those two are the whole tool surface.'' @ nl"

definition render_context :: "(json \<Rightarrow> bytes) \<Rightarrow> session_options \<Rightarrow> findings \<Rightarrow> bool \<Rightarrow> json \<Rightarrow> bytes" where
  "render_context to_string so fd visible facts =
     to_string facts @ nl
     @ (if visible then
          reachable_text (fd_registration fd)
          @ (case fd_launch fd of
               Inr _ \<Rightarrow> []
             | Inl detail \<Rightarrow>
                 ''Profile `'' @ so_profile so @ ''` did not launch: '' @ detail @ ''. Run `kaleidoscope doctor --json`.'' @ nl)
        else
          ''Kaleidoscope MCP tools are NOT usable in this session. ''
          @ unreachable_detail (fd_registration fd) (fd_probe fd) @ nl
          @ (case fd_launch fd of
               Inr _ \<Rightarrow> []
             | Inl detail \<Rightarrow>
                 ''The engine itself is also unhealthy '' @ dash @ '' profile `'' @ so_profile so @ ''` did not launch: '' @ detail
                 @ ''. Run `kaleidoscope doctor --json` first; until it passes, the CLI below cannot run either.'' @ nl)
          @ fallback_text (so_profile so))
     @ memories_text (fd_project fd) (fd_memories fd)"

section \<open>The hook body\<close>

text \<open>The stages, in their order, under one deadline.\<close>

definition session_findings ::
    "session_ext \<Rightarrow> process \<Rightarrow> manager_error + engine \<Rightarrow> session_options \<Rightarrow> deadline \<Rightarrow> ('e, findings) act" where
  "session_findings sx pr engine so dl =
     bindA (find_registration (sx_sha sx) (sx_json sx) pr (so_cwd so)) (\<lambda>registration.
     bindA (slice sx dl probe_timeout) (\<lambda>timeout.
     bindA (probe_mcp sx pr registration timeout) (\<lambda>probe.
     bindA (case engine of
              Inr e \<Rightarrow> launch_stage sx pr dl e (so_profile so)
            | Inl err \<Rightarrow> ret (Inl (sx_message sx err))) (\<lambda>launch.
     bindA (case (engine, launch) of
              (Inr e, Inr _) \<Rightarrow>
                bindA (slice sx dl where_timeout) (\<lambda>t. resolve_project sx pr e (so_cwd so) t)
            | _ \<Rightarrow> ret None) (\<lambda>project.
     bindA (if \<not> so_retrieval so
            then ret (Skipped ''retrieval is off (--no-memories or KALEIDOSCOPE_HOOK_MEMORIES=0)'')
            else case (engine, launch) of
              (Inr e, Inr _) \<Rightarrow> retrieve_memories sx pr e (so_profile so) (map_option fst project) (so_cwd so) dl
            | _ \<Rightarrow> ret (Skipped ''the profile did not launch, so nothing was retrieved'')) (\<lambda>memories.
     ret \<lparr>fd_registration = registration, fd_probe = probe, fd_launch = launch,
          fd_engine = (case engine of Inr e \<Rightarrow> Some e | Inl _ \<Rightarrow> None),
          fd_project = project, fd_memories = memories\<rparr>))))))"

definition session_start_output ::
    "session_ext \<Rightarrow> process \<Rightarrow> manager_error + engine \<Rightarrow> session_options \<Rightarrow> ('e, bytes) act" where
  "session_start_output sx pr engine so =
     bindA (deadline_new sx total_time_budget) (\<lambda>dl.
     bindA (session_findings sx pr engine so dl) (\<lambda>fd.
     let visible = tools_visible (fd_registration fd) (fd_probe fd) in
     bindA (elapsed_since sx (dl_started dl)) (\<lambda>t.
     let facts = probe_facts so fd visible t in
     ret (encode_hook_line (sx_to_string sx) (render_context (sx_to_string sx) so fd visible facts) facts))))"

end
