(* ===== verification/Cli.thy ===== *)
theory Cli
  imports Doctor Cli_Arguments Session_Start
begin

text \<open>
  The commands of the manager (\<^verbatim>\<open>src/src/main.rs\<close>). A command ends with an error before anything is
  printed, or with what it printed on standard output and, for a command that reports its own failure,
  that failure. What the commands say on standard error is not modelled. The line the user types at the
  prompt is \<open>cx_answer\<close>, a function of the call that reads it, and what the hook is fed in time is \<open>cx_stdin\<close>;
  the account client, which runs on a world of its own, is a parameter here.
\<close>

datatype printed = Document json | TextLine bytes | UsageScreen

type_synonym reply = "printed list \<times> manager_error option"

record cli_ext =
  cx_doctor :: doctor_ext
  cx_answer :: "nat \<Rightarrow> io_kind + bytes"
  cx_uuid :: "bytes \<Rightarrow> uuid option"
  cx_uuid_text :: "uuid \<Rightarrow> bytes"
  cx_version :: bytes
  cx_account :: "account_invocation \<Rightarrow> (manager_error, json) act"
  cx_stdin :: "bytes option"
  cx_session :: session_ext

abbreviation "cx_instr cx \<equiv> dx_instr (cx_doctor cx)"
abbreviation "cx_host cx \<equiv> dx_host (cx_doctor cx)"
abbreviation "cx_hook cx \<equiv> dx_hook (cx_doctor cx)"
abbreviation "cx_message cx \<equiv> dx_message (cx_doctor cx)"

definition printing :: "json \<Rightarrow> reply" where
  "printing v = ([Document v], None)"

section \<open>Encoding what is printed\<close>

text \<open>
  A path that is not UTF-8 has no JSON: \<^verbatim>\<open>json!\<close> panics on it (\<open>json_path\<close>), \<^verbatim>\<open>print_json\<close> of a
  structure returns an error.
\<close>

definition or_cannot_encode :: "json option \<Rightarrow> manager_error + json" where
  "or_cannot_encode v = (case v of None \<Rightarrow> Inl (InvalidManagerConfig ''cannot encode output'') | Some j \<Rightarrow> Inr j)"

definition or_panics :: "json option \<Rightarrow> manager_error + json" where
  "or_panics v = (case v of None \<Rightarrow> Inl (Panicked ''json!'') | Some j \<Rightarrow> Inr j)"

definition json_option :: "('a \<Rightarrow> json) \<Rightarrow> 'a option \<Rightarrow> json" where
  "json_option f x = (case x of None \<Rightarrow> JNull | Some a \<Rightarrow> f a)"

definition json_strings :: "bytes list \<Rightarrow> json" where
  "json_strings ss = JArr (map JStr ss)"

text \<open>\<^verbatim>\<open>value[key] = json!(..)\<close> on an object.\<close>

fun set_field :: "bytes \<Rightarrow> json \<Rightarrow> json \<Rightarrow> json" where
  "set_field k x (JObj fs) = JObj (obj_insert k x fs)"
| "set_field k x v = v"

definition launch_json :: "launch_descriptor \<Rightarrow> json option" where
  "launch_json d =
     map_option (\<lambda>command. JObj
       [(''version'', json_nat (ld_version d)), (''transport'', JStr (ld_transport d)), (''command'', JStr command),
        (''args'', json_strings (ld_args d)), (''tools'', json_strings (ld_tools d)),
        (''environment'', JObj (map (map_prod id JStr) (ld_environment d)))])
       (path_to_str (ld_command d))"

definition profile_json :: "profile \<Rightarrow> json option" where
  "profile_json p =
     map_option (\<lambda>root. JObj
       [(''version'', json_nat (pf_version p)), (''name'', JStr (pf_name p)), (''root'', JStr root),
        (''workspace_id'', JStr (pf_workspace_id p)), (''principal_id'', JStr (pf_principal_id p)),
        (''journal'', JStr (pf_journal p)), (''durability'', JStr (durability_as_str (pf_durability p)))])
       (path_to_str (pf_root p))"

definition profile_entry_json :: "profile_entry \<Rightarrow> json option" where
  "profile_entry_json e =
     (let base = [(''name'', JStr (pe_name e)), (''valid'', JBool (pe_valid e))];
          detail = (case pe_detail e of None \<Rightarrow> [] | Some d \<Rightarrow> [(''detail'', JStr d)]) in
      case pe_profile e of
        None \<Rightarrow> Some (JObj (base @ detail))
      | Some p \<Rightarrow> map_option (\<lambda>j. JObj (base @ [(''profile'', j)] @ detail)) (profile_json p))"

definition profile_list_json :: "profile_list \<Rightarrow> json option" where
  "profile_list_json l =
     map_option (\<lambda>es. JObj
       [(''version'', json_nat (pl_version l)), (''profiles'', json_strings (pl_profiles l)), (''entries'', JArr es),
        (''stale'', json_nat (pl_stale l))])
       (those (map profile_entry_json (pl_entries l)))"

definition remove_result_json :: "remove_result \<Rightarrow> json" where
  "remove_result_json r =
     JObj [(''version'', json_nat (rm_version r)), (''name'', JStr (rm_name r)), (''status'', JStr (rm_status r))]"

definition profile_summary :: "profile \<Rightarrow> json" where
  "profile_summary p =
     JObj [(''version'', json_nat (pf_version p)), (''name'', JStr (pf_name p)),
           (''durability'', JStr (durability_as_str (pf_durability p))), (''root'', JStr ''<redacted>''),
           (''workspace_id'', JStr ''<redacted>''), (''principal_id'', JStr ''<redacted>''),
           (''journal'', JStr ''<redacted>'')]"

definition check_json :: "doctor_check \<Rightarrow> json" where
  "check_json c =
     JObj ([(''name'', JStr (dc_name c)), (''status'', JStr (dc_status c)), (''detail'', JStr (dc_detail c))]
           @ (case dc_managed c of None \<Rightarrow> [] | Some b \<Rightarrow> [(''managed'', JBool b)]))"

definition report_json :: "doctor_report \<Rightarrow> json" where
  "report_json r =
     JObj [(''version'', json_nat (dr_version r)), (''status'', JStr (dr_status r)), (''offline'', JBool (dr_offline r)),
           (''redacted'', JBool (dr_redacted r)), (''checks'', JArr (map check_json (dr_checks r)))]"

fun instr_action_str :: "instruction_action \<Rightarrow> string" where
  "instr_action_str InstrAdd = ''add''"
| "instr_action_str InstrAdopt = ''adopt''"
| "instr_action_str InstrUpdate = ''update''"
| "instr_action_str InstrRemove = ''remove''"
| "instr_action_str AlreadyInstalled = ''already_installed''"
| "instr_action_str AlreadyRemoved = ''already_removed''"

definition instruction_summary :: "hash \<Rightarrow> instruction_plan \<Rightarrow> bool \<Rightarrow> (manager_error, json) act" where
  "instruction_summary sha plan dry_run =
     bindA (lift (json_path (ip_target plan))) (\<lambda>target.
     bindA (lift (json_path (ip_receipt_path plan))) (\<lambda>receipt.
     bindA (backup_after plan dry_run) (\<lambda>backup.
     bindA (lift (case backup of None \<Rightarrow> Inr JNull | Some p \<Rightarrow> json_path p)) (\<lambda>backup_json.
     ret (JObj
       ([(''version'', JNum ''1''),
         (''status'', JStr (if dry_run then ''dry_run'' else if is_noop plan then ''unchanged'' else ''applied'')),
         (''action'', JStr (instr_action_str (ip_action plan))),
         (''instruction'', JStr (target_as_str (ip_target_kind plan))),
         (''host'', json_option (\<lambda>h. JStr (host_serde h)) (ip_host plan)),
         (''target'', target), (''owner_receipt'', receipt), (''backup'', backup_json)]
        @ (case ip_restore plan of
             None \<Rightarrow> []
           | Some tier \<Rightarrow>
               (''restore'', JStr (restore_tier_str tier)) #
               (if tier = Structural then [(''formatting'', JStr ''normalized'')] else []))
        @ (case ip_discarded plan of
             None \<Rightarrow> []
           | Some discarded \<Rightarrow>
               [(''ownership'', JStr ''forced''), (''discarded_user_edits'', JBool True),
                (''discarded_sha256'', JStr (digest_bytes sha discarded))])
        @ (if ip_adopted plan then [(''adopted'', JBool True)] else [])
        @ (if ip_action plan = InstrAdopt
           then [(''detail'', JStr ''existing content is byte-identical to the manager's; the owner receipt was written and no bytes were changed'')]
           else [])))))))"

section \<open>The prompt\<close>

definition accepted :: "bytes \<Rightarrow> bool" where
  "accepted answer \<longleftrightarrow> map ascii_lower (str_trim answer) \<in> {''y'', ''yes''}"

definition confirm :: "cli_ext \<Rightarrow> (manager_error, unit) act" where
  "confirm cx =
     bindA (map_err (Io ''flush confirmation'') (syscall (\<lambda>w. (Inr (), w)))) (\<lambda>_.
     bindA (map_err (Io ''read confirmation'') (syscall (\<lambda>w. (cx_answer cx (ticks w), w)))) (\<lambda>answer.
     if accepted answer then ret () else throw Cancelled))"

text \<open>
  Preview, stop at a dry run, ask, apply, report: the same for the three kinds of plan.
\<close>

definition carry_out ::
    "cli_ext \<Rightarrow> bool \<Rightarrow> bool \<Rightarrow> bool \<Rightarrow> (manager_error, unit) act \<Rightarrow> (bool \<Rightarrow> (manager_error, json) act)
     \<Rightarrow> (manager_error, json) act" where
  "carry_out cx dry_run yes noop application summary =
     (if dry_run then summary True
      else
        bindA (if \<not> noop \<and> \<not> yes then confirm cx else ret ()) (\<lambda>_.
        bindA application (\<lambda>_. summary False)))"

datatype step =
    ConnectionStep connection_plan
  | InstructionStep instruction_plan
  | HookStep hook_plan
  | SkippedStep bytes

fun apply_step :: "cli_ext \<Rightarrow> bool \<Rightarrow> bool \<Rightarrow> step \<Rightarrow> (manager_error, json) act" where
  "apply_step cx dry_run yes (SkippedStep reason) =
     ret (JObj [(''status'', JStr ''skipped''), (''detail'', JStr reason)])"
| "apply_step cx dry_run yes (ConnectionStep plan) =
     carry_out cx dry_run yes (connection_is_noop plan) (connection_apply (cx_host cx) plan) (connection_summary plan)"
| "apply_step cx dry_run yes (InstructionStep plan) =
     carry_out cx dry_run yes (is_noop plan) (apply_plan (cx_instr cx) plan)
       (instruction_summary (ix_sha (cx_instr cx)) plan)"
| "apply_step cx dry_run yes (HookStep plan) =
     carry_out cx dry_run yes (hook_is_noop plan) (hook_apply (cx_hook cx) plan) (hook_summary plan)"

section \<open>The project directory\<close>

record project_directory =
  pd_directory :: path
  pd_source :: bytes
  pd_marker :: "bytes option"
  pd_repository :: "path option"
  pd_differs :: bool

definition project_report :: "project_directory \<Rightarrow> manager_error + json" where
  "project_report pd =
     bindR (json_path (pd_directory pd)) (\<lambda>directory.
     bindR (case pd_repository pd of None \<Rightarrow> Inr JNull | Some p \<Rightarrow> json_path p) (\<lambda>repository.
     Inr (JObj [(''directory'', directory), (''source'', JStr (pd_source pd)),
                (''marker'', json_option JStr (pd_marker pd)), (''repository'', repository),
                (''differs_from_cwd'', JBool (pd_differs pd))])))"

text \<open>
  An explicit path, the engine's answer, the working directory when there is no engine, and a refusal
  when the engine does not answer.
\<close>

definition resolve_project_directory ::
    "outside \<Rightarrow> cli_ext \<Rightarrow> path option \<Rightarrow> path option \<Rightarrow> (manager_error, project_directory) act" where
  "resolve_project_directory ou cx engine explicit =
     (let pr = ou_process ou; eg = ou_engine ou in
      case pr_cwd pr of
        Inl k \<Rightarrow> throw (Io ''resolve working directory'' k)
      | Inr working_directory \<Rightarrow>
          bindA (project_root pr (Some working_directory)) (\<lambda>canonical_cwd.
          case explicit of
            Some p \<Rightarrow>
              bindA (project_root pr (Some p)) (\<lambda>directory.
              ret \<lparr>pd_directory = directory, pd_source = ''explicit'', pd_marker = None, pd_repository = None,
                   pd_differs = (directory \<noteq> canonical_cwd)\<rparr>)
          | None \<Rightarrow>
              bindA (outcome (engine_resolve pr eg engine)) (\<lambda>found.
              case found of
                Inl EngineNotFound \<Rightarrow>
                  ret \<lparr>pd_directory = canonical_cwd, pd_source = ''no_engine_fallback'', pd_marker = None,
                       pd_repository = None, pd_differs = False\<rparr>
              | Inl e \<Rightarrow> throw e
              | Inr e \<Rightarrow>
                  bindA (outcome (engine_resolved_project pr eg e working_directory)) (\<lambda>answer.
                  case answer of
                    Inl err \<Rightarrow> throw (Usage (ProjectUnresolved (cx_message cx err)))
                  | Inr resolved \<Rightarrow>
                      bindA (project_root pr (Some (rp_project resolved))) (\<lambda>directory.
                      ret \<lparr>pd_directory = directory, pd_source = rp_project_source resolved,
                           pd_marker = rp_project_marker resolved, pd_repository = rp_repository resolved,
                           pd_differs = (directory \<noteq> canonical_cwd)\<rparr>)))))"

section \<open>Planning a host\<close>

definition plan_install ::
    "instr_ext \<Rightarrow> process \<Rightarrow> instruction_target \<Rightarrow> host option \<Rightarrow> path option \<Rightarrow> bool
     \<Rightarrow> (manager_error, instruction_plan) act" where
  "plan_install ext pr t h explicit force =
     bindA (project_root pr explicit) (\<lambda>project. plan_install_at ext t h project force)"

definition manager_plan_connect ::
    "outside \<Rightarrow> cli_ext \<Rightarrow> manager \<Rightarrow> host \<Rightarrow> scope \<Rightarrow> bytes option \<Rightarrow> path option \<Rightarrow> opencode_version option
     \<Rightarrow> (manager_error, connection_plan) act" where
  "manager_plan_connect ou cx m host scope explicit_profile project version =
     bindA (config_descriptor ou m explicit_profile) (\<lambda>(profile, descriptor).
     plan_connect_version (cx_host cx) (ou_process ou) host scope profile descriptor project version)"

text \<open>The files the enabled steps of a host write.\<close>

definition host_targets ::
    "process \<Rightarrow> init_options \<Rightarrow> path \<Rightarrow> path \<Rightarrow> host \<Rightarrow> (manager_error, path list) act" where
  "host_targets pr o' home project host =
     bindA (if io_no_connect o' then ret []
            else bindA (lift (host_config_path pr host (io_scope o') home project)) (\<lambda>p. ret [p])) (\<lambda>configuration.
     bindA (if io_no_instructions o' then ret []
            else bindA (lift (instruction_path (instruction_target_for host) None project)) (\<lambda>p. ret [p]))
       (\<lambda>instructions.
     bindA (if io_no_skill o' \<or> host = CursorHost then ret []
            else bindA (lift (instruction_path Skill (Some host) project)) (\<lambda>p. ret [p])) (\<lambda>skill.
     bindA (if io_no_hooks o' \<or> host \<noteq> ClaudeCode then ret []
            else bindA (settings_path pr (io_scope o') (Some project)) (\<lambda>p. ret [p])) (\<lambda>settings.
     ret (configuration @ instructions @ skill @ settings)))))"

fun preflight_targets ::
    "process \<Rightarrow> init_options \<Rightarrow> path \<Rightarrow> path \<Rightarrow> host list \<Rightarrow> (manager_error, path list) act" where
  "preflight_targets pr o' home project [] = ret []"
| "preflight_targets pr o' home project (h # hs) =
     bindA (host_targets pr o' home project h) (\<lambda>targets.
     bindA (preflight_targets pr o' home project hs) (\<lambda>more_targets. ret (targets @ more_targets)))"

fun all_writable :: "path list \<Rightarrow> (manager_error, unit) act" where
  "all_writable [] = ret ()"
| "all_writable (p # ps) = bindA (assert_writable p) (\<lambda>_. all_writable ps)"

definition preflight :: "process \<Rightarrow> init_options \<Rightarrow> path option \<Rightarrow> (manager_error, unit) act" where
  "preflight pr o' project =
     bindA (user_home pr) (\<lambda>home.
     bindA (case project of Some p \<Rightarrow> ret p | None \<Rightarrow> project_root pr None) (\<lambda>root.
     bindA (preflight_targets pr o' home root (io_hosts o')) all_writable))"

definition current_manager_path :: "outside \<Rightarrow> manager_error + path" where
  "current_manager_path ou = map_sum (Io ''resolve manager executable'') id (en_current_exe (ou_engine ou))"

definition host_steps ::
    "outside \<Rightarrow> cli_ext \<Rightarrow> init_options \<Rightarrow> launch_descriptor \<Rightarrow> path option \<Rightarrow> host
     \<Rightarrow> (manager_error, (bytes \<times> step) list) act" where
  "host_steps ou cx o' descriptor project host =
     (let pr = ou_process ou in
      bindA (if io_no_connect o' then ret (SkippedStep ''--no-connect'')
             else bindA (plan_connect_version (cx_host cx) pr host (io_scope o') (io_profile o') descriptor project
                           (io_opencode o')) (\<lambda>plan. ret (ConnectionStep plan))) (\<lambda>connection.
      bindA (if io_no_instructions o' then ret (SkippedStep ''--no-instructions'')
             else bindA (plan_install (cx_instr cx) pr (instruction_target_for host) None project False)
                    (\<lambda>plan. ret (InstructionStep plan))) (\<lambda>instructions.
      bindA (if io_no_skill o' then ret (SkippedStep ''--no-skill'')
             else if host = CursorHost
             then ret (SkippedStep ''cursor has no skill directory; its rule carries the instructions'')
             else bindA (plan_install (cx_instr cx) pr Skill (Some host) project False)
                    (\<lambda>plan. ret (InstructionStep plan))) (\<lambda>skill.
      bindA (if io_no_hooks o' then ret (SkippedStep ''--no-hooks'')
             else if host = ClaudeCode then
               bindA (lift (current_manager_path ou)) (\<lambda>exe.
               bindA (hook_plan_install (cx_hook cx) pr (io_scope o') exe (io_profile o') project)
                 (\<lambda>plan. ret (HookStep plan)))
             else ret (SkippedStep ''no verified hook mechanism for this harness; see COMPATIBILITY.md''))
        (\<lambda>hook.
      ret [(''connect'', connection), (''instructions'', instructions), (''skill'', skill), (''hook'', hook)])))))"

end
