(* ===== verification/Cli_Commands.thy ===== *)
theory Cli_Commands
  imports Cli
begin

text \<open>
  The commands themselves (\<^verbatim>\<open>src/src/main.rs\<close>): \<^verbatim>\<open>init\<close>, \<^verbatim>\<open>teardown\<close>, the single connection and
  instruction commands, the commands on profiles, the diagnosis with its exit code, the hook, and the
  dispatch between them.
\<close>

fun join_text :: "bytes \<Rightarrow> bytes list \<Rightarrow> bytes" where
  "join_text sep [] = []"
| "join_text sep [s] = s"
| "join_text sep (s # t # ts) = s @ sep @ join_text sep (t # ts)"

definition scope_source :: "bool \<Rightarrow> bytes" where
  "scope_source given = (if given then ''flag'' else ''default'')"

definition host_field :: "host \<Rightarrow> bytes \<times> json" where
  "host_field h = (''host'', JStr (host_serde h))"

definition issue_step :: "cli_ext \<Rightarrow> bytes \<Rightarrow> host \<Rightarrow> manager_error \<Rightarrow> json" where
  "issue_step cx name h e =
     JObj [(''step'', JStr name), host_field h, (''status'', JStr ''issue''), (''detail'', JStr (cx_message cx e))]"

definition label_step :: "bytes \<Rightarrow> host \<Rightarrow> json \<Rightarrow> json" where
  "label_step name h v = set_field ''host'' (JStr (host_serde h)) (set_field ''step'' (JStr name) v)"

section \<open>What an old project-scope install left\<close>

definition stale_connection :: "outside \<Rightarrow> host \<Rightarrow> path option \<Rightarrow> bytes option \<Rightarrow> (manager_error, bytes list) act" where
  "stale_connection ou host project entry =
     (case entry of
        None \<Rightarrow> ret []
      | Some _ \<Rightarrow>
          bindA (outcome (canonical_paths (ou_process ou) project)) (\<lambda>paths.
          ret (case paths of
                 Inl _ \<Rightarrow> []
               | Inr ps \<Rightarrow>
                   (case map_of ps (host, ProjectScope) of
                      None \<Rightarrow> [] | Some p \<Rightarrow> [path_to_string_lossy p]))))"

definition stale_hook :: "outside \<Rightarrow> cli_ext \<Rightarrow> host \<Rightarrow> path option \<Rightarrow> (manager_error, bytes list) act" where
  "stale_hook ou cx host project =
     (if host \<noteq> ClaudeCode then ret []
      else
        bindA (outcome (settings_path (ou_process ou) ProjectScope project)) (\<lambda>located.
        case located of
          Inl _ \<Rightarrow> ret []
        | Inr settings \<Rightarrow>
            bindA (outcome (hook_plan_remove_at (cx_hook cx) ProjectScope settings False)) (\<lambda>outcome_of_plan.
            ret (case outcome_of_plan of
                   Inl _ \<Rightarrow> []
                 | Inr plan \<Rightarrow> if hook_is_noop plan then [] else [path_to_string_lossy settings]))))"

definition carryover_warning :: "host \<Rightarrow> bytes \<Rightarrow> (bytes \<times> json) list \<Rightarrow> json" where
  "carryover_warning host detail rest =
     JObj ([(''step'', JStr ''project_scope_carryover''), host_field host, (''status'', JStr ''warning''),
            (''detail'', JStr detail)] @ rest)"

definition carryover_of :: "outside \<Rightarrow> cli_ext \<Rightarrow> path option \<Rightarrow> host \<Rightarrow> (manager_error, json list) act" where
  "carryover_of ou cx project host =
     bindA (outcome (inspect_owned_connection (cx_host cx) (ou_process ou) host ProjectScope project)) (\<lambda>owned.
     case owned of
       Inl e \<Rightarrow>
         ret [carryover_warning host
                (''a project-scope Kaleidoscope entry is present and the manager cannot read its ownership (''
                 @ cx_message cx e @ ''). It was NOT touched.'') []]
     | Inr entry \<Rightarrow>
         bindA (stale_connection ou host project entry) (\<lambda>connection.
         bindA (stale_hook ou cx host project) (\<lambda>hook.
         ret (if connection @ hook = [] then []
              else [carryover_warning host
                      (''a project-scope install is still present at '' @ join_text '' and '' (connection @ hook)
                       @ ''. The harness prefers the user entry, so the project one is now inert. Nothing was removed.'')
                      [(''remedy'', JStr (''kaleidoscope teardown --host '' @ host_as_str host
                                          @ '' --scope project''))]]))))"

fun carryover_hosts :: "outside \<Rightarrow> cli_ext \<Rightarrow> path option \<Rightarrow> host list \<Rightarrow> (manager_error, json list) act" where
  "carryover_hosts ou cx project [] = ret []"
| "carryover_hosts ou cx project (h # hs) =
     bindA (carryover_of ou cx project h) (\<lambda>found.
     bindA (carryover_hosts ou cx project hs) (\<lambda>rest. ret (found @ rest)))"

definition project_scope_carryover ::
    "outside \<Rightarrow> cli_ext \<Rightarrow> scope \<Rightarrow> host list \<Rightarrow> path option \<Rightarrow> (manager_error, json list) act" where
  "project_scope_carryover ou cx scope hosts project =
     (if scope \<noteq> UserScope then ret [] else carryover_hosts ou cx project hosts)"

definition remedies :: "json list \<Rightarrow> bytes list" where
  "remedies found = concat (map (\<lambda>v. case json_get v ''remedy'' of Some (JStr s) \<Rightarrow> [s] | _ \<Rightarrow> []) found)"

section \<open>init\<close>

definition init_policy :: "init_options \<Rightarrow> vault_policy" where
  "init_policy o' = (if io_adopt o' then Adopt else if io_create o' then Create else Auto)"

text \<open>The steps of one host, up to the first that fails.\<close>

fun apply_steps ::
    "cli_ext \<Rightarrow> bool \<Rightarrow> bool \<Rightarrow> host \<Rightarrow> (bytes \<times> step) list \<Rightarrow> (manager_error, json list \<times> manager_error option) act" where
  "apply_steps cx dry_run yes h [] = ret ([], None)"
| "apply_steps cx dry_run yes h ((name, step) # rest) =
     bindA (outcome (apply_step cx dry_run yes step)) (\<lambda>r.
     case r of
       Inl e \<Rightarrow> ret ([issue_step cx name h e], Some e)
     | Inr v \<Rightarrow>
         bindA (apply_steps cx dry_run yes h rest) (\<lambda>(vs, failure). ret (label_step name h v # vs, failure)))"

fun wire_hosts ::
    "outside \<Rightarrow> cli_ext \<Rightarrow> init_options \<Rightarrow> launch_descriptor \<Rightarrow> path option \<Rightarrow> host list
     \<Rightarrow> (manager_error, json list \<times> manager_error option) act" where
  "wire_hosts ou cx o' descriptor project [] = ret ([], None)"
| "wire_hosts ou cx o' descriptor project (h # hs) =
     bindA (outcome (host_steps ou cx o' descriptor project h)) (\<lambda>outcome_of_plan.
     case outcome_of_plan of
       Inl e \<Rightarrow> ret ([issue_step cx ''host'' h e], Some e)
     | Inr plans \<Rightarrow>
         bindA (apply_steps cx (io_dry_run o') (io_yes o') h plans) (\<lambda>(vs, failure).
         case failure of
           Some e \<Rightarrow> ret (vs, Some e)
         | None \<Rightarrow>
             bindA (wire_hosts ou cx o' descriptor project hs) (\<lambda>(vs', failure'). ret (vs @ vs', failure'))))"

definition wire ::
    "outside \<Rightarrow> cli_ext \<Rightarrow> init_options \<Rightarrow> launch_descriptor \<Rightarrow> path option
     \<Rightarrow> (manager_error, json list \<times> manager_error option) act" where
  "wire ou cx o' descriptor project =
     bindA (if io_dry_run o' then ret (Inr ()) else outcome (preflight (ou_process ou) o' project)) (\<lambda>r.
     case r of
       Inl e \<Rightarrow>
         ret ([JObj [(''step'', JStr ''preflight''), (''status'', JStr ''issue''),
                     (''detail'', JStr (cx_message cx e))]], Some e)
     | Inr _ \<Rightarrow> wire_hosts ou cx o' descriptor project (io_hosts o'))"

text \<open>The project is registered only by a run that got through and left instructions in it.\<close>

definition register_wired ::
    "outside \<Rightarrow> init_options \<Rightarrow> path \<Rightarrow> manager_error option \<Rightarrow> (manager_error, unit) act" where
  "register_wired ou o' directory failure =
     (if io_dry_run o' \<or> failure \<noteq> None \<or> io_hosts o' = [] \<or> (io_no_instructions o' \<and> io_no_skill o') then ret ()
      else
        bindA (project_carries_instructions directory) (\<lambda>carries.
        if \<not> carries then ret ()
        else
          bindA (outcome (config_resolve (ou_process ou))) (\<lambda>store.
          case store of Inl _ \<Rightarrow> ret () | Inr s \<Rightarrow> register_project (ou_config ou) s directory)))"

definition profile_step :: "vault_init \<Rightarrow> json" where
  "profile_step v =
     JObj [(''step'', JStr ''profile''), (''status'', JStr (vi_status v)),
           (''detail'', JStr ((if vi_created v then ''created'' else ''reused'') @ '' via '' @ vi_discovered_by v))]"

definition hosts_step :: "host list \<Rightarrow> json list" where
  "hosts_step hosts =
     (if hosts = []
      then [JObj [(''step'', JStr ''hosts''), (''status'', JStr ''skipped''), (''detail'', JStr ''no --host given'')]]
      else [])"

definition init_next :: "init_options \<Rightarrow> json list \<Rightarrow> bytes list" where
  "init_next o' carryover =
     [''kaleidoscope doctor --json'']
     @ (if io_hosts o' = [] then [''kaleidoscope connect HOST --dry-run'']
        else map (\<lambda>h. ''kaleidoscope teardown --host '' @ host_as_str h @ '' --scope ''
                      @ scope_as_str (io_scope o') @ '' --dry-run'') (io_hosts o'))
     @ remedies carryover"

definition init_report ::
    "init_options \<Rightarrow> project_directory \<Rightarrow> vault_init \<Rightarrow> json list \<Rightarrow> bytes list \<Rightarrow> bool \<Rightarrow> manager_error + json" where
  "init_report o' pd v steps next_steps failed =
     bindR (project_report pd) (\<lambda>project.
     bindR (or_panics (launch_json (vi_launch v))) (\<lambda>launch.
     Inr (JObj
       [(''status'', JStr (if io_dry_run o' then ''dry_run'' else if failed then ''issues'' else vi_status v)),
        (''profile_status'', JStr (vi_status v)),
        (''scope'', JStr (scope_as_str (io_scope o'))),
        (''scope_source'', JStr (scope_source (io_scope_given o'))),
        (''scope_applies_to'', json_strings [''connect'', ''hook'']),
        (''instructions_scope'', JStr ''project''),
        (''project'', project),
        (''profile'',
           case vi_profile v of
             Some p \<Rightarrow> profile_summary p
           | None \<Rightarrow> JObj [(''name'', JStr (io_profile o')), (''status'', JStr (vi_status v)),
                           (''detail'', JStr ''dry run: no profile was created, so there is none to describe'')]),
        (''vault'', JObj [(''discovered_by'', JStr (vi_discovered_by v)),
                          (''discovered_detail'', json_option JStr (vi_discovered_detail v)),
                          (''workspaces'', json_nat (vi_workspaces v)), (''created'', JBool (vi_created v))]),
        (''launch'', launch),
        (''launch_provisional'', JBool (vi_provisional_launch v)),
        (''steps'', JArr steps),
        (''hosts_available'', json_strings (map host_as_str all_hosts)),
        (''next'', json_strings next_steps)])))"

definition run_init ::
    "outside \<Rightarrow> cli_ext \<Rightarrow> manager \<Rightarrow> path option \<Rightarrow> bytes list \<Rightarrow> (manager_error, reply) act" where
  "run_init ou cx m engine arguments =
     bindA (lift (parse_init arguments)) (\<lambda>o'.
     bindA (resolve_project_directory ou cx engine (io_project o')) (\<lambda>pd.
     let project = Some (pd_directory pd) in
     bindA (init ou m (io_profile o') (io_root o') (io_durability o') (init_policy o') project (io_dry_run o')) (\<lambda>v.
     bindA (wire ou cx o' (vi_launch v) project) (\<lambda>(wired_steps, failure).
     bindA (project_scope_carryover ou cx (io_scope o') (io_hosts o') project) (\<lambda>carryover.
     bindA (register_wired ou o' (pd_directory pd) failure) (\<lambda>_.
     bindA (lift (init_report o' pd v (profile_step v # hosts_step (io_hosts o') @ wired_steps @ carryover)
                   (init_next o' carryover) (failure \<noteq> None))) (\<lambda>report.
     ret ([Document report], failure))))))))"

end
