(* ===== verification/Cli_Teardown.thy ===== *)
theory Cli_Teardown
  imports Cli_Commands
begin

text \<open>
  \<^verbatim>\<open>teardown\<close> (\<^verbatim>\<open>src/src/main.rs\<close>), the reverse of \<^verbatim>\<open>init\<close>. What lies in the user's home serves every
  project, so it is kept while another registered project still carries instructions.
\<close>

definition retained_hook :: "scope \<Rightarrow> host \<Rightarrow> json" where
  "retained_hook scope h =
     JObj [(''step'', JStr ''hook''), host_field h, (''status'', JStr ''retained''),
           (''scope'', JStr (scope_as_str scope)),
           (''detail'', JStr ''the user-scope SessionStart hook is machine-wide and other projects still carry Kaleidoscope instructions; it will be removed with the last of them'')]"

definition retained_connection :: "scope \<Rightarrow> host \<Rightarrow> json" where
  "retained_connection scope h =
     JObj [(''step'', JStr ''connect''), host_field h, (''status'', JStr ''retained''),
           (''scope'', JStr (scope_as_str scope)),
           (''detail'', JStr ''the user-scope MCP entry is machine-wide and other projects still carry Kaleidoscope instructions; removing it here would leave them telling an agent to call tools that are no longer wired'')]"

definition map_step :: "('p \<Rightarrow> step) \<Rightarrow> (manager_error, 'p) act \<Rightarrow> (manager_error, manager_error + step) act" where
  "map_step f a = bindA (outcome a) (\<lambda>r. ret (map_sum id f r))"

text \<open>
  What is retained for a host, by report and by name, and the plans of the rest, each a result.
\<close>

definition teardown_plans ::
    "outside \<Rightarrow> cli_ext \<Rightarrow> teardown_options \<Rightarrow> path option \<Rightarrow> bool \<Rightarrow> host
     \<Rightarrow> (manager_error, (bytes \<times> (manager_error + step)) list) act" where
  "teardown_plans ou cx o' project retain host =
     (let pr = ou_process ou in
      bindA (if host = ClaudeCode \<and> \<not> retain then
               bindA (map_step HookStep (hook_plan_remove (cx_hook cx) pr (to_scope o') project (to_force o')))
                 (\<lambda>r. ret [(''hook'', r)])
             else ret []) (\<lambda>hook.
      bindA (if host \<noteq> CursorHost then
               bindA (map_step InstructionStep (plan_remove (cx_instr cx) pr Skill (Some host) project (to_force o')))
                 (\<lambda>r. ret [(''skill'', r)])
             else ret []) (\<lambda>skill.
      bindA (map_step InstructionStep
               (plan_remove (cx_instr cx) pr (instruction_target_for host) None project (to_force o')))
        (\<lambda>instructions.
      bindA (if retain then ret []
             else bindA (map_step ConnectionStep (plan_disconnect (cx_host cx) pr host (to_scope o') project))
                    (\<lambda>r. ret [(''connect'', r)])) (\<lambda>connection.
      ret (hook @ skill @ [(''instructions'', instructions)] @ connection))))))"

definition retained_reports :: "scope \<Rightarrow> bool \<Rightarrow> host \<Rightarrow> (bytes \<times> json) list" where
  "retained_reports scope retain host =
     (if \<not> retain then []
      else (if host = ClaudeCode then [(''hook'', retained_hook scope host)] else [])
           @ [(''connect'', retained_connection scope host)])"

text \<open>What the report says about the instruction steps: adopted files left in place, nothing found.\<close>

record teardown_result =
  tr_steps :: "json list"
  tr_failure :: "manager_error option"
  tr_adopted_left :: "bytes list"
  tr_absent :: bool

definition tr_none :: teardown_result where
  "tr_none = \<lparr>tr_steps = [], tr_failure = None, tr_adopted_left = [], tr_absent = False\<rparr>"

definition tr_join :: "teardown_result \<Rightarrow> teardown_result \<Rightarrow> teardown_result" where
  "tr_join a b =
     \<lparr>tr_steps = tr_steps a @ tr_steps b,
      tr_failure = (case tr_failure a of Some e \<Rightarrow> Some e | None \<Rightarrow> tr_failure b),
      tr_adopted_left = tr_adopted_left a @ tr_adopted_left b, tr_absent = (tr_absent a \<or> tr_absent b)\<rparr>"

fun adopted_left :: "step \<Rightarrow> bytes list" where
  "adopted_left (InstructionStep plan) =
     (if ip_restore plan = Some AdoptedLeftInPlace then [path_to_string_lossy (ip_target plan)] else [])"
| "adopted_left _ = []"

fun instructions_absent :: "step \<Rightarrow> bool" where
  "instructions_absent (InstructionStep plan) = is_noop plan"
| "instructions_absent _ = False"

definition apply_removal ::
    "cli_ext \<Rightarrow> teardown_options \<Rightarrow> host \<Rightarrow> bytes \<Rightarrow> manager_error + step \<Rightarrow> (manager_error, teardown_result) act" where
  "apply_removal cx o' h name outcome_of_plan =
     (case outcome_of_plan of
        Inl e \<Rightarrow> ret \<lparr>tr_steps = [issue_step cx name h e], tr_failure = Some e, tr_adopted_left = [], tr_absent = False\<rparr>
      | Inr step \<Rightarrow>
          bindA (outcome (apply_step cx (to_dry_run o') (to_yes o') step)) (\<lambda>r.
          ret (case r of
                 Inl e \<Rightarrow> \<lparr>tr_steps = [issue_step cx name h e], tr_failure = Some e,
                           tr_adopted_left = adopted_left step, tr_absent = instructions_absent step\<rparr>
               | Inr v \<Rightarrow> \<lparr>tr_steps = [label_step name h v], tr_failure = None,
                           tr_adopted_left = adopted_left step, tr_absent = instructions_absent step\<rparr>)))"

text \<open>Unlike \<^verbatim>\<open>init\<close>, a removal that fails does not stop the others.\<close>

fun apply_removals ::
    "cli_ext \<Rightarrow> teardown_options \<Rightarrow> host \<Rightarrow> (bytes \<times> (manager_error + step)) list
     \<Rightarrow> (manager_error, teardown_result) act" where
  "apply_removals cx o' h [] = ret tr_none"
| "apply_removals cx o' h ((name, outcome_of_plan) # rest) =
     bindA (apply_removal cx o' h name outcome_of_plan) (\<lambda>a.
     bindA (apply_removals cx o' h rest) (\<lambda>b. ret (tr_join a b)))"

fun unwire_hosts ::
    "outside \<Rightarrow> cli_ext \<Rightarrow> teardown_options \<Rightarrow> path option \<Rightarrow> bool \<Rightarrow> host list
     \<Rightarrow> (manager_error, teardown_result) act" where
  "unwire_hosts ou cx o' project retain [] = ret tr_none"
| "unwire_hosts ou cx o' project retain (h # hs) =
     bindA (teardown_plans ou cx o' project retain h) (\<lambda>plans.
     bindA (apply_removals cx o' h plans) (\<lambda>a.
     bindA (unwire_hosts ou cx o' project retain hs) (\<lambda>b.
     ret (tr_join (tr_join (tr_none\<lparr>tr_steps := map snd (retained_reports (to_scope o') retain h)\<rparr>) a) b))))"

text \<open>The other registered projects that still carry instructions.\<close>

definition dependants :: "outside \<Rightarrow> path \<Rightarrow> manager_error + config_store \<Rightarrow> (manager_error, path list) act" where
  "dependants ou directory store =
     (case store of
        Inl _ \<Rightarrow> ret []
      | Inr s \<Rightarrow> other_projects (ou_config ou) s directory project_carries_instructions)"

definition deregister ::
    "outside \<Rightarrow> teardown_options \<Rightarrow> path \<Rightarrow> manager_error + config_store \<Rightarrow> manager_error option
     \<Rightarrow> (manager_error, unit) act" where
  "deregister ou o' directory store failure =
     (if to_dry_run o' \<or> failure \<noteq> None then ret ()
      else case store of
        Inl _ \<Rightarrow> ret ()
      | Inr s \<Rightarrow> forget_project (ou_config ou) s directory project_carries_instructions)"

definition teardown_next :: "teardown_options \<Rightarrow> json list \<Rightarrow> bytes list" where
  "teardown_next o' carryover =
     map (\<lambda>h. ''kaleidoscope connect '' @ host_as_str h @ '' --scope '' @ scope_as_str (to_scope o')) (to_hosts o')
     @ remedies carryover"

definition absent_note :: "path \<Rightarrow> path list \<Rightarrow> bytes" where
  "absent_note directory others =
     '' Instructions and the skill are ALWAYS project-anchored, whatever --scope says, and none was found at ''
     @ path_to_string_lossy directory @ ''. This run did not remove them from anywhere else.''
     @ (if others = [] then '' No other project is registered as carrying them either.''
        else '' These registered projects still do: '' @ join_text '', '' (map path_to_string_lossy others)
             @ ''. Run this teardown from each (or with --project PATH).'')"

definition retained_note :: "bytes list \<Rightarrow> path list \<Rightarrow> bytes" where
  "retained_note names others =
     '' The machine-wide user-scope wiring ('' @ join_text '' and '' names @ '') was RETAINED: ''
     @ join_text '', '' (map path_to_string_lossy others) @ '' still carr''
     @ (if length others = 1 then ''ies'' else ''y'')
     @ '' manager-owned Kaleidoscope instructions, and removing the shared entry here would leave ''
     @ (if length others = 1 then ''it'' else ''them'')
     @ '' telling an agent to call `search` and `remember` with nothing behind them. It is removed automatically with the last of them; to remove it now, tear those down first (or pass --project PATH for each).''"

definition teardown_note :: "path \<Rightarrow> path list \<Rightarrow> bool \<Rightarrow> bytes list \<Rightarrow> teardown_result \<Rightarrow> bytes" where
  "teardown_note directory others retain names t =
     ''teardown removes host wiring only. To remove data, use `kaleidoscope profile remove NAME` and `kscope vault-delete ROOT`.''
     @ concat (map (\<lambda>p. '' '' @ p @ '' was adopted, not created, so it was left in place. Delete it by hand if you no longer want it.'')
                 (tr_adopted_left t))
     @ (if tr_absent t then absent_note directory others else [])
     @ (if retain then retained_note names others else [])"

fun json_paths :: "path list \<Rightarrow> manager_error + json list" where
  "json_paths [] = Inr []"
| "json_paths (p # ps) = bindR (json_path p) (\<lambda>j. bindR (json_paths ps) (\<lambda>js. Inr (j # js)))"

definition teardown_report ::
    "teardown_options \<Rightarrow> project_directory \<Rightarrow> path list \<Rightarrow> bool \<Rightarrow> teardown_result \<Rightarrow> json list
     \<Rightarrow> manager_error + json" where
  "teardown_report o' pd others retain t carryover =
     (let names = concat (map (\<lambda>h. map fst (retained_reports (to_scope o') retain h)) (to_hosts o')) in
      bindR (json_paths others) (\<lambda>dependent.
      bindR (project_report pd) (\<lambda>project.
      Inr (JObj
        [(''version'', JNum ''1''),
         (''status'', JStr (if to_dry_run o' then ''dry_run'' else if tr_failure t \<noteq> None then ''issues''
                            else if retain then ''partially_removed'' else ''removed'')),
         (''retained'', json_strings names),
         (''dependent_projects'', JArr dependent),
         (''scope'', JStr (scope_as_str (to_scope o'))),
         (''scope_source'', JStr (scope_source (to_scope_given o'))),
         (''scope_applies_to'', json_strings [''connect'', ''hook'']),
         (''instructions_scope'', JStr ''project''),
         (''project'', project),
         (''steps'', JArr (tr_steps t @ carryover)),
         (''next'', json_strings (teardown_next o' carryover)),
         (''vault'', JStr ''untouched''),
         (''profile'', JStr ''untouched''),
         (''note'', JStr (teardown_note (pd_directory pd) others retain names t))]))))"

definition run_teardown ::
    "outside \<Rightarrow> cli_ext \<Rightarrow> path option \<Rightarrow> bytes list \<Rightarrow> (manager_error, reply) act" where
  "run_teardown ou cx engine arguments =
     bindA (lift (parse_teardown arguments)) (\<lambda>o'.
     bindA (resolve_project_directory ou cx engine (to_project o')) (\<lambda>pd.
     let directory = pd_directory pd; project = Some directory in
     bindA (outcome (config_resolve (ou_process ou))) (\<lambda>store.
     bindA (dependants ou directory store) (\<lambda>others.
     let retain = (to_scope o' = UserScope \<and> others \<noteq> []) in
     bindA (unwire_hosts ou cx o' project retain (to_hosts o')) (\<lambda>t.
     bindA (project_scope_carryover ou cx (to_scope o') (to_hosts o') project) (\<lambda>carryover.
     bindA (deregister ou o' directory store (tr_failure t)) (\<lambda>_.
     bindA (lift (teardown_report o' pd others retain t carryover)) (\<lambda>report.
     ret ([Document report], tr_failure t)))))))))"

end
