(* ===== verification/Cli_Dispatch.thy ===== *)
theory Cli_Dispatch
  imports Cli_Teardown
begin

text \<open>
  The other commands of \<^verbatim>\<open>src/src/main.rs\<close> and the dispatch on the first argument.
\<close>

section \<open>One connection, one instruction file\<close>

definition run_connection ::
    "outside \<Rightarrow> cli_ext \<Rightarrow> manager \<Rightarrow> path option \<Rightarrow> bool \<Rightarrow> bytes list \<Rightarrow> (manager_error, reply) act" where
  "run_connection ou cx m engine connecting arguments =
     bindA (lift (parse_connection connecting arguments)) (\<lambda>o'.
     bindA (resolve_project_directory ou cx engine (co_project o')) (\<lambda>pd.
     let project = Some (pd_directory pd) in
     bindA (if connecting
            then manager_plan_connect ou cx m (co_host o') (co_scope o') (co_profile o') project (co_opencode o')
            else plan_disconnect (cx_host cx) (ou_process ou) (co_host o') (co_scope o') project) (\<lambda>plan.
     bindA (carry_out cx (co_dry_run o') (co_yes o') (connection_is_noop plan)
              (connection_apply (cx_host cx) plan) (connection_summary plan)) (\<lambda>summary.
     ret (printing (set_field ''scope_source'' (JStr (scope_source (co_scope_given o'))) summary))))))"

definition run_instructions ::
    "outside \<Rightarrow> cli_ext \<Rightarrow> path option \<Rightarrow> bytes list \<Rightarrow> (manager_error, reply) act" where
  "run_instructions ou cx engine arguments =
     bindA (lift (parse_instructions arguments)) (\<lambda>o'.
     bindA (resolve_project_directory ou cx engine (no_project o')) (\<lambda>pd.
     let project = Some (pd_directory pd); pr = ou_process ou; ext = cx_instr cx in
     bindA (if no_action o' = ''install'' then plan_install ext pr (no_target o') (no_host o') project (no_force o')
            else if no_action o' = ''remove'' \<or> no_action o' = ''uninstall''
            then plan_remove ext pr (no_target o') (no_host o') project (no_force o')
            else throw (Usage InstructionActions)) (\<lambda>plan.
     bindA (carry_out cx (no_dry_run o') (no_yes o') (is_noop plan) (apply_plan ext plan)
              (instruction_summary (ix_sha ext) plan)) (\<lambda>summary.
     ret (printing summary)))))"

section \<open>Profiles\<close>

definition run_profile :: "outside \<Rightarrow> manager \<Rightarrow> bytes list \<Rightarrow> (manager_error, reply) act" where
  "run_profile ou m arguments =
     (case arguments of
        [] \<Rightarrow> throw (Usage ProfileActions)
      | action # rest \<Rightarrow>
          if action = ''list'' then
            bindA (lift (require_empty rest)) (\<lambda>_.
            bindA (engine_profile_list (ou_process ou) (ou_engine ou) (mg_engine m)) (\<lambda>l.
            bindA (lift (or_cannot_encode (profile_list_json l))) (\<lambda>v. ret (printing v))))
          else if action = ''show'' then
            bindA (lift (one_argument rest ''profile show requires NAME'')) (\<lambda>name.
            bindA (show_profile ou m name) (\<lambda>p.
            bindA (lift (or_cannot_encode (profile_json p))) (\<lambda>v. ret (printing v))))
          else if action = ''use'' then
            bindA (lift (one_argument rest ''profile use requires NAME'')) (\<lambda>name.
            bindA (profile_use ou m name) (\<lambda>_.
            ret (printing (JObj [(''version'', JNum ''1''), (''status'', JStr ''active''), (''profile'', JStr name)]))))
          else if action = ''remove'' then
            bindA (lift (one_argument rest ''profile remove requires NAME'')) (\<lambda>name.
            bindA (profile_remove ou m name) (\<lambda>r. ret (printing (remove_result_json r))))
          else throw (Usage ProfileActions))"

definition binding_report :: "cli_ext \<Rightarrow> bytes option \<Rightarrow> bytes \<Rightarrow> uuid option \<Rightarrow> reply" where
  "binding_report cx status profile account =
     printing (JObj ([(''version'', JNum ''1'')]
       @ (case status of None \<Rightarrow> [] | Some s \<Rightarrow> [(''status'', JStr s)])
       @ [(''profile'', JStr profile), (''account_id'', json_option (\<lambda>u. JStr (cx_uuid_text cx u)) account)]))"

definition run_profile_account :: "outside \<Rightarrow> cli_ext \<Rightarrow> bytes list \<Rightarrow> (manager_error, reply) act" where
  "run_profile_account ou cx arguments =
     (let ext = ou_config ou in
      case arguments of
        [] \<Rightarrow> throw (Usage ProfileAccountActions)
      | marker # arguments1 \<Rightarrow>
          if marker \<noteq> ''account'' then throw (Usage UsageText)
          else case arguments1 of
            [] \<Rightarrow> throw (Usage ProfileAccountActions)
          | action # rest \<Rightarrow>
              bindA (config_resolve (ou_process ou)) (\<lambda>store.
              if action = ''show'' then
                bindA (lift (optional_profile_argument rest ''profile account show accepts [NAME]'')) (\<lambda>explicit.
                bindA (selected_profile ext store explicit) (\<lambda>profile.
                bindA (profile_account_binding ext store profile) (\<lambda>account.
                ret (binding_report cx None profile account))))
              else if action = ''bind'' then
                (case rest of
                   uuid_text # names \<Rightarrow>
                     if length names > 1 then throw (Usage (ArgumentMissing ''profile account bind requires ACCOUNT_UUID [NAME]''))
                     else
                       bindA (lift (parse_uuid_argument (cx_uuid cx) BadAccountUuid uuid_text)) (\<lambda>account.
                       bindA (selected_profile ext store (case names of [] \<Rightarrow> None | n # _ \<Rightarrow> Some n)) (\<lambda>profile.
                       bindA (bind_profile_account ext store profile account) (\<lambda>_.
                       ret (binding_report cx (Some ''bound'') profile (Some account)))))
                 | [] \<Rightarrow> throw (Usage (ArgumentMissing ''profile account bind requires ACCOUNT_UUID [NAME]'')))
              else if action = ''unbind'' then
                bindA (lift (optional_profile_argument rest ''profile account unbind accepts [NAME]'')) (\<lambda>explicit.
                bindA (selected_profile ext store explicit) (\<lambda>profile.
                bindA (unbind_profile_account ext store profile) (\<lambda>_.
                ret (binding_report cx (Some ''unbound'') profile None))))
              else throw (Usage ProfileAccountActions)))"

definition run_config :: "outside \<Rightarrow> manager \<Rightarrow> bytes list \<Rightarrow> (manager_error, reply) act" where
  "run_config ou m arguments =
     bindA (lift (bindR (take_string_option arguments ''--profile'') (\<lambda>(profile, a1).
              case take_flag a1 ''--json'' of (as_json, a2) \<Rightarrow>
                bindR (require_empty a2) (\<lambda>_. Inr (profile, as_json))))) (\<lambda>(profile, as_json).
     bindA (config_descriptor ou m profile) (\<lambda>(name, d).
     if as_json then bindA (lift (or_cannot_encode (launch_json d))) (\<lambda>v. ret (printing v))
     else
       ret ([TextLine (''Profile: '' @ name), TextLine (''Transport: '' @ ld_transport d),
             TextLine (''Command: '' @ path_to_string_lossy (ld_command d)),
             TextLine (''Arguments: '' @ join_text '' '' (ld_args d)),
             TextLine (''Tools: '' @ join_text '', '' (ld_tools d))], None)))"

section \<open>Diagnosis\<close>

text \<open>A project that cannot be resolved is itself a finding, and the rest is run on the working directory.\<close>

definition doctor_project ::
    "outside \<Rightarrow> cli_ext \<Rightarrow> path option \<Rightarrow> path option \<Rightarrow> (manager_error, project_directory \<times> bytes option) act" where
  "doctor_project ou cx engine explicit =
     bindA (outcome (resolve_project_directory ou cx engine explicit)) (\<lambda>resolved.
     case resolved of
       Inr pd \<Rightarrow> ret (pd, None)
     | Inl e \<Rightarrow>
         bindA (project_root (ou_process ou) None) (\<lambda>fallback.
         ret (\<lparr>pd_directory = fallback, pd_source = ''unresolved_fallback'', pd_marker = None,
               pd_repository = None, pd_differs = False\<rparr>, Some (cx_message cx e))))"

definition problem_check :: "bytes \<Rightarrow> doctor_check" where
  "problem_check problem =
     \<lparr>dc_name = ''project.root'', dc_status = ''issue'',
      dc_detail = problem @ '' The project-anchored checks below were run against the working directory instead, so they may be describing the wrong tree.'',
      dc_managed = None\<rparr>"

definition with_problem :: "bytes option \<Rightarrow> doctor_report \<Rightarrow> doctor_report" where
  "with_problem problem report =
     (case problem of
        None \<Rightarrow> report
      | Some p \<Rightarrow> report\<lparr>dr_checks := problem_check p # dr_checks report, dr_status := ''issues''\<rparr>)"

definition issue_count :: "doctor_check list \<Rightarrow> nat" where
  "issue_count checks = length (filter (\<lambda>c. dc_status c = ''issue'') checks)"

definition doctor_command ::
    "outside \<Rightarrow> cli_ext \<Rightarrow> manager \<Rightarrow> path option \<Rightarrow> bytes list \<Rightarrow> (manager_error, reply) act" where
  "doctor_command ou cx m engine arguments =
     bindA (lift (bindR (take_path_option arguments ''--project'') (\<lambda>(explicit, a1).
              bindR (require_empty (snd (take_flag a1 ''--json''))) (\<lambda>_. Inr explicit)))) (\<lambda>explicit.
     bindA (doctor_project ou cx engine explicit) (\<lambda>(pd, problem).
     bindA (run_doctor ou (cx_doctor cx) m (Some (pd_directory pd))) (\<lambda>base.
     let report = with_problem problem base; issues = issue_count (dr_checks report) in
     bindA (lift (project_report pd)) (\<lambda>project.
     ret ([Document (set_field ''project'' project (report_json report))],
          if issues > 0 then Some (DoctorIssues issues) else None)))))"

section \<open>The hook\<close>

text \<open>\<^verbatim>\<open>Path::is_dir\<close> follows links; a session's directory that is not one is passed over.\<close>

definition read_hook_input :: "cli_ext \<Rightarrow> json option" where
  "read_hook_input cx = Option.bind (cx_stdin cx) (jx_value (sx_json (cx_session cx)))"

definition session_directory :: "outside \<Rightarrow> cli_ext \<Rightarrow> ('e, path) act" where
  "session_directory ou cx =
     (let pr = ou_process ou;
          named = (case read_hook_input cx of
                     None \<Rightarrow> None
                   | Some v \<Rightarrow> (case json_get v ''cwd'' of Some (JStr s) \<Rightarrow> Some (parse_path s) | _ \<Rightarrow> None));
          own = (case pr_cwd pr of Inr d \<Rightarrow> d | Inl _ \<Rightarrow> [CurDir]) in
      case named of
        None \<Rightarrow> ret own
      | Some p \<Rightarrow> bindA (followed pr p) (\<lambda>n. ret (if is_dir_node n then p else own)))"

definition run_hook :: "outside \<Rightarrow> cli_ext \<Rightarrow> path option \<Rightarrow> bytes list \<Rightarrow> (manager_error, reply) act" where
  "run_hook ou cx engine arguments =
     (case arguments of
        [] \<Rightarrow> throw (Usage HookActions)
      | action # a0 \<Rightarrow>
          if action \<noteq> ''session-start'' then throw (Usage HookActions)
          else
            let pr = ou_process ou;
                (no_memories, a1) = take_flag a0 ''--no-memories'';
                retrieval = (\<not> no_memories \<and> pr_var pr ''KALEIDOSCOPE_HOOK_MEMORIES'' \<noteq> Some ''0'');
                profile = (case take_string_option a1 ''--profile'' of
                             Inr (Some p, _) \<Rightarrow> p | _ \<Rightarrow> ''default'') in
            bindA (session_directory ou cx) (\<lambda>cwd.
            bindA (outcome (engine_resolve pr (ou_engine ou) engine)) (\<lambda>resolved.
            bindA (session_start_output (cx_session cx) pr resolved
                     \<lparr>so_profile = profile, so_cwd = cwd, so_retrieval = retrieval\<rparr>) (\<lambda>text_out.
            ret ([TextLine text_out], None)))))"

section \<open>Dispatch\<close>

definition manager_command ::
    "outside \<Rightarrow> cli_ext \<Rightarrow> path option \<Rightarrow> bytes \<Rightarrow> bytes list \<Rightarrow> (manager_error, reply) act" where
  "manager_command ou cx engine command arguments =
     bindA (manager_resolve ou engine) (\<lambda>m.
     if command = ''init'' then run_init ou cx m engine arguments
     else if command = ''profile'' then run_profile ou m arguments
     else if command = ''config'' then run_config ou m arguments
     else if command = ''connect'' then run_connection ou cx m engine True arguments
     else if command = ''disconnect'' then run_connection ou cx m engine False arguments
     else if command = ''teardown'' then run_teardown ou cx engine arguments
     else if command = ''doctor'' then doctor_command ou cx m engine arguments
     else throw (Usage UsageText))"

definition dispatch ::
    "outside \<Rightarrow> cli_ext \<Rightarrow> path option \<Rightarrow> bytes \<Rightarrow> bytes list \<Rightarrow> (manager_error, reply) act" where
  "dispatch ou cx engine command arguments =
     (if command = ''instructions'' then run_instructions ou cx engine arguments
      else if command = ''hook'' then run_hook ou cx engine arguments
      else if command \<in> set [''login'', ''status'', ''logout'', ''account'', ''devices''] then
        bindA (lift (parse_account_invocation (cx_uuid cx) command arguments)) (\<lambda>invocation.
        bindA (cx_account cx invocation) (\<lambda>v. ret (printing v)))
      else if command = ''profile'' \<and> arguments \<noteq> [] \<and> hd arguments = ''account''
      then run_profile_account ou cx arguments
      else manager_command ou cx engine command arguments)"

definition run :: "outside \<Rightarrow> cli_ext \<Rightarrow> bytes list \<Rightarrow> (manager_error, reply) act" where
  "run ou cx arguments =
     (if arguments = [] \<or> hd arguments \<in> set [''-h'', ''--help''] then ret ([UsageScreen], None)
      else if hd arguments \<in> set [''-V'', ''--version'']
      then ret ([TextLine (''kaleidoscope '' @ cx_version cx)], None)
      else
        bindA (lift (take_path_option arguments ''--engine'')) (\<lambda>(engine, rest).
        case rest of
          [] \<Rightarrow> throw (Usage UsageText)
        | command # arguments' \<Rightarrow> dispatch ou cx engine command arguments'))"

text \<open>The code \<^verbatim>\<open>main\<close> ends the process with.\<close>

definition process_exit :: "manager_error + reply \<Rightarrow> nat" where
  "process_exit r =
     exit_code (case r of Inl e \<Rightarrow> Inl e | Inr (_, None) \<Rightarrow> Inr () | Inr (_, Some e) \<Rightarrow> Inl e)"

end
