(* ===== verification/Cli_Parsing.thy ===== *)
theory Cli_Parsing
  imports Cli_Arguments
begin

text \<open>
  The argument parser loses nothing: what it takes out is an option it knows or that option's value. A
  \<^verbatim>\<open>--dry-run\<close> among the arguments is therefore read as such, or swallowed as a value that is refused.
\<close>

section \<open>What the parser leaves over\<close>

lemma take_flag_found: "fst (take_flag as flag) \<longleftrightarrow> flag \<in> set as"
  by (induction as flag rule: take_flag.induct) (auto split: prod.split)

lemma take_flag_rest: "x \<in> set as \<Longrightarrow> x \<noteq> flag \<Longrightarrow> x \<in> set (snd (take_flag as flag))"
  by (induction as flag rule: take_flag.induct) (auto split: prod.split)

lemma take_flag_old: "x \<in> set (snd (take_flag as flag)) \<Longrightarrow> x \<in> set as"
  by (induction as flag rule: take_flag.induct) (auto split: prod.splits if_splits)

lemma take_flag_others: "x \<noteq> flag \<Longrightarrow> x \<in> set (snd (take_flag as flag)) \<longleftrightarrow> x \<in> set as"
  using take_flag_rest take_flag_old by metis

lemma take_option_rest:
  "take_string_option as option = Inr (v, rest) \<Longrightarrow> x \<in> set as \<Longrightarrow> x \<noteq> option \<Longrightarrow> x \<in> set rest \<or> v = Some x"
  by (induction as option arbitrary: v rest rule: take_string_option.induct)
    (fastforce simp: bindR_eq_Inr split: if_splits list.splits)+

lemma take_option_old:
  "take_string_option as option = Inr (v, rest) \<Longrightarrow> set rest \<subseteq> set as"
  by (induction as option arbitrary: v rest rule: take_string_option.induct)
    (fastforce simp: bindR_eq_Inr split: if_splits list.splits)+

lemma take_path_old: "take_path_option as option = Inr (v, rest) \<Longrightarrow> set rest \<subseteq> set as"
  by (cases "take_string_option as option") (auto simp: take_path_option_def dest: take_option_old[THEN subsetD])

lemma take_path_rest:
  "take_path_option as option = Inr (v, rest) \<Longrightarrow> x \<in> set as \<Longrightarrow> x \<noteq> option \<Longrightarrow>
    x \<in> set rest \<or> v = Some (parse_path x)"
  by (cases "take_string_option as option") (auto simp: take_path_option_def dest: take_option_rest)

lemma take_hosts_rest:
  "take_hosts hosts as = Inr (hs, rest) \<Longrightarrow> x \<in> set as \<Longrightarrow> x \<noteq> ''--host'' \<Longrightarrow> host_from_str x = Inl e \<Longrightarrow>
    x \<in> set rest"
proof (induction hosts as rule: take_hosts.induct)
  case (1 hosts as)
  show ?case
  proof (cases "take_string_option as ''--host''")
    case (Inr found)
    obtain v mid where found: "found = (v, mid)" by fastforce
    have kept: "x \<in> set mid \<or> v = Some x" using take_option_rest 1(3,4) Inr found by blast
    show ?thesis
    proof (cases v)
      case None
      with Inr found 1(2) kept show ?thesis by (simp add: take_hosts.simps[of hosts as])
    next
      case (Some s)
      with Inr found 1(2) obtain h where h: "host_from_str s = Inr h"
        by (auto simp: take_hosts.simps[of hosts as] split: sum.splits)
      with kept Some 1(5) have "x \<in> set mid" by auto
      moreover have "take_hosts (if h \<in> set hosts then hosts else hosts @ [h]) mid = Inr (hs, rest)"
        using 1(2) Inr found Some h by (simp add: take_hosts.simps[of hosts as])
      ultimately show ?thesis using 1(1)[OF Inr found[symmetric] Some h] 1(4,5) by blast
    qed
  qed (use 1(2) in \<open>simp add: take_hosts.simps[of hosts as]\<close>)
qed

abbreviation dry_word :: bytes where
  "dry_word \<equiv> ''--dry-run''"

lemma dry_word_parses:
  "host_from_str dry_word = Inl (Usage BadHost)" "scope_from_str dry_word = Inl (Usage BadScope)"
  "durability_from_str dry_word = Inl (Usage BadDurability)"
  "opencode_from_str dry_word = Inl (Usage BadOpenCodeVersion)"
  "target_from_str dry_word = Inl (Usage BadInstructionTarget)"
  "validate_profile_name dry_word = Inl InvalidProfileName"
  "parse_path dry_word = [Normal dry_word]"
  by (simp_all add: host_from_str_def scope_from_str_def durability_from_str_def opencode_from_str_def
      target_from_str_def validate_profile_name_def ascii_alnum_def parse_path_def starts_with_def)

text \<open>An enumerated option does not swallow the word without failing.\<close>

lemma parsed_is_not_dry:
  "parse_default durability_from_str d v = Inr y \<Longrightarrow> v \<noteq> Some dry_word"
  "parse_default scope_from_str s v = Inr z \<Longrightarrow> v \<noteq> Some dry_word"
  "parse_optional opencode_from_str v = Inr o1 \<Longrightarrow> v \<noteq> Some dry_word"
  "parse_optional host_from_str v = Inr h1 \<Longrightarrow> v \<noteq> Some dry_word"
  by (auto simp: parse_default_def parse_optional_def dry_word_parses)

lemmas swallowed = take_path_rest[where x=dry_word, unfolded dry_word_parses]
  take_option_rest[where x=dry_word] take_hosts_rest[where x=dry_word, OF _ _ _ dry_word_parses(1)]

lemma dry_word_differs:
  "dry_word \<notin> {''--root'', ''--profile'', ''--durability'', ''--host'', ''--scope'', ''--project'',
     ''--opencode-version'', ''--no-connect'', ''--no-instructions'', ''--no-skill'', ''--no-hooks'',
     ''--adopt'', ''--create'', ''--yes'', ''--force''}"
  by simp

lemma parse_init_dry:
  assumes "parse_init as = Inr o'" and "dry_word \<in> set as"
  shows "io_dry_run o' \<or> io_root o' = Some [Normal dry_word] \<or> io_profile o' = dry_word
    \<or> io_project o' = Some [Normal dry_word]"
proof -
  from assms(1) obtain root a1 name a2 dt a3 d hosts a4 requested a5 scope project a6 vt a7 v
    where s: "take_path_option as ''--root'' = Inr (root, a1)" "take_string_option a1 ''--profile'' = Inr (name, a2)"
      "take_string_option a2 ''--durability'' = Inr (dt, a3)" "parse_default durability_from_str ProcessLocal dt = Inr d"
      "take_hosts [] a3 = Inr (hosts, a4)" "take_string_option a4 ''--scope'' = Inr (requested, a5)"
      "parse_default scope_from_str UserScope requested = Inr scope"
      "take_path_option a5 ''--project'' = Inr (project, a6)"
      "take_string_option a6 ''--opencode-version'' = Inr (vt, a7)" "parse_optional opencode_from_str vt = Inr v"
    and o': "io_root o' = root" "io_profile o' = (case name of None \<Rightarrow> ''default'' | Some p \<Rightarrow> p)"
      "io_project o' = project"
      "io_dry_run o' \<longleftrightarrow> dry_word \<in> set a7"
    by (auto simp: parse_init_def bindR_eq_Inr Let_def case_prod_beta take_flag_found take_flag_others
        split: if_splits)
  show ?thesis
  proof (rule ccontr)
    assume no: "\<not> ?thesis"
    have "dry_word \<in> set a1" using swallowed(1)[OF s(1) assms(2)] no o' by auto
    then have "dry_word \<in> set a2" using swallowed(2)[OF s(2)] no o' by fastforce
    then have "dry_word \<in> set a3" using swallowed(2)[OF s(3)] parsed_is_not_dry(1)[OF s(4)] by auto
    then have "dry_word \<in> set a4" using swallowed(3)[OF s(5)] by auto
    then have "dry_word \<in> set a5" using swallowed(2)[OF s(6)] parsed_is_not_dry(2)[OF s(7)] by auto
    then have "dry_word \<in> set a6" using swallowed(1)[OF s(8)] no o' by auto
    then have "dry_word \<in> set a7" using swallowed(2)[OF s(9)] parsed_is_not_dry(3)[OF s(10)] by auto
    then show False using no o' by simp
  qed
qed

lemma parse_teardown_dry:
  assumes "parse_teardown as = Inr o'" and "dry_word \<in> set as"
  shows "to_dry_run o' \<or> to_project o' = Some [Normal dry_word]"
proof -
  from assms(1) obtain hosts a1 requested a2 scope project a3
    where s: "take_hosts [] as = Inr (hosts, a1)" "take_string_option a1 ''--scope'' = Inr (requested, a2)"
      "parse_default scope_from_str UserScope requested = Inr scope"
      "take_path_option a2 ''--project'' = Inr (project, a3)"
    and o': "to_project o' = project" "to_dry_run o' \<longleftrightarrow> dry_word \<in> set a3"
    by (auto simp: parse_teardown_def bindR_eq_Inr Let_def case_prod_beta take_flag_found take_flag_others
        split: if_splits)
  have "dry_word \<in> set a1" using swallowed(3)[OF s(1) assms(2)] by simp
  then have "dry_word \<in> set a2" using swallowed(2)[OF s(2)] parsed_is_not_dry(2)[OF s(3)] by auto
  then show ?thesis using swallowed(1)[OF s(4)] o' by auto
qed

lemma parse_connection_stages:
  assumes "parse_connection connecting as = Inr o'"
  obtains name a0 host requested a1 scope profile a2 project a3 vt a4 v
  where "as = name # a0" "host_from_str name = Inr host"
    "take_string_option a0 ''--scope'' = Inr (requested, a1)"
    "parse_default scope_from_str UserScope requested = Inr scope"
    "take_string_option a1 ''--profile'' = Inr (profile, a2)"
    "take_path_option a2 ''--project'' = Inr (project, a3)"
    "take_string_option a3 ''--opencode-version'' = Inr (vt, a4)" "parse_optional opencode_from_str vt = Inr v"
    "connecting \<or> profile = None" "co_project o' = project" "co_profile o' = profile"
    "co_dry_run o' \<longleftrightarrow> dry_word \<in> set a4" "co_yes o' \<longleftrightarrow> ''--yes'' \<in> set a4"
  using assms that
  by (fastforce simp: parse_connection_def bindR_eq_Inr Let_def case_prod_beta take_flag_found take_flag_others
      split: if_splits list.splits)

lemma parse_connection_dry:
  assumes "parse_connection connecting as = Inr o'" and "dry_word \<in> set as"
  shows "co_dry_run o' \<or> co_project o' = Some [Normal dry_word] \<or> connecting \<and> co_profile o' = Some dry_word"
proof (rule parse_connection_stages[OF assms(1)], goal_cases)
  case s: (1 name a0 host requested a1 scope profile a2 project a3 vt a4 v)
  have "dry_word \<in> set a0" using assms(2) s(1,2) by (auto simp: dry_word_parses)
  then have "dry_word \<in> set a1" using swallowed(2)[OF s(3)] parsed_is_not_dry(2)[OF s(4)] by auto
  then have "dry_word \<in> set a2 \<or> profile = Some dry_word" using swallowed(2)[OF s(5)] by auto
  then show ?case
    using swallowed(1)[OF s(6)] swallowed(2)[OF s(7)] parsed_is_not_dry(3)[OF s(8)] s(9-12) by auto
qed

lemma parse_connection_yes:
  assumes "parse_connection connecting as = Inr o'" and "co_yes o'"
  shows "''--yes'' \<in> set as"
proof (rule parse_connection_stages[OF assms(1)], goal_cases)
  case s: (1 name a0 host requested a1 scope profile a2 project a3 vt a4 v)
  then show ?case using assms(2) take_option_old[OF s(3)] take_option_old[OF s(5)] take_path_old[OF s(6)]
      take_option_old[OF s(7)] by auto
qed

lemma parse_instructions_stages:
  assumes "parse_instructions as = Inr o'"
  obtains action name a0 target ht a1 h project a2
  where "as = action # name # a0" "target_from_str name = Inr target"
    "take_string_option a0 ''--host'' = Inr (ht, a1)" "parse_optional host_from_str ht = Inr h"
    "take_path_option a1 ''--project'' = Inr (project, a2)"
    "no_project o' = project" "no_action o' = action"
    "no_dry_run o' \<longleftrightarrow> dry_word \<in> set a2" "no_yes o' \<longleftrightarrow> ''--yes'' \<in> set a2"
  using assms that
  by (fastforce simp: parse_instructions_def bindR_eq_Inr Let_def case_prod_beta take_flag_found take_flag_others
      split: if_splits list.splits)

lemma parse_instructions_dry:
  assumes "parse_instructions as = Inr o'" and "dry_word \<in> set as"
  shows "no_dry_run o' \<or> no_project o' = Some [Normal dry_word] \<or> no_action o' = dry_word"
proof (rule parse_instructions_stages[OF assms(1)], goal_cases)
  case s: (1 action name a0 target ht a1 h project a2)
  have "dry_word \<in> set a0 \<or> action = dry_word" using assms(2) s(1,2) by (auto simp: dry_word_parses)
  then show ?case
    using swallowed(2)[OF s(3)] parsed_is_not_dry(4)[OF s(4)] swallowed(1)[OF s(5)] s(6-8) by auto
qed

lemma parse_instructions_yes:
  assumes "parse_instructions as = Inr o'" and "no_yes o'"
  shows "''--yes'' \<in> set as"
proof (rule parse_instructions_stages[OF assms(1)], goal_cases)
  case s: (1 action name a0 target ht a1 h project a2)
  then show ?case using assms(2) take_option_old[OF s(3)] take_path_old[OF s(5)] by auto
qed

end
