(* ===== verification/Cli_Correct.thy ===== *)
theory Cli_Correct
  imports Cli_Dispatch Cli_Parsing Doctor_Correct
begin

text \<open>
  What the commands keep: the planning side of every command reads only, a dry run and a declined prompt
  stop before the first write.
\<close>

section \<open>Planning reads\<close>

text \<open>The queries a planning command gives the engine.\<close>

definition lookup_command :: "bytes list \<Rightarrow> bool" where
  "lookup_command args \<longleftrightarrow> args = [''where'', ''--root-only''] \<or> read_only_command args"

lemma runs_keep_lookups: "runs_keep R lookup_command ou \<Longrightarrow> runs_keep R read_only_command ou"
  by (simp add: runs_keep_def lookup_command_def)

context step_relation
begin

lemma keeps_followed [keeps_intro]: "keeps R (followed pr p)"
  unfolding followed_def by (auto intro!: keeps_intro split: keeps_splits)

lemma keeps_engine_new [keeps_intro]: "keeps R (engine_new pr p)"
  unfolding engine_new_def Let_def by (auto intro!: keeps_intro split: keeps_splits)

lemma keeps_first_file [keeps_intro]: "keeps R (first_file pr ps)"
  by (induction ps) (auto intro!: keeps_intro split: keeps_splits)

lemma keeps_engine_resolve [keeps_intro]: "keeps R (engine_resolve pr eg explicit)"
  unfolding engine_resolve_def find_on_path_def Let_def by (auto intro!: keeps_intro split: keeps_splits)

lemma keeps_config_resolve [keeps_intro]: "keeps R (config_resolve pr)"
  unfolding config_resolve_def platform_config_base_def by (auto intro!: keeps_intro split: keeps_splits)

lemma keeps_manager_resolve [keeps_intro]: "keeps R (manager_resolve ou explicit)"
  unfolding manager_resolve_def by (intro keeps_intro)

lemma keeps_resolve_project_directory:
  assumes "runs_keep R lookup_command ou"
  shows "keeps R (resolve_project_directory ou cx engine explicit)"
proof -
  have "keeps R (engine_resolved_project (ou_process ou) (ou_engine ou) e cwd)" for e cwd
    unfolding engine_resolved_project_def resolved_project_validate_def
    by (auto intro!: keeps_intro keeps_run_json[OF assms] simp: lookup_command_def split: keeps_splits)
  then show ?thesis
    unfolding resolve_project_directory_def Let_def
    by (auto intro!: keeps_intro split: keeps_splits manager_error.split)
qed

lemma keeps_plan_connect_version [keeps_intro]:
  "keeps R (plan_connect_version ext pr host scope profile d project version)"
  unfolding plan_connect_version_def by (intro keeps_intro keeps_plan_connect)

lemma keeps_plan_disconnect_from [keeps_intro]: "keeps R (plan_disconnect ext pr host scope project)"
  unfolding plan_disconnect_def by (intro keeps_intro keeps_plan_disconnect)

lemma keeps_manager_plan_connect:
  assumes "runs_keep R lookup_command ou"
  shows "keeps R (manager_plan_connect ou cx m host scope profile project version)"
  unfolding manager_plan_connect_def config_descriptor_def selected_profile_def
  by (auto intro!: keeps_intro keeps_config_load keeps_reads[OF runs_keep_lookups[OF assms]] split: keeps_splits)

lemma keeps_plan_instructions [keeps_intro]:
  "keeps R (plan_install ext pr t h project force)" "keeps R (plan_remove ext pr t h project force)"
  unfolding plan_install_def plan_remove_def by (intro keeps_intro keeps_plan_install keeps_plan_remove)+

lemma keeps_settings_path [keeps_intro]: "keeps R (settings_path pr s project)"
  unfolding settings_path_def by (auto intro!: keeps_intro split: scope.split)

lemma keeps_hook_plans [keeps_intro]:
  "keeps R (hook_plan_install ext pr s exe profile project)" "keeps R (hook_plan_remove_at ext s target force)"
  "keeps R (hook_plan_remove ext pr s project force)"
  unfolding hook_plan_install_def hook_plan_install_at_def hook_plan_remove_def hook_plan_remove_at_def
    hook_remove_owned_def read_settings_files_def
  by (auto intro!: keeps_intro split: keeps_splits)

lemma keeps_host_steps [keeps_intro]: "keeps R (host_steps ou cx o' d project h)"
  unfolding host_steps_def Let_def by (auto intro!: keeps_intro split: keeps_splits)

lemma keeps_inspect [keeps_intro]: "keeps R (inspect_owned_connection ext pr h s project)"
  unfolding inspect_owned_connection_def by (auto intro!: keeps_intro split: change_action.split)

lemma keeps_carryover [keeps_intro]: "keeps R (project_scope_carryover ou cx scope hosts project)"
proof -
  have "keeps R (carryover_of ou cx project h)" for h
    unfolding carryover_of_def stale_connection_def stale_hook_def canonical_paths_def
    by (auto intro!: keeps_intro split: keeps_splits)
  then have "keeps R (carryover_hosts ou cx project hosts)"
    by (induction hosts) (auto intro!: keeps_intro)
  then show ?thesis unfolding project_scope_carryover_def by (auto intro!: keeps_intro)
qed

lemma keeps_backups [keeps_intro]:
  "keeps R (connection_backup_after plan1 dry)" "keeps R (backup_after plan2 dry)"
  "keeps R (hook_backup_after plan3 dry)"
  unfolding connection_backup_after_def backup_after_def hook_backup_after_def
  by (auto intro!: keeps_intro)

lemma keeps_summaries [keeps_intro]:
  "keeps R (connection_summary plan1 dry)" "keeps R (instruction_summary sha plan2 dry)"
  "keeps R (hook_summary plan3 dry)"
  unfolding connection_summary_def instruction_summary_def hook_summary_def by (intro keeps_intro)+

lemma keeps_confirm [keeps_intro]: "keeps R (confirm cx)"
  unfolding confirm_def by (auto intro!: keeps_intro keeps_syscall simp: R_refl)

lemma keeps_any_receipt [keeps_intro]: "keeps R (any_receipt project ts)"
  by (induction project ts rule: any_receipt.induct) (auto intro!: keeps_intro split: keeps_splits)

lemma keeps_project_carries [keeps_intro]: "keeps R (project_carries_instructions project)"
  unfolding project_carries_instructions_def by (intro keeps_intro)

lemma keeps_others_kept: "(\<And>q. keeps R (keep q)) \<Longrightarrow> keeps R (others_kept project keep qs)"
  by (induction qs) (auto intro!: keeps_intro)

lemma keeps_dependants [keeps_intro]: "keeps R (dependants ou directory store)"
  unfolding dependants_def other_projects_def
  by (auto intro!: keeps_intro keeps_config_load keeps_others_kept split: keeps_splits)

lemma keeps_teardown_plans [keeps_intro]: "keeps R (teardown_plans ou cx o' project retain h)"
  unfolding teardown_plans_def map_step_def Let_def by (auto intro!: keeps_intro split: keeps_splits)

text \<open>A command keeps what its applications keep.\<close>

lemma keeps_carry_out:
  assumes "\<not> dry \<Longrightarrow> keeps R application" and "\<And>d. keeps R (summary d)"
  shows "keeps R (carry_out cx dry yes noop application summary)"
  using assms unfolding carry_out_def by (auto intro!: keeps_intro)

lemma keeps_apply_step_dry: "keeps R (apply_step cx True yes step)"
  by (cases step) (auto intro!: keeps_intro keeps_carry_out)

lemma keeps_apply_steps: "(\<And>s. keeps R (apply_step cx dry yes s)) \<Longrightarrow> keeps R (apply_steps cx dry yes h ss)"
  by (induction ss) (auto intro!: keeps_intro split: keeps_splits)

lemma keeps_wire_hosts:
  "(\<And>s. keeps R (apply_step cx (io_dry_run o') (io_yes o') s)) \<Longrightarrow> keeps R (wire_hosts ou cx o' d project hs)"
  by (induction hs) (auto intro!: keeps_intro keeps_apply_steps split: keeps_splits)

lemma keeps_apply_removals:
  assumes "\<And>s. keeps R (apply_step cx (to_dry_run o') (to_yes o') s)"
  shows "keeps R (apply_removals cx o' h plans)"
  using assms by (induction plans) (auto simp: apply_removal_def intro!: keeps_intro split: keeps_splits)

lemma keeps_unwire_hosts:
  assumes "\<And>s. keeps R (apply_step cx (to_dry_run o') (to_yes o') s)"
  shows "keeps R (unwire_hosts ou cx o' project retain hs)"
  using assms by (induction hs) (auto intro!: keeps_intro keeps_apply_removals)

end

lemma no_panic_value: "no_panic r w = (Inr q, w') \<Longrightarrow> q = r"
  by (cases r rule: no_panic.cases) auto

lemma yields_outcome: "yields P a \<Longrightarrow> yields (\<lambda>r. \<forall>x. r = Inr x \<longrightarrow> P x) (outcome a)"
  unfolding outcome_def yields_def by (auto simp: bindA_eq_Inr attempt_eq dest!: no_panic_value)

section \<open>A dry run\<close>

lemma relative_project_refused:
  "\<not> is_absolute p \<Longrightarrow> resolve_project_directory ou cx engine (Some p) w \<noteq> (Inr pd, w')"
  unfolding resolve_project_directory_def project_root_def
  by (auto simp: Let_def bindA_eq_Inr canonical_directory_def split: sum.splits if_splits)

lemma init_refused:
  assumes "validate_profile_name profile \<noteq> Inr () \<or> root = Some p \<and> \<not> is_absolute p"
  shows "\<exists>e. init ou m profile root d policy project dry w = (Inl e, w)"
  using assms profile_name_cases[of profile] by (auto simp: init_def bindA_def lift_def throw_def)

lemma config_descriptor_refused:
  assumes "validate_profile_name profile \<noteq> Inr ()"
  shows "\<exists>e. manager_plan_connect ou cx m host scope (Some profile) project version w = (Inl e, w)"
  using assms profile_name_cases[of profile]
  by (auto simp: manager_plan_connect_def config_descriptor_def selected_profile_def bindA_def lift_def)

lemma keeps_refused: "(\<And>w. \<exists>e. m w = (Inl e, w)) \<Longrightarrow> keeps files_same (bindA m k)"
  unfolding keeps_def by (metis bindA_Inl nothing.R_refl snd_conv)

lemma keeps_resolving:
  assumes "runs_keep files_same lookup_command ou"
    and "\<And>pd. explicit \<noteq> Some [Normal dry_word] \<Longrightarrow> keeps files_same (k pd)"
  shows "keeps files_same (bindA (resolve_project_directory ou cx engine explicit) k)"
  by (rule step_relation.keeps_bind_result[OF nothing.step_relation_axioms
        nothing.keeps_resolve_project_directory[OF assms(1)]])
    (use relative_project_refused assms(2) in fastforce)

lemmas keeps_parsed = step_relation.keeps_bind_lift[OF nothing.step_relation_axioms]

lemma keeps_wire_dry: "io_dry_run o' \<Longrightarrow> keeps files_same (wire ou cx o' d project)"
  unfolding wire_def
  by (auto intro!: keeps_intro nothing.keeps_wire_hosts nothing.keeps_apply_step_dry split: keeps_splits)

lemma dry_init:
  assumes "runs_keep files_same lookup_command ou" and "dry_word \<in> set as"
  shows "keeps files_same (run_init ou cx m engine as)"
  unfolding run_init_def Let_def
proof (rule keeps_parsed, rule keeps_resolving[OF assms(1)], goal_cases)
  case (1 o' pd)
  show ?case
  proof (cases "io_dry_run o'")
    case True
    then show ?thesis
      by (auto intro!: keeps_intro dry_run_keeps_files[OF runs_keep_lookups[OF assms(1)]] keeps_wire_dry
          simp: register_wired_def split: prod.split)
  next
    case False
    with parse_init_dry[OF 1(1) assms(2)] 1(2)
    have "validate_profile_name (io_profile o') \<noteq> Inr () \<or> io_root o' = Some [Normal dry_word] \<and> \<not> is_absolute [Normal dry_word]"
      by (auto simp: dry_word_parses)
    then show ?thesis by (intro keeps_refused init_refused)
  qed
qed

lemma dry_teardown:
  assumes "runs_keep files_same lookup_command ou" and "dry_word \<in> set as"
  shows "keeps files_same (run_teardown ou cx engine as)"
  unfolding run_teardown_def Let_def
proof (rule keeps_parsed, rule keeps_resolving[OF assms(1)], goal_cases)
  case (1 o' pd)
  with parse_teardown_dry[OF 1(1) assms(2)] have "to_dry_run o'" by simp
  then show ?case
    by (auto intro!: keeps_intro nothing.keeps_unwire_hosts nothing.keeps_apply_step_dry simp: deregister_def)
qed

lemma dry_connection:
  assumes "runs_keep files_same lookup_command ou" and "dry_word \<in> set as"
  shows "keeps files_same (run_connection ou cx m engine connecting as)"
  unfolding run_connection_def Let_def
proof (rule keeps_parsed, rule keeps_resolving[OF assms(1)], goal_cases)
  case (1 o' pd)
  have dry: "co_dry_run o' \<or> connecting \<and> co_profile o' = Some dry_word"
    using parse_connection_dry[OF 1(1) assms(2)] 1(2) by simp
  show ?case
  proof (cases "co_dry_run o'")
    case True
    then show ?thesis
      by (auto intro!: keeps_intro nothing.keeps_carry_out nothing.keeps_manager_plan_connect[OF assms(1)])
  next
    case False
    with dry show ?thesis
      by (simp, intro keeps_refused config_descriptor_refused) (simp add: dry_word_parses)
  qed
qed

lemma dry_instructions:
  assumes "runs_keep files_same lookup_command ou" and "dry_word \<in> set as"
  shows "keeps files_same (run_instructions ou cx engine as)"
  unfolding run_instructions_def Let_def
proof (rule keeps_parsed, rule keeps_resolving[OF assms(1)], goal_cases)
  case (1 o' pd)
  have "no_dry_run o' \<or> no_action o' = dry_word"
    using parse_instructions_dry[OF 1(1) assms(2)] 1(2) by simp
  then show ?case
  proof (cases "no_dry_run o'")
    case False
    with \<open>no_dry_run o' \<or> _\<close> show ?thesis by (auto intro!: keeps_refused)
  qed (auto intro!: keeps_intro nothing.keeps_carry_out)
qed

section \<open>A declined prompt\<close>

definition never_accepts :: "cli_ext \<Rightarrow> bool" where
  "never_accepts cx \<longleftrightarrow> (\<forall>n a. cx_answer cx n = Inr a \<longrightarrow> \<not> accepted a)"

lemma declined: "never_accepts cx \<Longrightarrow> confirm cx w \<noteq> (Inr u, w')"
  by (auto simp: confirm_def never_accepts_def bindA_eq_Inr map_err_eq_Inr syscall_Inr split: if_splits)

lemma keeps_declined:
  assumes "never_accepts cx" and "noop \<Longrightarrow> keeps files_same application" and "\<And>d. keeps files_same (summary d)"
  shows "keeps files_same (carry_out cx dry False noop application summary)"
proof -
  have "keeps files_same (bindA (confirm cx) k)" for k :: "unit \<Rightarrow> (manager_error, json) act"
    by (rule step_relation.keeps_bind_result[OF nothing.step_relation_axioms nothing.keeps_confirm])
      (use declined[OF assms(1)] in blast)
  then show ?thesis
    using assms(2,3) unfolding carry_out_def by (auto intro!: keeps_intro)
qed

lemma noop_applies_nothing:
  "connection_is_noop p1 \<Longrightarrow> connection_apply hx p1 = ret ()" "is_noop p2 \<Longrightarrow> apply_plan ix p2 = ret ()"
  "hook_is_noop p3 \<Longrightarrow> hook_apply kx p3 = ret ()"
  by (simp_all add: connection_apply_def apply_plan_def hook_apply_def)

lemma declined_connection:
  assumes "runs_keep files_same lookup_command ou" and "never_accepts cx" and "''--yes'' \<notin> set as"
  shows "keeps files_same (run_connection ou cx m engine connecting as)"
  unfolding run_connection_def Let_def
proof (rule keeps_parsed, rule nothing.keeps_bindA[OF nothing.keeps_resolve_project_directory[OF assms(1)]], goal_cases)
  case (1 o' pd)
  then have "\<not> co_yes o'" using parse_connection_yes assms(3) by blast
  then show ?case
    by (auto intro!: keeps_intro keeps_declined[OF assms(2)] nothing.keeps_manager_plan_connect[OF assms(1)]
        simp: noop_applies_nothing)
qed

lemma declined_instructions:
  assumes "runs_keep files_same lookup_command ou" and "never_accepts cx" and "''--yes'' \<notin> set as"
  shows "keeps files_same (run_instructions ou cx engine as)"
  unfolding run_instructions_def Let_def
proof (rule keeps_parsed, rule nothing.keeps_bindA[OF nothing.keeps_resolve_project_directory[OF assms(1)]], goal_cases)
  case (1 o' pd)
  then have "\<not> no_yes o'" using parse_instructions_yes assms(3) by blast
  then show ?case
    by (auto intro!: keeps_intro keeps_declined[OF assms(2)] simp: noop_applies_nothing)
qed

end
