(* ===== verification/Session_Start_Correct.thy ===== *)
theory Session_Start_Correct
  imports Cli_Correct
begin

text \<open>
  What the session-start hook promises: it answers whatever goes wrong, it starts nothing once its time is
  spent, what it says of the tools comes from running the registered command, and its line is bounded.
\<close>

section \<open>It always answers\<close>

lemma never_fails_now [no_fail]: "never_fails (now sx)"
  by (simp add: never_fails_def now_def)

lemma never_fails_clock [no_fail]:
  "never_fails (slice sx dl stage)" "never_fails (elapsed_since sx t)" "never_fails (deadline_new sx budget)"
  unfolding slice_def elapsed_since_def deadline_new_def by (intro no_fail)+

lemma never_fails_find_registration [no_fail]: "never_fails (find_registration sha jx pr cwd)"
proof -
  have "never_fails (registration_in sha jx pr h p s)" for h p s
    unfolding registration_in_def by (auto intro!: no_fail split: sum.split)
  then show ?thesis
    unfolding find_registration_def by (auto intro!: no_fail split: sum.split option.split)
qed

lemma never_fails_stages [no_fail]:
  "never_fails (probe_mcp sx pr registration timeout)" "never_fails (launch_stage sx pr dl engine profile)"
  "never_fails (resolve_project sx pr engine cwd timeout)"
  unfolding probe_mcp_def launch_stage_def resolve_project_def
  by (auto intro!: no_fail split: option.split sum.split)

lemma never_fails_try_forms [no_fail]: "never_fails (try_forms sx pr engine profile cwd dl payload forms last_error)"
  by (induction forms arbitrary: last_error) (auto intro!: no_fail split: option.split sum.split)

lemma never_fails_retrieve_scopes [no_fail]:
  "never_fails (retrieve_scopes sx pr engine profile cwd dl label started scopes last_error)"
  by (induction scopes arbitrary: last_error) (auto intro!: no_fail split: option.split sum.split prod.split)

lemma never_fails_retrieve_memories [no_fail]: "never_fails (retrieve_memories sx pr engine profile label cwd dl)"
  unfolding retrieve_memories_def
  by (auto intro!: no_fail simp del: retrieve_scopes.simps split: option.split)

lemma never_fails_session_findings [no_fail]: "never_fails (session_findings sx pr engine so dl)"
  unfolding session_findings_def by (auto intro!: no_fail split: sum.split)

lemma never_fails_session_start [no_fail]: "never_fails (session_start_output sx pr engine so)"
  unfolding session_start_output_def Let_def by (intro no_fail)

section \<open>A spent budget starts nothing\<close>

definition spent :: "session_ext \<Rightarrow> deadline \<Rightarrow> bool" where
  "spent sx dl \<longleftrightarrow> (\<forall>n. dl_end dl \<le> sx_clock sx n)"

lemma slice_spent: "spent sx dl \<Longrightarrow> slice sx dl stage = bindA (now sx) (\<lambda>_. ret None)"
  by (auto simp: spent_def slice_def now_def bindA_def fun_eq_iff)

lemma slice_within: "slice sx dl stage w = (Inr (Some t), w') \<Longrightarrow>
    t \<le> stage \<and> sx_clock sx (ticks w) + t \<le> dl_end dl"
  by (auto simp: slice_def now_def bindA_def ret_def split: if_splits)

lemma child_irrelevant [simp]:
  "sx_clock (sx\<lparr>sx_child := f\<rparr>) = sx_clock sx" "sx_json (sx\<lparr>sx_child := f\<rparr>) = sx_json sx"
  "sx_sha (sx\<lparr>sx_child := f\<rparr>) = sx_sha sx" "sx_message (sx\<lparr>sx_child := f\<rparr>) = sx_message sx"
  "sx_to_string (sx\<lparr>sx_child := f\<rparr>) = sx_to_string sx"
  "now (sx\<lparr>sx_child := f\<rparr>) = now sx" "slice (sx\<lparr>sx_child := f\<rparr>) = slice sx"
  "elapsed_since (sx\<lparr>sx_child := f\<rparr>) = elapsed_since sx" "spent (sx\<lparr>sx_child := f\<rparr>) dl = spent sx dl"
  by (auto simp: now_def slice_def elapsed_since_def spent_def bindA_def fun_eq_iff)

lemma bind_now_None [simp]: "bindA (bindA (now sx) (\<lambda>_. ret None)) k = bindA (now sx) (\<lambda>_. k None)"
  by (simp add: now_def bindA_def ret_def fun_eq_iff)

lemma retrieve_spent:
  assumes "spent sx dl"
  shows "retrieve_memories (sx\<lparr>sx_child := f\<rparr>) pr engine profile label cwd dl = retrieve_memories sx pr engine profile label cwd dl"
proof -
  have "try_forms (sx\<lparr>sx_child := f\<rparr>) pr engine profile cwd dl payload forms e = try_forms sx pr engine profile cwd dl payload forms e"
    for payload forms and e
    using assms by (cases forms) (simp_all add: slice_spent)
  note forms = this
  have "retrieve_scopes (sx\<lparr>sx_child := f\<rparr>) pr engine profile cwd dl l t scopes e
      = retrieve_scopes sx pr engine profile cwd dl l t scopes e" for l t scopes and e
    by (induction scopes arbitrary: e) (simp_all add: forms cong del: sum.case_cong_weak option.case_cong_weak prod.case_cong_weak if_weak_cong)
  note scopes = this
  show ?thesis by (simp add: retrieve_memories_def scopes del: retrieve_scopes.simps split: option.split)
qed

lemma findings_spent:
  assumes "spent sx dl"
  shows "session_findings (sx\<lparr>sx_child := f\<rparr>) pr engine so dl = session_findings sx pr engine so dl"
proof -
  have probe: "probe_mcp (sx\<lparr>sx_child := f\<rparr>) pr registration None = probe_mcp sx pr registration None" for registration
    by (simp add: probe_mcp_def split: option.split)
  have launch: "launch_stage (sx\<lparr>sx_child := f\<rparr>) pr dl e p = launch_stage sx pr dl e p" for e p
    using assms by (simp add: launch_stage_def slice_spent)
  have project: "resolve_project (sx\<lparr>sx_child := f\<rparr>) pr e cwd None = resolve_project sx pr e cwd None" for e cwd
    by (simp add: resolve_project_def)
  show ?thesis
    using assms by (simp add: session_findings_def slice_spent retrieve_spent probe launch project
        cong del: sum.case_cong_weak prod.case_cong_weak if_weak_cong)
qed

section \<open>What it says of the tools\<close>

text \<open>The answer of a run of the command of a registration, with the probe's own conversation as its input.\<close>

definition probed :: "session_ext \<Rightarrow> process \<Rightarrow> registration \<Rightarrow> bounded_output \<Rightarrow> bool" where
  "probed sx pr r out \<longleftrightarrow>
     (\<exists>x t w0 w1 w2 w3. t \<le> probe_timeout \<and>
        engine_new pr (parse_path (rg_command r)) w0 = (Inr x, w1) \<and>
        run_bounded sx pr x (rg_args r) None (Some probe_payload) t w2 = (Inr out, w3))"

abbreviation answer_of :: "session_ext \<Rightarrow> bounded_output \<Rightarrow> probe" where
  "answer_of sx out \<equiv> read_probe_answer (sx_json sx) (bo_stdout out) (bo_stderr out) (bo_success out) (bo_elapsed out)"

lemma bind_attempt: "bindA (attempt a) k w = (case a w of (r, w') \<Rightarrow> k r w')"
  by (simp add: bindA_def attempt_def split: prod.split)

lemma probe_mcp_yields:
  assumes "\<forall>t. timeout = Some t \<longrightarrow> t \<le> probe_timeout"
  shows "yields (\<lambda>p. publishes_both p \<longrightarrow> (\<exists>r out. registration = Some r \<and> probed sx pr r out \<and> p = answer_of sx out))
    (probe_mcp sx pr registration timeout)"
proof (cases "registration = None \<or> timeout = None")
  case True
  then show ?thesis
    by (auto simp: probe_mcp_def publishes_both_def hook_public_tools_def intro!: yields_ret split: option.split)
next
  case False
  then obtain r t where rt: "registration = Some r" "timeout = Some t" by auto
  show ?thesis
    unfolding yields_def
  proof (intro allI impI)
    fix w p w' assume run: "probe_mcp sx pr registration timeout w = (Inr p, w')" and both: "publishes_both p"
    obtain executable w1 where 1: "engine_new pr (parse_path (rg_command r)) w = (executable, w1)" by fastforce
    from run both 1 obtain x where x: "executable = Inr x"
      by (cases executable) (auto simp: rt probe_mcp_def bind_attempt ret_def publishes_both_def hook_public_tools_def)
    obtain out w2 where 3: "run_bounded sx pr x (rg_args r) None (Some probe_payload) t w1 = (out, w2)" by fastforce
    from run both 1 3 x obtain o' where "out = Inr o'" "p = answer_of sx o'"
      by (cases out) (auto simp: rt probe_mcp_def bind_attempt ret_def publishes_both_def hook_public_tools_def)
    moreover have "probed sx pr r o'"
      using assms rt 1 3 x \<open>out = Inr o'\<close> unfolding probed_def by blast
    ultimately show "\<exists>r out. registration = Some r \<and> probed sx pr r out \<and> p = answer_of sx out"
      using rt by blast
  qed
qed

definition honest :: "session_ext \<Rightarrow> process \<Rightarrow> findings \<Rightarrow> bool" where
  "honest sx pr fd \<longleftrightarrow> (tools_visible (fd_registration fd) (fd_probe fd) \<longrightarrow>
     (\<exists>r out. fd_registration fd = Some r \<and> probed sx pr r out \<and> fd_probe fd = answer_of sx out))"

lemma findings_honest: "yields (honest sx pr) (session_findings sx pr engine so dl)"
proof -
  have slice: "yields (\<lambda>timeout. \<forall>t. timeout = Some t \<longrightarrow> t \<le> probe_timeout) (slice sx dl probe_timeout)"
    unfolding slice_def by (intro yields_after yields_ret) (simp split: if_splits)
  show ?thesis
    unfolding session_findings_def
    by (rule yields_after, rule yields_bind[OF slice], rule yields_bind[OF probe_mcp_yields], assumption,
        (rule yields_after)+, rule yields_ret) (auto simp: honest_def tools_visible_def)
qed

section \<open>The line\<close>

lemma length_clip: "length (clip t b) \<le> b"
  using back_to_boundary_le[of t "min (b - length ellipsis) (length t)"]
  by (auto simp: clip_def ellipsis_def Let_def)

text \<open>
  How the JSON printer writes a string: quotation mark, backslash and the five short control escapes in two
  bytes, the other control characters in six, the rest as it is.
\<close>

fun escape_width :: "char \<Rightarrow> nat" where
  "escape_width c =
     (if c = CHR 0x22 \<or> c = CHR 0x5C \<or> of_char c \<in> {8, 9, 10, 12, 13 :: nat} then 2
      else if (of_char c :: nat) < 32 then 6 else 1)"

definition escaped_length :: "bytes \<Rightarrow> nat" where
  "escaped_length s = sum_list (map escape_width s)"

definition escapes_strings :: "(json \<Rightarrow> bytes) \<Rightarrow> bool" where
  "escapes_strings to_string \<longleftrightarrow> (\<forall>s. length (wrap_hook_line to_string s) = 78 + escaped_length s)"

text \<open>The marks that are doubled.\<close>

definition doubled :: "bytes \<Rightarrow> nat" where
  "doubled s = length (filter (\<lambda>c. c = CHR 0x22 \<or> c = CHR 0x5C) s)"

definition printable :: "bytes \<Rightarrow> bool" where
  "printable s \<longleftrightarrow> list_all (\<lambda>c. 32 \<le> (of_char c :: nat)) s"

lemma escaped_length_printable: "printable s \<Longrightarrow> escaped_length s = length s + doubled s"
  by (induction s) (auto simp: escaped_length_def doubled_def printable_def)

lemma doubled_le: "doubled s \<le> length s"
  by (simp add: doubled_def)

lemma doubled_append [simp]: "doubled (s @ t) = doubled s + doubled t"
  by (simp add: doubled_def)

lemma doubled_take: "doubled (take n s) \<le> doubled s"
  by (metis append_take_drop_id doubled_append le_add1)

lemma clip_parts: "length ellipsis \<le> b \<Longrightarrow> \<exists>k. clip s b = take k s \<or> clip s b = take k s @ ellipsis"
  by (auto simp: clip_def Let_def intro: exI[of _ "length s"])

lemma printable_clip:
  assumes "printable s" and "3 \<le> b"
  shows "printable (clip s b)" "doubled (clip s b) \<le> doubled s"
proof -
  have "length ellipsis \<le> b" using assms(2) by (simp add: ellipsis_def)
  from clip_parts[OF this, of s] obtain k where k: "clip s b = take k s \<or> clip s b = take k s @ ellipsis" by blast
  have "printable (take k s)" using assms(1) by (auto simp: printable_def list_all_iff dest: in_set_takeD)
  with k show "printable (clip s b)" by (auto simp: printable_def ellipsis_def)
  show "doubled (clip s b) \<le> doubled s"
    using k doubled_take[of k s] by (auto simp: doubled_def ellipsis_def)
qed

lemma encode_hook_line_length:
  assumes "escapes_strings to_string" and "printable (to_string facts)"
  shows "length (encode_hook_line to_string context facts) \<le>
    max max_hook_output_bytes (78 + max_context_bytes + min max_context_bytes (doubled (to_string facts)))"
proof -
  let ?c = "clip (to_string facts) max_context_bytes"
  have "printable ?c" "doubled ?c \<le> doubled (to_string facts)"
    using printable_clip[OF assms(2), of max_context_bytes] by (simp_all add: max_context_bytes_def)
  moreover have "doubled ?c \<le> max_context_bytes" using doubled_le length_clip order_trans by blast
  ultimately have "length (wrap_hook_line to_string ?c) \<le>
      78 + max_context_bytes + min max_context_bytes (doubled (to_string facts))"
    using assms(1) escaped_length_printable length_clip[of "to_string facts" max_context_bytes]
    by (simp add: escapes_strings_def)
  then show ?thesis by (auto simp: encode_hook_line_def Let_def)
qed

section \<open>It writes nothing of its own\<close>

context step_relation
begin

lemma keeps_now [keeps_intro]: "keeps R (now sx)"
  by (simp add: keeps_def now_def R_tick)

lemma keeps_clock [keeps_intro]:
  "keeps R (slice sx dl stage)" "keeps R (elapsed_since sx t)" "keeps R (deadline_new sx budget)"
  unfolding slice_def elapsed_since_def deadline_new_def by (intro keeps_intro)+

lemma keeps_find_registration [keeps_intro]: "keeps R (find_registration sha jx pr cwd)"
proof -
  have "keeps R (registration_in sha jx pr h p s)" for h p s
    unfolding registration_in_def by (auto intro!: keeps_intro split: sum.split)
  then show ?thesis
    unfolding find_registration_def by (auto intro!: keeps_intro split: sum.split option.split)
qed

lemma keeps_session_start:
  assumes "\<And>p env cwd args fed. keeps R (sx_child sx p env cwd args fed)"
  shows "keeps R (session_start_output sx pr engine so)"
proof -
  have run: "keeps R (run_bounded sx pr p args cwd payload t)" for p args cwd payload t
    unfolding run_bounded_def Let_def by (auto intro!: keeps_intro assms split: option.split)
  have "keeps R (probe_mcp sx pr registration timeout)" "keeps R (launch_stage sx pr dl e profile)"
    "keeps R (resolve_project sx pr e cwd timeout)" for registration timeout dl e profile cwd
    unfolding probe_mcp_def launch_stage_def resolve_project_def
    by (auto intro!: keeps_intro run split: option.split sum.split)
  moreover have forms: "keeps R (try_forms sx pr e profile cwd dl payload forms last_error)" for e profile cwd dl payload forms last_error
    by (induction forms arbitrary: last_error) (auto intro!: keeps_intro run split: option.split sum.split)
  have "keeps R (retrieve_scopes sx pr e profile cwd dl label t scopes last_error)" for e profile cwd dl label t scopes last_error
    by (induction scopes arbitrary: last_error) (auto intro!: keeps_intro forms split: option.split sum.split prod.split)
  then have "keeps R (retrieve_memories sx pr e profile label cwd dl)" for e profile label cwd dl
    unfolding retrieve_memories_def
    by (auto intro!: keeps_intro simp del: retrieve_scopes.simps split: option.split)
  ultimately have "keeps R (session_findings sx pr engine so dl)" for dl
    unfolding session_findings_def by (auto intro!: keeps_intro split: sum.split)
  then show ?thesis
    unfolding session_start_output_def Let_def by (auto intro!: keeps_intro)
qed

end

end
