(* ===== verification/Cli_Safety.thy ===== *)
theory Cli_Safety
  imports Plan_Apply_Safety Instructions_Plans Manager_Config Session_Start_Correct
begin

text \<open>
  Which files an application and a save of the configuration can touch, told by name alone: the target,
  and beside it whatever is called like it with something appended (lock, temporary file, receipt,
  backup and their own temporary files), whatever calls fail.
\<close>

definition family :: "bytes set \<Rightarrow> path set" where
  "family N = {p. \<exists>n x. n \<in> N \<and> file_name p = Some (n @ x)}"

lemma family_iff: "p \<in> family N \<longleftrightarrow> (\<exists>s. file_name p = Some s \<and> (\<exists>n \<in> N. prefix n s))"
  by (auto simp: family_def prefix_def)

lemma family_mono: "N \<subseteq> M \<Longrightarrow> family N \<subseteq> family M"
  by (auto simp: family_def)

lemma family_sibling: "p \<in> family N \<Longrightarrow> sibling_path p s = Inr q \<Longrightarrow> q \<in> family N"
  by (fastforce simp: family_def elim!: sibling_path_Inr)

lemma family_temps: "p \<in> family N \<Longrightarrow> insert p (temp_siblings p) \<subseteq> family N"
  by (auto simp: temp_siblings_def intro: family_sibling)

lemmas written_family = atomic_write_outside[OF family_temps] atomic_remove_frame(1) lock_release_frame(1)

lemma lock_acquire_family:
  assumes "t \<in> family N"
  shows "keeps (untouched (family N)) (lock_acquire t)"
proof -
  obtain d n where t: "t = d @ [Normal n]" using assms by (auto simp: family_def elim!: file_name_SomeE)
  then show ?thesis using family_sibling[OF assms] by (intro lock_acquire_outside[of _ "d @ [Normal (n @ ''.kaleidoscope-lock'')]"]) simp_all
qed

text \<open>Any body run under the lock of a target.\<close>

lemma under_lock:
  assumes "t \<in> family N" and "\<And>l. l \<in> family N \<Longrightarrow> keeps (untouched (family N)) (k l)"
  shows "keeps (untouched (family N)) (bindA (lock_acquire t) k)"
  by (rule outside.keeps_bind_result[OF lock_acquire_family[OF assms(1)]])
    (use assms family_sibling lock_acquire_Inr(1) in blast)

definition change_within :: "bytes set \<Rightarrow> change \<Rightarrow> bool" where
  "change_within N ch \<longleftrightarrow> ch_target ch \<in> family N \<and> ch_receipt_path ch \<in> family N \<and> ch_backup_path ch \<in> family N"

lemma apply_body_family:
  assumes "change_within N ch"
  shows "keeps (untouched (family N)) (apply_body sha ch)"
proof -
  note within = assms[unfolded change_within_def]
  have "keeps (untouched (family N)) (write_bounded_backup (ch_target ch) (ch_original ch))"
    unfolding write_bounded_backup_def using within family_sibling
    by (auto intro!: keeps_intro outside.keeps_bind_lift written_family split: option.split)
  then have "keeps (untouched (family N)) (back_up ch)"
    unfolding back_up_def by (auto intro!: keeps_intro)
  moreover have restore: "keeps (untouched (family N)) (restore_snapshot (ch_target ch) s)" for s
    unfolding restore_snapshot_def using within by (auto intro!: written_family split: option.split)
  moreover have "keeps (untouched (family N)) (write_target (ch_target ch) (ch_write ch) (ch_original ch))"
    "keeps (untouched (family N)) (write_receipt ch)" "keeps (untouched (family N)) (roll_back sha ch)"
    unfolding write_target_def write_receipt_def roll_back_def using within restore
    by (auto intro!: keeps_intro written_family split: target_write.split option.split)
  ultimately show ?thesis
    unfolding apply_body_def using within
    by (auto intro!: keeps_intro written_family split: keeps_splits)
qed

lemma apply_change_family:
  assumes "change_within N ch"
  shows "keeps (untouched (family N)) (apply_change sha ch)"
  unfolding apply_change_def using assms
  by (intro under_lock) (auto simp: change_within_def intro!: keeps_intro apply_body_family written_family)

section \<open>The configuration\<close>

lemma config_path_family: "config_path store \<in> family {''manager.json''}"
  by (simp add: config_path_def family_def join_def file_name_def)

lemma config_save_family: "keeps (untouched (family {''manager.json''})) (config_save ext store c)"
  unfolding config_save_def Let_def save_body_def
  using config_path_family
  by (auto intro!: keeps_intro under_lock written_family)

section \<open>Instruction files\<close>

definition instruction_names :: "bytes set" where
  "instruction_names = {''AGENTS.md'', ''CLAUDE.md'', ''kaleidoscope.mdc'', ''SKILL.md''}"

lemma instruction_path_family: "instruction_path t h project = Inr p \<Longrightarrow> p \<in> family instruction_names"
  by (auto simp: instruction_path_def family_iff instruction_names_def join_def file_name_def skill_suffix_def
      split: if_splits instruction_target.splits option.splits host.splits)

lemma plan_remove_within:
  assumes "plan_remove_at ext t h project force w = (Inr q, w')"
  shows "change_within instruction_names (instr_change ext q)"
proof (rule plan_remove_stages[OF assms])
  fix target rp bp w1 ro tx cur
  assume read: "read_instruction_files ext t h project w =
       (Inr (target, rp, bp, snapshot_of (ix_sha ext) (content w target), snapshot_of (ix_sha ext) (content w rp)), w1)"
    and result: "case ro of None \<Rightarrow> cur = None \<and> q = noop_plan t h AlreadyRemoved target rp bp
          (snapshot_of (ix_sha ext) (content w target)) (snapshot_of (ix_sha ext) (content w rp))
      | Some r \<Rightarrow> remove_with_receipt ext t bp
          (removal t h target rp bp (snapshot_of (ix_sha ext) (content w target))
             (snapshot_of (ix_sha ext) (content w rp)) r)
          r (snapshot_of (ix_sha ext) (content w target)) tx cur force w1 = (Inr q, w')"
  have "ip_target q = target \<and> ip_receipt_path q = rp \<and> ip_backup_path q = bp"
    using result
    by (auto simp: noop_plan_def remove_with_receipt_def removal_def Let_def bindA_eq_Inr
        split: option.splits if_splits prod.splits)
  with read_instruction_files_Inr[OF read] have p: "instruction_path t h project = Inr (ip_target q)"
    "sibling_path (ip_target q) instr_receipt_suffix = Inr (ip_receipt_path q)"
    "sibling_path (ip_target q) backup_suffix = Inr (ip_backup_path q)" by simp_all
  then show ?thesis
    using instruction_path_family[OF p(1)] family_sibling[OF _ p(2)] family_sibling[OF _ p(3)]
    by (simp add: change_within_def instr_change_def)
qed

text \<open>
  Which files a command can change, whatever its arguments and whatever calls fail: the configuration
  of a host, the settings of Claude Code, the instruction files, the manager's own configuration, each
  with what is written beside it, and the file the pre-flight check creates and removes.
\<close>

section \<open>The files of a plan\<close>

definition host_names :: "bytes set" where
  "host_names = {''config.toml'', ''.claude.json'', ''.mcp.json'', ''mcp.json'', ''opencode.json''}"

definition settings_names :: "bytes set" where
  "settings_names = {''settings.json''}"

fun step_within :: "bytes set \<Rightarrow> step \<Rightarrow> bool" where
  "step_within N (SkippedStep s) = True"
| "step_within N (ConnectionStep plan) = (\<forall>ext. change_within N (connection_change ext plan))"
| "step_within N (InstructionStep plan) = (\<forall>ext. change_within N (instr_change ext plan))"
| "step_within N (HookStep plan) = (\<forall>ext. change_within N (hook_change ext plan))"

lemma change_within_mono: "change_within N ch \<Longrightarrow> N \<subseteq> M \<Longrightarrow> change_within M ch"
  using family_mono by (auto simp: change_within_def)

lemma step_within_mono: "step_within N s \<Longrightarrow> N \<subseteq> M \<Longrightarrow> step_within M s"
  by (cases s) (auto intro: change_within_mono)

lemma host_config_path_family: "host_config_path pr h s home project = Inr p \<Longrightarrow> p \<in> family host_names"
  by (auto simp: host_config_path_def bindR_eq_Inr host_names_def family_iff join_def file_name_def
      split: if_splits host.splits scope.splits)

lemma settings_path_family: "settings_path pr s project w = (Inr p, w') \<Longrightarrow> p \<in> family settings_names"
  by (auto simp: settings_path_def bindA_eq_Inr settings_names_def family_iff join_def file_name_def
      split: scope.splits)

lemma read_host_files_within:
  assumes "read_host_files ext pr h s home project w = (Inr (cp_files plan), w')"
  shows "step_within host_names (ConnectionStep plan)"
proof -
  from assms obtain target receipt backup where "host_config_path pr h s home project = Inr target"
    and sib: "sibling_path target owner_receipt_suffix = Inr receipt" "sibling_path target backup_suffix = Inr backup"
    and "hf_target (cp_files plan) = target" "hf_receipt_path (cp_files plan) = receipt"
      "hf_backup_path (cp_files plan) = backup"
    by (auto simp: read_host_files_def bindA_eq_Inr lift_Inr simp del: lift_eq)
  moreover from this have "target \<in> family host_names" by (intro host_config_path_family)
  ultimately show ?thesis
    using family_sibling[OF _ sib(1)] family_sibling[OF _ sib(2)]
    by (simp add: change_within_def connection_change_def)
qed

lemma read_settings_files_within:
  assumes "read_settings_files ext target w = (Inr (hk_files plan), w')" and "target \<in> family settings_names"
  shows "step_within settings_names (HookStep plan)"
proof -
  from assms(1) obtain receipt backup
    where sib: "sibling_path target owner_receipt_suffix = Inr receipt" "sibling_path target backup_suffix = Inr backup"
    and "hf_target (hk_files plan) = target" "hf_receipt_path (hk_files plan) = receipt"
      "hf_backup_path (hk_files plan) = backup"
    by (auto simp: read_settings_files_def bindA_eq_Inr lift_Inr simp del: lift_eq)
  then show ?thesis
    using assms(2) family_sibling[OF _ sib(1)] family_sibling[OF _ sib(2)]
    by (simp add: change_within_def hook_change_def)
qed

lemma connection_plans_within:
  "yields (\<lambda>p. step_within host_names (ConnectionStep p)) (plan_connect_version ext pr h s profile d project v)"
  "yields (\<lambda>p. step_within host_names (ConnectionStep p)) (plan_disconnect ext pr h s project)"
proof -
  show "yields (\<lambda>p. step_within host_names (ConnectionStep p)) (plan_connect_version ext pr h s profile d project v)"
    unfolding plan_connect_version_def yields_def
    using connect_files read_host_files_within by (fastforce simp: bindA_eq_Inr)
  show "yields (\<lambda>p. step_within host_names (ConnectionStep p)) (plan_disconnect ext pr h s project)"
    unfolding plan_disconnect_def yields_def
    using disconnect_files read_host_files_within by (fastforce simp: bindA_eq_Inr)
qed

lemma instruction_plans_within:
  "yields (\<lambda>p. step_within instruction_names (InstructionStep p)) (plan_install ext pr t h project force)"
  "yields (\<lambda>p. step_within instruction_names (InstructionStep p)) (plan_remove ext pr t h project force)"
proof -
  have "step_within instruction_names (InstructionStep p)"
    if "plan_install_at ext t h root force w = (Inr p, w')" for root p w w'
    using instruction_path_family[OF plan_install_paths(1)[OF that]]
      family_sibling[OF _ plan_install_paths(2)[OF that]] family_sibling[OF _ plan_install_paths(3)[OF that]]
    by (simp add: change_within_def instr_change_def)
  then show "yields (\<lambda>p. step_within instruction_names (InstructionStep p)) (plan_install ext pr t h project force)"
    unfolding plan_install_def yields_def by (auto simp: bindA_eq_Inr)
  show "yields (\<lambda>p. step_within instruction_names (InstructionStep p)) (plan_remove ext pr t h project force)"
    unfolding plan_remove_def yields_def
    by (auto simp: bindA_eq_Inr change_within_def instr_change_def dest!: plan_remove_within)
qed

lemma hook_plan_files [simp]:
  "hk_files (hook_restore ext s fs r before document backup) = fs" "hk_files (hook_noop_plan s action fs) = fs"
  by (simp_all add: hook_restore_def hook_removal_def hook_noop_plan_def Let_def split: prod.split)

lemma decide_hook_files:
  assumes "decide_hook_install ext s exe profile fs = Inr p"
  shows "hk_files p = fs"
proof -
  have tail: "hk_files q = fs" if "(case d of None \<Rightarrow> Inr (hook_noop_plan s HookAlreadyInstalled fs)
      | Some action \<Rightarrow> bindR (f action) (\<lambda>(b, post). Inr (g action b post))) = Inr q"
    and "\<And>action b post. hk_files (g action b post) = fs"
    for d q and f :: "hook_action \<Rightarrow> manager_error + target_write \<times> string" and g
    using that by (cases d) (auto simp: bindR_eq_Inr)
  from assms show ?thesis
    unfolding decide_hook_install_def Let_def bindR_eq_Inr[of "decode_hook_receipt _ _ _"]
      bindR_eq_Inr[of "parse_settings _ _"] bindR_eq_Inr[of "hook_install_action _ _ _"]
    by (elim exE conjE) (erule tail, simp)
qed

lemma hook_files_of:
  "hook_plan_install_at ext s exe profile target w = (Inr p, w') \<Longrightarrow>
    \<exists>w1. read_settings_files ext target w = (Inr (hk_files p), w1)"
  "hook_plan_remove_at ext s target force w = (Inr p, w') \<Longrightarrow>
    \<exists>w1. read_settings_files ext target w = (Inr (hk_files p), w1)"
  by (auto simp: hook_plan_install_at_def hook_plan_remove_at_def hook_remove_owned_def bindA_eq_Inr
      dest: decide_hook_files[OF sym] split: option.splits)

lemma hook_plans_within:
  "yields (\<lambda>p. step_within settings_names (HookStep p)) (hook_plan_install ext pr s exe profile project)"
  "yields (\<lambda>p. step_within settings_names (HookStep p)) (hook_plan_remove ext pr s project force)"
  unfolding hook_plan_install_def hook_plan_remove_def yields_def bindA_eq_Inr
  using hook_files_of settings_path_family read_settings_files_within by metis+

section \<open>Every command\<close>

lemma keeps_bind_yields:
  assumes "keeps (untouched S) a" and "yields P a" and "\<And>x. P x \<Longrightarrow> keeps (untouched S) (k x)"
  shows "keeps (untouched S) (bindA a k)"
  by (rule outside.keeps_bind_result[OF assms(1)]) (rule assms(3), rule yieldsD[OF assms(2)])

definition command_names :: "bytes set" where
  "command_names = host_names \<union> settings_names \<union> instruction_names \<union> {''manager.json'', ''.kaleidoscope-preflight-''}"

abbreviation "own_files \<equiv> family command_names"

lemma own_names:
  "host_names \<subseteq> command_names" "settings_names \<subseteq> command_names" "instruction_names \<subseteq> command_names"
  "{''manager.json''} \<subseteq> command_names"
  by (auto simp: command_names_def)

lemma keeps_step_within:
  assumes "step_within N s"
  shows "keeps (untouched (family N)) (apply_step cx dry yes s)"
  using assms
  by (cases s) (auto intro!: keeps_intro outside.keeps_carry_out apply_change_family
      simp: connection_apply_def apply_plan_def hook_apply_def)

lemma keeps_steps_within:
  "list_all (\<lambda>(_, s). step_within N s) steps \<Longrightarrow> keeps (untouched (family N)) (apply_steps cx dry yes h steps)"
  by (induction steps) (auto intro!: keeps_intro keeps_step_within split: keeps_splits)

lemma yields_step: "yields (\<lambda>p. step_within N (f p)) a \<Longrightarrow> N \<subseteq> M \<Longrightarrow>
    yields (step_within M) (bindA a (\<lambda>p. ret (f p)))"
  by (rule yields_bind[of "\<lambda>p. step_within N (f p)"]) (auto intro!: yields_ret intro: step_within_mono)

lemma host_steps_within: "yields (list_all (\<lambda>(_, s). step_within command_names s)) (host_steps ou cx o' d project h)"
proof -
  note plans = yields_step[OF connection_plans_within(1) own_names(1)] yields_step[OF instruction_plans_within(1) own_names(3)]
    yields_step[OF hook_plans_within(1) own_names(2)]
  have if_ret: "yields P (if b then ret x else a)" if "P x" "yields P a"
    for P b and x :: step and a :: "(manager_error, step) act" using that by (simp add: yields_ret)
  show ?thesis
    unfolding host_steps_def Let_def
    by (intro yields_bind[where Q="step_within command_names"] if_ret plans yields_after yields_ret)
      (simp_all add: yields_ret plans yields_after)
qed

lemma keeps_wire_hosts_within: "keeps (untouched own_files) (wire_hosts ou cx o' d project hs)"
proof (induction hs)
  case (Cons h hs)
  show ?case
    unfolding wire_hosts.simps
  proof (rule keeps_bind_yields[OF _ yields_outcome[OF host_steps_within]], goal_cases)
    case (2 r)
    with Cons show ?case
      by (cases r) (auto intro!: keeps_intro keeps_steps_within split: keeps_splits)
  qed (intro keeps_intro)
qed (simp add: keeps_intro)

lemma keeps_assert_writable: "keeps (untouched own_files) (assert_writable target)"
proof -
  have "p @ [Normal (preflight_name n s)] \<in> own_files" for p n s
    by (auto simp: family_def command_names_def preflight_name_def)
  then show ?thesis
    unfolding assert_writable_def Let_def by (auto intro!: keeps_intro split: keeps_splits)
qed

lemma keeps_wire: "keeps (untouched own_files) (wire ou cx o' d project)"
proof -
  have "keeps (untouched own_files) (all_writable ps)" for ps
    by (induction ps) (auto intro!: keeps_intro keeps_assert_writable)
  moreover have "keeps (untouched own_files) (preflight_targets pr o' home root hs)" for pr home root hs
    by (induction hs) (auto simp: host_targets_def intro!: keeps_intro)
  ultimately have "keeps (untouched own_files) (preflight pr o' project)" for pr
    unfolding preflight_def by (auto intro!: keeps_intro split: option.split)
  then show ?thesis
    unfolding wire_def by (auto intro!: keeps_intro keeps_wire_hosts_within split: keeps_splits)
qed

text \<open>The manager's own configuration.\<close>

lemma keeps_save: "keeps (untouched own_files) (config_save ext store c)"
  by (rule keeps_untouched_mono[OF config_save_family family_mono[OF own_names(4)]])

lemma keeps_update [keeps_intro]: "keeps (untouched own_files) (update_config ext store f)"
  unfolding update_config_def by (intro keeps_intro outside.keeps_config_load keeps_save)

lemma keeps_config_writers [keeps_intro]:
  "keeps (untouched own_files) (set_active_profile ext store profile)"
  "keeps (untouched own_files) (bind_profile_account ext store name account)"
  "keeps (untouched own_files) (unbind_profile_account ext store name)"
  "keeps (untouched own_files) (forget_profile ext store name)"
  "keeps (untouched own_files) (register_project ext store project)"
  "keeps (untouched own_files) (forget_project ext store project project_carries_instructions)"
  unfolding set_active_profile_def bind_profile_account_def unbind_profile_account_def forget_profile_def
    register_project_def forget_project_def
  by (auto intro!: keeps_intro outside.keeps_config_load keeps_save outside.keeps_others_kept split: keeps_splits)

lemma keeps_config_readers [keeps_intro]:
  "keeps (untouched own_files) (selected_profile ext store explicit)"
  "keeps (untouched own_files) (profile_account_binding ext store name)"
  unfolding selected_profile_def profile_account_binding_def
  by (auto intro!: keeps_intro outside.keeps_config_load split: keeps_splits)

text \<open>The engine may do to its own files what it does, not to these.\<close>

definition engine_stays_out :: "outside \<Rightarrow> bool" where
  "engine_stays_out ou \<longleftrightarrow> runs_keep (untouched own_files) (\<lambda>_. True) ou"

lemma stays_out: "engine_stays_out ou \<Longrightarrow> runs_keep (untouched own_files) C ou"
  unfolding engine_stays_out_def by (rule runs_keep_mono)

lemma keeps_engine_commands:
  assumes "engine_stays_out ou"
  shows "keeps (untouched own_files) (show_profile ou m n)" "keeps (untouched own_files) (launch_profile ou m n)"
    "keeps (untouched own_files) (engine_profile_list (ou_process ou) (ou_engine ou) e)"
    "keeps (untouched own_files) (profile_import (ou_process ou) (ou_engine ou) e n root d)"
    "keeps (untouched own_files) (init_profile (ou_process ou) (ou_engine ou) e n root t d)"
    "keeps (untouched own_files) (engine_profile_remove (ou_process ou) (ou_engine ou) e n)"
proof -
  note out = stays_out[OF assms, of "\<lambda>_. True"]
  show "keeps (untouched own_files) (show_profile ou m n)" "keeps (untouched own_files) (launch_profile ou m n)"
    "keeps (untouched own_files) (engine_profile_list (ou_process ou) (ou_engine ou) e)"
    by (rule outside.keeps_reads[OF stays_out[OF assms]])+
  show "keeps (untouched own_files) (profile_import (ou_process ou) (ou_engine ou) e n root d)"
    "keeps (untouched own_files) (init_profile (ou_process ou) (ou_engine ou) e n root t d)"
    "keeps (untouched own_files) (engine_profile_remove (ou_process ou) (ou_engine ou) e n)"
    unfolding profile_import_def init_profile_def engine_profile_remove_def
    by (auto intro!: keeps_intro outside.keeps_run_json[OF out] split: keeps_splits)
qed

lemma keeps_init:
  assumes "engine_stays_out ou"
  shows "keeps (untouched own_files) (init ou m profile root d policy project dry)"
proof -
  note engine = keeps_engine_commands[OF assms] outside.keeps_discover_vaults[OF stays_out[OF assms]]
  have publish: "keeps (untouched own_files) (publish_profile ou m profile)" for profile
    unfolding publish_profile_def select_profile_def by (auto intro!: keeps_intro engine)
  have "keeps (untouched own_files) (reuse_existing_profile ou m profile root dry)"
    unfolding reuse_existing_profile_def by (auto intro!: keeps_intro engine publish split: keeps_splits)
  moreover have "keeps (untouched own_files) (create ou m profile target d u)" for target u
    unfolding create_def select_profile_def
    by (auto intro!: keeps_intro engine ensure_parent_content split: keeps_splits)
  then have "keeps (untouched own_files) (init_create ou m profile root d dry g)" for g
    unfolding init_create_def by (auto intro!: keeps_intro split: keeps_splits)
  moreover have "keeps (untouched own_files) (adopt ou m profile found d)" for found
    unfolding adopt_def by (auto intro!: keeps_intro engine publish)
  ultimately show ?thesis
    unfolding init_def by (auto intro!: keeps_intro engine split: keeps_splits list.split)
qed

text \<open>The removals.\<close>

definition plans_within :: "bytes set \<Rightarrow> (bytes \<times> (manager_error + step)) list \<Rightarrow> bool" where
  "plans_within N plans \<longleftrightarrow> (\<forall>name s. (name, Inr s) \<in> set plans \<longrightarrow> step_within N s)"

lemma map_step_within:
  assumes "yields (\<lambda>p. step_within N (f p)) a" and "N \<subseteq> M"
  shows "yields (\<lambda>r. \<forall>s. r = Inr s \<longrightarrow> step_within M s) (map_step f a)"
  unfolding map_step_def
proof (rule yields_bind[OF yields_outcome[OF assms(1)]], rule yields_ret, goal_cases)
  case (1 r)
  then show ?case using step_within_mono[OF _ assms(2)] by (cases r) auto
qed

lemma plans_none: "yields (plans_within N) (ret [])"
  by (simp add: yields_ret plans_within_def)

lemma plans_one:
  assumes "yields (\<lambda>p. step_within N (f p)) a" and "N \<subseteq> M"
  shows "yields (plans_within M) (bindA (map_step f a) (\<lambda>r. ret [(n, r)]))"
  by (rule yields_bind[OF map_step_within[OF assms]]) (auto intro!: yields_ret simp: plans_within_def)

lemma plans_if:
  "(b \<Longrightarrow> yields P x) \<Longrightarrow> (\<not> b \<Longrightarrow> yields P y) \<Longrightarrow> yields P (if b then x else y)"
  by simp

lemma teardown_plans_within:
  assumes "instruction_names \<subseteq> N" and "\<not> retain \<Longrightarrow> settings_names \<subseteq> N \<and> host_names \<subseteq> N"
  shows "yields (plans_within N) (teardown_plans ou cx o' project retain h)"
proof -
  note shared = conjunct1[OF assms(2)] conjunct2[OF assms(2)]
  show ?thesis
    unfolding teardown_plans_def Let_def
    apply (rule yields_bind[OF plans_if[OF plans_one[OF hook_plans_within(2) shared(1)] plans_none]], simp)
    apply (rule yields_bind[OF plans_if[OF plans_one[OF instruction_plans_within(2) assms(1)] plans_none]])
    apply (rule yields_bind[OF map_step_within[OF instruction_plans_within(2) assms(1)]])
    apply (rule yields_bind[OF plans_if[OF plans_none plans_one[OF connection_plans_within(2) shared(2)]]], simp)
    apply (rule yields_ret, auto simp: plans_within_def)
    done
qed

lemma keeps_removals:
  assumes "plans_within N plans"
  shows "keeps (untouched (family N)) (apply_removals cx o' h plans)"
  using assms
proof (induction plans)
  case (Cons a plans)
  obtain n r where a: "a = (n, r)" by fastforce
  have "keeps (untouched (family N)) (apply_removal cx o' h n r)"
    using Cons.prems a by (auto simp: apply_removal_def plans_within_def intro!: keeps_intro keeps_step_within split: sum.split)
  with Cons a show ?case by (auto simp: plans_within_def intro!: keeps_intro)
qed (simp add: keeps_intro)

lemma keeps_unwire:
  assumes "instruction_names \<subseteq> N" and "\<not> retain \<Longrightarrow> settings_names \<subseteq> N \<and> host_names \<subseteq> N"
  shows "keeps (untouched (family N)) (unwire_hosts ou cx o' project retain hs)"
proof (induction hs)
  case (Cons h hs)
  show ?case
    unfolding unwire_hosts.simps
    by (rule keeps_bind_yields[OF _ teardown_plans_within[OF assms]])
      (auto intro!: keeps_intro keeps_removals Cons)
qed (simp add: keeps_intro)

section \<open>The commands\<close>

lemma commands_keep:
  assumes "engine_stays_out ou"
  shows "keeps (untouched own_files) (run_init ou cx m engine as)"
    and "keeps (untouched own_files) (run_teardown ou cx engine as)"
    and "keeps (untouched own_files) (run_connection ou cx m engine connecting as)"
    and "keeps (untouched own_files) (run_instructions ou cx engine as)"
    and "keeps (untouched own_files) (run_profile ou m as)"
    and "keeps (untouched own_files) (run_profile_account ou cx as)"
    and "keeps (untouched own_files) (run_config ou m as)"
    and "keeps (untouched own_files) (doctor_command ou cx m engine as)"
proof -
  note resolve = outside.keeps_resolve_project_directory[OF stays_out[OF assms]]
  note engine = keeps_engine_commands[OF assms] keeps_init[OF assms] outside.keeps_run_doctor[OF stays_out[OF assms]]
  show "keeps (untouched own_files) (run_init ou cx m engine as)"
    unfolding run_init_def Let_def register_wired_def
    by (auto intro!: keeps_intro resolve engine keeps_wire split: keeps_splits)
  have "keeps (untouched own_files) (unwire_hosts ou cx o' project retain hs)" for o' project retain hs
    by (rule keeps_unwire) (use own_names in auto)
  then show "keeps (untouched own_files) (run_teardown ou cx engine as)"
    unfolding run_teardown_def Let_def deregister_def
    by (auto intro!: keeps_intro resolve split: keeps_splits)
  have carry: "keeps (untouched own_files) (bindA a (\<lambda>plan. bindA (apply_step cx dry yes (f plan)) k))"
    if "keeps (untouched own_files) a" "yields (\<lambda>p. step_within N (f p)) a" "N \<subseteq> command_names"
      "\<And>v. keeps (untouched own_files) (k v)" for a f N dry yes and k :: "json \<Rightarrow> (manager_error, reply) act"
    by (rule keeps_bind_yields[OF that(1,2)])
      (use that(3,4) step_within_mono in \<open>auto intro!: keeps_intro keeps_step_within\<close>)
  have connecting: "yields (\<lambda>p. step_within host_names (ConnectionStep p))
      (if c then manager_plan_connect ou cx m h s n project v else plan_disconnect (cx_host cx) (ou_process ou) h s project)"
    for c h s n project v
    unfolding manager_plan_connect_def
    by (intro plans_if yields_after connection_plans_within(2))
      (simp add: connection_plans_within(1) split: prod.split del: step_within.simps)
  show "keeps (untouched own_files) (run_connection ou cx m engine connecting as)"
    unfolding run_connection_def Let_def apply_step.simps(2)[symmetric]
    by (intro keeps_intro resolve carry[OF _ connecting own_names(1)] plans_if)
      (auto intro!: keeps_intro outside.keeps_manager_plan_connect[OF stays_out[OF assms]])
  have instructing: "yields (\<lambda>p. step_within instruction_names (InstructionStep p))
      (if c then plan_install ext pr t h project f else if d then plan_remove ext pr t h project f else throw e)"
    for c d ext pr t h project f e
    using instruction_plans_within by (auto simp: yields_def)
  show "keeps (untouched own_files) (run_instructions ou cx engine as)"
    unfolding run_instructions_def Let_def apply_step.simps(3)[symmetric]
    by (intro keeps_intro resolve carry[OF _ instructing own_names(3)]) (auto intro!: keeps_intro)
  show "keeps (untouched own_files) (run_profile ou m as)"
    unfolding run_profile_def profile_use_def profile_remove_def
    by (auto intro!: keeps_intro engine split: list.split)
  show "keeps (untouched own_files) (run_profile_account ou cx as)"
    unfolding run_profile_account_def Let_def by (auto intro!: keeps_intro split: list.split)
  show "keeps (untouched own_files) (run_config ou m as)"
    unfolding run_config_def config_descriptor_def by (auto intro!: keeps_intro engine split: keeps_splits)
  show "keeps (untouched own_files) (doctor_command ou cx m engine as)"
    unfolding doctor_command_def doctor_project_def Let_def
    by (auto intro!: keeps_intro engine resolve split: keeps_splits)
qed

text \<open>The account client and the programs the session-start report runs leave the files alone too.\<close>

definition others_stay_out :: "cli_ext \<Rightarrow> bool" where
  "others_stay_out cx \<longleftrightarrow>
     (\<forall>i. keeps (untouched own_files) (cx_account cx i)) \<and>
     (\<forall>p env cwd args fed. keeps (untouched own_files) (sx_child (cx_session cx) p env cwd args fed))"

lemma run_keeps:
  assumes "engine_stays_out ou" and "others_stay_out cx"
  shows "keeps (untouched own_files) (run ou cx as)"
proof -
  have hook: "keeps (untouched own_files) (run_hook ou cx engine as')" for engine as'
  proof -
    have "keeps (untouched own_files) (session_start_output (cx_session cx) pr e so)" for pr e so
      by (rule outside.keeps_session_start) (use assms(2) in \<open>simp add: others_stay_out_def\<close>)
    then show ?thesis
      unfolding run_hook_def session_directory_def Let_def
      by (auto intro!: keeps_intro split: list.split prod.split option.split)
  qed
  have "keeps (untouched own_files) (manager_command ou cx engine command as')" for engine command as'
    unfolding manager_command_def by (auto intro!: keeps_intro commands_keep[OF assms(1)])
  with hook have "keeps (untouched own_files) (dispatch ou cx engine command as')" for engine command as'
    using assms(2) unfolding dispatch_def
    by (auto intro!: keeps_intro commands_keep[OF assms(1)] simp: others_stay_out_def)
  then show ?thesis
    unfolding run_def by (auto intro!: keeps_intro split: list.split)
qed

section \<open>A teardown that retains\<close>

definition retained_names :: "bytes set" where
  "retained_names = insert ''manager.json'' instruction_names"

lemma retained_apart: "p \<in> family host_names \<union> family settings_names \<Longrightarrow> p \<notin> family retained_names"
  by (auto simp: family_iff host_names_def settings_names_def retained_names_def instruction_names_def
      prefix_def append_eq_append_conv2 Cons_eq_append_conv)

lemma retained_reported:
  assumes "teardown_report o' pd others retain t carryover = Inr report" and "\<not> retain"
  shows "json_get report ''retained'' = Some (JArr [])"
proof -
  have "concat (map (\<lambda>h. map fst (retained_reports (to_scope o') False h)) hs) = []" for hs
    by (induction hs) (simp_all add: retained_reports_def)
  then show ?thesis
    using assms by (auto simp: teardown_report_def Let_def bindR_eq_Inr json_get_def json_strings_def)
qed

lemma retaining_teardown:
  assumes out: "runs_keep (untouched (family retained_names)) lookup_command ou"
    and run: "run_teardown ou cx engine as w = (Inr ([Document report], failure), w')"
    and kept: "json_get report ''retained'' \<noteq> Some (JArr [])"
  shows "untouched (family retained_names) w w'"
proof -
  let ?U = "untouched (family retained_names)"
  from run obtain o' pd w1 store w2 others w3 t w4 carryover w5 w6 where
    1: "resolve_project_directory ou cx engine (to_project o') w = (Inr pd, w1)"
    and 2: "outcome (config_resolve (ou_process ou)) w1 = (Inr store, w2)"
    and 3: "dependants ou (pd_directory pd) store w2 = (Inr others, w3)"
    and 4: "unwire_hosts ou cx o' (Some (pd_directory pd)) (to_scope o' = UserScope \<and> others \<noteq> []) (to_hosts o') w3 = (Inr t, w4)"
    and 5: "project_scope_carryover ou cx (to_scope o') (to_hosts o') (Some (pd_directory pd)) w4 = (Inr carryover, w5)"
    and 6: "deregister ou o' (pd_directory pd) store (tr_failure t) w5 = (Inr (), w6)"
    and 7: "Inr report = teardown_report o' pd others (to_scope o' = UserScope \<and> others \<noteq> []) t carryover" "w' = w6"
    by (auto simp: run_teardown_def Let_def bindA_eq_Inr)
  have retain: "to_scope o' = UserScope \<and> others \<noteq> []" using retained_reported 7(1)[symmetric] kept by blast
  have "?U w w1" by (rule keepsD[OF outside.keeps_resolve_project_directory[OF out] 1])
  moreover have "?U w1 w2" by (rule keepsD[OF outside.keeps_outcome[OF outside.keeps_config_resolve] 2])
  moreover have "?U w2 w3" by (rule keepsD[OF outside.keeps_dependants 3])
  moreover have "?U w3 w4"
    by (rule keepsD[OF keeps_unwire[of _ True] 4[unfolded eqTrueI[OF retain]]]) (auto simp: retained_names_def)
  moreover have "?U w4 w5" by (rule keepsD[OF outside.keeps_carryover 5])
  moreover have "keeps ?U (config_save ext s c)" for ext s c
    by (rule keeps_untouched_mono[OF config_save_family family_mono]) (simp add: retained_names_def)
  then have "keeps ?U (forget_project ext s project project_carries_instructions)" for ext s project
    unfolding forget_project_def
    by (auto intro!: keeps_intro outside.keeps_config_load outside.keeps_others_kept split: sum.split)
  then have last: "keeps ?U (deregister ou o' (pd_directory pd) store (tr_failure t))"
    unfolding deregister_def by (auto intro!: keeps_intro split: sum.split)
  have "?U w5 w6" by (rule keepsD[OF last 6])
  ultimately show ?thesis using 7(2) outside.R_trans by blast
qed

end
