(* ===== verification/Cli_Reports.thy ===== *)
theory Cli_Reports
  imports Session_Start_Correct
begin

text \<open>
  What a command prints agrees with the code it ends with: the steps of \<^verbatim>\<open>init\<close> and \<^verbatim>\<open>teardown\<close>, the checks
  of the diagnosis; and the commands that answer whatever is wrong.
\<close>

section \<open>The status of a step\<close>

definition status_of :: "json \<Rightarrow> json option" where
  "status_of v = json_get v ''status''"

definition says_issue :: "json list \<Rightarrow> bool" where
  "says_issue vs \<longleftrightarrow> (\<exists>v \<in> set vs. status_of v = Some (JStr ''issue''))"

lemma says_issue_simps [simp]:
  "says_issue [] = False" "says_issue (v # vs) = (status_of v = Some (JStr ''issue'') \<or> says_issue vs)"
  "says_issue (us @ vs) = (says_issue us \<or> says_issue vs)"
  by (auto simp: says_issue_def)

lemma issue_step_says [simp]: "status_of (issue_step cx name h e) = Some (JStr ''issue'')"
  by (simp add: issue_step_def status_of_def json_get_def host_field_def)

lemma status_set_field: "k \<noteq> ''status'' \<Longrightarrow> status_of (set_field k x v) = status_of v"
  by (cases v) (simp_all add: status_of_def json_get_def)

lemma label_step_says [simp]: "status_of (label_step name h v) = status_of v"
  by (simp add: label_step_def status_set_field)

definition fine :: "json \<Rightarrow> bool" where
  "fine v \<longleftrightarrow> status_of v \<noteq> Some (JStr ''issue'')"

lemma summaries_fine:
  "yields fine (connection_summary p1 dry)" "yields fine (instruction_summary sha p2 dry)" "yields fine (hook_summary p3 dry)"
  unfolding connection_summary_def instruction_summary_def hook_summary_def
  by (intro yields_after yields_ret; simp add: fine_def status_of_def json_get_def)+

lemma apply_step_fine: "yields fine (apply_step cx dry yes s)"
  by (cases s)
    (auto simp: carry_out_def intro!: yields_after summaries_fine yields_ret,
      simp add: fine_def status_of_def json_get_def)

text \<open>The failure of a run of steps, and what the list of the steps says.\<close>

definition told_by :: "json list \<times> manager_error option \<Rightarrow> bool" where
  "told_by p \<longleftrightarrow> (snd p \<noteq> None \<longleftrightarrow> says_issue (fst p))"

lemma apply_steps_told: "yields told_by (apply_steps cx dry yes h steps)"
proof (induction steps)
  case (Cons a steps)
  obtain name s where a: "a = (name, s)" by fastforce
  show ?case
    unfolding a apply_steps.simps
  proof (rule yields_bind[OF yields_outcome[OF apply_step_fine]], goal_cases)
    case (1 r)
    then show ?case
      by (cases r) (auto intro!: yields_ret yields_bind[OF Cons] simp: told_by_def fine_def split: prod.split)
  qed
qed (simp add: yields_ret told_by_def)

lemma wire_hosts_told: "yields told_by (wire_hosts ou cx o' d project hs)"
proof (induction hs)
  case (Cons h hs)
  show ?case
    unfolding wire_hosts.simps
  proof (rule yields_after, goal_cases)
    case (1 r)
    then show ?case
      by (cases r) (auto intro!: yields_ret yields_bind[OF apply_steps_told] yields_bind[OF Cons]
          simp: told_by_def split: prod.split option.split)
  qed
qed (simp add: yields_ret told_by_def)

lemma wire_told: "yields told_by (wire ou cx o' d project)"
  unfolding wire_def
proof (rule yields_after, goal_cases)
  case (1 r)
  then show ?case
    by (cases r) (auto intro!: yields_ret wire_hosts_told simp: told_by_def status_of_def json_get_def)
qed

lemma carryover_fine: "yields (\<lambda>vs. \<not> says_issue vs) (project_scope_carryover ou cx scope hosts project)"
proof -
  have warning: "status_of (carryover_warning h d rest) = Some (JStr ''warning'')" for h d rest
    by (simp add: status_of_def json_get_def carryover_warning_def host_field_def)
  have "yields (\<lambda>vs. \<not> says_issue vs) (carryover_of ou cx project h)" for h
    unfolding carryover_of_def
    by (rule yields_after) (auto intro!: yields_after yields_ret simp: warning split: sum.split if_splits)
  then have "yields (\<lambda>vs. \<not> says_issue vs) (carryover_hosts ou cx project hosts)"
    by (induction hosts) (auto intro!: yields_ret yields_bind)
  then show ?thesis unfolding project_scope_carryover_def by (simp add: yields_ret)
qed

section \<open>init\<close>

lemma init_status:
  "yields (\<lambda>v. vi_status v \<noteq> ''issue'') (init ou m profile root d policy project dry)"
proof -
  have reuse: "yields (\<lambda>r. \<forall>v. r = Some v \<longrightarrow> vi_status v \<noteq> ''issue'') (reuse_existing_profile ou m profile root dry)"
    for root unfolding reuse_existing_profile_def
    by (rule yields_after) (auto intro!: yields_after yields_ret simp: yields_def[of _ "throw _"] split: sum.split)
  have preview: "yields (\<lambda>v. vi_status v \<noteq> ''issue'') (preview m profile s found_by detail n c)" if "s \<noteq> ''issue''" for s found_by detail n c
    using that unfolding preview_def by (auto intro!: yields_after yields_ret)
  have stop: "yields P (throw e)" for P :: "vault_init \<Rightarrow> bool" and e :: manager_error by (simp add: yields_def)
  have creating: "yields (\<lambda>v. vi_status v \<noteq> ''issue'') (init_create ou m profile root d dry g)" for root dry g
    unfolding init_create_def create_def by (auto intro!: yields_after yields_ret preview)
  have adopting: "yields (\<lambda>v. vi_status v \<noteq> ''issue'') (adopt ou m profile found d)" for found
    unfolding adopt_def by (auto intro!: yields_after yields_ret)
  show ?thesis
    unfolding init_def
    by (auto intro!: yields_after yields_bind[OF reuse] yields_ret stop preview creating adopting
        split: option.split list.split)
qed

definition steps_of :: "json \<Rightarrow> json list" where
  "steps_of report = (case json_get report ''steps'' of Some (JArr vs) \<Rightarrow> vs | _ \<Rightarrow> [])"

lemma init_report_steps: "init_report o' pd v steps next_steps failed = Inr report \<Longrightarrow> steps_of report = steps"
  by (auto simp: init_report_def bindR_eq_Inr steps_of_def json_get_def)

lemma run_init_told:
  assumes "run_init ou cx m engine as w = (Inr (out, failure), w')"
  shows "\<exists>report. out = [Document report] \<and> (failure \<noteq> None \<longleftrightarrow> says_issue (steps_of report))"
proof -
  from assms obtain o' pd w1 v w2 vs w3 carryover w4 report where
    1: "init ou m (io_profile o') (io_root o') (io_durability o') (init_policy o') (Some (pd_directory pd)) (io_dry_run o') w1 = (Inr v, w2)"
    and 2: "wire ou cx o' (vi_launch v) (Some (pd_directory pd)) w2 = (Inr (vs, failure), w3)"
    and 3: "project_scope_carryover ou cx (io_scope o') (io_hosts o') (Some (pd_directory pd)) w3 = (Inr carryover, w4)"
    and 4: "init_report o' pd v (profile_step v # hosts_step (io_hosts o') @ vs @ carryover)
              (init_next o' carryover) (failure \<noteq> None) = Inr report" and out: "out = [Document report]"
    by (auto simp: run_init_def Let_def bindA_eq_Inr lift_Inr simp del: lift_eq)
  have "\<not> says_issue [profile_step v]" "\<not> says_issue (hosts_step (io_hosts o'))" "\<not> says_issue carryover"
    using yieldsD[OF init_status 1] yieldsD[OF carryover_fine 3]
    by (auto simp: profile_step_def hosts_step_def status_of_def json_get_def)
  with yieldsD[OF wire_told 2] init_report_steps[OF 4] out show ?thesis by (simp add: told_by_def)
qed

section \<open>teardown\<close>

definition removal_told :: "teardown_result \<Rightarrow> bool" where
  "removal_told t \<longleftrightarrow> (tr_failure t \<noteq> None \<longleftrightarrow> says_issue (tr_steps t))"

lemma removal_told_join: "removal_told a \<Longrightarrow> removal_told b \<Longrightarrow> removal_told (tr_join a b)"
  by (auto simp: removal_told_def tr_join_def split: option.splits)

lemma apply_removals_told: "yields removal_told (apply_removals cx o' h plans)"
proof (induction plans)
  case (Cons a plans)
  obtain name r where a: "a = (name, r)" by fastforce
  have "yields removal_told (apply_removal cx o' h name r)"
  proof (cases r)
    case (Inr s)
    show ?thesis
      unfolding Inr apply_removal_def sum.case
    proof (rule yields_bind[OF yields_outcome[OF apply_step_fine]], rule yields_ret, goal_cases)
      case (1 q)
      then show ?case by (cases q) (auto simp: removal_told_def fine_def)
    qed
  qed (simp add: apply_removal_def yields_ret removal_told_def)
  then show ?case
    unfolding a apply_removals.simps by (rule yields_bind) (auto intro!: yields_bind[OF Cons] yields_ret removal_told_join)
qed (simp add: yields_ret removal_told_def tr_none_def)

lemma unwire_hosts_told: "yields removal_told (unwire_hosts ou cx o' project retain hs)"
proof (induction hs)
  case (Cons h hs)
  have retained: "removal_told (tr_none\<lparr>tr_steps := map snd (retained_reports scope retain h)\<rparr>)" for scope
    by (auto simp: removal_told_def tr_none_def retained_reports_def retained_hook_def retained_connection_def
        status_of_def json_get_def host_field_def)
  show ?case
    unfolding unwire_hosts.simps
    by (rule yields_after, rule yields_bind[OF apply_removals_told], rule yields_bind[OF Cons], rule yields_ret)
      (auto intro!: removal_told_join retained)
qed (simp add: yields_ret removal_told_def tr_none_def)

lemma teardown_report_steps:
  "teardown_report o' pd others retain t carryover = Inr report \<Longrightarrow> steps_of report = tr_steps t @ carryover"
  by (auto simp: teardown_report_def Let_def bindR_eq_Inr steps_of_def json_get_def)

lemma run_teardown_told:
  assumes "run_teardown ou cx engine as w = (Inr (out, failure), w')"
  shows "\<exists>report. out = [Document report] \<and> (failure \<noteq> None \<longleftrightarrow> says_issue (steps_of report))"
proof -
  from assms obtain o' pd retain w3 t w4 carryover w5 others report where
    1: "unwire_hosts ou cx o' (Some (pd_directory pd)) retain (to_hosts o') w3 = (Inr t, w4)"
    and 2: "project_scope_carryover ou cx (to_scope o') (to_hosts o') (Some (pd_directory pd)) w4 = (Inr carryover, w5)"
    and 3: "teardown_report o' pd others retain t carryover = Inr report"
    and out: "out = [Document report]" "failure = tr_failure t"
    by (auto simp: run_teardown_def Let_def bindA_eq_Inr lift_Inr simp del: lift_eq)
  with yieldsD[OF unwire_hosts_told 1] yieldsD[OF carryover_fine 2] teardown_report_steps[OF 3]
  show ?thesis by (simp add: removal_told_def)
qed

section \<open>The diagnosis\<close>

definition checks_of :: "json \<Rightarrow> json list" where
  "checks_of report = (case json_get report ''checks'' of Some (JArr vs) \<Rightarrow> vs | _ \<Rightarrow> [])"

lemma check_json_status: "status_of (check_json c) = Some (JStr (dc_status c))"
  by (simp add: check_json_def status_of_def json_get_def)

lemma says_issue_checks: "says_issue (map check_json cs) \<longleftrightarrow> issue_count cs > 0"
  by (induction cs) (auto simp: check_json_status issue_count_def)

lemma doctor_verdict_of: "yields (\<lambda>r. dr_status r = doctor_status (dr_checks r)) (run_doctor ou dx m project)"
  unfolding run_doctor_def Let_def by (intro yields_after yields_ret) simp

lemma with_problem_verdict:
  "dr_status r = doctor_status (dr_checks r) \<Longrightarrow>
    dr_status (with_problem problem r) = doctor_status (dr_checks (with_problem problem r))"
  by (auto simp: with_problem_def doctor_status_def problem_check_def split: option.split)

lemma doctor_status_issues: "doctor_status cs = (if issue_count cs > 0 then ''issues'' else ''ready'')"
  by (auto simp: doctor_status_def issue_count_def list_ex_iff filter_empty_conv)

text \<open>What the command says once the checks are in.\<close>

definition doctor_reply :: "json \<Rightarrow> doctor_report \<Rightarrow> reply" where
  "doctor_reply project report =
     ([Document (set_field ''project'' project (report_json report))],
      if issue_count (dr_checks report) > 0 then Some (DoctorIssues (issue_count (dr_checks report))) else None)"

definition doctor_checked ::
    "outside \<Rightarrow> cli_ext \<Rightarrow> manager \<Rightarrow> project_directory \<times> bytes option \<Rightarrow> (manager_error, reply) act" where
  "doctor_checked ou cx m resolved =
     (case resolved of (pd, problem) \<Rightarrow>
        bindA (run_doctor ou (cx_doctor cx) m (Some (pd_directory pd))) (\<lambda>base.
        bindA (lift (project_report pd)) (\<lambda>project. ret (doctor_reply project (with_problem problem base)))))"

lemma doctor_command_eq:
  "doctor_command ou cx m engine as =
     bindA (lift (bindR (take_path_option as ''--project'') (\<lambda>(explicit, a1).
              bindR (require_empty (snd (take_flag a1 ''--json''))) (\<lambda>_. Inr explicit)))) (\<lambda>explicit.
     bindA (doctor_project ou cx engine explicit) (doctor_checked ou cx m))"
proof -
  have "doctor_checked ou cx m = (\<lambda>(pd, problem).
      bindA (run_doctor ou (cx_doctor cx) m (Some (pd_directory pd))) (\<lambda>base.
      bindA (lift (project_report pd)) (\<lambda>project. ret (doctor_reply project (with_problem problem base)))))"
    by (rule ext) (simp add: doctor_checked_def)
  then show ?thesis
    by (simp add: doctor_command_def doctor_reply_def Let_def case_prod_beta)
qed

definition agrees :: "reply \<Rightarrow> bool" where
  "agrees reply \<longleftrightarrow> (\<exists>report. fst reply = [Document report] \<and>
     process_exit (Inr reply) = (if says_issue (checks_of report) then 3 else 0) \<and>
     status_of report = Some (JStr (if says_issue (checks_of report) then ''issues'' else ''ready'')))"

lemma agrees_exit: "agrees reply \<Longrightarrow> process_exit (Inr reply) \<in> {0, 3}"
  by (auto simp: agrees_def)

lemma doctor_reply_agrees:
  assumes "dr_status r = doctor_status (dr_checks r)"
  shows "agrees (doctor_reply project r)"
  using assms
  by (simp add: agrees_def doctor_reply_def report_json_def checks_of_def json_get_def status_of_def process_exit_def
      says_issue_checks doctor_status_issues)

lemma doctor_checked_agrees: "yields agrees (doctor_checked ou cx m resolved)"
  unfolding doctor_checked_def
  by (cases resolved, simp only: prod.case, rule yields_bind[OF doctor_verdict_of])
    (intro yields_after yields_ret doctor_reply_agrees with_problem_verdict)

lemma doctor_command_agrees: "yields agrees (doctor_command ou cx m engine as)"
  unfolding doctor_command_eq by (intro yields_after doctor_checked_agrees)

text \<open>Nothing but a panic, or a working directory that is none, keeps the diagnosis from its report.\<close>

lemma canonical_directory_same:
  assumes "calm w" and "canonical_directory pr p t w0 = (Inr d, w1)" and "files w = files w0"
  shows "\<exists>w2. canonical_directory pr p t w = (Inr d, w2)"
proof -
  have "lookup w p = lookup w0 p" using assms(3) by (simp add: lookup_def)
  moreover have "is_absolute p" "pr_canonicalize pr p = Inr d" and found: "\<exists>q. lookup w0 p = Some (Directory q)"
  proof -
    obtain canonical n where c: "is_absolute p" "pr_canonicalize pr p = Inr canonical" "lookup w0 p = Some n"
      and n: "(case n of Directory _ \<Rightarrow> ret canonical
        | _ \<Rightarrow> throw (UnsafePath t ''selected path is a symlink or not a directory'')) (w0\<lparr>ticks := Suc (ticks w0)\<rparr>) = (Inr d, w1)"
      using assms(2)
      by (auto simp: canonical_directory_def bindA_eq_Inr map_err_eq_Inr symlink_metadata_Inr
          split: if_splits sum.splits)
    with n show "is_absolute p" "pr_canonicalize pr p = Inr d" "\<exists>q. lookup w0 p = Some (Directory q)"
      by (cases n; simp)+
  qed
  ultimately show ?thesis
    using assms(1)
    by (auto simp: canonical_directory_def symlink_metadata_def syscall_def calm_faults act_unfold Let_def)
qed

lemma doctor_project_answers:
  assumes "calm w" and "runs_keep same_calm lookup_command ou"
    and "fst (project_root (ou_process ou) None w) = Inr d"
  shows "\<exists>pd problem. fst (doctor_project ou cx engine explicit w) = Inr (pd, problem)
    \<or> (\<exists>s. fst (doctor_project ou cx engine explicit w) = Inl (Panicked s))"
proof -
  obtain r w1 where r: "resolve_project_directory ou cx engine explicit w = (r, w1)" by fastforce
  have "same_calm w w1" by (rule keepsD[OF quiet.keeps_resolve_project_directory[OF assms(2)] r])
  then have w1: "calm w1" "files w1 = files w" using assms(1) by (simp_all add: same_calm_def)
  have "\<exists>w2. project_root (ou_process ou) None w1 = (Inr d, w2)"
    using assms(3)
    by (cases "project_root (ou_process ou) None w")
       (auto simp: project_root_def split: sum.splits dest: canonical_directory_same[OF w1(1) _ w1(2)])
  with r show ?thesis
    by (cases r rule: no_panic.cases) (auto simp: doctor_project_def outcome_def act_unfold)
qed

lemma doctor_checked_panics: "only_panics (doctor_checked ou cx m resolved)"
proof -
  have "project_report pd = Inl e \<Longrightarrow> \<exists>s. e = Panicked s" for pd e
    by (auto simp: project_report_def bindR_eq_Inl json_path_def split: option.splits)
  then have "only_panics (lift (project_report pd))" for pd
    by (simp add: only_panics_def lift_def)
  then show ?thesis
    unfolding doctor_checked_def by (auto intro!: only_panics_steps run_doctor_only_panics split: prod.split)
qed

lemma doctor_fails_by_panic:
  assumes "calm w" and "runs_keep same_calm lookup_command ou"
    and "fst (project_root (ou_process ou) None w) = Inr d"
    and run: "doctor_command ou cx m engine [] w = (Inl e, w')"
  shows "\<exists>s. e = Panicked s"
proof -
  have "bindA (doctor_project ou cx engine None) (doctor_checked ou cx m) w = (Inl e, w')"
    using run by (simp add: doctor_command_eq take_path_option_def require_empty_def bindA_def lift_def)
  then consider "doctor_project ou cx engine None w = (Inl e, w')"
    | pd w1 where "doctor_checked ou cx m pd w1 = (Inl e, w')"
    unfolding bindA_eq_Inl by blast
  then show ?thesis
  proof cases
    case 1
    with doctor_project_answers[OF assms(1-3), of cx engine None] show ?thesis by simp
  next
    case (2 pd w1)
    then show ?thesis using doctor_checked_panics[of ou cx m pd] unfolding only_panics_def by (metis fst_conv)
  qed
qed

section \<open>The hook\<close>

lemma no_panics_engine_resolve: "no_panics (engine_resolve pr eg explicit)"
proof -
  have "no_panics (engine_new pr p)" "no_panics (followed pr p)" "no_panics (first_file pr ps)" for p ps
  proof -
    show "no_panics (followed pr p)"
      unfolding followed_def by (auto intro!: no_panics_steps split: sum.split)
    then show "no_panics (engine_new pr p)"
      unfolding engine_new_def Let_def
      by (auto intro!: no_panics_steps split: sum.split node.split simp: validate_absolute_path_def)
    show "no_panics (first_file pr ps)"
      by (induction ps) (auto simp: followed_def intro!: no_panics_steps split: sum.split)
  qed
  then show ?thesis
    unfolding engine_resolve_def find_on_path_def Let_def
    by (auto intro!: no_panics_steps split: option.split sum.split)
qed

lemma hook_answers: "\<exists>text_out w'. run_hook ou cx engine (''session-start'' # as) w = (Inr ([TextLine text_out], None), w')"
proof -
  have "never_fails (session_directory ou cx)"
    unfolding session_directory_def followed_def Let_def by (auto intro!: no_fail split: option.split sum.split)
  moreover have "never_fails (outcome (engine_resolve (ou_process ou) (ou_engine ou) engine))"
    by (rule never_fails_outcome[OF no_panics_engine_resolve])
  ultimately have all: "never_fails (bindA (session_directory ou cx) (\<lambda>cwd.
      bindA (outcome (engine_resolve (ou_process ou) (ou_engine ou) engine)) (\<lambda>resolved.
      bindA (session_start_output (cx_session cx) (ou_process ou) resolved
               \<lparr>so_profile = profile, so_cwd = cwd, so_retrieval = b\<rparr>) (\<lambda>text_out.
      (ret ([TextLine text_out], None) :: (manager_error, reply) act)))))" for profile b
    by (intro never_fails_steps never_fails_session_start)
  have yields: "yields (\<lambda>reply. \<exists>t. reply = ([TextLine t], None)) (run_hook ou cx engine (''session-start'' # as))"
    unfolding run_hook_def Let_def by (auto intro!: yields_after yields_ret split: prod.split)
  have calm: "never_fails (run_hook ou cx engine (''session-start'' # as))"
    unfolding run_hook_def Let_def by (cases "take_flag as ''--no-memories''") (simp add: all)
  obtain r w' where run: "run_hook ou cx engine (''session-start'' # as) w = (r, w')" by fastforce
  obtain reply where r: "r = Inr reply"
    using never_failsD[OF calm, of w] run by auto
  from yieldsD[OF yields run[unfolded r]] run r show ?thesis by auto
qed

end
