(* ===== verification/Demo_Cli.thy ===== *)
theory Demo_Cli
  imports Cli_Safety Cli_Reports Demo_Doctor
begin

text \<open>
  Two registered projects, of which the other one carries instructions, and a command line whose clock
  stands still, whose user answers nothing and whose child processes do not start.
\<close>

definition demo_other :: path where
  "demo_other = [RootDir, Normal ''q'']"

definition demo_cli_process :: process where
  "demo_cli_process =
     \<lparr>pr_var = (\<lambda>n. if n = ''KALEIDOSCOPE_CONFIG_HOME'' then Some ''/c'' else if n = ''HOME'' then Some ''/h'' else None),
      pr_cwd = Inr demo_project, pr_canonicalize = Inr\<rparr>"

definition demo_registered :: manager_config where
  "demo_registered =
     \<lparr>mc_version = 2, mc_active_profile = None, mc_account_bindings = [],
      mc_installed_projects = [demo_project, demo_other]\<rparr>"

definition demo_cli_outside :: outside where
  "demo_cli_outside =
     \<lparr>ou_process = demo_cli_process, ou_engine = demo_engine_ext,
      ou_config = \<lparr>cx_sha = demo_sha, cx_from_slice = (\<lambda>b. if b = ''C'' then Some demo_registered else None),
                   cx_to_vec_pretty = (\<lambda>_. ''D'')\<rparr>\<rparr>"

definition demo_session_start :: session_ext where
  "demo_session_start =
     \<lparr>sx_sha = demo_sha, sx_json = kx_json demo_kx, sx_to_string = (\<lambda>_. ''{}''), sx_clock = (\<lambda>_. 0),
      sx_child = (\<lambda>_ _ _ _ _. throw ''no''), sx_message = (\<lambda>_. [])\<rparr>"

definition demo_cli_ext :: cli_ext where
  "demo_cli_ext =
     \<lparr>cx_doctor = demo_dx, cx_answer = (\<lambda>_. Inr []), cx_uuid = (\<lambda>_. None), cx_uuid_text = (\<lambda>_. []),
      cx_version = ''1'', cx_account = (\<lambda>_. throw EngineNotFound), cx_stdin = None, cx_session = demo_session_start\<rparr>"

definition demo_engine :: path where
  "demo_engine = [RootDir, Normal ''e'']"

definition demo_two_projects :: world where
  "demo_two_projects = demo_machine
     [(demo_engine, File ''E'' 493), (demo_other, Directory 493), ([RootDir, Normal ''h''], Directory 493), ([RootDir, Normal ''c''], Directory 493),
      ([RootDir, Normal ''c'', Normal ''manager.json''], File ''C'' 384),
      (at demo_other (''AGENTS.md'' @ instr_receipt_suffix), File ''R'' 384)]"

lemma report_case:
  assumes "case x of (Inr ([Document report], failure), w') \<Rightarrow> P report failure w' | _ \<Rightarrow> False"
  shows "\<exists>report failure w'. x = (Inr ([Document report], failure), w') \<and> P report failure w'"
proof -
  obtain r w' where x: "x = (r, w')" by fastforce
  from assms obtain out failure where r: "r = Inr (out, failure)" by (cases r) (auto simp: x)
  from assms obtain p ps where out: "out = p # ps" by (cases out) (auto simp: x r)
  from assms obtain report where "p = Document report" by (cases p) (auto simp: x r out)
  moreover from this assms have "ps = []" by (cases ps) (auto simp: x r out)
  ultimately show ?thesis using assms by (auto simp: x r out)
qed

definition demo_teardown :: "bytes list" where
  "demo_teardown = [''--host'', ''codex'', ''--project'', ''/p'', ''--yes'']"

definition demo_run :: "bytes \<Rightarrow> bytes list \<Rightarrow> (manager_error + reply) \<times> world" where
  "demo_run command as = dispatch demo_cli_outside demo_cli_ext (Some demo_engine) command as demo_two_projects"

lemma demo_retains:
  "\<exists>report failure w'. run_teardown demo_cli_outside demo_cli_ext None demo_teardown demo_two_projects = (Inr ([Document report], failure), w') \<and>
     failure = None \<and> json_get report ''retained'' = Some (JArr [JStr ''connect'']) \<and>
     content w' [RootDir, Normal ''c'', Normal ''manager.json''] = Some (''D'' @ nl, 384)"
  by (rule report_case, code_simp)

lemma demo_dry_run:
  "\<exists>report failure w'. demo_run ''teardown'' (demo_teardown @ [''--dry-run'']) = (Inr ([Document report], failure), w') \<and>
     status_of report = Some (JStr ''dry_run'')"
  by (rule report_case, code_simp)

definition demo_instruct :: "bytes list" where
  "demo_instruct = [''install'', ''agents'', ''--project'', ''/p'']"

lemma demo_declines: "fst (demo_run ''instructions'' demo_instruct) = Inl Cancelled"
  by code_simp

lemma demo_cli_runs_keep: "state_preorder R \<Longrightarrow> runs_keep R C demo_cli_outside"
  unfolding runs_keep_def demo_cli_outside_def demo_engine_ext_def demo_engine_run_def
  by (auto intro: state_preorder.keeps_ret)

lemma demo_never_accepts: "never_accepts demo_cli_ext"
proof -
  have "\<not> accepted []" by code_simp
  then show ?thesis by (simp add: never_accepts_def demo_cli_ext_def)
qed

lemma demo_stays_out: "engine_stays_out demo_cli_outside" "others_stay_out demo_cli_ext"
  by (simp_all add: engine_stays_out_def demo_cli_runs_keep outside.state_preorder_axioms others_stay_out_def
      demo_cli_ext_def demo_session_start_def outside.keeps_throw)

section \<open>A server that answers\<close>

definition demo_listing_answer :: json where
  "demo_listing_answer =
     JObj [(''id'', JNum ''2''),
           (''result'', JObj [(''ttlMs'', JNum ''1''), (''cacheScope'', JStr ''public''),
              (''tools'', JArr [JObj [(''name'', JStr ''remember'')], JObj [(''name'', JStr ''search'')]])])]"

definition demo_serving :: session_ext where
  "demo_serving = demo_session_start
     \<lparr>sx_json := (sx_json demo_session_start)\<lparr>jx_value := \<lambda>b.
        if b = ''M'' then Some (JObj [(''mcpServers'', JObj [(''kaleidoscope'', JObj [(''command'', JStr ''/e'')])])])
        else if b = ''A'' then Some demo_listing_answer else None\<rparr>,
      sx_child := \<lambda>_ _ _ args _. ret \<lparr>ch_stdout = ''A'', ch_stderr = [], ch_drained = Some 1,
        ch_success = Some (args = []), ch_elapsed = 1\<rparr>\<rparr>"

definition demo_options :: session_options where
  "demo_options = \<lparr>so_profile = ''work'', so_cwd = demo_project, so_retrieval = True\<rparr>"

definition demo_registered_world :: world where
  "demo_registered_world = demo_machine
     [(demo_engine, File ''E'' 493), ([RootDir, Normal ''h''], Directory 493), (at demo_project ''.mcp.json'', File ''M'' 420)]"

lemma found_case:
  "(case x of (Inr fd, w') \<Rightarrow> P fd w' | _ \<Rightarrow> False) \<Longrightarrow> \<exists>fd w'. x = (Inr fd, w') \<and> P fd w'"
  by (auto split: prod.split_asm sum.split_asm)

lemma demo_reaches:
  "\<exists>fd w'. session_findings demo_serving demo_cli_process (Inl EngineNotFound) demo_options
      \<lparr>dl_started = 0, dl_end = total_time_budget\<rparr> demo_registered_world = (Inr fd :: manager_error + findings, w') \<and>
     tools_visible (fd_registration fd) (fd_probe fd)"
  by (rule found_case, code_simp)

section \<open>A printer\<close>

text \<open>Facts that are nothing but quotation marks, and a printer that escapes the text of the line.\<close>

definition demo_escape :: "bytes \<Rightarrow> bytes" where
  "demo_escape s = concat (map (\<lambda>c. replicate (escape_width c) c) s)"

definition demo_printer :: "json \<Rightarrow> bytes" where
  "demo_printer v =
     (case v of
        JObj [a, b] \<Rightarrow> replicate 2600 (CHR 0x22)
      | JObj [(k, JObj [a, (k', JStr s)])] \<Rightarrow> replicate 78 (CHR ''x'') @ demo_escape s
      | _ \<Rightarrow> [])"

definition demo_quotes :: json where
  "demo_quotes = JObj [([], JNull), ([], JNull)]"

lemma demo_printer_escapes: "escapes_strings demo_printer"
proof -
  have "length (demo_escape s) = escaped_length s" for s
    by (induction s) (simp_all add: demo_escape_def escaped_length_def)
  then show ?thesis by (simp add: escapes_strings_def wrap_hook_line_def demo_printer_def)
qed

lemma demo_quotes_text:
  "demo_printer demo_quotes = replicate 2600 (CHR 0x22)" "printable (demo_printer demo_quotes)"
  "doubled (replicate n (CHR 0x22)) = n"
  by (simp_all add: demo_printer_def demo_quotes_def printable_def list_all_iff doubled_def)

lemma demo_long_line: "length (encode_hook_line demo_printer (demo_printer demo_quotes) demo_quotes) = 5278"
proof -
  have q: "printable (replicate 2600 (CHR 0x22))" "doubled (replicate n (CHR 0x22)) = n" for n
    using demo_quotes_text by simp_all
  have "str_find (nl @ nl) (replicate n (CHR 0x22)) = None" for n
    by (induction n) simp_all
  then have p: "first_paragraph (replicate 2600 (CHR 0x22)) = replicate 2600 (CHR 0x22)"
    by (simp only: first_paragraph_def option.case)
  have c: "clip (replicate 2600 (CHR 0x22)) max_context_bytes = replicate 2600 (CHR 0x22)"
    by (simp only: clip_def max_context_bytes_def length_replicate order_refl if_True)
  have "length (wrap_hook_line demo_printer (replicate 2600 (CHR 0x22))) = 78 + (2600 + 2600)"
    using demo_printer_escapes escaped_length_printable[OF q(1)] q(2)[of 2600]
    by (simp only: escapes_strings_def length_replicate)
  then show ?thesis
    by (simp only: encode_hook_line_def clip_context_def demo_quotes_text(1) p c Let_def) (simp add: max_hook_output_bytes_def)
qed

end
