(* ===== verification/Cli_Properties.thy ===== *)
theory Cli_Properties
  imports Demo_Cli
begin

text \<open>Properties of the command line and of the session-start hook.\<close>

lemma command_cases:
  assumes "command \<in> {''init'', ''teardown'', ''connect'', ''disconnect'', ''instructions''}"
  obtains "command = ''init''" | "command = ''teardown''" | "command = ''connect''" | "command = ''disconnect''"
    | "command = ''instructions''"
  using assms by blast

lemma dispatched:
  "dispatch ou cx engine ''instructions'' as = run_instructions ou cx engine as"
  "dispatch ou cx engine ''init'' as = bindA (manager_resolve ou engine) (\<lambda>m. run_init ou cx m engine as)"
  "dispatch ou cx engine ''connect'' as = bindA (manager_resolve ou engine) (\<lambda>m. run_connection ou cx m engine True as)"
  "dispatch ou cx engine ''disconnect'' as = bindA (manager_resolve ou engine) (\<lambda>m. run_connection ou cx m engine False as)"
  "dispatch ou cx engine ''teardown'' as = bindA (manager_resolve ou engine) (\<lambda>m. run_teardown ou cx engine as)"
  by (simp_all add: dispatch_def manager_command_def)

section \<open>What the commands write\<close>

text \<open>C6. Anywhere among the arguments, \<^verbatim>\<open>--dry-run\<close> means that nothing is written: where the engine's read-only
  commands leave the tree alone, \<^verbatim>\<open>init\<close>, \<^verbatim>\<open>teardown\<close>, \<^verbatim>\<open>connect\<close>, \<^verbatim>\<open>disconnect\<close> and \<^verbatim>\<open>instructions\<close> leave every file
  as it was, whatever the other arguments and whatever fails. That includes the command lines on which the word
  ends up as the value of another option: those are refused before anything is written.
\<close>

theorem dry_run_commands_write_nothing:
  assumes "runs_keep files_same lookup_command ou"
    and "command \<in> {''init'', ''teardown'', ''connect'', ''disconnect'', ''instructions''}" and "''--dry-run'' \<in> set as"
    and "dispatch ou cx engine command as w = (r, w')"
  shows "files w' = files w"
proof -
  note dry = dry_init[OF assms(1,3)] dry_teardown[OF assms(1,3)] dry_connection[OF assms(1,3)] dry_instructions[OF assms(1,3)]
  have "keeps files_same (dispatch ou cx engine command as)"
    using assms(2) by (rule command_cases) (simp_all add: dispatched dry nothing.keeps_bindA nothing.keeps_manager_resolve)
  from keepsD[OF this assms(4)] show ?thesis by (simp add: files_same_def)
qed

theorem dry_run_commands_write_nothing_witness:
  "\<exists>report failure w'. demo_run ''teardown'' (demo_teardown @ [''--dry-run'']) = (Inr ([Document report], failure), w') \<and>
     status_of report = Some (JStr ''dry_run'') \<and> files w' = files demo_two_projects"
proof -
  obtain report failure w' where run: "demo_run ''teardown'' (demo_teardown @ [''--dry-run'']) = (Inr ([Document report], failure), w')"
    and status: "status_of report = Some (JStr ''dry_run'')"
    using demo_dry_run by blast
  have "files w' = files demo_two_projects"
    using run unfolding demo_run_def
    by (rule dry_run_commands_write_nothing[OF demo_cli_runs_keep[OF nothing.state_preorder_axioms], rotated 2]) simp_all
  with run status show ?thesis by blast
qed

text \<open>C7. Without \<^verbatim>\<open>--yes\<close> and without a yes at the prompt, \<^verbatim>\<open>connect\<close>, \<^verbatim>\<open>disconnect\<close> and \<^verbatim>\<open>instructions\<close> write nothing.
\<close>

theorem unconfirmed_commands_write_nothing:
  assumes "runs_keep files_same lookup_command ou" and "never_accepts cx" and "''--yes'' \<notin> set as"
    and "command \<in> {''connect'', ''disconnect'', ''instructions''}" and "dispatch ou cx engine command as w = (r, w')"
  shows "files w' = files w"
proof -
  have "command \<in> {''init'', ''teardown'', ''connect'', ''disconnect'', ''instructions''}" using assms(4) by blast
  then have "keeps files_same (dispatch ou cx engine command as)"
    by (rule command_cases)
      (use assms(4) in \<open>simp_all add: dispatched declined_connection[OF assms(1-3)] declined_instructions[OF assms(1-3)]
        nothing.keeps_bindA nothing.keeps_manager_resolve\<close>)
  from keepsD[OF this assms(5)] show ?thesis by (simp add: files_same_def)
qed

theorem unconfirmed_commands_write_nothing_witness:
  "fst (demo_run ''instructions'' demo_instruct) = Inl Cancelled \<and>
   files (snd (demo_run ''instructions'' demo_instruct)) = files demo_two_projects"
proof
  show "fst (demo_run ''instructions'' demo_instruct) = Inl Cancelled" by (rule demo_declines)
  show "files (snd (demo_run ''instructions'' demo_instruct)) = files demo_two_projects"
    unfolding demo_run_def
    by (rule unconfirmed_commands_write_nothing[OF demo_cli_runs_keep[OF nothing.state_preorder_axioms]
          demo_never_accepts _ _ prod.collapse[symmetric]]) (simp_all add: demo_instruct_def)
qed



text \<open>C5. A teardown that reports something as retained has left every host's configuration and Claude Code's settings,
  with the receipts and backups beside them, as they were: only instruction files and the manager's own
  configuration can have changed.
\<close>

theorem teardown_keeps_shared_wiring:
  assumes "runs_keep (untouched (family retained_names)) lookup_command ou"
    and "run_teardown ou cx engine as w = (Inr ([Document report], failure), w')"
    and "json_get report ''retained'' \<noteq> Some (JArr [])"
    and "p \<in> family host_names \<union> family settings_names"
  shows "content w' p = content w p"
  using retaining_teardown[OF assms(1-3)] retained_apart[OF assms(4)] by (simp add: untouched_def)

theorem teardown_keeps_shared_wiring_witness:
  "\<exists>report w'. run_teardown demo_cli_outside demo_cli_ext None demo_teardown demo_two_projects = (Inr ([Document report], None), w') \<and>
     content w' [RootDir, Normal ''c'', Normal ''manager.json''] \<noteq>
       content demo_two_projects [RootDir, Normal ''c'', Normal ''manager.json''] \<and>
     content w' [RootDir, Normal ''h'', Normal ''.codex'', Normal ''config.toml''] =
       content demo_two_projects [RootDir, Normal ''h'', Normal ''.codex'', Normal ''config.toml'']"
proof -
  obtain report w' where run: "run_teardown demo_cli_outside demo_cli_ext None demo_teardown demo_two_projects =
      (Inr ([Document report], None), w')"
    and kept: "json_get report ''retained'' = Some (JArr [JStr ''connect''])"
    and saved: "content w' [RootDir, Normal ''c'', Normal ''manager.json''] = Some (''D'' @ nl, 384)"
    using demo_retains by blast
  have "[RootDir, Normal ''h'', Normal ''.codex'', Normal ''config.toml''] \<in> family host_names"
    by (simp add: family_iff file_name_def host_names_def)
  with teardown_keeps_shared_wiring[OF demo_cli_runs_keep[OF outside.state_preorder_axioms] run]
  have "content w' [RootDir, Normal ''h'', Normal ''.codex'', Normal ''config.toml''] =
      content demo_two_projects [RootDir, Normal ''h'', Normal ''.codex'', Normal ''config.toml'']"
    using kept by simp
  moreover have "content demo_two_projects [RootDir, Normal ''c'', Normal ''manager.json''] = Some (''C'', 384)"
    by (simp add: content_def demo_two_projects_def demo_lookup demo_project_def demo_other_def demo_engine_def)
  ultimately show ?thesis using run saved by auto
qed

section \<open>What the commands say\<close>

text \<open>C10. \<^verbatim>\<open>init\<close> and \<^verbatim>\<open>teardown\<close> that print a report print just that, and end with an error exactly when a step of the report
  says \<^verbatim>\<open>issue\<close>: no failure is hidden behind a clean exit, and none is invented.
\<close>

theorem report_tells_the_failure:
  assumes "run_init ou cx m engine as w = (Inr (out, failure), w') \<or> run_teardown ou cx engine as w = (Inr (out, failure), w')"
  shows "\<exists>report. out = [Document report] \<and>
    (process_exit (Inr (out, failure)) = 0 \<longleftrightarrow> \<not> says_issue (steps_of report))"
proof -
  obtain report where report: "out = [Document report]" "failure \<noteq> None \<longleftrightarrow> says_issue (steps_of report)"
    using assms run_init_told run_teardown_told by meson
  moreover have "process_exit (Inr (out, failure)) = 0 \<longleftrightarrow> failure = None"
    by (cases failure) (simp_all add: process_exit_def exit_code_cases)
  ultimately show ?thesis by auto
qed

theorem report_tells_the_failure_witness:
  "\<exists>report w'. run_teardown demo_cli_outside demo_cli_ext None demo_teardown demo_two_projects = (Inr ([Document report], None), w') \<and>
     \<not> says_issue (steps_of report)"
proof -
  obtain report w' where run: "run_teardown demo_cli_outside demo_cli_ext None demo_teardown demo_two_projects =
      (Inr ([Document report], None), w')"
    using demo_retains by blast
  with report_tells_the_failure[OF disjI2[OF run]] show ?thesis by (auto simp: process_exit_def)
qed

text \<open>C11. \<^verbatim>\<open>doctor\<close> answers: on a machine whose calls do not fail and whose working directory is a directory it ends, and
  unless something panics it prints a report, with exit code 3 and the verdict \<open>issues\<close> when a check says
  \<^verbatim>\<open>issue\<close>, and 0 and \<open>ready\<close> otherwise. An engine that is missing or refuses, a project that cannot be resolved,
  a configuration that cannot be read end up in the report.
\<close>

theorem doctor_answers_and_agrees:
  assumes "calm w" and "runs_keep same_calm lookup_command ou" and "fst (project_root (ou_process ou) None w) = Inr d"
  shows "\<exists>r w'. doctor_command ou cx m engine [] w = (r, w') \<and>
    ((\<exists>s. r = Inl (Panicked s)) \<or>
     (\<exists>report. r = Inr ([Document report], snd (projr r)) \<and>
        process_exit r = (if says_issue (checks_of report) then 3 else 0) \<and>
        status_of report = Some (JStr (if says_issue (checks_of report) then ''issues'' else ''ready''))))"
proof -
  obtain r w' where run: "doctor_command ou cx m engine [] w = (r, w')" by fastforce
  show ?thesis
  proof (cases r)
    case (Inr reply)
    then have "agrees reply" using yieldsD[OF doctor_command_agrees] run by blast
    then show ?thesis using run Inr by (cases reply) (auto simp: agrees_def)
  next
    case (Inl e)
    with doctor_fails_by_panic[OF assms] run show ?thesis by auto
  qed
qed

theorem doctor_answers_and_agrees_witness:
  "process_exit (fst (doctor_command demo_cli_outside demo_cli_ext demo_the_manager None [] demo_two_projects)) \<in> {0, 3, 101}"
proof -
  have "fst (project_root (ou_process demo_cli_outside) None demo_two_projects) = Inr demo_project" by code_simp
  moreover have "calm demo_two_projects" by (simp add: demo_two_projects_def demo_calm)
  ultimately obtain r w' where "doctor_command demo_cli_outside demo_cli_ext demo_the_manager None [] demo_two_projects = (r, w')"
    and "(\<exists>s. r = Inl (Panicked s)) \<or> process_exit r \<in> {0, 3}"
    using doctor_answers_and_agrees[OF _ demo_cli_runs_keep[OF quiet.state_preorder_axioms]] by (metis insertCI)
  then show ?thesis by (auto simp: process_exit_def)
qed

section \<open>The session-start hook\<close>

text \<open>C12. \<^verbatim>\<open>hook session-start\<close> always prints one line and exits with 0: whatever its arguments and its input, whether there
  is an engine or not, whatever the programs it runs do, and whichever calls fail.
\<close>

theorem hook_always_answers:
  "\<exists>line w'. dispatch ou cx engine ''hook'' (''session-start'' # as) w = (Inr ([TextLine line], None), w') \<and>
     process_exit (Inr ([TextLine line], None)) = 0"
  using hook_answers[of ou cx engine as w] by (simp add: dispatch_def process_exit_def)

text \<open>C13. The hook says that the tools are reachable only of a server it has spoken to: the command the host's own
  configuration registers for the session's project, run with its arguments within the probe's time, answered
  with a tool list that names both tools and keeps the client's contract.
\<close>

theorem reachability_is_probed:
  assumes "session_findings sx pr engine so dl w = (Inr fd, w')" and "tools_visible (fd_registration fd) (fd_probe fd)"
  shows "\<exists>r out protocol server tools t. fd_registration fd = Some r \<and> probed sx pr r out \<and>
    answer_of sx out = Answered protocol server tools None t \<and> {''remember'', ''search''} \<subseteq> set tools"
proof -
  obtain r out where r: "fd_registration fd = Some r" "probed sx pr r out" "fd_probe fd = answer_of sx out"
    using yieldsD[OF findings_honest assms(1)] assms(2) by (auto simp: honest_def)
  with assms(2) have "tools_visible (Some r) (answer_of sx out)" by simp
  then obtain protocol server tools t where "answer_of sx out = Answered protocol server tools None t"
    and "{''remember'', ''search''} \<subseteq> set tools"
    by (cases "answer_of sx out") (auto simp: tools_visible_def publishes_both_def hook_public_tools_def split: option.splits)
  with r show ?thesis by metis
qed

theorem reachability_is_probed_witness:
  "\<exists>r out. probed demo_serving demo_cli_process r out"
proof -
  obtain fd w' where "session_findings demo_serving demo_cli_process (Inl EngineNotFound) demo_options
      \<lparr>dl_started = 0, dl_end = total_time_budget\<rparr> demo_registered_world = (Inr fd :: manager_error + findings, w')"
    and "tools_visible (fd_registration fd) (fd_probe fd)"
    using demo_reaches by blast
  from reachability_is_probed[OF this] show ?thesis by blast
qed

text \<open>C14. The hook's line keeps its budget of 4096 bytes as long as the machine-readable facts do not hold more than 1418
  quotation marks and backslashes, which the JSON of the line doubles; it never exceeds 5278 bytes.
\<close>

theorem hook_line_is_bounded:
  assumes "escapes_strings to_string" and "printable (to_string facts)"
  shows "length (encode_hook_line to_string shown facts) \<le> 5278 \<and>
    (doubled (to_string facts) \<le> 1418 \<longrightarrow> length (encode_hook_line to_string shown facts) \<le> max_hook_output_bytes)"
  using encode_hook_line_length[OF assms, of shown] by (auto simp: max_hook_output_bytes_def max_context_bytes_def)

text \<open>The bound is reached, beyond the budget.\<close>

theorem hook_line_is_bounded_witness:
  "length (encode_hook_line demo_printer (demo_printer demo_quotes) demo_quotes) = 5278 \<and> max_hook_output_bytes < 5278 \<and>
   length (encode_hook_line demo_printer [] demo_quotes) \<le> 5278"
  using hook_line_is_bounded[OF demo_printer_escapes demo_quotes_text(2), of "[]"] demo_long_line
  by (simp add: max_hook_output_bytes_def)

end
